(* ===== verification/Prelude.thy ===== *)
theory Prelude
  imports Complex_Main "HOL-Library.AList" "HOL-Library.Char_ord" "HOL-Library.List_Lexorder"
    "HOL-Library.Product_Lexorder"
begin

section \<open>Shared types, lemmas and contracts\<close>

text \<open>
  What every component uses: Python dictionaries as association lists in insertion order,
  strings as their UTF-8 encodings, JSON values, the result type of a fallible operation, and
  the contracts (locales) that several components share.

  \<^item> A dictionary is a list of key/value pairs with distinct keys. \<open>AList.update\<close> is
    Python's \<open>d[k] = v\<close>: it replaces the value of a present key at its place and appends a
    new key at the end, so iteration order is Python's insertion order.
  \<^item> A Python \<open>str\<close> is the list of the bytes of its UTF-8 encoding. Python orders strings by
    code points, which is the byte order of UTF-8.
  \<^item> An exception is the left summand of \<open>'e + 'a\<close>.
\<close>

named_theorems dict_simps \<open>lookups after updates of a dictionary\<close>

subsection \<open>Dictionaries\<close>

declare map_of_eq_Some_iff [simp del]

type_synonym ('k, 'v) dict = "('k \<times> 'v) list"

abbreviation dget :: "('k, 'v) dict \<Rightarrow> 'k \<Rightarrow> 'v option" where
  "dget d k \<equiv> map_of d k"

abbreviation dset :: "'k \<Rightarrow> 'v \<Rightarrow> ('k, 'v) dict \<Rightarrow> ('k, 'v) dict" where
  "dset k v d \<equiv> AList.update k v d"

abbreviation ddel :: "'k \<Rightarrow> ('k, 'v) dict \<Rightarrow> ('k, 'v) dict" where
  "ddel k d \<equiv> AList.delete k d"

abbreviation keys :: "('k, 'v) dict \<Rightarrow> 'k list" where
  "keys d \<equiv> map fst d"

abbreviation dict_wf :: "('k, 'v) dict \<Rightarrow> bool" where
  "dict_wf d \<equiv> distinct (keys d)"

text \<open>\<open>d.get(k, v)\<close>\<close>

definition dget_default :: "('k, 'v) dict \<Rightarrow> 'k \<Rightarrow> 'v \<Rightarrow> 'v" where
  "dget_default d k v = (case dget d k of None \<Rightarrow> v | Some w \<Rightarrow> w)"

lemma dget_dset [dict_simps]: "dget (dset k v d) k' = (if k' = k then Some v else dget d k')"
  by (simp add: update_conv')

lemma dget_ddel [dict_simps]: "dget (ddel k d) k' = (if k' = k then None else dget d k')"
  by (simp add: delete_conv')

lemma dget_default_dset [dict_simps]:
  "dget_default (dset k v d) k' w = (if k' = k then v else dget_default d k' w)"
  by (simp add: dget_default_def dget_dset)

lemma dict_wf_dset [simp]: "dict_wf d \<Longrightarrow> dict_wf (dset k v d)"
  by (rule distinct_update)

lemma dict_wf_ddel [simp]: "dict_wf d \<Longrightarrow> dict_wf (ddel k d)"
  by (rule distinct_delete)

lemma keys_dset [simp]: "fst ` set (dset k v d) = insert k (fst ` set d)"
  by (induction d) auto

lemma keys_ddel [simp]: "fst ` set (ddel k d) = fst ` set d - {k}"
  by (simp add: delete_keys del: set_map flip: set_map)

lemma set_keys_dset: "set (keys (dset k v d)) = insert k (set (keys d))"
  by simp

lemma dget_None_iff: "dget d k = None \<longleftrightarrow> k \<notin> set (keys d)"
  by (simp add: map_of_eq_None_iff)

lemma dget_Some_in_keys: "dget d k = Some v \<Longrightarrow> k \<in> set (keys d)"
  using dget_None_iff [of d k] by auto

lemma in_keys_dget: "k \<in> set (keys d) \<Longrightarrow> \<exists>v. dget d k = Some v"
  using dget_None_iff [of d k] by auto

lemma dget_in_set: "dict_wf d \<Longrightarrow> (k, v) \<in> set d \<longleftrightarrow> dget d k = Some v"
  by (simp add: map_of_eq_Some_iff)

lemma keys_dset_new: "k \<notin> set (keys d) \<Longrightarrow> keys (dset k v d) = keys d @ [k]"
  by (induction d) auto

lemma keys_dset_old: "k \<in> set (keys d) \<Longrightarrow> keys (dset k v d) = keys d"
  by (induction d) auto

lemma dset_new: "k \<notin> fst ` set d \<Longrightarrow> dset k v d = d @ [(k, v)]"
  by (induction d) auto

text \<open>\<open>{**d, **e}\<close>\<close>

definition dmerge :: "('k, 'v) dict \<Rightarrow> ('k, 'v) dict \<Rightarrow> ('k, 'v) dict" where
  "dmerge d e = foldl (\<lambda>d (k, v). dset k v d) d e"

lemma dget_dmerge:
  "dict_wf e \<Longrightarrow> dget (dmerge d e) k = (case dget e k of None \<Rightarrow> dget d k | Some v \<Rightarrow> Some v)"
proof (induction e arbitrary: d)
  case Nil
  then show ?case by (simp add: dmerge_def)
next
  case (Cons p e)
  obtain a b where p: "p = (a, b)" by force
  have "dget e a = None" using Cons.prems p by (simp add: dget_None_iff)
  moreover have "dget (dmerge d (p # e)) k = dget (dmerge (dset a b d) e) k"
    by (simp add: dmerge_def p)
  ultimately show ?case using Cons.IH [of "dset a b d"] Cons.prems p
    by (auto simp: dget_dset split: option.splits)
qed

subsection \<open>Lists\<close>

lemma distinct_map_filter_key:
  assumes "\<And>x y. g x = g y \<Longrightarrow> f x = f y"
  shows "distinct (map f xs) \<Longrightarrow> distinct (map g (filter P xs))"
proof (induction xs)
  case Nil
  then show ?case by simp
next
  case (Cons x xs)
  have "g x \<notin> g ` set (filter P xs)"
  proof
    assume "g x \<in> g ` set (filter P xs)"
    then obtain y where y: "y \<in> set xs" "g x = g y" by auto
    from assms [OF y(2)] y(1) Cons.prems show False by auto
  qed
  with Cons show ?case by simp
qed

text \<open>Sorting by a key that is distinct on a list depends on the list's set only.\<close>

lemma sort_key_cong:
  assumes "distinct (map f xs)" "distinct (map f ys)" "set xs = set ys"
  shows "sort_key f xs = sort_key f ys"
proof -
  have d: "distinct (map f (sort_key f zs))" if "distinct (map f zs)" for zs
    using that by (simp add: distinct_map)
  have inj: "inj_on f (set xs)" using assms(1) by (simp add: distinct_map)
  show ?thesis
    by (rule map_sorted_distinct_set_unique [where f = f])
      (use inj assms(3) d [OF assms(1)] d [OF assms(2)] in \<open>simp_all only: set_sort Un_absorb sorted_sort_key\<close>)
qed

lemma find_SomeD: "find P xs = Some x \<Longrightarrow> x \<in> set xs \<and> P x"
  by (induction xs) (auto split: if_splits)

definition find_last :: "('a \<Rightarrow> bool) \<Rightarrow> 'a list \<Rightarrow> 'a option" where
  "find_last P xs = find P (rev xs)"

text \<open>\<open>collections.deque(maxlen=n)\<close>: an append past the bound drops from the left.\<close>

definition deque_append :: "nat \<Rightarrow> 'a list \<Rightarrow> 'a \<Rightarrow> 'a list" where
  "deque_append n xs x = drop (Suc (length xs) - n) (xs @ [x])"

lemma length_deque_append: "length (deque_append n xs x) = min n (Suc (length xs))"
  by (simp add: deque_append_def)

end
