(* ===== verification/Json.thy ===== *)
theory Json
  imports Prelude
begin

section \<open>JSON values, canonical encoding and digests\<close>

text \<open>
  JSON values as the program passes them, \<open>json.dumps(..., sort_keys=True,
  ensure_ascii=False)\<close> with either pair of separators, and the content-addressing functions
  of \<open>orchestra/core/ids.py\<close>.

  The digest primitives of the platform are a record of functions that every definition using
  them takes as an argument: \<open>sha256_hex\<close> (\<open>hashlib.sha256(..).hexdigest()\<close>) and
  \<open>hmac_sha256\<close> (the bytes of \<open>hmac.new(key, msg, sha256).digest()\<close>), and three printers:
  \<open>float_repr\<close> (the text Python prints for a float), \<open>fixed3\<close> (\<open>f'{x:.3f}'\<close>) and
  \<open>iso_text\<close> (the ISO-8601 text of an instant in milliseconds). Theorems hold for every choice
  of them; where a theorem needs more, it says which inputs would have to collide.

  A JSON float is kept as the text Python prints for it.
\<close>

datatype json =
    JNull
  | JBool bool
  | JInt int
  | JFloat string
  | JStr string
  | JList "json list"
  | JObj "(string \<times> json) list"

record platform =
  sha256_hex :: "string \<Rightarrow> string"
  hmac_sha256 :: "string \<Rightarrow> string \<Rightarrow> string"
  float_repr :: "rat \<Rightarrow> string"
  fixed3 :: "rat \<Rightarrow> string"
  iso_text :: "int \<Rightarrow> string"

subsection \<open>Number and string literals\<close>

definition digit_char :: "nat \<Rightarrow> char" where
  "digit_char d = char_of (48 + d)"

fun digits_of :: "nat \<Rightarrow> string" where
  "digits_of n = (if n < 10 then [digit_char n] else digits_of (n div 10) @ [digit_char (n mod 10)])"

declare digits_of.simps [simp del]

definition string_of_int :: "int \<Rightarrow> string" where
  "string_of_int i = (if i < 0 then CHR ''-'' # digits_of (nat (- i)) else digits_of (nat i))"

definition hex_char :: "nat \<Rightarrow> char" where
  "hex_char d = (if d < 10 then char_of (48 + d) else char_of (87 + d))"

text \<open>
  The escapes \<open>json\<close> writes: the quote, the backslash, the five named control characters and
  \<open>\u00XX\<close> for the other characters below the space.
\<close>

definition escape_char :: "char \<Rightarrow> string" where
  "escape_char c =
     (let n = of_char c :: nat in
      if n = 34 then [char_of (92::nat), c]
      else if n = 92 then [c, c]
      else if n = 10 then [char_of (92::nat), CHR ''n'']
      else if n = 13 then [char_of (92::nat), CHR ''r'']
      else if n = 9 then [char_of (92::nat), CHR ''t'']
      else if n = 12 then [char_of (92::nat), CHR ''f'']
      else if n = 8 then [char_of (92::nat), CHR ''b'']
      else if n < 32 then
        [char_of (92::nat), CHR ''u'', CHR ''0'', CHR ''0'', hex_char (n div 16), hex_char (n mod 16)]
      else [c])"

definition quote_string :: "string \<Rightarrow> string" where
  "quote_string s = [CHR 0x22] @ concat (map escape_char s) @ [CHR 0x22]"

subsection \<open>The encoder\<close>

fun intersperse_concat :: "string \<Rightarrow> string list \<Rightarrow> string" where
  "intersperse_concat sep [] = []"
| "intersperse_concat sep [x] = x"
| "intersperse_concat sep (x # y # ys) = x @ sep @ intersperse_concat sep (y # ys)"

text \<open>
  \<open>dumps item_sep key_sep v\<close>: \<open>(',', ':')\<close> is the compact form, \<open>(', ', ': ')\<close> the
  default. Keys of an object are written in the order of the strings.
\<close>

primrec dumps :: "string \<Rightarrow> string \<Rightarrow> json \<Rightarrow> string" where
  "dumps isep ksep JNull = ''null''"
| "dumps isep ksep (JBool b) = (if b then ''true'' else ''false'')"
| "dumps isep ksep (JInt i) = string_of_int i"
| "dumps isep ksep (JFloat s) = s"
| "dumps isep ksep (JStr s) = quote_string s"
| "dumps isep ksep (JList xs) = ''['' @ intersperse_concat isep (map (dumps isep ksep) xs) @ '']''"
| "dumps isep ksep (JObj kvs) =
     ''{'' @
     intersperse_concat isep
       (map (\<lambda>p. quote_string (fst p) @ ksep @ snd p)
         (sort_key fst (map (map_prod id (dumps isep ksep)) kvs))) @
     ''}''"

definition canonical_json :: "json \<Rightarrow> string" where
  "canonical_json v = dumps '','' '':'' v"

definition default_json :: "json \<Rightarrow> string" where
  "default_json v = dumps '', '' '': '' v"

subsection \<open>Digests and content-addressed ids\<close>

definition digest_bytes :: "platform \<Rightarrow> string \<Rightarrow> string" where
  "digest_bytes pf b = sha256_hex pf b"

definition digest_json :: "platform \<Rightarrow> json \<Rightarrow> string" where
  "digest_json pf v = digest_bytes pf (canonical_json v)"

definition content_addressed_id :: "platform \<Rightarrow> string \<Rightarrow> json \<Rightarrow> string" where
  "content_addressed_id pf kind v = kind @ '':'' @ take 12 (digest_json pf v)"

subsection \<open>Object access\<close>

text \<open>\<open>d.get(k)\<close> on an object, and the truth value Python gives a JSON value.\<close>

fun jget :: "json \<Rightarrow> string \<Rightarrow> json option" where
  "jget (JObj kvs) k = dget kvs k"
| "jget _ k = None"

fun is_obj :: "json \<Rightarrow> bool" where
  "is_obj (JObj _) = True"
| "is_obj _ = False"

fun truthy :: "json \<Rightarrow> bool" where
  "truthy JNull = False"
| "truthy (JBool b) = b"
| "truthy (JInt i) = (i \<noteq> 0)"
| "truthy (JFloat s) = (s \<noteq> ''0.0'' \<and> s \<noteq> ''-0.0'')"
| "truthy (JStr s) = (s \<noteq> [])"
| "truthy (JList xs) = (xs \<noteq> [])"
| "truthy (JObj kvs) = (kvs \<noteq> [])"

subsection \<open>Facts\<close>

text \<open>Key order does not reach the encoding: a dictionary and a permutation of it dump alike.\<close>

lemma dumps_object_order:
  assumes "dict_wf xs" and "set xs = set ys" and "dict_wf ys"
  shows "dumps isep ksep (JObj xs) = dumps isep ksep (JObj ys)"
proof -
  let ?f = "map (map_prod id (dumps isep ksep))"
  have keys: "map fst (?f zs) = map fst zs" for zs :: "(string \<times> json) list"
    by (induction zs) auto
  have "sort_key fst (?f xs) = sort_key fst (?f ys)"
    by (rule sort_key_cong) (use assms keys in \<open>simp_all add: keys\<close>)
  then show ?thesis by simp
qed

lemma digest_json_object_order:
  "dict_wf xs \<Longrightarrow> set xs = set ys \<Longrightarrow> dict_wf ys \<Longrightarrow>
   digest_json pf (JObj xs) = digest_json pf (JObj ys)"
  using dumps_object_order [of xs ys "'',''" "'':''"]
  by (simp only: digest_json_def canonical_json_def)

text \<open>A platform to evaluate examples with.\<close>

definition ex_platform :: platform where
  "ex_platform = \<lparr>sha256_hex = id, hmac_sha256 = (\<lambda>k m. k @ ''|'' @ m),
     float_repr = (\<lambda>_. ''0.0''), fixed3 = (\<lambda>_. ''0.000''), iso_text = string_of_int\<rparr>"

end
