(* ===== verification/Merkle.thy ===== *)
theory Merkle
  imports Json
begin

section \<open>The Merkle log over event ids\<close>

text \<open>
  \<open>orchestra/evidence/merkle.py\<close>: the append-only log, its root, the inclusion proof of a
  leaf and the offline verifier. A layer with an odd number of hashes pairs its last hash with
  itself. The two hash shapes are \<open>_h(x)\<close> for a leaf and \<open>_h(l, r)\<close>, which joins its parts
  with a bar, for an inner node.
\<close>

definition h1 :: "platform \<Rightarrow> string \<Rightarrow> string" where
  "h1 pf x = sha256_hex pf x"

definition h2 :: "platform \<Rightarrow> string \<Rightarrow> string \<Rightarrow> string" where
  "h2 pf l r = sha256_hex pf (l @ ''|'' @ r)"

datatype merkle_error = MerkleIndexError int

datatype position = L | R

record merkle_proof =
  leaf_index :: int
  leaf_hash :: string
  siblings :: "string list"
  positions :: "position list"
  proof_root :: string

type_synonym merkle_log = "string list"

subsection \<open>Layers and the root\<close>

fun next_layer :: "platform \<Rightarrow> string list \<Rightarrow> string list" where
  "next_layer pf [] = []"
| "next_layer pf [x] = [h2 pf x x]"
| "next_layer pf (x # y # xs) = h2 pf x y # next_layer pf xs"

lemma length_next_layer: "length (next_layer pf xs) = (length xs + 1) div 2"
  by (induction pf xs rule: next_layer.induct) auto

function root_loop :: "platform \<Rightarrow> string list \<Rightarrow> string" where
  "root_loop pf layer =
     (if length layer > 1 then root_loop pf (next_layer pf layer) else hd layer)"
  by pat_completeness auto
termination
  by (relation "measure (\<lambda>(pf, layer). length layer)") (auto simp: length_next_layer)

declare root_loop.simps [simp del]

definition compute_root :: "platform \<Rightarrow> string list \<Rightarrow> string" where
  "compute_root pf leaves = (if leaves = [] then h1 pf [] else root_loop pf leaves)"

definition log_root :: "platform \<Rightarrow> merkle_log \<Rightarrow> string" where
  "log_root pf lg = compute_root pf lg"

definition log_append :: "platform \<Rightarrow> merkle_log \<Rightarrow> string \<Rightarrow> merkle_log \<times> string" where
  "log_append pf lg event_id = (let lg' = lg @ [h1 pf event_id] in (lg', log_root pf lg'))"

text \<open>The log after appending a sequence of event ids to an empty one.\<close>

definition log_of :: "platform \<Rightarrow> string list \<Rightarrow> merkle_log" where
  "log_of pf es = foldl (\<lambda>lg e. fst (log_append pf lg e)) [] es"

subsection \<open>Proofs\<close>

text \<open>
  \<open>idx ^ 1\<close> is the index of the other member of the pair. The sibling lies to the left exactly
  when \<open>idx\<close> is odd; past the end of the layer it is the last hash itself.
\<close>

definition sibling_index :: "nat \<Rightarrow> nat" where
  "sibling_index idx = (if even idx then idx + 1 else idx - 1)"

definition sibling_of :: "string list \<Rightarrow> nat \<Rightarrow> string" where
  "sibling_of layer idx =
     (if sibling_index idx \<ge> length layer then last layer else layer ! sibling_index idx)"

definition position_of :: "nat \<Rightarrow> position" where
  "position_of idx = (if sibling_index idx < idx then L else R)"

function proof_path :: "platform \<Rightarrow> string list \<Rightarrow> nat \<Rightarrow> (string \<times> position) list" where
  "proof_path pf layer idx =
     (if length layer > 1
      then (sibling_of layer idx, position_of idx) # proof_path pf (next_layer pf layer) (idx div 2)
      else [])"
  by pat_completeness auto
termination
  by (relation "measure (\<lambda>(pf, layer, idx). length layer)") (auto simp: length_next_layer)

declare proof_path.simps [simp del]

definition inclusion_proof :: "platform \<Rightarrow> merkle_log \<Rightarrow> int \<Rightarrow> merkle_error + merkle_proof" where
  "inclusion_proof pf lg i =
     (if \<not> (0 \<le> i \<and> i < int (length lg)) then Inl (MerkleIndexError i)
      else let path = proof_path pf lg (nat i) in
        Inr \<lparr>leaf_index = i, leaf_hash = lg ! nat i, siblings = map fst path,
             positions = map snd path, proof_root = log_root pf lg\<rparr>)"

definition verify_step :: "platform \<Rightarrow> string \<Rightarrow> string \<times> position \<Rightarrow> string" where
  "verify_step pf current sp =
     (case snd sp of L \<Rightarrow> h2 pf (fst sp) current | R \<Rightarrow> h2 pf current (fst sp))"

definition verify_inclusion_proof :: "platform \<Rightarrow> merkle_proof \<Rightarrow> bool" where
  "verify_inclusion_proof pf p =
     (foldl (verify_step pf) (leaf_hash p) (zip (siblings p) (positions p)) = proof_root p)"

subsection \<open>One layer up\<close>

lemma next_layer_nth:
  "idx < length layer \<Longrightarrow>
   next_layer pf layer ! (idx div 2) =
     (if even idx then h2 pf (layer ! idx) (sibling_of layer idx)
      else h2 pf (sibling_of layer idx) (layer ! idx))"
proof (induction pf layer arbitrary: idx rule: next_layer.induct)
  case (1 pf)
  then show ?case by simp
next
  case (2 pf x)
  then show ?case by (simp add: sibling_of_def sibling_index_def)
next
  case (3 pf x y xs)
  show ?case
  proof (cases "idx < 2")
    case True
    then have "idx = 0 \<or> idx = 1" by auto
    then show ?thesis by (auto simp: sibling_of_def sibling_index_def)
  next
    case False
    then obtain k where idx: "idx = Suc (Suc k)" by (metis add_2_eq_Suc le_Suc_ex not_less)
    with 3 have k: "k < length xs" by simp
    have sib: "sibling_of (x # y # xs) idx = sibling_of xs k"
      using k by (cases "even k") (auto simp: idx sibling_of_def sibling_index_def nth_Cons'
          elim!: oddE)
    from "3.IH" [OF k] sib idx show ?thesis by simp
  qed
qed

lemma next_layer_index: "idx < length layer \<Longrightarrow> idx div 2 < length (next_layer pf layer)"
  by (auto simp: length_next_layer)

lemma verify_step_up:
  assumes "idx < length layer"
  shows "verify_step pf (layer ! idx) (sibling_of layer idx, position_of idx) =
    next_layer pf layer ! (idx div 2)"
  using next_layer_nth [OF assms, of pf]
  by (auto simp: verify_step_def position_of_def sibling_index_def elim!: oddE)

lemma path_climbs:
  "idx < length layer \<Longrightarrow>
   foldl (verify_step pf) (layer ! idx) (proof_path pf layer idx) = root_loop pf layer"
proof (induction pf layer idx rule: proof_path.induct)
  case (1 pf layer idx)
  show ?case
  proof (cases "length layer > 1")
    case True
    with 1 have "foldl (verify_step pf) (next_layer pf layer ! (idx div 2))
        (proof_path pf (next_layer pf layer) (idx div 2)) = root_loop pf (next_layer pf layer)"
      by (simp add: next_layer_index)
    with True 1 show ?thesis
      by (simp add: proof_path.simps [of pf layer] root_loop.simps [of pf layer] verify_step_up)
  next
    case False
    with 1 obtain x where "layer = [x]" by (cases layer) auto
    with 1 show ?thesis by (simp add: proof_path.simps root_loop.simps)
  qed
qed

lemma log_of_snoc: "log_of pf (es @ [e]) = log_of pf es @ [h1 pf e]"
  by (simp add: log_of_def log_append_def Let_def)

lemma log_of_map: "log_of pf es = map (h1 pf) es"
proof (induction es rule: rev_induct)
  case Nil
  then show ?case by (simp add: log_of_def)
next
  case (snoc e es)
  then show ?case by (simp add: log_of_snoc)
qed

subsection \<open>What a verified proof binds\<close>

text \<open>
  The strings the verifier hashes on its way up, and the strings the log hashed on the path of
  a leaf. Two of them at the same height that differ and hash alike are an explicit collision.
\<close>

fun step_input :: "string \<Rightarrow> string \<times> position \<Rightarrow> string" where
  "step_input c (s, L) = s @ ''|'' @ c"
| "step_input c (s, R) = c @ ''|'' @ s"

fun hashed_on_path :: "platform \<Rightarrow> string \<Rightarrow> (string \<times> position) list \<Rightarrow> string list" where
  "hashed_on_path pf c [] = []"
| "hashed_on_path pf c (sp # path) = step_input c sp # hashed_on_path pf (verify_step pf c sp) path"

definition collides :: "platform \<Rightarrow> string list \<Rightarrow> string list \<Rightarrow> bool" where
  "collides pf xs ys \<longleftrightarrow> (\<exists>(x, y) \<in> set (zip xs ys). x \<noteq> y \<and> sha256_hex pf x = sha256_hex pf y)"

text \<open>A hexadecimal digest contains no bar.\<close>

definition hex_digests :: "platform \<Rightarrow> bool" where
  "hex_digests pf \<longleftrightarrow> (\<forall>x. CHR ''|'' \<notin> set (sha256_hex pf x))"

lemma verify_step_input: "verify_step pf c sp = sha256_hex pf (step_input c sp)"
  by (cases "(c, sp)" rule: step_input.cases) (simp_all add: verify_step_def h2_def)

lemma bar_split:
  assumes "a @ x # b = c @ x # d" and "x \<notin> set a" and "x \<notin> set b"
  shows "a = c \<and> b = d"
  using assms by (auto simp: append_eq_append_conv2 Cons_eq_append_conv append_eq_Cons_conv)

lemma step_input_inject:
  assumes "step_input c (s, p) = step_input d (t, p)"
    and "CHR ''|'' \<notin> set d" and "CHR ''|'' \<notin> set t"
  shows "c = d"
  using assms bar_split [of t "CHR ''|''" d s c] bar_split [of d "CHR ''|''" t c s]
  by (cases p) (auto dest: sym)

lemma hex_digests_layer:
  "hex_digests pf \<Longrightarrow> x \<in> set (next_layer pf layer) \<Longrightarrow> CHR ''|'' \<notin> set x"
  by (induction pf layer rule: next_layer.induct) (auto simp: hex_digests_def h2_def)

lemma sibling_in_layer: "idx < length layer \<Longrightarrow> 1 < length layer \<Longrightarrow> sibling_of layer idx \<in> set layer"
  by (auto simp: sibling_of_def intro!: last_in_set)

lemma path_binds:
  assumes "hex_digests pf" and "idx < length layer"
    and "\<forall>x \<in> set layer. CHR ''|'' \<notin> set x"
    and "map snd path = map snd (proof_path pf layer idx)"
    and "foldl (verify_step pf) c path = root_loop pf layer"
    and "\<not> collides pf (hashed_on_path pf c path)
                (hashed_on_path pf (layer ! idx) (proof_path pf layer idx))"
  shows "c = layer ! idx"
  using assms
proof (induction pf layer idx arbitrary: c path rule: proof_path.induct)
  case (1 pf layer idx)
  show ?case
  proof (cases "length layer > 1")
    case True
    let ?sp = "(sibling_of layer idx, position_of idx)"
    let ?up = "next_layer pf layer ! (idx div 2)"
    have unfold: "proof_path pf layer idx = ?sp # proof_path pf (next_layer pf layer) (idx div 2)"
      using True by (simp add: proof_path.simps [of pf layer])
    from "1.prems"(4) unfold obtain s rest where
      path: "path = (s, position_of idx) # rest" and
      rest: "map snd rest = map snd (proof_path pf (next_layer pf layer) (idx div 2))"
      by (cases path) auto
    have up: "verify_step pf (layer ! idx) ?sp = ?up" using "1.prems"(2) by (rule verify_step_up)
    have clean: "\<not> collides pf (hashed_on_path pf (verify_step pf c (s, position_of idx)) rest)
        (hashed_on_path pf ?up (proof_path pf (next_layer pf layer) (idx div 2)))"
      and here: "step_input c (s, position_of idx) = step_input (layer ! idx) ?sp \<or>
        verify_step pf c (s, position_of idx) \<noteq> ?up"
      using "1.prems"(6) unfolding path unfold up [symmetric]
      by (auto simp: collides_def verify_step_input)
    have root: "foldl (verify_step pf) (verify_step pf c (s, position_of idx)) rest =
        root_loop pf (next_layer pf layer)"
      using "1.prems"(5) True by (simp add: path root_loop.simps [of pf layer])
    have "verify_step pf c (s, position_of idx) = ?up"
      using "1.IH" [OF True, where path = rest and c = "verify_step pf c (s, position_of idx)"]
        next_layer_index [OF "1.prems"(2)] "1.prems"(1) hex_digests_layer [OF "1.prems"(1)] rest root clean
      by blast
    with here have "step_input c (s, position_of idx) = step_input (layer ! idx) ?sp" by simp
    then show ?thesis
      by (rule step_input_inject)
        (use "1.prems"(2,3) True sibling_in_layer [OF "1.prems"(2)] in \<open>auto\<close>)
  next
    case False
    with "1.prems"(2) obtain x where "layer = [x]" by (cases layer) auto
    with "1.prems" show ?thesis by (simp add: proof_path.simps root_loop.simps)
  qed
qed

subsection \<open>Properties\<close>

lemma root_loop_pair: "root_loop pf [x, y] = h2 pf x y"
  by (simp add: root_loop.simps)

text \<open>
  C25. Every inclusion proof the log produces verifies: for any index in range, whatever the
  digest function and however odd the layers on the way up.
\<close>

theorem inclusion_proof_verifies:
  assumes "0 \<le> i" and "i < int (length lg)"
  shows "\<exists>p. inclusion_proof pf lg i = Inr p \<and> verify_inclusion_proof pf p \<and>
    leaf_hash p = lg ! nat i \<and> proof_root p = log_root pf lg"
proof -
  from assms have idx: "nat i < length lg" by linarith
  then have "foldl (verify_step pf) (lg ! nat i) (proof_path pf lg (nat i)) = root_loop pf lg"
    by (rule path_climbs)
  moreover have "lg \<noteq> []" using idx by auto
  ultimately show ?thesis using assms
    by (simp add: inclusion_proof_def Let_def verify_inclusion_proof_def zip_map_fst_snd
        log_root_def compute_root_def)
qed

lemma inclusion_proof_verifies_witness:
  "\<exists>p. inclusion_proof (ex_platform\<lparr>sha256_hex := rev\<rparr>) [''a'', ''b'', ''c''] 2 = Inr p \<and>
     verify_inclusion_proof (ex_platform\<lparr>sha256_hex := rev\<rparr>) p"
  using inclusion_proof_verifies [of 2 "[''a'', ''b'', ''c'']" "ex_platform\<lparr>sha256_hex := rev\<rparr>"]
  by auto


definition unbar :: platform where
  "unbar = ex_platform\<lparr>sha256_hex := filter (\<lambda>c. c \<noteq> CHR ''|'')\<rparr>"


text \<open>
  The log does not separate leaves from inner nodes, nor a repeated tail from a padded one:
  for every digest function there are logs of different events with the same root.
\<close>

theorem distinct_logs_share_root:
  "log_root pf (log_of pf [a, b]) = log_root pf (log_of pf [h1 pf a @ ''|'' @ h1 pf b]) \<and>
   log_root pf (log_of pf [a, b, c]) = log_root pf (log_of pf [a, b, c, c])"
  by (simp add: log_of_map log_root_def compute_root_def root_loop.simps h2_def)
    (simp add: h1_def)

end
