(* ===== verification/Labels.thy ===== *)
theory Labels
  imports Prelude
begin

section \<open>Security labels\<close>

text \<open>
  \<open>SecurityLabel\<close> of \<open>orchestra/core/schema.py\<close> with its flow check, and the label join of
  \<open>orchestra/compiler/info_flow.py\<close>. The two rank tables of the checker are instances of one
  contract, \<open>ranked_join\<close>: the rank of a join is the larger rank. The information-flow
  checker's accumulation loop is analysed once, inside that contract.
\<close>

subsection \<open>The tiers\<close>

datatype data_classification = DC_PUBLIC | DC_PARTNER | DC_INTERNAL | DC_RESTRICTED

datatype source_trust = ST_SYNTHETIC | ST_PUBLIC | ST_PARTNER | ST_INTERNAL | ST_RESTRICTED

fun classification_value :: "data_classification \<Rightarrow> string" where
  "classification_value DC_PUBLIC = ''public''"
| "classification_value DC_PARTNER = ''partner''"
| "classification_value DC_INTERNAL = ''internal''"
| "classification_value DC_RESTRICTED = ''restricted''"

fun class_order :: "data_classification \<Rightarrow> nat" where
  "class_order DC_PUBLIC = 0"
| "class_order DC_PARTNER = 1"
| "class_order DC_INTERNAL = 2"
| "class_order DC_RESTRICTED = 3"

fun trust_order :: "source_trust \<Rightarrow> nat" where
  "trust_order ST_SYNTHETIC = 0"
| "trust_order ST_PUBLIC = 1"
| "trust_order ST_PARTNER = 2"
| "trust_order ST_INTERNAL = 3"
| "trust_order ST_RESTRICTED = 4"

lemma class_order_inject [simp]: "class_order a = class_order b \<longleftrightarrow> a = b"
  by (cases a; cases b) simp_all

lemma trust_order_inject [simp]: "trust_order a = trust_order b \<longleftrightarrow> a = b"
  by (cases a; cases b) simp_all

lemma class_order_le_3: "class_order a \<le> 3"
  by (cases a) simp_all

lemma class_order_0 [simp]: "class_order a = 0 \<longleftrightarrow> a = DC_PUBLIC"
  by (cases a) simp_all

lemma classification_value_inject [simp]:
  "classification_value a = classification_value b \<longleftrightarrow> a = b"
  by (cases a; cases b) simp_all

text \<open>The tiers are linearly ordered by their rank, so that the library's order applies.\<close>

instantiation data_classification :: linorder
begin

definition less_eq_data_classification :: "data_classification \<Rightarrow> data_classification \<Rightarrow> bool" where
  "a \<le> b \<longleftrightarrow> class_order a \<le> class_order b"

definition less_data_classification :: "data_classification \<Rightarrow> data_classification \<Rightarrow> bool" where
  "a < b \<longleftrightarrow> class_order a < class_order b"

instance
  by standard (auto simp: less_eq_data_classification_def less_data_classification_def)

end

instantiation source_trust :: linorder
begin

definition less_eq_source_trust :: "source_trust \<Rightarrow> source_trust \<Rightarrow> bool" where
  "a \<le> b \<longleftrightarrow> trust_order a \<le> trust_order b"

definition less_source_trust :: "source_trust \<Rightarrow> source_trust \<Rightarrow> bool" where
  "a < b \<longleftrightarrow> trust_order a < trust_order b"

instance
  by standard (auto simp: less_eq_source_trust_def less_source_trust_def)

end

lemmas tier_le_defs =
  less_eq_data_classification_def less_data_classification_def
  less_eq_source_trust_def less_source_trust_def

subsection \<open>The label, the flow check and the join\<close>

record security_label =
  classification :: data_classification
  residency :: string
  source_trust :: source_trust
  retention_days :: nat
  owner :: string

text \<open>The field defaults of the model class.\<close>

definition default_owner :: string where
  "default_owner = ''tenant:root''"

definition local_residency :: string where
  "local_residency = ''local''"

definition can_flow_to :: "security_label \<Rightarrow> security_label \<Rightarrow> bool" where
  "can_flow_to self other =
     (if class_order (classification self) > class_order (classification other) then False
      else if residency self = local_residency \<or> residency other = local_residency then True
      else residency self = residency other)"

text \<open>
  The join constructs a fresh label and does not pass an owner: the field takes its default.
\<close>

definition join :: "security_label \<Rightarrow> security_label \<Rightarrow> security_label" where
  "join a b = \<lparr>
     classification =
       (if class_order (classification a) \<ge> class_order (classification b)
        then classification a else classification b),
     residency =
       (if residency a = local_residency \<or> residency b = local_residency then local_residency
        else if residency a = residency b then residency a else local_residency),
     source_trust =
       (if trust_order (source_trust a) \<ge> trust_order (source_trust b)
        then source_trust a else source_trust b),
     retention_days = min (retention_days a) (retention_days b),
     owner = default_owner\<rparr>"

lemma join_sel [simp]:
  "classification (join a b) = max (classification a) (classification b)"
  "source_trust (join a b) = max (source_trust a) (source_trust b)"
  "retention_days (join a b) = min (retention_days a) (retention_days b)"
  "owner (join a b) = default_owner"
  by (auto simp: join_def max_def tier_le_defs)

lemma join_residency:
  "residency (join a b) =
     (if residency a = residency b then residency a else local_residency)"
  by (simp add: join_def)

lemma can_flow_to_iff:
  "can_flow_to a b \<longleftrightarrow>
     classification a \<le> classification b \<and>
     (residency a = local_residency \<or> residency b = local_residency \<or> residency a = residency b)"
  by (auto simp: can_flow_to_def tier_le_defs)

subsection \<open>The contract of a rank under the join\<close>

text \<open>
  The checker folds \<open>join\<close> over the labels of a node's inputs. What it relies on is one law
  per rank table: the rank of a join is the larger of the two ranks.
\<close>

locale ranked_join =
  fixes rank :: "'l \<Rightarrow> 'r::linorder" and jn :: "'l \<Rightarrow> 'l \<Rightarrow> 'l"
  assumes rank_jn: "rank (jn a b) = max (rank a) (rank b)"
begin

lemma rank_foldl_ge_acc: "rank a \<le> rank (foldl jn a ls)"
proof (induction ls arbitrary: a)
  case Nil
  then show ?case by simp
next
  case (Cons l ls)
  have "rank a \<le> rank (jn a l)" by (simp add: rank_jn)
  also have "\<dots> \<le> rank (foldl jn (jn a l) ls)" by (rule Cons.IH)
  finally show ?case by simp
qed

lemma rank_foldl_ge: "l \<in> set (a # ls) \<Longrightarrow> rank l \<le> rank (foldl jn a ls)"
proof (induction ls arbitrary: a)
  case Nil
  then show ?case by simp
next
  case (Cons x ls)
  have head: "rank a \<le> rank (jn a x)" "rank x \<le> rank (jn a x)" by (simp_all add: rank_jn)
  show ?case
  proof (cases "l \<in> set ls")
    case True
    with Cons.IH [of "jn a x"] show ?thesis by simp
  next
    case False
    with Cons.prems have "l = a \<or> l = x" by auto
    with head have "rank l \<le> rank (jn a x)" by auto
    with rank_foldl_ge_acc [of "jn a x" ls] show ?thesis by auto
  qed
qed

lemma rank_foldl_attained: "\<exists>l \<in> set (a # ls). rank (foldl jn a ls) = rank l"
proof (induction ls arbitrary: a)
  case Nil
  then show ?case by simp
next
  case (Cons x ls)
  from Cons.IH obtain l where l: "l \<in> set (jn a x # ls)" "rank (foldl jn (jn a x) ls) = rank l"
    by blast
  show ?case
  proof (cases "l = jn a x")
    case True
    then have "rank l = rank a \<or> rank l = rank x" by (auto simp: rank_jn max_def)
    with l show ?thesis by auto
  next
    case False
    with l show ?thesis by auto
  qed
qed

lemma rank_foldl_le: "(\<And>l. l \<in> set (a # ls) \<Longrightarrow> rank l \<le> r) \<Longrightarrow> rank (foldl jn a ls) \<le> r"
  using rank_foldl_attained [of a ls] by auto

end

interpretation classif: ranked_join classification join
  by unfold_locales simp

interpretation trust: ranked_join source_trust join
  by unfold_locales simp

subsection \<open>Properties\<close>

lemma can_flow_to_refl: "can_flow_to a a"
  by (simp add: can_flow_to_iff)

lemma join_commute: "join a b = join b a"
  by (rule security_label.equality) (auto simp: max.commute min.commute join_residency)

lemma join_assoc_ranks:
  "classification (join (join a b) c) = classification (join a (join b c))"
  "source_trust (join (join a b) c) = source_trust (join a (join b c))"
  by (simp_all add: max.assoc)

lemma join_idem_iff: "join l l = l \<longleftrightarrow> owner l = default_owner"
proof
  assume "join l l = l"
  then have "owner (join l l) = owner l" by simp
  then show "owner l = default_owner" by simp
next
  assume "owner l = default_owner"
  then show "join l l = l"
    by (intro security_label.equality) (simp_all add: join_residency)
qed

end
