(* ===== verification/Schema.thy ===== *)
theory Schema
  imports Json Labels
begin

section \<open>The frozen vocabulary\<close>

text \<open>
  The types of \<open>orchestra/core/schema.py\<close> the compiler, the registry and the coordinator
  share: effects, purposes, data views, capability manifests, templates, contracts, plans and
  routing decisions. Field names carry a prefix for their class where two classes share one.

  Dollar amounts are Python floats in the source. The model computes with them exactly, as
  rationals; double rounding is not modelled. Texts assembled for a human (a rationale, an
  error message) are the data they are assembled from.
\<close>

subsection \<open>Effects, purposes, views\<close>

datatype effect_kind = EK_READ | EK_WRITE | EK_DELETE | EK_PAYMENT | EK_PUBLISH | EK_NOTIFY

fun effect_value :: "effect_kind \<Rightarrow> string" where
  "effect_value EK_READ = ''read''"
| "effect_value EK_WRITE = ''write''"
| "effect_value EK_DELETE = ''delete''"
| "effect_value EK_PAYMENT = ''payment''"
| "effect_value EK_PUBLISH = ''publish''"
| "effect_value EK_NOTIFY = ''notify''"

record effect =
  eff_kind :: effect_kind
  eff_target :: "string option"

record purpose =
  code :: string
  purpose_description :: string

datatype view_shape = ShapeReference | ShapeFields

record data_view =
  dv_name :: string
  dv_shape :: view_shape
  dv_fields :: "string list"
  dv_source :: "string option"

subsection \<open>Capabilities\<close>

datatype capability_kind = CK_LOCAL_MODEL | CK_PUBLIC_MODEL | CK_A2A_AGENT | CK_TOOL | CK_HUMAN | CK_SINK

fun kind_value :: "capability_kind \<Rightarrow> string" where
  "kind_value CK_LOCAL_MODEL = ''local-model''"
| "kind_value CK_PUBLIC_MODEL = ''public-model''"
| "kind_value CK_A2A_AGENT = ''a2a-agent''"
| "kind_value CK_TOOL = ''tool''"
| "kind_value CK_HUMAN = ''human''"
| "kind_value CK_SINK = ''sink''"

lemma kind_value_inject [simp]: "kind_value a = kind_value b \<longleftrightarrow> a = b"
  by (cases a; cases b) simp_all

lemma effect_value_inject [simp]: "effect_value a = effect_value b \<longleftrightarrow> a = b"
  by (cases a; cases b) simp_all

datatype integration_level = IL_ENFORCE | IL_RECOMMEND | IL_OBSERVE

fun integration_value :: "integration_level \<Rightarrow> string" where
  "integration_value IL_ENFORCE = ''enforce''"
| "integration_value IL_RECOMMEND = ''recommend''"
| "integration_value IL_OBSERVE = ''observe''"

record capability_manifest =
  cm_capability_id :: string
  cm_name :: string
  cm_kind :: capability_kind
  cm_version :: string
  cm_description :: string
  cm_endpoint :: string
  cm_integration_level :: integration_level
  cm_accepts_labels :: "security_label list"
  cm_produces_labels :: "security_label list"
  cm_declared_effects :: "effect list"
  cm_supports_idempotency :: bool
  cm_supports_cancel :: bool
  cm_supports_status_query :: bool
  cm_cost_estimate_usd :: rat
  cm_p50_latency_ms :: nat
  cm_p95_latency_ms :: nat
  cm_tags :: "(string, string) dict"
  cm_egress_view_name :: "string option"

text \<open>\<open>model_dump(mode='json')\<close> of the classes a manifest is made of.\<close>

definition opt_str :: "string option \<Rightarrow> json" where
  "opt_str x = (case x of None \<Rightarrow> JNull | Some s \<Rightarrow> JStr s)"

fun trust_value :: "source_trust \<Rightarrow> string" where
  "trust_value ST_SYNTHETIC = ''synthetic''"
| "trust_value ST_PUBLIC = ''public''"
| "trust_value ST_PARTNER = ''partner''"
| "trust_value ST_INTERNAL = ''internal''"
| "trust_value ST_RESTRICTED = ''restricted''"

definition label_to_json :: "security_label \<Rightarrow> json" where
  "label_to_json l = JObj
     [(''classification'', JStr (classification_value (classification l))),
      (''residency'', JStr (residency l)),
      (''source_trust'', JStr (trust_value (source_trust l))),
      (''retention_days'', JInt (int (retention_days l))),
      (''owner'', JStr (owner l))]"

definition effect_to_json :: "effect \<Rightarrow> json" where
  "effect_to_json e = JObj
     [(''kind'', JStr (effect_value (eff_kind e))), (''target'', opt_str (eff_target e))]"

definition manifest_to_json :: "platform \<Rightarrow> capability_manifest \<Rightarrow> json" where
  "manifest_to_json pf m = JObj
     [(''capability_id'', JStr (cm_capability_id m)),
      (''name'', JStr (cm_name m)),
      (''kind'', JStr (kind_value (cm_kind m))),
      (''version'', JStr (cm_version m)),
      (''description'', JStr (cm_description m)),
      (''endpoint'', JStr (cm_endpoint m)),
      (''integration_level'', JStr (integration_value (cm_integration_level m))),
      (''accepts_labels'', JList (map label_to_json (cm_accepts_labels m))),
      (''produces_labels'', JList (map label_to_json (cm_produces_labels m))),
      (''declared_effects'', JList (map effect_to_json (cm_declared_effects m))),
      (''supports_idempotency'', JBool (cm_supports_idempotency m)),
      (''supports_cancel'', JBool (cm_supports_cancel m)),
      (''supports_status_query'', JBool (cm_supports_status_query m)),
      (''cost_estimate_usd'', JFloat (float_repr pf (cm_cost_estimate_usd m))),
      (''p50_latency_ms'', JInt (int (cm_p50_latency_ms m))),
      (''p95_latency_ms'', JInt (int (cm_p95_latency_ms m))),
      (''tags'', JObj (map (map_prod id JStr) (cm_tags m))),
      (''egress_view_name'', opt_str (cm_egress_view_name m))]"

definition manifest_id :: "platform \<Rightarrow> capability_manifest \<Rightarrow> string" where
  "manifest_id pf m = content_addressed_id pf ''manifest'' (manifest_to_json pf m)"

subsection \<open>Templates and contracts\<close>

record node_spec =
  ns_node_id :: string
  ns_name :: string
  ns_requires_purpose :: purpose
  ns_requires_views :: "data_view list"
  ns_eligible_capability_kinds :: "capability_kind list"
  ns_declared_effects :: "effect list"
  ns_requires_approval :: bool
  ns_fallback_capability_id :: "string option"
  ns_timeout_ms :: int

record edge_spec =
  es_from_node :: string
  es_to_node :: string
  es_when :: string

record task_template =
  tt_template_id :: string
  tt_name :: string
  tt_description :: string
  tt_version :: string
  tt_nodes :: "node_spec list"
  tt_edges :: "edge_spec list"
  tt_required_purposes :: "purpose list"
  tt_max_runtime_ms :: int

datatype key_error = KeyError string

definition template_node :: "task_template \<Rightarrow> string \<Rightarrow> key_error + node_spec" where
  "template_node t nid =
     (case find (\<lambda>n. ns_node_id n = nid) (tt_nodes t) of
        None \<Rightarrow> Inl (KeyError nid) | Some n \<Rightarrow> Inr n)"

record task_contract =
  tc_contract_id :: string
  tc_template_id :: string
  tc_submitted_by :: string
  tc_inputs :: "data_view list"
  tc_purpose :: purpose
  tc_requested_outputs :: "string list"
  tc_budget_usd :: rat
  tc_region :: string

subsection \<open>Plans and routing decisions\<close>

datatype rationale =
    Picked string string rat string            \<comment> \<open>capability, reason, score, rule\<close>
  | UsedFallback string "string option"        \<comment> \<open>capability, last reason\<close>
  | RoutingFailed string                       \<comment> \<open>reason\<close>

record routing_decision =
  rd_node_id :: string
  rd_chosen_capability_id :: string
  rd_chosen_manifest_id :: string
  rd_eligible_set :: "string list"
  rd_rejected :: "(string, string) dict"
  rd_rationale :: rationale
  rd_decided_at :: int

record plan_node =
  pn_node_id :: string
  pn_capability_id :: string
  pn_manifest_id :: string
  pn_purpose :: purpose
  pn_input_views :: "data_view list"
  pn_expected_outputs :: "string list"
  pn_timeout_ms :: int
  pn_fallback_capability_id :: "string option"
  pn_requires_approval :: bool
  pn_status :: string

record execution_plan =
  ep_plan_id :: string
  ep_contract_id :: string
  ep_template_id :: string
  ep_template_version :: string
  ep_nodes :: "plan_node list"
  ep_edges :: "edge_spec list"
  ep_routing :: "routing_decision list"
  ep_created_at :: int
  ep_signed_by :: string
  ep_signature :: "string option"

text \<open>The texts of a rationale, and \<open>model_dump(mode='json')\<close> of a plan.\<close>

fun rationale_text :: "platform \<Rightarrow> rationale \<Rightarrow> string" where
  "rationale_text pf (Picked cid reason score rule) =
     ''picked '' @ cid @ '': '' @ reason @ '' (score='' @ fixed3 pf score @ '', rule='' @ rule @ '')''"
| "rationale_text pf (UsedFallback cid reason) =
     ''all primary candidates denied; using pre-approved fallback '' @ cid @ ''. last reason: '' @
     (case reason of None \<Rightarrow> ''n/a'' | Some r \<Rightarrow> r)"
| "rationale_text pf (RoutingFailed reason) = ''routing failed: '' @ reason"

definition str_list :: "string list \<Rightarrow> json" where
  "str_list xs = JList (map JStr xs)"

fun shape_value :: "view_shape \<Rightarrow> string" where
  "shape_value ShapeReference = ''reference''"
| "shape_value ShapeFields = ''fields''"

definition view_to_json :: "data_view \<Rightarrow> json" where
  "view_to_json v = JObj
     [(''name'', JStr (dv_name v)), (''shape'', JStr (shape_value (dv_shape v))),
      (''fields'', str_list (dv_fields v)), (''source'', opt_str (dv_source v))]"

definition purpose_to_json :: "purpose \<Rightarrow> json" where
  "purpose_to_json p = JObj
     [(''code'', JStr (code p)), (''description'', JStr (purpose_description p))]"

definition routing_to_json :: "platform \<Rightarrow> routing_decision \<Rightarrow> json" where
  "routing_to_json pf d = JObj
     [(''node_id'', JStr (rd_node_id d)),
      (''chosen_capability_id'', JStr (rd_chosen_capability_id d)),
      (''chosen_manifest_id'', JStr (rd_chosen_manifest_id d)),
      (''eligible_set'', str_list (rd_eligible_set d)),
      (''rejected'', JObj (map (map_prod id JStr) (rd_rejected d))),
      (''rationale'', JStr (rationale_text pf (rd_rationale d))),
      (''decided_at'', JStr (iso_text pf (rd_decided_at d)))]"

definition plan_node_to_json :: "plan_node \<Rightarrow> json" where
  "plan_node_to_json n = JObj
     [(''node_id'', JStr (pn_node_id n)),
      (''capability_id'', JStr (pn_capability_id n)),
      (''manifest_id'', JStr (pn_manifest_id n)),
      (''purpose'', purpose_to_json (pn_purpose n)),
      (''input_views'', JList (map view_to_json (pn_input_views n))),
      (''expected_outputs'', str_list (pn_expected_outputs n)),
      (''timeout_ms'', JInt (pn_timeout_ms n)),
      (''fallback_capability_id'', opt_str (pn_fallback_capability_id n)),
      (''requires_approval'', JBool (pn_requires_approval n)),
      (''status'', JStr (pn_status n))]"

definition plan_edge_to_json :: "edge_spec \<Rightarrow> json" where
  "plan_edge_to_json e = JObj
     [(''from_node'', JStr (es_from_node e)), (''to_node'', JStr (es_to_node e)),
      (''when'', JStr (es_when e))]"

definition plan_to_json :: "platform \<Rightarrow> execution_plan \<Rightarrow> (string \<times> json) list" where
  "plan_to_json pf p =
     [(''plan_id'', JStr (ep_plan_id p)),
      (''contract_id'', JStr (ep_contract_id p)),
      (''template_id'', JStr (ep_template_id p)),
      (''template_version'', JStr (ep_template_version p)),
      (''nodes'', JList (map plan_node_to_json (ep_nodes p))),
      (''edges'', JList (map plan_edge_to_json (ep_edges p))),
      (''routing'', JList (map (routing_to_json pf) (ep_routing p))),
      (''created_at'', JStr (iso_text pf (ep_created_at p))),
      (''signed_by'', JStr (ep_signed_by p)),
      (''signature'', opt_str (ep_signature p))]"

definition plan_digest :: "platform \<Rightarrow> execution_plan \<Rightarrow> string" where
  "plan_digest pf p = digest_json pf (JObj (ddel ''signature'' (plan_to_json pf p)))"

definition plan_id_content :: "platform \<Rightarrow> execution_plan \<Rightarrow> string" where
  "plan_id_content pf p = ''plan:'' @
     take 12 (digest_json pf (JObj (ddel ''plan_id'' (ddel ''signature'' (plan_to_json pf p)))))"

end
