(* ===== verification/Graph.thy ===== *)
theory Graph
  imports Schema
begin

section \<open>Parsing and normalising a template graph\<close>

text \<open>
  \<open>orchestra/compiler/parser.py\<close> and \<open>orchestra/compiler/normalizer.py\<close>: the candidate graph
  built from a template and a contract, its topological order (Kahn's algorithm, the same code
  in both files), and the normalised graph. The effect and capability kinds a candidate node
  keeps as strings are the enumeration constants they are the values of.
\<close>

subsection \<open>Candidate graphs\<close>

record candidate_node =
  cn_node_id :: string
  cn_name :: string
  cn_purpose_code :: string
  cn_requires_purpose :: string
  cn_requires_views :: "data_view list"
  cn_eligible_capability_kinds :: "capability_kind list"
  cn_declared_effect_kinds :: "effect_kind list"
  cn_requires_approval :: bool
  cn_fallback_capability_id :: "string option"
  cn_timeout_ms :: int

record candidate_edge =
  ce_from_node :: string
  ce_to_node :: string
  ce_when :: string

record candidate_graph =
  cg_template_id :: string
  cg_template_version :: string
  cg_nodes :: "(string, candidate_node) dict"
  cg_edges :: "candidate_edge list"
  cg_inputs :: "data_view list"
  cg_purpose :: string

subsection \<open>Kahn's algorithm\<close>

text \<open>\<open>for e in self.edges: indeg[e.to_node] += 1\<close>\<close>

fun count_indeg :: "candidate_edge list \<Rightarrow> (string \<Rightarrow> int) \<Rightarrow> string \<Rightarrow> int" where
  "count_indeg [] indeg = indeg"
| "count_indeg (e # es) indeg = count_indeg es (indeg(ce_to_node e := indeg (ce_to_node e) + 1))"

text \<open>The inner loop: relax the edges that leave \<open>u\<close>.\<close>

fun relax :: "string \<Rightarrow> candidate_edge list \<Rightarrow> (string \<Rightarrow> int) \<Rightarrow> string list \<Rightarrow>
    (string \<Rightarrow> int) \<times> string list" where
  "relax u [] indeg q = (indeg, q)"
| "relax u (e # es) indeg q =
     (if ce_from_node e = u
      then let indeg' = indeg(ce_to_node e := indeg (ce_to_node e) - 1)
           in if indeg' (ce_to_node e) = 0
              then relax u es indeg' (q @ [ce_to_node e])
              else relax u es indeg' q
      else relax u es indeg q)"

text \<open>What the loop uses up: the queue and the positive in-degrees of the edge targets.\<close>

definition kahn_measure :: "candidate_edge list \<Rightarrow> (string \<Rightarrow> int) \<Rightarrow> string list \<Rightarrow> nat" where
  "kahn_measure E indeg q = length q + (\<Sum>v \<in> set (map ce_to_node E). nat (indeg v))"

lemma kahn_measure_relax:
  "set es \<subseteq> set E \<Longrightarrow> relax u es indeg q = (indeg', q') \<Longrightarrow>
   kahn_measure E indeg' q' \<le> kahn_measure E indeg q"
proof (induction u es indeg q rule: relax.induct)
  case (1 u indeg q)
  then show ?case by simp
next
  case (2 u e es indeg q)
  let ?w = "ce_to_node e" and ?V = "set (map ce_to_node E)"
  let ?d = "indeg(?w := indeg ?w - 1)"
  have w: "?w \<in> ?V" using "2.prems"(1) by auto
  have split: "(\<Sum>v \<in> ?V. nat (f v)) = nat (f ?w) + (\<Sum>v \<in> ?V - {?w}. nat (f v))" for f :: "string \<Rightarrow> int"
    by (rule sum.remove) (use w in auto)
  have rest: "(\<Sum>v \<in> ?V - {?w}. nat (?d v)) = (\<Sum>v \<in> ?V - {?w}. nat (indeg v))"
    by (rule sum.cong) auto
  have step: "kahn_measure E ?d (if ?d ?w = 0 then q @ [?w] else q) \<le> kahn_measure E indeg q"
    unfolding kahn_measure_def split [of ?d] split [of indeg] rest by auto
  show ?case
  proof (cases "ce_from_node e = u")
    case True
    have sub: "set es \<subseteq> set E" using "2.prems"(1) by simp
    have "kahn_measure E indeg' q' \<le> kahn_measure E ?d (if ?d ?w = 0 then q @ [?w] else q)"
    proof (cases "?d ?w = 0")
      case zero: True
      from "2.IH"(1) [OF True refl zero sub] "2.prems"(2) True zero show ?thesis
        by (simp only: relax.simps Let_def if_True simp_thms)
    next
      case nonzero: False
      from "2.IH"(2) [OF True refl nonzero sub] "2.prems"(2) True nonzero show ?thesis
        by (simp only: relax.simps Let_def if_True if_False simp_thms)
    qed
    with step show ?thesis by linarith
  next
    case False
    with 2 show ?thesis by simp
  qed
qed

function kahn_loop :: "candidate_edge list \<Rightarrow> (string \<Rightarrow> int) \<Rightarrow> string list \<Rightarrow> string list \<Rightarrow>
    string list" where
  "kahn_loop E indeg [] order = order"
| "kahn_loop E indeg (u # q) order =
     (let (indeg', q') = relax u E indeg q in kahn_loop E indeg' q' (order @ [u]))"
  by pat_completeness auto
termination
proof (relation "measure (\<lambda>(E, indeg, q, order). kahn_measure E indeg q)", goal_cases)
  case 1
  show ?case by simp
next
  case (2 E indeg u q order x indeg' q')
  then have "kahn_measure E indeg' q' \<le> kahn_measure E indeg q"
    by (metis kahn_measure_relax order_refl)
  then show ?case by (simp add: kahn_measure_def)
qed

definition kahn :: "string list \<Rightarrow> candidate_edge list \<Rightarrow> string list option" where
  "kahn nodes E =
     (let indeg = count_indeg E (\<lambda>_. 0);
          order = kahn_loop E indeg (filter (\<lambda>n. indeg n = 0) nodes) []
      in if length order \<noteq> length nodes then None else Some order)"

subsubsection \<open>Its correctness\<close>

text \<open>How many of the edges \<open>es\<close> lead from \<open>u\<close> (from outside \<open>D\<close>) to \<open>v\<close>.\<close>

definition edge_rel :: "candidate_edge list \<Rightarrow> (string \<times> string) set" where
  "edge_rel E = (\<lambda>e. (ce_from_node e, ce_to_node e)) ` set E"

definition cnt :: "string \<Rightarrow> string \<Rightarrow> candidate_edge list \<Rightarrow> int" where
  "cnt u v es = int (length (filter (\<lambda>e. ce_from_node e = u \<and> ce_to_node e = v) es))"

definition open_in :: "string set \<Rightarrow> string \<Rightarrow> candidate_edge list \<Rightarrow> int" where
  "open_in D v es = int (length (filter (\<lambda>e. ce_from_node e \<notin> D \<and> ce_to_node e = v) es))"

lemma cnt_nonneg [simp]: "0 \<le> cnt u v es"
  by (simp add: cnt_def)

lemma cnt_Nil [simp]: "cnt u v [] = 0"
  by (simp add: cnt_def)

lemma cnt_Cons [simp]:
  "cnt u v (e # es) = (if ce_from_node e = u \<and> ce_to_node e = v then 1 else 0) + cnt u v es"
  by (simp add: cnt_def)

lemma open_in_insert: "u \<notin> D \<Longrightarrow> open_in (insert u D) v es = open_in D v es - cnt u v es"
  by (induction es) (auto simp: open_in_def cnt_def)

lemma open_in_0_iff:
  "open_in D v es = 0 \<longleftrightarrow> (\<forall>e \<in> set es. ce_to_node e = v \<longrightarrow> ce_from_node e \<in> D)"
  by (auto simp: open_in_def filter_empty_conv)

lemma open_in_nonneg [simp]: "0 \<le> open_in D v es"
  by (simp add: open_in_def)

lemma count_indeg_eq: "count_indeg es f v = f v + open_in {} v es"
  by (induction es arbitrary: f) (auto simp: open_in_def)

text \<open>
  Relaxing the edges out of \<open>u\<close> lowers every in-degree by the number of edges from \<open>u\<close> and
  queues exactly the nodes it brings to zero, once each.
\<close>

lemma relax_spec:
  assumes "\<And>v. cnt u v es \<le> d v"
  shows "\<exists>new. relax u es d q = (\<lambda>v. d v - cnt u v es, q @ new) \<and> distinct new \<and>
    set new = {v. 0 < cnt u v es \<and> d v = cnt u v es}"
  using assms
proof (induction u es d q rule: relax.induct)
  case (1 u d q)
  then show ?case by simp
next
  case (2 u e es d q)
  let ?w = "ce_to_node e" and ?d = "d(ce_to_node e := d (ce_to_node e) - 1)"
  show ?case
  proof (cases "ce_from_node e = u")
    case True
    have ge: "cnt u v es \<le> ?d v" for v using "2.prems" [of v] True by auto
    have fin: "(\<lambda>v. ?d v - cnt u v es) = (\<lambda>v. d v - cnt u v (e # es))" using True by auto
    show ?thesis
    proof (cases "?d ?w = 0")
      case zero: True
      from "2.IH"(1) [OF True refl zero ge] obtain new where
        new: "relax u es ?d (q @ [?w]) = (\<lambda>v. ?d v - cnt u v es, (q @ [?w]) @ new)"
          "distinct new" "set new = {v. 0 < cnt u v es \<and> ?d v = cnt u v es}" by blast
      have w0: "cnt u ?w es = 0" using ge [of ?w] zero cnt_nonneg [of u ?w es] by linarith
      have "relax u (e # es) d q = (\<lambda>v. d v - cnt u v (e # es), q @ (?w # new))"
        using new(1) True zero fin by (simp only: relax.simps Let_def if_True simp_thms append.simps append_assoc)
      moreover have "distinct (?w # new)" using new w0 by simp
      moreover have "set (?w # new) = {v. 0 < cnt u v (e # es) \<and> d v = cnt u v (e # es)}"
        using new(3) w0 zero True by auto
      ultimately show ?thesis by blast
    next
      case nonzero: False
      from "2.IH"(2) [OF True refl nonzero ge] obtain new where
        new: "relax u es ?d q = (\<lambda>v. ?d v - cnt u v es, q @ new)"
          "distinct new" "set new = {v. 0 < cnt u v es \<and> ?d v = cnt u v es}" by blast
      have "relax u (e # es) d q = (\<lambda>v. d v - cnt u v (e # es), q @ new)"
        using new(1) True nonzero fin by (simp only: relax.simps Let_def if_True if_False simp_thms)
      moreover have "0 < cnt u v es \<and> ?d v = cnt u v es \<longleftrightarrow>
          0 < cnt u v (e # es) \<and> d v = cnt u v (e # es)" for v
      proof (cases "v = ?w")
        case True
        have "cnt u v (e # es) = 1 + cnt u v es" "?d v = d v - 1" "d v - 1 \<noteq> 0"
          using True nonzero \<open>ce_from_node e = u\<close> by simp_all
        then show ?thesis using cnt_nonneg [of u v es] by (simp only:) presburger
      next
        case False
        then show ?thesis by simp
      qed
      then have "set new = {v. 0 < cnt u v (e # es) \<and> d v = cnt u v (e # es)}"
        unfolding new(3) by (intro Collect_cong)
      ultimately show ?thesis using new(2) by blast
    qed
  next
    case False
    with "2.IH"(3) [OF False] "2.prems" show ?thesis by simp
  qed
qed

text \<open>\<open>topo_from E D vs\<close>: every predecessor of a node of \<open>vs\<close> is in \<open>D\<close> or earlier in \<open>vs\<close>.\<close>

fun topo_from :: "candidate_edge list \<Rightarrow> string set \<Rightarrow> string list \<Rightarrow> bool" where
  "topo_from E D [] = True"
| "topo_from E D (v # vs) =
     ((\<forall>e \<in> set E. ce_to_node e = v \<longrightarrow> ce_from_node e \<in> D) \<and> topo_from E (insert v D) vs)"

lemma topo_from_append:
  "topo_from E D (xs @ ys) \<longleftrightarrow> topo_from E D xs \<and> topo_from E (D \<union> set xs) ys"
  by (induction xs arbitrary: D) auto

lemma topo_from_nth:
  "topo_from E D vs \<Longrightarrow> i < length vs \<Longrightarrow> e \<in> set E \<Longrightarrow> ce_to_node e = vs ! i \<Longrightarrow>
   ce_from_node e \<in> D \<union> set (take i vs)"
proof (induction vs arbitrary: D i)
  case Nil
  then show ?case by simp
next
  case (Cons v vs)
  show ?case
  proof (cases i)
    case 0
    with Cons.prems show ?thesis by simp
  next
    case (Suc j)
    with Cons.IH [of "insert v D" j] Cons.prems show ?thesis by simp
  qed
qed

definition kahn_inv :: "string set \<Rightarrow> candidate_edge list \<Rightarrow> (string \<Rightarrow> int) \<Rightarrow> string list \<Rightarrow>
    string list \<Rightarrow> bool" where
  "kahn_inv N E indeg q order \<longleftrightarrow>
     distinct (order @ q) \<and> set (order @ q) \<subseteq> N \<and>
     (\<forall>v. indeg v = open_in (set order) v E) \<and>
     (\<forall>v \<in> N. v \<in> set (order @ q) \<longleftrightarrow> indeg v = 0) \<and>
     topo_from E {} order"

lemma kahn_inv_step:
  assumes inv: "kahn_inv N E indeg (u # q) order"
    and targets: "\<forall>e \<in> set E. ce_to_node e \<in> N"
    and step: "relax u E indeg q = (indeg', q')"
  shows "kahn_inv N E indeg' q' (order @ [u])"
proof -
  from inv have dist: "distinct (order @ u # q)" and sub: "set (order @ u # q) \<subseteq> N"
    and indeg: "\<And>v. indeg v = open_in (set order) v E"
    and zero: "\<And>v. v \<in> N \<Longrightarrow> v \<in> set (order @ u # q) \<longleftrightarrow> indeg v = 0"
    and topo: "topo_from E {} order"
    by (auto simp: kahn_inv_def)
  have u: "u \<notin> set order" "u \<in> N" using dist sub by auto
  have open': "open_in (insert u (set order)) v E = indeg v - cnt u v E" for v
    using open_in_insert [OF u(1), of v E] indeg by simp
  have ge: "cnt u v E \<le> indeg v" for v
    using open' [of v] open_in_nonneg [of "insert u (set order)" v E] by linarith
  from relax_spec [of u E indeg q] ge step obtain new where
    new: "indeg' = (\<lambda>v. indeg v - cnt u v E)" "q' = q @ new" "distinct new"
      "set new = {v. 0 < cnt u v E \<and> indeg v = cnt u v E}" by auto
  have newN: "set new \<subseteq> N"
    using targets new(4) by (auto simp: cnt_def filter_empty_conv)
  have "False" if v: "v \<in> set new" "v \<in> set (order @ u # q)" for v
  proof -
    have "indeg v = 0" using zero [OF subsetD [OF sub v(2)]] v(2) by simp
    moreover have "0 < indeg v" using v(1) new(4) by auto
    ultimately show False by simp
  qed
  then have fresh: "set new \<inter> set (order @ u # q) = {}" by blast
  have "distinct ((order @ [u]) @ q')" using dist new(2,3) fresh by auto
  moreover have "set ((order @ [u]) @ q') \<subseteq> N" using sub newN new(2) by auto
  moreover have "\<forall>v. indeg' v = open_in (set (order @ [u])) v E"
    using open' new(1) by (simp add: insert_commute)
  moreover have "v \<in> set ((order @ [u]) @ q') \<longleftrightarrow> indeg' v = 0" if "v \<in> N" for v
  proof -
    have "v \<in> set ((order @ [u]) @ q') \<longleftrightarrow> v \<in> set (order @ u # q) \<or> v \<in> set new"
      using new(2) by auto
    moreover have "v \<in> set new \<longleftrightarrow> indeg v \<noteq> 0 \<and> indeg v = cnt u v E"
      unfolding new(4) using cnt_nonneg [of u v E] by (auto simp: order.strict_iff_order)
    ultimately show ?thesis
      using zero [OF that] ge [of v] cnt_nonneg [of u v E] unfolding new(1) by linarith
  qed
  moreover have "topo_from E {} (order @ [u])"
    using topo zero [OF u(2)] indeg [of u] by (auto simp: topo_from_append open_in_0_iff)
  ultimately show ?thesis by (simp add: kahn_inv_def)
qed

lemma kahn_loop_inv:
  assumes "\<forall>e \<in> set E. ce_to_node e \<in> N"
  shows "kahn_inv N E indeg q order \<Longrightarrow>
    \<exists>indeg'. kahn_inv N E indeg' [] (kahn_loop E indeg q order)"
  using assms
proof (induction E indeg q order rule: kahn_loop.induct)
  case (1 E indeg order)
  then show ?case by auto
next
  case (2 E indeg u q order)
  obtain indeg' q' where r: "relax u E indeg q = (indeg', q')" by force
  from "2.IH" [OF r [symmetric] refl] kahn_inv_step [OF "2.prems"(1,2) r] "2.prems"(2) r
  show ?case by simp
qed

lemma kahn_inv_init:
  "distinct nodes \<Longrightarrow> (\<And>v. indeg v = open_in {} v E) \<Longrightarrow>
   kahn_inv (set nodes) E indeg (filter (\<lambda>n. indeg n = 0) nodes) []"
  by (auto simp: kahn_inv_def)

text \<open>A topological listing of all nodes leaves no room for a cycle.\<close>

lemma topo_from_acyclic:
  "topo_from E D vs \<Longrightarrow> distinct vs \<Longrightarrow> (\<forall>(a, b) \<in> edge_rel E. b \<in> set vs) \<Longrightarrow>
   set vs \<inter> D = {} \<Longrightarrow> acyclic (edge_rel E)"
proof -
  assume topo: "topo_from E D vs" and dist: "distinct vs" and disj: "set vs \<inter> D = {}"
    and all: "\<forall>(a, b) \<in> edge_rel E. b \<in> set vs"
  have step: "\<exists>xs ys. vs = xs @ b # ys \<and> a \<in> D \<union> set xs" if ab: "(a, b) \<in> edge_rel E" for a b
  proof -
    from all ab have "b \<in> set vs" by blast
    then obtain xs ys where vs: "vs = xs @ b # ys" by (meson split_list)
    with topo have "topo_from E (D \<union> set xs) (b # ys)" by (simp add: topo_from_append)
    with ab have "a \<in> D \<union> set xs" by (auto simp: edge_rel_def)
    with vs show ?thesis by blast
  qed
  define pos where "pos v = (if v \<in> D then 0 else Suc (length (takeWhile (\<lambda>w. w \<noteq> v) vs)))" for v
  have "pos a < pos b" if "(a, b) \<in> edge_rel E" for a b
  proof -
    from step [OF that] obtain xs ys where vs: "vs = xs @ b # ys" and a: "a \<in> D \<union> set xs" by blast
    have b: "b \<notin> D" "b \<notin> set xs" using vs dist disj by auto
    have "takeWhile (\<lambda>w. w \<noteq> b) vs = xs"
      unfolding vs using b by (subst takeWhile_append2) auto
    moreover have "length (takeWhile (\<lambda>w. w \<noteq> a) vs) < length xs" if "a \<in> set xs"
    proof -
      from that obtain us ws where xs: "xs = us @ a # ws" "a \<notin> set us" by (meson split_list_first)
      then have "takeWhile (\<lambda>w. w \<noteq> a) vs = us"
        unfolding vs by (simp, subst takeWhile_append2) auto
      then show ?thesis using xs by simp
    qed
    ultimately show ?thesis using a b by (auto simp: pos_def)
  qed
  then have "edge_rel E \<subseteq> measure pos" by auto
  then show "acyclic (edge_rel E)" by (meson acyclic_subset wf_acyclic wf_measure)
qed

text \<open>A finite graph in which every node of a nonempty set has a predecessor in it has a cycle.\<close>

lemma stuck_cyclic:
  assumes "finite S" "S \<noteq> {}" "\<And>v. v \<in> S \<Longrightarrow> \<exists>w \<in> S. (w, v) \<in> R"
  shows "\<not> acyclic R"
proof
  assume "acyclic R"
  then have "acyclic (R \<inter> S \<times> S)" by (meson acyclic_subset inf_le1)
  moreover have "finite (R \<inter> S \<times> S)" using assms(1) by simp
  ultimately have "wf (R \<inter> S \<times> S)" by (simp add: finite_acyclic_wf)
  with assms(2) obtain v where "v \<in> S" "\<And>w. (w, v) \<in> R \<inter> S \<times> S \<Longrightarrow> w \<notin> S"
    by (metis equals0I wfE_min)
  with assms(3) show False by blast
qed

lemma kahn_final:
  assumes "distinct nodes" "\<forall>e \<in> set E. ce_from_node e \<in> set nodes \<and> ce_to_node e \<in> set nodes"
  defines "indeg \<equiv> count_indeg E (\<lambda>_. 0)"
  defines "order \<equiv> kahn_loop E indeg (filter (\<lambda>n. indeg n = 0) nodes) []"
  shows "distinct order" "set order \<subseteq> set nodes" "topo_from E {} order"
    "\<And>v. v \<in> set nodes - set order \<Longrightarrow>
      \<exists>w \<in> set nodes - set order. (w, v) \<in> edge_rel E"
proof -
  have "kahn_inv (set nodes) E indeg (filter (\<lambda>n. indeg n = 0) nodes) []"
    by (rule kahn_inv_init [OF assms(1)]) (simp add: indeg_def count_indeg_eq)
  from kahn_loop_inv [OF _ this] assms(2) obtain d
    where inv: "kahn_inv (set nodes) E d [] order" by (auto simp: order_def)
  then show "distinct order" "set order \<subseteq> set nodes" "topo_from E {} order"
    by (auto simp: kahn_inv_def)
  fix v assume v: "v \<in> set nodes - set order"
  with inv have "open_in (set order) v E \<noteq> 0" by (auto simp: kahn_inv_def)
  then obtain e where "e \<in> set E" "ce_to_node e = v" "ce_from_node e \<notin> set order"
    by (auto simp: open_in_0_iff)
  then show "\<exists>w \<in> set nodes - set order. (w, v) \<in> edge_rel E"
    using assms(2) by (force simp: edge_rel_def)
qed

lemma length_eq_set:
  "distinct xs \<Longrightarrow> distinct ys \<Longrightarrow> set xs \<subseteq> set ys \<Longrightarrow> length xs = length ys \<longleftrightarrow> set xs = set ys"
  by (metis card_subset_eq distinct_card List.finite_set)

lemma kahn_None_iff:
  assumes "distinct nodes" "\<forall>e \<in> set E. ce_from_node e \<in> set nodes \<and> ce_to_node e \<in> set nodes"
  shows "kahn nodes E = None \<longleftrightarrow> \<not> acyclic (edge_rel E)"
proof -
  note final = kahn_final [OF assms]
  let ?order = "kahn_loop E (count_indeg E (\<lambda>_. 0)) (filter (\<lambda>n. count_indeg E (\<lambda>_. 0) n = 0) nodes) []"
  have kahn: "kahn nodes E = (if set ?order = set nodes then Some ?order else None)"
    using length_eq_set [OF final(1) assms(1) final(2)] by (simp add: kahn_def Let_def)
  have cyc: "\<not> acyclic (edge_rel E)" if "set ?order \<noteq> set nodes"
    by (rule stuck_cyclic [of "set nodes - set ?order"]) (use that final(2,4) in auto)
  have "acyclic (edge_rel E)" if "set ?order = set nodes"
    by (rule topo_from_acyclic [OF final(3,1)])
       (use that assms(2) in \<open>auto simp: edge_rel_def\<close>)
  with kahn cyc show ?thesis by auto
qed

lemma kahn_Some:
  assumes "distinct nodes" "\<forall>e \<in> set E. ce_from_node e \<in> set nodes \<and> ce_to_node e \<in> set nodes"
    and "kahn nodes E = Some order"
  shows "distinct order" "set order = set nodes" "topo_from E {} order"
proof -
  note final = kahn_final [OF assms(1,2)]
  have *: "order = kahn_loop E (count_indeg E (\<lambda>_. 0))
      (filter (\<lambda>n. count_indeg E (\<lambda>_. 0) n = 0) nodes) []" "length order = length nodes"
    using assms(3) by (auto simp: kahn_def Let_def split: if_splits)
  show "distinct order" "topo_from E {} order" using final(1,3) *(1) by auto
  show "set order = set nodes"
    using length_eq_set [OF final(1) assms(1) final(2)] * by simp
qed

text \<open>
  C8. Kahn's algorithm, as \<open>topological_order\<close> and the parser's cycle check run it, decides
  acyclicity: it fails exactly on a graph with a cycle, and otherwise lists every node once,
  each after all its predecessors.
\<close>

theorem topological_order_correct:
  assumes "distinct nodes" "\<forall>e \<in> set E. ce_from_node e \<in> set nodes \<and> ce_to_node e \<in> set nodes"
  shows "(kahn nodes E = None \<longleftrightarrow> \<not> acyclic (edge_rel E)) \<and>
    (\<forall>order. kahn nodes E = Some order \<longrightarrow>
       distinct order \<and> set order = set nodes \<and>
       (\<forall>i < length order. \<forall>e \<in> set E. ce_to_node e = order ! i \<longrightarrow>
          ce_from_node e \<in> set (take i order)))"
proof (intro conjI allI impI ballI)
  show "kahn nodes E = None \<longleftrightarrow> \<not> acyclic (edge_rel E)" by (rule kahn_None_iff [OF assms])
  fix order assume k: "kahn nodes E = Some order"
  show "distinct order" "set order = set nodes" by (rule kahn_Some [OF assms k])+
  show "ce_from_node e \<in> set (take i order)"
    if "i < length order" "e \<in> set E" "ce_to_node e = order ! i" for i e
    using topo_from_nth [OF kahn_Some(3) [OF assms k] that] by simp
qed

theorem topological_order_correct_witness:
  "(let a = ''a''; b = ''b''; E = [\<lparr>ce_from_node = b, ce_to_node = a, ce_when = []\<rparr>] in
     (kahn [a, b] E = None \<longleftrightarrow> \<not> acyclic (edge_rel E)) \<and> kahn [a, b] E = Some [b, a])"
  using topological_order_correct [of "[''a'', ''b'']"
      "[\<lparr>ce_from_node = ''b'', ce_to_node = ''a'', ce_when = []\<rparr>]"]
  by (simp add: kahn_def)

subsection \<open>Parser\<close>

datatype contract_violation =
    PurposeNotRequired string string          \<comment> \<open>node, purpose\<close>
  | EdgeFromUnknown string
  | EdgeToUnknown string
  | GraphCycle string                         \<comment> \<open>template\<close>

definition topological_order :: "candidate_graph \<Rightarrow> contract_violation + string list" where
  "topological_order g =
     (case kahn (keys (cg_nodes g)) (cg_edges g) of
        None \<Rightarrow> Inl (GraphCycle (cg_template_id g)) | Some order \<Rightarrow> Inr order)"

definition candidate_of :: "node_spec \<Rightarrow> candidate_node" where
  "candidate_of n = \<lparr>
     cn_node_id = ns_node_id n,
     cn_name = ns_name n,
     cn_purpose_code = code (ns_requires_purpose n),
     cn_requires_purpose = code (ns_requires_purpose n),
     cn_requires_views = ns_requires_views n,
     cn_eligible_capability_kinds = ns_eligible_capability_kinds n,
     cn_declared_effect_kinds = map eff_kind (ns_declared_effects n),
     cn_requires_approval = ns_requires_approval n,
     cn_fallback_capability_id = ns_fallback_capability_id n,
     cn_timeout_ms = ns_timeout_ms n \<rparr>"

text \<open>The dictionary comprehension over the template's nodes: a later node replaces an earlier one.\<close>

definition candidate_nodes :: "node_spec list \<Rightarrow> (string, candidate_node) dict" where
  "candidate_nodes ns = foldl (\<lambda>d n. dset (ns_node_id n) (candidate_of n) d) [] ns"

fun check_purposes :: "purpose list \<Rightarrow> node_spec list \<Rightarrow> contract_violation option" where
  "check_purposes required [] = None"
| "check_purposes required (n # ns) =
     (if code (ns_requires_purpose n) \<notin> set (map code required) \<and> required \<noteq> []
         \<and> set (map code required) \<noteq> {code (ns_requires_purpose n)}
      then Some (PurposeNotRequired (ns_node_id n) (code (ns_requires_purpose n)))
      else check_purposes required ns)"

fun check_endpoints :: "string set \<Rightarrow> candidate_edge list \<Rightarrow> contract_violation option" where
  "check_endpoints nodes [] = None"
| "check_endpoints nodes (e # es) =
     (if ce_from_node e \<notin> nodes then Some (EdgeFromUnknown (ce_from_node e))
      else if ce_to_node e \<notin> nodes then Some (EdgeToUnknown (ce_to_node e))
      else check_endpoints nodes es)"

definition parse :: "task_template \<Rightarrow> task_contract \<Rightarrow> contract_violation + candidate_graph" where
  "parse t c =
     (case check_purposes (tt_required_purposes t) (tt_nodes t) of Some err \<Rightarrow> Inl err | None \<Rightarrow>
      let nodes = candidate_nodes (tt_nodes t);
          edges = map (\<lambda>e. \<lparr>ce_from_node = es_from_node e, ce_to_node = es_to_node e,
                             ce_when = es_when e\<rparr>) (tt_edges t);
          graph = \<lparr>cg_template_id = tt_template_id t, cg_template_version = tt_version t,
                   cg_nodes = nodes, cg_edges = edges, cg_inputs = tc_inputs c,
                   cg_purpose = code (tc_purpose c)\<rparr>
      in case check_endpoints (set (keys nodes)) edges of Some err \<Rightarrow> Inl err | None \<Rightarrow>
         case topological_order graph of Inl err \<Rightarrow> Inl err | Inr _ \<Rightarrow> Inr graph)"

text \<open>What a parsed graph satisfies.\<close>

definition graph_wf :: "candidate_graph \<Rightarrow> bool" where
  "graph_wf g \<longleftrightarrow> dict_wf (cg_nodes g) \<and>
     (\<forall>e \<in> set (cg_edges g). ce_from_node e \<in> set (keys (cg_nodes g)) \<and>
        ce_to_node e \<in> set (keys (cg_nodes g))) \<and>
     acyclic (edge_rel (cg_edges g))"

lemma candidate_nodes_gen:
  "dict_wf d \<Longrightarrow> dict_wf (foldl (\<lambda>d n. dset (ns_node_id n) (candidate_of n) d) d ns) \<and>
     set (keys (foldl (\<lambda>d n. dset (ns_node_id n) (candidate_of n) d) d ns))
       = set (keys d) \<union> ns_node_id ` set ns"
  by (induction ns arbitrary: d) auto

lemma dict_wf_candidate_nodes [simp]: "dict_wf (candidate_nodes ns)"
  using candidate_nodes_gen [of "[]" ns] by (simp add: candidate_nodes_def)

lemma keys_candidate_nodes: "set (keys (candidate_nodes ns)) = ns_node_id ` set ns"
  using candidate_nodes_gen [of "[]" ns] by (simp add: candidate_nodes_def)

lemmas fst_candidate_nodes [simp] = keys_candidate_nodes [unfolded set_map]

lemma candidate_nodes_values:
  "dget (candidate_nodes ns) k = Some v \<Longrightarrow> \<exists>n \<in> set ns. ns_node_id n = k \<and> v = candidate_of n"
proof -
  have "dget (foldl (\<lambda>d n. dset (ns_node_id n) (candidate_of n) d) d ns) k = Some v \<Longrightarrow>
      dget d k = Some v \<or> (\<exists>n \<in> set ns. ns_node_id n = k \<and> v = candidate_of n)" for d
    by (induction ns arbitrary: d) (fastforce simp: dict_simps split: if_splits)+
  from this [of "[]"] show "dget (candidate_nodes ns) k = Some v \<Longrightarrow> ?thesis"
    by (simp add: candidate_nodes_def)
qed

lemma check_purposes_None:
  "check_purposes required ns = None \<longleftrightarrow>
     required = [] \<or> (\<forall>n \<in> set ns. code (ns_requires_purpose n) \<in> code ` set required)"
  by (induction ns) auto

lemma check_endpoints_None:
  "check_endpoints N es = None \<longleftrightarrow> (\<forall>e \<in> set es. ce_from_node e \<in> N \<and> ce_to_node e \<in> N)"
  by (induction es) auto

lemma topological_order_Inr:
  assumes "dict_wf (cg_nodes g)" "\<forall>e \<in> set (cg_edges g).
    ce_from_node e \<in> set (keys (cg_nodes g)) \<and> ce_to_node e \<in> set (keys (cg_nodes g))"
  shows "(\<exists>vs. topological_order g = Inr vs) \<longleftrightarrow> acyclic (edge_rel (cg_edges g))"
proof -
  have "kahn (keys (cg_nodes g)) (cg_edges g) = None \<longleftrightarrow> \<not> acyclic (edge_rel (cg_edges g))"
    by (rule kahn_None_iff [OF assms])
  then show ?thesis by (auto simp: topological_order_def split: option.splits)
qed

lemma parse_Inr:
  assumes "parse t c = Inr g"
  shows "cg_nodes g = candidate_nodes (tt_nodes t)" "graph_wf g"
    "check_purposes (tt_required_purposes t) (tt_nodes t) = None"
    "cg_edges g = map (\<lambda>e. \<lparr>ce_from_node = es_from_node e, ce_to_node = es_to_node e,
                             ce_when = es_when e\<rparr>) (tt_edges t)"
proof -
  show purposes: "check_purposes (tt_required_purposes t) (tt_nodes t) = None"
    and nodes: "cg_nodes g = candidate_nodes (tt_nodes t)"
    and edges: "cg_edges g = map (\<lambda>e. \<lparr>ce_from_node = es_from_node e,
       ce_to_node = es_to_node e, ce_when = es_when e\<rparr>) (tt_edges t)"
    using assms by (auto simp: parse_def Let_def split: option.splits sum.splits)
  have ends: "check_endpoints (set (keys (cg_nodes g))) (cg_edges g) = None"
    and topo: "\<exists>vs. topological_order g = Inr vs"
    using assms by (auto simp: parse_def Let_def split: option.splits sum.splits)
  have "dict_wf (cg_nodes g)" using nodes by simp
  moreover note ends [unfolded check_endpoints_None]
  ultimately show "graph_wf g" using topological_order_Inr topo by (auto simp: graph_wf_def)
qed

text \<open>
  The parser accepts a template exactly when every node's purpose is one of the required
  purposes (or none is required), every edge joins two declared nodes and the edges have no
  cycle; the graph it returns is well formed, has exactly the template's node ids, and every
  candidate is built from a node of the template.
\<close>

theorem parse_correct:
  "((\<exists>g. parse t c = Inr g) \<longleftrightarrow>
      (tt_required_purposes t = [] \<or>
        (\<forall>n \<in> set (tt_nodes t). code (ns_requires_purpose n) \<in> code ` set (tt_required_purposes t))) \<and>
      (\<forall>e \<in> set (tt_edges t). {es_from_node e, es_to_node e} \<subseteq> ns_node_id ` set (tt_nodes t)) \<and>
      acyclic ((\<lambda>e. (es_from_node e, es_to_node e)) ` set (tt_edges t))) \<and>
   (\<forall>g. parse t c = Inr g \<longrightarrow> graph_wf g \<and>
      set (keys (cg_nodes g)) = ns_node_id ` set (tt_nodes t) \<and>
      (\<forall>k v. dget (cg_nodes g) k = Some v \<longrightarrow>
         (\<exists>n \<in> set (tt_nodes t). ns_node_id n = k \<and> v = candidate_of n)))"
  (is "?iff \<and> _")
proof
  let ?E = "map (\<lambda>e. \<lparr>ce_from_node = es_from_node e, ce_to_node = es_to_node e,
                       ce_when = es_when e\<rparr>) (tt_edges t)"
  let ?g = "\<lparr>cg_template_id = tt_template_id t, cg_template_version = tt_version t,
             cg_nodes = candidate_nodes (tt_nodes t), cg_edges = ?E, cg_inputs = tc_inputs c,
             cg_purpose = code (tc_purpose c)\<rparr>"
  have rel: "edge_rel ?E = (\<lambda>e. (es_from_node e, es_to_node e)) ` set (tt_edges t)"
    by (simp add: edge_rel_def image_image)
  have topo: "\<lbrakk>\<forall>e \<in> set ?E. ce_from_node e \<in> ns_node_id ` set (tt_nodes t) \<and>
      ce_to_node e \<in> ns_node_id ` set (tt_nodes t)\<rbrakk> \<Longrightarrow>
      (\<exists>vs. topological_order ?g = Inr vs) \<longleftrightarrow> acyclic (edge_rel ?E)"
    using topological_order_Inr [of ?g] by simp
  have "(\<exists>g. parse t c = Inr g) \<longleftrightarrow>
      check_purposes (tt_required_purposes t) (tt_nodes t) = None \<and>
      check_endpoints (ns_node_id ` set (tt_nodes t)) ?E = None \<and>
      (\<exists>vs. topological_order ?g = Inr vs)"
    unfolding parse_def Let_def keys_candidate_nodes by (simp split: option.splits sum.splits)
  also have "\<dots> \<longleftrightarrow> check_purposes (tt_required_purposes t) (tt_nodes t) = None \<and>
      (\<forall>e \<in> set (tt_edges t). {es_from_node e, es_to_node e} \<subseteq> ns_node_id ` set (tt_nodes t)) \<and>
      acyclic (edge_rel ?E)"
    using topo by (auto simp: check_endpoints_None)
  finally show ?iff unfolding check_purposes_None rel .
qed (use parse_Inr(1,2) candidate_nodes_values in auto)

subsection \<open>Normalizer\<close>

record value_ref =
  producer_node_id :: string
  producer_output :: string
  view_name :: "string option"

text \<open>
  The declared view of a value reference, \<open>ref.view\<close>, is never set by the normalizer, and the
  join rule is always \<open>JOIN\<close>.
\<close>

record normalized_node =
  nn_node :: candidate_node
  nn_input_refs :: "value_ref list"

record normalized_graph =
  ng_template_id :: string
  ng_template_version :: string
  ng_nodes :: "(string, normalized_node) dict"
  ng_edges :: "candidate_edge list"
  ng_purpose :: string

definition edge_key :: "candidate_edge \<Rightarrow> string \<times> string \<times> string" where
  "edge_key e = (ce_from_node e, ce_to_node e, ce_when e)"

fun merge_edges :: "(string \<times> string \<times> string) set \<Rightarrow> candidate_edge list \<Rightarrow> candidate_edge list" where
  "merge_edges seen [] = []"
| "merge_edges seen (e # es) =
     (if edge_key e \<in> seen then merge_edges seen es
      else e # merge_edges (insert (edge_key e) seen) es)"

definition ref_of :: "(string, candidate_node) dict \<Rightarrow> candidate_edge \<Rightarrow> key_error + value_ref" where
  "ref_of nodes e =
     (case dget nodes (ce_from_node e) of None \<Rightarrow> Inl (KeyError (ce_from_node e)) | Some n \<Rightarrow>
      Inr \<lparr>producer_node_id = ce_from_node e, producer_output = ''*'',
           view_name = (case cn_requires_views n of [] \<Rightarrow> None | v # _ \<Rightarrow> Some (dv_name v))\<rparr>)"

text \<open>\<open>ref_by_node[e.to_node].append(ValueRef(...))\<close>, the target looked up first\<close>

fun add_refs :: "(string, candidate_node) dict \<Rightarrow> candidate_edge list \<Rightarrow>
    (string, value_ref list) dict \<Rightarrow> key_error + (string, value_ref list) dict" where
  "add_refs nodes [] refs = Inr refs"
| "add_refs nodes (e # es) refs =
     (case dget refs (ce_to_node e) of None \<Rightarrow> Inl (KeyError (ce_to_node e)) | Some rs \<Rightarrow>
      case ref_of nodes e of Inl err \<Rightarrow> Inl err | Inr r \<Rightarrow>
      add_refs nodes es (dset (ce_to_node e) (rs @ [r]) refs))"

definition normalize_graph :: "candidate_graph \<Rightarrow> key_error + normalized_graph" where
  "normalize_graph g =
     (let edges = merge_edges {} (cg_edges g)
      in case add_refs (cg_nodes g) edges (map (\<lambda>(nid, _). (nid, [])) (cg_nodes g)) of
           Inl err \<Rightarrow> Inl err
         | Inr refs \<Rightarrow> Inr \<lparr>
             ng_template_id = cg_template_id g,
             ng_template_version = cg_template_version g,
             ng_nodes = map (\<lambda>(nid, n). (nid, \<lparr>nn_node = n,
                          nn_input_refs = the (dget refs nid)\<rparr>)) (cg_nodes g),
             ng_edges = edges,
             ng_purpose = cg_purpose g\<rparr>)"

lemma merge_edges_props:
  "distinct (map edge_key (merge_edges seen es)) \<and> set (merge_edges seen es) \<subseteq> set es \<and>
   edge_key ` set (merge_edges seen es) = edge_key ` set es - seen"
  by (induction seen es rule: merge_edges.induct) auto

lemma edge_key_inject: "edge_key e = edge_key f \<longleftrightarrow> e = f"
  by (cases e; cases f) (auto simp: edge_key_def)

lemma inj_edge_key: "inj edge_key"
  by (simp add: inj_def edge_key_inject)

lemma set_merge_edges: "set (merge_edges {} es) = set es"
  using merge_edges_props [of "{}" es] by (simp add: inj_image_eq_iff [OF inj_edge_key])

lemma distinct_merge_edges: "distinct (merge_edges {} es)"
  using merge_edges_props [of "{}" es] by (simp add: distinct_map)

definition producers :: "candidate_edge list \<Rightarrow> string \<Rightarrow> string list" where
  "producers es k = map ce_from_node (filter (\<lambda>e. ce_to_node e = k) es)"

lemma add_refs_ok:
  "\<forall>e \<in> set es. ce_from_node e \<in> set (keys nodes) \<and> ce_to_node e \<in> set (keys refs) \<Longrightarrow>
   \<exists>refs'. add_refs nodes es refs = Inr refs' \<and> set (keys refs') = set (keys refs) \<and>
     (\<forall>k rs. dget refs k = Some rs \<longrightarrow> (\<exists>rs'. dget refs' k = Some rs' \<and>
        map producer_node_id rs' = map producer_node_id rs @ producers es k))"
proof (induction es arbitrary: refs)
  case Nil
  then show ?case by (simp add: producers_def)
next
  case (Cons e es)
  let ?t = "ce_to_node e"
  from Cons.prems obtain rs where rs: "dget refs ?t = Some rs" using in_keys_dget [of ?t refs] by auto
  from Cons.prems obtain n where n: "dget nodes (ce_from_node e) = Some n"
    using in_keys_dget [of "ce_from_node e" nodes] by auto
  obtain r where r: "ref_of nodes e = Inr r" "producer_node_id r = ce_from_node e"
    using n by (simp add: ref_of_def)
  let ?refs = "dset ?t (rs @ [r]) refs"
  have t: "?t \<in> fst ` set refs" using dget_Some_in_keys [OF rs] by simp
  then have ks: "set (keys ?refs) = set (keys refs)" by auto
  with Cons.prems have "\<forall>e \<in> set es. ce_from_node e \<in> set (keys nodes) \<and> ce_to_node e \<in> set (keys ?refs)"
    by auto
  from Cons.IH [OF this] obtain refs' where refs': "add_refs nodes es ?refs = Inr refs'"
      "set (keys refs') = set (keys ?refs)"
      "\<forall>k rs. dget ?refs k = Some rs \<longrightarrow> (\<exists>rs'. dget refs' k = Some rs' \<and>
        map producer_node_id rs' = map producer_node_id rs @ producers es k)"
    by (elim exE conjE) (rule that)
  have "\<exists>rs'. dget refs' k = Some rs' \<and>
      map producer_node_id rs' = map producer_node_id rs0 @ producers (e # es) k"
    if "dget refs k = Some rs0" for k rs0
    using refs'(3) [rule_format, of k "if k = ?t then rs @ [r] else rs0"] that rs r(2)
    by (auto simp: dict_simps producers_def split: if_splits)
  with refs'(1,2) ks rs r(1) show ?case by simp
qed

lemma add_refs_views:
  "add_refs nodes es refs = Inr refs' \<Longrightarrow>
   (\<And>k rs r. dget refs k = Some rs \<Longrightarrow> r \<in> set rs \<Longrightarrow> P r) \<Longrightarrow>
   (\<And>e r. e \<in> set es \<Longrightarrow> ref_of nodes e = Inr r \<Longrightarrow> P r) \<Longrightarrow>
   dget refs' k = Some rs \<Longrightarrow> r \<in> set rs \<Longrightarrow> P r"
proof (induction es arbitrary: refs)
  case Nil
  then show ?case by simp
next
  case (Cons e es)
  from Cons.prems(1) obtain rs0 r0 where *: "dget refs (ce_to_node e) = Some rs0"
      "ref_of nodes e = Inr r0" "add_refs nodes es (dset (ce_to_node e) (rs0 @ [r0]) refs) = Inr refs'"
    by (auto split: option.splits sum.splits)
  show ?case
  proof (rule Cons.IH [OF *(3)])
    fix k rs r
    assume "dget (dset (ce_to_node e) (rs0 @ [r0]) refs) k = Some rs" "r \<in> set rs"
    then show "P r"
      using Cons.prems(2) *(1,2) Cons.prems(3) [of e r0] by (auto simp: dict_simps split: if_splits)
  next
    fix e' r' assume "e' \<in> set es" "ref_of nodes e' = Inr r'"
    then show "P r'" by (intro Cons.prems(3)) auto
  qed (fact Cons.prems(4,5))+
qed

lemma map_of_map_key: "map_of (map (\<lambda>(k, n). (k, f k n)) d) k = map_option (f k) (map_of d k)"
  by (induction d) auto

lemma normalize_eq:
  assumes "graph_wf g"
  obtains ng where "normalize_graph g = Inr ng" "keys (ng_nodes ng) = keys (cg_nodes g)"
    "ng_edges ng = merge_edges {} (cg_edges g)" "ng_template_id ng = cg_template_id g"
    "ng_purpose ng = cg_purpose g"
    "\<And>k. map_option nn_node (dget (ng_nodes ng) k) = dget (cg_nodes g) k"
    "\<And>k n. dget (ng_nodes ng) k = Some n \<Longrightarrow>
       map producer_node_id (nn_input_refs n) = producers (ng_edges ng) k"
proof -
  let ?refs = "map (\<lambda>(nid, _). (nid, [])) (cg_nodes g) :: (string, value_ref list) dict"
  let ?es = "merge_edges {} (cg_edges g)"
  have keys: "keys ?refs = keys (cg_nodes g)" by auto
  have "\<forall>e \<in> set ?es. ce_from_node e \<in> set (keys (cg_nodes g)) \<and> ce_to_node e \<in> set (keys ?refs)"
    using assms unfolding keys by (simp add: graph_wf_def set_merge_edges)
  from add_refs_ok [OF this] obtain refs' where refs': "add_refs (cg_nodes g) ?es ?refs = Inr refs'"
      "\<forall>k rs. dget ?refs k = Some rs \<longrightarrow> (\<exists>rs'. dget refs' k = Some rs' \<and>
        map producer_node_id rs' = map producer_node_id rs @ producers ?es k)"
    by (elim exE conjE) (rule that)
  let ?ng = "\<lparr>ng_template_id = cg_template_id g, ng_template_version = cg_template_version g,
    ng_nodes = map (\<lambda>(nid, n). (nid, \<lparr>nn_node = n, nn_input_refs = the (dget refs' nid)\<rparr>)) (cg_nodes g),
    ng_edges = ?es, ng_purpose = cg_purpose g\<rparr>"
  show thesis
  proof (rule that [of ?ng])
    show "normalize_graph g = Inr ?ng" using refs'(1) by (simp add: normalize_graph_def Let_def)
    show "map_option nn_node (dget (ng_nodes ?ng) k) = dget (cg_nodes g) k" for k
      by (simp add: map_of_map_key option.map_comp comp_def option.map_ident)
    show "map producer_node_id (nn_input_refs n) = producers (ng_edges ?ng) k"
      if "dget (ng_nodes ?ng) k = Some n" for k n
    proof -
      from that obtain c where "dget (cg_nodes g) k = Some c"
          "n = \<lparr>nn_node = c, nn_input_refs = the (dget refs' k)\<rparr>"
        by (auto simp: map_of_map_key)
      moreover then have "dget ?refs k = Some []" by (simp add: map_of_map_key)
      ultimately show ?thesis using refs'(2) by fastforce
    qed
  qed (auto simp: comp_def)
qed

lemma edge_rel_cong: "set E = set E' \<Longrightarrow> edge_rel E = edge_rel E'"
  by (simp add: edge_rel_def)

text \<open>
  On every graph the parser returns the normalizer succeeds: it keeps the nodes, merges
  duplicate edges and nothing else, records for each node one input reference per merged edge
  into it (in edge order), and the result still has a topological order, so the
  \<open>RuntimeError\<close> of \<open>NormalizedGraph.topological_order\<close> is indeed impossible.
\<close>

theorem normalize_parsed:
  assumes "parse t c = Inr g"
  shows "\<exists>ng. normalize_graph g = Inr ng \<and> keys (ng_nodes ng) = keys (cg_nodes g) \<and>
    set (ng_edges ng) = set (cg_edges g) \<and> distinct (ng_edges ng) \<and>
    (\<forall>k n. dget (ng_nodes ng) k = Some n \<longrightarrow>
       map producer_node_id (nn_input_refs n) =
         map ce_from_node (filter (\<lambda>e. ce_to_node e = k) (ng_edges ng))) \<and>
    (\<exists>order. kahn (keys (ng_nodes ng)) (ng_edges ng) = Some order)"
proof -
  have wf: "graph_wf g" by (rule parse_Inr(2) [OF assms])
  obtain ng where ng: "normalize_graph g = Inr ng" "keys (ng_nodes ng) = keys (cg_nodes g)"
    "ng_edges ng = merge_edges {} (cg_edges g)"
    "\<And>k n. dget (ng_nodes ng) k = Some n \<Longrightarrow>
       map producer_node_id (nn_input_refs n) = producers (ng_edges ng) k"
    using normalize_eq [OF wf] by metis
  have "kahn (keys (cg_nodes g)) (merge_edges {} (cg_edges g)) \<noteq> None"
    using wf by (subst kahn_None_iff)
      (auto simp: graph_wf_def set_merge_edges edge_rel_cong [OF set_merge_edges])
  with ng show ?thesis by (auto simp: set_merge_edges distinct_merge_edges producers_def)
qed

end
