(* ===== verification/Checkers.thy ===== *)
theory Checkers
  imports Graph
begin

section \<open>The static checks of the trust compiler\<close>

text \<open>
  \<open>orchestra/compiler/errors.py\<close>, \<open>type_checker.py\<close>, \<open>effect_checker.py\<close>, \<open>info_flow.py\<close>,
  \<open>delegation_checker.py\<close>, \<open>binding_closure.py\<close>, \<open>counter_example.py\<close> and the driver
  \<open>trust_compiler.py\<close>. Manifests and bindings are dictionaries keyed by capability and node
  id. The reason of an error is kept as the data its text is assembled from.
\<close>

subsection \<open>Errors\<close>

datatype compile_error_kind =
    RESTRICTED_TO_PUBLIC | INTERNAL_LEAKS_VIA_NON_PUBLIC_NODE | TRUST_NOT_INHERITED
  | HIGH_RISK_EFFECT_WITHOUT_APPROVAL | EFFECT_ESCALATION
  | UNKNOWN_NODE | UNKNOWN_EDGE | CYCLE | VIEW_MISMATCH | MISSING_REQUIREMENT
  | PURPOSE_ESCALATION | AUDIENCE_ESCALATION | AMBIENT_AUTHORITY | INFEASIBLE_BINDING

fun error_kind_value :: "compile_error_kind \<Rightarrow> string" where
  "error_kind_value RESTRICTED_TO_PUBLIC = ''restricted-to-public''"
| "error_kind_value INTERNAL_LEAKS_VIA_NON_PUBLIC_NODE = ''internal-leaks-via-non-public-node''"
| "error_kind_value TRUST_NOT_INHERITED = ''trust-not-inherited''"
| "error_kind_value HIGH_RISK_EFFECT_WITHOUT_APPROVAL = ''high-risk-effect-without-approval''"
| "error_kind_value EFFECT_ESCALATION = ''effect-escalation''"
| "error_kind_value UNKNOWN_NODE = ''unknown-node''"
| "error_kind_value UNKNOWN_EDGE = ''unknown-edge''"
| "error_kind_value CYCLE = ''cycle''"
| "error_kind_value VIEW_MISMATCH = ''view-mismatch''"
| "error_kind_value MISSING_REQUIREMENT = ''missing-requirement''"
| "error_kind_value PURPOSE_ESCALATION = ''purpose-escalation''"
| "error_kind_value AUDIENCE_ESCALATION = ''audience-escalation''"
| "error_kind_value AMBIENT_AUTHORITY = ''ambient-authority''"
| "error_kind_value INFEASIBLE_BINDING = ''infeasible-binding''"

fun invariant_of :: "compile_error_kind \<Rightarrow> string" where
  "invariant_of RESTRICTED_TO_PUBLIC = ''1''"
| "invariant_of INTERNAL_LEAKS_VIA_NON_PUBLIC_NODE = ''1''"
| "invariant_of TRUST_NOT_INHERITED = ''16''"
| "invariant_of HIGH_RISK_EFFECT_WITHOUT_APPROVAL = ''7''"
| "invariant_of EFFECT_ESCALATION = ''20''"
| "invariant_of UNKNOWN_NODE = ''0''"
| "invariant_of UNKNOWN_EDGE = ''0''"
| "invariant_of CYCLE = ''0''"
| "invariant_of VIEW_MISMATCH = ''0''"
| "invariant_of MISSING_REQUIREMENT = ''0''"
| "invariant_of PURPOSE_ESCALATION = ''5''"
| "invariant_of AUDIENCE_ESCALATION = ''5''"
| "invariant_of AMBIENT_AUTHORITY = ''20''"
| "invariant_of INFEASIBLE_BINDING = ''20''"

datatype compile_reason =
    NoGateReaches "effect_kind set"
  | WouldFlowToPublic data_classification string      \<comment> \<open>classification, capability\<close>
  | UpstreamRestricted string string                  \<comment> \<open>upstream node, consumer capability\<close>
  | CapabilityEscalates string "effect_kind set" string \<comment> \<open>capability, kinds, node\<close>
  | NodeNoGate string "effect_kind set"
  | PurposeDiffers string string string               \<comment> \<open>node, its purpose, the task's\<close>
  | NoBinding string
  | NotInRegistry string string                       \<comment> \<open>node, capability\<close>
  | ManifestMismatch string string string             \<comment> \<open>node, bound id, current id\<close>
  | EdgeOriginUnbound string string
  | EdgeTargetUnbound string string
  | NoEligible string "capability_kind list"
  | AllDenied rationale

record compile_error =
  err_kind :: compile_error_kind
  err_node_id :: string
  err_reason :: compile_reason
  err_data_path :: "string list"
  err_details :: "security_label option"

definition compile_error :: "compile_error_kind \<Rightarrow> string \<Rightarrow> compile_reason \<Rightarrow> string list \<Rightarrow> compile_error" where
  "compile_error k nid r path =
     \<lparr>err_kind = k, err_node_id = nid, err_reason = r, err_data_path = path, err_details = None\<rparr>"

definition error_invariant :: "compile_error \<Rightarrow> string" where
  "error_invariant err = invariant_of (err_kind err)"

text \<open>The renderer; the text of the reason is a parameter.\<close>

definition render_counter_example :: "(compile_reason \<Rightarrow> string) \<Rightarrow> compile_error \<Rightarrow> string" where
  "render_counter_example reason_text err =
     (if err_data_path err = [] then
        ''invariant '' @ error_invariant err @ '' ('' @ error_kind_value (err_kind err) @ ''): node='' @
        err_node_id err @ ''; '' @ reason_text (err_reason err)
      else
        ''invariant '' @ error_invariant err @ '' ('' @ error_kind_value (err_kind err) @ ''): path=['' @
        intersperse_concat '' -> '' (err_data_path err) @ ''], node='' @
        err_node_id err @ ''; '' @ reason_text (err_reason err))"

datatype compile_exn =
    ExnKey string            \<comment> \<open>\<open>KeyError\<close>\<close>
  | ExnCycle                 \<comment> \<open>\<open>RuntimeError\<close> of \<open>topological_order\<close>\<close>
  | ExnType                  \<comment> \<open>\<open>TypeError\<close>\<close>

type_synonym manifests = "(string, capability_manifest) dict"
type_synonym bindings = "(string, string) dict"

definition high_risk :: "effect_kind set" where
  "high_risk = {EK_WRITE, EK_DELETE, EK_PAYMENT, EK_PUBLISH}"

lemma mem_high_risk [simp]:
  "EK_WRITE \<in> high_risk" "EK_DELETE \<in> high_risk" "EK_PAYMENT \<in> high_risk" "EK_PUBLISH \<in> high_risk"
  "EK_READ \<notin> high_risk" "EK_NOTIFY \<notin> high_risk"
  by (simp_all add: high_risk_def)

subsection \<open>Approval gates\<close>

text \<open>
  The depth-first search from a gate. The stack is a Python list that grows at the end; here
  its top is the head, so the successors of a node are pushed in reverse.
\<close>

definition succs :: "candidate_edge list \<Rightarrow> string \<Rightarrow> string list" where
  "succs E u = map ce_to_node (filter (\<lambda>e. ce_from_node e = u) E)"

lemma succs_subset: "set (succs E u) \<subseteq> ce_to_node ` set E"
  by (auto simp: succs_def)

function dfs :: "candidate_edge list \<Rightarrow> string list \<Rightarrow> string set \<Rightarrow> string set" where
  "dfs E [] covered = covered"
| "dfs E (cur # stack) covered =
     (if cur \<in> covered then dfs E stack covered
      else dfs E (rev (succs E cur) @ stack) (insert cur covered))"
  by pat_completeness auto

termination
proof (relation "measures [\<lambda>(E, stack, covered). card ((set stack \<union> ce_to_node ` set E) - covered),
    \<lambda>(E, stack, covered). length stack]", goal_cases)
  case 1
  show ?case by simp
next
  case (2 E cur stack covered)
  then have "card ((set stack \<union> ce_to_node ` set E) - covered)
      \<le> card ((set (cur # stack) \<union> ce_to_node ` set E) - covered)"
    by (intro card_mono) auto
  then show ?case by (simp, linarith)
next
  case (3 E cur stack covered)
  have "card ((set (rev (succs E cur) @ stack) \<union> ce_to_node ` set E) - insert cur covered)
      < card ((set (cur # stack) \<union> ce_to_node ` set E) - covered)"
    using 3 succs_subset [of E cur] by (intro psubset_card_mono) auto
  then show ?case by simp
qed

lemma edge_rel_succs: "(u, v) \<in> edge_rel E \<longleftrightarrow> v \<in> set (succs E u)"
  by (auto simp: edge_rel_def succs_def)

text \<open>The loop invariant: what leaves the covered set is still on the stack.\<close>

lemma dfs_sound:
  "dfs E stack covered \<subseteq> covered \<union> (edge_rel E)\<^sup>* `` set stack"
proof (induction E stack covered rule: dfs.induct)
  case (1 E covered)
  then show ?case by simp
next
  case (2 E cur stack covered)
  have "(edge_rel E)\<^sup>* `` set (succs E cur) \<subseteq> (edge_rel E)\<^sup>* `` {cur}"
    by (auto simp: edge_rel_succs [symmetric] intro: converse_rtrancl_into_rtrancl)
  with 2 show ?case by (cases "cur \<in> covered") auto
qed

lemma dfs_complete:
  "(\<And>u v. u \<in> covered \<Longrightarrow> (u, v) \<in> edge_rel E \<Longrightarrow> v \<in> covered \<union> set stack) \<Longrightarrow>
   covered \<union> set stack \<subseteq> dfs E stack covered \<and> edge_rel E `` dfs E stack covered \<subseteq> dfs E stack covered"
proof (induction E stack covered rule: dfs.induct)
  case (1 E covered)
  then show ?case by auto
next
  case (2 E cur stack covered)
  show ?case
  proof (cases "cur \<in> covered")
    case True
    from "2.IH"(1) [OF True] "2.prems" True show ?thesis by (simp, blast)
  next
    case False
    have "v \<in> insert cur covered \<union> set (rev (succs E cur) @ stack)"
      if "u \<in> insert cur covered" "(u, v) \<in> edge_rel E" for u v
      using that "2.prems" [of u v] by (cases "u = cur") (auto simp: edge_rel_succs)
    from "2.IH"(2) [OF False this] False show ?thesis by simp
  qed
qed

lemma closed_rtrancl: "R `` S \<subseteq> S \<Longrightarrow> A \<subseteq> S \<Longrightarrow> R\<^sup>* `` A \<subseteq> S"
proof
  fix y assume cl: "R `` S \<subseteq> S" "A \<subseteq> S" and "y \<in> R\<^sup>* `` A"
  then obtain x where "(x, y) \<in> R\<^sup>*" "x \<in> S" by blast
  then show "y \<in> S" by (induction rule: rtrancl_induct) (use cl in auto)
qed

lemma dfs_reach: "dfs E [s] {} = (edge_rel E)\<^sup>* `` {s}"
proof
  show "dfs E [s] {} \<subseteq> (edge_rel E)\<^sup>* `` {s}" using dfs_sound [of E "[s]" "{}"] by simp
  have "{s} \<subseteq> dfs E [s] {}" "edge_rel E `` dfs E [s] {} \<subseteq> dfs E [s] {}"
    using dfs_complete [of "{}" E "[s]"] by auto
  then show "(edge_rel E)\<^sup>* `` {s} \<subseteq> dfs E [s] {}" by (intro closed_rtrancl)
qed

declare dfs.simps [simp del]

text \<open>The dictionary of the gates' cover sets, and whether one of them holds a node.\<close>

definition gates :: "normalized_graph \<Rightarrow> (string, string set) dict" where
  "gates g = map (\<lambda>(nid, n). (nid, dfs (ng_edges g) [nid] {}))
     (filter (\<lambda>(nid, n). cn_requires_approval (nn_node n)) (ng_nodes g))"

definition gated :: "normalized_graph \<Rightarrow> string \<Rightarrow> bool" where
  "gated g nid = list_ex (\<lambda>(_, covered). nid \<in> covered) (gates g)"

lemma gated_iff:
  "gated g nid \<longleftrightarrow> (\<exists>gate n. (gate, n) \<in> set (ng_nodes g) \<and> cn_requires_approval (nn_node n) \<and>
     (gate, nid) \<in> (edge_rel (ng_edges g))\<^sup>*)"
  by (simp add: gated_def gates_def list_ex_iff dfs_reach case_prod_unfold)

subsection \<open>Type checker\<close>

text \<open>
  \<open>predecessors[e.to_node].add(e.from_node)\<close> raises for a target that is no node; the map it
  builds is not read.
\<close>

definition type_check :: "normalized_graph \<Rightarrow> compile_exn + compile_error list" where
  "type_check g =
     (case find (\<lambda>e. ce_to_node e \<notin> set (keys (ng_nodes g))) (ng_edges g) of
        Some e \<Rightarrow> Inl (ExnKey (ce_to_node e))
      | None \<Rightarrow> Inr (concat (map (\<lambda>(nid, n).
          let declared_high = set (cn_declared_effect_kinds (nn_node n)) \<inter> high_risk in
          if declared_high = {} then []
          else if gated g nid then []
          else [compile_error HIGH_RISK_EFFECT_WITHOUT_APPROVAL nid (NoGateReaches declared_high)
                  [nid, ''approval_gate'']]) (ng_nodes g))))"

subsection \<open>Effect checker\<close>

text \<open>\<open>bindings.get(nid)\<close> looked up in the manifests; an empty id counts as none.\<close>

definition bound_manifest :: "manifests \<Rightarrow> bindings \<Rightarrow> string \<Rightarrow> (string \<times> capability_manifest) option" where
  "bound_manifest ms bs nid =
     (case dget bs nid of None \<Rightarrow> None | Some cap_id \<Rightarrow>
      if cap_id = [] then None else
      case dget ms cap_id of None \<Rightarrow> None | Some m \<Rightarrow> Some (cap_id, m))"

definition effect_check_node :: "manifests \<Rightarrow> normalized_graph \<Rightarrow> bindings \<Rightarrow>
    string \<times> normalized_node \<Rightarrow> compile_error list" where
  "effect_check_node ms g bs = (\<lambda>(nid, n).
     case bound_manifest ms bs nid of None \<Rightarrow> [] | Some (cap_id, m) \<Rightarrow>
     let cap_effect_kinds = eff_kind ` set (cm_declared_effects m);
         node_effect_kinds = set (cn_declared_effect_kinds (nn_node n));
         escalation = cap_effect_kinds - node_effect_kinds;
         declared_high = node_effect_kinds \<inter> high_risk
     in (if escalation \<noteq> {}
         then [compile_error EFFECT_ESCALATION nid (CapabilityEscalates cap_id escalation nid)
                 [nid, cap_id, ''declared_effects'']]
         else []) @
        (if declared_high \<noteq> {} \<and> \<not> gated g nid
         then [compile_error HIGH_RISK_EFFECT_WITHOUT_APPROVAL nid (NodeNoGate nid declared_high)
                 [nid, ''approval_gate'']]
         else []))"

definition effect_check :: "manifests \<Rightarrow> normalized_graph \<Rightarrow> bindings \<Rightarrow> compile_error list" where
  "effect_check ms g bs = concat (map (effect_check_node ms g bs) (ng_nodes g))"

subsection \<open>Delegation checker\<close>

definition delegation_check :: "normalized_graph \<Rightarrow> string \<Rightarrow> compile_error list" where
  "delegation_check g task_purpose_code = concat (map (\<lambda>(nid, n).
     if cn_purpose_code (nn_node n) \<noteq> task_purpose_code
     then [compile_error PURPOSE_ESCALATION nid
             (PurposeDiffers nid (cn_purpose_code (nn_node n)) task_purpose_code)
             [nid, ''purpose_code'']]
     else []) (ng_nodes g))"

subsection \<open>Information flow checker\<close>

definition public_research :: string where
  "public_research = ''public_research''"

type_synonym labels = "(string, security_label) dict"

fun node_label :: "security_label \<Rightarrow> security_label list \<Rightarrow> security_label" where
  "node_label initial [] = initial"
| "node_label initial (l # ls) = foldl join l ls"

fun flow_labels :: "(string, normalized_node) dict \<Rightarrow> security_label \<Rightarrow> string list \<Rightarrow> labels \<Rightarrow>
    compile_exn + labels" where
  "flow_labels nodes initial [] labels = Inr labels"
| "flow_labels nodes initial (nid # order) labels =
     (case dget nodes nid of None \<Rightarrow> Inl (ExnKey nid) | Some n \<Rightarrow>
      let inputs_labels =
            List.map_filter (\<lambda>r. dget labels (producer_node_id r)) (nn_input_refs n)
      in flow_labels nodes initial order (dset nid (node_label initial inputs_labels) labels))"

definition public_sink_errors :: "manifests \<Rightarrow> bindings \<Rightarrow> string \<times> security_label \<Rightarrow>
    compile_error list" where
  "public_sink_errors ms bs = (\<lambda>(nid, label).
     case bound_manifest ms bs nid of None \<Rightarrow> [] | Some (cap_id, m) \<Rightarrow>
     if cm_kind m \<noteq> CK_PUBLIC_MODEL then []
     else if class_order (classification label) > class_order DC_PUBLIC then
       (if nid = public_research then []
        else [(compile_error RESTRICTED_TO_PUBLIC nid
                 (WouldFlowToPublic (classification label) cap_id) [nid, cap_id])
              \<lparr>err_details := Some label\<rparr>])
     else [])"

definition trust_errors :: "manifests \<Rightarrow> bindings \<Rightarrow> candidate_edge list \<Rightarrow>
    string \<times> security_label \<Rightarrow> compile_error list" where
  "trust_errors ms bs edges = (\<lambda>(nid, label).
     if trust_order (source_trust label) = trust_order ST_RESTRICTED then
       concat (map (\<lambda>e.
         if ce_from_node e \<noteq> nid then []
         else case bound_manifest ms bs (ce_to_node e) of None \<Rightarrow> [] | Some (consumer, m) \<Rightarrow>
           if cm_kind m = CK_PUBLIC_MODEL \<and> ce_to_node e \<noteq> public_research
           then [compile_error TRUST_NOT_INHERITED (ce_to_node e) (UpstreamRestricted nid consumer)
                   [nid, ce_to_node e, consumer]]
           else []) edges)
     else [])"

definition flow_order :: "normalized_graph \<Rightarrow> compile_exn + string list" where
  "flow_order g = (case kahn (keys (ng_nodes g)) (ng_edges g) of
     None \<Rightarrow> Inl ExnCycle | Some order \<Rightarrow> Inr order)"

definition info_flow_check :: "manifests \<Rightarrow> normalized_graph \<Rightarrow> security_label \<Rightarrow> bindings \<Rightarrow>
    compile_exn + compile_error list" where
  "info_flow_check ms g initial bs =
     (case flow_order g of Inl x \<Rightarrow> Inl x | Inr order \<Rightarrow>
      case flow_labels (ng_nodes g) initial order [] of Inl x \<Rightarrow> Inl x | Inr labels \<Rightarrow>
      Inr (concat (map (public_sink_errors ms bs) labels) @
           concat (map (trust_errors ms bs (ng_edges g)) labels)))"

subsection \<open>The driver\<close>

record compile_result =
  cr_ok :: bool
  cr_errors :: "compile_error list"
  cr_graph :: "normalized_graph option"

text \<open>
  On a parse failure the handler calls \<open>CompileErrorKind(kind=...)\<close>; an \<open>Enum\<close> class takes the
  value positionally and has no keyword \<open>kind\<close>, so the handler itself raises \<open>TypeError\<close>.
\<close>

definition compile :: "manifests \<Rightarrow> task_template \<Rightarrow> task_contract \<Rightarrow> security_label \<Rightarrow> bindings \<Rightarrow>
    compile_exn + compile_result" where
  "compile ms t c initial bs =
     (case parse t c of Inl _ \<Rightarrow> Inl ExnType | Inr candidate \<Rightarrow>
      case normalize_graph candidate of Inl (KeyError k) \<Rightarrow> Inl (ExnKey k) | Inr g \<Rightarrow>
      case type_check g of Inl x \<Rightarrow> Inl x | Inr e1 \<Rightarrow>
      case info_flow_check ms g initial bs of Inl x \<Rightarrow> Inl x | Inr e2 \<Rightarrow>
      let all_errors = e1 @ e2 @ effect_check ms g bs @ delegation_check g (code (tc_purpose c))
      in if all_errors \<noteq> [] then Inr \<lparr>cr_ok = False, cr_errors = all_errors, cr_graph = None\<rparr>
         else Inr \<lparr>cr_ok = True, cr_errors = [], cr_graph = Some g\<rparr>)"

subsection \<open>Binding closure\<close>

definition human_approver :: string where
  "human_approver = ''human.approver''"

definition closure_node_errors :: "platform \<Rightarrow> manifests \<Rightarrow> bindings \<Rightarrow> bindings \<Rightarrow> string \<Rightarrow>
    compile_error list" where
  "closure_node_errors pf ms bs mbs nid =
     (case dget bs nid of
        None \<Rightarrow> [compile_error INFEASIBLE_BINDING nid (NoBinding nid) [nid, ''binding'']]
      | Some cap_id \<Rightarrow>
        if cap_id = human_approver then []
        else case dget ms cap_id of
          None \<Rightarrow> [compile_error AMBIENT_AUTHORITY nid (NotInRegistry nid cap_id)
                     [nid, cap_id, ''registry'']]
        | Some m \<Rightarrow>
          let bound = dget_default mbs nid [] in
          if bound \<noteq> [] \<and> bound \<noteq> manifest_id pf m
          then [compile_error AMBIENT_AUTHORITY nid (ManifestMismatch nid bound (manifest_id pf m))
                  [nid, ''manifest_id'']]
          else [])"

definition closure_edge_errors :: "bindings \<Rightarrow> candidate_edge \<Rightarrow> compile_error list" where
  "closure_edge_errors bs e =
     (if dget bs (ce_from_node e) = None
      then [compile_error AMBIENT_AUTHORITY (ce_from_node e)
              (EdgeOriginUnbound (ce_from_node e) (ce_to_node e))
              [ce_from_node e, ce_to_node e, ''binding'']]
      else []) @
     (if dget bs (ce_to_node e) = None
      then [compile_error AMBIENT_AUTHORITY (ce_to_node e)
              (EdgeTargetUnbound (ce_from_node e) (ce_to_node e))
              [ce_from_node e, ce_to_node e, ''binding'']]
      else [])"

record closure_result =
  cl_ok :: bool
  cl_errors :: "compile_error list"

definition closure_check :: "platform \<Rightarrow> manifests \<Rightarrow> normalized_graph \<Rightarrow> bindings \<Rightarrow> bindings \<Rightarrow>
    closure_result" where
  "closure_check pf ms g bs mbs =
     (let errors = concat (map (closure_node_errors pf ms bs mbs) (keys (ng_nodes g))) @
                   concat (map (closure_edge_errors bs) (ng_edges g))
      in \<lparr>cl_ok = (errors = []), cl_errors = errors\<rparr>)"

subsection \<open>What the checks accept\<close>

text \<open>Every label is a join of copies of the initial one, so its ranks are the initial ranks.\<close>

definition uniform :: "security_label \<Rightarrow> labels \<Rightarrow> bool" where
  "uniform l0 ls \<longleftrightarrow> (\<forall>p \<in> set ls.
     classification (snd p) = classification l0 \<and> source_trust (snd p) = source_trust l0)"

lemma node_label_uniform:
  assumes "\<forall>l \<in> set ls. classification l = classification l0 \<and> source_trust l = source_trust l0"
  shows "classification (node_label l0 ls) = classification l0"
    "source_trust (node_label l0 ls) = source_trust l0"
proof -
  have "classification (node_label l0 ls) = classification l0 \<and>
      source_trust (node_label l0 ls) = source_trust l0"
  proof (cases ls)
    case Nil
    then show ?thesis by simp
  next
    case (Cons x xs)
    then show ?thesis
      using classif.rank_foldl_attained [of x xs] trust.rank_foldl_attained [of x xs] assms
      by (metis node_label.simps(2))
  qed
  then show "classification (node_label l0 ls) = classification l0"
    "source_trust (node_label l0 ls) = source_trust l0" by auto
qed

lemma uniform_dset:
  assumes "dict_wf ls" "uniform l0 ls"
    "classification l = classification l0" "source_trust l = source_trust l0"
  shows "uniform l0 (dset k l ls)"
proof -
  have "v = l \<or> (k', v) \<in> set ls" if "(k', v) \<in> set (dset k l ls)" for k' v
  proof -
    from that dict_wf_dset [OF assms(1)] have "dget (dset k l ls) k' = Some v"
      by (simp only: dget_in_set)
    then show ?thesis using assms(1) by (auto simp only: dget_dset dget_in_set split: if_splits)
  qed
  with assms(2-4) show ?thesis by (fastforce simp: uniform_def)
qed

lemma flow_labels_ok:
  "dict_wf ls \<Longrightarrow> uniform l0 ls \<Longrightarrow> set order \<subseteq> set (keys nodes) \<Longrightarrow>
   \<exists>ls'. flow_labels nodes l0 order ls = Inr ls' \<and> dict_wf ls' \<and> uniform l0 ls' \<and>
     fst ` set ls' = fst ` set ls \<union> set order"
proof (induction order arbitrary: ls)
  case Nil
  then show ?case by simp
next
  case (Cons nid order)
  from Cons.prems(3) obtain n where n: "dget nodes nid = Some n"
    using in_keys_dget [of nid nodes] by auto
  let ?in = "List.map_filter (\<lambda>r. dget ls (producer_node_id r)) (nn_input_refs n)"
  have "\<forall>l \<in> set ?in. classification l = classification l0 \<and> source_trust l = source_trust l0"
    using Cons.prems(2) by (fastforce simp: uniform_def map_filter_def dest: map_of_SomeD)
  from uniform_dset [OF Cons.prems(1,2) node_label_uniform [OF this]]
  have u: "uniform l0 (dset nid (node_label l0 ?in) ls)" .
  from Cons.IH [OF dict_wf_dset [OF Cons.prems(1)] u] Cons.prems(3) obtain ls' where
    "flow_labels nodes l0 order (dset nid (node_label l0 ?in) ls) = Inr ls'" "dict_wf ls'"
    "uniform l0 ls'" "fst ` set ls' = fst ` set (dset nid (node_label l0 ?in) ls) \<union> set order"
    by auto
  with n show ?case by (auto simp: Let_def)
qed

text \<open>What the normalizer gives the checkers.\<close>

definition ngraph_wf :: "normalized_graph \<Rightarrow> bool" where
  "ngraph_wf g \<longleftrightarrow> dict_wf (ng_nodes g) \<and>
     (\<forall>e \<in> set (ng_edges g). ce_from_node e \<in> set (keys (ng_nodes g)) \<and>
        ce_to_node e \<in> set (keys (ng_nodes g))) \<and>
     acyclic (edge_rel (ng_edges g))"

lemma normalize_wf:
  assumes "graph_wf g" "normalize_graph g = Inr ng"
  shows "ngraph_wf ng"
proof -
  from normalize_eq [OF assms(1)] assms(2) have *: "keys (ng_nodes ng) = keys (cg_nodes g)"
      "ng_edges ng = merge_edges {} (cg_edges g)"
    by (metis sum.inject(2))+
  then show ?thesis using assms(1)
    unfolding ngraph_wf_def graph_wf_def set_merge_edges edge_rel_cong [OF set_merge_edges]
    by (simp add: set_merge_edges edge_rel_cong [OF set_merge_edges])
qed

lemma flow_order_ok:
  assumes "ngraph_wf g"
  obtains order where "flow_order g = Inr order" "set order = set (keys (ng_nodes g))"
proof -
  from assms have wf: "distinct (keys (ng_nodes g))" "\<forall>e \<in> set (ng_edges g).
      ce_from_node e \<in> set (keys (ng_nodes g)) \<and> ce_to_node e \<in> set (keys (ng_nodes g))"
    "acyclic (edge_rel (ng_edges g))"
    by (auto simp: ngraph_wf_def)
  from kahn_None_iff [OF wf(1,2)] wf(3) obtain order
    where k: "kahn (keys (ng_nodes g)) (ng_edges g) = Some order" by auto
  show thesis by (rule that [of order]) (use k kahn_Some(2) [OF wf(1,2) k] in \<open>simp_all add: flow_order_def\<close>)
qed

lemma type_check_ok:
  "ngraph_wf g \<Longrightarrow> \<exists>es. type_check g = Inr es \<and> (es = [] \<longleftrightarrow>
     (\<forall>(nid, n) \<in> set (ng_nodes g).
        set (cn_declared_effect_kinds (nn_node n)) \<inter> high_risk \<noteq> {} \<longrightarrow> gated g nid))"
proof -
  assume "ngraph_wf g"
  then have "find (\<lambda>e. ce_to_node e \<notin> set (keys (ng_nodes g))) (ng_edges g) = None"
    by (auto simp: find_None_iff ngraph_wf_def)
  moreover have "concat (map (\<lambda>(nid, n).
        if set (cn_declared_effect_kinds (nn_node n)) \<inter> high_risk = {} then []
        else if gated g nid then []
        else [compile_error HIGH_RISK_EFFECT_WITHOUT_APPROVAL nid
                (NoGateReaches (set (cn_declared_effect_kinds (nn_node n)) \<inter> high_risk))
                [nid, ''approval_gate'']]) (ng_nodes g)) = [] \<longleftrightarrow>
     (\<forall>(nid, n) \<in> set (ng_nodes g).
        set (cn_declared_effect_kinds (nn_node n)) \<inter> high_risk \<noteq> {} \<longrightarrow> gated g nid)"
    unfolding concat_eq_Nil_conv set_map ball_simps
    by (intro ball_cong refl) (auto split: if_splits)
  ultimately show ?thesis by (simp add: type_check_def Let_def)
qed

text \<open>Nodes whose bound capability is a public model, the exempted node id apart.\<close>

definition public_sink :: "manifests \<Rightarrow> bindings \<Rightarrow> string \<Rightarrow> bool" where
  "public_sink ms bs nid \<longleftrightarrow> nid \<noteq> public_research \<and>
     (\<exists>cap m. bound_manifest ms bs nid = Some (cap, m) \<and> cm_kind m = CK_PUBLIC_MODEL)"

lemma public_sink_errors_Nil:
  "public_sink_errors ms bs (nid, l) = [] \<longleftrightarrow>
     (public_sink ms bs nid \<longrightarrow> classification l = DC_PUBLIC)"
  by (auto simp: public_sink_errors_def public_sink_def split: option.splits)

lemma trust_errors_Nil:
  "trust_errors ms bs es (nid, l) = [] \<longleftrightarrow>
     (source_trust l = ST_RESTRICTED \<longrightarrow>
        (\<forall>e \<in> set es. ce_from_node e = nid \<longrightarrow> \<not> public_sink ms bs (ce_to_node e)))"
  by (fastforce simp: trust_errors_def public_sink_def simp del: trust_order.simps
      split: option.splits if_splits)

lemma info_flow_check_ok:
  assumes wf: "ngraph_wf g"
  shows "\<exists>es. info_flow_check ms g l0 bs = Inr es \<and> (es = [] \<longleftrightarrow>
     (\<forall>nid \<in> set (keys (ng_nodes g)). public_sink ms bs nid \<longrightarrow> classification l0 = DC_PUBLIC \<and>
        (source_trust l0 = ST_RESTRICTED \<longrightarrow> (\<forall>e \<in> set (ng_edges g). ce_to_node e \<noteq> nid))))"
proof -
  obtain order where order: "flow_order g = Inr order" "set order = set (keys (ng_nodes g))"
    by (rule flow_order_ok [OF wf])
  have "\<exists>ls. flow_labels (ng_nodes g) l0 order [] = Inr ls \<and> dict_wf ls \<and> uniform l0 ls \<and>
      fst ` set ls = fst ` set ([] :: labels) \<union> set order"
    by (rule flow_labels_ok) (use order in \<open>auto simp: uniform_def\<close>)
  then obtain ls where ls: "flow_labels (ng_nodes g) l0 order [] = Inr ls"
      "uniform l0 ls" "fst ` set ls = set (keys (ng_nodes g))"
    using order by auto
  have rank: "classification (snd p) = classification l0" "source_trust (snd p) = source_trust l0"
    if "p \<in> set ls" for p
    using ls(2) that by (auto simp: uniform_def)
  have "(\<forall>p \<in> set ls. public_sink_errors ms bs p = []) \<longleftrightarrow>
      (\<forall>p \<in> set ls. public_sink ms bs (fst p) \<longrightarrow> classification l0 = DC_PUBLIC)"
    using rank(1) public_sink_errors_Nil by (metis prod.collapse)
  moreover have "(\<forall>p \<in> set ls. trust_errors ms bs (ng_edges g) p = []) \<longleftrightarrow>
      (\<forall>p \<in> set ls. source_trust l0 = ST_RESTRICTED \<longrightarrow>
        (\<forall>e \<in> set (ng_edges g). ce_from_node e = fst p \<longrightarrow> \<not> public_sink ms bs (ce_to_node e)))"
    using rank(2) trust_errors_Nil by (metis prod.collapse)
  ultimately have eq: "(\<forall>p \<in> set ls. public_sink_errors ms bs p = []) \<and>
      (\<forall>p \<in> set ls. trust_errors ms bs (ng_edges g) p = []) \<longleftrightarrow>
      (\<forall>nid \<in> set (keys (ng_nodes g)). public_sink ms bs nid \<longrightarrow> classification l0 = DC_PUBLIC) \<and>
      (\<forall>nid \<in> set (keys (ng_nodes g)). source_trust l0 = ST_RESTRICTED \<longrightarrow>
        (\<forall>e \<in> set (ng_edges g). ce_from_node e = nid \<longrightarrow> \<not> public_sink ms bs (ce_to_node e)))"
    unfolding ls(3) [symmetric] by simp
  have edges: "ce_from_node e \<in> set (keys (ng_nodes g))" "ce_to_node e \<in> set (keys (ng_nodes g))"
    if "e \<in> set (ng_edges g)" for e using wf that by (auto simp: ngraph_wf_def)
  let ?es = "concat (map (public_sink_errors ms bs) ls) @
    concat (map (trust_errors ms bs (ng_edges g)) ls)"
  have "info_flow_check ms g l0 bs = Inr ?es" by (simp add: info_flow_check_def order(1) ls(1))
  moreover have "?es = [] \<longleftrightarrow>
      (\<forall>nid \<in> set (keys (ng_nodes g)). public_sink ms bs nid \<longrightarrow> classification l0 = DC_PUBLIC) \<and>
      (\<forall>nid \<in> set (keys (ng_nodes g)). source_trust l0 = ST_RESTRICTED \<longrightarrow>
        (\<forall>e \<in> set (ng_edges g). ce_from_node e = nid \<longrightarrow> \<not> public_sink ms bs (ce_to_node e)))"
    unfolding eq [symmetric] by (simp add: concat_eq_Nil_conv)
  moreover have "\<dots> \<longleftrightarrow> (\<forall>nid \<in> set (keys (ng_nodes g)). public_sink ms bs nid \<longrightarrow>
      classification l0 = DC_PUBLIC \<and>
      (source_trust l0 = ST_RESTRICTED \<longrightarrow> (\<forall>e \<in> set (ng_edges g). ce_to_node e \<noteq> nid)))"
    by (intro iffI conjI ballI impI) (use edges in blast)+
  ultimately show ?thesis by blast
qed

lemma effect_check_Nil:
  "effect_check ms g bs = [] \<longleftrightarrow> (\<forall>(nid, n) \<in> set (ng_nodes g). \<forall>cap m.
     bound_manifest ms bs nid = Some (cap, m) \<longrightarrow>
       eff_kind ` set (cm_declared_effects m) \<subseteq> set (cn_declared_effect_kinds (nn_node n)) \<and>
       (set (cn_declared_effect_kinds (nn_node n)) \<inter> high_risk \<noteq> {} \<longrightarrow> gated g nid))"
  unfolding effect_check_def effect_check_node_def concat_eq_Nil_conv Let_def set_map ball_simps
  by (intro ball_cong refl) (auto split: option.splits if_splits; blast)

lemma delegation_check_Nil:
  "delegation_check g p = [] \<longleftrightarrow>
     (\<forall>(nid, n) \<in> set (ng_nodes g). cn_purpose_code (nn_node n) = p)"
  unfolding delegation_check_def concat_eq_Nil_conv set_map ball_simps
  by (intro ball_cong refl) (auto split: if_splits)

lemma effect_check_Nil_gated:
  assumes "\<forall>(nid, n) \<in> set (ng_nodes g).
    set (cn_declared_effect_kinds (nn_node n)) \<inter> high_risk \<noteq> {} \<longrightarrow> gated g nid"
  shows "effect_check ms g bs = [] \<longleftrightarrow> (\<forall>(nid, n) \<in> set (ng_nodes g). \<forall>cap m.
     bound_manifest ms bs nid = Some (cap, m) \<longrightarrow>
       eff_kind ` set (cm_declared_effects m) \<subseteq> set (cn_declared_effect_kinds (nn_node n)))"
  unfolding effect_check_Nil by (intro ball_cong refl) (use assms in blast)

subsection \<open>Properties\<close>

text \<open>What an accepted plan satisfies, over the normalised graph.\<close>

definition plan_safe :: "manifests \<Rightarrow> normalized_graph \<Rightarrow> security_label \<Rightarrow> bindings \<Rightarrow> string \<Rightarrow> bool" where
  "plan_safe ms g l0 bs p \<longleftrightarrow>
     (\<forall>(nid, n) \<in> set (ng_nodes g).
        set (cn_declared_effect_kinds (nn_node n)) \<inter> high_risk \<noteq> {} \<longrightarrow> gated g nid) \<and>
     (\<forall>nid \<in> set (keys (ng_nodes g)). public_sink ms bs nid \<longrightarrow> classification l0 = DC_PUBLIC \<and>
        (source_trust l0 = ST_RESTRICTED \<longrightarrow> (\<forall>e \<in> set (ng_edges g). ce_to_node e \<noteq> nid))) \<and>
     (\<forall>(nid, n) \<in> set (ng_nodes g). \<forall>cap m. bound_manifest ms bs nid = Some (cap, m) \<longrightarrow>
        eff_kind ` set (cm_declared_effects m) \<subseteq> set (cn_declared_effect_kinds (nn_node n))) \<and>
     (\<forall>(nid, n) \<in> set (ng_nodes g). cn_purpose_code (nn_node n) = p)"

lemma compile_cases:
  assumes "parse t c = Inr cg"
  obtains g r where "normalize_graph cg = Inr g" "ngraph_wf g" "compile ms t c l0 bs = Inr r"
    "cr_ok r \<longleftrightarrow> plan_safe ms g l0 bs (code (tc_purpose c))"
    "cr_ok r \<longleftrightarrow> cr_errors r = []" "cr_graph r = (if cr_ok r then Some g else None)"
proof -
  have wf: "graph_wf cg" by (rule parse_Inr(2) [OF assms])
  then obtain g where g: "normalize_graph cg = Inr g" by (metis normalize_eq)
  have gwf: "ngraph_wf g" by (rule normalize_wf [OF wf g])
  obtain e1 where e1: "type_check g = Inr e1" "e1 = [] \<longleftrightarrow> (\<forall>(nid, n) \<in> set (ng_nodes g).
        set (cn_declared_effect_kinds (nn_node n)) \<inter> high_risk \<noteq> {} \<longrightarrow> gated g nid)"
    using type_check_ok [OF gwf] by blast
  obtain e2 where e2: "info_flow_check ms g l0 bs = Inr e2" "e2 = [] \<longleftrightarrow>
     (\<forall>nid \<in> set (keys (ng_nodes g)). public_sink ms bs nid \<longrightarrow> classification l0 = DC_PUBLIC \<and>
        (source_trust l0 = ST_RESTRICTED \<longrightarrow> (\<forall>e \<in> set (ng_edges g). ce_to_node e \<noteq> nid)))"
    using info_flow_check_ok [OF gwf] by blast
  let ?all = "e1 @ e2 @ effect_check ms g bs @ delegation_check g (code (tc_purpose c))"
  have "?all = [] \<longleftrightarrow> plan_safe ms g l0 bs (code (tc_purpose c))"
    unfolding plan_safe_def append_is_Nil_conv e1(2) e2(2) delegation_check_Nil
    using effect_check_Nil_gated [of g ms bs] by argo
  moreover have "compile ms t c l0 bs = Inr (if ?all \<noteq> []
      then \<lparr>cr_ok = False, cr_errors = ?all, cr_graph = None\<rparr>
      else \<lparr>cr_ok = True, cr_errors = [], cr_graph = Some g\<rparr>)"
    by (simp add: compile_def assms g e1(1) e2(1) Let_def)
  ultimately show thesis by (intro that [OF g gwf]) (assumption, auto)
qed

text \<open>
  The depth-first search both checkers run from an approval gate terminates with exactly
  the nodes reachable from the gate.
\<close>

theorem gate_search_is_reachability:
  "gated g nid \<longleftrightarrow> (\<exists>gate n. (gate, n) \<in> set (ng_nodes g) \<and> cn_requires_approval (nn_node n) \<and>
     (gate, nid) \<in> (edge_rel (ng_edges g))\<^sup>*)"
  by (rule gated_iff)

text \<open>
  C1. On every template the parser accepts the compiler returns a result (no exception
  escapes), its verdict is \<open>ok\<close> exactly when it reports no error, and it is \<open>ok\<close> exactly when
  every high-risk node lies behind an approval gate, no public model outside the exempted node
  receives data of a non-public classification or the output of a restricted-trust node, every
  bound capability declares only effects its node declares, and every node has the task's
  purpose.
\<close>

theorem compile_sound_and_complete:
  assumes "parse t c = Inr cg"
  shows "\<exists>g r. normalize_graph cg = Inr g \<and> compile ms t c l0 bs = Inr r \<and>
    (cr_ok r \<longleftrightarrow> cr_errors r = []) \<and>
    (cr_ok r \<longleftrightarrow>
      (\<forall>(nid, n) \<in> set (ng_nodes g).
         set (cn_declared_effect_kinds (nn_node n)) \<inter> high_risk \<noteq> {} \<longrightarrow> gated g nid) \<and>
      (\<forall>nid \<in> set (keys (ng_nodes g)). public_sink ms bs nid \<longrightarrow> classification l0 = DC_PUBLIC \<and>
         (source_trust l0 = ST_RESTRICTED \<longrightarrow> (\<forall>e \<in> set (ng_edges g). ce_to_node e \<noteq> nid))) \<and>
      (\<forall>(nid, n) \<in> set (ng_nodes g). \<forall>cap m. bound_manifest ms bs nid = Some (cap, m) \<longrightarrow>
         eff_kind ` set (cm_declared_effects m) \<subseteq> set (cn_declared_effect_kinds (nn_node n))) \<and>
      (\<forall>(nid, n) \<in> set (ng_nodes g). cn_purpose_code (nn_node n) = code (tc_purpose c)))"
proof -
  obtain g r where *: "normalize_graph cg = Inr g" "compile ms t c l0 bs = Inr r"
    "cr_ok r \<longleftrightarrow> plan_safe ms g l0 bs (code (tc_purpose c))" "cr_ok r \<longleftrightarrow> cr_errors r = []"
    by (rule compile_cases [OF assms])
  show ?thesis
    by (intro exI conjI) (fact *(1), fact *(2), fact *(4), fact *(3) [unfolded plan_safe_def])
qed

text \<open>
  A template the parser rejects does not give the documented \<open>ok=False\<close> result: the handler
  itself raises.
\<close>

theorem compile_rejects_by_raising:
  "parse t c = Inl err \<Longrightarrow> compile ms t c l0 bs = Inl ExnType"
  by (simp add: compile_def)

text \<open>
  The closure check accepts exactly the bindings that cover every node with the human gate
  or with a registered capability whose pinned manifest id, if any, is the current one; bound
  edge endpoints follow.
\<close>

theorem closure_check_correct:
  assumes "ngraph_wf g"
  shows "cl_ok (closure_check pf ms g bs mbs) \<longleftrightarrow>
    (\<forall>nid \<in> set (keys (ng_nodes g)). \<exists>cap. dget bs nid = Some cap \<and>
       (cap = human_approver \<or>
        (\<exists>m. dget ms cap = Some m \<and> dget_default mbs nid [] \<in> {[], manifest_id pf m})))"
proof -
  have node: "closure_node_errors pf ms bs mbs nid = [] \<longleftrightarrow> (\<exists>cap. dget bs nid = Some cap \<and>
       (cap = human_approver \<or>
        (\<exists>m. dget ms cap = Some m \<and> dget_default mbs nid [] \<in> {[], manifest_id pf m})))" for nid
    by (auto simp: closure_node_errors_def Let_def split: option.splits)
  have edge: "closure_edge_errors bs e = [] \<longleftrightarrow>
      dget bs (ce_from_node e) \<noteq> None \<and> dget bs (ce_to_node e) \<noteq> None" for e
    by (auto simp: closure_edge_errors_def)
  have "cl_ok (closure_check pf ms g bs mbs) \<longleftrightarrow>
      (\<forall>nid \<in> set (keys (ng_nodes g)). closure_node_errors pf ms bs mbs nid = []) \<and>
      (\<forall>e \<in> set (ng_edges g). closure_edge_errors bs e = [])"
    by (simp add: closure_check_def Let_def concat_eq_Nil_conv)
  moreover have "\<forall>e \<in> set (ng_edges g). ce_from_node e \<in> set (keys (ng_nodes g)) \<and>
      ce_to_node e \<in> set (keys (ng_nodes g))"
    using assms by (simp add: ngraph_wf_def)
  ultimately show ?thesis unfolding node edge by (metis option.distinct(1))
qed

subsection \<open>Concrete inputs\<close>

definition ex_purpose :: purpose where
  "ex_purpose = \<lparr>code = ''review'', purpose_description = []\<rparr>"

definition ex_node :: "string \<Rightarrow> effect list \<Rightarrow> bool \<Rightarrow> node_spec" where
  "ex_node nid effs approval = \<lparr>ns_node_id = nid, ns_name = nid, ns_requires_purpose = ex_purpose,
     ns_requires_views = [], ns_eligible_capability_kinds = [CK_PUBLIC_MODEL],
     ns_declared_effects = effs, ns_requires_approval = approval,
     ns_fallback_capability_id = None, ns_timeout_ms = 1000\<rparr>"

definition ex_template :: "node_spec list \<Rightarrow> edge_spec list \<Rightarrow> task_template" where
  "ex_template ns es = \<lparr>tt_template_id = ''t'', tt_name = ''t'', tt_description = [],
     tt_version = ''1'', tt_nodes = ns, tt_edges = es, tt_required_purposes = [],
     tt_max_runtime_ms = 1000\<rparr>"

definition ex_contract :: task_contract where
  "ex_contract = \<lparr>tc_contract_id = ''c'', tc_template_id = ''t'', tc_submitted_by = ''u'',
     tc_inputs = [], tc_purpose = ex_purpose, tc_requested_outputs = [], tc_budget_usd = 1,
     tc_region = ''local''\<rparr>"

definition ex_manifest :: "string \<Rightarrow> capability_kind \<Rightarrow> capability_manifest" where
  "ex_manifest cap k = \<lparr>cm_capability_id = cap, cm_name = cap, cm_kind = k, cm_version = ''1'',
     cm_description = [], cm_endpoint = [], cm_integration_level = IL_ENFORCE,
     cm_accepts_labels = [], cm_produces_labels = [], cm_declared_effects = [],
     cm_supports_idempotency = False, cm_supports_cancel = False, cm_supports_status_query = False,
     cm_cost_estimate_usd = 0, cm_p50_latency_ms = 0, cm_p95_latency_ms = 0, cm_tags = [],
     cm_egress_view_name = None\<rparr>"

definition ex_label :: "data_classification \<Rightarrow> security_label" where
  "ex_label c = \<lparr>classification = c, residency = local_residency, source_trust = ST_INTERNAL,
     retention_days = 30, owner = default_owner\<rparr>"

definition ex_edge :: "string \<Rightarrow> string \<Rightarrow> edge_spec" where
  "ex_edge a b = \<lparr>es_from_node = a, es_to_node = b, es_when = ''always''\<rparr>"

lemmas ex_defs = ex_purpose_def ex_node_def ex_template_def ex_contract_def ex_manifest_def
  ex_label_def ex_edge_def

text \<open>A payment behind an approval gate.\<close>

definition ex_pay :: task_template where
  "ex_pay = ex_template [ex_node ''gate'' [] True, ex_node ''pay'' [\<lparr>eff_kind = EK_PAYMENT, eff_target = None\<rparr>] False]
     [ex_edge ''gate'' ''pay'']"

lemma parse_ex_pay: "\<exists>cg. parse ex_pay ex_contract = Inr cg"
  by (simp add: parse_def Let_def ex_pay_def ex_defs candidate_nodes_def topological_order_def
      kahn_def candidate_of_def)

theorem parse_correct_witness:
  "\<exists>g. parse (ex_template [ex_node ''a'' [] False] []) ex_contract = Inr g"
  using conjunct1 [OF parse_correct [of "ex_template [ex_node ''a'' [] False] []" ex_contract]]
  by (simp add: ex_defs acyclic_def)

theorem normalize_parsed_witness:
  "\<exists>cg ng. parse ex_pay ex_contract = Inr cg \<and> normalize_graph cg = Inr ng"
proof -
  obtain cg where cg: "parse ex_pay ex_contract = Inr cg" using parse_ex_pay by blast
  from normalize_parsed [OF cg] cg show ?thesis by blast
qed

theorem compile_sound_and_complete_witness:
  "\<exists>r. compile [] ex_pay ex_contract (ex_label DC_RESTRICTED) [] = Inr r \<and>
     (cr_ok r \<longleftrightarrow> cr_errors r = [])"
proof -
  obtain cg where cg: "parse ex_pay ex_contract = Inr cg" using parse_ex_pay by blast
  obtain g r where "compile [] ex_pay ex_contract (ex_label DC_RESTRICTED) [] = Inr r"
      "cr_ok r \<longleftrightarrow> cr_errors r = []"
    using compile_sound_and_complete [OF cg, of "[]" "ex_label DC_RESTRICTED" "[]"]
    by (elim exE conjE) (rule that)
  then show ?thesis by blast
qed

theorem compile_rejects_by_raising_witness:
  "compile [] (ex_template [] [ex_edge ''a'' ''b'']) ex_contract (ex_label DC_PUBLIC) [] = Inl ExnType"
  by (rule compile_rejects_by_raising [of _ _ "EdgeFromUnknown ''a''"])
    (simp add: parse_def Let_def ex_defs candidate_nodes_def)

theorem closure_check_correct_witness:
  "\<not> cl_ok (closure_check ex_platform [] \<lparr>ng_template_id = [], ng_template_version = [],
     ng_nodes = [(''a'', \<lparr>nn_node = candidate_of (ex_node ''a'' [] False), nn_input_refs = []\<rparr>)], ng_edges = [], ng_purpose = []\<rparr> [(''a'', ''x'')] [])"
  by (subst closure_check_correct)
    (simp_all add: ngraph_wf_def edge_rel_def acyclic_def human_approver_def)

text \<open>
  The exemption of the node id \<open>public_research\<close> is unconditional: a plan that hands
  restricted data to a public model on that node compiles without error.
\<close>

theorem public_research_exempts_restricted:
  "\<exists>r. compile [(''m'', ex_manifest ''m'' CK_PUBLIC_MODEL)]
      (ex_template [ex_node public_research [] False] []) ex_contract (ex_label DC_RESTRICTED)
      [(public_research, ''m'')] = Inr r \<and> cr_ok r"
proof -
  have "\<exists>cg. parse (ex_template [ex_node public_research [] False] []) ex_contract = Inr cg \<and>
      normalize_graph cg = Inr \<lparr>ng_template_id = ''t'', ng_template_version = ''1'',
        ng_nodes = [(public_research, \<lparr>nn_node = candidate_of (ex_node public_research [] False),
          nn_input_refs = []\<rparr>)], ng_edges = [], ng_purpose = ''review''\<rparr>"
    by (simp add: parse_def Let_def ex_defs candidate_nodes_def topological_order_def
      kahn_def normalize_graph_def)
  then obtain cg where cg: "parse (ex_template [ex_node public_research [] False] []) ex_contract = Inr cg"
    "normalize_graph cg = Inr \<lparr>ng_template_id = ''t'', ng_template_version = ''1'',
        ng_nodes = [(public_research, \<lparr>nn_node = candidate_of (ex_node public_research [] False),
          nn_input_refs = []\<rparr>)], ng_edges = [], ng_purpose = ''review''\<rparr>" by blast
  show ?thesis
    by (rule compile_cases [OF cg(1)])
      (use cg(2) in \<open>fastforce simp: plan_safe_def ex_defs candidate_of_def public_sink_def
        bound_manifest_def\<close>)
qed

end
