(* ===== verification/Registry.thy ===== *)
theory Registry
  imports Checkers
begin

section \<open>Manifests, policy, routing and resolution\<close>

text \<open>
  \<open>orchestra/registry/\<close> (\<open>manifest_store.py\<close>, \<open>eligible.py\<close>, \<open>policy.py\<close>, \<open>router.py\<close>,
  \<open>bootstrap.py\<close>) and the plan-time resolver \<open>orchestra/compiler/resolver.py\<close>. The router takes
  the policy decision point as a function: the in-process engine of \<open>policy.py\<close> is one, the
  OPA backend another.
\<close>

subsection \<open>Manifest store\<close>

datatype registry_error =
    AlreadyRegistered string
  | UnknownCapability string
  | BadRule
  | NoEligibleKinds string        \<comment> \<open>node\<close>
  | RegistryKeyError string
  | RegistryCycle

definition store_add :: "manifests \<Rightarrow> capability_manifest \<Rightarrow> registry_error + manifests" where
  "store_add s m =
     (if cm_capability_id m \<in> set (keys s) then Inl (AlreadyRegistered (cm_capability_id m))
      else Inr (dset (cm_capability_id m) m s))"

fun store_of :: "manifests \<Rightarrow> capability_manifest list \<Rightarrow> registry_error + manifests" where
  "store_of s [] = Inr s"
| "store_of s (m # ms) = (case store_add s m of Inl err \<Rightarrow> Inl err | Inr s' \<Rightarrow> store_of s' ms)"

definition store_get :: "manifests \<Rightarrow> string \<Rightarrow> registry_error + capability_manifest" where
  "store_get s cid = (case dget s cid of None \<Rightarrow> Inl (UnknownCapability cid) | Some m \<Rightarrow> Inr m)"

definition store_all :: "manifests \<Rightarrow> capability_manifest list" where
  "store_all s = map snd s"

definition store_by_kind :: "manifests \<Rightarrow> string \<Rightarrow> capability_manifest list" where
  "store_by_kind s k = filter (\<lambda>m. kind_value (cm_kind m) = k) (map snd s)"

definition store_wf :: "manifests \<Rightarrow> bool" where
  "store_wf s \<longleftrightarrow> dict_wf s \<and> (\<forall>(k, m) \<in> set s. cm_capability_id m = k)"

lemma store_add_wf: "store_wf s \<Longrightarrow> store_add s m = Inr s' \<Longrightarrow> store_wf s'"
  by (auto simp: store_wf_def store_add_def dset_new split: if_splits)

subsection \<open>Eligible set\<close>

datatype score_reason = CostReason rat | P50Reason nat | InTenantTrust

record eligible_entry =
  ee_capability_id :: string
  ee_manifest :: capability_manifest
  ee_score :: rat
  ee_reasons :: "score_reason list"

record eligible_set =
  el_node_id :: string
  el_entries :: "eligible_entry list"

definition score_manifest :: "capability_manifest \<Rightarrow> rat \<times> score_reason list" where
  "score_manifest m =
     (let score = max 0 (1 - cm_cost_estimate_usd m);
          score = score + max 0 (1 - of_nat (cm_p50_latency_ms m) / 5000);
          reasons = [CostReason (cm_cost_estimate_usd m), P50Reason (cm_p50_latency_ms m)]
      in if cm_kind m \<in> {CK_LOCAL_MODEL, CK_A2A_AGENT}
         then (score + 5 / 100, reasons @ [InTenantTrust]) else (score, reasons))"

definition entry_of :: "capability_manifest \<Rightarrow> eligible_entry" where
  "entry_of m = \<lparr>ee_capability_id = cm_capability_id m, ee_manifest = m,
     ee_score = fst (score_manifest m), ee_reasons = snd (score_manifest m)\<rparr>"

definition structurally_eligible :: "node_spec \<Rightarrow> capability_manifest \<Rightarrow> bool" where
  "structurally_eligible n m \<longleftrightarrow>
     cm_kind m \<in> set (ns_eligible_capability_kinds n) \<and>
     \<not> (Some (cm_capability_id m) = ns_fallback_capability_id n \<and>
        length (ns_eligible_capability_kinds n) > 1) \<and>
     eff_kind ` set (cm_declared_effects m) \<subseteq> eff_kind ` set (ns_declared_effects n)"

definition entry_key :: "eligible_entry \<Rightarrow> rat \<times> string" where
  "entry_key en = (- ee_score en, ee_capability_id en)"

definition compute_eligible_set :: "node_spec \<Rightarrow> manifests \<Rightarrow> registry_error + eligible_set" where
  "compute_eligible_set n s =
     (if ns_eligible_capability_kinds n = [] then Inl (NoEligibleKinds (ns_node_id n))
      else Inr \<lparr>el_node_id = ns_node_id n,
                el_entries = sort_key entry_key
                  (map entry_of (filter (structurally_eligible n) (store_all s)))\<rparr>)"

definition capability_ids :: "eligible_set \<Rightarrow> string list" where
  "capability_ids es = map ee_capability_id (el_entries es)"

subsection \<open>Policy engine\<close>

text \<open>The dictionary \<open>PolicyRequest.to_dict\<close> hands to the predicates.\<close>

record policy_ctx =
  pc_node_id :: string
  pc_node_requires_approval :: bool
  pc_node_eligible_kinds :: "capability_kind list"
  pc_node_effects :: "effect list"
  pc_capability_id :: string
  pc_capability_kind :: capability_kind
  pc_capability_endpoint :: string
  pc_capability_effects :: "effect list"
  pc_data_classification :: data_classification
  pc_data_residency :: string
  pc_purpose_code :: string
  pc_region :: string
  pc_budget_remaining_usd :: rat

definition policy_ctx_of :: "node_spec \<Rightarrow> capability_manifest \<Rightarrow> security_label \<Rightarrow> string \<Rightarrow> string \<Rightarrow>
    rat \<Rightarrow> policy_ctx" where
  "policy_ctx_of n m label purpose_code region budget = \<lparr>
     pc_node_id = ns_node_id n,
     pc_node_requires_approval = ns_requires_approval n,
     pc_node_eligible_kinds = ns_eligible_capability_kinds n,
     pc_node_effects = ns_declared_effects n,
     pc_capability_id = cm_capability_id m,
     pc_capability_kind = cm_kind m,
     pc_capability_endpoint = cm_endpoint m,
     pc_capability_effects = cm_declared_effects m,
     pc_data_classification = classification label,
     pc_data_residency = residency label,
     pc_purpose_code = purpose_code,
     pc_region = region,
     pc_budget_remaining_usd = budget\<rparr>"

record policy_decision =
  pd_allow :: bool
  pd_reason :: string
  pd_invariant :: string
  pd_rule_id :: string

text \<open>A predicate may raise; the left summand is the exception's type and text.\<close>

record policy_rule =
  ru_id :: string
  ru_when :: "policy_ctx \<Rightarrow> string + bool"
  ru_decision :: string
  ru_reason :: string
  ru_invariant :: string

record raw_rule =
  rr_id :: "string option"
  rr_when :: "(policy_ctx \<Rightarrow> string + bool) option"
  rr_decision :: "string option"
  rr_reason :: "string option"
  rr_invariant :: "string option"

definition add_rule :: "policy_rule list \<Rightarrow> raw_rule \<Rightarrow> registry_error + policy_rule list" where
  "add_rule rules r =
     (case (rr_id r, rr_when r, rr_decision r) of
        (Some i, Some w, Some d) \<Rightarrow> Inr (rules @ [\<lparr>ru_id = i, ru_when = w, ru_decision = d,
           ru_reason = (case rr_reason r of None \<Rightarrow> [] | Some x \<Rightarrow> x),
           ru_invariant = (case rr_invariant r of None \<Rightarrow> [] | Some x \<Rightarrow> x)\<rparr>])
      | _ \<Rightarrow> Inl BadRule)"

definition default_deny :: policy_decision where
  "default_deny = \<lparr>pd_allow = False, pd_reason = ''no policy rule matched (default deny)'',
     pd_invariant = ''8'', pd_rule_id = ''default-deny''\<rparr>"

fun decide :: "policy_rule list \<Rightarrow> policy_ctx \<Rightarrow> policy_decision" where
  "decide [] ctx = default_deny"
| "decide (r # rules) ctx =
     (case ru_when r ctx of
        Inl exn \<Rightarrow> \<lparr>pd_allow = False, pd_reason = ''rule '' @ ru_id r @ '' raised '' @ exn,
                     pd_invariant = ru_invariant r, pd_rule_id = ru_id r\<rparr>
      | Inr True \<Rightarrow> \<lparr>pd_allow = (ru_decision r = ''allow''), pd_reason = ru_reason r,
                     pd_invariant = ru_invariant r, pd_rule_id = ru_id r\<rparr>
      | Inr False \<Rightarrow> decide rules ctx)"

definition deny_rule :: "string \<Rightarrow> string \<Rightarrow> string \<Rightarrow> (policy_ctx \<Rightarrow> bool) \<Rightarrow> policy_rule" where
  "deny_rule i ivt reason w =
     \<lparr>ru_id = i, ru_when = (\<lambda>c. Inr (w c)), ru_decision = ''deny'', ru_reason = reason,
      ru_invariant = ivt\<rparr>"

definition is_public_model :: "policy_ctx \<Rightarrow> bool" where
  "is_public_model c \<longleftrightarrow> pc_capability_kind c = CK_PUBLIC_MODEL"

definition default_p0_rules :: "policy_rule list" where
  "default_p0_rules = [
     deny_rule ''no-restricted-to-public'' ''1''
       ''restricted data must not flow to a public-model adapter''
       (\<lambda>c. pc_data_classification c = DC_RESTRICTED \<and> is_public_model c),
     deny_rule ''internal-to-public-needs-public-research'' ''1''
       ''internal data can only flow to public-model via a public-research node''
       (\<lambda>c. pc_data_classification c = DC_INTERNAL \<and> is_public_model c \<and>
             pc_node_id c \<noteq> public_research),
     deny_rule ''kind-mismatch'' ''3'' ''capability kind not in node's eligible set''
       (\<lambda>c. pc_capability_kind c \<notin> set (pc_node_eligible_kinds c)),
     deny_rule ''effect-escalation'' ''20''
       ''capability declares effects the node did not declare''
       (\<lambda>c. list_ex (\<lambda>e. eff_kind e \<notin> eff_kind ` set (pc_node_effects c)) (pc_capability_effects c)),
     deny_rule ''residency-mismatch'' ''13'' ''data residency and run region are incompatible''
       (\<lambda>c. pc_data_residency c \<notin> {''local'', ''public'', pc_region c}),
     deny_rule ''budget-exceeded'' ''10'' ''capability cost exceeds remaining budget''
       (\<lambda>c. pc_budget_remaining_usd c < 0),
     \<lparr>ru_id = ''default-allow'', ru_when = (\<lambda>c. Inr True), ru_decision = ''allow'',
      ru_reason = ''no deny rule matched'', ru_invariant = ''0''\<rparr>]"

text \<open>First match wins; an exception or no match denies.\<close>

lemma decide_allow_iff:
  "pd_allow (decide rules ctx) \<longleftrightarrow> (\<exists>i < length rules.
     ru_when (rules ! i) ctx = Inr True \<and> ru_decision (rules ! i) = ''allow'' \<and>
     (\<forall>j < i. ru_when (rules ! j) ctx = Inr False))"
proof (induction rules)
  case Nil
  then show ?case by (simp add: default_deny_def)
next
  case (Cons r rules)
  have ex: "(\<exists>i < length (r # rules). P i) \<longleftrightarrow> P 0 \<or> (\<exists>i < length rules. P (Suc i))" for P
    using Ex_less_Suc2 [of "length rules" P] by simp
  have all: "(\<forall>j < Suc i. P j) \<longleftrightarrow> P 0 \<and> (\<forall>j < i. P (Suc j))" for P and i :: nat
    by (rule All_less_Suc2)
  show ?case
  proof (cases "ru_when r ctx")
    case (Inl x)
    then show ?thesis unfolding ex by (simp add: all)
  next
    case (Inr b)
    then show ?thesis using Cons.IH unfolding ex by (cases b) (simp_all add: all)
  qed
qed

definition default_permits :: "policy_ctx \<Rightarrow> bool" where
  "default_permits c \<longleftrightarrow>
     \<not> (pc_data_classification c = DC_RESTRICTED \<and> pc_capability_kind c = CK_PUBLIC_MODEL) \<and>
     \<not> (pc_data_classification c = DC_INTERNAL \<and> pc_capability_kind c = CK_PUBLIC_MODEL \<and>
        pc_node_id c \<noteq> public_research) \<and>
     pc_capability_kind c \<in> set (pc_node_eligible_kinds c) \<and>
     eff_kind ` set (pc_capability_effects c) \<subseteq> eff_kind ` set (pc_node_effects c) \<and>
     pc_data_residency c \<in> {''local'', ''public'', pc_region c} \<and>
     0 \<le> pc_budget_remaining_usd c"

lemma decide_default: "pd_allow (decide default_p0_rules c) \<longleftrightarrow> default_permits c"
proof -
  let ?r1 = "pc_data_classification c = DC_RESTRICTED \<and> pc_capability_kind c = CK_PUBLIC_MODEL"
    and ?r2 = "pc_data_classification c = DC_INTERNAL \<and> pc_capability_kind c = CK_PUBLIC_MODEL \<and>
        pc_node_id c \<noteq> public_research"
    and ?r3 = "pc_capability_kind c \<in> set (pc_node_eligible_kinds c)"
    and ?r4 = "eff_kind ` set (pc_capability_effects c) \<subseteq> eff_kind ` set (pc_node_effects c)"
    and ?r5 = "pc_data_residency c \<in> {''local'', ''public'', pc_region c}"
    and ?r6 = "0 \<le> pc_budget_remaining_usd c"
  have e: "list_ex (\<lambda>e. eff_kind e \<notin> eff_kind ` set (pc_node_effects c)) (pc_capability_effects c)
      \<longleftrightarrow> \<not> ?r4" by (auto simp: list_ex_iff)
  have b: "pc_budget_remaining_usd c < 0 \<longleftrightarrow> \<not> ?r6" by auto
  show ?thesis
    unfolding default_p0_rules_def deny_rule_def is_public_model_def decide.simps default_permits_def
    by (simp only: policy_rule.simps sum.case e b)
      (cases "?r1"; cases "?r2"; cases "?r3"; cases "?r4"; cases "?r5"; cases "?r6";
       simp only: HOL.simp_thms bool.case policy_decision.simps; simp)
qed

subsection \<open>Router\<close>

record routing_result =
  rt_decision :: routing_decision
  rt_denied :: "(string \<times> string) list"

text \<open>The loop over the entries: the first allowed one, or every denial and the last reason.\<close>

fun try_entries :: "(capability_manifest \<Rightarrow> policy_decision) \<Rightarrow> eligible_entry list \<Rightarrow>
    (string \<times> string) list \<Rightarrow> string option \<Rightarrow>
    ((string \<times> string) list \<times> string option) +
    (eligible_entry \<times> policy_decision \<times> (string \<times> string) list)" where
  "try_entries dec [] denied why = Inl (denied, why)"
| "try_entries dec (en # ens) denied why =
     (let d = dec (ee_manifest en) in
      if pd_allow d then Inr (en, d, denied)
      else try_entries dec ens (denied @ [(ee_capability_id en, pd_reason d)]) (Some (pd_reason d)))"

definition route :: "platform \<Rightarrow> (policy_ctx \<Rightarrow> policy_decision) \<Rightarrow> manifests \<Rightarrow> int \<Rightarrow> node_spec \<Rightarrow>
    security_label \<Rightarrow> string \<Rightarrow> string \<Rightarrow> rat \<Rightarrow> registry_error + routing_result" where
  "route pf pdp s now n label purpose_code region budget =
     (case compute_eligible_set n s of Inl err \<Rightarrow> Inl err | Inr eligible \<Rightarrow>
      case try_entries (\<lambda>m. pdp (policy_ctx_of n m label purpose_code region budget))
             (el_entries eligible) [] None of
        Inr (en, d, denied) \<Rightarrow> Inr \<lparr>rt_decision = \<lparr>
            rd_node_id = ns_node_id n,
            rd_chosen_capability_id = ee_capability_id en,
            rd_chosen_manifest_id = manifest_id pf (ee_manifest en),
            rd_eligible_set = capability_ids eligible,
            rd_rejected = dmerge [] denied,
            rd_rationale = Picked (ee_capability_id en) (pd_reason d) (ee_score en) (pd_rule_id d),
            rd_decided_at = now\<rparr>,
          rt_denied = denied\<rparr>
      | Inl (denied, why) \<Rightarrow>
          let decision = (\<lambda>cid mid rat. \<lparr>
            rd_node_id = ns_node_id n,
            rd_chosen_capability_id = cid,
            rd_chosen_manifest_id = mid,
            rd_eligible_set = capability_ids eligible,
            rd_rejected = dmerge [] denied,
            rd_rationale = rat,
            rd_decided_at = now\<rparr>) in
          (case ns_fallback_capability_id n of
             Some fb \<Rightarrow>
               (if fb \<noteq> [] \<and> fb \<in> set (keys s) then
                  (case store_get s fb of Inl err \<Rightarrow> Inl err | Inr m \<Rightarrow>
                   Inr \<lparr>rt_decision = decision (cm_capability_id m) (manifest_id pf m)
                          (UsedFallback (cm_capability_id m) why), rt_denied = denied\<rparr>)
                else Inr \<lparr>rt_decision = decision [] []
                       (RoutingFailed (case why of None \<Rightarrow> ''no eligible candidates'' | Some r \<Rightarrow> r)),
                     rt_denied = denied\<rparr>)
           | None \<Rightarrow> Inr \<lparr>rt_decision = decision [] []
                       (RoutingFailed (case why of None \<Rightarrow> ''no eligible candidates'' | Some r \<Rightarrow> r)),
                     rt_denied = denied\<rparr>))"

lemma try_entries_Inr:
  "try_entries dec ens denied why = Inr (en, d, denied') \<Longrightarrow>
   \<exists>pre post. ens = pre @ en # post \<and> d = dec (ee_manifest en) \<and> pd_allow d \<and>
     (\<forall>en' \<in> set pre. \<not> pd_allow (dec (ee_manifest en')))"
proof (induction dec ens denied why rule: try_entries.induct)
  case (1 dec denied why)
  then show ?case by simp
next
  case (2 dec e ens denied why)
  show ?case
  proof (cases "pd_allow (dec (ee_manifest e))")
    case True
    with "2.prems" show ?thesis
      by - (rule exI [of _ "[]"], rule exI [of _ ens], auto simp: Let_def)
  next
    case False
    with "2.IH" [OF refl False] "2.prems" obtain pre post where
      "ens = pre @ en # post" "d = dec (ee_manifest en)" "pd_allow d"
      "\<forall>en' \<in> set pre. \<not> pd_allow (dec (ee_manifest en'))" by (auto simp: Let_def)
    with False show ?thesis by (intro exI [of _ "e # pre"] exI [of _ post]) auto
  qed
qed

lemma try_entries_Inl:
  "try_entries dec ens denied why = Inl (denied', why') \<Longrightarrow>
   \<forall>en \<in> set ens. \<not> pd_allow (dec (ee_manifest en))"
  by (induction dec ens denied why rule: try_entries.induct) (auto simp: Let_def split: if_splits)

lemma try_entries_Inl_iff:
  "(\<exists>x. try_entries dec ens denied why = Inl x) \<longleftrightarrow>
   (\<forall>en \<in> set ens. \<not> pd_allow (dec (ee_manifest en)))"
  by (induction dec ens denied why rule: try_entries.induct) (auto simp: Let_def)

text \<open>
  What the router relies on: a decision point that allows exactly the requests its policy
  permits.
\<close>

locale decision_point =
  fixes pdp :: "policy_ctx \<Rightarrow> policy_decision" and permits :: "policy_ctx \<Rightarrow> bool"
  assumes allow_iff: "pd_allow (pdp c) \<longleftrightarrow> permits c"
begin

lemma route_cases:
  assumes "route pf pdp s now n label p region budget = Inr r" "store_wf s"
  defines "ok \<equiv> \<lambda>m. permits (policy_ctx_of n m label p region budget)"
  obtains (picked) es pre en post where "compute_eligible_set n s = Inr es"
      "el_entries es = pre @ en # post" "ok (ee_manifest en)"
      "\<forall>en' \<in> set pre. \<not> ok (ee_manifest en')"
      "rd_chosen_capability_id (rt_decision r) = ee_capability_id en"
      "rd_chosen_manifest_id (rt_decision r) = manifest_id pf (ee_manifest en)"
  | (fallback) es m where "compute_eligible_set n s = Inr es"
      "\<forall>en \<in> set (el_entries es). \<not> ok (ee_manifest en)"
      "ns_fallback_capability_id n = Some (cm_capability_id m)"
      "dget s (cm_capability_id m) = Some m"
      "rd_chosen_capability_id (rt_decision r) = cm_capability_id m"
      "rd_chosen_manifest_id (rt_decision r) = manifest_id pf m"
  | (failed) es where "compute_eligible_set n s = Inr es"
      "\<forall>en \<in> set (el_entries es). \<not> ok (ee_manifest en)"
      "rd_chosen_capability_id (rt_decision r) = []"
proof -
  let ?dec = "\<lambda>m. pdp (policy_ctx_of n m label p region budget)"
  from assms(1) obtain es where es: "compute_eligible_set n s = Inr es"
    by (auto simp: route_def split: sum.splits)
  have ok: "pd_allow (?dec m) \<longleftrightarrow> ok m" for m by (simp add: allow_iff ok_def)
  show thesis
  proof (cases "try_entries ?dec (el_entries es) [] None")
    case (Inr x)
    obtain en d denied where x: "x = (en, d, denied)" by (cases x) auto
    from try_entries_Inr [OF Inr [unfolded x]] obtain pre post where
      "el_entries es = pre @ en # post" "ok (ee_manifest en)"
      "\<forall>en' \<in> set pre. \<not> ok (ee_manifest en')" by (auto simp: ok)
    with assms(1) es Inr x show thesis by (intro picked [of es pre en post]) (auto simp: route_def)
  next
    case (Inl x)
    obtain denied why where x: "x = (denied, why)" by (cases x) auto
    from try_entries_Inl [OF Inl [unfolded x]]
    have no: "\<forall>en \<in> set (el_entries es). \<not> ok (ee_manifest en)" by (simp add: ok)
    show thesis
    proof (cases "\<exists>fb m. ns_fallback_capability_id n = Some fb \<and> fb \<noteq> [] \<and> dget s fb = Some m")
      case True
      then obtain fb m where fb: "ns_fallback_capability_id n = Some fb" "fb \<noteq> []" "dget s fb = Some m"
        by blast
      moreover have "cm_capability_id m = fb"
        using assms(2) map_of_SomeD [OF fb(3)] by (auto simp: store_wf_def)
      ultimately show thesis
        using assms(1) es Inl x no dget_Some_in_keys [OF fb(3)]
        by (intro fallback [of es m]) (auto simp: route_def Let_def store_get_def)
    next
      case False
      then have "\<not> (\<exists>fb. ns_fallback_capability_id n = Some fb \<and> fb \<noteq> [] \<and> fb \<in> set (keys s))"
        using in_keys_dget by metis
      with assms(1) es Inl x no show thesis
        by (intro failed [of es]) (auto simp: route_def Let_def split: option.splits if_splits)
    qed
  qed
qed

end

text \<open>A decision point with no more known of it permits what it allows.\<close>

interpretation raw: decision_point pdp "\<lambda>c. pd_allow (pdp c)" for pdp
  by unfold_locales (rule refl)

interpretation p0: decision_point "decide default_p0_rules" default_permits
  by unfold_locales (rule decide_default)

subsection \<open>The built-in manifests\<close>

definition default_label :: "data_classification \<Rightarrow> string \<Rightarrow> source_trust \<Rightarrow> nat \<Rightarrow> security_label" where
  "default_label c res trust days = \<lparr>classification = c, residency = res, source_trust = trust,
     retention_days = days, owner = ''tenant:demo''\<rparr>"

definition public_label :: security_label where
  "public_label = default_label DC_PUBLIC ''public'' ST_PUBLIC 7"

definition internal_label :: security_label where
  "internal_label = default_label DC_INTERNAL ''local'' ST_INTERNAL 30"

definition restricted_label :: security_label where
  "restricted_label = default_label DC_RESTRICTED ''local'' ST_INTERNAL 365"

text \<open>The constructor call, with the defaults of \<open>CapabilityManifest\<close> for what it leaves out.\<close>

definition builtin :: "string \<Rightarrow> string \<Rightarrow> capability_kind \<Rightarrow> string \<Rightarrow> security_label list \<Rightarrow>
    security_label list \<Rightarrow> effect \<Rightarrow> rat \<Rightarrow> nat \<Rightarrow> nat \<Rightarrow> (string, string) dict \<Rightarrow> string option \<Rightarrow>
    capability_manifest" where
  "builtin cid name k ep acc prods eff cost p50 p95 tags view = \<lparr>
     cm_capability_id = cid, cm_name = name, cm_kind = k, cm_version = ''0.1.0'',
     cm_description = [], cm_endpoint = ep, cm_integration_level = IL_ENFORCE,
     cm_accepts_labels = acc, cm_produces_labels = prods, cm_declared_effects = [eff],
     cm_supports_idempotency = True, cm_supports_cancel = False, cm_supports_status_query = True,
     cm_cost_estimate_usd = cost, cm_p50_latency_ms = p50, cm_p95_latency_ms = p95,
     cm_tags = tags, cm_egress_view_name = view\<rparr>"

definition read_effect :: effect where
  "read_effect = \<lparr>eff_kind = EK_READ, eff_target = None\<rparr>"

definition default_manifests :: "(string, string) dict \<Rightarrow> capability_manifest list" where
  "default_manifests endpoints = [
     builtin ''local.contract-extractor'' ''Local Contract Fact Extractor'' CK_LOCAL_MODEL
       (dget_default endpoints ''local.contract-extractor'' ''http://127.0.0.1:8101/v1/extract'')
       [restricted_label, internal_label] [internal_label] read_effect 0 200 600
       [(''model'', ''deterministic-extractor-v1''), (''in_repo'', ''true'')] None,
     builtin ''public.openai-compat'' ''Public OpenAI-Compatible Research'' CK_PUBLIC_MODEL
       (dget_default endpoints ''public.openai-compat'' ''http://127.0.0.1:8102/v1/chat/completions'')
       [public_label] [public_label] read_effect (2 / 1000) 1500 3500
       [(''model'', ''demo-openai-compat''), (''max_tokens'', ''256'')] (Some ''public-research''),
     builtin ''a2a.reference-agent'' ''In-Repo A2A Reference Agent'' CK_A2A_AGENT
       (dget_default endpoints ''a2a.reference-agent'' ''http://127.0.0.1:8103/a2a/v1'')
       [public_label] [public_label] read_effect (1 / 1000) 900 2500
       [(''agent_card'', ''/.well-known/agent.json'')] (Some ''a2a-reference''),
     builtin ''sink.mock-procurement'' ''Mock Procurement Sink'' CK_SINK
       (dget_default endpoints ''sink.mock-procurement'' ''http://127.0.0.1:8104/sink'')
       [internal_label, public_label] [public_label]
       \<lparr>eff_kind = EK_WRITE, eff_target = Some ''mock-procurement''\<rparr> 0 50 150
       [(''synthetic_only'', ''true'')] None,
     builtin ''tool.contract-passthrough'' ''Contract passthrough tool (in-process)'' CK_TOOL
       ''inproc:contract-passthrough''
       [restricted_label, internal_label, public_label] [internal_label] read_effect 0 5 20
       [(''purpose'', ''lift the contract text from initial_inputs into the node_results bus'')] None]"

definition load_default_manifests :: "(string, string) dict \<Rightarrow> registry_error + manifests" where
  "load_default_manifests endpoints = store_of [] (default_manifests endpoints)"

subsection \<open>Resolver\<close>

text \<open>
  The constructor's \<open>store or load_default_manifests()\<close>: a store with no manifest is false, so
  it is replaced too.
\<close>

definition resolver_store :: "manifests option \<Rightarrow> registry_error + manifests" where
  "resolver_store store = (case store of None \<Rightarrow> load_default_manifests []
     | Some s \<Rightarrow> if s = [] then load_default_manifests [] else Inr s)"

record resolver_result =
  rs_ok :: bool
  rs_bindings :: bindings
  rs_manifest_bindings :: bindings
  rs_eligible_sets :: "(string, eligible_set) dict"
  rs_errors :: "compile_error list"
  rs_fallback_used :: bindings

definition spec_of :: "task_template option \<Rightarrow> candidate_node \<Rightarrow> registry_error + node_spec" where
  "spec_of template n = (case template of
     Some t \<Rightarrow> (case template_node t (cn_node_id n) of
        Inl (KeyError k) \<Rightarrow> Inl (RegistryKeyError k) | Inr spec \<Rightarrow> Inr spec)
   | None \<Rightarrow> Inr \<lparr>
       ns_node_id = cn_node_id n, ns_name = cn_name n,
       ns_requires_purpose = \<lparr>code = cn_requires_purpose n, purpose_description = []\<rparr>,
       ns_requires_views = [],
       ns_eligible_capability_kinds = cn_eligible_capability_kinds n,
       ns_declared_effects = map (\<lambda>k. \<lparr>eff_kind = k, eff_target = None\<rparr>) (cn_declared_effect_kinds n),
       ns_requires_approval = cn_requires_approval n,
       ns_fallback_capability_id = cn_fallback_capability_id n,
       ns_timeout_ms = cn_timeout_ms n\<rparr>)"

definition resolve_node :: "platform \<Rightarrow> (policy_ctx \<Rightarrow> policy_decision) \<Rightarrow> manifests \<Rightarrow> int \<Rightarrow>
    normalized_graph \<Rightarrow> security_label \<Rightarrow> string \<Rightarrow> rat \<Rightarrow> task_template option \<Rightarrow>
    string \<Rightarrow> resolver_result \<Rightarrow> registry_error + resolver_result" where
  "resolve_node pf pdp s now g label region budget template nid acc =
     (case dget (ng_nodes g) nid of None \<Rightarrow> Inl (RegistryKeyError nid) | Some nn \<Rightarrow>
      let n = nn_node nn in
      if CK_HUMAN \<in> set (cn_eligible_capability_kinds n) then
        Inr (acc\<lparr>rs_bindings := dset nid human_approver (rs_bindings acc),
                 rs_manifest_bindings := dset nid ''manifest:human-approver'' (rs_manifest_bindings acc),
                 rs_eligible_sets := dset nid \<lparr>el_node_id = nid, el_entries = []\<rparr> (rs_eligible_sets acc)\<rparr>)
      else case spec_of template n of Inl err \<Rightarrow> Inl err | Inr spec \<Rightarrow>
      case compute_eligible_set spec s of Inl err \<Rightarrow> Inl err | Inr es \<Rightarrow>
      let acc = acc\<lparr>rs_eligible_sets := dset nid es (rs_eligible_sets acc)\<rparr> in
      if el_entries es = [] then
        Inr (acc\<lparr>rs_errors := rs_errors acc @ [compile_error INFEASIBLE_BINDING nid
              (NoEligible nid (cn_eligible_capability_kinds n)) [nid, ''eligible_set'']]\<rparr>)
      else case route pf pdp s now spec label (ng_purpose g) region budget of Inl err \<Rightarrow> Inl err | Inr r \<Rightarrow>
      let chosen = rd_chosen_capability_id (rt_decision r) in
      if chosen \<noteq> [] then
        Inr (acc\<lparr>rs_bindings := dset nid chosen (rs_bindings acc),
                 rs_manifest_bindings :=
                   dset nid (rd_chosen_manifest_id (rt_decision r)) (rs_manifest_bindings acc),
                 rs_fallback_used :=
                   (if Some chosen = cn_fallback_capability_id n
                    then dset nid chosen (rs_fallback_used acc) else rs_fallback_used acc)\<rparr>)
      else
        Inr (acc\<lparr>rs_errors := rs_errors acc @ [compile_error INFEASIBLE_BINDING nid
              (AllDenied (rd_rationale (rt_decision r))) [nid, ''policy'']]\<rparr>))"

fun resolve_nodes :: "(string \<Rightarrow> resolver_result \<Rightarrow> registry_error + resolver_result) \<Rightarrow>
    string list \<Rightarrow> resolver_result \<Rightarrow> registry_error + resolver_result" where
  "resolve_nodes step [] acc = Inr acc"
| "resolve_nodes step (nid # order) acc =
     (case step nid acc of Inl err \<Rightarrow> Inl err | Inr acc' \<Rightarrow> resolve_nodes step order acc')"

definition empty_result :: resolver_result where
  "empty_result = \<lparr>rs_ok = False, rs_bindings = [], rs_manifest_bindings = [],
     rs_eligible_sets = [], rs_errors = [], rs_fallback_used = []\<rparr>"

definition resolve :: "platform \<Rightarrow> (policy_ctx \<Rightarrow> policy_decision) \<Rightarrow> manifests \<Rightarrow> int \<Rightarrow>
    normalized_graph \<Rightarrow> security_label \<Rightarrow> string \<Rightarrow> rat \<Rightarrow> task_template option \<Rightarrow>
    registry_error + resolver_result" where
  "resolve pf pdp s now g label region budget template =
     (case flow_order g of Inl _ \<Rightarrow> Inl RegistryCycle | Inr order \<Rightarrow>
      case resolve_nodes (resolve_node pf pdp s now g label region budget template) order empty_result of
        Inl err \<Rightarrow> Inl err
      | Inr acc \<Rightarrow> Inr (acc\<lparr>rs_ok := (rs_errors acc = [])\<rparr>))"

definition amend :: "platform \<Rightarrow> (policy_ctx \<Rightarrow> policy_decision) \<Rightarrow> manifests \<Rightarrow> int \<Rightarrow>
    resolver_result \<Rightarrow> string \<Rightarrow> normalized_graph \<Rightarrow> security_label \<Rightarrow> string \<Rightarrow> rat \<Rightarrow> task_template option \<Rightarrow>
    registry_error + resolver_result" where
  "amend pf pdp s now previous unavailable g label region budget template =
     (let affected = map fst (filter (\<lambda>(nid, cap). cap = unavailable) (rs_bindings previous)) in
      if affected = [] then Inr previous
      else
        let new_bindings = filter (\<lambda>(k, v). k \<notin> set affected) (rs_bindings previous);
            new_manifest_bindings = filter (\<lambda>(k, v). k \<notin> set affected) (rs_manifest_bindings previous)
        in case resolve pf pdp s now g label region budget template of Inl err \<Rightarrow> Inl err | Inr r \<Rightarrow>
           Inr (r\<lparr>rs_bindings := dmerge new_bindings (rs_bindings r),
                  rs_manifest_bindings := dmerge new_manifest_bindings (rs_manifest_bindings r)\<rparr>))"

subsection \<open>Facts about routing and resolution\<close>

lemma set_el_entries:
  "compute_eligible_set n s = Inr es \<Longrightarrow>
   set (el_entries es) = entry_of ` {m \<in> snd ` set s. structurally_eligible n m}"
  by (auto simp: compute_eligible_set_def store_all_def split: if_splits) force+

lemma entry_of_sel [simp]:
  "ee_capability_id (entry_of m) = cm_capability_id m" "ee_manifest (entry_of m) = m"
  by (simp_all add: entry_of_def)

lemma store_wf_lookup: "store_wf s \<Longrightarrow> m \<in> snd ` set s \<Longrightarrow> dget s (cm_capability_id m) = Some m"
  by (fastforce simp: store_wf_def)

lemma route_in_store:
  assumes "route pf pdp s now n label p region budget = Inr r" "store_wf s"
    "rd_chosen_capability_id (rt_decision r) \<noteq> []"
  shows "\<exists>m. dget s (rd_chosen_capability_id (rt_decision r)) = Some m \<and>
    rd_chosen_manifest_id (rt_decision r) = manifest_id pf m"
proof (rule raw.route_cases [OF assms(1,2)])
  fix es pre en post
  assume *: "compute_eligible_set n s = Inr es" "el_entries es = pre @ en # post"
    "rd_chosen_capability_id (rt_decision r) = ee_capability_id en"
    "rd_chosen_manifest_id (rt_decision r) = manifest_id pf (ee_manifest en)"
  then have "en \<in> entry_of ` {m \<in> snd ` set s. structurally_eligible n m}"
    unfolding set_el_entries [OF *(1), symmetric] by simp
  then obtain m where "m \<in> snd ` set s" "en = entry_of m" by blast
  with * store_wf_lookup [OF assms(2)] show ?thesis by auto
qed (use assms(3) in auto)

definition bound_ok :: "platform \<Rightarrow> manifests \<Rightarrow> string \<Rightarrow> string \<Rightarrow> bool" where
  "bound_ok pf s cap mid \<longleftrightarrow> cap = human_approver \<or>
     (\<exists>m. dget s cap = Some m \<and> mid = manifest_id pf m)"

text \<open>A step of the resolver binds its node properly or records an error.\<close>

lemma resolve_node_cases:
  assumes "resolve_node pf pdp s now g label region budget template nid acc = Inr acc'" "store_wf s"
  obtains (bound) cap mid where "rs_bindings acc' = dset nid cap (rs_bindings acc)"
      "rs_manifest_bindings acc' = dset nid mid (rs_manifest_bindings acc)"
      "rs_errors acc' = rs_errors acc" "bound_ok pf s cap mid"
  | (error) err where "rs_bindings acc' = rs_bindings acc"
      "rs_manifest_bindings acc' = rs_manifest_bindings acc" "rs_errors acc' = rs_errors acc @ [err]"
proof -
  from assms(1) obtain nn where nn: "dget (ng_nodes g) nid = Some nn"
    by (auto simp: resolve_node_def split: option.splits)
  let ?n = "nn_node nn"
  show thesis
  proof (cases "CK_HUMAN \<in> set (cn_eligible_capability_kinds ?n)")
    case True
    with assms(1) nn show thesis
      by (intro bound [of human_approver "''manifest:human-approver''"])
        (auto simp: resolve_node_def Let_def bound_ok_def)
  next
    case False
    with assms(1) nn obtain spec es where es: "spec_of template ?n = Inr spec"
        "compute_eligible_set spec s = Inr es"
      by (auto simp: resolve_node_def Let_def split: sum.splits)
    show thesis
    proof (cases "el_entries es = []")
      case True
      with False assms(1) nn es show thesis
        by (intro error) (auto simp: resolve_node_def Let_def)
    next
      case ne: False
      with False assms(1) nn es obtain r
        where r: "route pf pdp s now spec label (ng_purpose g) region budget = Inr r"
        by (auto simp: resolve_node_def Let_def split: sum.splits)
      let ?c = "rd_chosen_capability_id (rt_decision r)"
      show thesis
      proof (cases "?c = []")
        case True
        with ne False assms(1) nn es r show thesis
          by (intro error) (auto simp: resolve_node_def Let_def)
      next
        case chosen: False
        have "bound_ok pf s ?c (rd_chosen_manifest_id (rt_decision r))"
          using route_in_store [OF r assms(2) chosen] by (simp add: bound_ok_def)
        with chosen ne False assms(1) nn es r show thesis
          by (intro bound [of ?c "rd_chosen_manifest_id (rt_decision r)"])
            (auto simp: resolve_node_def Let_def)
      qed
    qed
  qed
qed

definition resolved :: "platform \<Rightarrow> manifests \<Rightarrow> string set \<Rightarrow> resolver_result \<Rightarrow> bool" where
  "resolved pf s visited acc \<longleftrightarrow>
     dict_wf (rs_bindings acc) \<and> dict_wf (rs_manifest_bindings acc) \<and>
     (\<forall>nid cap. dget (rs_bindings acc) nid = Some cap \<longrightarrow>
        (\<exists>mid. dget (rs_manifest_bindings acc) nid = Some mid \<and> bound_ok pf s cap mid)) \<and>
     (rs_errors acc = [] \<longrightarrow> (\<forall>nid \<in> visited. dget (rs_bindings acc) nid \<noteq> None))"

lemma resolved_step:
  assumes "resolve_node pf pdp s now g label region budget template nid acc = Inr acc'" "store_wf s"
    "resolved pf s visited acc"
  shows "resolved pf s (insert nid visited) acc'"
  by (rule resolve_node_cases [OF assms(1,2)])
    (use assms(3) in \<open>auto simp: resolved_def dict_simps\<close>)

lemma resolve_nodes_resolved:
  "resolve_nodes (resolve_node pf pdp s now g label region budget template) order acc = Inr acc' \<Longrightarrow>
   store_wf s \<Longrightarrow> resolved pf s visited acc \<Longrightarrow> resolved pf s (visited \<union> set order) acc'"
proof (induction order arbitrary: acc visited)
  case Nil
  then show ?case by simp
next
  case (Cons nid order)
  from Cons.prems(1) obtain acc1
    where step: "resolve_node pf pdp s now g label region budget template nid acc = Inr acc1"
      and rest: "resolve_nodes (resolve_node pf pdp s now g label region budget template) order acc1 = Inr acc'"
    by (auto split: sum.splits)
  from Cons.IH [OF rest Cons.prems(2) resolved_step [OF step Cons.prems(2,3)]]
  show ?case by simp
qed

lemma resolve_resolved:
  assumes "resolve pf pdp s now g label region budget template = Inr r" "store_wf s" "ngraph_wf g"
  shows "resolved pf s (set (keys (ng_nodes g))) r" "rs_ok r \<longleftrightarrow> rs_errors r = []"
proof -
  obtain order where order: "flow_order g = Inr order" "set order = set (keys (ng_nodes g))"
    by (rule flow_order_ok [OF assms(3)])
  with assms(1) obtain acc where
    acc: "resolve_nodes (resolve_node pf pdp s now g label region budget template) order empty_result = Inr acc"
      "r = acc\<lparr>rs_ok := (rs_errors acc = [])\<rparr>"
    by (auto simp: resolve_def split: sum.splits)
  have "resolved pf s {} empty_result" by (simp add: resolved_def empty_result_def)
  from resolve_nodes_resolved [OF acc(1) assms(2) this] order(2) acc(2)
  show "resolved pf s (set (keys (ng_nodes g))) r" by (simp add: resolved_def)
  show "rs_ok r \<longleftrightarrow> rs_errors r = []" using acc(2) by simp
qed

subsection \<open>Properties\<close>

text \<open>
  The policy engine is fail-closed: it allows a request only through an allow rule that is
  the first to match, every earlier predicate having returned false; an exception in an earlier
  predicate, or no match at all, denies.
\<close>

theorem policy_fail_closed:
  "pd_allow (decide rules ctx) \<longleftrightarrow> (\<exists>i < length rules.
     ru_when (rules ! i) ctx = Inr True \<and> ru_decision (rules ! i) = ''allow'' \<and>
     (\<forall>j < i. ru_when (rules ! j) ctx = Inr False))"
  by (rule decide_allow_iff)

text \<open>
  The router under the built-in policy: a chosen capability is a registered manifest, pinned
  by its content id, and either the first entry of the eligible set the policy permits, or the
  node's fallback after every entry was denied; when nothing is chosen every entry was denied.
\<close>

theorem route_default_policy:
  assumes "route pf (decide default_p0_rules) s now n label p region budget = Inr r" "store_wf s"
  shows "\<exists>es. compute_eligible_set n s = Inr es \<and>
    (let ok = \<lambda>m. default_permits (policy_ctx_of n m label p region budget);
         chosen = rd_chosen_capability_id (rt_decision r)
     in (\<exists>pre en post. el_entries es = pre @ en # post \<and> ok (ee_manifest en) \<and>
           (\<forall>en' \<in> set pre. \<not> ok (ee_manifest en')) \<and> chosen = ee_capability_id en) \<or>
        (\<forall>en \<in> set (el_entries es). \<not> ok (ee_manifest en)) \<and>
          (chosen = [] \<or> ns_fallback_capability_id n = Some chosen \<and> dget s chosen \<noteq> None))"
  unfolding Let_def
  by (rule p0.route_cases [OF assms]) (fastforce, (auto)[1], (auto)[1])

text \<open>
  C26. The resolver and the binding closure agree: whenever resolution succeeds on a normalised
  graph, the bindings it returns pass the closure check against the store it resolved from.
\<close>

theorem resolve_passes_closure:
  assumes "resolve pf pdp s now g label region budget template = Inr r" "rs_ok r"
    "store_wf s" "ngraph_wf g"
  shows "cl_ok (closure_check pf s g (rs_bindings r) (rs_manifest_bindings r))"
proof -
  have res: "resolved pf s (set (keys (ng_nodes g))) r" "rs_errors r = []"
    using resolve_resolved [OF assms(1,3,4)] assms(2) by auto
  have "closure_node_errors pf s (rs_bindings r) (rs_manifest_bindings r) nid = []"
    if nid: "nid \<in> set (keys (ng_nodes g))" for nid
  proof -
    from res nid obtain cap where "dget (rs_bindings r) nid = Some cap" by (auto simp: resolved_def)
    moreover with res(1) obtain mid where "dget (rs_manifest_bindings r) nid = Some mid"
      "bound_ok pf s cap mid" unfolding resolved_def by blast
    ultimately show ?thesis
      by (auto simp: closure_node_errors_def bound_ok_def dget_default_def)
  qed
  moreover have "closure_edge_errors (rs_bindings r) e = []" if "e \<in> set (ng_edges g)" for e
  proof -
    have "ce_from_node e \<in> set (keys (ng_nodes g))" "ce_to_node e \<in> set (keys (ng_nodes g))"
      using assms(4) that by (auto simp: ngraph_wf_def)
    with res show ?thesis by (auto simp: closure_edge_errors_def resolved_def)
  qed
  ultimately show ?thesis by (simp add: closure_check_def Let_def concat_eq_Nil_conv)
qed

text \<open>
  Amending a result against the store it was resolved from changes no binding: the
  capability reported unavailable is chosen again on every node it was bound to.
\<close>

theorem amend_repeats_the_choice:
  assumes "resolve pf pdp s now g label region budget template = Inr prev" "store_wf s" "ngraph_wf g"
  shows "\<exists>r. amend pf pdp s now prev unavailable g label region budget template = Inr r \<and>
    (\<forall>nid. dget (rs_bindings r) nid = dget (rs_bindings prev) nid)"
proof -
  have wf: "dict_wf (rs_bindings prev)"
    using resolve_resolved(1) [OF assms] by (simp add: resolved_def)
  have filt: "dget (filter (\<lambda>(k, v). Q k) d) k = (if Q k then dget d k else None)"
    for Q and d :: bindings and k
    by (induction d) auto
  show ?thesis
    using assms(1) by (auto simp: amend_def Let_def dget_dmerge [OF wf] filt split: option.splits)
qed

text \<open>
  The eligible set does not depend on the order in which the manifests were registered.
\<close>

theorem eligible_set_order_independent:
  assumes "store_wf s" "store_wf s'" "set s = set s'"
  shows "compute_eligible_set n s = compute_eligible_set n s'"
proof -
  let ?es = "\<lambda>s. map entry_of (filter (structurally_eligible n) (store_all s))"
  have dist: "distinct (map entry_key (?es t))"
    if "store_wf t" for t
  proof -
    have "distinct (map cm_capability_id (map snd t))"
    proof -
      have "map cm_capability_id (map snd t) = keys t"
        unfolding map_map by (rule map_cong) (use that in \<open>auto simp: store_wf_def\<close>)
      then show ?thesis using that by (simp only: store_wf_def)
    qed
    then have "distinct (map (\<lambda>m. entry_key (entry_of m)) (filter (structurally_eligible n) (map snd t)))"
      by (rule distinct_map_filter_key [rotated]) (simp add: entry_key_def)
    then show ?thesis by (simp add: store_all_def comp_def)
  qed
  have "set (?es s) = set (?es s')" using assms(3) by (auto simp: store_all_def)
  then have "sort_key entry_key (?es s) = sort_key entry_key (?es s')"
    by (intro sort_key_cong dist assms(1,2))
  then show ?thesis by (simp add: compute_eligible_set_def)
qed

text \<open>
  The fallback is taken without asking the policy: when every entry of the eligible set is
  denied, a registered fallback is chosen, also when the policy denies the fallback itself and
  also when it is not in the eligible set.
\<close>

theorem fallback_overrides_denial:
  assumes "ns_eligible_capability_kinds n \<noteq> []"
    and "ns_fallback_capability_id n = Some fb" "fb \<noteq> []" "dget s fb = Some m" "store_wf s"
    and "\<forall>m' \<in> snd ` set s. structurally_eligible n m' \<longrightarrow>
      \<not> pd_allow (pdp (policy_ctx_of n m' label p region budget))"
  shows "\<exists>r. route pf pdp s now n label p region budget = Inr r \<and>
    rd_chosen_capability_id (rt_decision r) = fb"
proof -
  from assms(1) obtain es where es: "compute_eligible_set n s = Inr es"
    by (simp add: compute_eligible_set_def)
  let ?dec = "\<lambda>m. pdp (policy_ctx_of n m label p region budget)"
  have "\<forall>en \<in> set (el_entries es). \<not> pd_allow (?dec (ee_manifest en))"
    using assms(6) unfolding set_el_entries [OF es] by auto
  then obtain denied why where t: "try_entries ?dec (el_entries es) [] None = Inl (denied, why)"
    using try_entries_Inl_iff [of ?dec "el_entries es" "[]" None] by auto
  have "cm_capability_id m = fb"
    using assms(5) map_of_SomeD [OF assms(4)] by (auto simp: store_wf_def)
  then show ?thesis
    using es t assms(2-4) dget_Some_in_keys [OF assms(4)]
    by (simp add: route_def Let_def store_get_def)
qed

lemma resolver_replaces_empty_store: "resolver_store (Some []) = load_default_manifests []"
  by (simp add: resolver_store_def)

lemma load_default_manifests_ok:
  "\<exists>s. load_default_manifests eps = Inr s \<and> store_wf s \<and> map snd s = default_manifests eps"
  by (simp add: load_default_manifests_def default_manifests_def store_add_def builtin_def store_wf_def)

subsection \<open>Concrete inputs\<close>

definition ex_store :: manifests where
  "ex_store = [(''m'', ex_manifest ''m'' CK_PUBLIC_MODEL)]"

definition ex_fb_node :: node_spec where
  "ex_fb_node = (ex_node ''n'' [] False)\<lparr>ns_fallback_capability_id := Some ''m''\<rparr>"

definition ex_ngraph :: normalized_graph where
  "ex_ngraph = \<lparr>ng_template_id = ''t'', ng_template_version = ''1'',
     ng_nodes = [(''n'', \<lparr>nn_node = candidate_of (ex_node ''n'' [] False), nn_input_refs = []\<rparr>)],
     ng_edges = [], ng_purpose = ''review''\<rparr>"

lemmas ex_registry_defs = ex_defs ex_store_def ex_fb_node_def ex_ngraph_def

lemma ex_store_wf: "store_wf ex_store"
  by (simp add: store_wf_def ex_registry_defs)

lemma ex_ngraph_wf: "ngraph_wf ex_ngraph"
  by (simp add: ngraph_wf_def ex_registry_defs edge_rel_def acyclic_def)

lemma ex_entries:
  "compute_eligible_set (ex_node ''n'' [] False) ex_store =
     Inr \<lparr>el_node_id = ''n'', el_entries = [entry_of (ex_manifest ''m'' CK_PUBLIC_MODEL)]\<rparr>"
  by (simp add: compute_eligible_set_def ex_registry_defs store_all_def structurally_eligible_def)

lemma ex_allowed:
  "pd_allow (decide default_p0_rules (policy_ctx_of (ex_node ''n'' [] False)
     (ex_manifest ''m'' CK_PUBLIC_MODEL) (ex_label DC_PUBLIC) p r 1))"
  by (simp add: decide_default default_permits_def policy_ctx_of_def ex_registry_defs local_residency_def)

lemma ex_route:
  "\<exists>r. route ex_platform (decide default_p0_rules) ex_store 0 (ex_node ''n'' [] False)
     (ex_label DC_PUBLIC) p region 1 = Inr r \<and> rd_chosen_capability_id (rt_decision r) = ''m''"
  using ex_allowed ex_entries
  by (simp add: route_def Let_def) (simp add: ex_manifest_def)

theorem policy_fail_closed_witness:
  "pd_allow (decide [\<lparr>ru_id = ''r'', ru_when = (\<lambda>_. Inr True), ru_decision = ''allow'',
     ru_reason = [], ru_invariant = []\<rparr>]
     (policy_ctx_of (ex_node ''n'' [] False) (ex_manifest ''m'' CK_TOOL) (ex_label DC_PUBLIC) [] [] 0))"
  by (subst policy_fail_closed) auto

theorem route_default_policy_witness:
  "\<exists>r es. route ex_platform (decide default_p0_rules) ex_store 0 (ex_node ''n'' [] False)
     (ex_label DC_PUBLIC) ''review'' ''local'' 1 = Inr r \<and>
     compute_eligible_set (ex_node ''n'' [] False) ex_store = Inr es"
proof -
  obtain r where r: "route ex_platform (decide default_p0_rules) ex_store 0 (ex_node ''n'' [] False)
     (ex_label DC_PUBLIC) ''review'' ''local'' 1 = Inr r" using ex_route by blast
  from route_default_policy [OF r ex_store_wf] r show ?thesis by blast
qed

theorem fallback_overrides_denial_witness:
  "\<exists>r. route ex_platform (decide default_p0_rules) ex_store 0 ex_fb_node
     (ex_label DC_RESTRICTED) ''review'' ''local'' 1 = Inr r \<and>
     rd_chosen_capability_id (rt_decision r) = ''m''"
  by (rule fallback_overrides_denial [where m = "ex_manifest ''m'' CK_PUBLIC_MODEL"])
    (simp_all add: ex_registry_defs store_wf_def decide_default default_permits_def policy_ctx_of_def)

lemma ex_flow_order: "flow_order ex_ngraph = Inr [''n'']"
  by (simp add: flow_order_def kahn_def ex_registry_defs)

lemma ex_resolve:
  "\<exists>r. resolve ex_platform (decide default_p0_rules) ex_store 0 ex_ngraph (ex_label DC_PUBLIC)
     ''local'' 1 None = Inr r \<and> rs_ok r"
proof -
  have spec: "spec_of None (candidate_of (ex_node ''n'' [] False)) = Inr (ex_node ''n'' [] False)"
    by (simp add: spec_of_def candidate_of_def ex_registry_defs)
  have nodes: "dget (ng_nodes ex_ngraph) ''n'' =
      Some \<lparr>nn_node = candidate_of (ex_node ''n'' [] False), nn_input_refs = []\<rparr>"
    "CK_HUMAN \<notin> set (cn_eligible_capability_kinds (candidate_of (ex_node ''n'' [] False)))"
    by (simp_all add: ex_registry_defs candidate_of_def)
  obtain r where r: "route ex_platform (decide default_p0_rules) ex_store 0 (ex_node ''n'' [] False)
     (ex_label DC_PUBLIC) (ng_purpose ex_ngraph) ''local'' 1 = Inr r"
    "rd_chosen_capability_id (rt_decision r) = ''m''" using ex_route by blast
  show ?thesis
    by (simp add: resolve_def ex_flow_order resolve_node_def Let_def spec nodes ex_entries r empty_result_def)
qed

theorem resolve_passes_closure_witness:
  "\<exists>r. resolve ex_platform (decide default_p0_rules) ex_store 0 ex_ngraph (ex_label DC_PUBLIC)
     ''local'' 1 None = Inr r \<and>
     cl_ok (closure_check ex_platform ex_store ex_ngraph (rs_bindings r) (rs_manifest_bindings r))"
proof -
  obtain r where r: "resolve ex_platform (decide default_p0_rules) ex_store 0 ex_ngraph
     (ex_label DC_PUBLIC) ''local'' 1 None = Inr r" "rs_ok r" using ex_resolve by blast
  from resolve_passes_closure [OF r ex_store_wf ex_ngraph_wf] r(1) show ?thesis by blast
qed

theorem amend_repeats_the_choice_witness:
  "\<exists>prev r. resolve ex_platform (decide default_p0_rules) ex_store 0 ex_ngraph (ex_label DC_PUBLIC)
     ''local'' 1 None = Inr prev \<and>
     amend ex_platform (decide default_p0_rules) ex_store 0 prev ''m'' ex_ngraph (ex_label DC_PUBLIC)
     ''local'' 1 None = Inr r \<and>
     (\<forall>nid. dget (rs_bindings r) nid = dget (rs_bindings prev) nid)"
proof -
  obtain prev where r: "resolve ex_platform (decide default_p0_rules) ex_store 0 ex_ngraph
     (ex_label DC_PUBLIC) ''local'' 1 None = Inr prev" using ex_resolve by blast
  from amend_repeats_the_choice [OF r ex_store_wf ex_ngraph_wf, of "''m''"] r show ?thesis by blast
qed

theorem eligible_set_order_independent_witness:
  "compute_eligible_set ex_fb_node
      [(''a'', ex_manifest ''a'' CK_TOOL), (''m'', ex_manifest ''m'' CK_PUBLIC_MODEL)] =
   compute_eligible_set ex_fb_node
      [(''m'', ex_manifest ''m'' CK_PUBLIC_MODEL), (''a'', ex_manifest ''a'' CK_TOOL)]"
  by (rule eligible_set_order_independent) (auto simp: store_wf_def ex_manifest_def)

end
