(* ===== verification/Runtime.thy ===== *)
theory Runtime
  imports Json
begin

section \<open>The runtime guards\<close>

text \<open>
  \<open>orchestra/runtime/\<close>: the run state machines (\<open>state_machine.py\<close>), leases and fencing
  tokens (\<open>lease.py\<close>, \<open>fencing.py\<close>), the outbox and its dispatcher (\<open>outbox.py\<close>), the
  reconciler (\<open>reconciler.py\<close>) and the token-bucket limiter (\<open>rate_limit.py\<close>). Times are
  integers (instants) or, for the limiter's monotonic clock, rationals.
\<close>

subsection \<open>State machines\<close>

datatype task_run_state =
  TR_CREATED | TR_PLANNED | TR_RUNNING | TR_AWAITING_APPROVAL | TR_SUCCEEDED | TR_FAILED | TR_CANCELLED

datatype node_run_state =
  NR_PENDING | NR_RUNNING | NR_AWAITING_APPROVAL | NR_SUCCEEDED | NR_FAILED | NR_CANCELLED

fun task_transitions :: "task_run_state \<Rightarrow> task_run_state set" where
  "task_transitions TR_CREATED = {TR_PLANNED, TR_FAILED, TR_CANCELLED}"
| "task_transitions TR_PLANNED = {TR_RUNNING, TR_FAILED, TR_CANCELLED}"
| "task_transitions TR_RUNNING = {TR_AWAITING_APPROVAL, TR_SUCCEEDED, TR_FAILED, TR_CANCELLED}"
| "task_transitions TR_AWAITING_APPROVAL = {TR_RUNNING, TR_SUCCEEDED, TR_FAILED, TR_CANCELLED}"
| "task_transitions TR_SUCCEEDED = {}"
| "task_transitions TR_FAILED = {}"
| "task_transitions TR_CANCELLED = {}"

fun node_transitions :: "node_run_state \<Rightarrow> node_run_state set" where
  "node_transitions NR_PENDING = {NR_RUNNING, NR_AWAITING_APPROVAL, NR_FAILED, NR_CANCELLED}"
| "node_transitions NR_RUNNING = {NR_AWAITING_APPROVAL, NR_SUCCEEDED, NR_FAILED, NR_CANCELLED}"
| "node_transitions NR_AWAITING_APPROVAL = {NR_RUNNING, NR_SUCCEEDED, NR_FAILED, NR_CANCELLED}"
| "node_transitions NR_SUCCEEDED = {}"
| "node_transitions NR_FAILED = {}"
| "node_transitions NR_CANCELLED = {}"

datatype 's illegal_transition = IllegalTransition 's 's

definition can_transition :: "('s \<Rightarrow> 's set) \<Rightarrow> 's \<Rightarrow> 's \<Rightarrow> bool" where
  "can_transition table current target \<longleftrightarrow> target \<in> table current"

definition transition :: "('s \<Rightarrow> 's set) \<Rightarrow> 's \<Rightarrow> 's \<Rightarrow> 's illegal_transition + 's" where
  "transition table current target =
     (if can_transition table current target then Inr target else Inl (IllegalTransition current target))"

definition task_transition :: "task_run_state \<Rightarrow> task_run_state \<Rightarrow>
    task_run_state illegal_transition + task_run_state" where
  "task_transition = transition task_transitions"

definition node_transition :: "node_run_state \<Rightarrow> node_run_state \<Rightarrow>
    node_run_state illegal_transition + node_run_state" where
  "node_transition = transition node_transitions"

text \<open>A run of the machine: the successive targets, the first illegal one raising.\<close>

fun transitions :: "('s \<Rightarrow> 's \<Rightarrow> 'e + 's) \<Rightarrow> 's \<Rightarrow> 's list \<Rightarrow> 'e + 's" where
  "transitions step s [] = Inr s"
| "transitions step s (t # ts) = (case step s t of Inl err \<Rightarrow> Inl err | Inr s' \<Rightarrow> transitions step s' ts)"

lemma transitions_Cons [simp]:
  "transitions (transition table) s (t # ts) = Inr u \<longleftrightarrow>
     t \<in> table s \<and> transitions (transition table) t ts = Inr u"
  by (simp add: transition_def [of table s t] can_transition_def)

declare transitions.simps(2) [simp del]

text \<open>
  The contract of a run's machine: its terminal states are exactly those without a successor,
  every other state can still be failed, and no transition leads back to the start.
\<close>

locale run_machine =
  fixes table :: "'s \<Rightarrow> 's set" and start :: 's and terminal :: "'s \<Rightarrow> bool" and failed :: 's
  assumes terminal_iff: "terminal s \<longleftrightarrow> table s = {}"
    and can_fail: "\<not> terminal s \<Longrightarrow> failed \<in> table s"
    and no_return: "start \<notin> table s"
begin

lemma transition_Inr: "transition table s t = Inr u \<longleftrightarrow> u = t \<and> t \<in> table s"
  by (auto simp: transition_def can_transition_def)

lemma terminal_absorbs:
  "terminal s \<Longrightarrow> transitions (transition table) s ts = Inr u \<Longrightarrow> ts = []"
  by (cases ts) (auto simp: terminal_iff)

lemma accepted_run:
  "transitions (transition table) s ts = Inr u \<Longrightarrow>
   u = last (s # ts) \<and> start \<notin> set ts \<and> (\<forall>t \<in> set (butlast (s # ts)). \<not> terminal t)"
proof (induction ts arbitrary: s)
  case Nil
  then show ?case by simp
next
  case (Cons t ts)
  from Cons.prems have t: "t \<in> table s" and rest: "transitions (transition table) t ts = Inr u"
    by auto
  have "\<not> terminal s" "t \<noteq> start" using t terminal_iff no_return by auto
  with Cons.IH [OF rest] show ?case by auto
qed

lemma can_still_fail: "\<not> terminal s \<Longrightarrow> transition table s failed = Inr failed"
  by (simp add: transition_Inr can_fail)

end

fun task_terminal :: "task_run_state \<Rightarrow> bool" where
  "task_terminal s = (s \<in> {TR_SUCCEEDED, TR_FAILED, TR_CANCELLED})"

fun node_terminal :: "node_run_state \<Rightarrow> bool" where
  "node_terminal s = (s \<in> {NR_SUCCEEDED, NR_FAILED, NR_CANCELLED})"

interpretation task_run: run_machine task_transitions TR_CREATED task_terminal TR_FAILED
proof
  show "task_terminal s \<longleftrightarrow> task_transitions s = {}" for s by (cases s) auto
  show "\<not> task_terminal s \<Longrightarrow> TR_FAILED \<in> task_transitions s" for s by (cases s) auto
  show "TR_CREATED \<notin> task_transitions s" for s by (cases s) auto
qed

interpretation node_run: run_machine node_transitions NR_PENDING node_terminal NR_FAILED
proof
  show "node_terminal s \<longleftrightarrow> node_transitions s = {}" for s by (cases s) auto
  show "\<not> node_terminal s \<Longrightarrow> NR_FAILED \<in> node_transitions s" for s by (cases s) auto
  show "NR_PENDING \<notin> node_transitions s" for s by (cases s) auto
qed

text \<open>
  A task run that the machine lets reach \<open>SUCCEEDED\<close> was planned first and then run; no
  state before the last of an accepted run is terminal, and the initial state never recurs.
\<close>

theorem task_run_lifecycle:
  assumes "transitions task_transition TR_CREATED ts = Inr s"
  shows "s = last (TR_CREATED # ts) \<and> TR_CREATED \<notin> set ts \<and>
    (\<forall>t \<in> set (butlast (TR_CREATED # ts)). \<not> task_terminal t) \<and>
    (s = TR_SUCCEEDED \<longrightarrow> take 2 ts = [TR_PLANNED, TR_RUNNING])"
proof (intro conjI impI)
  note run = assms [unfolded task_transition_def]
  show "s = last (TR_CREATED # ts)" "TR_CREATED \<notin> set ts"
    "\<forall>t \<in> set (butlast (TR_CREATED # ts)). \<not> task_terminal t"
    using task_run.accepted_run [OF run] by blast+
  assume s: "s = TR_SUCCEEDED"
  obtain t ts' where ts: "ts = t # ts'" "t \<in> task_transitions TR_CREATED"
    "transitions (transition task_transitions) t ts' = Inr s"
    using run s by (cases ts) auto
  have t: "t = TR_PLANNED"
    using ts(2,3) s task_run.terminal_absorbs [of t ts'] by (cases ts') auto
  obtain t' ts'' where ts': "ts' = t' # ts''" "t' \<in> task_transitions TR_PLANNED"
    "transitions (transition task_transitions) t' ts'' = Inr s"
    using ts(3) s t by (cases ts') auto
  have "t' = TR_RUNNING"
    using ts'(2,3) s task_run.terminal_absorbs [of t' ts''] by (cases ts'') auto
  then show "take 2 ts = [TR_PLANNED, TR_RUNNING]" using ts ts' t by simp
qed

theorem task_run_lifecycle_witness:
  "transitions task_transition TR_CREATED [TR_PLANNED, TR_RUNNING, TR_SUCCEEDED] = Inr TR_SUCCEEDED \<and>
   take 2 [TR_PLANNED, TR_RUNNING, TR_SUCCEEDED] = [TR_PLANNED, TR_RUNNING]"
proof -
  have run: "transitions task_transition TR_CREATED [TR_PLANNED, TR_RUNNING, TR_SUCCEEDED] = Inr TR_SUCCEEDED"
    by (simp add: task_transition_def)
  from task_run_lifecycle [OF run] run show ?thesis by blast
qed

subsection \<open>Fencing\<close>

record fencing_token =
  ft_cell_id :: string
  ft_value :: int

datatype runtime_error =
    NegativeToken
  | StaleFencingToken fencing_token int int     \<comment> \<open>cell and node high-water marks\<close>
  | BadTimestamp                                \<comment> \<open>\<open>datetime.fromisoformat\<close> raises\<close>

definition make_token :: "string \<Rightarrow> int \<Rightarrow> runtime_error + fencing_token" where
  "make_token cell v = (if v < 0 then Inl NegativeToken else Inr \<lparr>ft_cell_id = cell, ft_value = v\<rparr>)"

record fencing_guard =
  high_water_per_cell :: "(string, int) dict"
  high_water_per_node_run :: "(string, int) dict"

definition guard_check :: "fencing_guard \<Rightarrow> fencing_token \<Rightarrow> string \<Rightarrow> runtime_error + fencing_guard" where
  "guard_check g token node_run_id =
     (let cell_high = dget_default (high_water_per_cell g) (ft_cell_id token) (-1);
          node_high = dget_default (high_water_per_node_run g) node_run_id (-1)
      in if ft_value token < cell_high \<or> ft_value token < node_high
         then Inl (StaleFencingToken token cell_high node_high)
         else
           let g = (if ft_value token > cell_high
                    then g\<lparr>high_water_per_cell :=
                           dset (ft_cell_id token) (ft_value token) (high_water_per_cell g)\<rparr>
                    else g)
           in Inr (if ft_value token > node_high
                   then g\<lparr>high_water_per_node_run :=
                          dset node_run_id (ft_value token) (high_water_per_node_run g)\<rparr>
                   else g))"

definition current_high_water :: "fencing_guard \<Rightarrow> string \<Rightarrow> int" where
  "current_high_water g cell = dget_default (high_water_per_cell g) cell (-1)"

definition reset_node_run :: "fencing_guard \<Rightarrow> string \<Rightarrow> fencing_guard" where
  "reset_node_run g nid = g\<lparr>high_water_per_node_run := ddel nid (high_water_per_node_run g)\<rparr>"

text \<open>A history of calls; a rejected call leaves the guard as it was.\<close>

datatype guard_op = Check fencing_token string | Reset string

fun guard_run :: "fencing_guard \<Rightarrow> guard_op list \<Rightarrow> fencing_token list \<times> fencing_guard" where
  "guard_run g [] = ([], g)"
| "guard_run g (Check t nid # ops) =
     (case guard_check g t nid of
        Inl _ \<Rightarrow> guard_run g ops
      | Inr g' \<Rightarrow> (let (acc, h) = guard_run g' ops in (t # acc, h)))"
| "guard_run g (Reset nid # ops) = guard_run (reset_node_run g nid) ops"

definition cell_values :: "string \<Rightarrow> fencing_token list \<Rightarrow> int list" where
  "cell_values c ts = map ft_value (filter (\<lambda>t. ft_cell_id t = c) ts)"

lemma guard_check_Inr:
  assumes "guard_check g t nid = Inr g'"
  shows "current_high_water g (ft_cell_id t) \<le> ft_value t"
    "current_high_water g' c =
       (if c = ft_cell_id t then ft_value t else current_high_water g c)"
  using assms by (auto simp: guard_check_def Let_def current_high_water_def dict_simps split: if_splits)

lemma current_high_water_reset [simp]: "current_high_water (reset_node_run g nid) c = current_high_water g c"
  by (simp add: current_high_water_def reset_node_run_def)

lemma guard_run_monotone:
  "sorted (current_high_water g c # cell_values c (fst (guard_run g ops))) \<and>
   current_high_water (snd (guard_run g ops)) c =
     last (current_high_water g c # cell_values c (fst (guard_run g ops)))"
proof (induction g ops rule: guard_run.induct)
  case (1 g)
  then show ?case by (simp add: cell_values_def)
next
  case (2 g t nid ops)
  show ?case
  proof (cases "guard_check g t nid")
    case (Inl e)
    with "2.IH"(1) show ?thesis by simp
  next
    case (Inr g')
    obtain acc h where run: "guard_run g' ops = (acc, h)" by force
    note IH = "2.IH"(2) [OF Inr, unfolded run fst_conv snd_conv]
    show ?thesis
    proof (cases "c = ft_cell_id t")
      case True
      have "current_high_water g' c = ft_value t" using guard_check_Inr(2) [OF Inr] True by simp
      with IH guard_check_Inr(1) [OF Inr] True Inr run show ?thesis
        by (auto simp: cell_values_def)
    next
      case False
      then have "current_high_water g' c = current_high_water g c"
        using guard_check_Inr(2) [OF Inr] by simp
      with IH False Inr run show ?thesis by (auto simp: cell_values_def)
    qed
  qed
next
  case (3 g nid ops)
  then show ?case by simp
qed

text \<open>
  Whatever calls the guard receives, resets of node runs included, the tokens it accepts for
  a cell never decrease, none is below the cell's earlier high-water mark, and the mark ends at
  the last one accepted: a worker with an older token stays fenced out of the cell.
\<close>

theorem fencing_monotone:
  "sorted (current_high_water g c # cell_values c (fst (guard_run g ops))) \<and>
   current_high_water (snd (guard_run g ops)) c =
     last (current_high_water g c # cell_values c (fst (guard_run g ops)))"
  by (rule guard_run_monotone)

subsection \<open>Outbox and dispatcher\<close>

record 'e outbox_entry =
  ox_entry_id :: string
  ox_event :: 'e
  ox_enqueued_at :: int
  ox_attempts :: nat
  ox_last_error :: "string option"
  ox_delivered :: bool

type_synonym 'e outbox = "'e outbox_entry list"

text \<open>The fresh entry id and the clock are arguments.\<close>

definition enqueue :: "string \<Rightarrow> int \<Rightarrow> 'e \<Rightarrow> 'e outbox \<Rightarrow> 'e outbox" where
  "enqueue entry_id now ev ob = ob @ [\<lparr>ox_entry_id = entry_id, ox_event = ev,
     ox_enqueued_at = now, ox_attempts = 0, ox_last_error = None, ox_delivered = False\<rparr>]"

definition pending :: "'e outbox \<Rightarrow> 'e outbox" where
  "pending ob = filter (\<lambda>e. \<not> ox_delivered e) ob"

fun update_entry :: "string \<Rightarrow> ('e outbox_entry \<Rightarrow> 'e outbox_entry) \<Rightarrow> 'e outbox \<Rightarrow> 'e outbox" where
  "update_entry i f [] = []"
| "update_entry i f (e # es) =
     (if ox_entry_id e = i then f e # es else e # update_entry i f es)"

definition mark_delivered :: "string \<Rightarrow> 'e outbox \<Rightarrow> 'e outbox" where
  "mark_delivered i = update_entry i (\<lambda>e. e\<lparr>ox_delivered := True, ox_attempts := ox_attempts e + 1\<rparr>)"

definition mark_failed :: "string \<Rightarrow> string \<Rightarrow> 'e outbox \<Rightarrow> 'e outbox" where
  "mark_failed i err = update_entry i (\<lambda>e. e\<lparr>ox_attempts := ox_attempts e + 1, ox_last_error := Some err\<rparr>)"

text \<open>
  The sink is a stateful callable: it returns its next state and the text of the exception it
  raised, if any. \<open>flush_loop\<close> is the loop over the snapshot of pending entries.
\<close>

fun flush_loop :: "nat \<Rightarrow> ('s \<Rightarrow> 'e \<Rightarrow> 's \<times> string option) \<Rightarrow> 'e outbox_entry list \<Rightarrow> 's \<Rightarrow>
    'e outbox \<Rightarrow> nat \<Rightarrow> nat \<Rightarrow> 's \<times> 'e outbox \<times> nat \<times> nat" where
  "flush_loop max_attempts sink [] s ob delivered failed = (s, ob, delivered, failed)"
| "flush_loop max_attempts sink (e # es) s ob delivered failed =
     (case sink s (ox_event e) of
        (s', None) \<Rightarrow>
          flush_loop max_attempts sink es s' (mark_delivered (ox_entry_id e) ob) (delivered + 1) failed
      | (s', Some err) \<Rightarrow>
          if ox_attempts e \<ge> max_attempts
          then flush_loop max_attempts sink es s' (mark_failed (ox_entry_id e) err ob) delivered (failed + 1)
          else flush_loop max_attempts sink es s' (mark_failed (ox_entry_id e) err ob) delivered (failed + 1))"

definition flush :: "nat \<Rightarrow> ('s \<Rightarrow> 'e \<Rightarrow> 's \<times> string option) \<Rightarrow> 's \<Rightarrow> 'e outbox \<Rightarrow>
    's \<times> 'e outbox \<times> nat \<times> nat \<times> nat" where
  "flush max_attempts sink s ob =
     (let (s', ob', delivered, failed) = flush_loop max_attempts sink (pending ob) s ob 0 0
      in (s', ob', delivered, failed, length (pending ob')))"

text \<open>What an entry keeps for good.\<close>

definition entry_facts :: "'e outbox \<Rightarrow> (string \<times> 'e) list" where
  "entry_facts ob = map (\<lambda>e. (ox_entry_id e, ox_event e)) ob"

definition undelivered :: "'e outbox \<Rightarrow> string set" where
  "undelivered ob = ox_entry_id ` set (filter (\<lambda>e. \<not> ox_delivered e) ob)"

lemma undelivered_simps [simp]:
  "undelivered [] = {}"
  "undelivered (e # es) =
     (if ox_delivered e then undelivered es else insert (ox_entry_id e) (undelivered es))"
  by (simp_all add: undelivered_def)

lemma undelivered_ids: "i \<in> undelivered ob \<Longrightarrow> i \<in> ox_entry_id ` set ob"
  by (auto simp: undelivered_def)

lemma entry_facts_update:
  "(\<And>e. ox_entry_id (f e) = ox_entry_id e \<and> ox_event (f e) = ox_event e) \<Longrightarrow>
   entry_facts (update_entry i f ob) = entry_facts ob"
  by (induction ob) (auto simp: entry_facts_def)

lemma entry_facts_marks [simp]:
  "entry_facts (mark_delivered i ob) = entry_facts ob"
  "entry_facts (mark_failed i err ob) = entry_facts ob"
  by (simp_all add: mark_delivered_def mark_failed_def entry_facts_update)

lemma ids_of_facts: "map ox_entry_id ob = map fst (entry_facts ob)"
  by (simp add: entry_facts_def)

lemma undelivered_mark_delivered:
  "distinct (map ox_entry_id ob) \<Longrightarrow> undelivered (mark_delivered i ob) = undelivered ob - {i}"
  unfolding mark_delivered_def by (induction ob) (auto dest: undelivered_ids)

lemma undelivered_mark_failed: "undelivered (mark_failed i err ob) = undelivered ob"
  unfolding mark_failed_def by (induction ob) auto

text \<open>The entries of a snapshot whose delivery succeeds, the sink threaded through.\<close>

fun sink_run :: "('s \<Rightarrow> 'e \<Rightarrow> 's \<times> string option) \<Rightarrow> 's \<Rightarrow> 'e outbox_entry list \<Rightarrow>
    's \<times> string list" where
  "sink_run sink s [] = (s, [])"
| "sink_run sink s (e # es) =
     (let (s', r) = sink s (ox_event e); (s'', ids) = sink_run sink s' es
      in (s'', if r = None then ox_entry_id e # ids else ids))"

lemma flush_loop_spec:
  "distinct (map ox_entry_id ob) \<Longrightarrow>
   \<exists>ob'. flush_loop m sink es s ob d f =
      (fst (sink_run sink s es), ob', d + length (snd (sink_run sink s es)),
       f + (length es - length (snd (sink_run sink s es)))) \<and>
     entry_facts ob' = entry_facts ob \<and>
     undelivered ob' = undelivered ob - set (snd (sink_run sink s es)) \<and>
     length (snd (sink_run sink s es)) \<le> length es"
proof (induction es arbitrary: s ob d f)
  case Nil
  then show ?case by simp
next
  case (Cons e es)
  obtain s' r where sink: "sink s (ox_event e) = (s', r)" by force
  obtain s'' ids where rest: "sink_run sink s' es = (s'', ids)" by force
  show ?case
  proof (cases r)
    case None
    let ?ob = "mark_delivered (ox_entry_id e) ob"
    have "distinct (map ox_entry_id ?ob)" using Cons.prems by (simp add: ids_of_facts)
    from Cons.IH [OF this, of s' "d + 1" f] obtain ob' where
      "flush_loop m sink es s' ?ob (d + 1) f = (s'', ob', d + 1 + length ids, f + (length es - length ids))"
      "entry_facts ob' = entry_facts ob" "undelivered ob' = undelivered ?ob - set ids"
      "length ids \<le> length es"
      by (auto simp: rest)
    with None sink rest show ?thesis
      by (auto simp: undelivered_mark_delivered [OF Cons.prems])
  next
    case (Some err)
    let ?ob = "mark_failed (ox_entry_id e) err ob"
    have "distinct (map ox_entry_id ?ob)" using Cons.prems by (simp add: ids_of_facts)
    from Cons.IH [OF this, of s' d "f + 1"] obtain ob' where
      "flush_loop m sink es s' ?ob d (f + 1) = (s'', ob', d + length ids, f + 1 + (length es - length ids))"
      "entry_facts ob' = entry_facts ob" "undelivered ob' = undelivered ?ob - set ids"
      "length ids \<le> length es"
      by (auto simp: rest)
    with Some sink rest show ?thesis
      by (auto simp: undelivered_mark_failed Suc_diff_le)
  qed
qed

lemma length_pending:
  "distinct (map ox_entry_id ob) \<Longrightarrow> length (pending ob) = card (undelivered ob)"
proof -
  assume "distinct (map ox_entry_id ob)"
  then have "distinct (map ox_entry_id (pending ob))"
    unfolding pending_def by (rule distinct_map_filter)
  moreover have "undelivered ob = set (map ox_entry_id (pending ob))"
    by (auto simp: undelivered_def pending_def)
  ultimately show ?thesis by (metis distinct_card length_map)
qed

lemma sink_run_ids: "set (snd (sink_run sink s es)) \<subseteq> ox_entry_id ` set es"
proof (induction es arbitrary: s)
  case Nil
  then show ?case by simp
next
  case (Cons e es)
  from Cons.IH [of "fst (sink s (ox_event e))"] show ?case
    by (auto simp: Let_def split: prod.splits)
qed

lemma distinct_sink_run: "distinct (map ox_entry_id es) \<Longrightarrow> distinct (snd (sink_run sink s es))"
proof (induction es arbitrary: s)
  case Nil
  then show ?case by simp
next
  case (Cons e es)
  obtain s' r where sink: "sink s (ox_event e) = (s', r)" by force
  from Cons.IH [of s'] Cons.prems sink_run_ids [of sink s' es] sink show ?case
    by (auto simp: Let_def split: prod.splits)
qed

text \<open>
  C19. A flush loses nothing: no entry disappears or changes its event, exactly the entries the
  sink accepted leave the pending set, each is handed to the sink once, the reported counts add
  up to the snapshot, and \<open>remaining\<close> is the number that failed, to be retried by the next
  flush.
\<close>

theorem flush_at_least_once:
  assumes "distinct (map ox_entry_id ob)"
  shows "case flush m sink s ob of (s', ob', delivered, failed, remaining) \<Rightarrow>
    entry_facts ob' = entry_facts ob \<and>
    undelivered ob' = undelivered ob - set (snd (sink_run sink s (pending ob))) \<and>
    s' = fst (sink_run sink s (pending ob)) \<and>
    delivered + failed = length (pending ob) \<and> remaining = failed"
proof -
  let ?ids = "snd (sink_run sink s (pending ob))"
  obtain ob' where run: "flush_loop m sink (pending ob) s ob 0 0 =
      (fst (sink_run sink s (pending ob)), ob', length ?ids, length (pending ob) - length ?ids)"
    and ob': "entry_facts ob' = entry_facts ob" "undelivered ob' = undelivered ob - set ?ids"
    and len: "length ?ids \<le> length (pending ob)"
    using flush_loop_spec [OF assms, of m sink "pending ob" s 0 0] by auto
  have dist: "distinct (map ox_entry_id (pending ob))"
    unfolding pending_def by (rule distinct_map_filter [OF assms])
  have sub: "set ?ids \<subseteq> undelivered ob"
    using sink_run_ids [of sink s "pending ob"] by (auto simp: undelivered_def pending_def)
  have "finite (undelivered ob)" by (simp add: undelivered_def)
  then have "card (undelivered ob') = card (undelivered ob) - card (set ?ids)"
    unfolding ob'(2) using sub by (intro card_Diff_subset) (auto intro: finite_subset)
  also have "card (set ?ids) = length ?ids" by (rule distinct_card [OF distinct_sink_run [OF dist]])
  finally have "length (pending ob') = length (pending ob) - length ?ids"
    using length_pending [OF assms] length_pending [of ob'] assms ob'(1) by (simp add: ids_of_facts)
  with run ob' len show ?thesis by (simp add: flush_def)
qed

theorem flush_at_least_once_witness:
  "case flush 5 (\<lambda>s e. (s, None)) () (enqueue ''a'' 0 True []) of (s', ob', delivered, failed, remaining) \<Rightarrow>
     delivered + failed = (1::nat) \<and> remaining = failed"
  using flush_at_least_once [where ob = "enqueue ''a'' 0 True []" and m = 5 and sink = "\<lambda>s e. (s, None)" and s = "()"]
  by (simp add: enqueue_def pending_def flush_def split: prod.splits)

text \<open>
  The retry limit of the dispatcher has no effect: a flush does the same for every value of
  \<open>max_attempts\<close>, so an entry that keeps failing is retried forever.
\<close>

theorem max_attempts_has_no_effect: "flush m sink s ob = flush m' sink s ob"
proof -
  have "flush_loop m sink es s ob d f = flush_loop m' sink es s ob d f" for es s ob d f
    by (induction es arbitrary: s ob d f) (auto split: prod.splits option.splits)
  then show ?thesis by (simp add: flush_def)
qed

subsection \<open>Leases and the reconciler\<close>

datatype lease_state = LS_PENDING | LS_ACTIVE | LS_EXPIRED | LS_REVOKED | LS_COMPLETED

text \<open>\<open>expires_at\<close> is \<open>None\<close> for a text \<open>datetime.fromisoformat\<close> rejects, as the default \<open>''\<close>.\<close>

record lease =
  le_lease_id :: string
  le_task_run_id :: string
  le_node_run_id :: string
  le_cell_id :: string
  le_fencing_token :: fencing_token
  le_state :: lease_state
  le_expires_at :: "int option"

datatype reconcile_action =
    RevokedMustTerminate string string      \<comment> \<open>lease, node run\<close>
  | NeedsDecision string string             \<comment> \<open>node run, lease\<close>

record reconciler_report =
  unknown_node_runs :: "string list"
  expired_leases :: "string list"
  revoked_leases :: "string list"
  actions :: "reconcile_action list"

definition reconcile_one :: "(string, string) dict \<Rightarrow> int \<Rightarrow> lease \<Rightarrow> reconciler_report \<Rightarrow>
    runtime_error + reconciler_report" where
  "reconcile_one node_run_states now le report =
     (if le_state le = LS_REVOKED then
        Inr (report\<lparr>revoked_leases := revoked_leases report @ [le_lease_id le],
                    actions := actions report @ [RevokedMustTerminate (le_lease_id le) (le_node_run_id le)]\<rparr>)
      else if le_state le \<in> {LS_PENDING, LS_ACTIVE} then
        (case le_expires_at le of None \<Rightarrow> Inl BadTimestamp | Some expiry \<Rightarrow>
         if expiry \<le> now then
           (let report = report\<lparr>expired_leases := expired_leases report @ [le_lease_id le]\<rparr>;
                ns = dget_default node_run_states (le_node_run_id le) ''unknown''
            in if ns \<in> {''running'', ''awaiting-approval''} then
                 Inr (report\<lparr>unknown_node_runs := unknown_node_runs report @ [le_node_run_id le],
                             actions := actions report @ [NeedsDecision (le_node_run_id le) (le_lease_id le)]\<rparr>)
               else Inr report)
         else Inr report)
      else Inr report)"

fun reconcile_loop :: "(string, string) dict \<Rightarrow> int \<Rightarrow> lease list \<Rightarrow> reconciler_report \<Rightarrow>
    runtime_error + reconciler_report" where
  "reconcile_loop states now [] report = Inr report"
| "reconcile_loop states now (le # les) report =
     (case reconcile_one states now le report of Inl err \<Rightarrow> Inl err
      | Inr report' \<Rightarrow> reconcile_loop states now les report')"

definition reconcile :: "lease list \<Rightarrow> (string, string) dict \<Rightarrow> int \<Rightarrow> runtime_error + reconciler_report" where
  "reconcile leases states now = reconcile_loop states now leases
     \<lparr>unknown_node_runs = [], expired_leases = [], revoked_leases = [], actions = []\<rparr>"

definition live :: "lease \<Rightarrow> bool" where
  "live le \<longleftrightarrow> le_state le \<in> {LS_PENDING, LS_ACTIVE}"

definition overdue :: "int \<Rightarrow> lease \<Rightarrow> bool" where
  "overdue now le \<longleftrightarrow> live le \<and> (\<exists>x. le_expires_at le = Some x \<and> x \<le> now)"

definition in_doubt :: "(string, string) dict \<Rightarrow> int \<Rightarrow> lease \<Rightarrow> bool" where
  "in_doubt states now le \<longleftrightarrow> overdue now le \<and>
     dget states (le_node_run_id le) \<in> {Some ''running'', Some ''awaiting-approval''}"

definition action_of :: "(string, string) dict \<Rightarrow> int \<Rightarrow> lease \<Rightarrow> reconcile_action list" where
  "action_of states now le =
     (if le_state le = LS_REVOKED then [RevokedMustTerminate (le_lease_id le) (le_node_run_id le)]
      else if in_doubt states now le then [NeedsDecision (le_node_run_id le) (le_lease_id le)]
      else [])"

lemma reconcile_one_eq:
  "reconcile_one states now le report =
     (if live le \<and> le_expires_at le = None then Inl BadTimestamp
      else Inr \<lparr>
        unknown_node_runs = unknown_node_runs report @
          (if in_doubt states now le then [le_node_run_id le] else []),
        expired_leases = expired_leases report @ (if overdue now le then [le_lease_id le] else []),
        revoked_leases = revoked_leases report @
          (if le_state le = LS_REVOKED then [le_lease_id le] else []),
        actions = actions report @ action_of states now le\<rparr>)"
  by (cases report; cases "le_state le"; cases "le_expires_at le";
      cases "dget states (le_node_run_id le)")
    (simp_all add: reconcile_one_def Let_def live_def overdue_def in_doubt_def action_of_def
      dget_default_def)

lemma reconcile_loop_eq:
  "reconcile_loop states now les report =
     (if \<exists>le \<in> set les. live le \<and> le_expires_at le = None then Inl BadTimestamp
      else Inr \<lparr>
        unknown_node_runs = unknown_node_runs report @ map le_node_run_id (filter (in_doubt states now) les),
        expired_leases = expired_leases report @ map le_lease_id (filter (overdue now) les),
        revoked_leases = revoked_leases report @
          map le_lease_id (filter (\<lambda>le. le_state le = LS_REVOKED) les),
        actions = actions report @ concat (map (action_of states now) les)\<rparr>)"
proof (induction les arbitrary: report)
  case Nil
  then show ?case by simp
next
  case (Cons le les)
  show ?case by (simp add: Cons.IH reconcile_one_eq)
qed

text \<open>
  The reconciler reports a node run as unknown exactly when one of its leases is live, past
  its expiry, and the run was last seen running or awaiting approval; it never reports the run
  of a completed, expired or revoked lease, and it fails only on a live lease whose expiry does
  not parse.
\<close>

theorem reconcile_reports_in_doubt:
  "(reconcile leases states now = Inl BadTimestamp \<longleftrightarrow>
      (\<exists>le \<in> set leases. live le \<and> le_expires_at le = None)) \<and>
   (\<forall>r. reconcile leases states now = Inr r \<longrightarrow>
      set (unknown_node_runs r) = {nid. \<exists>le \<in> set leases. le_node_run_id le = nid \<and>
         le_state le \<in> {LS_PENDING, LS_ACTIVE} \<and>
         (\<exists>x. le_expires_at le = Some x \<and> x \<le> now) \<and>
         dget states nid \<in> {Some ''running'', Some ''awaiting-approval''}} \<and>
      set (expired_leases r) = {le_lease_id le | le. le \<in> set leases \<and> overdue now le})"
  unfolding reconcile_def reconcile_loop_eq
  by (auto simp: in_doubt_def overdue_def live_def)

theorem reconcile_reports_in_doubt_witness:
  "reconcile [\<lparr>le_lease_id = ''l'', le_task_run_id = ''t'', le_node_run_id = ''n'', le_cell_id = ''c'',
     le_fencing_token = \<lparr>ft_cell_id = ''c'', ft_value = 0\<rparr>, le_state = LS_ACTIVE,
     le_expires_at = None\<rparr>] [] 0 = Inl BadTimestamp"
  by (subst conjunct1 [OF reconcile_reports_in_doubt]) (simp add: live_def)

subsection \<open>Token buckets\<close>

text \<open>
  An infinite rate is \<open>None\<close>. The monotonic clock is an argument; the lock makes a call atomic.
\<close>

record token_bucket =
  tb_capacity :: rat
  tb_refill_rate :: "rat option"
  tb_tokens :: rat
  tb_last :: rat

definition token_bucket :: "rat \<Rightarrow> rat option \<Rightarrow> rat \<Rightarrow> token_bucket" where
  "token_bucket capacity rate now = \<lparr>tb_capacity = capacity, tb_refill_rate = rate,
     tb_tokens = capacity, tb_last = now\<rparr>"

definition refill :: "rat \<Rightarrow> rat \<Rightarrow> token_bucket \<Rightarrow> token_bucket" where
  "refill rate now b =
     (let elapsed = now - tb_last b in
      if elapsed > 0
      then b\<lparr>tb_tokens := min (tb_capacity b) (tb_tokens b + elapsed * rate), tb_last := now\<rparr>
      else b)"

definition try_acquire :: "rat \<Rightarrow> rat \<Rightarrow> token_bucket \<Rightarrow> (bool \<times> rat \<times> rat) \<times> token_bucket" where
  "try_acquire n now b =
     (if n \<le> 0 then ((True, 0, tb_capacity b), b)
      else case tb_refill_rate b of
        None \<Rightarrow> ((False, 3600, 0), b)
      | Some rate \<Rightarrow>
          if rate \<le> 0 then ((False, 3600, 0), b)
          else
            let b = refill rate now b in
            if tb_tokens b \<ge> n
            then ((True, 0, tb_tokens b - n), b\<lparr>tb_tokens := tb_tokens b - n\<rparr>)
            else
              let deficit = n - tb_tokens b;
                  retry_after = deficit / rate
              in ((False, retry_after, - deficit), b))"

record rate_limit_decision =
  rl_allowed :: bool
  rl_retry_after :: rat
  rl_remaining :: rat
  rl_tenant :: string

type_synonym rate_limiter = "(string, token_bucket) dict"

text \<open>The bucket factory may read the clock; the metrics the limiter ticks are not modelled.\<close>

definition bucket_for :: "(string \<Rightarrow> rat \<Rightarrow> token_bucket) \<Rightarrow> string \<Rightarrow> rat \<Rightarrow> rate_limiter \<Rightarrow>
    token_bucket \<times> rate_limiter" where
  "bucket_for factory k now lmt =
     (case dget lmt k of Some b \<Rightarrow> (b, lmt)
      | None \<Rightarrow> (factory k now, dset k (factory k now) lmt))"

definition rate_check :: "(string \<Rightarrow> rat \<Rightarrow> token_bucket) \<Rightarrow> string \<Rightarrow> rat \<Rightarrow> rat \<Rightarrow> rate_limiter \<Rightarrow>
    rate_limit_decision \<times> rate_limiter" where
  "rate_check factory k n now lmt =
     (let (b, lmt) = bucket_for factory k now lmt;
          ((allowed, retry_after, remaining), b') = try_acquire n now b
      in (\<lparr>rl_allowed = allowed, rl_retry_after = retry_after, rl_remaining = max 0 remaining,
           rl_tenant = k\<rparr>, dset k b' lmt))"

definition bucket_snapshot :: "rate_limiter \<Rightarrow> string \<Rightarrow> rat \<times> rat \<times> rat option" where
  "bucket_snapshot lmt k =
     (case dget lmt k of None \<Rightarrow> (0, 0, Some 0)
      | Some b \<Rightarrow> (tb_tokens b, tb_capacity b, tb_refill_rate b))"

text \<open>A history of requests \<open>(time, tokens)\<close>: how many tokens it hands out.\<close>

fun granted :: "(rat \<times> rat) list \<Rightarrow> token_bucket \<Rightarrow> rat" where
  "granted [] b = 0"
| "granted ((now, n) # reqs) b =
     (let ((allowed, _, _), b') = try_acquire n now b
      in (if allowed then n else 0) + granted reqs b')"

definition bucket_wf :: "token_bucket \<Rightarrow> bool" where
  "bucket_wf b \<longleftrightarrow> 0 \<le> tb_tokens b \<and> tb_tokens b \<le> tb_capacity b"

lemma refill_sel [simp]:
  "tb_capacity (refill rate now b) = tb_capacity b"
  "tb_refill_rate (refill rate now b) = tb_refill_rate b"
  by (simp_all add: refill_def Let_def)

lemma refill_wf: "bucket_wf b \<Longrightarrow> 0 \<le> rate \<Longrightarrow> bucket_wf (refill rate now b)"
  by (auto simp: refill_def bucket_wf_def Let_def min_def intro: add_nonneg_nonneg)

lemma try_acquire_wf:
  "bucket_wf b \<Longrightarrow> bucket_wf (snd (try_acquire n now b)) \<and>
   tb_capacity (snd (try_acquire n now b)) = tb_capacity b \<and>
   tb_refill_rate (snd (try_acquire n now b)) = tb_refill_rate b"
proof (cases "tb_refill_rate b")
  case None
  assume "bucket_wf b"
  with None show ?thesis by (simp add: try_acquire_def)
next
  case (Some rate)
  assume b: "bucket_wf b"
  show ?thesis
  proof (cases "0 < n \<and> 0 < rate")
    case True
    then have "bucket_wf (refill rate now b)" by (intro refill_wf [OF b]) simp
    with True Some show ?thesis by (simp add: try_acquire_def Let_def bucket_wf_def)
  next
    case False
    with Some b show ?thesis by (auto simp: try_acquire_def)
  qed
qed

text \<open>Tokens plus what the clock still owes: the potential that bounds what is handed out.\<close>

lemma refill_potential:
  assumes "0 \<le> rate" "tb_last b \<le> now"
  shows "tb_tokens (refill rate now b) - rate * tb_last (refill rate now b) \<le> tb_tokens b - rate * tb_last b"
    "tb_last (refill rate now b) = now"
proof -
  show last: "tb_last (refill rate now b) = now" using assms(2) by (auto simp: refill_def Let_def)
  have "tb_tokens (refill rate now b) \<le> tb_tokens b + (now - tb_last b) * rate"
    by (auto simp: refill_def Let_def min_def) (use assms in simp)
  then show "tb_tokens (refill rate now b) - rate * tb_last (refill rate now b) \<le> tb_tokens b - rate * tb_last b"
    unfolding last by (simp add: algebra_simps)
qed

lemma granted_bound:
  assumes "tb_refill_rate b = Some rate" "0 < rate" "bucket_wf b"
    "sorted (map fst ((tb_last b, 0) # reqs))" "\<forall>(now, n) \<in> set reqs. 0 < n"
    "\<forall>(now, n) \<in> set reqs. now \<le> T" "tb_last b \<le> T"
  shows "granted reqs b \<le> tb_tokens b + rate * (T - tb_last b)"
  using assms
proof (induction reqs arbitrary: b)
  case Nil
  then show ?case by (simp add: bucket_wf_def)
next
  case (Cons r reqs)
  obtain now n where r: "r = (now, n)" by force
  let ?b = "refill rate now b"
  from Cons.prems r have now: "tb_last b \<le> now" "now \<le> T" and n: "0 < n" by auto
  note pot = refill_potential [OF less_imp_le [OF Cons.prems(2)] now(1)]
  have wf: "bucket_wf ?b" by (rule refill_wf) (use Cons.prems in auto)
  have rest: "granted reqs b' \<le> tb_tokens b' + rate * (T - now)"
    if "tb_refill_rate b' = Some rate" "bucket_wf b'" "tb_last b' = now" for b'
    using Cons.IH [of b'] that Cons.prems r by auto
  show ?case
  proof (cases "n \<le> tb_tokens ?b")
    case True
    let ?b' = "?b\<lparr>tb_tokens := tb_tokens ?b - n\<rparr>"
    have "granted reqs ?b' \<le> tb_tokens ?b - n + rate * (T - now)"
      using rest [of ?b'] Cons.prems(1) wf pot(2) True n by (simp add: bucket_wf_def)
    then have "granted (r # reqs) b \<le> tb_tokens ?b + rate * (T - now)"
      using Cons.prems(1,2) r n True by (simp add: try_acquire_def Let_def)
    also have "\<dots> \<le> tb_tokens b + rate * (T - tb_last b)"
      using pot by (simp add: algebra_simps)
    finally show ?thesis .
  next
    case False
    have "granted reqs ?b \<le> tb_tokens ?b + rate * (T - now)"
      using rest [of ?b] Cons.prems(1) wf pot(2) by simp
    then have "granted (r # reqs) b \<le> tb_tokens ?b + rate * (T - now)"
      using Cons.prems(1,2) r n False by (simp add: try_acquire_def Let_def)
    also have "\<dots> \<le> tb_tokens b + rate * (T - tb_last b)"
      using pot by (simp add: algebra_simps)
    finally show ?thesis .
  qed
qed

text \<open>
  C20. The token bucket enforces its rate: over any history of positive requests at nondecreasing
  times up to \<open>T\<close>, a fresh bucket hands out at most its capacity plus the refill of the elapsed
  time.
\<close>

theorem token_bucket_rate_bound:
  assumes "0 < rate" "0 \<le> capacity" "sorted (map fst ((t0, 0) # reqs))"
    "\<forall>(now, n) \<in> set reqs. 0 < n \<and> now \<le> T" "t0 \<le> T"
  shows "granted reqs (token_bucket capacity (Some rate) t0) \<le> capacity + rate * (T - t0)"
  using granted_bound [of "token_bucket capacity (Some rate) t0" rate reqs T] assms
  by (auto simp: token_bucket_def bucket_wf_def)

theorem token_bucket_rate_bound_witness:
  "granted [(0, 1), (0, 1), (1, 1)] (token_bucket 1 (Some 1) 0) \<le> 1 + 1 * (1 - 0)"
  by (rule token_bucket_rate_bound) auto

text \<open>
  The advertised delay is right: a request for \<open>n\<close> tokens that was denied, with \<open>n\<close> within
  the capacity, is allowed when repeated after \<open>retry_after\<close> with nothing in between; a request
  above the capacity is denied whenever it is made.
\<close>

theorem retry_after_suffices:
  assumes "tb_refill_rate b = Some rate" "0 < rate" "bucket_wf b" "tb_last b \<le> now" "0 < n"
    and "try_acquire n now b = ((False, delay, rem), b')"
  shows "(n \<le> tb_capacity b \<longrightarrow> fst (fst (try_acquire n (now + delay) b'))) \<and>
    (tb_capacity b < n \<longrightarrow> \<not> fst (fst (try_acquire n (now + t) b')))"
proof -
  let ?b = "refill rate now b"
  have b': "b' = ?b" and few: "tb_tokens ?b < n" and delay: "delay = (n - tb_tokens ?b) / rate"
    using assms(1,2,5,6) by (auto simp: try_acquire_def Let_def split: if_splits)
  have wf: "bucket_wf ?b" by (rule refill_wf) (use assms in auto)
  have last: "tb_last ?b = now" using refill_potential(2) [of rate b now] assms(2,4) by simp
  have pos: "0 < delay" using few assms(2) by (simp add: delay)
  have "tb_tokens ?b + delay * rate = n" using assms(2) by (simp add: delay)
  then have "tb_tokens (refill rate (now + delay) ?b) = min (tb_capacity b) n"
    using pos last by (simp add: refill_def [of rate "now + delay"] Let_def)
  moreover have "tb_tokens (refill rate (now + t) ?b) \<le> tb_capacity b"
    using refill_wf [OF wf, of rate "now + t"] assms(2) by (simp add: bucket_wf_def)
  ultimately show ?thesis
    using assms(1,2,5) by (auto simp: b' try_acquire_def Let_def)
qed

theorem retry_after_suffices_witness:
  "fst (fst (try_acquire 1 (0 + 1) (snd (try_acquire 1 0
     \<lparr>tb_capacity = 1, tb_refill_rate = Some 1, tb_tokens = 0, tb_last = 0\<rparr>))))"
proof -
  let ?b = "\<lparr>tb_capacity = 1, tb_refill_rate = Some 1, tb_tokens = 0, tb_last = 0\<rparr>"
  have "try_acquire 1 0 ?b = ((False, 1, -1), ?b)"
    by (simp add: try_acquire_def refill_def Let_def)
  with retry_after_suffices [of ?b 1 0 1 1 "-1" ?b] show ?thesis by (simp add: bucket_wf_def)
qed

lemma rate_check_other_tenant:
  "k' \<noteq> k \<Longrightarrow> dget (snd (rate_check factory k n now lmt)) k' = dget lmt k'"
  by (auto simp: rate_check_def bucket_for_def Let_def dict_simps split: option.splits prod.splits)

end
