(* ===== verification/Signing.thy ===== *)
theory Signing
  imports Registry
begin

section \<open>Signatures, envelopes, grants and receipts\<close>

text \<open>
  \<open>orchestra/core/hashing.py\<close> and what is signed with it: execution plans
  (\<open>compiler/plan_signer.py\<close>), node grants (\<open>coordinator/node_grant.py\<close>,
  \<open>runtime/credential_broker.py\<close>) and receipts (\<open>coordinator/receipt.py\<close>, \<open>evidence/cli.py\<close>).
  Random keys and ids are arguments; instants are milliseconds.
\<close>

subsection \<open>URL-safe base64\<close>

text \<open>\<open>urlsafe_b64encode(b).decode('ascii').rstrip('=')\<close>\<close>

definition b64_char :: "nat \<Rightarrow> char" where
  "b64_char n = (if n < 26 then char_of (65 + n) else if n < 52 then char_of (71 + n)
     else if n < 62 then char_of (n - 4) else if n = 62 then CHR ''-'' else CHR ''_'')"

fun b64_url :: "string \<Rightarrow> string" where
  "b64_url [] = []"
| "b64_url [a] = (let x = of_char a :: nat in [b64_char (x div 4), b64_char (x mod 4 * 16)])"
| "b64_url [a, b] = (let x = of_char a; y = of_char b :: nat in
     [b64_char (x div 4), b64_char (x mod 4 * 16 + y div 16), b64_char (y mod 16 * 4)])"
| "b64_url (a # b # c # cs) = (let x = of_char a; y = of_char b; z = of_char c :: nat in
     b64_char (x div 4) # b64_char (x mod 4 * 16 + y div 16) #
     b64_char (y mod 16 * 4 + z div 64) # b64_char (z mod 64) # b64_url cs)"

definition is_ascii :: "string \<Rightarrow> bool" where
  "is_ascii s \<longleftrightarrow> list_all (\<lambda>c. (of_char c :: nat) < 128) s"

lemma b64_char_ascii: "(of_char (b64_char n) :: nat) < 128"
  by (auto simp: b64_char_def of_char_of)

lemma is_ascii_b64 [simp]: "is_ascii (b64_url s)"
  by (induction s rule: b64_url.induct) (simp_all add: is_ascii_def Let_def b64_char_ascii)

subsection \<open>HMAC over canonical JSON\<close>

text \<open>\<open>hmac.compare_digest\<close> on two strings raises \<open>TypeError\<close> for a character outside ASCII.\<close>

datatype sign_error = SignKeyError string | NonAscii | NotRegistered string | AudienceEscalation string string

definition hmac_sign :: "platform \<Rightarrow> string \<Rightarrow> json \<Rightarrow> string" where
  "hmac_sign pf k payload = b64_url (hmac_sha256 pf k (digest_json pf payload))"

definition compare_digest :: "string \<Rightarrow> string \<Rightarrow> sign_error + bool" where
  "compare_digest a b = (if is_ascii a \<and> is_ascii b then Inr (a = b) else Inl NonAscii)"

definition hmac_verify :: "platform \<Rightarrow> string \<Rightarrow> json \<Rightarrow> string \<Rightarrow> sign_error + bool" where
  "hmac_verify pf k payload sig = compare_digest (hmac_sign pf k payload) sig"

text \<open>
  The contract of a keyed signature: what is signed verifies, and nothing else verifies for that
  key and payload.
\<close>

locale keyed_mac =
  fixes sign :: "'k \<Rightarrow> json \<Rightarrow> string" and verify :: "'k \<Rightarrow> json \<Rightarrow> string \<Rightarrow> sign_error + bool"
  assumes verify_iff: "verify k p s = Inr True \<longleftrightarrow> s = sign k p"
begin

lemma verify_sign: "verify k p (sign k p) = Inr True"
  by (simp add: verify_iff)

lemma same_signature: "verify k p s = Inr True \<Longrightarrow> verify k' q s = Inr True \<Longrightarrow> sign k p = sign k' q"
  by (simp add: verify_iff)

end

interpretation hmac: keyed_mac "hmac_sign pf" "hmac_verify pf" for pf
  by unfold_locales (auto simp: hmac_verify_def compare_digest_def hmac_sign_def)

subsection \<open>Envelopes\<close>

definition cose_body :: "json \<Rightarrow> json \<Rightarrow> json" where
  "cose_body prot payload = JObj [(''protected'', prot), (''payload'', payload)]"

definition cose_like_envelope :: "platform \<Rightarrow> (string, json) dict \<Rightarrow> json \<Rightarrow> string \<Rightarrow> string \<Rightarrow> json" where
  "cose_like_envelope pf protd payload k kid =
     (let prot = JObj (dmerge [(''alg'', JStr ''HS256''), (''kid'', JStr kid)] protd)
      in JObj [(''protected'', prot), (''payload'', payload),
               (''signature'', JStr (hmac_sign pf k (cose_body prot payload)))])"

definition verify_cose_like :: "platform \<Rightarrow> json \<Rightarrow> string \<Rightarrow> sign_error + bool" where
  "verify_cose_like pf envelope k =
     (case jget envelope ''signature'' of
        Some (JStr sig) \<Rightarrow>
          (case jget envelope ''protected'' of None \<Rightarrow> Inl (SignKeyError ''protected'') | Some prot \<Rightarrow>
           case jget envelope ''payload'' of None \<Rightarrow> Inl (SignKeyError ''payload'') | Some payload \<Rightarrow>
           hmac_verify pf k (cose_body prot payload) sig)
      | _ \<Rightarrow> Inr False)"

lemma jget_envelope [simp]:
  "jget (cose_like_envelope pf protd payload k kid) ''payload'' = Some payload"
  "jget (cose_like_envelope pf protd payload k kid) ''protected'' =
     Some (JObj (dmerge [(''alg'', JStr ''HS256''), (''kid'', JStr kid)] protd))"
  "jget (cose_like_envelope pf protd payload k kid) ''signature'' = Some (JStr (hmac_sign pf k
     (cose_body (JObj (dmerge [(''alg'', JStr ''HS256''), (''kid'', JStr kid)] protd)) payload)))"
  by (simp_all add: cose_like_envelope_def Let_def)

lemma verify_envelope: "verify_cose_like pf (cose_like_envelope pf protd payload k kid) k = Inr True"
  by (simp add: verify_cose_like_def hmac.verify_sign)

lemma verify_cose_like_iff:
  "verify_cose_like pf env k = Inr True \<longleftrightarrow>
     (\<exists>prot payload. jget env ''protected'' = Some prot \<and> jget env ''payload'' = Some payload \<and>
        jget env ''signature'' = Some (JStr (hmac_sign pf k (cose_body prot payload))))"
  by (auto simp: verify_cose_like_def hmac.verify_iff split: option.splits json.splits)

subsection \<open>Plans\<close>

definition plan_body :: "platform \<Rightarrow> execution_plan \<Rightarrow> json" where
  "plan_body pf p = JObj (ddel ''signed_by'' (ddel ''signature'' (plan_to_json pf p)))"

definition sign_plan :: "platform \<Rightarrow> string \<Rightarrow> string \<Rightarrow> execution_plan \<Rightarrow> execution_plan" where
  "sign_plan pf k kid p =
     p\<lparr>ep_signature := Some (hmac_sign pf k (plan_body pf p)), ep_signed_by := kid\<rparr>"

definition verify_plan :: "platform \<Rightarrow> string \<Rightarrow> execution_plan \<Rightarrow> sign_error + bool" where
  "verify_plan pf k p =
     (case ep_signature p of
        None \<Rightarrow> Inr False
      | Some sig \<Rightarrow> if sig = [] then Inr False else hmac_verify pf k (plan_body pf p) sig)"

lemma plan_body_resign [simp]:
  "plan_body pf (p\<lparr>ep_signature := s, ep_signed_by := kid\<rparr>) = plan_body pf p"
  by (simp add: plan_body_def plan_to_json_def)

subsection \<open>Node grants\<close>

record node_grant =
  ng_grant_id :: string
  ng_task_run_id :: string
  ng_node_run_id :: string
  ng_task_id :: string
  ng_node_id :: string
  ng_capability_id :: string
  ng_manifest_id :: string
  ng_data_view :: data_view
  ng_grant_purpose :: purpose
  ng_issued_at :: int
  ng_not_before :: int
  ng_expires_at :: int
  ng_audience :: string
  ng_signature :: "string option"

definition grant_to_json :: "platform \<Rightarrow> node_grant \<Rightarrow> json" where
  "grant_to_json pf g = JObj
     [(''grant_id'', JStr (ng_grant_id g)), (''task_run_id'', JStr (ng_task_run_id g)),
      (''node_run_id'', JStr (ng_node_run_id g)), (''task_id'', JStr (ng_task_id g)),
      (''node_id'', JStr (ng_node_id g)), (''capability_id'', JStr (ng_capability_id g)),
      (''manifest_id'', JStr (ng_manifest_id g)), (''data_view'', view_to_json (ng_data_view g)),
      (''purpose'', purpose_to_json (ng_grant_purpose g)),
      (''issued_at'', JStr (iso_text pf (ng_issued_at g))),
      (''not_before'', JStr (iso_text pf (ng_not_before g))),
      (''expires_at'', JStr (iso_text pf (ng_expires_at g))),
      (''audience'', JStr (ng_audience g)), (''signature'', opt_str (ng_signature g))]"

record issuer =
  is_key :: string
  is_kid :: string
  is_ttl :: int          \<comment> \<open>seconds\<close>

definition default_ttl_seconds :: int where
  "default_ttl_seconds = 600"

record grant_request =
  gq_task_run_id :: string
  gq_node_run_id :: string
  gq_task_id :: string
  gq_node_id :: string
  gq_capability_id :: string
  gq_manifest_id :: string
  gq_data_view :: data_view
  gq_purpose :: purpose

definition envelope_for :: "platform \<Rightarrow> issuer \<Rightarrow> node_grant \<Rightarrow> json" where
  "envelope_for pf i g =
     cose_like_envelope pf [(''type'', JStr ''node-grant'')] (grant_to_json pf g) (is_key i) (is_kid i)"

text \<open>
  The expiry is printed with whole seconds, \<open>strftime('...%S.') + '000Z'\<close>: the milliseconds of
  the issue time are cut off.
\<close>

definition issue_grant :: "platform \<Rightarrow> issuer \<Rightarrow> string \<Rightarrow> int \<Rightarrow> grant_request \<Rightarrow> node_grant" where
  "issue_grant pf i grant_id now q =
     (let g = \<lparr>ng_grant_id = grant_id, ng_task_run_id = gq_task_run_id q,
                ng_node_run_id = gq_node_run_id q, ng_task_id = gq_task_id q,
                ng_node_id = gq_node_id q, ng_capability_id = gq_capability_id q,
                ng_manifest_id = gq_manifest_id q, ng_data_view = gq_data_view q,
                ng_grant_purpose = gq_purpose q, ng_issued_at = now, ng_not_before = now,
                ng_expires_at = (now + is_ttl i * 1000) div 1000 * 1000,
                ng_audience = ''p0'', ng_signature = None\<rparr>
      in g\<lparr>ng_signature := (case jget (envelope_for pf i g) ''signature'' of
             Some (JStr s) \<Rightarrow> Some s | _ \<Rightarrow> None)\<rparr>)"

definition verify_grant :: "platform \<Rightarrow> issuer \<Rightarrow> node_grant \<Rightarrow> sign_error + bool" where
  "verify_grant pf i g =
     (if ng_signature g = None \<or> ng_signature g = Some [] then Inr False
      else verify_cose_like pf (envelope_for pf i g) (is_key i))"

definition grant_expired :: "node_grant \<Rightarrow> int \<Rightarrow> bool" where
  "grant_expired g now \<longleftrightarrow> ng_expires_at g \<le> now"

text \<open>The envelope that is verified is built, and signed, from the grant on the spot.\<close>

lemma verify_grant_eq:
  "verify_grant pf i g = Inr (ng_signature g \<noteq> None \<and> ng_signature g \<noteq> Some [])"
  by (auto simp: verify_grant_def envelope_for_def verify_envelope)

subsection \<open>Credential broker\<close>

record cell_key =
  ck_kid :: string
  ck_key :: string
  ck_rotated_to :: "string option"
  ck_revoked_at :: "int option"

record grant_audit =
  ga_grant_id :: string
  ga_cell_id :: string
  ga_kid :: string
  ga_parent_grant_id :: "string option"
  ga_issued_at :: int

record broker =
  br_keys :: "(string \<times> string, cell_key) dict"
  br_current_kid :: "(string, string) dict"
  br_grant_audit :: "grant_audit list"
  br_issuers :: "(string \<times> string, issuer) dict"

definition empty_broker :: broker where
  "empty_broker = \<lparr>br_keys = [], br_current_kid = [], br_grant_audit = [], br_issuers = []\<rparr>"

definition install_key :: "string \<Rightarrow> string \<Rightarrow> string \<Rightarrow> broker \<Rightarrow> broker" where
  "install_key cell kid k b = b\<lparr>
     br_keys := dset (cell, kid)
       \<lparr>ck_kid = kid, ck_key = k, ck_rotated_to = None, ck_revoked_at = None\<rparr> (br_keys b),
     br_current_kid := dset cell kid (br_current_kid b),
     br_issuers := dset (cell, kid)
       \<lparr>is_key = k, is_kid = kid, is_ttl = default_ttl_seconds\<rparr> (br_issuers b)\<rparr>"

definition add_cell :: "string \<Rightarrow> string \<Rightarrow> broker \<Rightarrow> broker" where
  "add_cell cell k b = install_key cell (cell @ ''-k1'') k b"

definition cell_key_count :: "broker \<Rightarrow> string \<Rightarrow> nat" where
  "cell_key_count b cell = length (filter (\<lambda>k. fst k = cell) (keys (br_keys b)))"

definition next_kid :: "broker \<Rightarrow> string \<Rightarrow> string" where
  "next_kid b cell = cell @ ''-k'' @ string_of_int (int (cell_key_count b cell) + 1)"

definition rotate_key :: "string \<Rightarrow> string \<Rightarrow> broker \<Rightarrow> broker" where
  "rotate_key cell k b =
     (let b = (case dget (br_current_kid b) cell of
                 None \<Rightarrow> b
               | Some old \<Rightarrow> (case dget (br_keys b) (cell, old) of
                   None \<Rightarrow> b
                 | Some ck \<Rightarrow> if old = [] then b else b\<lparr>br_keys := dset (cell, old)
                     (ck\<lparr>ck_rotated_to := Some (next_kid b cell)\<rparr>) (br_keys b)\<rparr>))
      in install_key cell (next_kid b cell) k b)"

definition revoke_kid :: "string \<Rightarrow> string \<Rightarrow> int \<Rightarrow> broker \<Rightarrow> broker" where
  "revoke_kid cell kid now b =
     (case dget (br_keys b) (cell, kid) of None \<Rightarrow> b
      | Some ck \<Rightarrow> b\<lparr>br_keys := dset (cell, kid) (ck\<lparr>ck_revoked_at := Some now\<rparr>) (br_keys b)\<rparr>)"

definition is_revoked :: "broker \<Rightarrow> string \<Rightarrow> string \<Rightarrow> bool" where
  "is_revoked b cell kid =
     (case dget (br_keys b) (cell, kid) of None \<Rightarrow> False | Some ck \<Rightarrow> ck_revoked_at ck \<noteq> None)"

definition is_subset :: "string \<Rightarrow> string \<Rightarrow> bool" where
  "is_subset child parent \<longleftrightarrow> child = parent"

text \<open>\<open>ttl_seconds\<close> is a parameter the body does not read.\<close>

definition broker_issue :: "platform \<Rightarrow> string \<Rightarrow> int \<Rightarrow> string \<Rightarrow> grant_request \<Rightarrow> int \<Rightarrow> string option \<Rightarrow>
    string option \<Rightarrow> broker \<Rightarrow> sign_error + (node_grant \<times> broker)" where
  "broker_issue pf grant_id now cell q ttl_seconds parent_grant_id parent_audience b =
     (case dget (br_current_kid b) cell of
        None \<Rightarrow> Inl (NotRegistered cell)
      | Some kid \<Rightarrow>
        if kid = [] then Inl (NotRegistered cell) else
        case dget (br_issuers b) (cell, kid) of
          None \<Rightarrow> Inl (SignKeyError kid)
        | Some i \<Rightarrow>
          let g = issue_grant pf i grant_id now q;
              parent = (case parent_audience of None \<Rightarrow> [] | Some a \<Rightarrow> a)
          in if parent \<noteq> [] \<and> ng_audience g \<noteq> parent \<and> \<not> is_subset (ng_audience g) parent
             then Inl (AudienceEscalation (ng_audience g) parent)
             else Inr (g, b\<lparr>br_grant_audit := br_grant_audit b @
               [\<lparr>ga_grant_id = ng_grant_id g, ga_cell_id = cell, ga_kid = kid,
                 ga_parent_grant_id = parent_grant_id, ga_issued_at = ng_issued_at g\<rparr>]\<rparr>))"

fun verify_any :: "platform \<Rightarrow> broker \<Rightarrow> node_grant \<Rightarrow> string \<Rightarrow>
    ((string \<times> string) \<times> issuer) list \<Rightarrow> sign_error + bool" where
  "verify_any pf b g cell [] = Inr False"
| "verify_any pf b g cell (((cid, k), i) # is) =
     (if cid \<noteq> cell then verify_any pf b g cell is
      else if is_revoked b cid k then verify_any pf b g cell is
      else case verify_grant pf i g of
        Inl err \<Rightarrow> Inl err
      | Inr ok \<Rightarrow> if ok then Inr True else verify_any pf b g cell is)"

definition broker_verify :: "platform \<Rightarrow> broker \<Rightarrow> node_grant \<Rightarrow> string \<Rightarrow> sign_error + bool" where
  "broker_verify pf b g cell = verify_any pf b g cell (br_issuers b)"

definition verify_with_kid :: "platform \<Rightarrow> broker \<Rightarrow> node_grant \<Rightarrow> string \<Rightarrow> string \<Rightarrow> sign_error + bool" where
  "verify_with_kid pf b g cell kid =
     (if is_revoked b cell kid then Inr False
      else case dget (br_issuers b) (cell, kid) of None \<Rightarrow> Inr False | Some i \<Rightarrow> verify_grant pf i g)"

lemma verify_any_eq:
  "verify_any pf b g cell is = Inr (ng_signature g \<noteq> None \<and> ng_signature g \<noteq> Some [] \<and>
     (\<exists>((cid, k), i) \<in> set is. cid = cell \<and> \<not> is_revoked b cid k))"
  by (induction pf b g cell "is" rule: verify_any.induct) (auto simp: verify_grant_eq)

subsection \<open>Receipts\<close>

record receipt_input =
  ri_task_run_id :: string
  ri_node_run_id :: string
  ri_node_id :: string
  ri_plan_digest :: string
  ri_capability_id :: string
  ri_manifest_id :: string
  ri_data_view :: json
  ri_inputs :: json
  ri_outputs :: json
  ri_started_at :: string
  ri_ended_at :: string
  ri_status :: string

record signed_receipt =
  sr_receipt_id :: string
  sr_task_run_id :: string
  sr_node_run_id :: string
  sr_node_id :: string
  sr_envelope :: json
  sr_created_at :: int

definition receipt_payload :: "platform \<Rightarrow> string \<Rightarrow> receipt_input \<Rightarrow> json" where
  "receipt_payload pf rid x = JObj
     [(''receipt_id'', JStr rid), (''task_run_id'', JStr (ri_task_run_id x)),
      (''node_run_id'', JStr (ri_node_run_id x)), (''node_id'', JStr (ri_node_id x)),
      (''plan_digest'', JStr (ri_plan_digest x)), (''capability_id'', JStr (ri_capability_id x)),
      (''manifest_id'', JStr (ri_manifest_id x)),
      (''data_view_digest'', JStr (digest_json pf (ri_data_view x))),
      (''inputs_digest'', JStr (digest_json pf (ri_inputs x))),
      (''outputs_digest'', JStr (digest_json pf (ri_outputs x))),
      (''started_at'', JStr (ri_started_at x)), (''ended_at'', JStr (ri_ended_at x)),
      (''status'', JStr (ri_status x))]"

definition build_receipt :: "platform \<Rightarrow> string \<Rightarrow> string \<Rightarrow> string \<Rightarrow> int \<Rightarrow> receipt_input \<Rightarrow> signed_receipt" where
  "build_receipt pf k kid rid now x = \<lparr>sr_receipt_id = rid, sr_task_run_id = ri_task_run_id x,
     sr_node_run_id = ri_node_run_id x, sr_node_id = ri_node_id x,
     sr_envelope = cose_like_envelope pf [(''type'', JStr ''node-receipt'')] (receipt_payload pf rid x) k kid,
     sr_created_at = now\<rparr>"

definition verify_receipt :: "platform \<Rightarrow> string \<Rightarrow> signed_receipt \<Rightarrow> sign_error + bool" where
  "verify_receipt pf k r = verify_cose_like pf (sr_envelope r) k"

datatype offline_result = Rejected string | VerifiedOk string

definition verify_receipt_offline :: "platform \<Rightarrow> signed_receipt \<Rightarrow> string option \<Rightarrow> string option \<Rightarrow>
    sign_error + offline_result" where
  "verify_receipt_offline pf r expected_digest key =
     (let env = sr_envelope r in
      if \<not> is_obj env \<or> jget env ''protected'' = None \<or> jget env ''payload'' = None
      then Inr (Rejected ''envelope shape invalid'')
      else if jget env ''signature'' = None then Inr (Rejected ''envelope missing signature'')
      else case (case key of None \<Rightarrow> Inr True | Some k \<Rightarrow> verify_cose_like pf env k) of
        Inl err \<Rightarrow> Inl err
      | Inr False \<Rightarrow> Inr (Rejected ''signature mismatch'')
      | Inr True \<Rightarrow>
          (case expected_digest of
             None \<Rightarrow> Inr (VerifiedOk (sr_receipt_id r))
           | Some d \<Rightarrow>
             if jget (the (jget env ''payload'')) ''plan_digest'' \<noteq> Some (JStr d)
             then Inr (Rejected ''plan_digest mismatch'')
             else Inr (VerifiedOk (sr_receipt_id r))))"

text \<open>\<open>main\<close> passes the expected digest and no key; its exit code.\<close>

definition cli_exit_code :: "platform \<Rightarrow> signed_receipt \<Rightarrow> string option \<Rightarrow> sign_error + int" where
  "cli_exit_code pf r expected_digest =
     (case verify_receipt_offline pf r expected_digest None of
        Inl err \<Rightarrow> Inl err
      | Inr (VerifiedOk _) \<Rightarrow> Inr 0
      | Inr (Rejected _) \<Rightarrow> Inr 2)"

subsection \<open>Properties\<close>

text \<open>
  Envelopes are sound and complete for their key: a built envelope verifies, and whatever
  verifies carries exactly the MAC of its own protected header and payload, so changing either
  while keeping the signature means a collision of the MAC.
\<close>

theorem envelope_verification:
  "verify_cose_like pf (cose_like_envelope pf protd payload k kid) k = Inr True \<and>
   (verify_cose_like pf env k = Inr True \<longleftrightarrow>
     (\<exists>prot payload. jget env ''protected'' = Some prot \<and> jget env ''payload'' = Some payload \<and>
        jget env ''signature'' = Some (JStr (hmac_sign pf k (cose_body prot payload)))))"
  using verify_envelope verify_cose_like_iff by blast

text \<open>
  Signing a plan: the signed plan verifies, signing touches nothing but the signature and
  its signer, and a plan that verifies with the signature of another one has a body with the
  same MAC.
\<close>

theorem plan_signature:
  assumes "hmac_sign pf k (plan_body pf p) \<noteq> []"
  shows "verify_plan pf k (sign_plan pf k kid p) = Inr True \<and>
    plan_body pf (sign_plan pf k kid p) = plan_body pf p \<and>
    (verify_plan pf k q = Inr True \<and> ep_signature q = ep_signature (sign_plan pf k kid p) \<longrightarrow>
       hmac_sign pf k (plan_body pf q) = hmac_sign pf k (plan_body pf p))"
  using assms by (auto simp: verify_plan_def sign_plan_def hmac.verify_iff split: option.splits)

theorem plan_signature_witness:
  "(let p = \<lparr>ep_plan_id = ''p'', ep_contract_id = ''c'', ep_template_id = ''t'',
       ep_template_version = ''1'', ep_nodes = [], ep_edges = [], ep_routing = [],
       ep_created_at = 0, ep_signed_by = ''x'', ep_signature = None\<rparr>
    in verify_plan (ex_platform\<lparr>hmac_sha256 := (\<lambda>k m. ''mac'')\<rparr>) ''key''
         (sign_plan (ex_platform\<lparr>hmac_sha256 := (\<lambda>k m. ''mac'')\<rparr>) ''key'' ''kid'' p) = Inr True)"
  unfolding Let_def by (rule conjunct1 [OF plan_signature]) (simp add: hmac_sign_def)

text \<open>
  Verifying a grant does not look at its signature: any grant whose signature is not empty
  verifies with every issuer, whatever key the issuer has and whoever wrote the signature.
\<close>

theorem grant_verification_ignores_signature:
  "verify_grant pf i (g\<lparr>ng_signature := Some (c # cs)\<rparr>) = Inr True"
  by (simp add: verify_grant_eq)

text \<open>
  Revoking a key does not stop its grants once the cell has another key: the broker accepts
  a grant issued under the revoked key, and any forged one, as soon as one issuer of the cell is
  not revoked.
\<close>

theorem revoked_grant_still_accepted:
  assumes "br_keys b = [] \<and> br_issuers b = []"
    and "broker_issue pf gid now cell q ttl None None (add_cell cell kold b) = Inr (g, b1)"
    and "ng_signature g \<noteq> Some []"
  shows "let b2 = revoke_kid cell (cell @ ''-k1'') t (rotate_key cell knew b1) in
    is_revoked b2 cell (cell @ ''-k1'') \<and> broker_verify pf b2 g cell = Inr True"
proof -
  define b2 where "b2 = revoke_kid cell (cell @ ''-k1'') t (rotate_key cell knew b1)"
  let ?kid1 = "cell @ ''-k1''" and ?kid2 = "cell @ ''-k2''"
  obtain i where g: "g = issue_grant pf i gid now q"
    and b1: "br_keys b1 = br_keys (add_cell cell kold b)" "br_issuers b1 = br_issuers (add_cell cell kold b)"
      "br_current_kid b1 = br_current_kid (add_cell cell kold b)"
    using assms(2) by (auto simp: broker_issue_def Let_def split: option.splits if_splits)
  have two: "string_of_int 2 = ''2''" by code_simp
  have keys: "br_keys b1 = [((cell, ?kid1), \<lparr>ck_kid = ?kid1, ck_key = kold, ck_rotated_to = None,
      ck_revoked_at = None\<rparr>)]" "dget (br_current_kid b1) cell = Some ?kid1"
    using b1 assms(1) by (simp_all add: add_cell_def install_key_def dict_simps)
  have nk: "next_kid b cell = ?kid2" if "map fst (br_keys b) = [(cell, ?kid1)]" for b
    using that by (simp add: next_kid_def cell_key_count_def two)
  have rot: "br_keys (rotate_key cell knew b1) =
      [((cell, ?kid1), \<lparr>ck_kid = ?kid1, ck_key = kold, ck_rotated_to = Some ?kid2, ck_revoked_at = None\<rparr>),
       ((cell, ?kid2), \<lparr>ck_kid = ?kid2, ck_key = knew, ck_rotated_to = None, ck_revoked_at = None\<rparr>)]"
    "br_issuers (rotate_key cell knew b1) = dset (cell, ?kid2)
       \<lparr>is_key = knew, is_kid = ?kid2, is_ttl = default_ttl_seconds\<rparr> (br_issuers b1)"
    using keys by (simp_all add: rotate_key_def install_key_def nk Let_def)
  have rev: "is_revoked b2 cell ?kid1" "\<not> is_revoked b2 cell ?kid2"
    by (simp_all add: b2_def revoke_kid_def rot(1) is_revoked_def)
  have "br_issuers b2 = br_issuers (rotate_key cell knew b1)"
    by (simp add: b2_def revoke_kid_def rot(1))
  then have "dget (br_issuers b2) (cell, ?kid2) \<noteq> None" by (simp add: rot(2) dict_simps)
  then obtain i2 where "((cell, ?kid2), i2) \<in> set (br_issuers b2)" by (auto dest: map_of_SomeD)
  moreover have "ng_signature g \<noteq> None" by (simp add: g issue_grant_def Let_def envelope_for_def)
  ultimately show ?thesis
    using rev assms(3) unfolding b2_def [symmetric] Let_def
    by (auto simp: broker_verify_def verify_any_eq)
qed

text \<open>
  A receipt built by the builder verifies online and offline with its key and its plan
  digest, and offline verification with a key accepts only envelopes that carry the MAC of their
  own content and the expected digest.
\<close>

theorem receipt_verification:
  "verify_receipt pf k (build_receipt pf k kid rid now x) = Inr True \<and>
   verify_receipt_offline pf (build_receipt pf k kid rid now x) (Some (ri_plan_digest x)) (Some k) =
     Inr (VerifiedOk rid) \<and>
   (verify_receipt_offline pf r (Some d) (Some k) = Inr (VerifiedOk i) \<longrightarrow>
     i = sr_receipt_id r \<and> verify_cose_like pf (sr_envelope r) k = Inr True \<and>
     (\<exists>payload. jget (sr_envelope r) ''payload'' = Some payload \<and>
        jget payload ''plan_digest'' = Some (JStr d)))"
proof (intro conjI impI)
  show "verify_receipt pf k (build_receipt pf k kid rid now x) = Inr True"
    by (simp add: verify_receipt_def build_receipt_def verify_envelope)
  show "verify_receipt_offline pf (build_receipt pf k kid rid now x) (Some (ri_plan_digest x)) (Some k) =
     Inr (VerifiedOk rid)"
    by (simp add: verify_receipt_offline_def build_receipt_def verify_envelope Let_def
        receipt_payload_def) (simp add: cose_like_envelope_def Let_def)
qed (auto simp: verify_receipt_offline_def Let_def split: if_splits sum.splits bool.splits)

text \<open>
  The command line verifier checks no signature: it reports success for any envelope with
  the right shape and plan digest, whatever its signature field holds.
\<close>

theorem cli_accepts_any_signature:
  "cli_exit_code pf (r\<lparr>sr_envelope := JObj [(''protected'', prot),
     (''payload'', JObj [(''plan_digest'', JStr d)]), (''signature'', anything)]\<rparr>) (Some d) = Inr 0"
  by (simp add: cli_exit_code_def verify_receipt_offline_def Let_def)

subsection \<open>Concrete inputs\<close>

definition ex_request :: grant_request where
  "ex_request = \<lparr>gq_task_run_id = ''t'', gq_node_run_id = ''n'', gq_task_id = ''t'', gq_node_id = ''n'',
     gq_capability_id = ''m'', gq_manifest_id = ''mm'',
     gq_data_view = \<lparr>dv_name = ''v'', dv_shape = ShapeReference, dv_fields = [], dv_source = None\<rparr>,
     gq_purpose = ex_purpose\<rparr>"

definition ex_mac_platform :: platform where
  "ex_mac_platform = ex_platform\<lparr>hmac_sha256 := (\<lambda>k m. k)\<rparr>"

theorem revoked_grant_still_accepted_witness:
  "\<exists>g b1. broker_issue ex_mac_platform ''g'' 0 ''c'' ex_request 600 None None
       (add_cell ''c'' ''k'' empty_broker) = Inr (g, b1) \<and>
     broker_verify ex_mac_platform (revoke_kid ''c'' (''c'' @ ''-k1'') 5 (rotate_key ''c'' ''l'' b1)) g ''c'' = Inr True"
proof -
  obtain g b1 where issue: "broker_issue ex_mac_platform ''g'' 0 ''c'' ex_request 600 None None
       (add_cell ''c'' ''k'' empty_broker) = Inr (g, b1)" "ng_signature g \<noteq> Some []"
    by (simp add: broker_issue_def add_cell_def install_key_def empty_broker_def Let_def
      issue_grant_def envelope_for_def hmac_sign_def ex_mac_platform_def)
  have "br_keys empty_broker = [] \<and> br_issuers empty_broker = []" by (simp add: empty_broker_def)
  from revoked_grant_still_accepted [OF this issue, where t = 5 and knew = "''l''"] issue(1)
  show ?thesis by (auto simp: Let_def)
qed

theorem receipt_verification_witness:
  "(let r = build_receipt ex_platform ''k'' ''kid'' ''r'' 0
       \<lparr>ri_task_run_id = ''t'', ri_node_run_id = ''n'', ri_node_id = ''n'', ri_plan_digest = ''d'',
        ri_capability_id = ''m'', ri_manifest_id = ''mm'', ri_data_view = JNull, ri_inputs = JNull,
        ri_outputs = JNull, ri_started_at = [], ri_ended_at = [], ri_status = ''ok''\<rparr>
    in verify_cose_like ex_platform (sr_envelope r) ''k'' = Inr True)"
proof -
  let ?x = "\<lparr>ri_task_run_id = ''t'', ri_node_run_id = ''n'', ri_node_id = ''n'', ri_plan_digest = ''d'',
        ri_capability_id = ''m'', ri_manifest_id = ''mm'', ri_data_view = JNull, ri_inputs = JNull,
        ri_outputs = JNull, ri_started_at = [], ri_ended_at = [], ri_status = ''ok''\<rparr>"
  let ?r = "build_receipt ex_platform ''k'' ''kid'' ''r'' 0 ?x"
  have "verify_receipt_offline ex_platform ?r (Some ''d'') (Some ''k'') = Inr (VerifiedOk ''r'')"
    using receipt_verification [of ex_platform "''k''" "''kid''" "''r''" 0 ?x] by simp
  with receipt_verification [of ex_platform "''k''" "''kid''" "''r''" 0 ?x ?r "''d''" "''r''"]
  show ?thesis by (simp only: Let_def)
qed

end
