(* ===== verification/EventStore.thy ===== *)
theory EventStore
  imports Signing Runtime
begin

section \<open>The event store\<close>

text \<open>
  \<open>orchestra/coordinator/event_store.py\<close>: the PostgreSQL tables as lists of rows in insertion
  order, one function per method. A method is one transaction: it returns the new tables, or the
  database error and leaves the tables as they were (the rollback). What the statements rely on
  of the database is in the functions: primary and unique keys, foreign keys, \<open>ON CONFLICT\<close>.
  \<open>now()\<close> and fresh ids are arguments; instants are integers (milliseconds).
\<close>

subsection \<open>Rows\<close>

record task_run_row =
  tr_id :: string
  tr_contract_id :: string
  tr_template_id :: string
  tr_state :: task_run_state
  tr_plan_id :: "string option"
  tr_created_at :: int
  tr_updated_at :: int
  tr_tenant_id :: "string option"

record node_run_row =
  nr_id :: string
  nr_task_run_id :: string
  nr_node_id :: string
  nr_state :: node_run_state
  nr_capability_id :: "string option"
  nr_manifest_id :: "string option"
  nr_started_at :: "int option"
  nr_ended_at :: "int option"
  nr_output :: "json option"

datatype event_kind =
    TASK_RECEIVED | PLAN_CREATED | PLAN_SIGNED | NODE_STARTED | NODE_AWAITING_APPROVAL
  | NODE_APPROVED | NODE_REJECTED | NODE_SUCCEEDED | NODE_FAILED | TASK_COMPLETED | TASK_FAILED
  | IO_INTENT | IO_SENT | IO_RECEIVED | EXTERNAL_OUTCOME | POLICY_DECISION | ROUTING_DECISION
  | GRANT_ISSUED | RECEIPT_SIGNED | FALLBACK_TRIGGERED
  | BREAK_GLASS_REQUESTED | BREAK_GLASS_FIRST_APPROVED | BREAK_GLASS_ACTIVE
  | BREAK_GLASS_EXPIRED | BREAK_GLASS_REVOKED
  | HOLD_CREATED | HOLD_RELEASED | DELETION_REQUESTED | DELETION_COMPLETED | DELETION_PARTIAL
  | DELETION_BLOCKED | DELETION_FAILED

record event_row =
  ev_id :: string
  ev_seq :: int
  ev_task_run_id :: "string option"
  ev_node_run_id :: "string option"
  ev_kind :: event_kind
  ev_occurred_at :: int
  ev_actor :: string
  ev_payload :: "(string, json) dict"
  ev_prev_event_id :: "string option"
  ev_tenant_id :: "string option"

datatype approval_state = AS_PENDING | AS_APPROVED | AS_REJECTED | AS_EXPIRED | AS_FIRST_APPROVED

record approval_row =
  ap_id :: string
  ap_task_run_id :: string
  ap_node_id :: string
  ap_tenant_id :: string
  ap_version :: nat
  ap_state :: approval_state
  ap_required_approvers :: int
  ap_requested_at :: int
  ap_requested_by :: string
  ap_ticket :: "string option"
  ap_decided_at :: "int option"
  ap_decision_payload :: "(string \<times> string \<times> string) option"   \<comment> \<open>decision, by, rationale\<close>

record decision_row =
  ad_id :: string
  ad_approval_id :: string
  ad_seq :: nat
  ad_decided_by :: string
  ad_decided_at :: int
  ad_decision :: string
  ad_rationale :: string
  ad_identity_tenant :: string

datatype break_glass_state = BG_REQUESTED | BG_FIRST_APPROVED | BG_ACTIVE | BG_EXPIRED | BG_REVOKED

record break_glass_row =
  bg_request_id :: string
  bg_tenant_id :: string
  bg_task_run_id :: "string option"
  bg_purpose :: string
  bg_effect :: json
  bg_resource_scope :: json
  bg_ticket :: "string option"
  bg_requested_by :: string
  bg_requested_at :: int
  bg_state :: break_glass_state
  bg_first_approver :: "string option"
  bg_first_approved_at :: "int option"
  bg_second_approver :: "string option"
  bg_second_approved_at :: "int option"
  bg_window_seconds :: int
  bg_activated_at :: "int option"
  bg_expires_at :: "int option"
  bg_revoked_by :: "string option"
  bg_revoked_at :: "int option"
  bg_revoke_reason :: "string option"

datatype resource_kind = RK_ARTIFACT | RK_RECEIPT | RK_EVENT | RK_WEBHOOK | RK_CACHE | RK_BACKUP

record policy_row =
  lp_policy_id :: string
  lp_tenant_id :: string
  lp_resource_kind :: resource_kind
  lp_retention_seconds :: int
  lp_auto_delete :: bool
  lp_created_at :: int

record hold_row =
  lh_hold_id :: string
  lh_tenant_id :: string
  lh_case_id :: string
  lh_reason :: string
  lh_created_at :: int
  lh_created_by :: string
  lh_released_at :: "int option"
  lh_released_by :: "string option"
  lh_release_reason :: "string option"

type_synonym hold_resource = "string \<times> resource_kind \<times> string"   \<comment> \<open>hold, kind, resource\<close>

datatype deletion_state = DS_PENDING | DS_RUNNING | DS_DELETED | DS_PARTIAL | DS_FAILED | DS_HELD

record job_row =
  dj_job_id :: string
  dj_tenant_id :: string
  dj_resource_kind :: resource_kind
  dj_resource_id :: string
  dj_state :: deletion_state
  dj_attempt :: nat
  dj_max_attempts :: int
  dj_requested_at :: int
  dj_requested_by :: string
  dj_completed_at :: "int option"
  dj_last_error :: "string option"
  dj_evidence :: "json option"

record db =
  task_runs :: "task_run_row list"
  node_runs :: "node_run_row list"
  events :: "event_row list"
  receipts :: "signed_receipt list"
  grants :: "node_grant list"
  approvals :: "approval_row list"
  approval_decisions :: "decision_row list"
  break_glass_requests :: "break_glass_row list"
  lifecycle_policies :: "policy_row list"
  legal_holds :: "hold_row list"
  legal_hold_resources :: "hold_resource list"
  deletion_jobs :: "job_row list"

definition empty_db :: db where
  "empty_db = \<lparr>task_runs = [], node_runs = [], events = [], receipts = [], grants = [],
     approvals = [], approval_decisions = [], break_glass_requests = [], lifecycle_policies = [],
     legal_holds = [], legal_hold_resources = [], deletion_jobs = []\<rparr>"

datatype db_error = UniqueViolation string | ForeignKeyViolation string

subsection \<open>Statements\<close>

text \<open>\<open>UPDATE t SET ... WHERE P\<close>\<close>

definition update_where :: "('r \<Rightarrow> bool) \<Rightarrow> ('r \<Rightarrow> 'r) \<Rightarrow> 'r list \<Rightarrow> 'r list" where
  "update_where P f rows = map (\<lambda>r. if P r then f r else r) rows"

text \<open>\<open>INSERT\<close> under a key.\<close>

definition insert_row :: "string \<Rightarrow> ('r \<Rightarrow> 'k) \<Rightarrow> 'r \<Rightarrow> 'r list \<Rightarrow> db_error + 'r list" where
  "insert_row name key r rows =
     (if key r \<in> key ` set rows then Inl (UniqueViolation name) else Inr (rows @ [r]))"

lemma set_update_where: "set (update_where P f rows) = (\<lambda>r. if P r then f r else r) ` set rows"
  by (simp add: update_where_def)

lemma find_update_where:
  "(\<And>r. P (f r) = P r) \<Longrightarrow> find P (update_where P f rows) = map_option f (find P rows)"
  by (induction rows) (auto simp: update_where_def)

lemma find_snoc: "find P (xs @ ys) = (case find P xs of None \<Rightarrow> find P ys | Some x \<Rightarrow> Some x)"
  by (induction xs) auto

lemma map_update_where:
  "(\<And>r. key (f r) = key r) \<Longrightarrow> map key (update_where P f rows) = map key rows"
  by (simp add: update_where_def)

lemma insert_row_Inr:
  "insert_row name key r rows = Inr rows' \<longleftrightarrow> key r \<notin> key ` set rows \<and> rows' = rows @ [r]"
  by (auto simp: insert_row_def)

lemma filter_update_where:
  "(\<And>r. r \<in> set rows \<Longrightarrow> P r \<Longrightarrow> \<not> Q r \<and> \<not> Q (f r)) \<Longrightarrow>
   filter Q (update_where P f rows) = filter Q rows"
  by (induction rows) (auto simp: update_where_def)

subsection \<open>Tenant isolation of guarded operations\<close>

text \<open>
  Several tables are changed only by operations that first compare the row's tenant with the
  caller's identity. What that gives: whatever other tenants do, a tenant's rows stay as they
  are.
\<close>

locale tenant_guarded =
  fixes rows :: "'d \<Rightarrow> 'r list" and tenant_of :: "'r \<Rightarrow> string"
    and step :: "string \<Rightarrow> 'op \<Rightarrow> 'd \<Rightarrow> 'd" and inv :: "'d \<Rightarrow> bool"
  assumes guarded: "inv d \<Longrightarrow> t \<noteq> u \<Longrightarrow>
      filter (\<lambda>r. tenant_of r = u) (rows (step t op d)) = filter (\<lambda>r. tenant_of r = u) (rows d)"
    and inv_step: "inv d \<Longrightarrow> inv (step t op d)"
begin

lemma noninterference:
  "inv d \<Longrightarrow> \<forall>(t, op) \<in> set ops. t \<noteq> u \<Longrightarrow>
   filter (\<lambda>r. tenant_of r = u) (rows (foldl (\<lambda>d (t, op). step t op d) d ops)) =
   filter (\<lambda>r. tenant_of r = u) (rows d)"
proof (induction ops arbitrary: d)
  case Nil
  then show ?case by simp
next
  case (Cons p ops)
  obtain t op where p: "p = (t, op)" by force
  with Cons.IH [OF inv_step [OF Cons.prems(1)], of t op] Cons.prems show ?case
    by (simp add: guarded)
qed

end

subsection \<open>Task and node runs\<close>

definition upsert_task_run :: "int \<Rightarrow> string \<Rightarrow> string \<Rightarrow> string \<Rightarrow> task_run_state \<Rightarrow> string option \<Rightarrow>
    db \<Rightarrow> db" where
  "upsert_task_run now tid contract template state plan d =
     (if tid \<in> tr_id ` set (task_runs d)
      then d\<lparr>task_runs := update_where (\<lambda>r. tr_id r = tid)
             (\<lambda>r. r\<lparr>tr_state := state, tr_plan_id := plan, tr_updated_at := now\<rparr>) (task_runs d)\<rparr>
      else d\<lparr>task_runs := task_runs d @ [\<lparr>tr_id = tid, tr_contract_id = contract,
             tr_template_id = template, tr_state = state, tr_plan_id = plan, tr_created_at = now,
             tr_updated_at = now, tr_tenant_id = None\<rparr>]\<rparr>)"

definition update_task_state :: "int \<Rightarrow> string \<Rightarrow> task_run_state \<Rightarrow> db \<Rightarrow> db" where
  "update_task_state now tid state d = d\<lparr>task_runs := update_where (\<lambda>r. tr_id r = tid)
     (\<lambda>r. r\<lparr>tr_state := state, tr_updated_at := now\<rparr>) (task_runs d)\<rparr>"

definition get_task_run :: "db \<Rightarrow> string \<Rightarrow> task_run_row option" where
  "get_task_run d tid = find (\<lambda>r. tr_id r = tid) (task_runs d)"

text \<open>\<open>ORDER BY created_at DESC LIMIT n\<close>; ties come in no specified order, here in table order.\<close>

definition list_recent_task_runs :: "db \<Rightarrow> nat \<Rightarrow> task_run_row list" where
  "list_recent_task_runs d n = take n (sort_key (\<lambda>r. - tr_created_at r) (task_runs d))"

definition upsert_node_run :: "string \<Rightarrow> string \<Rightarrow> string \<Rightarrow> node_run_state \<Rightarrow> string option \<Rightarrow>
    string option \<Rightarrow> db \<Rightarrow> db_error + db" where
  "upsert_node_run nid tid node state cap mid d =
     (if nid \<in> nr_id ` set (node_runs d)
      then Inr (d\<lparr>node_runs := update_where (\<lambda>r. nr_id r = nid) (\<lambda>r. r\<lparr>nr_state := state,
             nr_capability_id := (if cap = None then nr_capability_id r else cap),
             nr_manifest_id := (if mid = None then nr_manifest_id r else mid)\<rparr>) (node_runs d)\<rparr>)
      else if tid \<notin> tr_id ` set (task_runs d) then Inl (ForeignKeyViolation ''node_runs'')
      else Inr (d\<lparr>node_runs := node_runs d @ [\<lparr>nr_id = nid, nr_task_run_id = tid, nr_node_id = node,
             nr_state = state, nr_capability_id = cap, nr_manifest_id = mid, nr_started_at = None,
             nr_ended_at = None, nr_output = None\<rparr>]\<rparr>))"

definition update_node_state :: "int \<Rightarrow> string \<Rightarrow> node_run_state \<Rightarrow> json option \<Rightarrow> bool \<Rightarrow> bool \<Rightarrow>
    db \<Rightarrow> db" where
  "update_node_state now nid state out started ended d =
     d\<lparr>node_runs := update_where (\<lambda>r. nr_id r = nid) (\<lambda>r. r\<lparr>nr_state := state,
         nr_started_at := (if started then Some now else nr_started_at r),
         nr_ended_at := (if ended then Some now else nr_ended_at r),
         nr_output := (if out = None then nr_output r else out)\<rparr>) (node_runs d)\<rparr>"

definition get_node_run :: "db \<Rightarrow> string \<Rightarrow> node_run_row option" where
  "get_node_run d nid = find (\<lambda>r. nr_id r = nid) (node_runs d)"

subsection \<open>Events\<close>

text \<open>\<open>SELECT COALESCE(MAX(seq), 0) + 1\<close>, in a transaction of its own.\<close>

definition next_seq :: "db \<Rightarrow> string \<Rightarrow> int" where
  "next_seq d tid =
     (let seqs = map ev_seq (filter (\<lambda>e. ev_task_run_id e = Some tid) (events d))
      in (if seqs = [] then 0 else Max (set seqs)) + 1)"

definition event_refs_ok :: "db \<Rightarrow> event_row \<Rightarrow> bool" where
  "event_refs_ok d ev \<longleftrightarrow>
     (case ev_task_run_id ev of None \<Rightarrow> True | Some tid \<Rightarrow> tid \<in> tr_id ` set (task_runs d)) \<and>
     (case ev_node_run_id ev of None \<Rightarrow> True | Some nid \<Rightarrow> nid \<in> nr_id ` set (node_runs d))"

definition insert_event :: "event_row \<Rightarrow> db \<Rightarrow> db_error + db" where
  "insert_event ev d =
     (if \<not> event_refs_ok d ev then Inl (ForeignKeyViolation ''events'')
      else map_sum id (\<lambda>es. d\<lparr>events := es\<rparr>) (insert_row ''events'' ev_id ev (events d)))"

definition assign_seq :: "db \<Rightarrow> event_row \<Rightarrow> event_row" where
  "assign_seq d ev =
     (case ev_task_run_id ev of
        Some tid \<Rightarrow> if ev_seq ev = 0 \<and> tid \<noteq> [] then ev\<lparr>ev_seq := next_seq d tid\<rparr> else ev
      | None \<Rightarrow> ev)"

definition append_event :: "event_row \<Rightarrow> db \<Rightarrow> db_error + db" where
  "append_event ev d = insert_event (assign_seq d ev) d"

definition list_events :: "db \<Rightarrow> string option \<Rightarrow> string option \<Rightarrow> event_row list" where
  "list_events d task node = sort_key (\<lambda>e. (ev_seq e, ev_occurred_at e))
     (filter (\<lambda>e. (task \<noteq> None \<and> task \<noteq> Some [] \<longrightarrow> ev_task_run_id e = task) \<and>
                  (node \<noteq> None \<and> node \<noteq> Some [] \<longrightarrow> ev_node_run_id e = node)) (events d))"

definition redacted_payload :: "(string, json) dict" where
  "redacted_payload = [(''redacted'', JBool True)]"

definition redact_event_payload :: "string \<Rightarrow> string \<Rightarrow> db \<Rightarrow> bool \<times> db" where
  "redact_event_payload tenant eid d =
     (eid \<in> ev_id ` set (events d),
      d\<lparr>events := update_where (\<lambda>e. ev_id e = eid) (\<lambda>e. e\<lparr>ev_payload := redacted_payload\<rparr>) (events d)\<rparr>)"

text \<open>The left join with the tenant of the task; an event without a task row has no tenant.\<close>

definition list_events_for_resource :: "db \<Rightarrow> string \<Rightarrow> string option \<Rightarrow> event_row list" where
  "list_events_for_resource d tenant task =
     (let visible = filter (\<lambda>e.
            (case ev_task_run_id e of None \<Rightarrow> True | Some tid \<Rightarrow>
             case get_task_run d tid of None \<Rightarrow> True | Some t \<Rightarrow> tr_tenant_id t \<in> {None, Some tenant}) \<and>
            (task \<noteq> None \<longrightarrow> ev_task_run_id e = task)) (events d)
      in if task \<noteq> None then sort_key ev_seq visible else sort_key (\<lambda>e. - ev_occurred_at e) visible)"

subsection \<open>Receipts and grants\<close>

text \<open>\<open>created_at\<close> of the row is the column default \<open>now()\<close>, not the receipt's own.\<close>

definition save_receipt :: "int \<Rightarrow> signed_receipt \<Rightarrow> db \<Rightarrow> db_error + db" where
  "save_receipt now r d =
     (if sr_task_run_id r \<notin> tr_id ` set (task_runs d) \<or> sr_node_run_id r \<notin> nr_id ` set (node_runs d)
      then Inl (ForeignKeyViolation ''receipts'')
      else map_sum id (\<lambda>rs. d\<lparr>receipts := rs\<rparr>) (insert_row ''receipts'' sr_receipt_id (r\<lparr>sr_created_at := now\<rparr>) (receipts d)))"

definition get_receipts :: "db \<Rightarrow> string \<Rightarrow> signed_receipt list" where
  "get_receipts d tid = sort_key sr_created_at (filter (\<lambda>r. sr_task_run_id r = tid) (receipts d))"

definition get_receipt :: "db \<Rightarrow> string \<Rightarrow> signed_receipt option" where
  "get_receipt d rid = find (\<lambda>r. sr_receipt_id r = rid) (receipts d)"

definition delete_receipt :: "string \<Rightarrow> db \<Rightarrow> bool \<times> db" where
  "delete_receipt rid d = (rid \<in> sr_receipt_id ` set (receipts d),
     d\<lparr>receipts := filter (\<lambda>r. sr_receipt_id r \<noteq> rid) (receipts d)\<rparr>)"

text \<open>
  The inner join keeps receipts of the tenant's tasks only. \<open>mentions\<close> stands for the database's
  \<open>envelope::text LIKE '%id%'\<close>.
\<close>

definition find_receipts_for_resource :: "(json \<Rightarrow> string \<Rightarrow> bool) \<Rightarrow> db \<Rightarrow> string \<Rightarrow> string \<Rightarrow>
    signed_receipt list" where
  "find_receipts_for_resource mentions d tenant rid = filter (\<lambda>r.
     (case get_task_run d (sr_task_run_id r) of None \<Rightarrow> False | Some t \<Rightarrow> tr_tenant_id t = Some tenant) \<and>
     (sr_node_id r = rid \<or> mentions (sr_envelope r) rid)) (receipts d)"

definition save_grant :: "node_grant \<Rightarrow> db \<Rightarrow> db_error + db" where
  "save_grant g d = map_sum id (\<lambda>gs. d\<lparr>grants := gs\<rparr>) (insert_row ''grants'' ng_grant_id g (grants d))"

definition list_grants :: "db \<Rightarrow> string \<Rightarrow> node_grant list" where
  "list_grants d tid = sort_key ng_issued_at (filter (\<lambda>g. ng_task_run_id g = tid) (grants d))"

subsection \<open>Approvals\<close>

text \<open>The legacy insert leaves the columns added later at their defaults.\<close>

definition save_approval :: "string \<Rightarrow> string \<Rightarrow> string \<Rightarrow> int \<Rightarrow> int option \<Rightarrow> db \<Rightarrow> db_error + db" where
  "save_approval aid task node requested decided d =
     map_sum id (\<lambda>rows. d\<lparr>approvals := rows\<rparr>) (insert_row ''approvals'' ap_id
       \<lparr>ap_id = aid, ap_task_run_id = task, ap_node_id = node, ap_tenant_id = [], ap_version = 0,
        ap_state = AS_PENDING, ap_required_approvers = 1, ap_requested_at = requested,
        ap_requested_by = [], ap_ticket = None, ap_decided_at = decided,
        ap_decision_payload = None\<rparr> (approvals d))"

definition create_approval :: "string \<Rightarrow> int \<Rightarrow> string \<Rightarrow> string \<Rightarrow> string \<Rightarrow> string \<Rightarrow> int \<Rightarrow>
    string option \<Rightarrow> db \<Rightarrow> db_error + (approval_row \<times> db)" where
  "create_approval new_id now task node tenant requested_by required ticket d =
     (case find (\<lambda>a. ap_task_run_id a = task \<and> ap_node_id a = node) (approvals d) of
        Some row \<Rightarrow> Inr (row, d)
      | None \<Rightarrow>
        let row = \<lparr>ap_id = ''apv:'' @ take 12 new_id, ap_task_run_id = task, ap_node_id = node,
              ap_tenant_id = tenant, ap_version = 0, ap_state = AS_PENDING,
              ap_required_approvers = required, ap_requested_at = now,
              ap_requested_by = requested_by, ap_ticket = ticket, ap_decided_at = None,
              ap_decision_payload = None\<rparr>
        in map_sum id (\<lambda>rows. (row, d\<lparr>approvals := rows\<rparr>)) (insert_row ''approvals'' ap_id row (approvals d)))"

datatype approval_outcome =
    NotApplied string
  | Applied approval_state nat nat int      \<comment> \<open>state, version, decisions seen, required\<close>

definition decisions_of :: "db \<Rightarrow> string \<Rightarrow> decision_row list" where
  "decisions_of d aid = filter (\<lambda>x. ad_approval_id x = aid) (approval_decisions d)"

fun next_approval_state :: "string \<Rightarrow> int \<Rightarrow> nat \<Rightarrow> approval_state \<Rightarrow> approval_state" where
  "next_approval_state decision required new_seq state =
     (if decision = ''reject'' then AS_REJECTED
      else if required = 1 then AS_APPROVED
      else if required = 2 \<and> new_seq = 1 then AS_FIRST_APPROVED
      else if required = 2 \<and> new_seq \<ge> 2 then AS_APPROVED
      else state)"

definition apply_decision :: "approval_row \<Rightarrow> decision_row \<Rightarrow> db \<Rightarrow> approval_outcome \<times> db" where
  "apply_decision row entry d =
     (let required = ap_required_approvers row;
          new_state = next_approval_state (ad_decision entry) required (ad_seq entry) (ap_state row)
      in (Applied new_state (ap_version row + 1) (ad_seq entry) required,
          d\<lparr>approval_decisions := approval_decisions d @ [entry],
            approvals := update_where (\<lambda>a. ap_id a = ad_approval_id entry) (\<lambda>a. a\<lparr>
              ap_state := new_state,
              ap_decided_at := Some (ad_decided_at entry),
              ap_decision_payload := Some (ad_decision entry, ad_decided_by entry, ad_rationale entry),
              ap_version := ap_version a + 1\<rparr>) (approvals d)\<rparr>))"

definition record_approval_decision :: "string \<Rightarrow> int \<Rightarrow> string \<Rightarrow> string \<Rightarrow> string \<Rightarrow> string \<Rightarrow> string \<Rightarrow>
    db \<Rightarrow> db_error + (approval_outcome \<times> db)" where
  "record_approval_decision new_id now aid decision decided_by tenant rationale d =
     (case find (\<lambda>a. ap_id a = aid) (approvals d) of
        None \<Rightarrow> Inr (NotApplied ''not_found'', d)
      | Some row \<Rightarrow>
        if ap_state row \<notin> {AS_PENDING, AS_FIRST_APPROVED} then Inr (NotApplied ''already_terminal'', d)
        else if ap_tenant_id row \<noteq> tenant then Inr (NotApplied ''cross_tenant'', d)
        else if decision \<notin> {''approve'', ''reject''} then Inr (NotApplied ''bad_decision'', d)
        else
          let entry = \<lparr>ad_id = ''apvd:'' @ take 12 new_id, ad_approval_id = aid,
                ad_seq = length (decisions_of d aid) + 1, ad_decided_by = decided_by,
                ad_decided_at = now, ad_decision = decision, ad_rationale = rationale,
                ad_identity_tenant = tenant\<rparr>
          in if ad_id entry \<in> ad_id ` set (approval_decisions d) \<or>
                ad_seq entry \<in> ad_seq ` set (decisions_of d aid)
             then Inl (UniqueViolation ''approval_decisions'')
             else Inr (apply_decision row entry d))"

definition get_approval :: "db \<Rightarrow> string \<Rightarrow> approval_row option" where
  "get_approval d aid = find (\<lambda>a. ap_id a = aid) (approvals d)"

definition list_approvals :: "db \<Rightarrow> string \<Rightarrow> approval_row list" where
  "list_approvals d task = sort_key ap_requested_at (filter (\<lambda>a. ap_task_run_id a = task) (approvals d))"

definition list_approvals_for_tenant :: "db \<Rightarrow> string \<Rightarrow> approval_state option \<Rightarrow> approval_row list" where
  "list_approvals_for_tenant d tenant state = sort_key ap_requested_at
     (filter (\<lambda>a. ap_tenant_id a = tenant \<and> (state \<noteq> None \<longrightarrow> Some (ap_state a) = state)) (approvals d))"

definition list_pending_approvals :: "db \<Rightarrow> approval_row list" where
  "list_pending_approvals d = sort_key ap_requested_at (filter (\<lambda>a. ap_state a = AS_PENDING) (approvals d))"

definition list_approval_decisions :: "db \<Rightarrow> string \<Rightarrow> decision_row list" where
  "list_approval_decisions d aid = sort_key ad_seq (decisions_of d aid)"

subsubsection \<open>The approval log\<close>

text \<open>
  Every approval's decisions are numbered from one, its version counts them, and its state is
  the one they add up to.
\<close>

definition approval_ok :: "db \<Rightarrow> approval_row \<Rightarrow> bool" where
  "approval_ok d a \<longleftrightarrow>
     (let ds = decisions_of d (ap_id a); n = length ds in
      map ad_seq ds = [1..<Suc n] \<and> ap_version a = n \<and>
      (\<forall>x \<in> set ds. ad_identity_tenant x = ap_tenant_id a) \<and>
      (\<forall>x \<in> set (butlast ds). ad_decision x = ''approve'') \<and>
      (ap_state a = AS_PENDING \<longrightarrow> (\<forall>x \<in> set ds. ad_decision x = ''approve'') \<and>
         (ap_required_approvers a \<in> {1, 2} \<longrightarrow> n = 0)) \<and>
      (ap_state a = AS_FIRST_APPROVED \<longrightarrow> (\<forall>x \<in> set ds. ad_decision x = ''approve'') \<and>
         ap_required_approvers a = 2 \<and> n = 1) \<and>
      (ap_state a = AS_APPROVED \<longrightarrow> (\<forall>x \<in> set ds. ad_decision x = ''approve'') \<and>
         ap_required_approvers a \<in> {1, 2} \<and> int n = ap_required_approvers a) \<and>
      (ap_state a = AS_REJECTED \<longrightarrow> ds \<noteq> [] \<and> ad_decision (last ds) = ''reject''))"

definition approvals_inv :: "db \<Rightarrow> bool" where
  "approvals_inv d \<longleftrightarrow> distinct (map ap_id (approvals d)) \<and>
     (\<forall>x \<in> set (approval_decisions d). ad_approval_id x \<in> ap_id ` set (approvals d)) \<and>
     (\<forall>a \<in> set (approvals d). approval_ok d a)"

lemma decisions_of_none:
  "approvals_inv d \<Longrightarrow> aid \<notin> ap_id ` set (approvals d) \<Longrightarrow> decisions_of d aid = []"
  by (auto simp: approvals_inv_def decisions_of_def filter_empty_conv)

lemma approval_ok_fresh:
  "decisions_of d (ap_id a) = [] \<Longrightarrow> ap_version a = 0 \<Longrightarrow> ap_state a = AS_PENDING \<Longrightarrow> approval_ok d a"
  by (simp add: approval_ok_def Let_def)

lemma approval_ok_cong:
  "approval_decisions d' = approval_decisions d \<Longrightarrow> approval_ok d' a = approval_ok d a"
  by (simp add: approval_ok_def decisions_of_def)

lemma approvals_inv_insert:
  assumes "approvals_inv d" "ap_id a \<notin> ap_id ` set (approvals d)" "ap_version a = 0"
    "ap_state a = AS_PENDING"
  shows "approvals_inv (d\<lparr>approvals := approvals d @ [a]\<rparr>)"
proof -
  let ?d = "d\<lparr>approvals := approvals d @ [a]\<rparr>"
  have ok: "approval_ok ?d x = approval_ok d x" for x by (rule approval_ok_cong) simp
  have "approval_ok d a" by (rule approval_ok_fresh [OF decisions_of_none [OF assms(1,2)] assms(3,4)])
  then have "\<forall>x \<in> set (approvals ?d). approval_ok ?d x"
    using assms(1) by (simp add: ok approvals_inv_def)
  moreover have "\<forall>x \<in> set (approval_decisions ?d). ad_approval_id x \<in> ap_id ` set (approvals ?d)"
    using assms(1) by (simp add: approvals_inv_def)
  moreover have "distinct (map ap_id (approvals ?d))" using assms(1,2) by (simp add: approvals_inv_def)
  ultimately show ?thesis unfolding approvals_inv_def by blast
qed

lemma create_approval_inv:
  "approvals_inv d \<Longrightarrow> create_approval i now task node tenant by req ticket d = Inr (row, d') \<Longrightarrow>
   approvals_inv d'"
  by (auto simp: create_approval_def Let_def insert_row_def approvals_inv_insert
      split: option.splits if_splits)

lemma save_approval_inv:
  "approvals_inv d \<Longrightarrow> save_approval i task node req dec d = Inr d' \<Longrightarrow> approvals_inv d'"
  by (auto simp: save_approval_def insert_row_def approvals_inv_insert split: if_splits)

lemma record_Inr:
  assumes "record_approval_decision i now aid decision by tenant why d = Inr (out, d')"
  obtains (same) reason where "out = NotApplied reason" "d' = d"
  | (applied) row entry where "find (\<lambda>a. ap_id a = aid) (approvals d) = Some row"
      "ap_state row = AS_PENDING \<or> ap_state row = AS_FIRST_APPROVED" "ap_tenant_id row = tenant"
      "decision = ''approve'' \<or> decision = ''reject''"
      "ad_approval_id entry = aid" "ad_seq entry = length (decisions_of d aid) + 1"
      "ad_decision entry = decision" "ad_identity_tenant entry = tenant" "ad_decided_by entry = by"
      "(out, d') = apply_decision row entry d"
proof (cases "find (\<lambda>a. ap_id a = aid) (approvals d)")
  case None
  with assms show thesis by (intro same) (auto simp: record_approval_decision_def)
next
  case (Some row)
  show thesis
  proof (cases "ap_state row \<in> {AS_PENDING, AS_FIRST_APPROVED} \<and> ap_tenant_id row = tenant \<and>
      decision \<in> {''approve'', ''reject''}")
    case True
    let ?e = "\<lparr>ad_id = ''apvd:'' @ take 12 i, ad_approval_id = aid,
                ad_seq = length (decisions_of d aid) + 1, ad_decided_by = by,
                ad_decided_at = now, ad_decision = decision, ad_rationale = why,
                ad_identity_tenant = tenant\<rparr>"
    from assms True Some have "(out, d') = apply_decision row ?e d"
      by (simp add: record_approval_decision_def Let_def split: if_splits)
    with True Some show thesis by (intro applied [of row ?e]) simp_all
  next
    case False
    with assms Some have "\<exists>reason. out = NotApplied reason \<and> d' = d"
      by (auto simp: record_approval_decision_def split: if_splits)
    then show thesis using same by blast
  qed
qed

lemma approvals_apply_decision:
  "approval_decisions (snd (apply_decision row entry d)) = approval_decisions d @ [entry]"
  "map ap_id (approvals (snd (apply_decision row entry d))) = map ap_id (approvals d)"
  "map ap_tenant_id (approvals (snd (apply_decision row entry d))) = map ap_tenant_id (approvals d)"
  by (simp_all add: apply_decision_def Let_def map_update_where)

lemma apply_decision_mem:
  assumes "a \<in> set (approvals d)" "ap_id a = ad_approval_id entry"
  shows "\<exists>b \<in> set (approvals (snd (apply_decision row entry d))). ap_id b = ap_id a \<and>
    ap_state b = next_approval_state (ad_decision entry) (ap_required_approvers row) (ad_seq entry)
      (ap_state row)"
proof -
  let ?b = "a\<lparr>ap_state := next_approval_state (ad_decision entry) (ap_required_approvers row)
      (ad_seq entry) (ap_state row), ap_decided_at := Some (ad_decided_at entry),
    ap_decision_payload := Some (ad_decision entry, ad_decided_by entry, ad_rationale entry),
    ap_version := ap_version a + 1\<rparr>"
  have "?b \<in> set (approvals (snd (apply_decision row entry d)))"
    using assms by (auto simp: apply_decision_def Let_def update_where_def image_iff
      simp del: next_approval_state.simps intro: bexI [of _ a])
  then show ?thesis by (intro bexI [of _ ?b]) (simp_all del: next_approval_state.simps)
qed

lemma approval_ok_applied:
  assumes ok: "approval_ok d row" and st: "ap_state row = AS_PENDING \<or> ap_state row = AS_FIRST_APPROVED"
    and dec: "decision = ''approve'' \<or> decision = ''reject''"
    and entry: "ad_approval_id entry = ap_id row" "ad_seq entry = length (decisions_of d (ap_id row)) + 1"
      "ad_decision entry = decision" "ad_identity_tenant entry = ap_tenant_id row"
    and new: "ap_id a = ap_id row" "ap_tenant_id a = ap_tenant_id row" "ap_version a = ap_version row + 1"
      "ap_required_approvers a = ap_required_approvers row"
      "ap_state a = next_approval_state decision (ap_required_approvers row) (ad_seq entry) (ap_state row)"
    and ds': "approval_decisions d' = approval_decisions d @ [entry]"
  shows "approval_ok d' a"
proof -
  let ?ds = "decisions_of d (ap_id row)"
  note okd = ok [unfolded approval_ok_def Let_def]
  have app: "\<forall>x \<in> set ?ds. ad_decision x = ''approve''"
    by (rule disjE [OF st]) (use okd in simp_all)
  have cnt: "ap_state row = AS_PENDING \<and> (ap_required_approvers row \<in> {1, 2} \<longrightarrow> ?ds = []) \<or>
        ap_state row = AS_FIRST_APPROVED \<and> ap_required_approvers row = 2 \<and> length ?ds = 1"
    by (rule disjE [OF st]) (use okd in simp_all)
  have ds: "decisions_of d' (ap_id a) = ?ds @ [entry]"
    using entry(1) by (simp add: decisions_of_def ds' new(1))
  have step: "(ap_state a = AS_APPROVED \<longrightarrow> decision = ''approve'' \<and> ap_required_approvers row \<in> {1, 2} \<and>
        int (length ?ds + 1) = ap_required_approvers row) \<and>
      (ap_state a = AS_FIRST_APPROVED \<longrightarrow> decision = ''approve'' \<and> ap_required_approvers row = 2 \<and> ?ds = []) \<and>
      (ap_state a = AS_PENDING \<longrightarrow> decision = ''approve'' \<and> ap_required_approvers row \<notin> {1, 2}) \<and>
      (ap_state a = AS_REJECTED \<longrightarrow> decision = ''reject'')"
    using cnt dec entry(2) new(5) by (elim disjE) (auto split: if_splits)
  have "map ad_seq (?ds @ [entry]) = [1..<Suc (length (?ds @ [entry]))]"
    using okd entry(2) by simp
  moreover have "ap_version a = length (?ds @ [entry])" using okd new(3) by simp
  ultimately show ?thesis
    unfolding approval_ok_def Let_def ds new(2,4)
    using okd app step entry(3,4) by (simp add: butlast_append del: upt_Suc)
qed

lemma record_approval_decision_inv:
  assumes "approvals_inv d" "record_approval_decision i now aid decision by tenant why d = Inr (out, d')"
  shows "approvals_inv d'"
  using assms(2)
proof (cases rule: record_Inr)
  case same
  with assms(1) show ?thesis by simp
next
  case (applied row entry)
  have row: "row \<in> set (approvals d)" "ap_id row = aid"
    using find_SomeD [OF applied(1)] by auto
  have d': "d' = snd (apply_decision row entry d)" using applied(10) by (metis snd_conv)
  note da = approvals_apply_decision [of row entry d, folded d']
  have uniq: "a = row" if "a \<in> set (approvals d)" "ap_id a = aid" for a
    using that row assms(1) by (auto simp: approvals_inv_def distinct_map dest: inj_onD)
  have ok: "approval_ok d row" using assms(1) row(1) by (simp add: approvals_inv_def)
  have "approval_ok d' a'" if "a' \<in> set (approvals d')" for a'
  proof -
    from that obtain a where a: "a \<in> set (approvals d)"
      "a' = (if ap_id a = aid then a\<lparr>
              ap_state := next_approval_state (ad_decision entry) (ap_required_approvers row)
                (ad_seq entry) (ap_state row),
              ap_decided_at := Some (ad_decided_at entry),
              ap_decision_payload := Some (ad_decision entry, ad_decided_by entry, ad_rationale entry),
              ap_version := ap_version a + 1\<rparr> else a)"
      using applied(5) by (auto simp: d' apply_decision_def Let_def set_update_where
          simp del: next_approval_state.simps)
    show ?thesis
    proof (cases "ap_id a = aid")
      case True
      show ?thesis
        by (rule approval_ok_applied [OF ok applied(2,4), of entry])
          (use applied(3,5-9) row(2) uniq [OF a(1) True] a(2) True da(1) in
            \<open>simp_all del: next_approval_state.simps\<close>)
    next
      case False
      then have "decisions_of d' (ap_id a) = decisions_of d (ap_id a)"
        using applied(5) by (simp add: decisions_of_def da(1))
      then have "approval_ok d' a = approval_ok d a" by (simp add: approval_ok_def)
      with False a assms(1) show ?thesis by (simp add: approvals_inv_def)
    qed
  qed
  moreover have "ap_id ` set (approvals d') = ap_id ` set (approvals d)"
    using da(2) by (metis set_map)
  moreover have "aid \<in> ap_id ` set (approvals d)" using row by blast
  ultimately show ?thesis
    using assms(1) applied(5) da(1,2) unfolding approvals_inv_def by auto
qed

text \<open>The stores the approval methods can produce.\<close>

inductive approval_reachable :: "db \<Rightarrow> bool" where
  start: "approvals d = [] \<Longrightarrow> approval_decisions d = [] \<Longrightarrow> approval_reachable d"
| legacy: "approval_reachable d \<Longrightarrow> save_approval i task node req dec d = Inr d' \<Longrightarrow> approval_reachable d'"
| create: "approval_reachable d \<Longrightarrow> create_approval i now task node tenant by req ticket d = Inr (row, d')
    \<Longrightarrow> approval_reachable d'"
| decision: "approval_reachable d \<Longrightarrow>
    record_approval_decision i now aid dec by tenant why d = Inr (out, d') \<Longrightarrow> approval_reachable d'"

lemma approval_reachable_inv: "approval_reachable d \<Longrightarrow> approvals_inv d"
proof (induction rule: approval_reachable.induct)
  case (start d)
  then show ?case by (simp add: approvals_inv_def)
qed (blast intro: save_approval_inv create_approval_inv record_approval_decision_inv)+

definition approval_step :: "string \<Rightarrow> string \<times> int \<times> string \<times> string \<times> string \<times> string \<Rightarrow> db \<Rightarrow> db" where
  "approval_step tenant = (\<lambda>(i, now, aid, dec, by, why) d.
     case record_approval_decision i now aid dec by tenant why d of
       Inl _ \<Rightarrow> d | Inr (_, d') \<Rightarrow> d')"

lemma find_unique_filter:
  "find (\<lambda>a. key a = k) rows = Some r \<Longrightarrow> distinct (map key rows) \<Longrightarrow> a \<in> set rows \<Longrightarrow> key a = k \<Longrightarrow> a = r"
  using find_SomeD [of "\<lambda>a. key a = k" rows r] by (auto simp: distinct_map dest: inj_onD)

lemma approval_other_tenant:
  assumes "record_approval_decision i now aid dec by tenant why d = Inr (out, d')"
    and "distinct (map ap_id (approvals d))" "tenant \<noteq> u"
  shows "filter (\<lambda>a. ap_tenant_id a = u) (approvals d') = filter (\<lambda>a. ap_tenant_id a = u) (approvals d)"
  using assms(1)
proof (cases rule: record_Inr)
  case same
  then show ?thesis by simp
next
  case (applied row entry)
  have d': "d' = snd (apply_decision row entry d)" using applied(10) by (metis snd_conv)
  have "ap_tenant_id a = tenant" if "a \<in> set (approvals d)" "ap_id a = aid" for a
    using find_unique_filter [OF applied(1) assms(2) that] applied(3) by simp
  then have "filter (\<lambda>a. ap_tenant_id a = u) (update_where (\<lambda>a. ap_id a = aid) (\<lambda>a. a\<lparr>ap_state := s,
      ap_decided_at := t, ap_decision_payload := p, ap_version := ap_version a + 1\<rparr>) (approvals d)) =
      filter (\<lambda>a. ap_tenant_id a = u) (approvals d)" for s t p
    by (intro filter_update_where) (use assms(3) in auto)
  then show ?thesis
    by (simp add: d' apply_decision_def Let_def applied(5) del: next_approval_state.simps)
qed

subsubsection \<open>Properties of approvals\<close>

text \<open>
  C11. Approvals in every store the methods can reach: an approved row has exactly its required
  number of decisions and all of them approve, a rejected one ends with a rejection and had only
  approvals before, a first-approved one waits for the second of two, the log is numbered from
  one without gaps, the version counts it, and every decision came from the row's own tenant.
\<close>

theorem approval_log_adds_up:
  assumes "approval_reachable d" "a \<in> set (approvals d)"
  shows "map ad_seq (decisions_of d (ap_id a)) = [1..<Suc (ap_version a)] \<and>
    (\<forall>x \<in> set (decisions_of d (ap_id a)). ad_identity_tenant x = ap_tenant_id a) \<and>
    (ap_state a = AS_APPROVED \<longrightarrow> ap_required_approvers a \<in> {1, 2} \<and>
       int (length (decisions_of d (ap_id a))) = ap_required_approvers a \<and>
       (\<forall>x \<in> set (decisions_of d (ap_id a)). ad_decision x = ''approve'')) \<and>
    (ap_state a = AS_FIRST_APPROVED \<longrightarrow> ap_required_approvers a = 2 \<and>
       length (decisions_of d (ap_id a)) = 1) \<and>
    (ap_state a = AS_REJECTED \<longrightarrow> decisions_of d (ap_id a) \<noteq> [] \<and>
       ad_decision (last (decisions_of d (ap_id a))) = ''reject'' \<and>
       (\<forall>x \<in> set (butlast (decisions_of d (ap_id a))). ad_decision x = ''approve''))"
proof -
  have "approval_ok d a" using approval_reachable_inv [OF assms(1)] assms(2) by (simp add: approvals_inv_def)
  then show ?thesis unfolding approval_ok_def Let_def by (simp del: upt_Suc)
qed

text \<open>
  A decision is applied at most once per outcome: on an approval that is approved, rejected
  or expired, or for a caller of another tenant, the method reports why and changes nothing.
\<close>

theorem decided_approval_is_final:
  assumes "find (\<lambda>a. ap_id a = aid) (approvals d) = Some row"
    "ap_state row \<in> {AS_APPROVED, AS_REJECTED, AS_EXPIRED} \<or> ap_tenant_id row \<noteq> tenant"
  shows "\<exists>reason. record_approval_decision i now aid dec by tenant why d = Inr (NotApplied reason, d)"
  using assms by (auto simp: record_approval_decision_def)

text \<open>
  The two decisions of a two-person approval may come from one person: the same approver
  deciding twice takes a fresh row that requires two approvers to approved.
\<close>

theorem same_person_approves_twice:
  assumes "approvals_inv d" "a \<in> set (approvals d)" "ap_state a = AS_PENDING"
    "ap_required_approvers a = 2" "take 12 i \<noteq> take 12 j"
    "\<forall>x \<in> set (approval_decisions d). ad_id x \<notin> {''apvd:'' @ take 12 i, ''apvd:'' @ take 12 j}"
  shows "\<exists>o1 d1 o2 d2 b.
    record_approval_decision i now (ap_id a) ''approve'' person (ap_tenant_id a) w d = Inr (o1, d1) \<and>
    record_approval_decision j now (ap_id a) ''approve'' person (ap_tenant_id a) w d1 = Inr (o2, d2) \<and>
    b \<in> set (approvals d2) \<and> ap_id b = ap_id a \<and> ap_state b = AS_APPROVED"
proof -
  have uniq: "distinct (map ap_id (approvals d))" using assms(1) by (simp add: approvals_inv_def)
  have nil: "decisions_of d (ap_id a) = []"
    using assms(1-4) by (auto simp: approvals_inv_def approval_ok_def Let_def)
  obtain row where row: "find (\<lambda>x. ap_id x = ap_id a) (approvals d) = Some row"
    using assms(2) by (cases "find (\<lambda>x. ap_id x = ap_id a) (approvals d)") (auto simp: find_None_iff)
  have rowa: "row = a" using find_unique_filter [OF row uniq assms(2) refl] by simp
  let ?e = "\<lambda>k n. \<lparr>ad_id = ''apvd:'' @ take 12 k, ad_approval_id = ap_id a, ad_seq = n,
    ad_decided_by = person, ad_decided_at = now, ad_decision = ''approve'', ad_rationale = w,
    ad_identity_tenant = ap_tenant_id a\<rparr>"
  let ?a1 = "a\<lparr>ap_state := AS_FIRST_APPROVED, ap_decided_at := Some now,
    ap_decision_payload := Some (''approve'', person, w), ap_version := ap_version a + 1\<rparr>"
  let ?d1 = "snd (apply_decision a (?e i 1) d)"
  have first: "record_approval_decision i now (ap_id a) ''approve'' person (ap_tenant_id a) w d =
      Inr (apply_decision a (?e i 1) d)"
    using row rowa assms(3,6) nil by (auto simp: record_approval_decision_def Let_def)
  have a1: "?a1 \<in> set (approvals ?d1)"
    using assms(2,4) by (force simp: apply_decision_def Let_def set_update_where)
  have dec1: "approval_decisions ?d1 = approval_decisions d @ [?e i 1]"
    "map ap_id (approvals ?d1) = map ap_id (approvals d)"
    by (rule approvals_apply_decision)+
  have uniq1: "distinct (map ap_id (approvals ?d1))" using uniq dec1(2) by simp
  obtain row1 where row1: "find (\<lambda>x. ap_id x = ap_id a) (approvals ?d1) = Some row1"
    using a1 by (cases "find (\<lambda>x. ap_id x = ap_id a) (approvals ?d1)") (auto simp: find_None_iff)
  have row1a: "row1 = ?a1" using find_unique_filter [OF row1 uniq1 a1] by simp
  have ds1: "decisions_of ?d1 (ap_id a) = [?e i 1]"
    unfolding decisions_of_def dec1(1) using nil by (simp add: decisions_of_def)
  have second: "record_approval_decision j now (ap_id a) ''approve'' person (ap_tenant_id a) w ?d1 =
      Inr (apply_decision ?a1 (?e j 2) ?d1)"
    using row1 row1a ds1 dec1(1) assms(5,6)
    by (auto simp: record_approval_decision_def Let_def numeral_2_eq_2)
  have "\<exists>b \<in> set (approvals (snd (apply_decision ?a1 (?e j 2) ?d1))). ap_id b = ap_id a \<and> ap_state b = AS_APPROVED"
    using apply_decision_mem [OF a1, of "?e j 2" ?a1] assms(4) by simp
  with first second show ?thesis by (metis prod.collapse)
qed

subsection \<open>Break-glass requests\<close>

definition create_break_glass_request :: "int \<Rightarrow> break_glass_row \<Rightarrow> db \<Rightarrow> db_error + db" where
  "create_break_glass_request now req d =
     map_sum id (\<lambda>rows. d\<lparr>break_glass_requests := rows\<rparr>)
       (insert_row ''break_glass_requests'' bg_request_id
          \<lparr>bg_request_id = bg_request_id req, bg_tenant_id = bg_tenant_id req,
           bg_task_run_id = bg_task_run_id req, bg_purpose = bg_purpose req,
           bg_effect = bg_effect req, bg_resource_scope = bg_resource_scope req,
           bg_ticket = bg_ticket req, bg_requested_by = bg_requested_by req,
           bg_requested_at = now, bg_state = BG_REQUESTED, bg_first_approver = None,
           bg_first_approved_at = None, bg_second_approver = None, bg_second_approved_at = None,
           bg_window_seconds = bg_window_seconds req, bg_activated_at = None,
           bg_expires_at = None, bg_revoked_by = None, bg_revoked_at = None,
           bg_revoke_reason = None\<rparr> (break_glass_requests d))"

definition get_break_glass :: "db \<Rightarrow> string \<Rightarrow> break_glass_row option" where
  "get_break_glass d rid = find (\<lambda>r. bg_request_id r = rid) (break_glass_requests d)"

definition list_break_glass_for_tenant :: "db \<Rightarrow> string \<Rightarrow> break_glass_state option \<Rightarrow> break_glass_row list" where
  "list_break_glass_for_tenant d tenant state = sort_key (\<lambda>r. - bg_requested_at r)
     (filter (\<lambda>r. bg_tenant_id r = tenant \<and> (state \<noteq> None \<longrightarrow> Some (bg_state r) = state))
        (break_glass_requests d))"

datatype break_glass_outcome =
    BgNotApplied string
  | BgFirstApproved
  | BgActive int                 \<comment> \<open>expires at\<close>
  | BgRevoked

definition update_break_glass :: "string \<Rightarrow> (break_glass_row \<Rightarrow> break_glass_row) \<Rightarrow> db \<Rightarrow> db" where
  "update_break_glass rid f d =
     d\<lparr>break_glass_requests := update_where (\<lambda>r. bg_request_id r = rid) f (break_glass_requests d)\<rparr>"

definition record_break_glass_approval :: "int \<Rightarrow> string \<Rightarrow> string \<Rightarrow> string \<Rightarrow> db \<Rightarrow>
    break_glass_outcome \<times> db" where
  "record_break_glass_approval now rid approver tenant d =
     (case get_break_glass d rid of
        None \<Rightarrow> (BgNotApplied ''not_found'', d)
      | Some row \<Rightarrow>
        if bg_tenant_id row \<noteq> tenant then (BgNotApplied ''cross_tenant'', d)
        else if bg_state row \<notin> {BG_REQUESTED, BG_FIRST_APPROVED} then (BgNotApplied ''not_approvable'', d)
        else if bg_requested_by row = approver then (BgNotApplied ''applicant_cannot_approve'', d)
        else if bg_first_approver row \<noteq> None \<and> bg_first_approver row \<noteq> Some [] \<and>
                bg_first_approver row = Some approver
        then (BgNotApplied ''already_approved_by_you'', d)
        else if bg_state row = BG_REQUESTED then
          (BgFirstApproved, update_break_glass rid (\<lambda>r. r\<lparr>bg_state := BG_FIRST_APPROVED,
             bg_first_approver := Some approver, bg_first_approved_at := Some now\<rparr>) d)
        else
          (BgActive (now + bg_window_seconds row * 1000),
           update_break_glass rid (\<lambda>r. r\<lparr>bg_state := BG_ACTIVE, bg_second_approver := Some approver,
             bg_second_approved_at := Some now, bg_activated_at := Some now,
             bg_expires_at := Some (now + bg_window_seconds r * 1000)\<rparr>) d))"

definition revoke_break_glass :: "int \<Rightarrow> string \<Rightarrow> string \<Rightarrow> string \<Rightarrow> string \<Rightarrow> db \<Rightarrow>
    break_glass_outcome \<times> db" where
  "revoke_break_glass now rid revoker tenant reason d =
     (case get_break_glass d rid of
        None \<Rightarrow> (BgNotApplied ''not_found'', d)
      | Some row \<Rightarrow>
        if bg_tenant_id row \<noteq> tenant then (BgNotApplied ''cross_tenant'', d)
        else if bg_state row \<in> {BG_EXPIRED, BG_REVOKED} then (BgNotApplied ''already_terminal'', d)
        else (BgRevoked, update_break_glass rid (\<lambda>r. r\<lparr>bg_state := BG_REVOKED,
          bg_revoked_by := Some revoker, bg_revoked_at := Some now, bg_revoke_reason := Some reason\<rparr>) d))"

definition bg_overdue :: "int \<Rightarrow> break_glass_row \<Rightarrow> bool" where
  "bg_overdue now r \<longleftrightarrow> bg_state r = BG_ACTIVE \<and>
     (case bg_expires_at r of None \<Rightarrow> False | Some x \<Rightarrow> x < now)"

definition sweep_expired_break_glass :: "int \<Rightarrow> db \<Rightarrow> string list \<times> db" where
  "sweep_expired_break_glass now d =
     (map bg_request_id (filter (bg_overdue now) (break_glass_requests d)),
      d\<lparr>break_glass_requests := update_where (bg_overdue now) (\<lambda>r. r\<lparr>bg_state := BG_EXPIRED\<rparr>)
          (break_glass_requests d)\<rparr>)"

text \<open>
  What each state of a request records. An empty approver name does not count as a first
  approver, so the two approvers may agree only when both are the empty name.
\<close>

definition two_persons :: "break_glass_row \<Rightarrow> bool" where
  "two_persons r \<longleftrightarrow> (\<exists>a b. bg_first_approver r = Some a \<and> bg_second_approver r = Some b \<and>
     a \<noteq> bg_requested_by r \<and> b \<noteq> bg_requested_by r \<and> (a = b \<longrightarrow> a = []))"

definition window_set :: "break_glass_row \<Rightarrow> bool" where
  "window_set r \<longleftrightarrow> (\<exists>t. bg_activated_at r = Some t \<and>
     bg_expires_at r = Some (t + bg_window_seconds r * 1000))"

fun break_glass_ok :: "break_glass_row \<Rightarrow> bool" where
  "break_glass_ok r =
     (case bg_state r of
        BG_REQUESTED \<Rightarrow> bg_first_approver r = None \<and> bg_activated_at r = None
      | BG_FIRST_APPROVED \<Rightarrow> (\<exists>a. bg_first_approver r = Some a \<and> a \<noteq> bg_requested_by r) \<and>
          bg_activated_at r = None
      | BG_ACTIVE \<Rightarrow> two_persons r \<and> window_set r
      | BG_EXPIRED \<Rightarrow> two_persons r \<and> window_set r
      | BG_REVOKED \<Rightarrow> bg_activated_at r \<noteq> None \<longrightarrow> two_persons r \<and> window_set r)"

declare break_glass_ok.simps [simp del]

definition break_glass_inv :: "db \<Rightarrow> bool" where
  "break_glass_inv d \<longleftrightarrow> distinct (map bg_request_id (break_glass_requests d)) \<and>
     (\<forall>r \<in> set (break_glass_requests d). break_glass_ok r)"

lemma update_break_glass_inv:
  assumes "break_glass_inv d" "get_break_glass d rid = Some row" "bg_request_id (f row) = rid"
    "\<And>r. bg_request_id (f r) = bg_request_id r" "break_glass_ok (f row)"
  shows "break_glass_inv (update_break_glass rid f d)"
proof -
  have uniq: "r = row" if "r \<in> set (break_glass_requests d)" "bg_request_id r = rid" for r
    using find_unique_filter [OF assms(2) [unfolded get_break_glass_def] _ that] assms(1)
    by (simp add: break_glass_inv_def)
  have "break_glass_ok r" if "r \<in> set (break_glass_requests (update_break_glass rid f d))" for r
    using that uniq assms(1,5) by (auto simp: update_break_glass_def set_update_where break_glass_inv_def)
  moreover have "distinct (map bg_request_id (break_glass_requests (update_break_glass rid f d)))"
    using assms(1,4) by (simp add: update_break_glass_def map_update_where break_glass_inv_def)
  ultimately show ?thesis by (simp add: break_glass_inv_def)
qed

lemma get_break_glass_ok:
  "break_glass_inv d \<Longrightarrow> get_break_glass d rid = Some row \<Longrightarrow> break_glass_ok row \<and> bg_request_id row = rid"
  using find_SomeD [of "\<lambda>r. bg_request_id r = rid" "break_glass_requests d" row]
  by (auto simp: get_break_glass_def break_glass_inv_def)

lemma create_break_glass_inv:
  "break_glass_inv d \<Longrightarrow> create_break_glass_request now req d = Inr d' \<Longrightarrow> break_glass_inv d'"
  by (auto simp: create_break_glass_request_def insert_row_def break_glass_inv_def
      break_glass_ok.simps split: if_splits)

lemma approve_break_glass_inv:
  assumes "break_glass_inv d"
  shows "break_glass_inv (snd (record_break_glass_approval now rid approver tenant d))"
proof (cases "get_break_glass d rid")
  case None
  with assms show ?thesis by (simp add: record_break_glass_approval_def)
next
  case (Some row)
  have ok: "break_glass_ok row" and rid: "bg_request_id row = rid"
    using get_break_glass_ok [OF assms Some] by auto
  show ?thesis
    unfolding record_break_glass_approval_def Some option.case
    using assms ok
    by (auto simp: break_glass_ok.simps two_persons_def window_set_def rid
        intro!: update_break_glass_inv [OF assms Some])
qed

lemma revoke_break_glass_inv:
  assumes "break_glass_inv d"
  shows "break_glass_inv (snd (revoke_break_glass now rid revoker tenant reason d))"
proof (cases "get_break_glass d rid")
  case None
  with assms show ?thesis by (simp add: revoke_break_glass_def)
next
  case (Some row)
  have ok: "break_glass_ok row" and rid: "bg_request_id row = rid"
    using get_break_glass_ok [OF assms Some] by auto
  show ?thesis
    unfolding revoke_break_glass_def Some option.case
    using assms ok
    by (cases "bg_state row")
      (auto simp: break_glass_ok.simps two_persons_def window_set_def rid
        intro!: update_break_glass_inv [OF assms Some])
qed

lemma sweep_break_glass_inv:
  "break_glass_inv d \<Longrightarrow> break_glass_inv (snd (sweep_expired_break_glass now d))"
  by (auto simp: sweep_expired_break_glass_def break_glass_inv_def map_update_where set_update_where
      break_glass_ok.simps bg_overdue_def two_persons_def window_set_def)

inductive break_glass_reachable :: "db \<Rightarrow> bool" where
  start: "break_glass_requests d = [] \<Longrightarrow> break_glass_reachable d"
| request: "break_glass_reachable d \<Longrightarrow> create_break_glass_request now req d = Inr d' \<Longrightarrow>
    break_glass_reachable d'"
| approve: "break_glass_reachable d \<Longrightarrow>
    break_glass_reachable (snd (record_break_glass_approval now rid approver tenant d))"
| revoke: "break_glass_reachable d \<Longrightarrow>
    break_glass_reachable (snd (revoke_break_glass now rid revoker tenant reason d))"
| sweep: "break_glass_reachable d \<Longrightarrow> break_glass_reachable (snd (sweep_expired_break_glass now d))"

lemma break_glass_reachable_inv: "break_glass_reachable d \<Longrightarrow> break_glass_inv d"
proof (induction rule: break_glass_reachable.induct)
  case (start d)
  then show ?case by (simp add: break_glass_inv_def)
qed (blast intro: create_break_glass_inv approve_break_glass_inv revoke_break_glass_inv
      sweep_break_glass_inv)+

text \<open>
  Break-glass needs two people: in every store the methods can reach, a request that is
  active (or was and has expired) was approved by two persons other than the applicant, who are
  different unless both names are empty, and its window ends exactly \<open>window_seconds\<close> after
  activation.
\<close>

theorem break_glass_two_person_control:
  assumes "break_glass_reachable d" "r \<in> set (break_glass_requests d)"
    "bg_state r = BG_ACTIVE \<or> bg_state r = BG_EXPIRED"
  shows "(\<exists>a b. bg_first_approver r = Some a \<and> bg_second_approver r = Some b \<and>
      a \<noteq> bg_requested_by r \<and> b \<noteq> bg_requested_by r \<and> (a = b \<longrightarrow> a = [])) \<and>
    (\<exists>t. bg_activated_at r = Some t \<and> bg_expires_at r = Some (t + bg_window_seconds r * 1000))"
proof -
  have "break_glass_ok r"
    using break_glass_reachable_inv [OF assms(1)] assms(2) by (simp add: break_glass_inv_def)
  then show ?thesis using assms(3) by (auto simp: break_glass_ok.simps two_persons_def window_set_def)
qed

datatype bg_op = BgApprove int string string | BgRevoke int string string string

fun bg_step :: "string \<Rightarrow> bg_op \<Rightarrow> db \<Rightarrow> db" where
  "bg_step tenant (BgApprove now rid approver) d = snd (record_break_glass_approval now rid approver tenant d)"
| "bg_step tenant (BgRevoke now rid revoker reason) d = snd (revoke_break_glass now rid revoker tenant reason d)"

lemma find_other_tenant:
  assumes "get_break_glass d rid = Some row" "bg_tenant_id row = tenant" "tenant \<noteq> u"
    "distinct (map bg_request_id (break_glass_requests d))" "\<And>r. bg_tenant_id (f r) = bg_tenant_id r"
  shows "filter (\<lambda>r. bg_tenant_id r = u) (break_glass_requests (update_break_glass rid f d)) =
    filter (\<lambda>r. bg_tenant_id r = u) (break_glass_requests d)"
proof -
  have "bg_tenant_id r = tenant" if "r \<in> set (break_glass_requests d)" "bg_request_id r = rid" for r
    using find_unique_filter [OF assms(1) [unfolded get_break_glass_def] assms(4) that] assms(2) by simp
  then show ?thesis
    unfolding update_break_glass_def by (simp, intro filter_update_where) (use assms(3,5) in auto)
qed

lemma bg_step_ids: "map bg_request_id (break_glass_requests (bg_step t op d)) =
    map bg_request_id (break_glass_requests d)"
  by (cases op) (auto simp: record_break_glass_approval_def revoke_break_glass_def
      update_break_glass_def map_update_where split: option.splits)

lemma bg_step_other_tenant:
  assumes "t \<noteq> u" "distinct (map bg_request_id (break_glass_requests d))"
  shows "filter (\<lambda>r. bg_tenant_id r = u) (break_glass_requests (bg_step t op d)) =
    filter (\<lambda>r. bg_tenant_id r = u) (break_glass_requests d)"
proof (cases op)
  case (BgApprove now rid approver)
  show ?thesis
    by (cases "get_break_glass d rid")
      (auto simp: BgApprove record_break_glass_approval_def find_other_tenant assms)
next
  case (BgRevoke now rid revoker reason)
  show ?thesis
    by (cases "get_break_glass d rid")
      (auto simp: BgRevoke revoke_break_glass_def find_other_tenant assms)
qed

subsection \<open>Lifecycle policies, legal holds and deletion jobs\<close>

definition upsert_lifecycle_policy :: "int \<Rightarrow> policy_row \<Rightarrow> db \<Rightarrow> db_error + db" where
  "upsert_lifecycle_policy now p d =
     (let same = (\<lambda>r. lp_tenant_id r = lp_tenant_id p \<and> lp_resource_kind r = lp_resource_kind p) in
      if list_ex same (lifecycle_policies d)
      then Inr (d\<lparr>lifecycle_policies := update_where same
             (\<lambda>r. r\<lparr>lp_retention_seconds := lp_retention_seconds p,
                    lp_auto_delete := lp_auto_delete p\<rparr>) (lifecycle_policies d)\<rparr>)
      else map_sum id (\<lambda>rows. d\<lparr>lifecycle_policies := rows\<rparr>)
             (insert_row ''lifecycle_policies'' lp_policy_id (p\<lparr>lp_created_at := now\<rparr>) (lifecycle_policies d)))"

definition get_lifecycle_policy :: "db \<Rightarrow> string \<Rightarrow> resource_kind \<Rightarrow> policy_row option" where
  "get_lifecycle_policy d tenant k =
     find (\<lambda>r. lp_tenant_id r = tenant \<and> lp_resource_kind r = k) (lifecycle_policies d)"

text \<open>The unique key \<open>(tenant_id, case_id)\<close> and the key of the resource rows.\<close>

fun insert_hold_resources :: "string \<Rightarrow> (resource_kind \<times> string) list \<Rightarrow> hold_resource list \<Rightarrow>
    db_error + hold_resource list" where
  "insert_hold_resources hid [] rows = Inr rows"
| "insert_hold_resources hid ((k, rid) # ps) rows =
     (if (hid, k, rid) \<in> set rows then Inl (UniqueViolation ''legal_hold_resources'')
      else insert_hold_resources hid ps (rows @ [(hid, k, rid)]))"

definition create_legal_hold :: "int \<Rightarrow> hold_row \<Rightarrow> (resource_kind \<times> string) list \<Rightarrow> db \<Rightarrow> db_error + db" where
  "create_legal_hold now h pairs d =
     (if lh_hold_id h \<in> lh_hold_id ` set (legal_holds d) \<or>
         (lh_tenant_id h, lh_case_id h) \<in> (\<lambda>x. (lh_tenant_id x, lh_case_id x)) ` set (legal_holds d)
      then Inl (UniqueViolation ''legal_holds'')
      else map_sum id (\<lambda>rs. d\<lparr>legal_hold_resources := rs, legal_holds := legal_holds d @
          [\<lparr>lh_hold_id = lh_hold_id h, lh_tenant_id = lh_tenant_id h, lh_case_id = lh_case_id h,
            lh_reason = lh_reason h, lh_created_at = now, lh_created_by = lh_created_by h,
            lh_released_at = None, lh_released_by = None, lh_release_reason = None\<rparr>]\<rparr>)
        (insert_hold_resources (lh_hold_id h) pairs (legal_hold_resources d)))"

datatype release_outcome = RelNotApplied string | Released

definition release_legal_hold :: "int \<Rightarrow> string \<Rightarrow> string \<Rightarrow> string \<Rightarrow> string \<Rightarrow> db \<Rightarrow> release_outcome \<times> db" where
  "release_legal_hold now hid by tenant reason d =
     (case find (\<lambda>h. lh_hold_id h = hid) (legal_holds d) of
        None \<Rightarrow> (RelNotApplied ''not_found'', d)
      | Some row \<Rightarrow>
        if lh_tenant_id row \<noteq> tenant then (RelNotApplied ''cross_tenant'', d)
        else if lh_released_at row \<noteq> None then (RelNotApplied ''already_released'', d)
        else (Released, d\<lparr>legal_holds := update_where (\<lambda>h. lh_hold_id h = hid)
               (\<lambda>h. h\<lparr>lh_released_at := Some now, lh_released_by := Some by,
                      lh_release_reason := Some reason\<rparr>) (legal_holds d)\<rparr>))"

definition hold_resources :: "db \<Rightarrow> string \<Rightarrow> (resource_kind \<times> string) list" where
  "hold_resources d hid = map snd (filter (\<lambda>r. fst r = hid) (legal_hold_resources d))"

text \<open>The resources of a hold are rolled up \<open>ORDER BY resource_kind, resource_id\<close>.\<close>

definition resource_kind_text :: "resource_kind \<Rightarrow> string" where
  "resource_kind_text k = (case k of RK_ARTIFACT \<Rightarrow> ''artifact'' | RK_RECEIPT \<Rightarrow> ''receipt''
     | RK_EVENT \<Rightarrow> ''event'' | RK_WEBHOOK \<Rightarrow> ''webhook'' | RK_CACHE \<Rightarrow> ''cache'' | RK_BACKUP \<Rightarrow> ''backup'')"

definition list_legal_holds :: "db \<Rightarrow> string \<Rightarrow> bool \<Rightarrow> (hold_row \<times> (resource_kind \<times> string) list) list" where
  "list_legal_holds d tenant active_only = map (\<lambda>h. (h, sort_key (\<lambda>(k, rid). (resource_kind_text k, rid)) (hold_resources d (lh_hold_id h))))
     (sort_key (\<lambda>h. - lh_created_at h)
       (filter (\<lambda>h. lh_tenant_id h = tenant \<and> (active_only \<longrightarrow> lh_released_at h = None)) (legal_holds d)))"

text \<open>The inner join: a hold without resource rows covers nothing.\<close>

definition is_resource_held :: "db \<Rightarrow> string \<Rightarrow> resource_kind \<Rightarrow> string \<Rightarrow> bool" where
  "is_resource_held d tenant k rid =
     list_ex (\<lambda>h. lh_tenant_id h = tenant \<and> lh_released_at h = None \<and>
        (k, rid) \<in> set (hold_resources d (lh_hold_id h))) (legal_holds d)"

definition create_deletion_job :: "int \<Rightarrow> job_row \<Rightarrow> db \<Rightarrow> db_error + (job_row \<times> db)" where
  "create_deletion_job now j d =
     (let same = (\<lambda>r. dj_tenant_id r = dj_tenant_id j \<and> dj_resource_kind r = dj_resource_kind j \<and>
            dj_resource_id r = dj_resource_id j);
          view = (\<lambda>r. j\<lparr>dj_job_id := dj_job_id r, dj_state := dj_state r, dj_attempt := dj_attempt r\<rparr>)
      in case find same (deletion_jobs d) of
           Some row \<Rightarrow> Inr (view row, d)
         | None \<Rightarrow>
           let row = \<lparr>dj_job_id = dj_job_id j, dj_tenant_id = dj_tenant_id j,
                 dj_resource_kind = dj_resource_kind j, dj_resource_id = dj_resource_id j,
                 dj_state = DS_PENDING, dj_attempt = 0, dj_max_attempts = dj_max_attempts j,
                 dj_requested_at = now, dj_requested_by = dj_requested_by j, dj_completed_at = None,
                 dj_last_error = None, dj_evidence = None\<rparr>
           in map_sum id (\<lambda>rows. (view row, d\<lparr>deletion_jobs := rows\<rparr>))
                (insert_row ''deletion_jobs'' dj_job_id row (deletion_jobs d)))"

definition update_deletion_job :: "int \<Rightarrow> string \<Rightarrow> deletion_state \<Rightarrow> string option \<Rightarrow> json option \<Rightarrow>
    bool \<Rightarrow> db \<Rightarrow> db" where
  "update_deletion_job now jid state last_error evidence increment d =
     d\<lparr>deletion_jobs := update_where (\<lambda>r. dj_job_id r = jid) (\<lambda>r. r\<lparr>dj_state := state,
         dj_attempt := dj_attempt r + (if increment then 1 else 0),
         dj_completed_at := (if state \<in> {DS_DELETED, DS_PARTIAL, DS_FAILED, DS_HELD}
                             then Some now else dj_completed_at r),
         dj_last_error := (if last_error = None then dj_last_error r else last_error),
         dj_evidence := (if evidence = None then dj_evidence r else evidence)\<rparr>) (deletion_jobs d)\<rparr>"

definition get_deletion_job :: "db \<Rightarrow> string \<Rightarrow> job_row option" where
  "get_deletion_job d jid = find (\<lambda>r. dj_job_id r = jid) (deletion_jobs d)"

definition list_deletion_jobs :: "db \<Rightarrow> string \<Rightarrow> deletion_state option \<Rightarrow> job_row list" where
  "list_deletion_jobs d tenant state = sort_key (\<lambda>r. - dj_requested_at r)
     (filter (\<lambda>r. dj_tenant_id r = tenant \<and> (state \<noteq> None \<longrightarrow> Some (dj_state r) = state)) (deletion_jobs d))"

subsection \<open>Properties of the other tables\<close>

lemma approval_step_ids: "map ap_id (approvals (approval_step t op d)) = map ap_id (approvals d)"
proof -
  obtain i now aid dec by' why where op: "op = (i, now, aid, dec, by', why)" by (cases op) auto
  show ?thesis
  proof (cases "record_approval_decision i now aid dec by' t why d")
    case (Inl e)
    then show ?thesis by (simp add: approval_step_def op)
  next
    case (Inr r)
    obtain out d' where r: "r = (out, d')" by force
    from Inr [unfolded r] have "map ap_id (approvals d') = map ap_id (approvals d)"
      by (cases rule: record_Inr) (simp, metis approvals_apply_decision(2) snd_conv)
    with Inr r show ?thesis by (simp add: approval_step_def op)
  qed
qed

interpretation approval_tenants: tenant_guarded approvals ap_tenant_id approval_step
  "\<lambda>d. distinct (map ap_id (approvals d))"
proof
  fix d :: db and t u op
  assume d: "distinct (map ap_id (approvals d))"
  show "distinct (map ap_id (approvals (approval_step t op d)))" using d by (simp add: approval_step_ids)
  assume "t \<noteq> u"
  with d show "filter (\<lambda>r. ap_tenant_id r = u) (approvals (approval_step t op d)) =
      filter (\<lambda>r. ap_tenant_id r = u) (approvals d)"
    by (cases op) (auto simp: approval_step_def approval_other_tenant split: sum.splits)
qed

interpretation break_glass_tenants: tenant_guarded break_glass_requests bg_tenant_id bg_step
  "\<lambda>d. distinct (map bg_request_id (break_glass_requests d))"
  by unfold_locales (auto simp: bg_step_other_tenant bg_step_ids)

definition release_step :: "string \<Rightarrow> int \<times> string \<times> string \<times> string \<Rightarrow> db \<Rightarrow> db" where
  "release_step tenant = (\<lambda>(now, hid, by, reason) d. snd (release_legal_hold now hid by tenant reason d))"

interpretation hold_tenants: tenant_guarded legal_holds lh_tenant_id release_step
  "\<lambda>d. distinct (map lh_hold_id (legal_holds d))"
proof
  fix d :: db and t u and op :: "int \<times> string \<times> string \<times> string"
  assume d: "distinct (map lh_hold_id (legal_holds d))"
  obtain now hid by' reason where op: "op = (now, hid, by', reason)" by (cases op)
  show "distinct (map lh_hold_id (legal_holds (release_step t op d)))"
    using d by (auto simp: op release_step_def release_legal_hold_def map_update_where split: option.splits)
  assume "t \<noteq> u"
  then show "filter (\<lambda>r. lh_tenant_id r = u) (legal_holds (release_step t op d)) =
      filter (\<lambda>r. lh_tenant_id r = u) (legal_holds d)"
    using find_unique_filter [of lh_hold_id hid "legal_holds d", OF _ d]
    by (auto simp: op release_step_def release_legal_hold_def split: option.splits
        intro!: filter_update_where) (metis)+
qed


lemma next_seq_greater:
  "e \<in> set (events d) \<Longrightarrow> ev_task_run_id e = Some tid \<Longrightarrow> ev_seq e < next_seq d tid"
proof -
  assume e: "e \<in> set (events d)" "ev_task_run_id e = Some tid"
  let ?S = "map ev_seq (filter (\<lambda>e. ev_task_run_id e = Some tid) (events d))"
  have "ev_seq e \<in> set ?S" using e by simp
  then have le: "ev_seq e \<le> Max (set ?S)" by (rule Max_ge [OF finite_set])
  have "?S \<noteq> []" using e by (auto simp: filter_empty_conv)
  with le show ?thesis unfolding next_seq_def Let_def by simp
qed

text \<open>
  The event log is append-only and numbered: a successful append adds one row at the end and
  touches nothing else, its event id is new, the task and node it names exist, and an event
  without a number gets one above all numbers of its task.
\<close>

theorem append_event_extends_log:
  assumes "append_event ev d = Inr d'"
  shows "\<exists>row. d' = d\<lparr>events := events d @ [row]\<rparr> \<and> ev_id row = ev_id ev \<and>
    ev_id ev \<notin> ev_id ` set (events d) \<and> event_refs_ok d ev \<and>
    (\<forall>tid. ev_task_run_id ev = Some tid \<and> tid \<noteq> [] \<and> ev_seq ev = 0 \<longrightarrow>
       (\<forall>e \<in> set (events d). ev_task_run_id e = Some tid \<longrightarrow> ev_seq e < ev_seq row))"
proof -
  let ?row = "assign_seq d ev"
  have same: "ev_id ?row = ev_id ev" "ev_task_run_id ?row = ev_task_run_id ev"
    "ev_node_run_id ?row = ev_node_run_id ev"
    by (auto simp: assign_seq_def split: option.splits)
  have refs: "event_refs_ok d ?row = event_refs_ok d ev" by (simp add: event_refs_ok_def same)
  have "event_refs_ok d ev" "ev_id ev \<notin> ev_id ` set (events d)" "d' = d\<lparr>events := events d @ [?row]\<rparr>"
    using assms by (auto simp: append_event_def insert_event_def insert_row_def refs same split: if_splits)
  moreover have "ev_seq e < ev_seq ?row"
    if "ev_task_run_id ev = Some tid" "tid \<noteq> []" "ev_seq ev = 0" "e \<in> set (events d)"
      "ev_task_run_id e = Some tid" for tid e
    using that next_seq_greater [of e d tid] by (simp add: assign_seq_def)
  ultimately show ?thesis using same by blast
qed

lemma assign_seq_keeps:
  "ev_id (assign_seq d e) = ev_id e" "ev_task_run_id (assign_seq d e) = ev_task_run_id e"
  "event_refs_ok d' (assign_seq d e) = event_refs_ok d' e"
  by (auto simp: assign_seq_def event_refs_ok_def split: option.splits)

lemma event_refs_ok_events [simp]: "event_refs_ok (d\<lparr>events := es\<rparr>) e = event_refs_ok d e"
  by (simp add: event_refs_ok_def split: option.splits)

text \<open>
  The number is read in a transaction of its own: two writers of the same task that both read
  before either inserts store two events with the same number.
\<close>

theorem interleaved_appends_share_seq:
  assumes "ev_task_run_id e1 = Some tid" "ev_task_run_id e2 = Some tid" "tid \<noteq> []"
    "ev_seq e1 = 0" "ev_seq e2 = 0" "event_refs_ok d e1" "event_refs_ok d e2"
    "ev_id e1 \<noteq> ev_id e2" "{ev_id e1, ev_id e2} \<inter> ev_id ` set (events d) = {}"
  shows "\<exists>d1 d2. insert_event (assign_seq d e1) d = Inr d1 \<and> insert_event (assign_seq d e2) d1 = Inr d2 \<and>
    (\<exists>r1 \<in> set (events d2). \<exists>r2 \<in> set (events d2). ev_id r1 \<noteq> ev_id r2 \<and>
       ev_task_run_id r1 = ev_task_run_id r2 \<and> ev_seq r1 = ev_seq r2)"
proof -
  let ?r1 = "assign_seq d e1" and ?r2 = "assign_seq d e2"
  have seq: "ev_seq ?r1 = next_seq d tid" "ev_seq ?r2 = next_seq d tid"
    using assms by (simp_all add: assign_seq_def)
  have "insert_event ?r1 d = Inr (d\<lparr>events := events d @ [?r1]\<rparr>)"
    using assms by (simp add: insert_event_def insert_row_def assign_seq_keeps)
  moreover have "insert_event ?r2 (d\<lparr>events := events d @ [?r1]\<rparr>) = Inr (d\<lparr>events := events d @ [?r1, ?r2]\<rparr>)"
    using assms by (simp add: insert_event_def insert_row_def assign_seq_keeps)
  ultimately show ?thesis using assms seq
    by (intro exI conjI bexI [of _ ?r1] bexI [of _ ?r2]) (auto simp: assign_seq_keeps)
qed

text \<open>
  A legal hold without resources freezes nothing: it does not change what the store reports
  as held, although the schema describes it as freezing all deletion of the tenant.
\<close>

theorem tenant_wide_hold_covers_nothing:
  assumes "create_legal_hold now h [] d = Inr d'"
    "\<forall>r \<in> set (legal_hold_resources d). fst r \<noteq> lh_hold_id h"
  shows "is_resource_held d' tenant k rid = is_resource_held d tenant k rid"
proof -
  have none: "hold_resources d (lh_hold_id h) = []"
    using assms(2) by (auto simp: hold_resources_def filter_empty_conv)
  obtain row where d': "legal_holds d' = legal_holds d @ [row]" "lh_hold_id row = lh_hold_id h"
    "legal_hold_resources d' = legal_hold_resources d"
    using assms(1) by (auto simp: create_legal_hold_def split: if_splits)
  then have "hold_resources d' = hold_resources d" by (simp add: hold_resources_def fun_eq_iff)
  then show ?thesis by (simp add: is_resource_held_def d' none)
qed

subsection \<open>Witnesses\<close>

definition ex_after :: "db_error + ('a \<times> db) \<Rightarrow> db" where
  "ex_after r = (case r of Inl e \<Rightarrow> empty_db | Inr p \<Rightarrow> snd p)"

definition ex_approval0 :: db where
  "ex_approval0 = ex_after (create_approval ''a1'' 1 ''task'' ''node'' ''acme'' ''alice'' 2 None empty_db)"

definition ex_approval1 :: db where
  "ex_approval1 = ex_after
     (record_approval_decision ''d1'' 2 ''apv:a1'' ''approve'' ''bob'' ''acme'' ''ok'' ex_approval0)"

definition ex_approval2 :: db where
  "ex_approval2 = ex_after
     (record_approval_decision ''d2'' 3 ''apv:a1'' ''approve'' ''carol'' ''acme'' ''ok'' ex_approval1)"

lemmas ex_approval_defs = ex_approval0_def ex_approval1_def ex_approval2_def ex_after_def empty_db_def
  create_approval_def record_approval_decision_def apply_decision_def insert_row_def decisions_of_def
  update_where_def Let_def

lemma ex_approval0_reachable: "approval_reachable ex_approval0"
  by (rule approval_reachable.create [OF approval_reachable.start [of empty_db],
        of "''a1''" 1 "''task''" "''node''" "''acme''" "''alice''" 2 None])
    (simp_all add: ex_approval_defs)

lemma ex_approval1_reachable: "approval_reachable ex_approval1"
  by (rule approval_reachable.decision [OF ex_approval0_reachable,
        of "''d1''" 2 "''apv:a1''" "''approve''" "''bob''" "''acme''" "''ok''"])
    (simp add: ex_approval_defs)

lemma ex_approval2_reachable: "approval_reachable ex_approval2"
  by (rule approval_reachable.decision [OF ex_approval1_reachable,
        of "''d2''" 3 "''apv:a1''" "''approve''" "''carol''" "''acme''" "''ok''"])
    (simp add: ex_approval_defs)

theorem approval_log_adds_up_witness:
  "ap_state (hd (approvals ex_approval2)) = AS_APPROVED \<and>
   map ad_seq (decisions_of ex_approval2 ''apv:a1'') = [1..<Suc 2]"
proof -
  have a: "hd (approvals ex_approval2) \<in> set (approvals ex_approval2)"
    "ap_id (hd (approvals ex_approval2)) = ''apv:a1''" "ap_version (hd (approvals ex_approval2)) = 2"
    "ap_state (hd (approvals ex_approval2)) = AS_APPROVED"
    by (simp_all add: ex_approval_defs)
  show ?thesis using approval_log_adds_up [OF ex_approval2_reachable a(1)] a by (simp del: upt_Suc)
qed

theorem decided_approval_is_final_witness:
  "\<exists>reason. record_approval_decision ''d3'' 9 ''apv:a1'' ''reject'' ''dan'' ''acme'' ''no'' ex_approval2 =
     Inr (NotApplied reason, ex_approval2)"
proof -
  obtain row where "find (\<lambda>a. ap_id a = ''apv:a1'') (approvals ex_approval2) = Some row"
    "ap_state row = AS_APPROVED"
    by (simp add: ex_approval_defs)
  then show ?thesis by (intro decided_approval_is_final) auto
qed

theorem same_person_approves_twice_witness:
  "\<exists>o1 d1 o2 d2 b.
    record_approval_decision ''d1'' 2 ''apv:a1'' ''approve'' ''bob'' ''acme'' ''ok'' ex_approval0 = Inr (o1, d1) \<and>
    record_approval_decision ''d2'' 2 ''apv:a1'' ''approve'' ''bob'' ''acme'' ''ok'' d1 = Inr (o2, d2) \<and>
    b \<in> set (approvals d2) \<and> ap_id b = ''apv:a1'' \<and> ap_state b = AS_APPROVED"
proof -
  let ?a = "hd (approvals ex_approval0)"
  have a: "?a \<in> set (approvals ex_approval0)" "ap_state ?a = AS_PENDING" "ap_required_approvers ?a = 2"
    "ap_id ?a = ''apv:a1''" "ap_tenant_id ?a = ''acme''" "approval_decisions ex_approval0 = []"
    by (simp_all add: ex_approval_defs)
  show ?thesis
    using same_person_approves_twice [OF approval_reachable_inv [OF ex_approval0_reachable] a(1-3),
        of "''d1''" "''d2''" 2 "''bob''" "''ok''"] a(4-6) by simp
qed

definition ex_bg_request :: break_glass_row where
  "ex_bg_request = \<lparr>bg_request_id = ''bg:1'', bg_tenant_id = ''acme'', bg_task_run_id = None,
     bg_purpose = ''incident'', bg_effect = JNull, bg_resource_scope = JNull, bg_ticket = None,
     bg_requested_by = ''alice'', bg_requested_at = 0, bg_state = BG_REQUESTED,
     bg_first_approver = None, bg_first_approved_at = None, bg_second_approver = None,
     bg_second_approved_at = None, bg_window_seconds = 3600, bg_activated_at = None,
     bg_expires_at = None, bg_revoked_by = None, bg_revoked_at = None, bg_revoke_reason = None\<rparr>"

definition ex_requested :: db where
  "ex_requested = empty_db\<lparr>break_glass_requests := [ex_bg_request]\<rparr>"

definition ex_first :: db where
  "ex_first = snd (record_break_glass_approval 1000 ''bg:1'' ''bob'' ''acme'' ex_requested)"

definition ex_active :: db where
  "ex_active = snd (record_break_glass_approval 2000 ''bg:1'' ''carol'' ''acme'' ex_first)"

lemmas ex_break_glass_defs = ex_active_def ex_first_def ex_requested_def ex_bg_request_def empty_db_def
  record_break_glass_approval_def get_break_glass_def update_break_glass_def update_where_def

lemma ex_active_reachable: "break_glass_reachable ex_active"
proof -
  have "create_break_glass_request 0 ex_bg_request empty_db = Inr ex_requested"
    by (simp add: create_break_glass_request_def insert_row_def ex_requested_def empty_db_def ex_bg_request_def)
  then have "break_glass_reachable ex_requested"
    by (rule break_glass_reachable.request [OF break_glass_reachable.start [of empty_db], rotated])
      (simp add: empty_db_def)
  then show ?thesis unfolding ex_active_def ex_first_def by (intro break_glass_reachable.approve)
qed

theorem break_glass_two_person_control_witness:
  "bg_state (hd (break_glass_requests ex_active)) = BG_ACTIVE \<and>
   (\<exists>t. bg_activated_at (hd (break_glass_requests ex_active)) = Some t \<and>
        bg_expires_at (hd (break_glass_requests ex_active)) = Some (t + 3600 * 1000))"
proof -
  have a: "hd (break_glass_requests ex_active) \<in> set (break_glass_requests ex_active)"
    "bg_state (hd (break_glass_requests ex_active)) = BG_ACTIVE"
    "bg_window_seconds (hd (break_glass_requests ex_active)) = 3600"
    by (simp_all add: ex_break_glass_defs)
  show ?thesis using break_glass_two_person_control [OF ex_active_reachable a(1)] a by simp
qed


definition ex_event :: "string \<Rightarrow> event_row" where
  "ex_event i = \<lparr>ev_id = i, ev_seq = 0, ev_task_run_id = Some ''task'', ev_node_run_id = None,
     ev_kind = TASK_RECEIVED, ev_occurred_at = 0, ev_actor = ''coordinator'', ev_payload = [],
     ev_prev_event_id = None, ev_tenant_id = None\<rparr>"

definition ex_task_db :: db where
  "ex_task_db = upsert_task_run 0 ''task'' ''contract'' ''template'' TR_CREATED None empty_db"

theorem append_event_extends_log_witness:
  "\<exists>row. append_event (ex_event ''e1'') ex_task_db = Inr (ex_task_db\<lparr>events := [row]\<rparr>)"
proof -
  obtain d' where d': "append_event (ex_event ''e1'') ex_task_db = Inr d'"
    by (simp add: append_event_def assign_seq_def ex_event_def insert_event_def event_refs_ok_def
        ex_task_db_def upsert_task_run_def empty_db_def insert_row_def)
  have "events ex_task_db = []" by (simp add: ex_task_db_def upsert_task_run_def empty_db_def)
  with append_event_extends_log [OF d'] d' show ?thesis by auto
qed

theorem interleaved_appends_share_seq_witness:
  "\<exists>d1 d2. insert_event (assign_seq ex_task_db (ex_event ''e1'')) ex_task_db = Inr d1 \<and>
    insert_event (assign_seq ex_task_db (ex_event ''e2'')) d1 = Inr d2 \<and>
    (\<exists>r1 \<in> set (events d2). \<exists>r2 \<in> set (events d2). ev_id r1 \<noteq> ev_id r2 \<and>
       ev_task_run_id r1 = ev_task_run_id r2 \<and> ev_seq r1 = ev_seq r2)"
  by (rule interleaved_appends_share_seq [of _ "''task''"])
    (simp_all add: ex_event_def event_refs_ok_def ex_task_db_def upsert_task_run_def empty_db_def)

definition ex_hold :: hold_row where
  "ex_hold = \<lparr>lh_hold_id = ''hold:1'', lh_tenant_id = ''acme'', lh_case_id = ''case'',
     lh_reason = ''litigation'', lh_created_at = 0, lh_created_by = ''legal'',
     lh_released_at = None, lh_released_by = None, lh_release_reason = None\<rparr>"

theorem tenant_wide_hold_covers_nothing_witness:
  "\<exists>d. create_legal_hold 0 ex_hold [] empty_db = Inr d \<and> \<not> is_resource_held d ''acme'' RK_ARTIFACT ''a''"
proof -
  obtain d where d: "create_legal_hold 0 ex_hold [] empty_db = Inr d"
    by (simp add: create_legal_hold_def empty_db_def)
  have "is_resource_held d ''acme'' RK_ARTIFACT ''a'' = is_resource_held empty_db ''acme'' RK_ARTIFACT ''a''"
    by (rule tenant_wide_hold_covers_nothing [OF d]) (simp add: empty_db_def)
  then show ?thesis using d by (simp add: is_resource_held_def empty_db_def)
qed

end
