(* ===== verification/Streaming.thy ===== *)
theory Streaming
  imports Prelude
begin

section \<open>The event bus\<close>

text \<open>
  \<open>orchestra/streaming/event_bus.py\<close>: the in-process publish/subscribe that feeds the SSE
  endpoint. Queues are objects the bus and the subscribers share: \<open>queues\<close> is the store of their
  contents, addressed by the number of the \<open>asyncio.Queue\<close>. \<open>None\<close> in a queue is the close
  sentinel. An operation runs under the bus lock, so a run is a sequence of operations.
\<close>

record 'e bus =
  replay_buffer :: nat
  history :: "(string, 'e list) dict"
  subscribers :: "(string, nat list) dict"
  closed_tasks :: "string list"
  queues :: "nat \<Rightarrow> 'e option list"
  next_queue :: nat

definition queue_size :: nat where "queue_size = 512"

definition new_bus :: "nat \<Rightarrow> 'e bus" where
  "new_bus n = \<lparr>replay_buffer = n, history = [], subscribers = [], closed_tasks = [],
     queues = (\<lambda>_. []), next_queue = 0\<rparr>"

abbreviation subs_of :: "'e bus \<Rightarrow> string \<Rightarrow> nat list" where
  "subs_of b t \<equiv> dget_default (subscribers b) t []"

text \<open>\<open>q.put_nowait(x)\<close> with the \<open>QueueFull\<close> it may raise swallowed, as every caller does.\<close>

definition put_nowait :: "'e option \<Rightarrow> nat \<Rightarrow> 'e bus \<Rightarrow> 'e bus" where
  "put_nowait x q b =
     (if length (queues b q) < queue_size then b\<lparr>queues := (queues b)(q := queues b q @ [x])\<rparr> else b)"

definition publish :: "string \<Rightarrow> 'e \<Rightarrow> 'e bus \<Rightarrow> 'e bus" where
  "publish t e b =
     (let b1 = fold (put_nowait (Some e)) (subs_of b t) b
      in b1\<lparr>history := dset t (deque_append (replay_buffer b) (dget_default (history b) t []) e)
                          (history b)\<rparr>)"

definition close_task :: "string \<Rightarrow> 'e bus \<Rightarrow> 'e bus" where
  "close_task t b =
     (if t \<in> set (closed_tasks b) then b
      else fold (put_nowait None) (subs_of b t) (b\<lparr>closed_tasks := closed_tasks b @ [t]\<rparr>))"

definition is_closed :: "'e bus \<Rightarrow> string \<Rightarrow> bool" where
  "is_closed b t \<longleftrightarrow> t \<in> set (closed_tasks b)"

definition replay :: "'e bus \<Rightarrow> string \<Rightarrow> 'e list" where
  "replay b t = dget_default (history b) t []"

definition subscribe :: "string \<Rightarrow> 'e bus \<Rightarrow> nat \<times> 'e bus" where
  "subscribe t b =
     (let q = next_queue b;
          b1 = b\<lparr>queues := (queues b)(q := map Some (take queue_size (replay b t))),
                 next_queue := Suc q\<rparr>
      in if t \<in> set (closed_tasks b) then (q, put_nowait None q b1)
         else (q, b1\<lparr>subscribers := dset t (subs_of b t @ [q]) (subscribers b)\<rparr>))"

definition unsubscribe :: "string \<Rightarrow> nat \<Rightarrow> 'e bus \<Rightarrow> 'e bus" where
  "unsubscribe t q b =
     (case dget (subscribers b) t of
        None \<Rightarrow> b
      | Some qs \<Rightarrow>
        let qs' = removeAll q qs
        in b\<lparr>subscribers := (if qs' = [] then ddel t (subscribers b) else dset t qs' (subscribers b))\<rparr>)"

text \<open>The subscriber's \<open>await q.get()\<close>; nothing when the queue is empty.\<close>

definition queue_get :: "nat \<Rightarrow> 'e bus \<Rightarrow> 'e option option \<times> 'e bus" where
  "queue_get q b =
     (case queues b q of
        [] \<Rightarrow> (None, b)
      | x # xs \<Rightarrow> (Some x, b\<lparr>queues := (queues b)(q := xs)\<rparr>))"

subsection \<open>Runs\<close>

datatype 'e bus_op =
  Publish string 'e | Close string | Subscribe string | Unsubscribe string nat | Get nat

text \<open>A run returns what was read, with the queue it was read from.\<close>

fun bus_step :: "'e bus_op \<Rightarrow> 'e bus \<Rightarrow> (nat \<times> 'e option) list \<times> 'e bus" where
  "bus_step (Publish t e) b = ([], publish t e b)"
| "bus_step (Close t) b = ([], close_task t b)"
| "bus_step (Subscribe t) b = ([], snd (subscribe t b))"
| "bus_step (Unsubscribe t q) b = ([], unsubscribe t q b)"
| "bus_step (Get q) b =
     (let (x, b') = queue_get q b in (case x of None \<Rightarrow> [] | Some y \<Rightarrow> [(q, y)], b'))"

fun bus_run :: "'e bus_op list \<Rightarrow> 'e bus \<Rightarrow> (nat \<times> 'e option) list \<times> 'e bus" where
  "bus_run [] b = ([], b)"
| "bus_run (x # ops) b =
     (let (r, b1) = bus_step x b; (rs, b2) = bus_run ops b1 in (r @ rs, b2))"

text \<open>What a subscriber of a task is sent: its events, and the sentinel at the first close.\<close>

fun feed :: "string \<Rightarrow> bool \<Rightarrow> 'e bus_op list \<Rightarrow> 'e option list" where
  "feed t c [] = []"
| "feed t c (Publish u e # ops) = (if u = t then Some e # feed t c ops else feed t c ops)"
| "feed t c (Close u # ops) = (if u = t \<and> \<not> c then None # feed t True ops else feed t c ops)"
| "feed t c (x # ops) = feed t c ops"

fun published :: "string \<Rightarrow> 'e bus_op list \<Rightarrow> 'e list" where
  "published t [] = []"
| "published t (Publish u e # ops) = (if u = t then e # published t ops else published t ops)"
| "published t (x # ops) = published t ops"

abbreviation read_from :: "nat \<Rightarrow> (nat \<times> 'e option) list \<Rightarrow> 'e option list" where
  "read_from q rs \<equiv> map snd (filter (\<lambda>r. fst r = q) rs)"

subsection \<open>Effects of the operations\<close>

lemma put_nowait_fields [simp]:
  "replay_buffer (put_nowait x q b) = replay_buffer b" "history (put_nowait x q b) = history b"
  "subscribers (put_nowait x q b) = subscribers b" "closed_tasks (put_nowait x q b) = closed_tasks b"
  "next_queue (put_nowait x q b) = next_queue b"
  by (simp_all add: put_nowait_def)

lemma fold_put_fields [simp]:
  "replay_buffer (fold (put_nowait x) qs b) = replay_buffer b"
  "history (fold (put_nowait x) qs b) = history b"
  "subscribers (fold (put_nowait x) qs b) = subscribers b"
  "closed_tasks (fold (put_nowait x) qs b) = closed_tasks b"
  "next_queue (fold (put_nowait x) qs b) = next_queue b"
  by (induction qs arbitrary: b) simp_all

lemma queues_fold_put:
  "distinct qs \<Longrightarrow> queues (fold (put_nowait x) qs b) q =
     (if q \<in> set qs \<and> length (queues b q) < queue_size then queues b q @ [x] else queues b q)"
  by (induction qs arbitrary: b) (auto simp: put_nowait_def)

definition bus_inv :: "'e bus \<Rightarrow> bool" where
  "bus_inv b \<longleftrightarrow> dict_wf (subscribers b) \<and>
     (\<forall>t. distinct (subs_of b t) \<and> (\<forall>q \<in> set (subs_of b t). q < next_queue b) \<and>
       (\<forall>u. u \<noteq> t \<longrightarrow> set (subs_of b t) \<inter> set (subs_of b u) = {}))"

lemma bus_inv_new: "bus_inv (new_bus n)"
  by (simp add: bus_inv_def new_bus_def dget_default_def)

lemma bus_inv_cong:
  "subscribers b' = subscribers b \<Longrightarrow> next_queue b' = next_queue b \<Longrightarrow> bus_inv b' = bus_inv b"
  by (simp add: bus_inv_def)

lemma subs_of_unsubscribe:
  "dict_wf (subscribers b) \<Longrightarrow>
   subs_of (unsubscribe t q b) u = (if u = t then removeAll q (subs_of b t) else subs_of b u)"
  by (auto simp: unsubscribe_def Let_def dget_default_def dict_simps split: option.splits)

lemma bus_inv_step:
  assumes "bus_inv b"
  shows "bus_inv (snd (bus_step x b))"
proof (cases x)
  case (Publish t e)
  then show ?thesis using assms bus_inv_cong [of "publish t e b" b]
    by (simp add: publish_def Let_def)
next
  case (Close t)
  then show ?thesis using assms bus_inv_cong [of "close_task t b" b] by (simp add: close_task_def)
next
  case (Subscribe t)
  show ?thesis
  proof (cases "t \<in> set (closed_tasks b)")
    case True
    then show ?thesis using assms unfolding Subscribe
      by (simp add: subscribe_def Let_def bus_inv_def) (meson less_SucI)
  next
    case False
    have "\<And>u. next_queue b \<notin> set (subs_of b u)" using assms by (auto simp: bus_inv_def)
    with False show ?thesis using assms unfolding Subscribe
      by (auto simp: subscribe_def Let_def bus_inv_def dget_default_dset less_Suc_eq)
  qed
next
  case (Unsubscribe t q)
  have next': "next_queue (unsubscribe t q b) = next_queue b"
    "dict_wf (subscribers (unsubscribe t q b))"
    using assms by (auto simp: unsubscribe_def Let_def bus_inv_def split: option.splits)
  have wf: "dict_wf (subscribers b)" using assms by (simp add: bus_inv_def)
  show ?thesis using assms next' unfolding Unsubscribe
    by (simp add: bus_inv_def subs_of_unsubscribe [OF wf] distinct_removeAll) blast
next
  case (Get q)
  then show ?thesis using assms by (cases "queues b q") (simp_all add: queue_get_def bus_inv_def)
qed

lemma bus_inv_run: "bus_inv b \<Longrightarrow> bus_inv (snd (bus_run ops b))"
proof (induction ops arbitrary: b)
  case Nil
  then show ?case by simp
next
  case (Cons x ops)
  from Cons.IH [OF bus_inv_step [OF Cons.prems, of x]] show ?case
    by (simp add: split_beta Let_def)
qed

subsection \<open>What a subscriber receives\<close>

lemma subs_of_step:
  assumes "bus_inv b" "q \<in> set (subs_of b t)" "x \<noteq> Unsubscribe t q"
  shows "q \<in> set (subs_of (snd (bus_step x b)) t)"
proof (cases x)
  case (Unsubscribe u q')
  have "dict_wf (subscribers b)" using assms(1) by (simp add: bus_inv_def)
  then show ?thesis using assms unfolding Unsubscribe by (auto simp: subs_of_unsubscribe)
next
  case (Get q')
  then show ?thesis using assms(2) by (cases "queues b q'") (simp_all add: queue_get_def)
qed (use assms(2) in \<open>auto simp: publish_def close_task_def subscribe_def Let_def dget_default_dset\<close>)

text \<open>One step moves the sequence read and still queued by exactly what the subscriber is fed.\<close>

lemma feed_step:
  assumes "bus_inv b" "q \<in> set (subs_of b t)" "x \<noteq> Unsubscribe t q"
    "length (queues b q) + length (feed t (is_closed b t) [x]) \<le> queue_size"
  shows "read_from q (fst (bus_step x b)) @ queues (snd (bus_step x b)) q =
      queues b q @ feed t (is_closed b t) [x]"
    and "is_closed (snd (bus_step x b)) t = (is_closed b t \<or> x = Close t)"
proof -
  have old: "q < next_queue b" and d: "\<And>u. distinct (subs_of b u)"
    and only: "\<And>u. u \<noteq> t \<Longrightarrow> q \<notin> set (subs_of b u)"
    using assms(1,2) by (auto simp: bus_inv_def)
  show "read_from q (fst (bus_step x b)) @ queues (snd (bus_step x b)) q =
      queues b q @ feed t (is_closed b t) [x]"
  proof (cases x)
    case (Publish u e)
    then show ?thesis using assms(2,4) d only [of u]
      by (auto simp: publish_def Let_def queues_fold_put)
  next
    case (Close u)
    then show ?thesis using assms(2,4) d only [of u]
      by (auto simp: close_task_def is_closed_def queues_fold_put)
  next
    case (Subscribe u)
    then show ?thesis using old by (auto simp: subscribe_def Let_def put_nowait_def)
  next
    case (Unsubscribe u q')
    then show ?thesis by (auto simp: unsubscribe_def Let_def split: option.splits)
  next
    case (Get q')
    then show ?thesis by (cases "queues b q'") (auto simp: queue_get_def)
  qed
  show "is_closed (snd (bus_step x b)) t = (is_closed b t \<or> x = Close t)"
  proof (cases x)
    case (Get q')
    then show ?thesis by (cases "queues b q'") (auto simp: queue_get_def is_closed_def)
  qed (auto simp: publish_def close_task_def subscribe_def unsubscribe_def Let_def is_closed_def
      split: option.splits)
qed

lemma feed_Cons: "feed t c (x # ops) = feed t c [x] @ feed t (c \<or> x = Close t) ops"
  by (cases x) auto

lemma feed_run:
  assumes "bus_inv b" "q \<in> set (subs_of b t)" "Unsubscribe t q \<notin> set ops"
    "length (queues b q) + length (feed t (is_closed b t) ops) \<le> queue_size"
  shows "read_from q (fst (bus_run ops b)) @ queues (snd (bus_run ops b)) q =
    queues b q @ feed t (is_closed b t) ops"
  using assms
proof (induction ops arbitrary: b)
  case Nil
  then show ?case by simp
next
  case (Cons x ops)
  let ?b = "snd (bus_step x b)"
  have ne: "x \<noteq> Unsubscribe t q" using Cons.prems(3) by auto
  have "length (queues b q) + length (feed t (is_closed b t) [x]) \<le> queue_size"
    using Cons.prems(4) feed_Cons [of t "is_closed b t" x ops] by simp
  note st = feed_step [OF Cons.prems(1,2) ne this]
  have "length (queues ?b q) \<le> length (queues b q) + length (feed t (is_closed b t) [x])"
    using arg_cong [OF st(1), of length] by simp
  then have "read_from q (fst (bus_run ops ?b)) @ queues (snd (bus_run ops ?b)) q =
      queues ?b q @ feed t (is_closed ?b t) ops"
    using Cons.prems st(2) feed_Cons [of t "is_closed b t" x ops]
    by (intro Cons.IH bus_inv_step subs_of_step ne) auto
  with st feed_Cons [of t "is_closed b t" x ops] show ?case
    by (simp add: split_beta Let_def)
qed

lemma deque_append_drop:
  "deque_append n (drop (length p - n) p) e = drop (length (p @ [e]) - n) (p @ [e])"
  by (cases "length p \<le> n") (auto simp: deque_append_def Suc_diff_le)

lemma published_snoc: "published t (ops @ [x]) = published t ops @ published t [x]"
proof (induction ops)
  case (Cons y ops)
  then show ?case by (cases y) auto
qed simp

lemma bus_run_snoc: "snd (bus_run (ops @ [x]) b) = snd (bus_step x (snd (bus_run ops b)))"
  by (induction ops arbitrary: b) (simp_all add: split_beta Let_def)

lemma replay_step:
  "replay_buffer (snd (bus_step x b)) = replay_buffer b \<and>
   replay (snd (bus_step x b)) t =
     (case x of Publish u e \<Rightarrow> if u = t then deque_append (replay_buffer b) (replay b t) e else replay b t
      | _ \<Rightarrow> replay b t)"
proof (cases x)
  case (Get q)
  then show ?thesis by (cases "queues b q") (simp_all add: queue_get_def replay_def)
qed (auto simp: publish_def close_task_def subscribe_def unsubscribe_def Let_def replay_def
      dget_default_dset split: option.splits)

text \<open>
  The replay buffer of a task is the last \<open>n\<close> events published for it, in order, whatever
  else happens on the bus.
\<close>

theorem replay_is_recent:
  "replay (snd (bus_run ops (new_bus n))) t =
     drop (length (published t ops) - n) (published t ops)"
proof -
  have "replay_buffer (snd (bus_run ops (new_bus n))) = n \<and>
    replay (snd (bus_run ops (new_bus n))) t = drop (length (published t ops) - n) (published t ops)"
  proof (induction ops rule: rev_induct)
    case Nil
    then show ?case by (simp add: new_bus_def replay_def dget_default_def)
  next
    case (snoc x ops)
    let ?b = "snd (bus_run ops (new_bus n))"
    show ?case using snoc replay_step [of x ?b t]
      by (cases x) (simp_all add: bus_run_snoc published_snoc deque_append_drop)
  qed
  then show ?thesis by blast
qed

lemma closed_only_by_close: "Close t \<notin> set ops \<Longrightarrow> \<not> is_closed (snd (bus_run ops (new_bus n))) t"
proof (induction ops rule: rev_induct)
  case Nil
  then show ?case by (simp add: new_bus_def is_closed_def)
next
  case (snoc x ops)
  let ?b = "snd (bus_run ops (new_bus n))"
  have "is_closed (snd (bus_step x ?b)) t = (is_closed ?b t \<or> x = Close t)"
  proof (cases x)
    case (Get q)
    then show ?thesis by (cases "queues ?b q") (simp_all add: queue_get_def is_closed_def)
  qed (auto simp: publish_def close_task_def subscribe_def unsubscribe_def Let_def is_closed_def
      split: option.splits)
  with snoc show ?case by (auto simp: bus_run_snoc)
qed


text \<open>
  A subscriber whose queue is full when the task closes never gets the close sentinel: the
  put is dropped and no later operation repeats it, so its read loop does not end.
\<close>

theorem slow_subscriber_misses_close:
  assumes "bus_inv b" "q \<in> set (subs_of b t)" "t \<notin> set (closed_tasks b)"
    "length (queues b q) = queue_size" "None \<notin> set (queues b q)"
  shows "(q, None) \<notin> set (fst (bus_run (Close t # ops) b))"
proof -
  define good where "good c = (bus_inv c \<and> t \<in> set (closed_tasks c) \<and> None \<notin> set (queues c q) \<and>
      q < next_queue c \<and> (\<forall>u. u \<noteq> t \<longrightarrow> q \<notin> set (subs_of c u)))" for c :: "'a bus"
  have step: "good (snd (bus_step x c)) \<and> (q, None) \<notin> set (fst (bus_step x c))" if g: "good c" for x c
  proof -
    have i: "bus_inv c" and i': "bus_inv (snd (bus_step x c))"
      using g bus_inv_step [of c x] by (simp_all add: good_def)
    have d: "\<And>u. distinct (subs_of c u)" and wf: "dict_wf (subscribers c)" using i by (auto simp: bus_inv_def)
    show ?thesis
    proof (cases x)
      case (Get q')
      then show ?thesis using g i' by (cases "queues c q'") (auto simp: good_def queue_get_def)
    next
      case (Unsubscribe u q')
      have "queues (unsubscribe u q' c) = queues c" "next_queue (unsubscribe u q' c) = next_queue c"
        "closed_tasks (unsubscribe u q' c) = closed_tasks c"
        by (auto simp: unsubscribe_def Let_def split: option.splits)
      then show ?thesis using g i' unfolding Unsubscribe
        by (auto simp: good_def subs_of_unsubscribe [OF wf])
    next
      case (Close u)
      then show ?thesis using g i' d
        by (cases "u = t") (auto simp: good_def close_task_def queues_fold_put)
    qed (use g i' d in \<open>auto simp: good_def publish_def close_task_def subscribe_def Let_def
        queues_fold_put put_nowait_def dget_default_dset split: if_splits\<close>)
  qed
  have run: "(q, None) \<notin> set (fst (bus_run ops c))" if "good c" for ops c
    using that
  proof (induction ops arbitrary: c)
    case (Cons x ops)
    from step [OF Cons.prems, of x] Cons.IH show ?case by (simp add: split_beta Let_def)
  qed simp
  have "good (snd (bus_step (Close t) b))"
    using assms bus_inv_step [OF assms(1), of "Close t"]
    by (auto simp: good_def close_task_def queues_fold_put bus_inv_def)
  from run [OF this] show ?thesis by (simp add: split_beta Let_def)
qed

subsection \<open>Witnesses\<close>


definition ex_full :: "nat bus" where
  "ex_full = \<lparr>replay_buffer = 256, history = [], subscribers = [(''t'', [0])], closed_tasks = [],
     queues = (\<lambda>_. replicate 512 (Some 7)), next_queue = 1\<rparr>"

theorem slow_subscriber_misses_close_witness:
  "(0, None) \<notin> set (fst (bus_run [Close ''t'', Get 0, Close ''t'', Get 0] ex_full))"
proof -
  have "bus_inv ex_full" by (auto simp: bus_inv_def ex_full_def dget_default_def split: if_splits)
  then show ?thesis
    by (rule slow_subscriber_misses_close [where t = "''t''"])
      (simp_all add: ex_full_def dget_default_def queue_size_def)
qed

end
