(* ===== verification/Egress.thy ===== *)
theory Egress
  imports Registry
begin

section \<open>Egress: field projection and the policy enforcement point\<close>

text \<open>
  \<open>orchestra/xfr/projector.py\<close>, \<open>orchestra/xfr/egress_pep.py\<close> and the default field manifests of
  \<open>orchestra/registry/bootstrap.py\<close>. Every call of a capability with an egress view goes through
  \<open>pep_project\<close>, which cuts the payload down to the manifest's fields. The optional metrics of the
  PEP only count and are left out. A manifest that the PEP dumps and the coordinator validates
  again is the manifest itself.

  What Python's text functions do beyond ASCII is a record of functions taken as an argument:
  \<open>py_int\<close> (\<open>int(s)\<close>, nothing for the \<open>ValueError\<close>), \<open>py_float\<close>, \<open>py_isdigit\<close> and \<open>py_str\<close>
  (\<open>str(v)\<close> of a decoded JSON value that is not a string).
\<close>

record textlib =
  py_int :: "string \<Rightarrow> int option"
  py_float :: "string \<Rightarrow> rat option"
  py_isdigit :: "string \<Rightarrow> bool"
  py_str :: "json \<Rightarrow> string"

subsection \<open>Characters of a text\<close>

text \<open>The code points of a UTF-8 text: a byte from 128 to 191 continues the character before it.\<close>

definition continuation :: "char \<Rightarrow> bool" where
  "continuation c \<longleftrightarrow> 128 \<le> (of_char c :: nat) \<and> (of_char c :: nat) < 192"

function utf8_chars :: "string \<Rightarrow> string list" where
  "utf8_chars [] = []"
| "utf8_chars (c # cs) = (c # takeWhile continuation cs) # utf8_chars (dropWhile continuation cs)"
  by pat_completeness auto
termination by (relation "measure length") (auto simp: le_imp_less_Suc length_dropWhile_le)

text \<open>\<open>s[:n]\<close> and \<open>len(s)\<close>\<close>

definition text_length :: "string \<Rightarrow> int" where
  "text_length s = int (length (utf8_chars s))"

definition text_prefix :: "string \<Rightarrow> int \<Rightarrow> string" where
  "text_prefix s n =
     concat (take (nat (if n < 0 then text_length s + n else n)) (utf8_chars s))"

definition ellipsis :: string where
  "ellipsis = [char_of (226::nat), char_of (128::nat), char_of (166::nat)]"

subsection \<open>The projector\<close>

record field_manifest =
  fm_manifest_id :: string
  fm_name :: string
  fm_version :: string
  fm_source_view :: string
  fm_allowed_fields :: "string list"
  fm_redaction_rules :: "(string, json) dict list"
  fm_byte_budget :: "int option"

record projection_result =
  pr_projected :: "(string, json) dict"
  pr_dropped_fields :: "string list"
  pr_projected_bytes :: nat
  pr_digest :: string

datatype projection_error = EgressBudgetExceeded nat int

definition partial_prefix :: string where "partial_prefix = ''partial-''"

definition is_partial :: "string \<Rightarrow> bool" where
  "is_partial op' \<longleftrightarrow> take (length partial_prefix) op' = partial_prefix"

definition token_text :: "platform \<Rightarrow> json \<Rightarrow> string" where
  "token_text pf v = ''<token:'' @ take 8 (digest_json pf v) @ ''>''"

text \<open>The first rule of the field that has an effect decides; a rule without one is passed over.\<close>

fun redact :: "platform \<Rightarrow> textlib \<Rightarrow> string \<Rightarrow> json \<Rightarrow> (string, json) dict list \<Rightarrow> json" where
  "redact pf tx k v [] = v"
| "redact pf tx k v (rule # rules) =
     (if dget rule ''field'' \<noteq> Some (JStr k) then redact pf tx k v rules
      else case dget rule ''op'' of
        Some (JStr op') \<Rightarrow>
          if op' = ''drop'' then JNull
          else if op' = ''hash'' then JStr (digest_json pf v)
          else if op' = ''tokenize'' then JStr (token_text pf v)
          else if is_partial op' then
            (case py_int tx (drop (length partial_prefix) op') of
               None \<Rightarrow> redact pf tx k v rules
             | Some n \<Rightarrow>
               (case v of
                  JStr s \<Rightarrow> if n < text_length s then JStr (text_prefix s n @ ellipsis)
                            else redact pf tx k v rules
                | _ \<Rightarrow> redact pf tx k v rules))
          else redact pf tx k v rules
      | _ \<Rightarrow> redact pf tx k v rules)"

definition apply_redactions :: "platform \<Rightarrow> textlib \<Rightarrow> field_manifest \<Rightarrow> string \<Rightarrow> json \<Rightarrow> json" where
  "apply_redactions pf tx m k v = redact pf tx k v (fm_redaction_rules m)"

definition projected_fields :: "platform \<Rightarrow> textlib \<Rightarrow> field_manifest \<Rightarrow> (string, json) dict \<Rightarrow>
    (string, json) dict" where
  "projected_fields pf tx m payload =
     sort_key fst (map (\<lambda>(k, v). (k, apply_redactions pf tx m k v))
       (filter (\<lambda>(k, v). k \<in> set (fm_allowed_fields m)) payload))"

definition project_fields :: "platform \<Rightarrow> textlib \<Rightarrow> field_manifest \<Rightarrow> (string, json) dict \<Rightarrow>
    projection_error + projection_result" where
  "project_fields pf tx m payload =
     (let ordered = projected_fields pf tx m payload;
          dropped = filter (\<lambda>k. k \<notin> set (fm_allowed_fields m)) (keys payload);
          size = length (canonical_json (JObj ordered))
      in case fm_byte_budget m of
           Some budget \<Rightarrow>
             if int size > budget then Inl (EgressBudgetExceeded size budget)
             else Inr \<lparr>pr_projected = ordered, pr_dropped_fields = sort dropped,
                       pr_projected_bytes = size, pr_digest = digest_json pf (JObj ordered)\<rparr>
         | None \<Rightarrow> Inr \<lparr>pr_projected = ordered, pr_dropped_fields = sort dropped,
                        pr_projected_bytes = size, pr_digest = digest_json pf (JObj ordered)\<rparr>)"

subsection \<open>The enforcement point\<close>

datatype egress_denied =
    NoFieldManifest string string                \<comment> \<open>capability, view\<close>
  | OverBudget nat int

type_synonym manifest_lookup = "string \<Rightarrow> string \<Rightarrow> field_manifest option"

fun egress_reason :: "egress_denied \<Rightarrow> string" where
  "egress_reason (NoFieldManifest c v) = ''no FieldManifest for capability '' @ c @ '' view '' @ v"
| "egress_reason (OverBudget n b) =
     ''projected payload '' @ string_of_int (int n) @ '' > byte_budget '' @ string_of_int b"

definition pep_project :: "platform \<Rightarrow> textlib \<Rightarrow> manifest_lookup \<Rightarrow> string \<Rightarrow> string \<Rightarrow>
    (string, json) dict \<Rightarrow> egress_denied + (string, json) dict \<times> field_manifest" where
  "pep_project pf tx lookup cap view payload =
     (case lookup cap view of
        None \<Rightarrow> Inl (NoFieldManifest cap view)
      | Some m \<Rightarrow>
        case project_fields pf tx m payload of
          Inl (EgressBudgetExceeded n b) \<Rightarrow> Inl (OverBudget n b)
        | Inr r \<Rightarrow> Inr (pr_projected r, m))"

definition egress_audit_payload :: "platform \<Rightarrow> string \<Rightarrow> string \<Rightarrow> (string, json) dict \<Rightarrow>
    field_manifest \<Rightarrow> string list \<Rightarrow> nat \<Rightarrow> (string, json) dict" where
  "egress_audit_payload pf cap view projected m dropped bytes =
     [(''node_id'', JStr cap), (''capability_id'', JStr cap), (''view_name'', JStr view),
      (''manifest_id'', JStr (fm_manifest_id m)),
      (''projected_digest'', JStr (digest_json pf (JObj projected))),
      (''projected_bytes'', JInt (int bytes)), (''dropped_fields'', str_list dropped)]"

subsection \<open>The default field manifests\<close>

definition field_manifest_of :: "string \<Rightarrow> string \<Rightarrow> string \<Rightarrow> string list \<Rightarrow> int \<Rightarrow> field_manifest" where
  "field_manifest_of new_id name source allowed budget =
     \<lparr>fm_manifest_id = ''fldman:'' @ take 8 new_id, fm_name = name, fm_version = ''0.1.0'',
      fm_source_view = source, fm_allowed_fields = allowed, fm_redaction_rules = [],
      fm_byte_budget = Some budget\<rparr>"

definition default_field_manifests :: "string \<Rightarrow> string \<Rightarrow> string \<Rightarrow>
    (string \<times> string, field_manifest) dict" where
  "default_field_manifests i j k =
     [((''public.openai-compat'', ''public-research''),
       field_manifest_of i ''public-research'' ''view:public-research'' [''facts'', ''query''] (8 * 1024)),
      ((''public.openai-compat'', ''public-research-raw''),
       field_manifest_of j ''public-research-raw'' ''view:public-research'' [''topic'', ''jurisdiction''] 128),
      ((''a2a.reference-agent'', ''a2a-reference''),
       field_manifest_of k ''a2a-reference'' ''view:a2a-reference'' [''facts'', ''query''] (8 * 1024))]"

definition egress_manifest_lookup :: "string \<Rightarrow> string \<Rightarrow> string \<Rightarrow>
    (string \<times> string, field_manifest) dict \<Rightarrow> manifest_lookup" where
  "egress_manifest_lookup i j k overrides = (\<lambda>cap view.
     dget (dmerge (default_field_manifests i j k) overrides) (cap, view))"

subsection \<open>Properties\<close>

lemma keys_projected_fields:
  "set (keys (projected_fields pf tx m p)) = set (keys p) \<inter> set (fm_allowed_fields m)"
  by (force simp: projected_fields_def)

lemma distinct_keys_sort [simp]: "dict_wf (sort_key fst d) = dict_wf d"
  by (simp add: distinct_map)

lemma set_projected_fields:
  "(k, w) \<in> set (projected_fields pf tx m p) \<longleftrightarrow>
     k \<in> set (fm_allowed_fields m) \<and> (\<exists>v. (k, v) \<in> set p \<and> w = apply_redactions pf tx m k v)"
  by (auto simp: projected_fields_def)

lemma distinct_projected_fields: "dict_wf p \<Longrightarrow> dict_wf (projected_fields pf tx m p)"
  unfolding projected_fields_def distinct_keys_sort
  by (simp add: case_prod_unfold comp_def distinct_map_filter)

lemma dget_projected_fields:
  assumes "dict_wf p"
  shows "dget (projected_fields pf tx m p) k =
    (if k \<in> set (fm_allowed_fields m) then map_option (apply_redactions pf tx m k) (dget p k) else None)"
proof (cases "k \<in> set (fm_allowed_fields m) \<and> k \<in> set (keys p)")
  case True
  obtain v where v: "dget p k = Some v" using in_keys_dget [OF conjunct2 [OF True]] ..
  then have "(k, v) \<in> set p" using dget_in_set [OF assms, of k v] by simp
  then have "(k, apply_redactions pf tx m k v) \<in> set (projected_fields pf tx m p)"
    using True unfolding set_projected_fields by blast
  then have "dget (projected_fields pf tx m p) k = Some (apply_redactions pf tx m k v)"
    using dget_in_set [OF distinct_projected_fields [OF assms]] by blast
  with True v show ?thesis by simp
next
  case False
  then have "dget (projected_fields pf tx m p) k = None"
    using keys_projected_fields [of pf tx m p] by (simp only: dget_None_iff) blast
  moreover have "k \<in> set (fm_allowed_fields m) \<Longrightarrow> dget p k = None"
    using False dget_None_iff [of p k] by blast
  ultimately show ?thesis by auto
qed

lemma pep_project_sends:
  "pep_project pf tx lookup cap view payload = Inr (sent, m) \<Longrightarrow>
     lookup cap view = Some m \<and> sent = projected_fields pf tx m payload \<and>
     (\<forall>b. fm_byte_budget m = Some b \<longrightarrow> int (length (canonical_json (JObj sent))) \<le> b)"
  by (auto simp: pep_project_def project_fields_def Let_def
      split: option.splits sum.splits projection_error.splits if_splits)

text \<open>
  What leaves through the egress point: only fields its manifest allows, each with the
  manifest's redaction of the field's own value, within the byte budget.
\<close>

theorem egress_sends_allowed_fields_only:
  assumes "pep_project pf tx lookup cap view payload = Inr (sent, m)" "dict_wf payload"
  shows "lookup cap view = Some m \<and>
    set (keys sent) = set (keys payload) \<inter> set (fm_allowed_fields m) \<and>
    (\<forall>k \<in> set (keys sent). dget sent k = map_option (apply_redactions pf tx m k) (dget payload k)) \<and>
    (\<forall>b. fm_byte_budget m = Some b \<longrightarrow> int (length (canonical_json (JObj sent))) \<le> b)"
  using pep_project_sends [OF assms(1)] keys_projected_fields [of pf tx m payload]
    dget_projected_fields [OF assms(2), of pf tx m]
  by auto

text \<open>
  C5. Zero egress of everything else: two payloads whose allowed fields redact to the same values
  are indistinguishable to the receiver. The decision and the payload sent are the same, so
  nothing about any other field, or about what a redaction hides, can be learned from the call.
\<close>

theorem egress_noninterference:
  assumes "dict_wf p" "dict_wf q"
    and "\<And>m k. lookup cap view = Some m \<Longrightarrow> k \<in> set (fm_allowed_fields m) \<Longrightarrow>
      map_option (apply_redactions pf tx m k) (dget p k) = map_option (apply_redactions pf tx m k) (dget q k)"
  shows "pep_project pf tx lookup cap view p = pep_project pf tx lookup cap view q"
proof (cases "lookup cap view")
  case None
  then show ?thesis by (simp add: pep_project_def)
next
  case (Some m)
  have same: "dget (projected_fields pf tx m p) k = dget (projected_fields pf tx m q) k" for k
    using assms(3) [OF Some, of k] by (simp add: dget_projected_fields assms)
  then have "set (projected_fields pf tx m p) = set (projected_fields pf tx m q)"
    using dget_in_set [OF distinct_projected_fields [OF assms(1)]]
      dget_in_set [OF distinct_projected_fields [OF assms(2)]] by auto
  then have "sort_key fst (projected_fields pf tx m p) = sort_key fst (projected_fields pf tx m q)"
    by (intro sort_key_cong distinct_projected_fields assms)
  then have "projected_fields pf tx m p = projected_fields pf tx m q"
    by (simp add: projected_fields_def sort_key_id_if_sorted)
  then show ?thesis using Some
    by (simp add: pep_project_def project_fields_def Let_def split: option.splits)
qed

subsection \<open>Witnesses\<close>

definition ex_textlib :: textlib where
  "ex_textlib = \<lparr>py_int = (\<lambda>_. None), py_float = (\<lambda>_. None), py_isdigit = (\<lambda>_. False), py_str = (\<lambda>_. [])\<rparr>"

definition ex_lookup :: manifest_lookup where
  "ex_lookup = (\<lambda>cap view. Some \<lparr>fm_manifest_id = ''fldman:1'', fm_name = ''v'', fm_version = ''0.1.0'',
     fm_source_view = ''view:v'', fm_allowed_fields = [''facts''], fm_redaction_rules = [],
     fm_byte_budget = None\<rparr>)"

theorem egress_sends_allowed_fields_only_witness:
  "\<exists>sent m. pep_project ex_platform ex_textlib ex_lookup ''cap'' ''v'' [(''facts'', JInt 1), (''raw'', JInt 2)] =
     Inr (sent, m) \<and> set (keys sent) = {''facts''}"
proof -
  let ?p = "[(''facts'', JInt 1), (''raw'', JInt 2)]"
  obtain sent m where r: "pep_project ex_platform ex_textlib ex_lookup ''cap'' ''v'' ?p = Inr (sent, m)"
    by (simp add: pep_project_def ex_lookup_def project_fields_def Let_def)
  have wf: "dict_wf ?p" by simp
  note all = egress_sends_allowed_fields_only [OF r wf]
  have "fm_allowed_fields m = [''facts'']" using conjunct1 [OF all] by (auto simp: ex_lookup_def)
  moreover have "set (keys sent) = set (keys ?p) \<inter> set (fm_allowed_fields m)"
    by (rule conjunct1 [OF conjunct2 [OF all]])
  ultimately show ?thesis using r by auto
qed

theorem egress_noninterference_witness:
  "pep_project ex_platform ex_textlib ex_lookup ''cap'' ''v'' [(''facts'', JInt 1), (''raw'', JInt 2)] =
   pep_project ex_platform ex_textlib ex_lookup ''cap'' ''v'' [(''raw'', JInt 3), (''facts'', JInt 1)]"
  by (rule egress_noninterference) (auto simp: ex_lookup_def)

end
