(* ===== verification/Effects.thy ===== *)
theory Effects
  imports Prelude
begin

section \<open>Programs with state and exceptions\<close>

text \<open>
  The shape of a method that changes state and may raise: a function from a state to an exception
  or a value and the state it leaves. What was done before an exception stays done.
\<close>

subsection \<open>Actions\<close>

type_synonym ('w, 'e, 'a) action = "'w \<Rightarrow> ('e + 'a) \<times> 'w"

definition ok :: "'a \<Rightarrow> ('w, 'e, 'a) action" where "ok x = (\<lambda>w. (Inr x, w))"
definition raise :: "'e \<Rightarrow> ('w, 'e, 'a) action" where "raise e = (\<lambda>w. (Inl e, w))"

definition bindE :: "('w, 'e, 'a) action \<Rightarrow> ('a \<Rightarrow> ('w, 'e, 'b) action) \<Rightarrow> ('w, 'e, 'b) action" where
  "bindE m f = (\<lambda>w. case m w of (Inl e, w') \<Rightarrow> (Inl e, w') | (Inr x, w') \<Rightarrow> f x w')"

definition seqE :: "('w, 'e, unit) action \<Rightarrow> ('w, 'e, 'b) action \<Rightarrow> ('w, 'e, 'b) action" where
  "seqE m n = bindE m (\<lambda>_. n)"

definition lift :: "'e + 'a \<Rightarrow> ('w, 'e, 'a) action" where "lift r = (\<lambda>w. (r, w))"
definition gets :: "('w \<Rightarrow> 'a) \<Rightarrow> ('w, 'e, 'a) action" where "gets f = (\<lambda>w. (Inr (f w), w))"
definition modify :: "('w \<Rightarrow> 'w) \<Rightarrow> ('w, 'e, unit) action" where "modify f = (\<lambda>w. (Inr (), f w))"

text \<open>\<open>try: m except Exception: pass\<close>\<close>

definition best_effort :: "('w, 'e, unit) action \<Rightarrow> ('w, 'e, unit) action" where
  "best_effort m = (\<lambda>w. (Inr (), snd (m w)))"

text \<open>An exception turned into another on its way out.\<close>

definition map_exn :: "('e \<Rightarrow> 'f) \<Rightarrow> ('w, 'e, 'a) action \<Rightarrow> ('w, 'f, 'a) action" where
  "map_exn f m = (\<lambda>w. case m w of (Inl e, w') \<Rightarrow> (Inl (f e), w') | (Inr x, w') \<Rightarrow> (Inr x, w'))"

text \<open>Errors as values, without state.\<close>

definition bindS :: "'e + 'a \<Rightarrow> ('a \<Rightarrow> 'e + 'b) \<Rightarrow> 'e + 'b" where
  "bindS r f = (case r of Inl e \<Rightarrow> Inl e | Inr x \<Rightarrow> f x)"

lemma map_sum_Inr: "map_sum f id r = Inr x \<longleftrightarrow> r = Inr x"
  by (cases r) auto

lemma seqE_Inr: "seqE m n w = (Inr x, w') \<Longrightarrow> \<exists>v. m w = (Inr (), v) \<and> n v = (Inr x, w')"
  by (auto simp: seqE_def bindE_def split: prod.splits sum.splits)

lemma bindE_Inr: "bindE m f w = (Inr x, w') \<Longrightarrow> \<exists>y v. m w = (Inr y, v) \<and> f y v = (Inr x, w')"
  by (auto simp: bindE_def split: prod.splits sum.splits)

subsection \<open>What actions leave alone\<close>

text \<open>
  \<open>keeps R m\<close>: whatever \<open>m\<close> does, and whether it raises or not, the state it leaves is related by
  \<open>R\<close> to the one it began in. \<open>returns m x\<close>: some execution of \<open>m\<close> returns \<open>x\<close>.
\<close>

definition keeps :: "('w \<Rightarrow> 'w \<Rightarrow> bool) \<Rightarrow> ('w, 'e, 'a) action \<Rightarrow> bool" where
  "keeps R m \<longleftrightarrow> (\<forall>w. R w (snd (m w)))"

definition returns :: "('w, 'e, 'a) action \<Rightarrow> 'a \<Rightarrow> bool" where
  "returns m x \<longleftrightarrow> (\<exists>w w'. m w = (Inr x, w'))"

lemma keepsD: "keeps R m \<Longrightarrow> m w = (r, w') \<Longrightarrow> R w w'"
  unfolding keeps_def by (metis snd_conv)

lemma returns_simps [simp]:
  "returns (ok x) y \<longleftrightarrow> y = x" "\<not> returns (raise e) y" "returns (lift r) y \<longleftrightarrow> r = Inr y"
  by (auto simp: returns_def ok_def raise_def lift_def)

lemma returns_bindE: "returns (bindE m f) y \<Longrightarrow> \<exists>x. returns m x \<and> returns (f x) y"
  unfolding returns_def using bindE_Inr by metis

lemma returns_seqE: "returns (seqE m n) y \<Longrightarrow> returns n y"
  using returns_bindE [of m "\<lambda>_. n" y] by (auto simp: seqE_def)

text \<open>\<open>yields P m\<close>: what \<open>m\<close> returns, if it returns, satisfies \<open>P\<close>.\<close>

definition yields :: "('a \<Rightarrow> bool) \<Rightarrow> ('w, 'e, 'a) action \<Rightarrow> bool" where
  "yields P m \<longleftrightarrow> (\<forall>x. returns m x \<longrightarrow> P x)"

lemma yields_bind: "(\<And>x. returns m x \<Longrightarrow> yields P (f x)) \<Longrightarrow> yields P (bindE m f)"
  unfolding yields_def using returns_bindE by metis

lemma yields_seq: "yields P n \<Longrightarrow> yields P (seqE m n)"
  unfolding yields_def using returns_seqE by metis

lemma yields_ok: "P x \<Longrightarrow> yields P (ok x)"
  by (simp add: yields_def)

text \<open>A preorder on states.\<close>

locale world_order =
  fixes R :: "'w \<Rightarrow> 'w \<Rightarrow> bool"
  assumes refl: "R w w" and trans: "R u v \<Longrightarrow> R v w \<Longrightarrow> R u w"
begin

lemma pure: "keeps R (ok x)" "keeps R (raise e)" "keeps R (lift r)" "keeps R (gets f)"
  by (simp_all add: keeps_def ok_def raise_def lift_def gets_def refl)

lemma bind:
  assumes m: "keeps R m" and f: "\<And>x. returns m x \<Longrightarrow> keeps R (f x)"
  shows "keeps R (bindE m f)"
  unfolding keeps_def
proof
  fix w
  obtain r v where mw: "m w = (r, v)" by force
  with m have first: "R w v" by (rule keepsD)
  show "R w (snd (bindE m f w))"
  proof (cases r)
    case (Inl e)
    with mw first show ?thesis by (simp add: bindE_def)
  next
    case (Inr x)
    with mw have "returns m x" unfolding returns_def by blast
    with f have "R v (snd (f x v))" unfolding keeps_def by blast
    with first mw Inr show ?thesis by (auto simp: bindE_def intro: trans)
  qed
qed

lemma seq: "keeps R m \<Longrightarrow> keeps R n \<Longrightarrow> keeps R (seqE m n)"
  unfolding seqE_def by (rule bind)

lemma modify: "(\<And>w. R w (f w)) \<Longrightarrow> keeps R (modify f)"
  by (simp add: keeps_def modify_def)

lemma best_effort: "keeps R m \<Longrightarrow> keeps R (best_effort m)"
  by (simp add: keeps_def best_effort_def)

end

end
