(* ===== verification/Template.thy ===== *)
theory Template
  imports Signing
begin

section \<open>The contract-review template and its plan\<close>

text \<open>
  \<open>orchestra/templates/contract_review.py\<close>: the fixed task template of the program (six nodes, one
  approval point) and the construction of its execution plan. Fields the source leaves to their
  schema defaults are written out.
\<close>

subsection \<open>Purpose and views\<close>

definition default_purpose :: purpose where
  "default_purpose = \<lparr>code = ''contract-review'',
     purpose_description = ''Review a supplier contract and decide on the procurement write.''\<rparr>"

definition fields_view :: "string \<Rightarrow> string list \<Rightarrow> string \<Rightarrow> data_view" where
  "fields_view name fs source =
     \<lparr>dv_name = name, dv_shape = ShapeFields, dv_fields = fs, dv_source = Some source\<rparr>"

definition full_contract_view :: data_view where
  "full_contract_view = fields_view ''contract.full''
     [''vendor_name'', ''buyer_name'', ''contract_amount'', ''payment_terms'', ''effective_date'',
      ''expiration_date'', ''termination_clause'', ''jurisdiction''] ''tenant.contract-repo''"

definition fact_set_view :: data_view where
  "fact_set_view = fields_view ''facts.internal''
     [''vendor_name'', ''buyer_name'', ''contract_amount'', ''payment_terms'', ''effective_date'',
      ''expiration_date'', ''jurisdiction''] ''local.contract-extractor''"

definition public_query_view :: data_view where
  "public_query_view = fields_view ''public.query'' [''vendor_id'', ''vendor_name'', ''jurisdiction'']
     ''facts.internal''"

definition industry_view :: data_view where
  "industry_view = fields_view ''a2a.industry'' [''query''] ''facts.internal''"

definition review_view :: data_view where
  "review_view = fields_view ''review.summary''
     [''vendor_id'', ''vendor_name'', ''public_summary'', ''industry_context'', ''risk_flags''] ''merged''"

subsection \<open>Nodes and edges\<close>

definition review_node :: "string \<Rightarrow> string \<Rightarrow> data_view \<Rightarrow> capability_kind list \<Rightarrow> effect \<Rightarrow> bool \<Rightarrow>
    string \<Rightarrow> int \<Rightarrow> node_spec" where
  "review_node nid name view kinds eff approval fallback timeout =
     \<lparr>ns_node_id = nid, ns_name = name, ns_requires_purpose = default_purpose,
      ns_requires_views = [view], ns_eligible_capability_kinds = kinds, ns_declared_effects = [eff],
      ns_requires_approval = approval, ns_fallback_capability_id = Some fallback,
      ns_timeout_ms = timeout\<rparr>"

definition review_nodes :: "node_spec list" where
  "review_nodes =
     [review_node ''ingest_contract'' ''Ingest contract (from caller)'' full_contract_view [CK_TOOL]
        read_effect False ''local.contract-extractor'' 5000,
      review_node ''extract_facts_local'' ''Local contract fact extraction'' full_contract_view
        [CK_LOCAL_MODEL] read_effect False ''local.contract-extractor'' 5000,
      review_node ''public_research'' ''Public research on vendor'' public_query_view
        [CK_PUBLIC_MODEL, CK_A2A_AGENT] read_effect False ''a2a.reference-agent'' 10000,
      review_node ''merge'' ''Local deterministic merge'' review_view [CK_LOCAL_MODEL]
        read_effect False ''local.contract-extractor'' 5000,
      review_node ''human_approval'' ''Human approval (one approval point)'' review_view [CK_HUMAN]
        read_effect True ''human'' 86400000,
      review_node ''write_sink'' ''Write to Mock Procurement Sink'' review_view [CK_SINK]
        \<lparr>eff_kind = EK_WRITE, eff_target = Some ''mock-procurement''\<rparr> False ''sink.mock-procurement'' 5000]"

definition review_edge :: "string \<Rightarrow> string \<Rightarrow> string \<Rightarrow> edge_spec" where
  "review_edge u v w = \<lparr>es_from_node = u, es_to_node = v, es_when = w\<rparr>"

definition review_edges :: "edge_spec list" where
  "review_edges =
     [review_edge ''ingest_contract'' ''extract_facts_local'' ''always'',
      review_edge ''extract_facts_local'' ''public_research'' ''always'',
      review_edge ''extract_facts_local'' ''merge'' ''always'',
      review_edge ''public_research'' ''merge'' ''always'',
      review_edge ''merge'' ''human_approval'' ''always'',
      review_edge ''human_approval'' ''write_sink'' ''approved'']"

definition contract_review_template :: task_template where
  "contract_review_template = \<lparr>tt_template_id = ''contract-review'',
     tt_name = ''Contract Review (P0 fixed scenario)'',
     tt_description = ''Review a supplier contract using a Local Model, a public OpenAI-compatible '' @
       ''model, an in-repo A2A Reference Agent, a human approval, and a Mock '' @
       ''Procurement Sink. Topology is sequential with one fan-out and one '' @
       ''approval point, per the P0 Gate.'',
     tt_version = ''0.1.0'', tt_nodes = review_nodes, tt_edges = review_edges,
     tt_required_purposes = [default_purpose], tt_max_runtime_ms = 120000\<rparr>"

subsection \<open>Plan construction\<close>

definition build_plan_node :: "task_template \<Rightarrow> string \<Rightarrow> string \<Rightarrow> string \<Rightarrow> key_error + plan_node" where
  "build_plan_node t nid cap mid =
     (case template_node t nid of Inl e \<Rightarrow> Inl e
      | Inr spec \<Rightarrow> Inr \<lparr>pn_node_id = nid, pn_capability_id = cap, pn_manifest_id = mid,
          pn_purpose = ns_requires_purpose spec, pn_input_views = ns_requires_views spec,
          pn_expected_outputs = map dv_name (ns_requires_views spec), pn_timeout_ms = ns_timeout_ms spec,
          pn_fallback_capability_id = ns_fallback_capability_id spec,
          pn_requires_approval = ns_requires_approval spec, pn_status = ''pending''\<rparr>)"

definition review_order :: "string list" where
  "review_order = [''ingest_contract'', ''extract_facts_local'', ''public_research'', ''merge'',
     ''human_approval'', ''write_sink'']"

fun build_plan_nodes :: "(string, string) dict \<Rightarrow> (string, string) dict \<Rightarrow> string list \<Rightarrow>
    key_error + plan_node list" where
  "build_plan_nodes caps mids [] = Inr []"
| "build_plan_nodes caps mids (nid # nids) =
     (case dget caps nid of None \<Rightarrow> Inl (KeyError nid) | Some cap \<Rightarrow>
      case dget mids nid of None \<Rightarrow> Inl (KeyError nid) | Some mid \<Rightarrow>
      case build_plan_node contract_review_template nid cap mid of Inl e \<Rightarrow> Inl e | Inr n \<Rightarrow>
      case build_plan_nodes caps mids nids of Inl e \<Rightarrow> Inl e | Inr ns \<Rightarrow> Inr (n # ns))"

definition build_contract_review_plan :: "string \<Rightarrow> int \<Rightarrow> string \<Rightarrow> routing_decision list \<Rightarrow>
    (string, string) dict \<Rightarrow> (string, string) dict \<Rightarrow> key_error + execution_plan" where
  "build_contract_review_plan new_id now contract_id routing caps mids =
     (case build_plan_nodes caps mids review_order of Inl e \<Rightarrow> Inl e
      | Inr ns \<Rightarrow> Inr \<lparr>ep_plan_id = new_id, ep_contract_id = contract_id,
          ep_template_id = tt_template_id contract_review_template,
          ep_template_version = tt_version contract_review_template, ep_nodes = ns,
          ep_edges = review_edges, ep_routing = routing, ep_created_at = now,
          ep_signed_by = ''p0-local-signer'', ep_signature = None\<rparr>)"

subsection \<open>Facts\<close>

lemmas review_defs = contract_review_template_def review_nodes_def review_edges_def review_node_def
  review_edge_def

lemma template_node_review:
  "nid \<in> set review_order \<Longrightarrow> \<exists>spec. template_node contract_review_template nid = Inr spec \<and>
     ns_node_id spec = nid"
  by (auto simp: review_order_def template_node_def review_defs)

lemma review_order_nodes: "map ns_node_id review_nodes = review_order"
  by (simp add: review_defs review_order_def)

lemma build_plan_nodes_total:
  assumes "set nids \<subseteq> set review_order" "set nids \<subseteq> set (keys caps)" "set nids \<subseteq> set (keys mids)"
  shows "\<exists>ns. build_plan_nodes caps mids nids = Inr ns \<and> map pn_node_id ns = nids \<and>
    (\<forall>n \<in> set ns. dget caps (pn_node_id n) = Some (pn_capability_id n) \<and>
       dget mids (pn_node_id n) = Some (pn_manifest_id n))"
  using assms
proof (induction nids)
  case Nil
  then show ?case by simp
next
  case (Cons nid nids)
  obtain ns where ns: "build_plan_nodes caps mids nids = Inr ns" "map pn_node_id ns = nids"
    "\<forall>n \<in> set ns. dget caps (pn_node_id n) = Some (pn_capability_id n) \<and>
       dget mids (pn_node_id n) = Some (pn_manifest_id n)"
    using Cons by auto
  have here: "nid \<in> set (keys caps)" "nid \<in> set (keys mids)" "nid \<in> set review_order"
    using Cons.prems by auto
  obtain cap where cap: "dget caps nid = Some cap" using in_keys_dget [OF here(1)] ..
  obtain mid where mid: "dget mids nid = Some mid" using in_keys_dget [OF here(2)] ..
  obtain spec where "template_node contract_review_template nid = Inr spec"
    using template_node_review [OF here(3)] by blast
  then have "\<exists>n. build_plan_node contract_review_template nid cap mid = Inr n \<and> pn_node_id n = nid \<and>
      pn_capability_id n = cap \<and> pn_manifest_id n = mid"
    by (simp add: build_plan_node_def)
  with ns cap mid show ?case by fastforce
qed

definition review_candidate_edges :: "candidate_edge list" where
  "review_candidate_edges = map (\<lambda>e. \<lparr>ce_from_node = es_from_node e, ce_to_node = es_to_node e,
     ce_when = es_when e\<rparr>) review_edges"

lemma review_kahn: "kahn review_order review_candidate_edges = Some review_order"
  by code_simp

lemma review_checks:
  "check_purposes [default_purpose] review_nodes = None"
  "check_endpoints (ns_node_id ` set review_nodes) review_candidate_edges = None"
  "keys (candidate_nodes review_nodes) = review_order"
  by code_simp+

definition review_graph :: "task_contract \<Rightarrow> candidate_graph" where
  "review_graph c = \<lparr>cg_template_id = ''contract-review'', cg_template_version = ''0.1.0'',
     cg_nodes = candidate_nodes review_nodes, cg_edges = review_candidate_edges,
     cg_inputs = tc_inputs c, cg_purpose = code (tc_purpose c)\<rparr>"

lemma parse_review: "parse contract_review_template c = Inr (review_graph c)"
  using review_checks review_kahn
  by (simp add: parse_def contract_review_template_def review_graph_def topological_order_def
      Let_def flip: review_candidate_edges_def)

end
