(* ===== verification/Coordinator.thy ===== *)
theory Coordinator
  imports Effects Template Egress EventStore Streaming
begin

section \<open>The coordinator: state, effects and one node\<close>

text \<open>
  The per-node part of \<open>orchestra/coordinator/engine.py\<close>: what a \<open>Coordinator\<close> is built from
  (\<open>env\<close>), the state its methods change (\<open>world\<close>: the tables, the event bus, the calls made to
  adapters, the results of the nodes, the approval events), the emission of events, the
  deterministic merge and \<open>_exec_node\<close>. \<open>run\<close> and the approval handling are in \<open>Engine\<close>.

  A method is a function from a world to an exception or a value and the world it leaves: what was
  committed before an exception stays. Fresh ids, clock readings and latencies are the values of
  arbitrary functions at counters of the world. An adapter is an arbitrary function of the calls
  made so far and its request; the text and the type name Python prints for an exception are
  functions of the exception.
\<close>

subsection \<open>State\<close>

datatype exn =
    ContractViolationExn string
  | OrchestraExn string
  | NoAdapterExn string
  | NoPendingExn string string        \<comment> \<open>task run, node\<close>
  | ValidationExn string
  | EgressExn egress_denied
  | ProjectionExn projection_error
  | DbExn db_error
  | KeyExn string
  | IndexExn nat
  | RegistryExn registry_error
  | SignExn sign_error
  | AttributeExn json string         \<comment> \<open>value, attribute\<close>
  | TypeExn json
  | AdapterExn string string         \<comment> \<open>type, text\<close>

record adapter_request =
  rq_grant :: node_grant
  rq_inputs :: "(string, json) dict"
  rq_data_view :: data_view
  rq_purpose :: purpose
  rq_timeout_ms :: int
  rq_metadata :: "(string, json) dict"

record adapter_result =
  ar_outputs :: "(string, json) dict"
  ar_metadata :: "(string, json) dict"

type_synonym call = "string \<times> adapter_request"
type_synonym adapter = "call list \<Rightarrow> adapter_request \<Rightarrow> exn + adapter_result"
type_synonym payload = "(string, json) dict"

text \<open>An entry of \<open>_approval_events\<close>: the \<open>asyncio.Event\<close> and the request payload.\<close>

record bucket =
  bk_set :: bool
  bk_requested_at :: int
  bk_payload :: payload

record world =
  w_db :: db
  w_bus :: "payload bus option"
  w_calls :: "call list"
  w_ids :: nat
  w_reads :: nat
  w_results :: "(string, payload) dict"
  w_initial :: "payload option"
  w_approvals :: "(string \<times> string, bucket) dict"

record env =
  en_pf :: platform
  en_tx :: textlib
  en_uuid :: "nat \<Rightarrow> string"
  en_clock :: "nat \<Rightarrow> int"
  en_latency :: "nat \<Rightarrow> int"
  en_exn_text :: "exn \<Rightarrow> string"
  en_exn_type :: "exn \<Rightarrow> string"
  en_time_text :: "int \<Rightarrow> string"
  en_store :: manifests
  en_pdp :: "policy_ctx \<Rightarrow> policy_decision"
  en_adapters :: "(string, adapter) dict"
  en_issuer :: issuer
  en_receipt_key :: string
  en_receipt_kid :: string
  en_pep :: "manifest_lookup option"
  en_tenant :: "string option"
  en_service :: bool

subsection \<open>Programs\<close>

type_synonym 'a prog = "(world, exn, 'a) action"

definition modify_db :: "(db \<Rightarrow> db) \<Rightarrow> unit prog" where
  "modify_db f = modify (\<lambda>w. w\<lparr>w_db := f (w_db w)\<rparr>)"

definition try_db :: "(db \<Rightarrow> db_error + db) \<Rightarrow> unit prog" where
  "try_db f = (\<lambda>w. case f (w_db w) of Inl e \<Rightarrow> (Inl (DbExn e), w) | Inr d \<Rightarrow> (Inr (), w\<lparr>w_db := d\<rparr>))"

definition new_uuid :: "env \<Rightarrow> string prog" where
  "new_uuid env = (\<lambda>w. (Inr (en_uuid env (w_ids w)), w\<lparr>w_ids := Suc (w_ids w)\<rparr>))"

definition now :: "env \<Rightarrow> int prog" where
  "now env = (\<lambda>w. (Inr (en_clock env (w_reads w)), w\<lparr>w_reads := Suc (w_reads w)\<rparr>))"

subsection \<open>Events\<close>

fun event_kind_value :: "event_kind \<Rightarrow> string" where
  "event_kind_value TASK_RECEIVED = ''task.received''"
| "event_kind_value PLAN_CREATED = ''plan.created''"
| "event_kind_value PLAN_SIGNED = ''plan.signed''"
| "event_kind_value NODE_STARTED = ''node.started''"
| "event_kind_value NODE_AWAITING_APPROVAL = ''node.awaiting-approval''"
| "event_kind_value NODE_APPROVED = ''node.approved''"
| "event_kind_value NODE_REJECTED = ''node.rejected''"
| "event_kind_value NODE_SUCCEEDED = ''node.succeeded''"
| "event_kind_value NODE_FAILED = ''node.failed''"
| "event_kind_value TASK_COMPLETED = ''task.completed''"
| "event_kind_value TASK_FAILED = ''task.failed''"
| "event_kind_value IO_INTENT = ''io.intent''"
| "event_kind_value IO_SENT = ''io.sent''"
| "event_kind_value IO_RECEIVED = ''io.received''"
| "event_kind_value EXTERNAL_OUTCOME = ''external.outcome''"
| "event_kind_value POLICY_DECISION = ''policy.decision''"
| "event_kind_value ROUTING_DECISION = ''routing.decision''"
| "event_kind_value GRANT_ISSUED = ''grant.issued''"
| "event_kind_value RECEIPT_SIGNED = ''receipt.signed''"
| "event_kind_value FALLBACK_TRIGGERED = ''fallback.triggered''"
| "event_kind_value BREAK_GLASS_REQUESTED = ''break_glass.requested''"
| "event_kind_value BREAK_GLASS_FIRST_APPROVED = ''break_glass.first_approved''"
| "event_kind_value BREAK_GLASS_ACTIVE = ''break_glass.active''"
| "event_kind_value BREAK_GLASS_EXPIRED = ''break_glass.expired''"
| "event_kind_value BREAK_GLASS_REVOKED = ''break_glass.revoked''"
| "event_kind_value HOLD_CREATED = ''hold.created''"
| "event_kind_value HOLD_RELEASED = ''hold.released''"
| "event_kind_value DELETION_REQUESTED = ''deletion.requested''"
| "event_kind_value DELETION_COMPLETED = ''deletion.completed''"
| "event_kind_value DELETION_PARTIAL = ''deletion.partial''"
| "event_kind_value DELETION_BLOCKED = ''deletion.blocked''"
| "event_kind_value DELETION_FAILED = ''deletion.failed''"

definition audit_event :: "string \<Rightarrow> int \<Rightarrow> string option \<Rightarrow> string option \<Rightarrow> event_kind \<Rightarrow> string \<Rightarrow>
    payload \<Rightarrow> event_row" where
  "audit_event i t tid nrid kind actor pl = \<lparr>ev_id = i, ev_seq = 0, ev_task_run_id = tid,
     ev_node_run_id = nrid, ev_kind = kind, ev_occurred_at = t, ev_actor = actor,
     ev_payload = pl, ev_prev_event_id = None, ev_tenant_id = None\<rparr>"

definition bus_event :: "string \<Rightarrow> string option \<Rightarrow> event_kind \<Rightarrow> payload \<Rightarrow> payload" where
  "bus_event tid nrid kind pl = [(''task_run_id'', JStr tid), (''node_run_id'', opt_str nrid),
     (''kind'', JStr (event_kind_value kind)), (''payload'', JObj pl)]"

definition emit :: "env \<Rightarrow> string \<Rightarrow> string option \<Rightarrow> event_kind \<Rightarrow> payload \<Rightarrow> unit prog" where
  "emit env tid nrid kind pl =
     bindE (new_uuid env) (\<lambda>i. bindE (now env) (\<lambda>t.
     seqE (try_db (append_event (audit_event i t (Some tid) nrid kind ''orchestra'' pl)))
       (modify (\<lambda>w. w\<lparr>w_bus := map_option (publish tid (bus_event tid nrid kind pl)) (w_bus w)\<rparr>))))"

definition close_bus :: "string \<Rightarrow> unit prog" where
  "close_bus tid = modify (\<lambda>w. w\<lparr>w_bus := map_option (close_task tid) (w_bus w)\<rparr>)"

subsection \<open>The deterministic merge\<close>

text \<open>\<open>d.get(k, v)\<close> of a value that must be a dictionary, and \<open>{...}\<close> of a value in an f-string.\<close>

definition py_get :: "json \<Rightarrow> string \<Rightarrow> json \<Rightarrow> exn + json" where
  "py_get j k v = (case j of
     JObj kvs \<Rightarrow> Inr (dget_default kvs k v) | _ \<Rightarrow> Inl (AttributeExn j ''get''))"

definition py_or :: "json \<Rightarrow> json \<Rightarrow> json" where "py_or a b = (if truthy a then a else b)"

definition text_of :: "textlib \<Rightarrow> json \<Rightarrow> string" where
  "text_of tx v = (case v of JStr s \<Rightarrow> s | _ \<Rightarrow> py_str tx v)"

text \<open>What iterating over a value yields.\<close>

fun iterate :: "json \<Rightarrow> exn + json list" where
  "iterate (JStr s) = Inr (map JStr (utf8_chars s))"
| "iterate (JList xs) = Inr xs"
| "iterate (JObj kvs) = Inr (map JStr (keys kvs))"
| "iterate v = Inl (TypeExn v)"

fun amount_digits :: "textlib \<Rightarrow> json list \<Rightarrow> exn + string" where
  "amount_digits tx [] = Inr []"
| "amount_digits tx (JStr c # cs) = bindS (amount_digits tx cs)
     (\<lambda>ds. Inr (if py_isdigit tx c \<or> c = ''.'' then c @ ds else ds))"
| "amount_digits tx (v # cs) = Inl (AttributeExn v ''isdigit'')"

fun contains :: "string \<Rightarrow> string \<Rightarrow> bool" where
  "contains sub [] \<longleftrightarrow> sub = []"
| "contains sub (c # cs) \<longleftrightarrow> take (length sub) (c # cs) = sub \<or> contains sub cs"

text \<open>\<open>x in v\<close>: a substring, an element, a key.\<close>

fun py_in :: "string \<Rightarrow> json \<Rightarrow> bool" where
  "py_in x (JStr s) \<longleftrightarrow> contains x s"
| "py_in x (JList vs) \<longleftrightarrow> JStr x \<in> set vs"
| "py_in x (JObj kvs) \<longleftrightarrow> x \<in> set (keys kvs)"
| "py_in x _ \<longleftrightarrow> False"

text \<open>
  \<open>str.lower()\<close> as far as the search for a word in plain letters sees it: no character outside
  ASCII lowers to one of the letters of \<open>billion\<close>, except a capital dotted I, which lowers to an i
  followed by a combining dot.
\<close>

definition lower_char :: "char \<Rightarrow> char" where
  "lower_char c = (let n = of_char c :: nat in if 65 \<le> n \<and> n \<le> 90 then char_of (n + 32) else c)"

definition wan :: string where   \<comment> \<open>ten thousand\<close>
  "wan = [char_of (228::nat), char_of (184::nat), char_of (135::nat)]"

definition bai_wan :: string where   \<comment> \<open>a million\<close>
  "bai_wan = [char_of (231::nat), char_of (153::nat), char_of (190::nat)] @ wan"

definition amount_flags :: "textlib \<Rightarrow> json \<Rightarrow> exn + string list" where
  "amount_flags tx amount =
     (if \<not> truthy amount then Inr []
      else bindS (iterate amount) (\<lambda>cs. bindS (amount_digits tx cs) (\<lambda>digits.
        let val = (if digits = [] then 0 else case py_float tx digits of None \<Rightarrow> 0 | Some x \<Rightarrow> x)
        in if py_in wan amount \<and> val \<ge> 1000 then Inr [''high-value-contract'']
           else if py_in bai_wan amount then Inr [''very-high-value-contract'']
           else case amount of
             JStr s \<Rightarrow> Inr (if contains ''billion'' (map lower_char s)
                           then [''very-high-value-contract''] else [])
           | _ \<Rightarrow> Inl (AttributeExn amount ''lower''))))"

fun action_flags :: "json list \<Rightarrow> exn + string list" where
  "action_flags [] = Inr []"
| "action_flags (a # as) = bindS (py_get a ''severity'' (JStr ''low'')) (\<lambda>sev.
     bindS (action_flags as) (\<lambda>fs. Inr (
       (if sev \<in> {JStr ''medium'', JStr ''high''}
        then [''regulatory-action-'' @ (case sev of JStr s \<Rightarrow> s | _ \<Rightarrow> [])] else []) @ fs)))"

text \<open>The lift of an A2A artefact to the shape of a public summary.\<close>

definition summary_of_artefact :: "json \<Rightarrow> json \<Rightarrow> exn + json" where
  "summary_of_artefact facts artefact =
     bindS (py_get facts ''vendor_id'' (JStr ''unknown'')) (\<lambda>vid.
     bindS (py_get artefact ''industry'' JNull) (\<lambda>industry.
     bindS (if truthy industry then Inr industry
            else py_get facts ''vendor_name'' (JStr ''unknown'')) (\<lambda>vname.
     bindS (py_get facts ''jurisdiction'' (JStr ''unknown'')) (\<lambda>jur.
     Inr (JObj [(''vendor_id'', vid), (''vendor_name'', vname), (''jurisdiction'', jur),
       (''regulatory_actions'', JList []), (''source'', JStr ''in-repo A2A Reference Agent'')])))))"

definition merged_summary :: "json \<Rightarrow> json \<Rightarrow> exn + json" where
  "merged_summary facts research =
     bindS (py_get research ''public_summary'' (JObj [])) (\<lambda>ps.
     if \<not> truthy ps \<and> jget research ''a2a_artefact'' \<noteq> None
     then bindS (py_get research ''a2a_artefact'' (JObj [])) (summary_of_artefact facts)
     else Inr ps)"

definition merged_industry :: "json \<Rightarrow> exn + json" where
  "merged_industry research =
     bindS (py_get research ''industry_context'' (JObj [])) (\<lambda>ctx.
     if truthy ctx then Inr ctx else py_get research ''a2a_artefact'' (JObj []))"

definition merge_text :: "textlib \<Rightarrow> json \<Rightarrow> json \<Rightarrow> json \<Rightarrow> string list \<Rightarrow> exn + string" where
  "merge_text tx facts ps amount flags =
     bindS (py_get facts ''vendor_name'' (JStr ''?'')) (\<lambda>vname.
     bindS (py_get ps ''jurisdiction'' (JStr ''?'')) (\<lambda>jur.
     Inr (''Vendor '' @ text_of tx vname @ '' in '' @ text_of tx jur @ ''; contract value: '' @
       text_of tx (py_or amount (JStr ''unknown'')) @ ''; risk flags: '' @
       (if flags = [] then ''none'' else intersperse_concat '', '' flags) @ ''.'')))"

definition deterministic_merge :: "textlib \<Rightarrow> payload \<Rightarrow> exn + payload" where
  "deterministic_merge tx inputs =
     (let facts = dget_default inputs ''facts'' (JObj []);
          research = py_or (dget_default inputs ''research'' (JObj [])) (JObj [])
      in bindS (merged_summary facts research) (\<lambda>ps.
         bindS (merged_industry research) (\<lambda>industry.
         bindS (py_get facts ''contract_amount'' (JStr [])) (\<lambda>amount.
         bindS (amount_flags tx amount) (\<lambda>flags1.
         bindS (if is_obj ps
                then bindS (py_get ps ''regulatory_actions'' (JList [])) (\<lambda>acts.
                       bindS (iterate acts) action_flags)
                else Inr []) (\<lambda>flags2.
         bindS (py_get facts ''vendor_id'' (JStr ''unknown'')) (\<lambda>vid.
         bindS (py_get ps ''vendor_name'' (JStr ''unknown'')) (\<lambda>pname.
         bindS (py_get facts ''vendor_name'' pname) (\<lambda>vname.
         bindS (merge_text tx facts ps amount (flags1 @ flags2)) (\<lambda>summary.
         Inr [(''vendor_id'', vid), (''vendor_name'', vname), (''facts'', facts),
              (''public_summary'', ps), (''industry_context'', industry),
              (''risk_flags'', str_list (flags1 @ flags2)), (''summary'', JStr summary)]))))))))))"

subsection \<open>One node\<close>

text \<open>What the steps of a node share: task, node run, plan node, capability, manifest and its id.\<close>

record node_ctx =
  nc_task :: string
  nc_run :: string
  nc_node :: plan_node
  nc_cap :: string
  nc_manifest :: capability_manifest
  nc_mid :: string

definition exn_text :: "env \<Rightarrow> exn \<Rightarrow> string" where
  "exn_text env e = (case e of ContractViolationExn s \<Rightarrow> s | OrchestraExn s \<Rightarrow> s
     | EgressExn d \<Rightarrow> egress_reason d | AdapterExn ty s \<Rightarrow> s | _ \<Rightarrow> en_exn_text env e)"

definition exn_type :: "env \<Rightarrow> exn \<Rightarrow> string" where
  "exn_type env e = (case e of ContractViolationExn s \<Rightarrow> ''ContractViolation''
     | OrchestraExn s \<Rightarrow> ''OrchestraError'' | NoAdapterExn c \<Rightarrow> ''OrchestraError'' | EgressExn d \<Rightarrow> ''EgressDenied''
     | AdapterExn ty s \<Rightarrow> ty | _ \<Rightarrow> en_exn_type env e)"

definition emit_node :: "env \<Rightarrow> node_ctx \<Rightarrow> event_kind \<Rightarrow> payload \<Rightarrow> unit prog" where
  "emit_node env c kind pl = emit env (nc_task c) (Some (nc_run c)) kind
     ((''node_id'', JStr (pn_node_id (nc_node c))) # pl)"

definition set_node :: "env \<Rightarrow> node_ctx \<Rightarrow> node_run_state \<Rightarrow> json option \<Rightarrow> unit prog" where
  "set_node env c state out = bindE (now env) (\<lambda>t.
     modify_db (update_node_state t (nc_run c) state out True True))"

definition start_node :: "env \<Rightarrow> string \<Rightarrow> plan_node \<Rightarrow> string option \<Rightarrow> node_ctx prog" where
  "start_node env tid n force =
     bindE (new_uuid env) (\<lambda>nrid.
     let cap = (case force of Some c \<Rightarrow> if c = [] then pn_capability_id n else c
                | None \<Rightarrow> pn_capability_id n) in
     bindE (lift (map_sum RegistryExn id (store_get (en_store env) cap))) (\<lambda>m.
     let mid = manifest_id (en_pf env) m;
         c = \<lparr>nc_task = tid, nc_run = nrid, nc_node = n, nc_cap = cap, nc_manifest = m, nc_mid = mid\<rparr> in
     seqE (try_db (upsert_node_run nrid tid (pn_node_id n) NR_RUNNING (Some cap) (Some mid)))
     (seqE (emit_node env c NODE_STARTED
        [(''capability_id'', JStr cap), (''manifest_id'', JStr mid)])
     (ok c))))"

definition put_result :: "node_ctx \<Rightarrow> payload \<Rightarrow> unit prog" where
  "put_result c out = modify (\<lambda>w. w\<lparr>w_results := dset (pn_node_id (nc_node c)) out (w_results w)\<rparr>)"

definition is_local :: "plan_node \<Rightarrow> bool" where
  "is_local n \<longleftrightarrow> pn_node_id n \<in> {''merge'', ''ingest_contract''}"

text \<open>\<open>dict(self._initial_inputs or previous_outputs)\<close>, or the merge.\<close>

definition local_payload :: "env \<Rightarrow> plan_node \<Rightarrow> payload \<Rightarrow> world \<Rightarrow> exn + payload" where
  "local_payload env n prev w =
     (if pn_node_id n = ''ingest_contract''
      then Inr (case w_initial w of None \<Rightarrow> prev | Some ini \<Rightarrow> if ini = [] then prev else ini)
      else deterministic_merge (en_tx env) prev)"

definition exec_local :: "env \<Rightarrow> node_ctx \<Rightarrow> payload \<Rightarrow> unit prog" where
  "exec_local env c prev =
     bindE (bindE (gets (local_payload env (nc_node c) prev)) lift) (\<lambda>out.
     seqE (set_node env c NR_SUCCEEDED (Some (JObj out)))
     (seqE (put_result c out)
       (emit_node env c NODE_SUCCEEDED [(''outputs_keys'', str_list (keys out))])))"

definition default_view :: data_view where
  "default_view = \<lparr>dv_name = ''default'', dv_shape = ShapeReference, dv_fields = [], dv_source = None\<rparr>"

definition node_view :: "plan_node \<Rightarrow> data_view" where
  "node_view n = (case pn_input_views n of [] \<Rightarrow> default_view | v # vs \<Rightarrow> v)"

definition grant_request_of :: "node_ctx \<Rightarrow> grant_request" where
  "grant_request_of c = \<lparr>gq_task_run_id = nc_task c, gq_node_run_id = nc_run c,
     gq_task_id = pn_node_id (nc_node c), gq_node_id = pn_node_id (nc_node c),
     gq_capability_id = nc_cap c, gq_manifest_id = nc_mid c, gq_data_view = node_view (nc_node c),
     gq_purpose = pn_purpose (nc_node c)\<rparr>"

definition give_grant :: "env \<Rightarrow> node_ctx \<Rightarrow> node_grant prog" where
  "give_grant env c =
     bindE (now env) (\<lambda>t. bindE (new_uuid env) (\<lambda>gid.
     let g = issue_grant (en_pf env) (en_issuer env) gid t (grant_request_of c) in
     seqE (try_db (save_grant g))
     (seqE (emit env (nc_task c) (Some (nc_run c)) GRANT_ISSUED
        [(''grant_id'', JStr (ng_grant_id g)), (''capability_id'', JStr (nc_cap c)),
         (''data_view'', view_to_json (ng_data_view g)),
         (''expires_at'', JStr (iso_text (en_pf env) (ng_expires_at g)))])
     (ok g))))"

text \<open>
  What the egress point leaves of the inputs. Nothing is projected for a capability without an
  egress view or a coordinator without an enforcement point; a refusal is recorded before the
  exception goes on. The source projects once more for the dropped fields and the size.
\<close>

definition egress_policy :: string where "egress_policy = ''xfr-001.egress-pep''"

definition deny_egress :: "env \<Rightarrow> node_ctx \<Rightarrow> string \<Rightarrow> egress_denied \<Rightarrow> 'a prog" where
  "deny_egress env c view d =
     (let why = exn_text env (EgressExn d) in
      seqE (emit_node env c POLICY_DECISION
        [(''capability_id'', JStr (nc_cap c)), (''view_name'', JStr view), (''decision'', JStr ''deny''),
         (''reason'', JStr why), (''policy'', JStr egress_policy)])
      (seqE (set_node env c NR_FAILED None)
      (seqE (emit_node env c NODE_FAILED
        [(''error'', JStr why), (''error_type'', JStr ''EgressDenied''), (''policy'', JStr egress_policy)])
      (raise (EgressExn d)))))"

definition egress_view :: "env \<Rightarrow> capability_manifest \<Rightarrow> (string \<times> manifest_lookup) option" where
  "egress_view env m = (case (cm_egress_view_name m, en_pep env) of
     (Some view, Some lookup) \<Rightarrow> if view = [] then None else Some (view, lookup) | _ \<Rightarrow> None)"

definition project_inputs :: "env \<Rightarrow> node_ctx \<Rightarrow> payload \<Rightarrow>
    (payload \<times> (string \<times> field_manifest \<times> projection_result) option) prog" where
  "project_inputs env c inputs =
     (case egress_view env (nc_manifest c) of
        None \<Rightarrow> ok (inputs, None)
      | Some (view, lookup) \<Rightarrow>
        case pep_project (en_pf env) (en_tx env) lookup (nc_cap c) view inputs of
          Inl d \<Rightarrow> deny_egress env c view d
        | Inr (projected, m) \<Rightarrow>
          case project_fields (en_pf env) (en_tx env) m inputs of
            Inl e \<Rightarrow> raise (ProjectionExn e)
          | Inr r \<Rightarrow> ok (projected, Some (view, m, r)))"

definition adapter_request_of :: "node_ctx \<Rightarrow> node_grant \<Rightarrow> payload \<Rightarrow> payload option \<Rightarrow> adapter_request" where
  "adapter_request_of c g inputs approval = \<lparr>rq_grant = g, rq_inputs = inputs,
     rq_data_view = node_view (nc_node c), rq_purpose = pn_purpose (nc_node c),
     rq_timeout_ms = pn_timeout_ms (nc_node c),
     rq_metadata = (case approval of None \<Rightarrow> [] | Some p \<Rightarrow>
       if p = [] then [] else [(''decided_by'', dget_default p ''decided_by'' (JStr ''human''))])\<rparr>"

definition invoke_adapter :: "env \<Rightarrow> node_ctx \<Rightarrow> adapter \<Rightarrow> adapter_request \<Rightarrow> adapter_result prog" where
  "invoke_adapter env c adapter rq =
     bindE (gets w_calls) (\<lambda>past.
     seqE (modify (\<lambda>w. w\<lparr>w_calls := past @ [(nc_cap c, rq)]\<rparr>))
     (case adapter past rq of
        Inr res \<Rightarrow> ok res
      | Inl e \<Rightarrow>
        seqE (set_node env c NR_FAILED None)
        (seqE (emit_node env c NODE_FAILED
          [(''error'', JStr (exn_text env e)), (''error_type'', JStr (exn_type env e))])
        (raise e))))"

definition io_sent_payload :: "env \<Rightarrow> node_ctx \<Rightarrow> payload \<Rightarrow>
    (string \<times> field_manifest \<times> projection_result) option \<Rightarrow> int \<Rightarrow> payload" where
  "io_sent_payload env c projected egress lat =
     (case egress of
        Some (view, m, r) \<Rightarrow>
          [(''capability_id'', JStr (nc_cap c)), (''view_name'', JStr view),
           (''manifest_id'', JStr (fm_manifest_id m)),
           (''projected_digest'', JStr (digest_json (en_pf env) (JObj projected))),
           (''projected_bytes'', JInt (int (pr_projected_bytes r))),
           (''dropped_fields'', str_list (pr_dropped_fields r)), (''latency_ms'', JInt lat)]
      | None \<Rightarrow> [(''capability_id'', JStr (nc_cap c)), (''latency_ms'', JInt lat)])"

definition io_events :: "env \<Rightarrow> node_ctx \<Rightarrow> payload \<Rightarrow>
    (string \<times> field_manifest \<times> projection_result) option \<Rightarrow> adapter_result \<Rightarrow> int \<Rightarrow> unit prog" where
  "io_events env c inputs egress res lat =
     seqE (emit_node env c IO_INTENT
       [(''capability_id'', JStr (nc_cap c)), (''data_view'', JStr (dv_name (node_view (nc_node c))))])
     (seqE (emit_node env c IO_SENT (io_sent_payload env c inputs egress lat))
       (emit_node env c IO_RECEIVED
         [(''outputs_keys'', str_list (keys (ar_outputs res))), (''latency_ms'', JInt lat)]))"

text \<open>\<open>self._store.get_task_run(task_run_id).get('plan_id', '') or ''\<close>\<close>

definition task_plan_id :: "string \<Rightarrow> world \<Rightarrow> exn + string" where
  "task_plan_id tid w = (case get_task_run (w_db w) tid of
     None \<Rightarrow> Inl (AttributeExn JNull ''get'')
   | Some r \<Rightarrow> Inr (case tr_plan_id r of None \<Rightarrow> [] | Some p \<Rightarrow> p))"

definition receipt_for :: "env \<Rightarrow> node_ctx \<Rightarrow> string \<Rightarrow> payload \<Rightarrow> payload \<Rightarrow> int \<Rightarrow> int \<Rightarrow> string \<Rightarrow> int \<Rightarrow>
    signed_receipt" where
  "receipt_for env c plan inputs outputs started ended rid t =
     build_receipt (en_pf env) (en_receipt_key env) (en_receipt_kid env) rid t
       \<lparr>ri_task_run_id = nc_task c, ri_node_run_id = nc_run c, ri_node_id = pn_node_id (nc_node c),
        ri_plan_digest = plan, ri_capability_id = nc_cap c, ri_manifest_id = nc_mid c,
        ri_data_view = view_to_json (node_view (nc_node c)), ri_inputs = JObj inputs,
        ri_outputs = JObj outputs, ri_started_at = iso_text (en_pf env) started,
        ri_ended_at = iso_text (en_pf env) ended, ri_status = ''succeeded''\<rparr>"

definition give_receipt :: "env \<Rightarrow> node_ctx \<Rightarrow> payload \<Rightarrow> adapter_result \<Rightarrow> int \<Rightarrow> int \<Rightarrow> unit prog" where
  "give_receipt env c inputs res started ended =
     bindE (bindE (gets (task_plan_id (nc_task c))) lift) (\<lambda>plan.
     bindE (new_uuid env) (\<lambda>rid. bindE (now env) (\<lambda>t.
     let r = receipt_for env c plan inputs (ar_outputs res) started ended rid t in
     bindE (now env) (\<lambda>stored.
     seqE (try_db (save_receipt stored r))
       (emit env (nc_task c) (Some (nc_run c)) RECEIPT_SIGNED
         [(''receipt_id'', JStr rid), (''node_id'', JStr (pn_node_id (nc_node c)))])))))"

definition exec_adapter :: "env \<Rightarrow> node_ctx \<Rightarrow> payload \<Rightarrow> payload option \<Rightarrow> unit prog" where
  "exec_adapter env c prev approval =
     bindE (give_grant env c) (\<lambda>g.
     case dget (en_adapters env) (nc_cap c) of
       None \<Rightarrow> raise (NoAdapterExn (nc_cap c))
     | Some adapter \<Rightarrow>
       bindE (now env) (\<lambda>started.
       let inputs = (case approval of None \<Rightarrow> prev | Some p \<Rightarrow> dset ''approval'' (JObj p) prev) in
       bindE (project_inputs env c inputs) (\<lambda>(sent, egress).
       bindE (invoke_adapter env c adapter (adapter_request_of c g sent approval)) (\<lambda>res.
       bindE (gets (\<lambda>w. en_latency env (w_reads w))) (\<lambda>lat. bindE (now env) (\<lambda>ended.
       seqE (io_events env c sent egress res lat)
       (seqE (set_node env c NR_SUCCEEDED (Some (JObj (ar_outputs res))))
       (seqE (put_result c (ar_outputs res))
       (seqE (give_receipt env c sent res started ended)
         (emit_node env c NODE_SUCCEEDED
           [(''outputs_keys'', str_list (keys (ar_outputs res))), (''latency_ms'', JInt lat),
            (''metadata'', JObj (ar_metadata res))]))))))))))"

definition exec_node :: "env \<Rightarrow> string \<Rightarrow> plan_node \<Rightarrow> payload \<Rightarrow> string option \<Rightarrow> payload option \<Rightarrow>
    unit prog" where
  "exec_node env tid n prev force approval =
     bindE (start_node env tid n force) (\<lambda>c.
     if is_local n then exec_local env c prev else exec_adapter env c prev approval)"

subsection \<open>What programs leave alone\<close>

text \<open>An order on the worlds of the coordinator, and one that the bookkeeping of every step respects.\<close>

locale engine_order = world_order R for R :: "world \<Rightarrow> world \<Rightarrow> bool"
begin

lemma modify_db: "(\<And>w. R w (w\<lparr>w_db := f (w_db w)\<rparr>)) \<Longrightarrow> keeps R (modify_db f)"
  by (simp add: modify_db_def modify)

lemma try_db: "(\<And>w d. f (w_db w) = Inr d \<Longrightarrow> R w (w\<lparr>w_db := d\<rparr>)) \<Longrightarrow> keeps R (try_db f)"
  by (auto simp: keeps_def try_db_def refl split: sum.splits)

end

locale log_order = engine_order +
  assumes counters: "R w (w\<lparr>w_ids := i\<rparr>)" "R w (w\<lparr>w_reads := i\<rparr>)"
    and bus: "R w (w\<lparr>w_bus := b\<rparr>)"
    and event: "append_event ev (w_db w) = Inr d \<Longrightarrow> ev_seq ev = 0 \<Longrightarrow> R w (w\<lparr>w_db := d\<rparr>)"
begin

lemma fresh: "keeps R (new_uuid env)" "keeps R (now env)"
  by (simp_all add: keeps_def new_uuid_def now_def counters)

lemma emit: "keeps R (emit env tid nrid kind pl)"
  unfolding emit_def
  by (intro bind seq fresh try_db modify bus) (erule event, simp add: audit_event_def)

lemma close_bus: "keeps R (close_bus tid)"
  unfolding close_bus_def by (intro modify bus)

lemma emit_node: "keeps R (emit_node env c kind pl)"
  unfolding emit_node_def by (rule emit)

end

subsection \<open>What a node may do\<close>

text \<open>
  The calls a node can make: to its own capability, with a fresh grant for it, and with what the
  egress point left of its inputs.
\<close>

definition legit_call :: "env \<Rightarrow> string \<Rightarrow> plan_node \<Rightarrow> payload \<Rightarrow> call \<Rightarrow> bool" where
  "legit_call env tid n inputs = (\<lambda>(cap, rq).
     \<not> is_local n \<and>
     (\<exists>m. store_get (en_store env) cap = Inr m \<and>
        (\<exists>gid t q. rq_grant rq = issue_grant (en_pf env) (en_issuer env) gid t q \<and>
           gq_task_run_id q = tid \<and> gq_node_id q = pn_node_id n \<and> gq_capability_id q = cap \<and>
           gq_manifest_id q = manifest_id (en_pf env) m \<and> gq_data_view q = node_view n) \<and>
        (case egress_view env m of None \<Rightarrow> rq_inputs rq = inputs
         | Some (view, lookup) \<Rightarrow> \<exists>fm. pep_project (en_pf env) (en_tx env) lookup cap view inputs =
             Inr (rq_inputs rq, fm))) \<and>
     rq_data_view rq = node_view n \<and> rq_purpose rq = pn_purpose n)"

definition node_inputs :: "payload \<Rightarrow> payload option \<Rightarrow> payload" where
  "node_inputs prev approval = (case approval of None \<Rightarrow> prev | Some p \<Rightarrow> dset ''approval'' (JObj p) prev)"

lemma returns_start_node:
  "returns (start_node env tid n force) c \<Longrightarrow> nc_task c = tid \<and> nc_node c = n \<and>
     store_get (en_store env) (nc_cap c) = Inr (nc_manifest c) \<and>
     nc_mid c = manifest_id (en_pf env) (nc_manifest c)"
  unfolding start_node_def Let_def
  by (auto dest!: returns_bindE returns_seqE simp: map_sum_Inr)

lemma returns_give_grant:
  "returns (give_grant env c) g \<Longrightarrow> \<exists>gid t. g = issue_grant (en_pf env) (en_issuer env) gid t (grant_request_of c)"
  unfolding give_grant_def Let_def by (auto dest!: returns_bindE returns_seqE) blast

lemma returns_project_inputs:
  "returns (project_inputs env c inputs) (sent, egress) \<Longrightarrow>
     (case egress_view env (nc_manifest c) of None \<Rightarrow> sent = inputs
      | Some (view, lookup) \<Rightarrow> \<exists>fm. pep_project (en_pf env) (en_tx env) lookup (nc_cap c) view inputs = Inr (sent, fm))"
  unfolding project_inputs_def deny_egress_def Let_def
  by (auto dest!: returns_seqE split: option.splits sum.splits prod.splits)

lemma verify_receipt_for:
  "verify_receipt (en_pf env) (en_receipt_key env) (receipt_for env c plan inputs outputs started ended rid t) = Inr True"
  by (simp add: verify_receipt_def receipt_for_def build_receipt_def verify_envelope)

locale node_order = log_order R for R :: "world \<Rightarrow> world \<Rightarrow> bool" +
  fixes env :: env and good :: "call \<Rightarrow> bool"
  assumes node_row: "R w (w\<lparr>w_db := update_node_state t i st out a b (w_db w)\<rparr>)"
    and new_node: "upsert_node_run i tid nid st cp mid (w_db w) = Inr d \<Longrightarrow> R w (w\<lparr>w_db := d\<rparr>)"
    and grant: "save_grant g (w_db w) = Inr d \<Longrightarrow> R w (w\<lparr>w_db := d\<rparr>)"
    and receipt: "verify_receipt (en_pf env) (en_receipt_key env) r = Inr True \<Longrightarrow> is_obj (sr_envelope r) \<Longrightarrow>
      save_receipt t r (w_db w) = Inr d \<Longrightarrow> R w (w\<lparr>w_db := d\<rparr>)"
    and result: "R w (w\<lparr>w_results := x\<rparr>)"
    and call: "good cl \<Longrightarrow> R w (w\<lparr>w_calls := w_calls w @ [cl]\<rparr>)"
begin

lemma set_node: "keeps R (set_node env' c st out)"
  unfolding set_node_def by (intro bind fresh modify_db node_row)

lemma put_result: "keeps R (put_result c out)"
  unfolding put_result_def by (intro modify result)

lemmas steps = pure fresh emit emit_node close_bus set_node put_result bind seq

lemma start_node: "keeps R (start_node env' tid n force)"
  unfolding start_node_def Let_def by (intro steps try_db) (erule new_node)

lemma exec_local: "keeps R (exec_local env' c prev)"
  unfolding exec_local_def by (intro steps)

lemma give_grant: "keeps R (give_grant env' c)"
  unfolding give_grant_def Let_def by (intro steps try_db) (erule grant)

lemma project_inputs: "keeps R (project_inputs env' c inputs)"
  unfolding project_inputs_def deny_egress_def Let_def
  by (auto split: option.splits sum.splits intro!: steps)

lemma give_receipt: "keeps R (give_receipt env c inputs res a b)"
  unfolding give_receipt_def Let_def
  by (intro steps try_db)
    (rule receipt [OF verify_receipt_for],
      auto simp: receipt_for_def build_receipt_def cose_like_envelope_def Let_def)

lemma invoke_adapter:
  assumes "good (nc_cap c, rq)"
  shows "keeps R (invoke_adapter env' c adapter rq)"
proof -
  have "R w (snd (modify (\<lambda>w. w\<lparr>w_calls := w_calls w @ [(nc_cap c, rq)]\<rparr>) w))" for w
    using call [OF assms] by (simp add: modify_def)
  moreover have "keeps R (case adapter past rq of Inr res \<Rightarrow> ok res
      | Inl e \<Rightarrow> seqE (set_node env' c NR_FAILED None)
        (seqE (emit_node env' c NODE_FAILED
          [(''error'', JStr (exn_text env' e)), (''error_type'', JStr (exn_type env' e))])
        (raise e)))" for past
    by (auto split: sum.splits intro!: steps)
  ultimately show ?thesis
    unfolding keeps_def
    by (auto simp: invoke_adapter_def bindE_def seqE_def gets_def modify_def intro: trans)
qed

lemma io_events: "keeps R (io_events env' c inputs egress res lat)"
  unfolding io_events_def by (intro steps)

lemma exec_adapter:
  assumes good: "\<And>cl. legit_call env (nc_task c) (nc_node c) (node_inputs prev approval) cl \<Longrightarrow> good cl"
    and c: "store_get (en_store env) (nc_cap c) = Inr (nc_manifest c)"
      "nc_mid c = manifest_id (en_pf env) (nc_manifest c)" "\<not> is_local (nc_node c)"
  shows "keeps R (exec_adapter env c prev approval)"
  unfolding exec_adapter_def
proof (intro bind give_grant)
  fix g assume g: "returns (give_grant env c) g"
  let ?in = "node_inputs prev approval"
  have legit: "good (nc_cap c, adapter_request_of c g sent approval)"
    if "returns (project_inputs env c ?in) (sent, egress)" for sent egress
    using returns_give_grant [OF g] returns_project_inputs [OF that] c
    by (intro good) (auto simp: legit_call_def adapter_request_of_def grant_request_of_def
        intro!: exI split: option.splits)
  show "keeps R (case dget (en_adapters env) (nc_cap c) of
       None \<Rightarrow> raise (NoAdapterExn (nc_cap c))
     | Some adapter \<Rightarrow>
       bindE (now env) (\<lambda>started.
       let inputs = (case approval of None \<Rightarrow> prev | Some p \<Rightarrow> dset ''approval'' (JObj p) prev) in
       bindE (project_inputs env c inputs) (\<lambda>(sent, egress).
       bindE (invoke_adapter env c adapter (adapter_request_of c g sent approval)) (\<lambda>res.
       bindE (gets (\<lambda>w. en_latency env (w_reads w))) (\<lambda>lat. bindE (now env) (\<lambda>ended.
       seqE (io_events env c sent egress res lat)
       (seqE (set_node env c NR_SUCCEEDED (Some (JObj (ar_outputs res))))
       (seqE (put_result c (ar_outputs res))
       (seqE (give_receipt env c sent res started ended)
         (emit_node env c NODE_SUCCEEDED
           [(''outputs_keys'', str_list (keys (ar_outputs res))), (''latency_ms'', JInt lat),
            (''metadata'', JObj (ar_metadata res))]))))))))))"
    unfolding Let_def node_inputs_def [symmetric]
    by (auto split: option.splits intro!: bind project_inputs invoke_adapter io_events give_receipt steps legit)
qed

theorem exec_node:
  assumes "\<And>cl. legit_call env tid n (node_inputs prev approval) cl \<Longrightarrow> good cl"
  shows "keeps R (exec_node env tid n prev force approval)"
  unfolding exec_node_def
  by (intro bind start_node) (use assms in \<open>auto dest!: returns_start_node intro!: exec_local exec_adapter\<close>)

end

end
