(* ===== verification/Engine.thy ===== *)
theory Engine
  imports Coordinator
begin

section \<open>The coordinator: a run and its approval\<close>

text \<open>
  \<open>Coordinator.run\<close>, \<open>decide_approval\<close>, the default approval handler and the reload of pending
  approvals (\<open>orchestra/coordinator/engine.py\<close>) over \<open>ApprovalService\<close>
  (\<open>orchestra/enterprise/approval.py\<close>). The approval handler of a coordinator may wait for ever:
  a run is a function to an option, \<open>None\<close> when the handler never returns.
\<close>

subsection \<open>Approval service\<close>

definition create_for_node :: "env \<Rightarrow> string \<Rightarrow> string \<Rightarrow> string \<Rightarrow> string \<Rightarrow> string option \<Rightarrow> int \<Rightarrow>
    approval_row prog" where
  "create_for_node env tid nid tenant by ticket required =
     bindE (new_uuid env) (\<lambda>i. bindE (now env) (\<lambda>t. \<lambda>w.
       case create_approval i t tid nid tenant by required ticket (w_db w) of
         Inl e \<Rightarrow> (Inl (DbExn e), w) | Inr (row, d) \<Rightarrow> (Inr row, w\<lparr>w_db := d\<rparr>)))"

definition decide_row :: "env \<Rightarrow> string \<Rightarrow> string \<Rightarrow> string \<Rightarrow> string \<Rightarrow> string \<Rightarrow> approval_outcome prog" where
  "decide_row env aid decision by tenant rationale =
     bindE (new_uuid env) (\<lambda>i. bindE (now env) (\<lambda>t. \<lambda>w.
       case record_approval_decision i t aid decision by tenant rationale (w_db w) of
         Inl e \<Rightarrow> (Inl (DbExn e), w) | Inr (r, d) \<Rightarrow> (Inr r, w\<lparr>w_db := d\<rparr>)))"

definition reload_pending_for_tenant :: "db \<Rightarrow> string \<Rightarrow> approval_row list" where
  "reload_pending_for_tenant d tenant = list_approvals_for_tenant d tenant (Some AS_PENDING)"

subsection \<open>Deciding\<close>

definition bucket_prog :: "string \<times> string \<Rightarrow> (bucket \<Rightarrow> bucket) \<Rightarrow> unit prog" where
  "bucket_prog key f = modify (\<lambda>w. w\<lparr>w_approvals := (case dget (w_approvals w) key of
     None \<Rightarrow> w_approvals w | Some b \<Rightarrow> dset key (f b) (w_approvals w))\<rparr>)"

definition put_payload :: "string \<times> string \<Rightarrow> (string \<times> json) list \<Rightarrow> unit prog" where
  "put_payload key kvs = bucket_prog key (\<lambda>b. b\<lparr>bk_payload := dmerge (bk_payload b) kvs\<rparr>)"

definition wake :: "string \<times> string \<Rightarrow> unit prog" where
  "wake key = bucket_prog key (\<lambda>b. b\<lparr>bk_set := True\<rparr>)"

definition nonempty :: "string option \<Rightarrow> string option" where
  "nonempty x = (if x = Some [] then None else x)"

text \<open>The tenant of a coordinator with an approval service.\<close>

definition service_tenant :: "env \<Rightarrow> string option" where
  "service_tenant env = (if en_service env then nonempty (en_tenant env) else None)"

definition bucket_approval_id :: "bucket \<Rightarrow> string option" where
  "bucket_approval_id b = (case dget (bk_payload b) ''approval_id'' of
     Some (JStr s) \<Rightarrow> nonempty (Some s) | _ \<Rightarrow> None)"

definition decision_fields :: "env \<Rightarrow> string \<Rightarrow> string \<Rightarrow> int \<Rightarrow> string \<Rightarrow> (string \<times> json) list" where
  "decision_fields env decision by t rationale =
     [(''decision'', JStr decision), (''decided_by'', JStr by),
      (''decided_at'', JStr (iso_text (en_pf env) t)), (''rationale'', JStr rationale)]"

definition decide_approval :: "env \<Rightarrow> string \<Rightarrow> string \<Rightarrow> string \<Rightarrow> string \<Rightarrow> string \<Rightarrow> unit prog" where
  "decide_approval env tid nid decision by rationale =
     bindE (gets (\<lambda>w. dget (w_approvals w) (tid, nid))) (\<lambda>found.
     case found of
       None \<Rightarrow> raise (NoPendingExn tid nid)
     | Some b \<Rightarrow>
       (case (service_tenant env, bucket_approval_id b) of
          (Some tenant, Some aid) \<Rightarrow>
            bindE (decide_row env aid decision by tenant rationale) (\<lambda>outcome.
            case outcome of
              NotApplied why \<Rightarrow> ok ()
            | Applied st version seen required \<Rightarrow>
              bindE (now env) (\<lambda>t.
              seqE (put_payload (tid, nid)
                (decision_fields env decision by t rationale @ [(''version'', JInt (int version))]))
              (wake (tid, nid))))
        | _ \<Rightarrow>
            bindE (now env) (\<lambda>t.
            seqE (put_payload (tid, nid) (decision_fields env decision by t rationale))
            (bindE (new_uuid env) (\<lambda>i.
            seqE (try_db (save_approval i tid nid (bk_requested_at b) (Some t)))
            (wake (tid, nid)))))))"

subsection \<open>Waiting\<close>

type_synonym 'a wait = "world \<Rightarrow> ((exn + 'a) \<times> world) option"

definition now_or_never :: "'a prog \<Rightarrow> 'a wait" where
  "now_or_never m = (\<lambda>w. Some (m w))"

definition bindW :: "'a wait \<Rightarrow> ('a \<Rightarrow> 'b wait) \<Rightarrow> 'b wait" where
  "bindW m f = (\<lambda>w. case m w of None \<Rightarrow> None
     | Some (Inl e, w') \<Rightarrow> Some (Inl e, w') | Some (Inr x, w') \<Rightarrow> f x w')"

type_synonym handler = "string \<Rightarrow> string \<Rightarrow> payload \<Rightarrow> payload wait"

definition plain_value :: "json \<Rightarrow> bool" where
  "plain_value v = (case v of JStr _ \<Rightarrow> True | JInt _ \<Rightarrow> True | JFloat _ \<Rightarrow> True | JBool _ \<Rightarrow> True | _ \<Rightarrow> False)"

text \<open>Any exception of the service counts as no row.\<close>

definition request_row :: "env \<Rightarrow> string \<Rightarrow> string \<Rightarrow> string option prog" where
  "request_row env tid nid = (\<lambda>w.
     case service_tenant env of None \<Rightarrow> (Inr None, w)
     | Some tenant \<Rightarrow>
       (case create_for_node env tid nid tenant ''engine'' None 1 w of
          (Inl e, w') \<Rightarrow> (Inr None, w') | (Inr row, w') \<Rightarrow> (Inr (Some (ap_id row)), w')))"

definition open_gate :: "env \<Rightarrow> string \<Rightarrow> string \<Rightarrow> payload \<Rightarrow> unit prog" where
  "open_gate env tid nid req =
     bindE (now env) (\<lambda>t.
     bindE (request_row env tid nid) (\<lambda>aid.
     seqE (modify (\<lambda>w. w\<lparr>w_approvals := dset (tid, nid) \<lparr>bk_set = False, bk_requested_at = t,
         bk_payload = [(''requested_at'', JStr (iso_text (en_pf env) t)), (''task_run_id'', JStr tid),
           (''node_id'', JStr nid), (''request'', JObj (filter (\<lambda>(k, v). plain_value v) req))] @
           (case aid of None \<Rightarrow> [] | Some a \<Rightarrow> [(''approval_id'', JStr a)])\<rparr> (w_approvals w)\<rparr>))
     (seqE (if aid = None
            then bindE (new_uuid env) (\<lambda>i. try_db (save_approval i tid nid t None)) else ok ())
       (emit env tid None NODE_AWAITING_APPROVAL
         [(''node_id'', JStr nid), (''approval_id'', opt_str aid)]))))"

text \<open>
  \<open>others\<close> is what the rest of the process does until the coroutine resumes, which it does only
  after its event was set. Opening the same gate once more is not part of it.
\<close>

definition default_handler :: "env \<Rightarrow> (world \<Rightarrow> world option) \<Rightarrow> handler" where
  "default_handler env others tid nid req =
     bindW (now_or_never (open_gate env tid nid req)) (\<lambda>_ w.
       case others w of None \<Rightarrow> None
       | Some w' \<Rightarrow> (case dget (w_approvals w') (tid, nid) of
           None \<Rightarrow> None
         | Some b \<Rightarrow> if bk_set b then Some (Inr (bk_payload b), w') else None))"

subsection \<open>Restart\<close>

fun reload_rows :: "env \<Rightarrow> approval_row list \<Rightarrow> (string \<times> string, bucket) dict \<Rightarrow>
    (string \<times> string, bucket) dict" where
  "reload_rows env [] m = m"
| "reload_rows env (r # rs) m =
     (let key = (ap_task_run_id r, ap_node_id r) in
      if fst key = [] \<or> snd key = [] \<or> key \<in> set (keys m) then reload_rows env rs m
      else reload_rows env rs (dset key \<lparr>bk_set = False, bk_requested_at = ap_requested_at r,
        bk_payload = [(''requested_at'', JStr (en_time_text env (ap_requested_at r))),
          (''task_run_id'', JStr (fst key)), (''node_id'', JStr (snd key)), (''request'', JObj []),
          (''approval_id'', JStr (ap_id r)), (''reloaded'', JBool True)]\<rparr> m))"

definition reload_pending_approvals :: "env \<Rightarrow> world \<Rightarrow> world" where
  "reload_pending_approvals env w = (case service_tenant env of None \<Rightarrow> w
     | Some tenant \<Rightarrow> w\<lparr>w_approvals :=
         reload_rows env (reload_pending_for_tenant (w_db w) tenant) (w_approvals w)\<rparr>)"

subsection \<open>Planning\<close>

record routing_state =
  rg_results :: "routing_decision list"
  rg_caps :: "(string, string) dict"
  rg_mids :: "(string, string) dict"
  rg_budget :: rat

definition bind_node :: "node_spec \<Rightarrow> string \<Rightarrow> string \<Rightarrow> routing_state \<Rightarrow> routing_state" where
  "bind_node n cap mid g = g\<lparr>rg_caps := dset (ns_node_id n) cap (rg_caps g),
     rg_mids := dset (ns_node_id n) mid (rg_mids g)\<rparr>"

definition route_node :: "env \<Rightarrow> security_label \<Rightarrow> node_spec \<Rightarrow> routing_state \<Rightarrow> routing_state prog" where
  "route_node env label n g =
     (if ns_requires_approval n then ok (bind_node n ''human.approver'' ''manifest:human-approver'' g)
      else bindE (now env) (\<lambda>t.
        bindE (lift (map_sum RegistryExn id (route (en_pf env) (en_pdp env) (en_store env) t n label
          (code default_purpose) ''local'' (rg_budget g)))) (\<lambda>res.
        let d = rt_decision res; cap = rd_chosen_capability_id d;
            g = bind_node n cap (rd_chosen_manifest_id d) (g\<lparr>rg_results := rg_results g @ [d]\<rparr>)
        in ok (case store_get (en_store env) cap of
             Inl _ \<Rightarrow> g
           | Inr m \<Rightarrow> g\<lparr>rg_budget := rg_budget g - cm_cost_estimate_usd m\<rparr>))))"

fun route_nodes :: "env \<Rightarrow> security_label \<Rightarrow> node_spec list \<Rightarrow> routing_state \<Rightarrow> routing_state prog" where
  "route_nodes env label [] g = ok g"
| "route_nodes env label (n # ns) g = bindE (route_node env label n g) (route_nodes env label ns)"

definition key_exn :: "key_error + 'a \<Rightarrow> exn + 'a" where
  "key_exn r = (case r of Inl (KeyError k) \<Rightarrow> Inl (KeyExn k) | Inr x \<Rightarrow> Inr x)"

text \<open>\<open>_sign_plan\<close>: the body leaves out the signature only.\<close>

definition engine_sign_plan :: "env \<Rightarrow> execution_plan \<Rightarrow> string" where
  "engine_sign_plan env p =
     hmac_sign (en_pf env) (is_key (en_issuer env)) (JObj (ddel ''signature'' (plan_to_json (en_pf env) p)))"

definition make_plan :: "env \<Rightarrow> string \<Rightarrow> security_label \<Rightarrow> rat \<Rightarrow> execution_plan prog" where
  "make_plan env contract label budget =
     bindE (route_nodes env label review_nodes
       \<lparr>rg_results = [], rg_caps = [], rg_mids = [], rg_budget = budget\<rparr>) (\<lambda>g.
     bindE (new_uuid env) (\<lambda>i. bindE (now env) (\<lambda>t.
     bindE (lift (key_exn (build_contract_review_plan i t contract (rg_results g) (rg_caps g) (rg_mids g)))) (\<lambda>p.
     ok (p\<lparr>ep_signature := Some (engine_sign_plan env p)\<rparr>)))))"

definition put_task :: "env \<Rightarrow> string \<Rightarrow> string \<Rightarrow> task_run_state \<Rightarrow> string option \<Rightarrow> unit prog" where
  "put_task env tid contract state plan = bindE (now env) (\<lambda>t. modify_db
     (upsert_task_run t tid contract (tt_template_id contract_review_template) state plan))"

definition set_task :: "env \<Rightarrow> string \<Rightarrow> task_run_state \<Rightarrow> unit prog" where
  "set_task env tid state = bindE (now env) (\<lambda>t. modify_db (update_task_state t tid state))"

definition quoted :: "string \<Rightarrow> string" where
  "quoted s = [CHR 0x27] @ s @ [CHR 0x27]"

definition check_inputs :: "payload \<Rightarrow> exn + unit" where
  "check_inputs inputs =
     (if ''contract_text'' \<notin> set (keys inputs)
      then Inl (ContractViolationExn (''initial_inputs must include '' @ quoted ''contract_text''))
      else if ''vendor_id'' \<notin> set (keys inputs)
      then Inl (ContractViolationExn (''initial_inputs must include '' @ quoted ''vendor_id''))
      else Inr ())"

definition receive_task :: "env \<Rightarrow> string \<Rightarrow> string \<Rightarrow> security_label \<Rightarrow> payload \<Rightarrow> unit prog" where
  "receive_task env tid contract label inputs =
     seqE (lift (check_inputs inputs))
     (seqE (modify (\<lambda>w. w\<lparr>w_initial := Some inputs\<rparr>))
     (seqE (put_task env tid contract TR_CREATED None)
       (emit env tid None TASK_RECEIVED
         [(''contract_id'', JStr contract), (''purpose'', JStr (code default_purpose)),
          (''data_label'', label_to_json label), (''initial_inputs_keys'', str_list (keys inputs))])))"

definition plan_task :: "env \<Rightarrow> string \<Rightarrow> string \<Rightarrow> security_label \<Rightarrow> rat \<Rightarrow> execution_plan prog" where
  "plan_task env tid contract label budget =
     bindE (make_plan env contract label budget) (\<lambda>p.
     seqE (put_task env tid contract TR_PLANNED (Some (ep_plan_id p)))
     (seqE (emit env tid None PLAN_CREATED
        [(''plan_id'', JStr (ep_plan_id p)), (''plan_digest'', JStr (plan_digest (en_pf env) p)),
         (''nodes'', str_list (map pn_node_id (ep_nodes p)))])
     (seqE (emit env tid None PLAN_SIGNED
        [(''plan_digest'', JStr (plan_digest (en_pf env) p)), (''signed_by'', JStr (ep_signed_by p))])
     (seqE (modify (\<lambda>w. w\<lparr>w_results := []\<rparr>))
     (seqE (set_task env tid TR_RUNNING)
     (ok p))))))"

subsection \<open>A run\<close>

record run_result =
  cr_task_run_id :: string
  cr_plan :: execution_plan
  cr_state :: task_run_state
  cr_node_results :: "(string, payload) dict"
  cr_receipts :: "(signed_receipt \<times> bool) list"
  cr_error :: "string option"

definition plan_node_at :: "execution_plan \<Rightarrow> nat \<Rightarrow> exn + plan_node" where
  "plan_node_at p i = (if i < length (ep_nodes p) then Inr (ep_nodes p ! i) else Inl (IndexExn i))"

definition result_of :: "string \<Rightarrow> world \<Rightarrow> exn + payload" where
  "result_of nid w = (case dget (w_results w) nid of None \<Rightarrow> Inl (KeyExn nid) | Some r \<Rightarrow> Inr r)"

definition getsE :: "(world \<Rightarrow> exn + 'a) \<Rightarrow> 'a prog" where
  "getsE f = bindE (gets f) lift"

definition run_node :: "env \<Rightarrow> string \<Rightarrow> execution_plan \<Rightarrow> nat \<Rightarrow> (world \<Rightarrow> exn + payload) \<Rightarrow>
    string option \<Rightarrow> payload option \<Rightarrow> unit prog" where
  "run_node env tid p i prev force approval =
     bindE (lift (plan_node_at p i)) (\<lambda>n. bindE (getsE prev) (\<lambda>inputs.
       exec_node env tid n inputs force approval))"

definition facts_of :: "world \<Rightarrow> exn + json" where
  "facts_of w = bindS (result_of ''extract_facts_local'' w)
     (\<lambda>r. Inr (dget_default r ''facts'' (JObj [])))"

definition research_inputs :: "env \<Rightarrow> world \<Rightarrow> exn + payload" where
  "research_inputs env w =
     bindS (facts_of w) (\<lambda>facts.
     bindS (py_get facts ''vendor_name'' (JStr ''unknown'')) (\<lambda>vendor.
     Inr [(''facts'', facts), (''query'', JStr (''vendor='' @ text_of (en_tx env) vendor @
       ''; industry classification; public registry lookup''))]))"

definition merge_inputs :: "world \<Rightarrow> exn + payload" where
  "merge_inputs w =
     bindS (facts_of w) (\<lambda>facts.
     bindS (result_of ''public_research'' w) (\<lambda>r.
     Inr [(''facts'', facts), (''research'', dget_default r ''research'' (JObj []))]))"

definition run_until_gate :: "env \<Rightarrow> string \<Rightarrow> execution_plan \<Rightarrow> payload prog" where
  "run_until_gate env tid p =
     seqE (run_node env tid p 0 (\<lambda>w. Inr []) None None)
     (seqE (run_node env tid p 1 (result_of ''ingest_contract'') None None)
     (seqE (run_node env tid p 2 (research_inputs env) None None)
     (seqE (run_node env tid p 3 merge_inputs (Some ''local.contract-extractor'') None)
     (getsE (result_of ''merge'')))))"

definition approved :: "payload \<Rightarrow> bool" where
  "approved d \<longleftrightarrow> dget d ''decision'' = Some (JStr ''approve'')"

definition record_decision :: "env \<Rightarrow> string \<Rightarrow> payload \<Rightarrow> unit prog" where
  "record_decision env tid d =
     seqE (modify (\<lambda>w. w\<lparr>w_results := dset ''human_approval'' d (w_results w)\<rparr>))
     (emit env tid None (if approved d then NODE_APPROVED else NODE_REJECTED)
       [(''node_id'', JStr ''human_approval''),
        (''decided_by'', dget_default d ''decided_by'' (JStr ''human'')),
        (''rationale'', dget_default d ''rationale'' (JStr []))])"

definition rejected_reason :: string where "rejected_reason = ''rejected at human_approval''"

definition run_cancelled :: "env \<Rightarrow> string \<Rightarrow> unit prog" where
  "run_cancelled env tid =
     seqE (set_task env tid TR_CANCELLED)
     (seqE (emit env tid None TASK_FAILED [(''reason'', JStr rejected_reason)])
       (close_bus tid))"

definition run_completed :: "env \<Rightarrow> string \<Rightarrow> execution_plan \<Rightarrow> payload \<Rightarrow> unit prog" where
  "run_completed env tid p d =
     seqE (run_node env tid p 5 (result_of ''merge'') None (Some d))
     (seqE (set_task env tid TR_SUCCEEDED)
     (bindE (gets (\<lambda>w. keys (w_results w))) (\<lambda>ks.
       emit env tid None TASK_COMPLETED [(''node_results_keys'', str_list ks)])))"

text \<open>The body of the \<open>try\<close>; its value is whether the task was approved and completed.\<close>

definition run_after_gate :: "env \<Rightarrow> string \<Rightarrow> execution_plan \<Rightarrow> payload \<Rightarrow> bool prog" where
  "run_after_gate env tid p d =
     seqE (record_decision env tid d)
     (if approved d then seqE (run_completed env tid p d) (ok True)
      else seqE (run_cancelled env tid) (ok False))"

definition run_body :: "env \<Rightarrow> handler \<Rightarrow> string \<Rightarrow> execution_plan \<Rightarrow> bool wait" where
  "run_body env h tid p =
     bindW (now_or_never (run_until_gate env tid p)) (\<lambda>merged.
     bindW (h tid ''human_approval'' merged) (\<lambda>d.
     now_or_never (run_after_gate env tid p d)))"

definition run_failed :: "env \<Rightarrow> string \<Rightarrow> exn \<Rightarrow> unit prog" where
  "run_failed env tid e =
     seqE (set_task env tid TR_FAILED)
     (seqE (emit env tid None TASK_FAILED
        [(''reason'', JStr (exn_text env e)), (''error_type'', JStr (exn_type env e))])
       (close_bus tid))"

fun verify_rows :: "env \<Rightarrow> signed_receipt list \<Rightarrow> exn + (signed_receipt \<times> bool) list" where
  "verify_rows env [] = Inr []"
| "verify_rows env (r # rs) =
     (if \<not> is_obj (sr_envelope r) then Inl (ValidationExn (sr_receipt_id r))
      else bindS (map_sum SignExn id (verify_receipt (en_pf env) (en_receipt_key env) r)) (\<lambda>good.
        bindS (verify_rows env rs) (\<lambda>vs. Inr ((r, good) # vs))))"

definition verify_receipts :: "env \<Rightarrow> string \<Rightarrow> world \<Rightarrow> exn + (signed_receipt \<times> bool) list" where
  "verify_receipts env tid w = verify_rows env (get_receipts (w_db w) tid)"

definition run_outcome :: "string \<Rightarrow> execution_plan \<Rightarrow> task_run_state \<Rightarrow> string option \<Rightarrow>
    (signed_receipt \<times> bool) list \<Rightarrow> run_result prog" where
  "run_outcome tid p state err rs = gets (\<lambda>w. \<lparr>cr_task_run_id = tid, cr_plan = p, cr_state = state,
     cr_node_results = w_results w, cr_receipts = rs, cr_error = err\<rparr>)"

definition run_finish :: "env \<Rightarrow> string \<Rightarrow> execution_plan \<Rightarrow> exn + bool \<Rightarrow> run_result prog" where
  "run_finish env tid p r =
     (case r of
        Inl e \<Rightarrow> seqE (run_failed env tid e) (run_outcome tid p TR_FAILED (Some (exn_text env e)) [])
      | Inr False \<Rightarrow> run_outcome tid p TR_CANCELLED (Some rejected_reason) []
      | Inr True \<Rightarrow> bindE (getsE (verify_receipts env tid)) (\<lambda>rs.
          seqE (close_bus tid) (run_outcome tid p TR_SUCCEEDED None rs)))"

definition run :: "env \<Rightarrow> handler \<Rightarrow> string \<Rightarrow> string \<Rightarrow> security_label \<Rightarrow> payload \<Rightarrow> rat \<Rightarrow> run_result wait" where
  "run env h tid contract label inputs budget =
     bindW (now_or_never (seqE (receive_task env tid contract label inputs)
       (plan_task env tid contract label budget))) (\<lambda>p w.
     case run_body env h tid p w of None \<Rightarrow> None
     | Some (r, w') \<Rightarrow> Some (run_finish env tid p r w'))"

subsection \<open>What a run leaves alone\<close>

text \<open>A handler that respects an order, and the inputs a run hands to a node of its plan.\<close>

definition handler_keeps :: "(world \<Rightarrow> world \<Rightarrow> bool) \<Rightarrow> handler \<Rightarrow> bool" where
  "handler_keeps R h \<longleftrightarrow> (\<forall>a b c w r w'. h a b c w = Some (r, w') \<longrightarrow> R w w')"

definition handler_returns :: "handler \<Rightarrow> string \<Rightarrow> payload \<Rightarrow> bool" where
  "handler_returns h tid d \<longleftrightarrow> (\<exists>merged w w'. h tid ''human_approval'' merged w = Some (Inr d, w'))"

lemma returns_route_node:
  "returns (route_node env label n g) g' \<Longrightarrow>
     set (keys (rg_caps g')) = insert (ns_node_id n) (set (keys (rg_caps g))) \<and>
     set (keys (rg_mids g')) = insert (ns_node_id n) (set (keys (rg_mids g)))"
proof -
  have caps: "set (keys (rg_caps (bind_node n c m s))) = insert (ns_node_id n) (set (keys (rg_caps s)))"
    and mids: "set (keys (rg_mids (bind_node n c m s))) = insert (ns_node_id n) (set (keys (rg_mids s)))"
    for c m s
    by (simp_all add: bind_node_def)
  assume r: "returns (route_node env label n g) g'"
  show ?thesis
  proof (cases "ns_requires_approval n")
    case True
    with r have "g' = bind_node n ''human.approver'' ''manifest:human-approver'' g"
      by (simp add: route_node_def)
    then show ?thesis by (simp only: caps mids)
  next
    case False
    with r obtain c m d where
      "g' = bind_node n c m (g\<lparr>rg_results := rg_results g @ [d]\<rparr>) \<or>
       (\<exists>b. g' = bind_node n c m (g\<lparr>rg_results := rg_results g @ [d]\<rparr>)\<lparr>rg_budget := b\<rparr>)"
      unfolding route_node_def Let_def
      by (simp) (drule returns_bindE, erule exE, erule conjE, drule returns_bindE, erule exE, erule conjE,
        simp split: sum.splits, blast+)
    then show ?thesis by (elim disjE exE) (simp_all add: bind_node_def)
  qed
qed

lemma returns_route_nodes:
  "returns (route_nodes env label ns g) g' \<Longrightarrow>
     set (keys (rg_caps g')) = ns_node_id ` set ns \<union> set (keys (rg_caps g)) \<and>
     set (keys (rg_mids g')) = ns_node_id ` set ns \<union> set (keys (rg_mids g))"
proof (induction ns arbitrary: g)
  case Nil
  then show ?case by simp
next
  case (Cons n ns)
  then obtain g1 where "returns (route_node env label n g) g1" "returns (route_nodes env label ns g1) g'"
    by (auto dest!: returns_bindE)
  with Cons.IH [of g1] returns_route_node [of env label n g g1] show ?case by auto
qed

lemma build_plan_total:
  assumes "set review_order \<subseteq> set (keys caps)" "set review_order \<subseteq> set (keys mids)"
  shows "\<exists>p. build_contract_review_plan i t c rs caps mids = Inr p \<and>
    map pn_node_id (ep_nodes p) = review_order \<and> ep_plan_id p = i"
  using build_plan_nodes_total [OF order_refl assms]
  by (auto simp: build_contract_review_plan_def)

text \<open>A plan that comes out of planning has the six nodes of the template in order.\<close>

lemma returns_make_plan:
  assumes "returns (make_plan env contract label budget) p"
  shows "map pn_node_id (ep_nodes p) = review_order"
proof -
  let ?g0 = "\<lparr>rg_results = [], rg_caps = [], rg_mids = [], rg_budget = budget\<rparr>"
  obtain g i t q where g: "returns (route_nodes env label review_nodes ?g0) g"
    and q: "key_exn (build_contract_review_plan i t contract (rg_results g) (rg_caps g) (rg_mids g)) = Inr q"
    and p: "p = q\<lparr>ep_signature := Some (engine_sign_plan env q)\<rparr>"
    using assms unfolding make_plan_def by (auto dest!: returns_bindE)
  have "set review_order = ns_node_id ` set review_nodes"
    using review_order_nodes by (metis set_map)
  with returns_route_nodes [OF g] build_plan_total [of "rg_caps g" "rg_mids g" i t contract "rg_results g"]
    q p show ?thesis by (auto simp: key_exn_def)
qed

lemma returns_plan_task:
  "returns (plan_task env tid contract label budget) p \<Longrightarrow> map pn_node_id (ep_nodes p) = review_order"
  unfolding plan_task_def by (auto dest!: returns_bindE returns_seqE simp: returns_make_plan)

lemma plan_node_at_id:
  assumes "map pn_node_id (ep_nodes p) = review_order" "plan_node_at p i = Inr n"
  shows "i < 6 \<and> pn_node_id n = review_order ! i"
proof -
  have "length (map pn_node_id (ep_nodes p)) = length review_order" using assms(1) by (rule arg_cong)
  then have len: "length (ep_nodes p) = 6" by (simp add: review_order_def)
  show ?thesis using assms len by (auto simp: plan_node_at_def split: if_splits) (metis nth_map)
qed

context node_order
begin

lemma getsE: "keeps R (getsE f)"
  unfolding getsE_def by (intro steps)

lemma run_node:
  assumes "\<And>n inputs cl. plan_node_at p i = Inr n \<Longrightarrow>
    legit_call env tid n (node_inputs inputs approval) cl \<Longrightarrow> good cl"
  shows "keeps R (run_node env tid p i prev force approval)"
  unfolding run_node_def by (intro bind exec_node getsE pure) (use assms in auto)

lemma run_until_gate:
  assumes "\<And>n i inputs cl. i < 4 \<Longrightarrow> plan_node_at p i = Inr n \<Longrightarrow> legit_call env tid n inputs cl \<Longrightarrow> good cl"
  shows "keeps R (run_until_gate env tid p)"
proof -
  have "keeps R (run_node env tid p i prev force None)" if "i < 4" for i prev force
    by (rule run_node) (rule assms [OF that])
  then show ?thesis unfolding run_until_gate_def by (intro seq getsE) simp_all
qed

lemma record_decision: "keeps R (record_decision env' tid d)"
  unfolding record_decision_def by (intro steps modify result)

end

locale run_order = node_order R env good for R :: "world \<Rightarrow> world \<Rightarrow> bool" and env good +
  fixes tid :: string
  assumes task: "R w (w\<lparr>w_db := upsert_task_run t tid contract template st plan (w_db w)\<rparr>)"
    and task_state: "R w (w\<lparr>w_db := update_task_state t tid st (w_db w)\<rparr>)"
    and initial: "R w (w\<lparr>w_initial := Some inputs\<rparr>)"
begin

lemma put_task: "keeps R (put_task env' tid contract st plan)"
  unfolding put_task_def by (intro bind fresh modify_db task)

lemma set_task: "keeps R (set_task env' tid st)"
  unfolding set_task_def by (intro bind fresh modify_db task_state)

lemmas run_steps = steps put_task set_task getsE

lemma receive_task: "keeps R (receive_task env' tid contract label inputs)"
  unfolding receive_task_def by (intro run_steps modify initial)

lemma route_nodes: "keeps R (route_nodes env' label ns g)"
  by (induction ns arbitrary: g)
    (auto simp: route_node_def Let_def intro!: run_steps)

lemma make_plan: "keeps R (make_plan env' contract label budget)"
  unfolding make_plan_def by (intro run_steps route_nodes)

lemma plan_task: "keeps R (plan_task env' tid contract label budget)"
  unfolding plan_task_def by (intro run_steps make_plan modify result)

lemma run_cancelled: "keeps R (run_cancelled env' tid)"
  unfolding run_cancelled_def by (intro run_steps)

lemma run_failed: "keeps R (run_failed env' tid e)"
  unfolding run_failed_def by (intro run_steps)

lemma run_after_gate:
  assumes "approved d \<Longrightarrow> (\<And>n inputs cl. plan_node_at p 5 = Inr n \<Longrightarrow>
    legit_call env tid n (node_inputs inputs (Some d)) cl \<Longrightarrow> good cl)"
  shows "keeps R (run_after_gate env tid p d)"
  unfolding run_after_gate_def run_completed_def
  by (auto intro!: run_steps record_decision run_cancelled run_node assms)

lemma run_finish: "keeps R (run_finish env' tid p r)"
  unfolding run_finish_def run_outcome_def
  by (auto split: sum.splits bool.splits intro!: run_steps run_failed)

theorem run:
  assumes run: "run env h tid contract label inputs budget w = Some (r, w')"
    and h: "handler_keeps R h"
    and before: "\<And>p n i ins cl. map pn_node_id (ep_nodes p) = review_order \<Longrightarrow> i < 4 \<Longrightarrow>
      plan_node_at p i = Inr n \<Longrightarrow> legit_call env tid n ins cl \<Longrightarrow> good cl"
    and after: "\<And>p n d ins cl. map pn_node_id (ep_nodes p) = review_order \<Longrightarrow> handler_returns h tid d \<Longrightarrow>
      approved d \<Longrightarrow> plan_node_at p 5 = Inr n \<Longrightarrow>
      legit_call env tid n (node_inputs ins (Some d)) cl \<Longrightarrow> good cl"
  shows "R w w'"
proof -
  let ?prefix = "seqE (receive_task env tid contract label inputs) (plan_task env tid contract label budget)"
  obtain r1 w1 where 1: "?prefix w = (r1, w1)" by force
  have "keeps R ?prefix" by (intro seq receive_task plan_task)
  then have R1: "R w w1" using 1 by (metis keeps_def snd_conv)
  show ?thesis
  proof (cases r1)
    case (Inl e)
    with run 1 R1 show ?thesis by (simp add: run_def bindW_def now_or_never_def)
  next
    case (Inr p)
    have "returns ?prefix p" using 1 Inr unfolding returns_def by blast
    then have p: "map pn_node_id (ep_nodes p) = review_order"
      by (blast dest: returns_seqE returns_plan_task)
    obtain s w2 where body: "run_body env h tid p w1 = Some (s, w2)"
      and fin: "run_finish env tid p s w2 = (r, w')"
      using run 1 Inr by (auto simp: run_def bindW_def now_or_never_def split: option.splits)
    have "R w1 w2" using body unfolding run_body_def
    proof -
      assume b: "bindW (now_or_never (run_until_gate env tid p)) (\<lambda>merged.
        bindW (h tid ''human_approval'' merged) (\<lambda>d. now_or_never (run_after_gate env tid p d))) w1 = Some (s, w2)"
      obtain x v where g: "run_until_gate env tid p w1 = (x, v)" by force
      have "keeps R (run_until_gate env tid p)" by (rule run_until_gate) (rule before [OF p])
      then have Rv: "R w1 v" using g by (metis keeps_def snd_conv)
      show "R w1 w2"
      proof (cases x)
        case (Inl e)
        with b g Rv show ?thesis by (simp add: bindW_def now_or_never_def)
      next
        case (Inr merged)
        obtain y u where hy: "h tid ''human_approval'' merged v = Some (y, u)"
          using b g Inr by (auto simp: bindW_def now_or_never_def split: option.splits)
        with h have Ru: "R v u" unfolding handler_keeps_def by blast
        show ?thesis
        proof (cases y)
          case (Inl e)
          with b g Inr hy Rv Ru show ?thesis
            by (auto simp: bindW_def now_or_never_def intro: trans)
        next
          case (Inr d)
          have "handler_returns h tid d" using hy Inr unfolding handler_returns_def by blast
          then have "keeps R (run_after_gate env tid p d)"
            using after [OF p] by (intro run_after_gate)
          moreover have "run_after_gate env tid p d u = (s, w2)"
            using b g \<open>x = Inr merged\<close> hy Inr by (simp add: bindW_def now_or_never_def)
          ultimately have "R u w2" by (metis keeps_def snd_conv)
          with Rv Ru show ?thesis by (blast intro: trans)
        qed
      qed
    qed
    moreover have "R w2 w'" using run_finish fin by (metis keeps_def snd_conv)
    ultimately show ?thesis using R1 by (blast intro: trans)
  qed
qed

end

text \<open>Opening a gate, and the default handler, for an order that also ignores approvals.\<close>

locale gate_order = run_order +
  assumes approval_rows: "R w (w\<lparr>w_db := (w_db w)\<lparr>approvals := rows\<rparr>\<rparr>)"
    and buckets: "R w (w\<lparr>w_approvals := m\<rparr>)"
begin

lemma save_approval: "keeps R (try_db (save_approval i t n req dec))"
  by (intro try_db) (auto simp: save_approval_def insert_row_def approval_rows split: if_splits)

lemma create_row: "keeps R (request_row env' t n)"
proof -
  have "keeps R (\<lambda>w. case create_approval i x t n tenant by req ticket (w_db w) of
      Inl e \<Rightarrow> (Inl (DbExn e), w) | Inr (row, d) \<Rightarrow> (Inr row, w\<lparr>w_db := d\<rparr>))"
    for i x tenant "by" req ticket
    by (auto simp: keeps_def create_approval_def Let_def insert_row_def refl approval_rows
        split: option.splits sum.splits)
  then have "keeps R (create_for_node env' t n tenant by ticket req)" for tenant "by" ticket req
    unfolding create_for_node_def by (intro bind fresh)
  then show ?thesis
    unfolding keeps_def request_row_def
    by (auto simp: refl split: option.splits prod.splits sum.splits) (metis snd_conv)+
qed

lemma open_gate: "keeps R (open_gate env' t n inputs)"
  unfolding open_gate_def
  by (auto intro!: run_steps create_row modify buckets save_approval)

lemma default_handler:
  assumes "\<And>w w'. others w = Some w' \<Longrightarrow> R w w'"
  shows "handler_keeps R (default_handler env' others)"
  unfolding handler_keeps_def
proof (intro allI impI)
  fix a b c w r w'
  assume d: "default_handler env' others a b c w = Some (r, w')"
  obtain s v where g: "open_gate env' a b c w = (s, v)" by force
  then have "R w v" using open_gate [of env' a b c] by (metis keeps_def snd_conv)
  moreover have "w' = v \<or> R v w'"
    using d g assms by (cases s)
      (auto simp: default_handler_def bindW_def now_or_never_def split: option.splits if_splits)
  ultimately show "R w w'" by (blast intro: trans)
qed

end

subsection \<open>The orders of the program\<close>

lemma append_event_frame: "append_event ev d = Inr d' \<Longrightarrow>
    d' = d\<lparr>events := events d @ [assign_seq d ev]\<rparr>"
  by (auto simp: append_event_def insert_event_def insert_row_def split: if_splits)

lemma upsert_node_run_frame: "upsert_node_run i tid nid st cp mid d = Inr d' \<Longrightarrow>
    \<exists>rows. d' = d\<lparr>node_runs := rows\<rparr>"
  by (auto simp: upsert_node_run_def split: if_splits)

lemma save_grant_frame: "save_grant g d = Inr d' \<Longrightarrow> \<exists>rows. d' = d\<lparr>grants := rows\<rparr>"
  by (auto simp: save_grant_def insert_row_def split: if_splits)

lemma save_receipt_frame: "save_receipt t r d = Inr d' \<Longrightarrow>
    d' = d\<lparr>receipts := receipts d @ [r\<lparr>sr_created_at := t\<rparr>]\<rparr>"
  by (auto simp: save_receipt_def insert_row_def split: if_splits)

lemma upsert_task_run_frame: "\<exists>rows. upsert_task_run t tid c te st pl d = d\<lparr>task_runs := rows\<rparr>"
  by (auto simp: upsert_task_run_def)

lemmas frames = append_event_frame upsert_node_run_frame save_grant_frame save_receipt_frame

definition calls_order :: "(call \<Rightarrow> bool) \<Rightarrow> world \<Rightarrow> world \<Rightarrow> bool" where
  "calls_order P w w' \<longleftrightarrow> (\<exists>cs. w_calls w' = w_calls w @ cs \<and> (\<forall>cl \<in> set cs. P cl))"

interpretation calls: gate_order "calls_order P" env P tid for P env tid
proof unfold_locales
  fix u v w :: world
  assume "calls_order P u v" "calls_order P v w"
  then show "calls_order P u w" by (fastforce simp: calls_order_def)
qed (auto simp: calls_order_def)

definition good_receipt :: "env \<Rightarrow> signed_receipt \<Rightarrow> bool" where
  "good_receipt env r \<longleftrightarrow> is_obj (sr_envelope r) \<and>
     verify_receipt (en_pf env) (en_receipt_key env) r = Inr True"

definition receipts_order :: "env \<Rightarrow> world \<Rightarrow> world \<Rightarrow> bool" where
  "receipts_order env w w' \<longleftrightarrow>
     (\<exists>rs. receipts (w_db w') = receipts (w_db w) @ rs \<and> (\<forall>r \<in> set rs. good_receipt env r))"

lemma good_receipt_stored: "good_receipt env (r\<lparr>sr_created_at := t\<rparr>) = good_receipt env r"
  by (simp add: good_receipt_def verify_receipt_def)

interpretation signed: gate_order "receipts_order env" env "\<lambda>_. True" tid for env tid
proof unfold_locales
  fix u v w :: world
  assume "receipts_order env u v" "receipts_order env v w"
  then show "receipts_order env u w" by (fastforce simp: receipts_order_def)
next
  fix t contract template st plan and w :: world
  show "receipts_order env w (w\<lparr>w_db := upsert_task_run t tid contract template st plan (w_db w)\<rparr>)"
    using upsert_task_run_frame [of t tid contract template st plan "w_db w"]
    by (auto simp: receipts_order_def)
next
  fix r t d and w :: world
  assume "verify_receipt (en_pf env) (en_receipt_key env) r = Inr True" "is_obj (sr_envelope r)"
    "save_receipt t r (w_db w) = Inr d"
  then show "receipts_order env w (w\<lparr>w_db := d\<rparr>)"
    using good_receipt_stored [of env t r]
    by (auto simp: receipts_order_def good_receipt_def dest!: save_receipt_frame)
qed (auto simp: receipts_order_def update_node_state_def update_task_state_def
    dest!: append_event_frame upsert_node_run_frame save_grant_frame)

text \<open>The timeline of a task: its events are numbered from 1 without gaps, in the order they came.\<close>

definition numbered :: "int list \<Rightarrow> bool" where
  "numbered seqs \<longleftrightarrow> seqs = map int [1..<Suc (length seqs)]"

definition task_seqs :: "db \<Rightarrow> string \<Rightarrow> int list" where
  "task_seqs d tid = map ev_seq (filter (\<lambda>e. ev_task_run_id e = Some tid) (events d))"

definition gapless :: "db \<Rightarrow> bool" where
  "gapless d \<longleftrightarrow> (\<forall>tid. tid \<noteq> [] \<longrightarrow> numbered (task_seqs d tid))"

definition timeline_order :: "world \<Rightarrow> world \<Rightarrow> bool" where
  "timeline_order w w' \<longleftrightarrow> (\<exists>es. events (w_db w') = events (w_db w) @ es) \<and>
     (gapless (w_db w) \<longrightarrow> gapless (w_db w'))"

lemma numbered_snoc: "numbered xs \<Longrightarrow> x = int (Suc (length xs)) \<Longrightarrow> numbered (xs @ [x])"
  by (simp add: numbered_def)

lemma numbered_Max:
  assumes "numbered xs"
  shows "(if xs = [] then 0 else Max (set xs)) = int (length xs)"
proof (cases "xs = []")
  case False
  have "Max (set xs) = int (length xs)"
    by (subst assms [unfolded numbered_def], rule Max_eqI) (use False in \<open>auto simp del: upt_Suc simp: Suc_le_eq\<close>)
  with False show ?thesis by simp
qed simp

lemma gapless_assign:
  assumes "gapless d" "ev_seq ev = 0"
  shows "gapless (d\<lparr>events := events d @ [assign_seq d ev]\<rparr>)"
  unfolding gapless_def
proof (intro allI impI)
  fix tid :: string assume t: "tid \<noteq> []"
  let ?d = "d\<lparr>events := events d @ [assign_seq d ev]\<rparr>"
  have old: "numbered (task_seqs d tid)" using assms(1) t by (simp add: gapless_def)
  have same: "ev_task_run_id (assign_seq d ev) = ev_task_run_id ev"
    by (simp add: assign_seq_def split: option.splits)
  show "numbered (task_seqs ?d tid)"
  proof (cases "ev_task_run_id ev = Some tid")
    case True
    have "next_seq d tid = int (length (task_seqs d tid)) + 1"
      unfolding next_seq_def Let_def task_seqs_def [symmetric] numbered_Max [OF old] ..
    then have "ev_seq (assign_seq d ev) = int (Suc (length (task_seqs d tid)))"
      using True t assms(2) by (simp add: assign_seq_def)
    with numbered_snoc [OF old] same True show ?thesis by (simp add: task_seqs_def)
  next
    case False
    with same old show ?thesis by (simp add: task_seqs_def)
  qed
qed

lemma timeline_same_events: "events d = events (w_db w) \<Longrightarrow> timeline_order w (w\<lparr>w_db := d\<rparr>)"
  by (simp add: timeline_order_def gapless_def task_seqs_def)

interpretation timeline: gate_order timeline_order env "\<lambda>_. True" tid for env tid
proof unfold_locales
  fix u v w :: world
  assume "timeline_order u v" "timeline_order v w"
  then show "timeline_order u w" by (auto simp: timeline_order_def)
next
  fix t contract template st plan and w :: world
  show "timeline_order w (w\<lparr>w_db := upsert_task_run t tid contract template st plan (w_db w)\<rparr>)"
    using upsert_task_run_frame [of t tid contract template st plan "w_db w"]
    by (auto intro: timeline_same_events)
next
  fix ev d and w :: world
  assume "append_event ev (w_db w) = Inr d" "ev_seq ev = 0"
  then show "timeline_order w (w\<lparr>w_db := d\<rparr>)"
    using gapless_assign [of "w_db w" ev] by (auto simp: timeline_order_def dest!: append_event_frame)
qed (auto simp: timeline_order_def gapless_def task_seqs_def update_node_state_def update_task_state_def
    dest!: upsert_node_run_frame save_grant_frame save_receipt_frame)

subsection \<open>The row of a task\<close>

definition task_row :: "string \<Rightarrow> task_run_state \<Rightarrow> string option \<Rightarrow> db \<Rightarrow> bool" where
  "task_row tid st pl d \<longleftrightarrow>
     (\<exists>r. get_task_run d tid = Some r \<and> tr_state r = st \<and> tr_plan_id r = pl)"

definition task_has_plan :: "string \<Rightarrow> string option \<Rightarrow> db \<Rightarrow> bool" where
  "task_has_plan tid pl d \<longleftrightarrow> (\<exists>st. task_row tid st pl d)"

lemma task_row_upsert: "task_row tid st pl (upsert_task_run t tid c te st pl d)"
proof (cases "tid \<in> tr_id ` set (task_runs d)")
  case True
  then obtain r where "find (\<lambda>r. tr_id r = tid) (task_runs d) = Some r"
    by (metis (mono_tags, lifting) find_None_iff imageE not_None_eq)
  with True show ?thesis
    by (simp add: task_row_def upsert_task_run_def get_task_run_def find_update_where)
next
  case False
  then have "find (\<lambda>r. tr_id r = tid) (task_runs d) = None" by (auto simp: find_None_iff)
  with False show ?thesis
    by (simp add: task_row_def upsert_task_run_def get_task_run_def find_snoc)
qed

lemma task_row_update:
  "task_has_plan tid pl d \<Longrightarrow> task_row tid st pl (update_task_state t tid st d)"
  by (auto simp: task_has_plan_def task_row_def update_task_state_def get_task_run_def find_update_where)

definition tasks_same :: "world \<Rightarrow> world \<Rightarrow> bool" where
  "tasks_same w w' \<longleftrightarrow> task_runs (w_db w') = task_runs (w_db w)"

interpretation tasks: node_order tasks_same env "\<lambda>_. True" for env
  by unfold_locales (auto simp: tasks_same_def update_node_state_def dest!: frames)

lemma task_row_same: "tasks_same w w' \<Longrightarrow> task_row tid st pl (w_db w) \<Longrightarrow> task_row tid st pl (w_db w')"
  by (simp add: tasks_same_def task_row_def get_task_run_def)

lemma task_row_has_plan: "task_row tid st pl d \<Longrightarrow> task_has_plan tid pl d"
  unfolding task_has_plan_def by blast

definition plan_kept :: "string \<Rightarrow> string option \<Rightarrow> world \<Rightarrow> world \<Rightarrow> bool" where
  "plan_kept tid pl w w' \<longleftrightarrow> (task_has_plan tid pl (w_db w) \<longrightarrow> task_has_plan tid pl (w_db w'))"

lemma plan_kept_same: "tasks_same w w' \<Longrightarrow> plan_kept tid pl w w'"
  unfolding plan_kept_def task_has_plan_def using task_row_same by blast

interpretation plan: engine_order "plan_kept tid pl" for tid pl
  by unfold_locales (auto simp: plan_kept_def)

lemma plan_kept_tasks: "keeps tasks_same m \<Longrightarrow> keeps (plan_kept tid pl) m"
  unfolding keeps_def using plan_kept_same by blast

lemma plan_kept_set_task: "keeps (plan_kept tid pl) (set_task env tid st)"
  unfolding set_task_def
  by (intro plan.bind plan.modify_db plan_kept_tasks tasks.fresh)
    (auto simp: plan_kept_def intro: task_row_has_plan task_row_update)

lemma set_task_then:
  assumes "seqE (set_task env tid st) m w = (Inr x, w')" "keeps tasks_same m"
    "task_has_plan tid pl (w_db w)"
  shows "task_row tid st pl (w_db w')"
proof -
  obtain v where v: "set_task env tid st w = (Inr (), v)" "m v = (Inr x, w')"
    using seqE_Inr [OF assms(1)] by blast
  have "task_row tid st pl (w_db v)" using v(1) task_row_update [OF assms(3)]
    by (auto simp: set_task_def bindE_def now_def modify_db_def modify_def)
  with keepsD [OF assms(2) v(2)] show ?thesis by (rule task_row_same)
qed

lemma keeps_tasks_bits:
  "keeps tasks_same (gets f)" "keeps tasks_same (ok x)" "keeps tasks_same (close_bus tid)"
  "keeps tasks_same (emit env tid nrid kind pl)" "keeps tasks_same (run_outcome tid p st err rs)"
  "keeps tasks_same (record_decision env tid d)" "keeps tasks_same (run_until_gate env tid p)"
  "keeps tasks_same (run_node env tid p i prev force approval)"
  by (simp_all add: tasks.steps tasks.record_decision tasks.run_until_gate tasks.run_node run_outcome_def)

lemmas plan_kept_bits = keeps_tasks_bits [THEN plan_kept_tasks]

lemma plan_task_row:
  assumes "plan_task env tid contract label budget w = (Inr p, w')"
  shows "task_has_plan tid (Some (ep_plan_id p)) (w_db w')"
proof -
  let ?pl = "Some (ep_plan_id p)"
  let ?rest = "\<lambda>q. seqE (emit env tid None PLAN_CREATED
        [(''plan_id'', JStr (ep_plan_id q)), (''plan_digest'', JStr (plan_digest (en_pf env) q)),
         (''nodes'', str_list (map pn_node_id (ep_nodes q)))])
     (seqE (emit env tid None PLAN_SIGNED
        [(''plan_digest'', JStr (plan_digest (en_pf env) q)), (''signed_by'', JStr (ep_signed_by q))])
     (seqE (modify (\<lambda>w. w\<lparr>w_results := []\<rparr>))
     (seqE (set_task env tid TR_RUNNING)
     (ok q))))"
  obtain q v u where put: "put_task env tid contract TR_PLANNED (Some (ep_plan_id q)) v = (Inr (), u)"
    and rest: "?rest q u = (Inr p, w')"
    using assms unfolding plan_task_def by (blast dest: bindE_Inr seqE_Inr)
  have "returns (?rest q) p" using rest unfolding returns_def by blast
  then have q: "q = p" by (auto dest!: returns_seqE)
  have "task_has_plan tid ?pl (w_db u)"
    using put q task_row_has_plan [OF task_row_upsert]
    by (auto simp: put_task_def bindE_def now_def modify_db_def modify_def)
  moreover have "keeps (plan_kept tid ?pl) (?rest q)"
    by (intro plan.seq plan.pure plan_kept_set_task plan_kept_tasks keeps_tasks_bits tasks.modify tasks.result)
  then have "plan_kept tid ?pl u w'" using rest by (rule keepsD)
  ultimately show ?thesis unfolding plan_kept_def by blast
qed

lemma run_after_gate_row:
  assumes after: "run_after_gate env tid p d u = (r, w')" and u: "task_has_plan tid pl (w_db u)"
  shows "task_has_plan tid pl (w_db w') \<and>
    (r = Inr True \<longrightarrow> task_row tid TR_SUCCEEDED pl (w_db w')) \<and>
    (r = Inr False \<longrightarrow> task_row tid TR_CANCELLED pl (w_db w'))"
proof -
  have "keeps (plan_kept tid pl) (run_after_gate env tid p d)"
    unfolding run_after_gate_def run_completed_def run_cancelled_def
    by (simp add: plan.seq plan.bind plan.pure plan_kept_set_task plan_kept_bits)
  then have "plan_kept tid pl u w'" using after by (rule keepsD)
  with u have w': "task_has_plan tid pl (w_db w')" by (simp add: plan_kept_def)
  have row: "task_row tid (if b then TR_SUCCEEDED else TR_CANCELLED) pl (w_db w')" if r: "r = Inr b" for b
  proof -
    obtain u1 where rec: "record_decision env tid d u = (Inr (), u1)"
      and br: "(if approved d then seqE (run_completed env tid p d) (ok True)
        else seqE (run_cancelled env tid) (ok False)) u1 = (Inr b, w')"
      using after r unfolding run_after_gate_def by (blast dest: seqE_Inr)
    have u1: "task_has_plan tid pl (w_db u1)"
      using plan_kept_same [OF keepsD [OF keeps_tasks_bits(6) rec]] u by (simp add: plan_kept_def)
    show ?thesis
    proof (cases "approved d")
      case True
      then have b: "b" and c: "run_completed env tid p d u1 = (Inr (), w')"
        using br by (auto dest!: seqE_Inr simp: ok_def)
      obtain u2 where node: "run_node env tid p 5 (result_of ''merge'') None (Some d) u1 = (Inr (), u2)"
        and fin: "seqE (set_task env tid TR_SUCCEEDED) (bindE (gets (\<lambda>w. keys (w_results w)))
          (\<lambda>ks. emit env tid None TASK_COMPLETED [(''node_results_keys'', str_list ks)])) u2 = (Inr (), w')"
        using seqE_Inr [OF c [unfolded run_completed_def]] by blast
      have "task_has_plan tid pl (w_db u2)"
        using plan_kept_same [OF keepsD [OF keeps_tasks_bits(8) node]] u1 by (simp add: plan_kept_def)
      from set_task_then [OF fin _ this] b show ?thesis
        by (simp add: tasks.bind keeps_tasks_bits)
    next
      case False
      then have c: "\<not> b" "run_cancelled env tid u1 = (Inr (), w')"
        using br by (auto dest!: seqE_Inr simp: ok_def)
      from set_task_then [OF c(2) [unfolded run_cancelled_def] _ u1] c(1) show ?thesis
        by (simp add: tasks.seq keeps_tasks_bits)
    qed
  qed
  show ?thesis using w' row [of True] row [of False] by simp
qed

lemma run_body_row:
  assumes b: "run_body env h tid p w = Some (r, w')" and h: "handler_keeps tasks_same h"
    and w: "task_has_plan tid pl (w_db w)"
  shows "task_has_plan tid pl (w_db w') \<and>
    (r = Inr True \<longrightarrow> task_row tid TR_SUCCEEDED pl (w_db w')) \<and>
    (r = Inr False \<longrightarrow> task_row tid TR_CANCELLED pl (w_db w'))"
proof -
  obtain x v where gate: "run_until_gate env tid p w = (x, v)" by force
  have v: "task_has_plan tid pl (w_db v)"
    using plan_kept_same [OF keepsD [OF keeps_tasks_bits(7) gate]] w by (simp add: plan_kept_def)
  show ?thesis
  proof (cases x)
    case (Inl e)
    with b gate v show ?thesis by (auto simp: run_body_def bindW_def now_or_never_def)
  next
    case merged: (Inr merged)
    obtain y u where hy: "h tid ''human_approval'' merged v = Some (y, u)"
      using b gate merged by (auto simp: run_body_def bindW_def now_or_never_def split: option.splits)
    have u: "task_has_plan tid pl (w_db u)"
      using plan_kept_same h hy v unfolding handler_keeps_def plan_kept_def by blast
    show ?thesis
    proof (cases y)
      case (Inl e)
      with b gate merged hy u show ?thesis by (auto simp: run_body_def bindW_def now_or_never_def)
    next
      case (Inr d)
      with b gate merged hy have "run_after_gate env tid p d u = (r, w')"
        by (simp add: run_body_def bindW_def now_or_never_def)
      then show ?thesis using u by (rule run_after_gate_row)
    qed
  qed
qed

subsection \<open>Properties\<close>

lemma run_task_row:
  assumes run: "run env h tid contract label inputs budget w = Some (Inr res, w')"
    and h: "handler_keeps tasks_same h"
  shows "task_row tid (cr_state res) (Some (ep_plan_id (cr_plan res))) (w_db w') \<and>
    cr_state res \<in> {TR_SUCCEEDED, TR_FAILED, TR_CANCELLED} \<and>
    (cr_state res = TR_SUCCEEDED \<longleftrightarrow> cr_error res = None)"
proof -
  obtain p w1 where prefix: "seqE (receive_task env tid contract label inputs)
      (plan_task env tid contract label budget) w = (Inr p, w1)"
    using run by (auto simp: run_def bindW_def now_or_never_def split: option.splits sum.splits prod.splits)
  obtain r w2 where body: "run_body env h tid p w1 = Some (r, w2)"
    and fin: "run_finish env tid p r w2 = (Inr res, w')"
    using run prefix by (auto simp: run_def bindW_def now_or_never_def split: option.splits)
  obtain v where "plan_task env tid contract label budget v = (Inr p, w1)"
    using seqE_Inr [OF prefix] by blast
  note rows = run_body_row [OF body h plan_task_row [OF this]]
  show ?thesis
  proof (cases r)
    case (Inl e)
    have outcome: "cr_plan res = p" "cr_state res = TR_FAILED" "cr_error res \<noteq> None"
      using fin Inl by (auto simp: run_finish_def run_outcome_def gets_def dest!: seqE_Inr)
    have "seqE (set_task env tid TR_FAILED) (seqE (emit env tid None TASK_FAILED
        [(''reason'', JStr (exn_text env e)), (''error_type'', JStr (exn_type env e))]) (close_bus tid)) w2 = (Inr (), w')"
      using fin Inl by (auto simp: run_finish_def run_outcome_def gets_def run_failed_def dest!: seqE_Inr)
        (auto simp: seqE_def bindE_def)
    from set_task_then [OF this] rows have "task_row tid TR_FAILED (Some (ep_plan_id p)) (w_db w')"
      by (simp add: tasks.seq keeps_tasks_bits)
    with outcome show ?thesis by simp
  next
    case (Inr b)
    have "keeps tasks_same (run_finish env tid p r)"
      using Inr by (cases b) (simp_all add: run_finish_def tasks.seq tasks.bind tasks.getsE keeps_tasks_bits)
    then have "tasks_same w2 w'" using fin by (rule keepsD)
    moreover have "cr_plan res = p" "cr_state res = (if b then TR_SUCCEEDED else TR_CANCELLED)"
      "cr_error res = (if b then None else Some rejected_reason)"
      using fin Inr by (auto simp: run_finish_def run_outcome_def gets_def dest!: seqE_Inr bindE_Inr split: bool.splits)
    ultimately show ?thesis using rows Inr task_row_same by (cases b) auto
  qed
qed

text \<open>
  What a run reports is what the tables say: a run that returns a result leaves the task's row
  in the state of the result, with the id of the plan of the result, and that state is one of the
  three final ones, without an error exactly when it is success.
\<close>

theorem run_reports_task_state:
  assumes run: "run env h tid contract label inputs budget w = Some (Inr res, w')"
    and h: "handler_keeps tasks_same h"
  shows "task_row tid (cr_state res) (Some (ep_plan_id (cr_plan res))) (w_db w') \<and>
    cr_state res \<in> {TR_SUCCEEDED, TR_FAILED, TR_CANCELLED} \<and>
    (cr_state res = TR_SUCCEEDED \<longleftrightarrow> cr_error res = None)"
  using assms by (rule run_task_row)



lemma verify_rows_good:
  "\<forall>r \<in> set rows. good_receipt env r \<Longrightarrow> verify_rows env rows = Inr (map (\<lambda>r. (r, True)) rows)"
  by (induction rows) (auto simp: good_receipt_def bindS_def)


text \<open>
  C13. The audit trail of a run is append-only and gapless, also when the run fails or raises: the
  events of every task stay numbered 1, 2, 3, ... in the order they were written.
\<close>

theorem run_timeline_gapless:
  assumes "run env h tid contract label inputs budget w = Some (r, w')"
    and "handler_keeps timeline_order h" and "gapless (w_db w)"
  shows "gapless (w_db w') \<and> (\<exists>es. events (w_db w') = events (w_db w) @ es)"
proof -
  have "timeline_order w w'" by (rule timeline.run [OF assms(1,2)]) auto
  with assms(3) show ?thesis by (simp add: timeline_order_def)
qed

text \<open>
  Receipts name the plan by its id where their field, and the offline verifier, expect the
  plan's digest: the receipt a node of a planned task stores verifies against the receipt key, yet
  the offline check against the digest of the plan rejects it, unless the id happens to be it.
\<close>

theorem receipts_do_not_bind_the_plan_digest:
  assumes "give_receipt env c inputs res started ended w = (Inr (), w')"
    and "task_has_plan (nc_task c) (Some pid) (w_db w)" "pid \<noteq> plan_digest (en_pf env) p"
  shows "\<exists>r. receipts (w_db w') = receipts (w_db w) @ [r] \<and>
    verify_receipt (en_pf env) (en_receipt_key env) r = Inr True \<and>
    verify_receipt_offline (en_pf env) r (Some (plan_digest (en_pf env) p)) (Some (en_receipt_key env)) =
      Inr (Rejected ''plan_digest mismatch'')"
proof -
  have plan: "task_plan_id (nc_task c) w = Inr pid"
    using assms(2) by (auto simp: task_has_plan_def task_row_def task_plan_id_def)
  obtain rid t u d where
    saved: "save_receipt t (receipt_for env c pid inputs (ar_outputs res) started ended rid u) (w_db w) = Inr d"
    and w': "receipts (w_db w') = receipts d"
    using assms(1) plan
    by (auto simp: give_receipt_def bindE_def gets_def lift_def new_uuid_def now_def seqE_def try_db_def
        emit_def modify_def Let_def dest!: append_event_frame split: sum.splits prod.splits)
  let ?r = "receipt_for env c pid inputs (ar_outputs res) started ended rid u\<lparr>sr_created_at := t\<rparr>"
  have "receipts (w_db w') = receipts (w_db w) @ [?r]"
    using save_receipt_frame [OF saved] w' by simp
  moreover have "verify_receipt (en_pf env) (en_receipt_key env) ?r = Inr True"
    using verify_receipt_for by (simp add: verify_receipt_def)
  moreover have "verify_receipt_offline (en_pf env) ?r (Some (plan_digest (en_pf env) p)) (Some (en_receipt_key env)) =
      Inr (Rejected ''plan_digest mismatch'')"
    using assms(3) by (simp add: verify_receipt_offline_def receipt_for_def build_receipt_def verify_envelope
        receipt_payload_def Let_def) (simp add: cose_like_envelope_def Let_def)
  ultimately show ?thesis by blast
qed

text \<open>
  The signature the coordinator puts on its plan is not one the plan signer accepts: it covers
  the signer's name, which the plan signer leaves out of the body, so the signed plan verifies only
  if the two different bodies have the same MAC.
\<close>

theorem engine_signature_is_not_a_plan_signature:
  "plan_body (en_pf env) p \<noteq> JObj (ddel ''signature'' (plan_to_json (en_pf env) p)) \<and>
   (verify_plan (en_pf env) (is_key (en_issuer env)) (p\<lparr>ep_signature := Some (engine_sign_plan env p)\<rparr>) = Inr True \<longrightarrow>
     hmac_sign (en_pf env) (is_key (en_issuer env)) (plan_body (en_pf env) p) =
     hmac_sign (en_pf env) (is_key (en_issuer env)) (JObj (ddel ''signature'' (plan_to_json (en_pf env) p))))"
proof -
  have body: "plan_body (en_pf env) (p\<lparr>ep_signature := s\<rparr>) = plan_body (en_pf env) p" for s
    by (simp add: plan_body_def plan_to_json_def)
  show ?thesis
    by (auto simp: verify_plan_def body hmac.verify_iff engine_sign_plan_def split: if_splits)
      (simp add: plan_body_def plan_to_json_def)
qed

end
