(* ===== verification/Gate.thy ===== *)
theory Gate
  imports Engine
begin

section \<open>The approval gate\<close>

text \<open>
  How decisions reach a waiting run: what waking a gate says about the approval tables, and the two
  ways the gate and its row come apart (a gate opened over a row that is already decided, and the
  first of two required approvals).
\<close>

subsection \<open>Rows that are decided\<close>

definition terminal_row :: "db \<Rightarrow> string \<Rightarrow> bool" where
  "terminal_row d aid \<longleftrightarrow> (\<exists>row. find (\<lambda>a. ap_id a = aid) (approvals d) = Some row \<and>
     ap_state row \<in> {AS_APPROVED, AS_REJECTED, AS_EXPIRED})"

lemma terminal_row_append: "terminal_row d aid \<Longrightarrow> terminal_row (d\<lparr>approvals := approvals d @ rows\<rparr>) aid"
  by (auto simp: terminal_row_def find_snoc)

lemma terminal_row_decision:
  assumes "terminal_row d aid" "record_approval_decision i t aid' dec by tenant why d = Inr (out, d')"
  shows "terminal_row d' aid \<and> (aid' = aid \<longrightarrow> (\<exists>reason. out = NotApplied reason) \<and> d' = d)"
proof -
  obtain row where row: "find (\<lambda>a. ap_id a = aid) (approvals d) = Some row"
    "ap_state row \<in> {AS_APPROVED, AS_REJECTED, AS_EXPIRED}"
    using assms(1) by (auto simp: terminal_row_def)
  show ?thesis
  proof (cases "aid' = aid")
    case True
    with assms(2) row have "(\<exists>reason. out = NotApplied reason) \<and> d' = d"
      by (auto simp: record_approval_decision_def)
    with assms(1) show ?thesis by simp
  next
    case False
    have other: "find (\<lambda>a. ap_id a = aid) (update_where (\<lambda>a. ap_id a = aid') f rows) =
        find (\<lambda>a. ap_id a = aid) rows" if "\<And>a. ap_id (f a) = ap_id a" for f and rows :: "approval_row list"
      using False that by (induction rows) (auto simp: update_where_def)
    have "find (\<lambda>a. ap_id a = aid) (approvals d') = Some row"
      using assms(2)
      by (cases rule: record_Inr) (use row other in \<open>auto simp: apply_decision_def Let_def\<close>)
    with row(2) False show ?thesis by (simp add: terminal_row_def)
  qed
qed

subsection \<open>Decisions as operations\<close>

type_synonym decision_call = "string \<times> string \<times> string \<times> string \<times> string"

definition decide_step :: "env \<Rightarrow> world \<Rightarrow> decision_call \<Rightarrow> world" where
  "decide_step env w = (\<lambda>(tid, nid, dec, by, why). snd (decide_approval env tid nid dec by why w))"

definition decide_all :: "env \<Rightarrow> decision_call list \<Rightarrow> world \<Rightarrow> world" where
  "decide_all env ds w = foldl (decide_step env) w ds"

text \<open>A closed gate over a decided row.\<close>

definition stuck :: "string \<times> string \<Rightarrow> string \<Rightarrow> world \<Rightarrow> bool" where
  "stuck key aid w \<longleftrightarrow> terminal_row (w_db w) aid \<and>
     (\<exists>b. dget (w_approvals w) key = Some b \<and> \<not> bk_set b \<and> bucket_approval_id b = Some aid)"

definition stuck_kept :: "string \<times> string \<Rightarrow> string \<Rightarrow> world \<Rightarrow> world \<Rightarrow> bool" where
  "stuck_kept key aid w w' \<longleftrightarrow> (stuck key aid w \<longrightarrow> stuck key aid w')"

interpretation stuck: engine_order "stuck_kept key aid" for key aid
  by unfold_locales (auto simp: stuck_kept_def)

lemma stuck_fresh: "keeps (stuck_kept key aid) (new_uuid env)" "keeps (stuck_kept key aid) (now env)"
  by (simp_all add: keeps_def new_uuid_def now_def stuck_kept_def stuck_def)

lemma stuck_other_bucket: "key' \<noteq> key \<Longrightarrow> keeps (stuck_kept key aid) (bucket_prog key' f)"
  by (auto simp: keeps_def bucket_prog_def modify_def stuck_kept_def stuck_def dict_simps split: option.splits)

lemma stuck_save: "keeps (stuck_kept key aid) (try_db (save_approval i t n req dec))"
  by (intro stuck.try_db)
    (auto simp: stuck_kept_def stuck_def save_approval_def insert_row_def intro: terminal_row_append split: if_splits)

lemma stuck_decide_row: "keeps (stuck_kept key aid) (decide_row env aid' dec by tenant why)"
proof -
  have "keeps (stuck_kept key aid) (\<lambda>w. case record_approval_decision i t aid' dec by tenant why (w_db w) of
      Inl e \<Rightarrow> (Inl (DbExn e), w) | Inr (r, d) \<Rightarrow> (Inr r, w\<lparr>w_db := d\<rparr>))" for i t
    by (auto simp: keeps_def stuck_kept_def stuck_def dest: terminal_row_decision split: sum.splits)
  then show ?thesis unfolding decide_row_def by (intro stuck.bind stuck_fresh)
qed

lemma stuck_decision:
  assumes "stuck key aid w" "service_tenant env = Some tenant"
  shows "stuck key aid (snd (decide_approval env tid nid dec by why w))"
proof (cases "(tid, nid) = key")
  case False
  have "keeps (stuck_kept key aid) (decide_approval env tid nid dec by why)"
    unfolding decide_approval_def put_payload_def wake_def
    by (auto intro!: stuck.bind stuck.seq stuck.pure stuck_fresh stuck_other_bucket [OF False] stuck_save
        stuck_decide_row split: option.splits approval_outcome.splits)
  with assms(1) show ?thesis by (simp add: keeps_def stuck_kept_def)
next
  case True
  obtain b where b: "dget (w_approvals w) key = Some b" "\<not> bk_set b" "bucket_approval_id b = Some aid"
    using assms(1) by (auto simp: stuck_def)
  obtain r v where row: "decide_row env aid dec by tenant why w = (r, v)" by force
  have v: "stuck key aid v"
    using assms(1) keepsD [OF stuck_decide_row row] by (simp add: stuck_kept_def)
  have "(\<exists>reason. r = Inr (NotApplied reason)) \<or> (\<exists>e. r = Inl e)"
    using row terminal_row_decision assms(1)
    by (fastforce simp: decide_row_def bindE_def new_uuid_def now_def stuck_def split: sum.splits)
  then have "snd (decide_approval env tid nid dec by why w) = v"
    using row b True assms(2)
    by (auto simp: decide_approval_def bindE_def gets_def ok_def)
  with v show ?thesis by simp
qed

lemma stuck_decisions:
  "stuck key aid w \<Longrightarrow> service_tenant env = Some tenant \<Longrightarrow> stuck key aid (decide_all env ds w)"
proof (induction ds arbitrary: w)
  case (Cons d ds)
  then show ?case using stuck_decision by (auto simp: decide_all_def decide_step_def split: prod.splits)
qed (simp add: decide_all_def)

subsection \<open>Properties\<close>

lemma open_gate_stuck:
  assumes row: "find (\<lambda>a. ap_task_run_id a = tid \<and> ap_node_id a = nid) (approvals (w_db w)) = Some row"
    and final: "terminal_row (w_db w) (ap_id row)" and "ap_id row \<noteq> []"
    and "service_tenant env = Some tenant"
    and g: "open_gate env tid nid req w = (Inr (), w')"
  shows "stuck (tid, nid) (ap_id row) w'"
proof -
  let ?w1 = "w\<lparr>w_reads := Suc (w_reads w)\<rparr>"
  obtain w2 where r: "request_row env tid nid ?w1 = (Inr (Some (ap_id row)), w2)" and db: "w_db w2 = w_db w"
    using row assms(4)
    by (auto simp: request_row_def create_for_node_def bindE_def new_uuid_def now_def create_approval_def)
  show ?thesis
    using g r db final assms(3)
    by (auto simp: open_gate_def bindE_def seqE_def modify_def ok_def now_def stuck_def bucket_approval_id_def
        nonempty_def dict_simps emit_def new_uuid_def try_db_def terminal_row_def dest!: append_event_frame
        split: sum.splits prod.splits)
qed

text \<open>
  A gate opened over a row that is already decided never opens: the service returns the old
  row, every later decision on it is refused without waking the gate, so no sequence of decisions
  makes the default handler return one, and the run waits for ever.
\<close>

theorem decided_row_blocks_gate:
  assumes "find (\<lambda>a. ap_task_run_id a = tid \<and> ap_node_id a = nid) (approvals (w_db w)) = Some row"
    and "find (\<lambda>a. ap_id a = ap_id row) (approvals (w_db w)) = Some row"
    and "ap_state row \<in> {AS_APPROVED, AS_REJECTED, AS_EXPIRED}" "ap_id row \<noteq> []"
    and "service_tenant env = Some tenant"
  shows "default_handler env (\<lambda>v. Some (decide_all env ds v)) tid nid req w \<noteq> Some (Inr d, w')"
proof
  assume h: "default_handler env (\<lambda>v. Some (decide_all env ds v)) tid nid req w = Some (Inr d, w')"
  obtain v where g: "open_gate env tid nid req w = (Inr (), v)"
    and open_w: "\<exists>b. dget (w_approvals (decide_all env ds v)) (tid, nid) = Some b \<and> bk_set b"
    using h by (auto simp: default_handler_def bindW_def now_or_never_def
        split: prod.splits sum.splits option.splits if_splits)
  have "terminal_row (w_db w) (ap_id row)" using assms(2,3) by (auto simp: terminal_row_def)
  then have "stuck (tid, nid) (ap_id row) v"
    using open_gate_stuck [OF assms(1) _ assms(4,5) g] by simp
  from stuck_decisions [OF this assms(5), of ds] open_w show False by (auto simp: stuck_def)
qed

text \<open>
  C40. With the approval service, a gate is only opened by a decision the tables hold: what wakes a
  closed gate is a decision row of the coordinator's tenant, with the decision and the person the
  run then sees, recorded on a row of that tenant that was still open.
\<close>

theorem gate_opens_on_recorded_decision:
  assumes "decide_approval env tid nid decision by why w = (r, w')" "service_tenant env = Some tenant"
    and "dget (w_approvals w) (tid, nid) = Some b" "bucket_approval_id b = Some aid" "\<not> bk_set b"
    and "dget (w_approvals w') (tid, nid) = Some b'" "bk_set b'"
  shows "\<exists>entry \<in> set (approval_decisions (w_db w')). ad_approval_id entry = aid \<and>
    ad_decision entry = decision \<and> ad_decided_by entry = by \<and> ad_identity_tenant entry = tenant \<and>
    (dget (bk_payload b') ''decision'' = Some (JStr decision) \<and>
     dget (bk_payload b') ''decided_by'' = Some (JStr by)) \<and>
    (\<exists>row. find (\<lambda>a. ap_id a = aid) (approvals (w_db w)) = Some row \<and> ap_tenant_id row = tenant \<and>
       ap_state row \<in> {AS_PENDING, AS_FIRST_APPROVED})"
proof -
  obtain s v where row: "decide_row env aid decision by tenant why w = (s, v)" by force
  have same: "w_approvals v = w_approvals w"
    using row by (auto simp: decide_row_def bindE_def new_uuid_def now_def split: sum.splits prod.splits)
  obtain st version seen req where s: "s = Inr (Applied st version seen req)"
    using assms row same
    by (cases s) (auto simp: decide_approval_def bindE_def gets_def ok_def split: approval_outcome.splits)
  obtain i t d' where dec: "record_approval_decision i t aid decision by tenant why (w_db w) =
      Inr (Applied st version seen req, d')" and v: "w_db v = d'"
    using row s by (auto simp: decide_row_def bindE_def new_uuid_def now_def split: sum.splits)
  have w': "w_db w' = w_db v"
    and pl: "dget (bk_payload b') ''decision'' = Some (JStr decision) \<and>
      dget (bk_payload b') ''decided_by'' = Some (JStr by)"
    using assms row s same
    by (auto simp: decide_approval_def bindE_def gets_def now_def seqE_def put_payload_def wake_def
        bucket_prog_def modify_def decision_fields_def dict_simps dmerge_def split: option.splits)
  from dec show ?thesis
  proof (cases rule: record_Inr)
    case (applied row entry)
    have "entry \<in> set (approval_decisions (w_db w'))"
      using applied(10) v w' by (simp add: apply_decision_def Let_def)
    with applied pl show ?thesis by blast
  qed simp
qed

text \<open>
  A row that requires two approvers opens its gate at the first approval: the row is only
  first-approved, yet the waiting run is woken with an approval and goes on to write.
\<close>

theorem first_approval_opens_gate:
  assumes "find (\<lambda>a. ap_id a = aid) (approvals (w_db w)) = Some row" "ap_state row = AS_PENDING"
    and "ap_required_approvers row = 2" "ap_tenant_id row = tenant" "decisions_of (w_db w) aid = []"
    and "service_tenant env = Some tenant"
    and "dget (w_approvals w) (tid, nid) = Some b" "bucket_approval_id b = Some aid"
    and "''apvd:'' @ take 12 (en_uuid env (w_ids w)) \<notin> ad_id ` set (approval_decisions (w_db w))"
  shows "\<exists>w' b'. decide_approval env tid nid ''approve'' by why w = (Inr (), w') \<and>
    dget (w_approvals w') (tid, nid) = Some b' \<and> bk_set b' \<and> approved (bk_payload b') \<and>
    (\<exists>row'. find (\<lambda>a. ap_id a = aid) (approvals (w_db w')) = Some row' \<and> ap_state row' = AS_FIRST_APPROVED)"
  using assms
  by (auto simp: decide_approval_def bindE_def gets_def now_def seqE_def put_payload_def wake_def
      bucket_prog_def modify_def decision_fields_def dict_simps dmerge_def approved_def decide_row_def
      new_uuid_def record_approval_decision_def apply_decision_def Let_def find_update_where)

end
