(* ===== verification/RunExample.thy ===== *)
theory RunExample
  imports Gate
begin

section \<open>A run, executed\<close>

text \<open>
  A concrete coordinator without capabilities, run on a task: routing finds no candidate and no
  fallback, the plan is made and signed all the same, and the first node fails. The rules below
  execute programs by rewriting, one step of the program at a time; the properties of runs are
  instantiated at this run.
\<close>

subsection \<open>Execution by rewriting\<close>

definition resume :: "('a \<Rightarrow> ('w, 'e, 'b) action) \<Rightarrow> ('e + 'a) \<times> 'w \<Rightarrow> ('e + 'b) \<times> 'w" where
  "resume f p = (case p of (Inl e, w) \<Rightarrow> (Inl e, w) | (Inr x, w) \<Rightarrow> f x w)"

definition resumeW :: "('a \<Rightarrow> 'b wait) \<Rightarrow> ((exn + 'a) \<times> world) option \<Rightarrow> ((exn + 'b) \<times> world) option" where
  "resumeW f p = (case p of None \<Rightarrow> None | Some (Inl e, w) \<Rightarrow> Some (Inl e, w) | Some (Inr x, w) \<Rightarrow> f x w)"

lemma resume_cong: "p = p' \<Longrightarrow> resume f p = resume f p'" by simp
lemma resumeW_cong: "p = p' \<Longrightarrow> resumeW f p = resumeW f p'" by simp
lemma bindE_stop: "bindE m f = bindE m f" ..
lemma seqE_stop: "seqE m n = seqE m n" ..
lemma bindW_stop: "bindW m f = bindW m f" ..

lemma resume_simps: "resume f (Inl e, w) = (Inl e, w)" "resume f (Inr x, w) = f x w"
  by (simp_all add: resume_def)

lemma resumeW_simps: "resumeW f None = None" "resumeW f (Some (Inl e, w)) = Some (Inl e, w)"
  "resumeW f (Some (Inr x, w)) = f x w"
  by (simp_all add: resumeW_def)

lemma bindE_run: "bindE m f w = resume f (m w)"
  by (simp add: bindE_def resume_def)

lemma seqE_run: "seqE m n w = resume (\<lambda>_. n) (m w)"
  by (simp add: seqE_def bindE_run)

lemma bindW_run: "bindW m f w = resumeW f (m w)"
  by (simp add: bindW_def resumeW_def)

lemmas run_bind = resume_simps resumeW_simps bindE_run seqE_run bindW_run

lemma run_pure: "ok x w = (Inr x, w)" "raise e w = (Inl e, w)"
  by (simp_all add: ok_def raise_def)

lemma run_lift: "lift r w = (r, w)" by (simp add: lift_def)
lemma run_gets: "gets g w = (Inr (g w), w)" by (simp add: gets_def)
lemma run_modify: "modify h w = (Inr (), h w)" by (simp add: modify_def)
lemma run_getsE: "getsE f w = (f w, w)" by (simp add: getsE_def bindE_def gets_def lift_def)
lemma run_now_or_never: "now_or_never m w = Some (m w)" by (simp add: now_or_never_def)

lemma run_world: "modify_db k v = (Inr (), v\<lparr>w_db := k (w_db v)\<rparr>)"
  "try_db q v = (case q (w_db v) of Inl e \<Rightarrow> (Inl (DbExn e), v) | Inr d \<Rightarrow> (Inr (), v\<lparr>w_db := d\<rparr>))"
  "new_uuid env v = (Inr (en_uuid env (w_ids v)), v\<lparr>w_ids := Suc (w_ids v)\<rparr>)"
  "now env v = (Inr (en_clock env (w_reads v)), v\<lparr>w_reads := Suc (w_reads v)\<rparr>)"
  by (simp_all add: modify_def modify_db_def try_db_def new_uuid_def now_def)

lemmas run_prog = run_pure run_lift run_gets run_modify run_getsE run_now_or_never run_world

subsection \<open>The run\<close>

definition ex_pf :: platform where
  "ex_pf = \<lparr>sha256_hex = (\<lambda>_. ''h''), hmac_sha256 = (\<lambda>k m. ''s''), float_repr = (\<lambda>_. ''0.0''),
     fixed3 = (\<lambda>_. ''0''), iso_text = (\<lambda>_. ''t'')\<rparr>"

lemma ex_digests: "digest_json ex_pf v = ''h''" "plan_digest ex_pf p = ''h''" "hmac_sign ex_pf k j = b64_url ''s''"
  by (simp_all add: plan_digest_def hmac_sign_def digest_json_def digest_bytes_def ex_pf_def)

definition ex_env :: env where
  "ex_env = \<lparr>en_pf = ex_pf, en_tx = ex_textlib, en_uuid = (\<lambda>n. replicate n CHR ''u''), en_clock = int,
     en_latency = (\<lambda>_. 0), en_exn_text = (\<lambda>_. []), en_exn_type = (\<lambda>_. []), en_time_text = (\<lambda>_. []),
     en_store = [], en_pdp = decide [], en_adapters = [],
     en_issuer = \<lparr>is_key = ''k'', is_kid = ''kid'', is_ttl = 600\<rparr>, en_receipt_key = ''r'',
     en_receipt_kid = ''rk'', en_pep = None, en_tenant = Some ''acme'', en_service = True\<rparr>"

lemma ex_env_simps: "en_pf ex_env = ex_pf" "en_uuid ex_env n = replicate n CHR ''u''"
  "en_clock ex_env i = int i" "en_store ex_env = []" "en_pdp ex_env = decide []"
  "en_issuer ex_env = \<lparr>is_key = ''k'', is_kid = ''kid'', is_ttl = 600\<rparr>"
  by (simp_all add: ex_env_def)

definition ex_world :: world where
  "ex_world = \<lparr>w_db = empty_db, w_bus = None, w_calls = [], w_ids = 0, w_reads = 0, w_results = [],
     w_initial = None, w_approvals = []\<rparr>"

definition approving :: handler where
  "approving = (\<lambda>a b c w. Some (Inr [(''decision'', JStr ''approve'')], w))"

definition ex_inputs :: payload where
  "ex_inputs = [(''contract_text'', JStr ''c''), (''vendor_id'', JStr ''v'')]"

definition ex_run :: "((exn + run_result) \<times> world) option" where
  "ex_run = run ex_env approving ''t'' ''c'' public_label ex_inputs 1 ex_world"

lemmas ex_run_defs = run_bind run_prog ex_digests ex_env_simps ex_world_def empty_db_def ex_inputs_def Let_def
  run_def run_body_def run_until_gate_def run_node_def plan_node_at_def run_finish_def run_outcome_def run_failed_def
  receive_task_def check_inputs_def put_task_def upsert_task_run_def plan_task_def make_plan_def set_task_def
  update_task_state_def update_where_def emit_def append_event_def assign_seq_def insert_event_def insert_row_def
  event_refs_ok_def audit_event_def next_seq_def close_bus_def exec_node_def start_node_def store_get_def
  build_contract_review_plan_def review_order_def build_plan_node_def contract_review_template_def
  template_node_def key_exn_def engine_sign_plan_def review_nodes_def review_node_def route_node_def bind_node_def
  route_def compute_eligible_set_def store_all_def capability_ids_def dmerge_def default_purpose_def

lemma ex_run_fails:
  "case ex_run of Some (Inr res, w') \<Rightarrow>
     cr_state res = TR_FAILED \<and> w_calls w' = [] \<and> length (events (w_db w')) = 4
   | _ \<Rightarrow> False"
  by (simp add: ex_run_defs ex_run_def cong: bindE_stop seqE_stop resume_cong bindW_stop resumeW_cong)

lemma ex_run_result: "\<exists>res w'. ex_run = Some (Inr res, w') \<and> cr_state res = TR_FAILED \<and> length (events (w_db w')) = 4"
proof -
  have "(case p of Some (Inr res, w') \<Rightarrow> P res w' | _ \<Rightarrow> False) \<Longrightarrow> \<exists>res w'. p = Some (Inr res, w') \<and> P res w'"
    for p :: "((exn + run_result) \<times> world) option" and P
    by (auto split: option.splits prod.splits sum.splits)
  from this [OF ex_run_fails] show ?thesis by blast
qed

subsection \<open>Witnesses\<close>

lemma ex_run_facts:
  obtains res w' where "run ex_env approving ''t'' ''c'' public_label ex_inputs 1 ex_world = Some (Inr res, w')"
    "cr_state res = TR_FAILED" "length (events (w_db w')) = 4"
  using ex_run_result unfolding ex_run_def by blast

lemma approving_keeps: "(\<And>w. R w w) \<Longrightarrow> handler_keeps R approving"
  by (simp add: handler_keeps_def approving_def)

theorem run_reports_task_state_witness:
  "\<exists>res w'. ex_run = Some (Inr res, w') \<and> task_row ''t'' TR_FAILED (Some (ep_plan_id (cr_plan res))) (w_db w') \<and>
     cr_error res \<noteq> None"
proof -
  obtain res w' where r: "run ex_env approving ''t'' ''c'' public_label ex_inputs 1 ex_world = Some (Inr res, w')"
    and st: "cr_state res = TR_FAILED" by (rule ex_run_facts)
  from run_reports_task_state [OF r approving_keeps] st r show ?thesis
    by (auto simp: tasks_same_def ex_run_def)
qed




theorem run_timeline_gapless_witness:
  "\<exists>r w'. ex_run = Some (r, w') \<and> gapless (w_db w') \<and> length (events (w_db w')) = 4"
proof -
  obtain res w' where r: "run ex_env approving ''t'' ''c'' public_label ex_inputs 1 ex_world = Some (Inr res, w')"
    and n: "length (events (w_db w')) = 4" by (rule ex_run_facts)
  have "gapless (w_db ex_world)"
    by (simp add: ex_world_def empty_db_def gapless_def task_seqs_def numbered_def)
  from run_timeline_gapless [OF r approving_keeps this] n r show ?thesis
    by (auto simp: timeline_order_def ex_run_def)
qed

definition ex_row :: "approval_state \<Rightarrow> int \<Rightarrow> approval_row" where
  "ex_row st req = \<lparr>ap_id = ''apv:1'', ap_task_run_id = ''t'', ap_node_id = ''human_approval'',
     ap_tenant_id = ''acme'', ap_version = 0, ap_state = st, ap_required_approvers = req,
     ap_requested_at = 0, ap_requested_by = ''engine'', ap_ticket = None, ap_decided_at = None,
     ap_decision_payload = None\<rparr>"

definition ex_bucket :: bucket where
  "ex_bucket = \<lparr>bk_set = False, bk_requested_at = 0, bk_payload = [(''approval_id'', JStr ''apv:1'')]\<rparr>"

definition ex_gate :: "approval_state \<Rightarrow> int \<Rightarrow> world" where
  "ex_gate st req = ex_world\<lparr>w_db := empty_db\<lparr>approvals := [ex_row st req]\<rparr>,
     w_approvals := [((''t'', ''human_approval''), ex_bucket)]\<rparr>"

lemmas ex_gate_defs = ex_gate_def ex_row_def ex_bucket_def ex_world_def empty_db_def

lemma ex_gate_bucket:
  "service_tenant ex_env = Some ''acme''" "bucket_approval_id ex_bucket = Some ''apv:1''" "\<not> bk_set ex_bucket"
  "dget (w_approvals (ex_gate st req)) (''t'', ''human_approval'') = Some ex_bucket"
  by (simp_all add: ex_gate_defs service_tenant_def nonempty_def ex_env_def bucket_approval_id_def)

theorem decided_row_blocks_gate_witness:
  "\<nexists>d w'. default_handler ex_env
     (\<lambda>v. Some (decide_all ex_env [(''t'', ''human_approval'', ''approve'', ''bob'', ''ok'')] v))
     ''t'' ''human_approval'' [] (ex_gate AS_REJECTED 1) = Some (Inr d, w')"
proof -
  have "find (\<lambda>a. ap_task_run_id a = ''t'' \<and> ap_node_id a = ''human_approval'') (approvals (w_db (ex_gate AS_REJECTED 1))) =
      Some (ex_row AS_REJECTED 1)"
    "find (\<lambda>a. ap_id a = ap_id (ex_row AS_REJECTED 1)) (approvals (w_db (ex_gate AS_REJECTED 1))) = Some (ex_row AS_REJECTED 1)"
    "ap_state (ex_row AS_REJECTED 1) \<in> {AS_APPROVED, AS_REJECTED, AS_EXPIRED}" "ap_id (ex_row AS_REJECTED 1) \<noteq> []"
    by (simp_all add: ex_gate_defs)
  from decided_row_blocks_gate [OF this ex_gate_bucket(1)] show ?thesis by blast
qed

theorem first_approval_opens_gate_witness:
  "\<exists>w' b'. decide_approval ex_env ''t'' ''human_approval'' ''approve'' ''bob'' ''ok'' (ex_gate AS_PENDING 2) = (Inr (), w') \<and>
     dget (w_approvals w') (''t'', ''human_approval'') = Some b' \<and> bk_set b' \<and> approved (bk_payload b')"
proof -
  have "find (\<lambda>a. ap_id a = ''apv:1'') (approvals (w_db (ex_gate AS_PENDING 2))) = Some (ex_row AS_PENDING 2)"
    "ap_state (ex_row AS_PENDING 2) = AS_PENDING" "ap_required_approvers (ex_row AS_PENDING 2) = 2"
    "ap_tenant_id (ex_row AS_PENDING 2) = ''acme''" "decisions_of (w_db (ex_gate AS_PENDING 2)) ''apv:1'' = []"
    "''apvd:'' @ take 12 (en_uuid ex_env (w_ids (ex_gate AS_PENDING 2))) \<notin>
       ad_id ` set (approval_decisions (w_db (ex_gate AS_PENDING 2)))"
    by (simp_all add: ex_gate_defs decisions_of_def)
  from first_approval_opens_gate [OF this(1-5) ex_gate_bucket(1) ex_gate_bucket(4,2) this(6)]
  show ?thesis by blast
qed

theorem gate_opens_on_recorded_decision_witness:
  "\<exists>w'. decide_approval ex_env ''t'' ''human_approval'' ''approve'' ''bob'' ''ok'' (ex_gate AS_PENDING 1) = (Inr (), w') \<and>
     (\<exists>entry \<in> set (approval_decisions (w_db w')). ad_decided_by entry = ''bob'')"
proof -
  obtain w' b' where d: "decide_approval ex_env ''t'' ''human_approval'' ''approve'' ''bob'' ''ok''
      (ex_gate AS_PENDING 1) = (Inr (), w')"
    and b': "dget (w_approvals w') (''t'', ''human_approval'') = Some b'" "bk_set b'"
    by (simp add: decide_approval_def ex_gate_bucket decide_row_def bindE_def gets_def now_def new_uuid_def
        seqE_def put_payload_def wake_def bucket_prog_def modify_def)
      (simp add: ex_gate_defs record_approval_decision_def apply_decision_def decisions_of_def update_where_def Let_def dict_simps)
  from gate_opens_on_recorded_decision [OF d ex_gate_bucket(1) ex_gate_bucket(4,2,3) b'] d show ?thesis by blast
qed

definition ex_ctx :: node_ctx where
  "ex_ctx = \<lparr>nc_task = ''t'', nc_run = ''n'', nc_node = \<lparr>pn_node_id = ''write_sink'', pn_capability_id = ''c'',
       pn_manifest_id = ''m'', pn_purpose = default_purpose, pn_input_views = [], pn_expected_outputs = [],
       pn_timeout_ms = 1, pn_fallback_capability_id = None, pn_requires_approval = False, pn_status = ''pending''\<rparr>,
     nc_cap = ''c'', nc_manifest = ex_manifest ''c'' CK_SINK, nc_mid = ''m''\<rparr>"

definition ex_plan :: execution_plan where
  "ex_plan = \<lparr>ep_plan_id = ''plan-1'', ep_contract_id = ''c'', ep_template_id = ''contract-review'',
     ep_template_version = ''0.1.0'', ep_nodes = [], ep_edges = [], ep_routing = [], ep_created_at = 0,
     ep_signed_by = ''p0-local-signer'', ep_signature = None\<rparr>"

definition ex_running :: world where
  "ex_running = ex_world\<lparr>w_db := empty_db\<lparr>
     task_runs := [\<lparr>tr_id = ''t'', tr_contract_id = ''c'', tr_template_id = ''contract-review'',
       tr_state = TR_RUNNING, tr_plan_id = Some ''plan-1'', tr_created_at = 0, tr_updated_at = 0, tr_tenant_id = None\<rparr>],
     node_runs := [\<lparr>nr_id = ''n'', nr_task_run_id = ''t'', nr_node_id = ''write_sink'', nr_state = NR_RUNNING,
       nr_capability_id = None, nr_manifest_id = None, nr_started_at = None, nr_ended_at = None, nr_output = None\<rparr>]\<rparr>\<rparr>"

theorem receipts_do_not_bind_the_plan_digest_witness:
  "\<exists>w' r. give_receipt ex_env ex_ctx [] \<lparr>ar_outputs = [], ar_metadata = []\<rparr> 0 1 ex_running = (Inr (), w') \<and>
     receipts (w_db w') = [r] \<and>
     verify_receipt_offline ex_pf r (Some (plan_digest ex_pf ex_plan)) (Some ''r'') = Inr (Rejected ''plan_digest mismatch'')"
proof -
  obtain w' where g: "give_receipt ex_env ex_ctx [] \<lparr>ar_outputs = [], ar_metadata = []\<rparr> 0 1 ex_running = (Inr (), w')"
    by (simp add: give_receipt_def task_plan_id_def get_task_run_def ex_running_def ex_ctx_def ex_world_def empty_db_def
        run_bind run_prog ex_env_simps save_receipt_def insert_row_def receipt_for_def build_receipt_def emit_def
        append_event_def insert_event_def event_refs_ok_def assign_seq_def audit_event_def Let_def)
  have "task_has_plan (nc_task ex_ctx) (Some ''plan-1'') (w_db ex_running)" "''plan-1'' \<noteq> plan_digest (en_pf ex_env) ex_plan"
    by (simp_all add: task_has_plan_def task_row_def get_task_run_def ex_ctx_def ex_running_def ex_env_simps ex_digests)
  from receipts_do_not_bind_the_plan_digest [OF g this] g show ?thesis
    by (auto simp: ex_running_def ex_world_def empty_db_def ex_env_def)
qed

end
