(* ===== verification/Services.thy ===== *)
theory Services
  imports Effects EventStore
begin

section \<open>What the services share\<close>

text \<open>
  The break-glass service, the lifecycle manager and the tenant services are facades over the
  store. Their state is the database with the counters from which ids and instants are drawn; the
  environment gives the ids, the clock, Python's salted \<open>hash\<close> of a text and the database's text
  of an instant. A service with state of its own extends the record.
\<close>

subsection \<open>State and environment\<close>

record service_state =
  sv_db :: db
  sv_ids :: nat
  sv_reads :: nat

record service_env =
  se_uuid :: "nat \<Rightarrow> string"
  se_clock :: "nat \<Rightarrow> int"
  se_hash :: "string \<Rightarrow> int"
  se_time_text :: "int \<Rightarrow> string"

type_synonym ('s, 'e, 'a) service = "('s service_state_scheme, 'e, 'a) action"

definition sv_uuid :: "'x service_env_scheme \<Rightarrow> ('s, 'e, string) service" where
  "sv_uuid env = (\<lambda>w. (Inr (se_uuid env (sv_ids w)), w\<lparr>sv_ids := Suc (sv_ids w)\<rparr>))"

definition sv_now :: "'x service_env_scheme \<Rightarrow> ('s, 'e, int) service" where
  "sv_now env = (\<lambda>w. (Inr (se_clock env (sv_reads w)), w\<lparr>sv_reads := Suc (sv_reads w)\<rparr>))"

text \<open>A method of the store that may fail, and one that returns a value.\<close>

definition sv_try :: "(db_error \<Rightarrow> 'e) \<Rightarrow> (db \<Rightarrow> db_error + db) \<Rightarrow> ('s, 'e, unit) service" where
  "sv_try exn f = (\<lambda>w. case f (sv_db w) of
     Inl e \<Rightarrow> (Inl (exn e), w) | Inr d \<Rightarrow> (Inr (), w\<lparr>sv_db := d\<rparr>))"

definition sv_call :: "(db \<Rightarrow> 'a \<times> db) \<Rightarrow> ('s, 'e, 'a) service" where
  "sv_call f = (\<lambda>w. (Inr (fst (f (sv_db w))), w\<lparr>sv_db := snd (f (sv_db w))\<rparr>))"

definition sv_modify :: "(db \<Rightarrow> db) \<Rightarrow> ('s, 'e, unit) service" where
  "sv_modify f = modify (\<lambda>w. w\<lparr>sv_db := f (sv_db w)\<rparr>)"

subsection \<open>Text\<close>

text \<open>
  \<open>str.strip()\<close>: the encodings of the characters Python counts as white space, removed from the
  front and, read backwards, from the end.
\<close>

definition py_spaces :: "string list" where
  "py_spaces = map (map (char_of :: nat \<Rightarrow> char))
     ([[9], [10], [11], [12], [13], [28], [29], [30], [31], [32], [0xC2, 0x85], [0xC2, 0xA0],
       [0xE1, 0x9A, 0x80], [0xE2, 0x80, 0xA8], [0xE2, 0x80, 0xA9], [0xE2, 0x80, 0xAF],
       [0xE2, 0x81, 0x9F], [0xE3, 0x80, 0x80]] @ map (\<lambda>i. [0xE2, 0x80, 0x80 + i]) [0..<11])"

function strip_front :: "string list \<Rightarrow> string \<Rightarrow> string" where
  "strip_front ps s = (case find (\<lambda>p. p \<noteq> [] \<and> take (length p) s = p) ps of
     None \<Rightarrow> s | Some p \<Rightarrow> strip_front ps (drop (length p) s))"
  by auto
termination
proof (relation "measure (\<lambda>(ps, s). length s)", simp)
  fix ps and s p :: string
  assume "find (\<lambda>p. p \<noteq> [] \<and> take (length p) s = p) ps = Some p"
  then have "p \<noteq> []" "take (length p) s = p" by (auto dest: find_SomeD)
  then have "s \<noteq> []" by auto
  with \<open>p \<noteq> []\<close> show "((ps, drop (length p) s), ps, s) \<in> measure (\<lambda>(ps, s). length s)" by simp
qed

declare strip_front.simps [simp del]

definition py_strip :: "string \<Rightarrow> string" where
  "py_strip s = rev (strip_front (map rev py_spaces) (rev (strip_front py_spaces s)))"

text \<open>A printable ASCII character other than the space: it neither ends a line nor is white space.\<close>

definition plain :: "char \<Rightarrow> bool" where
  "plain c \<longleftrightarrow> (let n = of_char c :: nat in 33 \<le> n \<and> n < 127)"

lemma not_at_plain:
  assumes "plain c" "\<forall>p \<in> set ps. list_all (Not \<circ> plain) p"
  shows "find (\<lambda>p. p \<noteq> [] \<and> take (length p) (c # cs) = p) ps = None"
proof -
  have "\<not> (p \<noteq> [] \<and> take (length p) (c # cs) = p)" if p: "p \<in> set ps" for p
  proof
    assume match: "p \<noteq> [] \<and> take (length p) (c # cs) = p"
    then have "c \<in> set p" by (cases p) auto
    with p assms show False by (auto simp: list_all_iff)
  qed
  then show ?thesis unfolding find_None_iff by blast
qed

lemma not_plain_tables:
  "\<forall>p \<in> set py_spaces. list_all (Not \<circ> plain) p" "\<forall>p \<in> set (map rev py_spaces). list_all (Not \<circ> plain) p"
  by (simp_all add: py_spaces_def plain_def upt_rec of_char_of)

lemma strip_front_plain: "plain c \<Longrightarrow> \<forall>p \<in> set ps. list_all (Not \<circ> plain) p \<Longrightarrow> strip_front ps (c # cs) = c # cs"
  by (subst strip_front.simps) (simp only: not_at_plain option.case)

lemma strip_front_stops:
  assumes "plain c" "\<forall>p \<in> set ps. list_all (Not \<circ> plain) p"
  shows "\<exists>a'. strip_front ps (a @ c # b) = a' @ c # b"
proof (induction a rule: length_induct)
  case (1 a)
  show ?case
  proof (cases "find (\<lambda>p. p \<noteq> [] \<and> take (length p) (a @ c # b) = p) ps")
    case None
    then show ?thesis by (subst strip_front.simps) (simp only: option.case, blast)
  next
    case (Some p)
    then have p: "p \<in> set ps" "p \<noteq> []" "take (length p) (a @ c # b) = p" by (auto dest: find_SomeD)
    have "length p \<le> length a"
    proof (rule ccontr)
      assume "\<not> length p \<le> length a"
      then have "c \<in> set (take (length p) (a @ c # b))" by (cases "length p - length a") auto
      with p assms show False by (auto simp: list_all_iff)
    qed
    then have "drop (length p) (a @ c # b) = drop (length p) a @ c # b" by simp
    moreover have "length (drop (length p) a) < length a \<or> a = []" using p(2) \<open>length p \<le> length a\<close> by (cases a) auto
    moreover have "a \<noteq> []" using p(2) \<open>length p \<le> length a\<close> by auto
    ultimately have "\<exists>a'. strip_front ps (drop (length p) (a @ c # b)) = a' @ c # b" using 1 by simp
    with Some show ?thesis by (subst strip_front.simps) simp
  qed
qed

lemma py_strip_inner:
  assumes "plain c" "plain d"
  shows "\<exists>y. py_strip (c # x @ d # xs) = c # x @ d # y"
proof -
  have front: "strip_front py_spaces (c # x @ d # xs) = c # x @ d # xs"
    by (rule strip_front_plain [OF assms(1) not_plain_tables(1)])
  obtain a where "strip_front (map rev py_spaces) (rev xs @ d # rev (c # x)) = a @ d # rev (c # x)"
    using strip_front_stops [OF assms(2) not_plain_tables(2)] by blast
  then have "strip_front (map rev py_spaces) (rev (c # x @ d # xs)) = a @ d # rev (c # x)" by simp
  then have "py_strip (c # x @ d # xs) = rev (a @ d # rev (c # x))" by (simp only: py_strip_def front)
  then show ?thesis by (intro exI [of _ "rev a"]) simp
qed

lemma py_strip_plain:
  assumes "plain c" "plain d"
  shows "py_strip (c # x @ [d]) = c # x @ [d]"
proof -
  have "strip_front py_spaces (c # x @ [d]) = c # x @ [d]"
    by (rule strip_front_plain [OF assms(1) not_plain_tables(1)])
  moreover have "strip_front (map rev py_spaces) (d # rev (c # x)) = d # rev (c # x)"
    by (rule strip_front_plain [OF assms(2) not_plain_tables(2)])
  ultimately show ?thesis by (simp add: py_strip_def)
qed

subsection \<open>What a step of a service keeps\<close>

lemma keeps_fresh:
  "(\<And>w n. R w (w\<lparr>sv_ids := n\<rparr>)) \<Longrightarrow> keeps R (sv_uuid env)"
  "(\<And>w n. R w (w\<lparr>sv_reads := n\<rparr>)) \<Longrightarrow> keeps R (sv_now env)"
  by (simp_all add: keeps_def sv_uuid_def sv_now_def)

lemma keeps_try:
  assumes "\<And>w. R w w" "\<And>w d. f (sv_db w) = Inr d \<Longrightarrow> R w (w\<lparr>sv_db := d\<rparr>)"
  shows "keeps R (sv_try exn f)"
  using assms by (simp add: keeps_def sv_try_def split: sum.split)

lemma keeps_call: "(\<And>w. R w (w\<lparr>sv_db := snd (f (sv_db w))\<rparr>)) \<Longrightarrow> keeps R (sv_call f)"
  by (simp add: keeps_def sv_call_def)

lemma keeps_sv_modify: "(\<And>w. R w (w\<lparr>sv_db := f (sv_db w)\<rparr>)) \<Longrightarrow> keeps R (sv_modify f)"
  by (simp add: keeps_def sv_modify_def modify_def)

text \<open>
  An invariant of the tables, as the preorder \<open>if it held before, it holds after\<close>: any service
  whose steps keep it keeps it as a whole.
\<close>

definition db_kept :: "(db \<Rightarrow> bool) \<Rightarrow> 's service_state_scheme \<Rightarrow> 's service_state_scheme \<Rightarrow> bool" where
  "db_kept I w w' \<longleftrightarrow> (I (sv_db w) \<longrightarrow> I (sv_db w'))"

interpretation dbk: world_order "db_kept I"
  by unfold_locales (auto simp: db_kept_def)

lemma dbk_fresh: "keeps (db_kept I) (sv_uuid env)" "keeps (db_kept I) (sv_now env)"
  by (simp_all add: keeps_fresh db_kept_def)

lemma dbk_try: "(\<And>d d'. f d = Inr d' \<Longrightarrow> I d \<Longrightarrow> I d') \<Longrightarrow> keeps (db_kept I) (sv_try exn f)"
  by (rule keeps_try) (auto simp: db_kept_def)

lemma dbk_call: "(\<And>d. I d \<Longrightarrow> I (snd (f d))) \<Longrightarrow> keeps (db_kept I) (sv_call f)"
  by (rule keeps_call) (simp add: db_kept_def)

lemma dbk_modify: "(\<And>d. I d \<Longrightarrow> I (f d)) \<Longrightarrow> keeps (db_kept I) (sv_modify f)"
  by (rule keeps_sv_modify) (simp add: db_kept_def)

lemmas dbk_steps = dbk.pure dbk.bind dbk.seq dbk.best_effort dbk_fresh

lemma dbkD: "keeps (db_kept I) m \<Longrightarrow> I (sv_db w) \<Longrightarrow> I (sv_db (snd (m w)))"
  by (simp add: keeps_def db_kept_def)

end
