(* ===== verification/BreakGlass.thy ===== *)
theory BreakGlass
  imports Services
begin

section \<open>Break-glass\<close>

text \<open>
  \<open>orchestra/enterprise/break_glass.py\<close>: two-person, time-bounded overrides of a policy ceiling,
  over the store's methods, and the state and environment shared with the lifecycle manager.
  Audit events are written on a best-effort basis: their failure is swallowed. Python's salted
  \<open>hash\<close> of a text and the database's text of an instant are functions of the environment.
\<close>

subsection \<open>The effect ceiling\<close>

datatype break_glass_exn =
    BgContract string               \<comment> \<open>\<open>ContractViolation\<close>\<close>
  | BgEffectRejected string
  | BgUnhashable json               \<comment> \<open>\<open>TypeError\<close>\<close>
  | BgValidation
  | BgDb db_error

definition class_rank :: "string \<Rightarrow> nat option" where
  "class_rank s = dget [(''public'', 0), (''partner'', 1), (''internal'', 2), (''restricted'', 3)] s"

text \<open>\<open>current in order\<close>: a list or a dictionary cannot be hashed.\<close>

definition rank_of :: "json \<Rightarrow> break_glass_exn + nat option" where
  "rank_of v = (case v of JStr s \<Rightarrow> Inr (class_rank s) | JList _ \<Rightarrow> Inl (BgUnhashable v)
     | JObj _ \<Rightarrow> Inl (BgUnhashable v) | _ \<Rightarrow> Inr None)"

definition current_classification :: "json \<Rightarrow> json" where
  "current_classification scope =
     (case jget scope ''current_classification'' of None \<Rightarrow> JNull | Some v \<Rightarrow> v)"

definition downgrade_reason :: "string \<Rightarrow> string \<Rightarrow> string" where
  "downgrade_reason label current = ''label_override ('' @ label @
     '') is lower than resource's current classification ('' @ current @ '')''"

definition label_ceiling :: "json \<Rightarrow> json \<Rightarrow> break_glass_exn + string option" where
  "label_ceiling effect scope =
     (case jget effect ''label_override'' of
        Some (JStr label) \<Rightarrow>
          let current = current_classification scope in
          (case rank_of current of
             Inl e \<Rightarrow> Inl e
           | Inr None \<Rightarrow> Inr None
           | Inr (Some c) \<Rightarrow>
             (case class_rank label of
                None \<Rightarrow> Inr None
              | Some l \<Rightarrow> Inr (if l < c then Some (downgrade_reason label
                  (case current of JStr s \<Rightarrow> s | _ \<Rightarrow> [])) else None)))
      | _ \<Rightarrow> Inr None)"

definition check_effect_ceiling :: "json \<Rightarrow> json \<Rightarrow> break_glass_exn + string option" where
  "check_effect_ceiling effect scope =
     (if \<not> is_obj effect then Inr (Some ''effect must be a dict'')
      else if jget effect ''disable_egress_pep'' = Some (JBool True)
      then Inr (Some ''disable_egress_pep is forbidden (Zero-Egress invariant)'')
      else case label_ceiling effect scope of
        Inl e \<Rightarrow> Inl e
      | Inr (Some reason) \<Rightarrow> Inr (Some reason)
      | Inr None \<Rightarrow>
        if jget effect ''egress_view_name'' = Some (JStr ''egress.public'') \<and>
           current_classification scope = JStr ''restricted''
        then Inr (Some ''egress.public is forbidden for RESTRICTED resources'') else Inr None)"

subsection \<open>The window\<close>

definition hard_max_window_seconds :: int where "hard_max_window_seconds = 4 * 60 * 60"
definition default_window_seconds :: int where "default_window_seconds = 15 * 60"

definition clamp_window :: "int option \<Rightarrow> int option \<Rightarrow> int" where
  "clamp_window requested tenant_max =
     (if requested = None \<and> tenant_max = None then default_window_seconds
      else let candidate = (case requested of Some r \<Rightarrow> r | None \<Rightarrow> the tenant_max);
               cap = (case tenant_max of Some m \<Rightarrow> m | None \<Rightarrow> hard_max_window_seconds)
           in max 1 (min candidate (min cap hard_max_window_seconds)))"

definition resolve_tenant_max_window :: "string \<Rightarrow> int option" where
  "resolve_tenant_max_window tenant = None"

subsection \<open>The service\<close>

definition bg_emit :: "service_env \<Rightarrow> string \<Rightarrow> event_kind \<Rightarrow> string \<Rightarrow> (string, json) dict \<Rightarrow> string \<Rightarrow>
    ('s, break_glass_exn, unit) service" where
  "bg_emit env tid kind tenant pl actor =
     (if tid = [] then ok ()
      else bindE (sv_uuid env) (\<lambda>i. bindE (sv_now env) (\<lambda>t.
        best_effort (sv_try BgDb (append_event \<lparr>ev_id = i, ev_seq = 0, ev_task_run_id = Some tid,
          ev_node_run_id = None, ev_kind = kind, ev_occurred_at = t, ev_actor = actor,
          ev_payload = dset ''tenant_id'' (JStr tenant) pl, ev_prev_event_id = None,
          ev_tenant_id = None\<rparr>)))))"

text \<open>\<open>f'{n:07d}'\<close> of a number below ten million.\<close>

definition pad7 :: "int \<Rightarrow> string" where
  "pad7 n = (let s = string_of_int n in replicate (7 - length s) CHR ''0'' @ s)"

definition anchor_id :: "service_env \<Rightarrow> string \<Rightarrow> string \<Rightarrow> string" where
  "anchor_id env tenant marker =
     ''bg-anchor-'' @ tenant @ ''-'' @ pad7 (\<bar>se_hash env marker\<bar> mod 10000000)"

definition anchor_tenant_scoped_request :: "service_env \<Rightarrow> string \<Rightarrow> string \<Rightarrow> ('s, break_glass_exn, string) service" where
  "anchor_tenant_scoped_request env tenant marker =
     bindE (sv_now env) (\<lambda>t.
     seqE (sv_modify (upsert_task_run t (anchor_id env tenant marker) (''break-glass:'' @ marker)
       ''break-glass'' TR_RUNNING None))
     (ok (anchor_id env tenant marker)))"

record break_glass_args =
  ba_tenant_id :: string
  ba_purpose :: string
  ba_effect :: json
  ba_resource_scope :: json
  ba_requested_by :: string
  ba_ticket :: "string option"
  ba_window_seconds :: "int option"
  ba_task_run_id :: "string option"

definition check_request :: "break_glass_args \<Rightarrow> break_glass_exn + unit" where
  "check_request a =
     (if ba_tenant_id a = [] then Inl (BgContract ''tenant_id is required'')
      else if ba_purpose a = [] then Inl (BgContract ''purpose is required'')
      else if ba_requested_by a = [] then Inl (BgContract ''requested_by is required'')
      else case check_effect_ceiling (ba_effect a) (ba_resource_scope a) of
        Inl e \<Rightarrow> Inl e
      | Inr (Some reason) \<Rightarrow> Inl (BgEffectRejected reason)
      | Inr None \<Rightarrow> Inr ())"

definition bg_request_row :: "break_glass_args \<Rightarrow> string \<Rightarrow> int \<Rightarrow> string \<Rightarrow> break_glass_row" where
  "bg_request_row a i t tid = \<lparr>bg_request_id = ''bg:'' @ take 12 i, bg_tenant_id = ba_tenant_id a,
     bg_task_run_id = Some tid, bg_purpose = ba_purpose a, bg_effect = ba_effect a,
     bg_resource_scope = ba_resource_scope a, bg_ticket = ba_ticket a,
     bg_requested_by = ba_requested_by a, bg_requested_at = t, bg_state = BG_REQUESTED,
     bg_first_approver = None, bg_first_approved_at = None, bg_second_approver = None,
     bg_second_approved_at = None,
     bg_window_seconds = clamp_window (ba_window_seconds a) (resolve_tenant_max_window (ba_tenant_id a)),
     bg_activated_at = None, bg_expires_at = None, bg_revoked_by = None, bg_revoked_at = None,
     bg_revoke_reason = None\<rparr>"

definition bg_request_payload :: "break_glass_row \<Rightarrow> (string, json) dict" where
  "bg_request_payload r = [(''request_id'', JStr (bg_request_id r)), (''tenant_id'', JStr (bg_tenant_id r)),
     (''task_run_id'', opt_str (bg_task_run_id r)), (''purpose'', JStr (bg_purpose r)),
     (''ticket'', opt_str (bg_ticket r)), (''requested_by'', JStr (bg_requested_by r)),
     (''effect'', bg_effect r), (''resource_scope'', bg_resource_scope r),
     (''window_seconds'', JInt (bg_window_seconds r))]"

definition bg_request :: "service_env \<Rightarrow> break_glass_args \<Rightarrow> ('s, break_glass_exn, break_glass_row) service" where
  "bg_request env a =
     seqE (lift (check_request a))
     (bindE (case ba_task_run_id a of
          None \<Rightarrow> anchor_tenant_scoped_request env (ba_tenant_id a) (ba_purpose a)
        | Some tid \<Rightarrow> if tid = [] then anchor_tenant_scoped_request env (ba_tenant_id a) (ba_purpose a)
                     else ok tid) (\<lambda>tid.
     seqE (lift (if is_obj (ba_resource_scope a) then Inr () else Inl BgValidation))
     (bindE (sv_uuid env) (\<lambda>i. bindE (sv_now env) (\<lambda>t.
     let r = bg_request_row a i t tid in
     bindE (sv_now env) (\<lambda>stored.
     seqE (sv_try BgDb (create_break_glass_request stored r))
     (seqE (bg_emit env tid BREAK_GLASS_REQUESTED (ba_tenant_id a) (bg_request_payload r) (ba_requested_by a))
     (ok r))))))))"

definition anchor_of :: "db \<Rightarrow> string \<Rightarrow> string" where
  "anchor_of d rid = (case get_break_glass d rid of None \<Rightarrow> []
     | Some r \<Rightarrow> (case bg_task_run_id r of None \<Rightarrow> [] | Some tid \<Rightarrow> tid))"

definition bg_approve :: "service_env \<Rightarrow> string \<Rightarrow> string \<Rightarrow> string \<Rightarrow> string \<Rightarrow>
    ('s, break_glass_exn, break_glass_outcome) service" where
  "bg_approve env rid approver tenant rationale =
     bindE (sv_now env) (\<lambda>t.
     bindE (sv_call (record_break_glass_approval t rid approver tenant)) (\<lambda>out.
     bindE (gets (\<lambda>w. anchor_of (sv_db w) rid)) (\<lambda>tid.
     seqE (case out of
         BgFirstApproved \<Rightarrow> bg_emit env tid BREAK_GLASS_FIRST_APPROVED tenant
           [(''request_id'', JStr rid), (''approver'', JStr approver), (''rationale'', JStr rationale),
            (''required_next'', JStr ''second_approver'')] approver
       | BgActive expires \<Rightarrow> bg_emit env tid BREAK_GLASS_ACTIVE tenant
           [(''request_id'', JStr rid), (''second_approver'', JStr approver),
            (''rationale'', JStr rationale), (''expires_at'', JStr (se_time_text env expires))] approver
       | _ \<Rightarrow> ok ())
     (ok out))))"

definition bg_revoke :: "service_env \<Rightarrow> string \<Rightarrow> string \<Rightarrow> string \<Rightarrow> string \<Rightarrow>
    ('s, break_glass_exn, break_glass_outcome) service" where
  "bg_revoke env rid revoker tenant reason =
     bindE (sv_now env) (\<lambda>t.
     bindE (sv_call (revoke_break_glass t rid revoker tenant reason)) (\<lambda>out.
     bindE (gets (\<lambda>w. anchor_of (sv_db w) rid)) (\<lambda>tid.
     seqE (if out = BgRevoked then bg_emit env tid BREAK_GLASS_REVOKED tenant
           [(''request_id'', JStr rid), (''revoker'', JStr revoker), (''reason'', JStr reason)] revoker
         else ok ())
     (ok out))))"

fun bg_emit_expired :: "service_env \<Rightarrow> string list \<Rightarrow> ('s, break_glass_exn, unit) service" where
  "bg_emit_expired env [] = ok ()"
| "bg_emit_expired env (rid # rids) =
     bindE (gets (\<lambda>w. anchor_of (sv_db w) rid)) (\<lambda>tid.
     bindE (gets (\<lambda>w. case get_break_glass (sv_db w) rid of None \<Rightarrow> [] | Some r \<Rightarrow> bg_tenant_id r)) (\<lambda>tenant.
     seqE (bg_emit env tid BREAK_GLASS_EXPIRED tenant
       [(''request_id'', JStr rid), (''tenant_id'', JStr tenant)] ''orchestra.sweeper'')
     (bg_emit_expired env rids)))"

definition bg_sweep_expired :: "service_env \<Rightarrow> ('s, break_glass_exn, string list) service" where
  "bg_sweep_expired env =
     bindE (sv_now env) (\<lambda>t. bindE (sv_call (sweep_expired_break_glass t)) (\<lambda>rids.
     seqE (bg_emit_expired env rids) (ok rids)))"

definition is_active :: "db \<Rightarrow> string \<Rightarrow> bool" where
  "is_active d rid = (case get_break_glass d rid of None \<Rightarrow> False | Some r \<Rightarrow> bg_state r = BG_ACTIVE)"

subsection \<open>Sequences of calls\<close>

datatype break_glass_call =
    BcRequest break_glass_args
  | BcApprove string string string string      \<comment> \<open>request, approver, tenant, rationale\<close>
  | BcRevoke string string string string
  | BcSweep

fun bg_call :: "service_env \<Rightarrow> break_glass_call \<Rightarrow> service_state \<Rightarrow> service_state" where
  "bg_call env (BcRequest a) w = snd (bg_request env a w)"
| "bg_call env (BcApprove rid who tenant why) w = snd (bg_approve env rid who tenant why w)"
| "bg_call env (BcRevoke rid who tenant why) w = snd (bg_revoke env rid who tenant why w)"
| "bg_call env BcSweep w = snd (bg_sweep_expired env w)"

definition bg_calls :: "service_env \<Rightarrow> break_glass_call list \<Rightarrow> service_state \<Rightarrow> service_state" where
  "bg_calls env cs w = foldl (\<lambda>w c. bg_call env c w) w cs"

subsection \<open>The invariant\<close>

lemma clamp_window_bounds: "1 \<le> clamp_window req tmax \<and> clamp_window req tmax \<le> hard_max_window_seconds"
  by (auto simp: clamp_window_def Let_def hard_max_window_seconds_def default_window_seconds_def)

definition within_ceiling :: "break_glass_row \<Rightarrow> bool" where
  "within_ceiling r \<longleftrightarrow> check_effect_ceiling (bg_effect r) (bg_resource_scope r) = Inr None \<and>
     1 \<le> bg_window_seconds r \<and> bg_window_seconds r \<le> hard_max_window_seconds"

definition all_within :: "db \<Rightarrow> bool" where
  "all_within d \<longleftrightarrow> (\<forall>r \<in> set (break_glass_requests d). within_ceiling r)"

definition bg_service_inv :: "db \<Rightarrow> bool" where
  "bg_service_inv d \<longleftrightarrow> break_glass_inv d \<and> all_within d"

lemma within_ceiling_update [simp]:
  "within_ceiling (r\<lparr>bg_state := s\<rparr>) = within_ceiling r"
  "within_ceiling (r\<lparr>bg_first_approver := p\<rparr>) = within_ceiling r"
  "within_ceiling (r\<lparr>bg_first_approved_at := t\<rparr>) = within_ceiling r"
  "within_ceiling (r\<lparr>bg_second_approver := p\<rparr>) = within_ceiling r"
  "within_ceiling (r\<lparr>bg_second_approved_at := t\<rparr>) = within_ceiling r"
  "within_ceiling (r\<lparr>bg_activated_at := t\<rparr>) = within_ceiling r"
  "within_ceiling (r\<lparr>bg_expires_at := t\<rparr>) = within_ceiling r"
  "within_ceiling (r\<lparr>bg_revoked_by := p\<rparr>) = within_ceiling r"
  "within_ceiling (r\<lparr>bg_revoked_at := t\<rparr>) = within_ceiling r"
  "within_ceiling (r\<lparr>bg_revoke_reason := p\<rparr>) = within_ceiling r"
  by (simp_all add: within_ceiling_def)

lemma all_within_update:
  "all_within d \<Longrightarrow> (\<And>r. within_ceiling (f r) = within_ceiling r) \<Longrightarrow> all_within (update_break_glass rid f d)"
  by (auto simp: all_within_def update_break_glass_def set_update_where)

lemma bg_service_inv_approve:
  "bg_service_inv d \<Longrightarrow> bg_service_inv (snd (record_break_glass_approval t rid who tenant d))"
  unfolding bg_service_inv_def
  by (simp add: approve_break_glass_inv) (simp add: record_break_glass_approval_def all_within_update split: option.split)

lemma bg_service_inv_revoke:
  "bg_service_inv d \<Longrightarrow> bg_service_inv (snd (revoke_break_glass t rid who tenant why d))"
  unfolding bg_service_inv_def
  by (simp add: revoke_break_glass_inv) (simp add: revoke_break_glass_def all_within_update split: option.split)

lemma bg_service_inv_sweep: "bg_service_inv d \<Longrightarrow> bg_service_inv (snd (sweep_expired_break_glass t d))"
  unfolding bg_service_inv_def
  by (simp add: sweep_break_glass_inv) (auto simp: all_within_def sweep_expired_break_glass_def set_update_where)

lemma bg_service_inv_create:
  assumes "bg_service_inv d" "create_break_glass_request t r d = Inr d'" "within_ceiling r"
  shows "bg_service_inv d'"
proof -
  have "within_ceiling (r\<lparr>bg_requested_at := t\<rparr>)" using assms(3) by (simp add: within_ceiling_def)
  with assms(1,2) have "all_within d'"
    by (auto simp: create_break_glass_request_def insert_row_def bg_service_inv_def all_within_def
        within_ceiling_def split: if_splits)
  with assms(1,2) show ?thesis by (auto simp: bg_service_inv_def intro: create_break_glass_inv)
qed

lemma bg_service_inv_cong:
  "break_glass_requests d' = break_glass_requests d \<Longrightarrow> bg_service_inv d' = bg_service_inv d"
  by (simp add: bg_service_inv_def break_glass_inv_def all_within_def)

lemma break_glass_requests_append_event:
  "append_event ev d = Inr d' \<Longrightarrow> break_glass_requests d' = break_glass_requests d"
  by (auto simp: append_event_def insert_event_def insert_row_def split: if_splits)

lemma bg_kept_emit: "keeps (db_kept bg_service_inv) (bg_emit env tid kind tenant pl actor)"
proof (cases "tid = []")
  case True
  then show ?thesis by (simp add: bg_emit_def dbk.pure)
next
  case False
  have "keeps (db_kept bg_service_inv) (sv_try BgDb (append_event ev))" for ev
    by (rule dbk_try) (metis bg_service_inv_cong break_glass_requests_append_event)
  then show ?thesis
    unfolding bg_emit_def using False by (simp only: if_False) (intro dbk_steps)
qed

lemma bg_kept_anchor: "keeps (db_kept bg_service_inv) (anchor_tenant_scoped_request env tenant marker)"
  unfolding anchor_tenant_scoped_request_def
proof (intro dbk_steps dbk_modify)
  fix t d assume "bg_service_inv d"
  then show "bg_service_inv (upsert_task_run t (anchor_id env tenant marker) (''break-glass:'' @ marker)
       ''break-glass'' TR_RUNNING None d)"
    using bg_service_inv_cong [of "upsert_task_run t (anchor_id env tenant marker)
       (''break-glass:'' @ marker) ''break-glass'' TR_RUNNING None d" d]
    by (simp add: upsert_task_run_def)
qed

lemma check_request_Inr:
  "check_request a = Inr () \<Longrightarrow> check_effect_ceiling (ba_effect a) (ba_resource_scope a) = Inr None"
  by (auto simp: check_request_def split: if_splits sum.splits option.splits)

lemma bg_kept_create:
  assumes "check_request a = Inr ()"
  shows "keeps (db_kept bg_service_inv) (sv_try BgDb (create_break_glass_request now (bg_request_row a i t tid)))"
proof (rule dbk_try)
  fix d d' assume "create_break_glass_request now (bg_request_row a i t tid) d = Inr d'" "bg_service_inv d"
  moreover have "within_ceiling (bg_request_row a i t tid)"
    using check_request_Inr [OF assms] clamp_window_bounds by (simp add: within_ceiling_def bg_request_row_def)
  ultimately show "bg_service_inv d'" by (metis bg_service_inv_create)
qed

lemma bg_kept_request: "keeps (db_kept bg_service_inv) (bg_request env a)"
proof (cases "check_request a")
  case (Inl e)
  then show ?thesis by (simp add: bg_request_def seqE_def bindE_def lift_def keeps_def db_kept_def)
next
  case (Inr u)
  then have ok: "check_request a = Inr ()" by simp
  have anchor: "keeps (db_kept bg_service_inv) (case ba_task_run_id a of
      None \<Rightarrow> anchor_tenant_scoped_request env (ba_tenant_id a) (ba_purpose a)
    | Some tid \<Rightarrow> if tid = [] then anchor_tenant_scoped_request env (ba_tenant_id a) (ba_purpose a) else ok tid)"
    by (simp add: bg_kept_anchor dbk.pure split: option.split)
  show ?thesis
    unfolding bg_request_def Let_def
    by (intro dbk_steps anchor bg_kept_create [OF ok] bg_kept_emit)
qed

lemma bg_kept_approve: "keeps (db_kept bg_service_inv) (bg_approve env rid who tenant why)"
proof -
  have "keeps (db_kept bg_service_inv) (case out of
      BgFirstApproved \<Rightarrow> bg_emit env tid k1 tenant p1 who
    | BgActive expires \<Rightarrow> bg_emit env tid k2 tenant (p2 expires) who | _ \<Rightarrow> ok ())" for out tid k1 k2 p1 p2
    by (simp add: bg_kept_emit dbk.pure split: break_glass_outcome.split)
  note emitted = this
  show ?thesis
    unfolding bg_approve_def by (intro dbk_steps dbk_call bg_service_inv_approve emitted)
qed

lemma bg_kept_revoke: "keeps (db_kept bg_service_inv) (bg_revoke env rid who tenant why)"
proof -
  have emitted: "keeps (db_kept bg_service_inv) (if b then bg_emit env tid k tenant p who else ok ())" for b tid k p
    by (cases b) (simp_all add: bg_kept_emit dbk.pure)
  show ?thesis unfolding bg_revoke_def by (intro dbk_steps dbk_call bg_service_inv_revoke emitted)
qed

lemma bg_kept_expired: "keeps (db_kept bg_service_inv) (bg_emit_expired env rids)"
proof (induction rids)
  case Nil
  show ?case by (simp add: dbk.pure)
next
  case (Cons rid rids)
  then show ?case unfolding bg_emit_expired.simps by (intro dbk_steps bg_kept_emit)
qed

lemma bg_kept_sweep: "keeps (db_kept bg_service_inv) (bg_sweep_expired env)"
  unfolding bg_sweep_expired_def
  by (intro dbk_steps dbk_call bg_service_inv_sweep bg_kept_expired)

lemmas bg_kept_calls = bg_kept_request bg_kept_approve bg_kept_revoke bg_kept_sweep

lemma bg_calls_inv: "bg_service_inv (sv_db w) \<Longrightarrow> bg_service_inv (sv_db (bg_calls env cs w))"
proof (induction cs arbitrary: w)
  case (Cons c cs)
  have "bg_service_inv (sv_db (bg_call env c w))"
    by (cases c) (simp_all add: dbkD [OF bg_kept_request] dbkD [OF bg_kept_approve]
        dbkD [OF bg_kept_revoke] dbkD [OF bg_kept_sweep] Cons.prems)
  with Cons.IH show ?case by (simp add: bg_calls_def)
qed (simp add: bg_calls_def)

subsection \<open>Properties\<close>

text \<open>
  Whatever sequence of requests, approvals, revocations and sweeps the service executes, every
  stored request passed the effect ceiling, and every active one was activated by two persons other
  than the applicant and ends later than its activation, at most four hours after it.
\<close>

theorem break_glass_bounded:
  assumes "break_glass_requests (sv_db w) = []" "r \<in> set (break_glass_requests (sv_db (bg_calls env cs w)))"
  shows "check_effect_ceiling (bg_effect r) (bg_resource_scope r) = Inr None \<and>
    (bg_state r = BG_ACTIVE \<longrightarrow> two_persons r \<and>
       (\<exists>t e. bg_activated_at r = Some t \<and> bg_expires_at r = Some e \<and> t < e \<and> e \<le> t + 4 * 60 * 60 * 1000))"
proof -
  have "bg_service_inv (sv_db w)"
    using assms(1) by (simp add: bg_service_inv_def break_glass_inv_def all_within_def)
  then have "bg_service_inv (sv_db (bg_calls env cs w))" by (rule bg_calls_inv)
  with assms(2) have inv: "within_ceiling r" "break_glass_ok r"
    by (simp_all add: bg_service_inv_def break_glass_inv_def all_within_def)
  then show ?thesis
    by (auto simp: within_ceiling_def break_glass_ok.simps window_set_def hard_max_window_seconds_def)
qed

definition bg_example_env :: service_env where
  "bg_example_env = \<lparr>se_uuid = (\<lambda>n. replicate n CHR ''a''), se_clock = int,
     se_hash = (\<lambda>_. 0), se_time_text = (\<lambda>_. [])\<rparr>"

definition bg_example_calls :: "break_glass_call list" where
  "bg_example_calls =
     [BcRequest \<lparr>ba_tenant_id = ''T'', ba_purpose = ''incident'', ba_effect = JObj [],
        ba_resource_scope = JObj [], ba_requested_by = ''ann'', ba_ticket = None,
        ba_window_seconds = Some 99999, ba_task_run_id = Some ''t''\<rparr>,
      BcApprove ''bg:'' ''bob'' ''T'' [], BcApprove ''bg:'' ''cat'' ''T'' []]"

definition bg_example_row :: break_glass_row where
  "bg_example_row = \<lparr>bg_request_id = ''bg:'', bg_tenant_id = ''T'', bg_task_run_id = Some ''t'',
     bg_purpose = ''incident'', bg_effect = JObj [], bg_resource_scope = JObj [], bg_ticket = None,
     bg_requested_by = ''ann'', bg_requested_at = 1, bg_state = BG_ACTIVE,
     bg_first_approver = Some ''bob'', bg_first_approved_at = Some 3, bg_second_approver = Some ''cat'',
     bg_second_approved_at = Some 5, bg_window_seconds = 14400, bg_activated_at = Some 5,
     bg_expires_at = Some 14400005, bg_revoked_by = None, bg_revoked_at = None, bg_revoke_reason = None\<rparr>"

lemmas bg_example_simps = bg_example_env_def bg_example_calls_def bg_example_row_def bg_calls_def
  bg_request_def bg_approve_def check_request_def check_effect_ceiling_def label_ceiling_def
  current_classification_def bg_request_row_def clamp_window_def resolve_tenant_max_window_def
  hard_max_window_seconds_def bindE_def seqE_def ok_def lift_def gets_def best_effort_def
  sv_uuid_def sv_now_def sv_try_def sv_call_def create_break_glass_request_def insert_row_def
  bg_emit_def anchor_of_def get_break_glass_def record_break_glass_approval_def
  update_break_glass_def update_where_def empty_db_def append_event_def assign_seq_def
  insert_event_def event_refs_ok_def next_seq_def

lemma bg_example_run:
  "bg_example_row \<in> set (break_glass_requests (sv_db
     (bg_calls bg_example_env bg_example_calls \<lparr>sv_db = empty_db, sv_ids = 0, sv_reads = 0\<rparr>)))"
  by (simp add: bg_example_simps Let_def)

theorem break_glass_bounded_witness:
  "\<exists>t e. bg_activated_at bg_example_row = Some t \<and> bg_expires_at bg_example_row = Some e \<and>
     t < e \<and> e \<le> t + 4 * 60 * 60 * 1000"
  using break_glass_bounded [OF _ bg_example_run]
  by (simp add: bg_example_row_def empty_db_def)

text \<open>
  The window that is granted is the requested one where the limits allow it and the nearest
  limit otherwise: between one second and the tenant's maximum, never above four hours.
\<close>

theorem clamp_window_correct:
  "1 \<le> clamp_window req tmax \<and> clamp_window req tmax \<le> 14400 \<and>
   (\<forall>m. tmax = Some m \<longrightarrow> 1 \<le> m \<longrightarrow> clamp_window req tmax \<le> m) \<and>
   (\<forall>r. req = Some r \<longrightarrow> 1 \<le> r \<longrightarrow> r \<le> 14400 \<longrightarrow> (\<forall>m. tmax = Some m \<longrightarrow> r \<le> m) \<longrightarrow> clamp_window req tmax = r) \<and>
   (req = None \<and> tmax = None \<longrightarrow> clamp_window req tmax = 900)"
  by (auto simp: clamp_window_def Let_def hard_max_window_seconds_def default_window_seconds_def
      split: option.splits)

theorem clamp_window_correct_witness:
  "clamp_window (Some 600) (Some 1800) = 600 \<and> clamp_window (Some 99999) (Some 1800) \<le> 1800"
  using clamp_window_correct [of "Some 600" "Some 1800"] clamp_window_correct [of "Some 99999" "Some 1800"]
  by simp

text \<open>
  An expired override stays in force until somebody sweeps: \<open>is_active\<close> looks at the state
  only, so a request whose window has ended is still reported active.
\<close>

theorem active_after_expiry:
  assumes "get_break_glass d rid = Some r" "bg_state r = BG_ACTIVE" "bg_expires_at r = Some e" "e < now"
  shows "is_active d rid \<and> rid \<in> set (fst (sweep_expired_break_glass now d))"
proof -
  have "r \<in> set (break_glass_requests d)" "bg_request_id r = rid"
    using assms(1) by (auto simp: get_break_glass_def dest!: find_SomeD)
  with assms show ?thesis
    by (auto simp: is_active_def sweep_expired_break_glass_def bg_overdue_def)
qed

theorem active_after_expiry_witness:
  "is_active (empty_db\<lparr>break_glass_requests := [bg_example_row]\<rparr>) ''bg:'' \<and>
   ''bg:'' \<in> set (fst (sweep_expired_break_glass 99999999 (empty_db\<lparr>break_glass_requests := [bg_example_row]\<rparr>)))"
  by (rule active_after_expiry [where r = bg_example_row and e = 14400005])
    (simp_all add: get_break_glass_def bg_example_row_def)

text \<open>
  The ceiling can be passed by spelling: only the literal \<open>True\<close> disables the egress point in
  its eyes, and a downgrade is noticed only if the caller says what the current label is.
\<close>

theorem ceiling_bypass:
  "check_effect_ceiling (JObj [(''disable_egress_pep'', JInt 1)]) scope = Inr None \<and>
   check_effect_ceiling (JObj [(''label_override'', JStr ''public'')]) (JObj []) = Inr None \<and>
   check_effect_ceiling (JObj [(''egress_view_name'', JStr ''egress.public'')]) (JObj []) = Inr None"
  by (simp add: check_effect_ceiling_def label_ceiling_def current_classification_def rank_of_def Let_def)

end
