(* ===== verification/Webhooks.thy ===== *)
theory Webhooks
  imports Schema
begin

section \<open>Webhooks\<close>

text \<open>
  \<open>orchestra/webhooks/dispatcher.py\<close> and \<open>history.py\<close>, with the handlers of
  \<open>orchestra/api/app.py\<close> that use them: the signed delivery with its retries, the ring buffer of
  attempts per task, the delivery at the end of a task and the manual retry. The HTTP client is a
  parameter: the answer to a request, a status or a transport error, is a function of all
  requests made so far. Requests made and seconds slept are kept in a log.
\<close>

subsection \<open>The dispatcher\<close>

record webhook_config =
  wc_url :: string
  wc_secret :: string

record webhook_delivery =
  wd_delivered :: bool
  wd_attempts :: nat
  wd_last_status :: int
  wd_delivery_id :: string
  wd_error :: string

record webhook_post =
  wp_url :: string
  wp_body :: string
  wp_headers :: "(string, string) dict"

record http_log =
  hl_posts :: "webhook_post list"
  hl_sleeps :: "rat list"

type_synonym http_server = "webhook_post list \<Rightarrow> webhook_post \<Rightarrow> string + int"

record webhook_dispatcher =
  wx_max_attempts :: nat
  wx_backoff :: "rat list"

definition starts_with :: "string \<Rightarrow> string \<Rightarrow> bool" where
  "starts_with s p \<longleftrightarrow> take (length p) s = p"

definition webhook_is_valid :: "webhook_config \<Rightarrow> bool" where
  "webhook_is_valid c \<longleftrightarrow> wc_url c \<noteq> [] \<and> wc_secret c \<noteq> [] \<and>
     (starts_with (wc_url c) ''http://'' \<or> starts_with (wc_url c) ''https://'')"

text \<open>\<open>hexdigest()\<close> of the bytes of a digest.\<close>

definition hex_of_bytes :: "string \<Rightarrow> string" where
  "hex_of_bytes bs = concat (map (\<lambda>c. let n = of_char c :: nat in [hex_char (n div 16), hex_char (n mod 16)]) bs)"

definition sign_body :: "platform \<Rightarrow> string \<Rightarrow> string \<Rightarrow> string" where
  "sign_body pf secret body = ''sha256='' @ hex_of_bytes (hmac_sha256 pf secret body)"

record webhook_event =
  we_task_run_id :: string
  we_state :: string
  we_plan_id :: "string option"
  we_node_results :: "(string, json) dict"
  we_error :: "string option"

definition build_payload :: "int \<Rightarrow> webhook_event \<Rightarrow> string \<Rightarrow> json" where
  "build_payload now e did = JObj
     [(''event'', JStr (''task.'' @ we_state e)), (''delivery_id'', JStr did),
      (''task_run_id'', JStr (we_task_run_id e)), (''state'', JStr (we_state e)),
      (''plan_id'', opt_str (we_plan_id e)), (''node_results'', JObj (we_node_results e)),
      (''error'', opt_str (we_error e)), (''delivered_at'', JInt now)]"

definition delivery_post :: "platform \<Rightarrow> int \<Rightarrow> webhook_config \<Rightarrow> webhook_event \<Rightarrow> string \<Rightarrow> webhook_post" where
  "delivery_post pf now c e did =
     (let body = default_json (build_payload now e did)
      in \<lparr>wp_url = wc_url c, wp_body = body, wp_headers =
           [(''Content-Type'', ''application/json''),
            (''X-Orchestra-Signature'', sign_body pf (wc_secret c) body),
            (''X-Orchestra-Delivery-Id'', did),
            (''X-Orchestra-Event-Type'', ''task.'' @ we_state e)]\<rparr>)"

definition is_2xx :: "int \<Rightarrow> bool" where "is_2xx s \<longleftrightarrow> 200 \<le> s \<and> s < 300"

text \<open>
  \<open>self._backoff[min(attempt, len(self._backoff) - 1)]\<close>: with an empty schedule the index is
  \<open>-1\<close> and the access raises.
\<close>

datatype dispatch_error = BackoffIndexError

definition backoff_of :: "rat list \<Rightarrow> nat \<Rightarrow> dispatch_error + rat" where
  "backoff_of bs i = (if bs = [] then Inl BackoffIndexError else Inr (bs ! min i (length bs - 1)))"

text \<open>The loop over \<open>range(max_attempts)\<close>; \<open>left\<close> attempts remain, \<open>n\<close> were made.\<close>

fun deliver_loop :: "http_server \<Rightarrow> rat list \<Rightarrow> webhook_post \<Rightarrow> string \<Rightarrow> nat \<Rightarrow> nat \<Rightarrow> int \<Rightarrow> string \<Rightarrow>
    http_log \<Rightarrow> (dispatch_error + webhook_delivery) \<times> http_log" where
  "deliver_loop srv bs p did 0 n status err l =
     (Inr \<lparr>wd_delivered = False, wd_attempts = n, wd_last_status = status, wd_delivery_id = did,
       wd_error = err\<rparr>, l)"
| "deliver_loop srv bs p did (Suc left) n status err l =
     (let reply = srv (hl_posts l) p;
          l' = l\<lparr>hl_posts := hl_posts l @ [p]\<rparr>;
          status' = (case reply of Inl _ \<Rightarrow> status | Inr s \<Rightarrow> s);
          err' = (case reply of Inl e \<Rightarrow> e | Inr s \<Rightarrow> ''HTTP '' @ string_of_int s)
      in if (case reply of Inl _ \<Rightarrow> False | Inr s \<Rightarrow> is_2xx s)
         then (Inr \<lparr>wd_delivered = True, wd_attempts = Suc n, wd_last_status = status',
                wd_delivery_id = did, wd_error = []\<rparr>, l')
         else if left = 0 then deliver_loop srv bs p did left (Suc n) status' err' l'
         else case backoff_of bs n of
           Inl e \<Rightarrow> (Inl e, l')
         | Inr s \<Rightarrow> deliver_loop srv bs p did left (Suc n) status' err'
                     (l'\<lparr>hl_sleeps := hl_sleeps l' @ [s]\<rparr>))"

definition deliver :: "platform \<Rightarrow> http_server \<Rightarrow> webhook_dispatcher \<Rightarrow> int \<Rightarrow> webhook_config \<Rightarrow>
    webhook_event \<Rightarrow> string \<Rightarrow> http_log \<Rightarrow> (dispatch_error + webhook_delivery) \<times> http_log" where
  "deliver pf srv x now c e did l =
     (if \<not> webhook_is_valid c
      then (Inr \<lparr>wd_delivered = False, wd_attempts = 0, wd_last_status = 0, wd_delivery_id = did,
              wd_error = ''invalid webhook config (url or secret missing or scheme not http/https)''\<rparr>, l)
      else deliver_loop srv (wx_backoff x) (delivery_post pf now c e did) did (wx_max_attempts x) 0 0 [] l)"

definition default_dispatcher :: webhook_dispatcher where
  "default_dispatcher = \<lparr>wx_max_attempts = 3, wx_backoff = [1, 2, 4]\<rparr>"

subsection \<open>The history\<close>

record webhook_record =
  wr_delivery_id :: string
  wr_task_run_id :: string
  wr_state :: string
  wr_delivered :: bool
  wr_attempts :: nat
  wr_last_status :: int
  wr_error :: string
  wr_started_at :: string
  wr_url :: string
  wr_secret :: string
  wr_plan_id :: "string option"
  wr_node_results :: "(string, json) dict"
  wr_payload_error :: "string option"

type_synonym delivery_history = "(string, webhook_record list) dict"

definition from_delivery :: "string \<Rightarrow> webhook_delivery \<Rightarrow> webhook_config \<Rightarrow> webhook_event \<Rightarrow> string \<Rightarrow> webhook_record" where
  "from_delivery now d c e did = \<lparr>wr_delivery_id = did, wr_task_run_id = we_task_run_id e,
     wr_state = we_state e, wr_delivered = wd_delivered d, wr_attempts = wd_attempts d,
     wr_last_status = wd_last_status d, wr_error = wd_error d, wr_started_at = now,
     wr_url = wc_url c, wr_secret = wc_secret c, wr_plan_id = we_plan_id e,
     wr_node_results = we_node_results e, wr_payload_error = we_error e\<rparr>"

text \<open>\<open>to_dict\<close>: the secret is not in it.\<close>

definition record_to_dict :: "webhook_record \<Rightarrow> json" where
  "record_to_dict r = JObj
     [(''delivery_id'', JStr (wr_delivery_id r)), (''task_run_id'', JStr (wr_task_run_id r)),
      (''state'', JStr (wr_state r)), (''delivered'', JBool (wr_delivered r)),
      (''attempts'', JInt (int (wr_attempts r))), (''last_status'', JInt (wr_last_status r)),
      (''error'', JStr (wr_error r)), (''attempt_started_at'', JStr (wr_started_at r))]"

definition record_delivery :: "nat \<Rightarrow> webhook_record \<Rightarrow> delivery_history \<Rightarrow> delivery_history" where
  "record_delivery cap r h =
     dset (wr_task_run_id r) (deque_append cap (dget_default h (wr_task_run_id r) []) r) h"

definition for_task :: "delivery_history \<Rightarrow> string \<Rightarrow> webhook_record list" where
  "for_task h tid = dget_default h tid []"

definition last_failed :: "delivery_history \<Rightarrow> string \<Rightarrow> webhook_record option" where
  "last_failed h tid = find_last (\<lambda>r. \<not> wr_delivered r) (for_task h tid)"

text \<open>The closure of \<open>create_app\<close> that removes a record by its delivery id.\<close>

fun delete_webhook :: "string \<Rightarrow> delivery_history \<Rightarrow> bool \<times> delivery_history" where
  "delete_webhook did [] = (False, [])"
| "delete_webhook did ((tid, rs) # h) =
     (case find (\<lambda>r. wr_delivery_id r = did) rs of
        Some r \<Rightarrow> (True, (tid, remove1 r rs) # h)
      | None \<Rightarrow> let (found, h') = delete_webhook did h in (found, (tid, rs) # h'))"

subsection \<open>The handlers\<close>

text \<open>
  The application state. The handler at the end of a task reads the attributes
  \<open>_webhook_dispatcher\<close> and \<open>_webhook_history\<close>; the fields that are filled are called
  \<open>webhook_dispatcher\<close> and \<open>webhook_history\<close>, and the other handlers read those.
\<close>

record app_state =
  webhook_dispatcher :: "webhook_dispatcher option"
  webhook_history :: "delivery_history option"
  private_webhook_dispatcher :: "webhook_dispatcher option"
  private_webhook_history :: "delivery_history option"
  webhook_configs :: "(string, webhook_config) dict"

definition build_state :: app_state where
  "build_state = \<lparr>webhook_dispatcher = Some default_dispatcher, webhook_history = Some [],
     private_webhook_dispatcher = None, private_webhook_history = None, webhook_configs = []\<rparr>"

definition webhook_config_from_request :: "string option \<Rightarrow> string option \<Rightarrow> webhook_config option" where
  "webhook_config_from_request url secret =
     (case (url, secret) of
        (Some u, Some s) \<Rightarrow> if u = [] \<or> s = [] then None else Some \<lparr>wc_url = u, wc_secret = s\<rparr>
      | _ \<Rightarrow> None)"

definition submit_webhook :: "string \<Rightarrow> string option \<Rightarrow> string option \<Rightarrow> app_state \<Rightarrow> app_state" where
  "submit_webhook tid url secret s =
     (case webhook_config_from_request url secret of
        None \<Rightarrow> s
      | Some c \<Rightarrow> s\<lparr>webhook_configs := dset tid c (webhook_configs s)\<rparr>)"

definition wrap_with_webhook :: "platform \<Rightarrow> http_server \<Rightarrow> int \<Rightarrow> string \<Rightarrow> string \<Rightarrow> webhook_event \<Rightarrow>
    app_state \<times> http_log \<Rightarrow> app_state \<times> http_log" where
  "wrap_with_webhook pf srv now now_text did e = (\<lambda>(s, l).
     (case dget (webhook_configs s) (we_task_run_id e) of
        None \<Rightarrow> (s, l)
      | Some c \<Rightarrow>
        (case private_webhook_dispatcher s of
           None \<Rightarrow> (s, l)
         | Some x \<Rightarrow>
           (case deliver pf srv x now c e did l of
              (Inl _, l') \<Rightarrow> (s, l')
            | (Inr d, l') \<Rightarrow>
              (case private_webhook_history s of
                 None \<Rightarrow> (s, l')
               | Some h \<Rightarrow> (s\<lparr>private_webhook_history :=
                   Some (record_delivery 16 (from_delivery now_text d c e did) h)\<rparr>, l'))))))"

datatype retry_error = HistoryUnavailable | NoFailedDelivery string | DispatcherUnavailable
  | RetryDispatch dispatch_error

definition record_event :: "webhook_record \<Rightarrow> webhook_event" where
  "record_event r = \<lparr>we_task_run_id = wr_task_run_id r, we_state = wr_state r,
     we_plan_id = wr_plan_id r, we_node_results = wr_node_results r, we_error = wr_payload_error r\<rparr>"

definition record_config :: "webhook_record \<Rightarrow> webhook_config" where
  "record_config r = \<lparr>wc_url = wr_url r, wc_secret = wr_secret r\<rparr>"

definition admin_webhook_retry :: "platform \<Rightarrow> http_server \<Rightarrow> int \<Rightarrow> string \<Rightarrow> string \<Rightarrow> string \<Rightarrow>
    app_state \<times> http_log \<Rightarrow> (retry_error + webhook_delivery) \<times> app_state \<times> http_log" where
  "admin_webhook_retry pf srv now now_text did tid = (\<lambda>(s, l).
     (case webhook_history s of
        None \<Rightarrow> (Inl HistoryUnavailable, s, l)
      | Some h \<Rightarrow>
        (case last_failed h tid of
           None \<Rightarrow> (Inl (NoFailedDelivery tid), s, l)
         | Some r \<Rightarrow>
           (case webhook_dispatcher s of
              None \<Rightarrow> (Inl DispatcherUnavailable, s, l)
            | Some x \<Rightarrow>
              (case deliver pf srv x now (record_config r) (record_event r) did l of
                 (Inl e, l') \<Rightarrow> (Inl (RetryDispatch e), s, l')
               | (Inr d, l') \<Rightarrow> (Inr d, s\<lparr>webhook_history := Some (record_delivery 16
                    (from_delivery now_text d (record_config r) (record_event r) did) h)\<rparr>, l'))))))"

subsection \<open>The delivery loop\<close>

text \<open>
  What the loop should do, written over the number of the attempt: \<open>accepted\<close> says whether the
  server takes the \<open>i\<close>-th repetition of the request.
\<close>

definition accepted :: "http_server \<Rightarrow> webhook_post list \<Rightarrow> webhook_post \<Rightarrow> nat \<Rightarrow> bool" where
  "accepted srv before p i = (case srv (before @ replicate i p) p of Inl _ \<Rightarrow> False | Inr s \<Rightarrow> is_2xx s)"

definition refused :: "http_server \<Rightarrow> webhook_post list \<Rightarrow> webhook_post \<Rightarrow> nat \<Rightarrow> nat" where
  "refused srv before p m = length (takeWhile (\<lambda>i. \<not> accepted srv before p i) [0..<m])"

definition backoffs :: "rat list \<Rightarrow> nat \<Rightarrow> rat list" where
  "backoffs bs n = map (\<lambda>i. bs ! min i (length bs - 1)) [0..<n]"

lemma takeWhile_upt_Suc:
  "takeWhile P [n..<n + Suc k] = (if P n then n # takeWhile P [Suc n..<Suc n + k] else [])"
  by (simp add: upt_rec)

lemma replicate_shift: "before @ replicate n p @ [p] = before @ replicate (Suc n) p"
  by (simp add: replicate_append_same)

lemma deliver_loop_from:
  assumes "bs \<noteq> []" "hl_posts l = before @ replicate n p" "hl_sleeps l = ss @ backoffs bs n"
  shows "\<exists>d l'. deliver_loop srv bs p did left n status err l = (Inr d, l') \<and>
    (let k = length (takeWhile (\<lambda>i. \<not> accepted srv before p i) [n..<n + left]) in
       wd_delivered d = (k < left) \<and> wd_attempts d = n + min (Suc k) left \<and> wd_delivery_id d = did \<and>
       hl_posts l' = before @ replicate (n + min (Suc k) left) p \<and>
       hl_sleeps l' = ss @ backoffs bs (n + min k (left - 1)))"
  using assms(2,3)
proof (induction left arbitrary: n status err l)
  case 0
  then show ?case by simp
next
  case (Suc left)
  let ?l = "l\<lparr>hl_posts := hl_posts l @ [p]\<rparr>"
  have posts: "hl_posts ?l = before @ replicate (Suc n) p"
    using Suc.prems(1) replicate_shift [of before n p] by simp
  have acc: "accepted srv before p n = (case srv (hl_posts l) p of Inl _ \<Rightarrow> False | Inr s \<Rightarrow> is_2xx s)"
    by (simp add: accepted_def Suc.prems(1))
  show ?case
  proof (cases "accepted srv before p n")
    case True
    have k: "length (takeWhile (\<lambda>i. \<not> accepted srv before p i) [n..<n + Suc left]) = 0"
      using True by (simp add: takeWhile_upt_Suc del: upt_Suc add_Suc_right)
    show ?thesis
      unfolding k using True [unfolded acc] posts Suc.prems(2)
      by (simp add: Let_def)
  next
    case False
    note F = this
    show ?thesis
    proof (cases "left = 0")
      case True
      have k: "length (takeWhile (\<lambda>i. \<not> accepted srv before p i) [n..<n + Suc left]) = 1"
        using F True by (simp add: takeWhile_upt_Suc [of _ n 0, simplified])
      show ?thesis
        unfolding k using F [unfolded acc] True posts Suc.prems(2) by (simp add: Let_def)
    next
      case left: False
      let ?s = "?l\<lparr>hl_sleeps := hl_sleeps ?l @ [bs ! min n (length bs - 1)]\<rparr>"
      have "hl_posts ?s = before @ replicate (Suc n) p" using posts by simp
      moreover have "hl_sleeps ?s = ss @ backoffs bs (Suc n)"
        using Suc.prems(2) by (simp add: backoffs_def)
      ultimately obtain d l' where rec:
        "deliver_loop srv bs p did left (Suc n)
           (case srv (hl_posts l) p of Inl _ \<Rightarrow> status | Inr s \<Rightarrow> s)
           (case srv (hl_posts l) p of Inl e \<Rightarrow> e | Inr s \<Rightarrow> ''HTTP '' @ string_of_int s) ?s = (Inr d, l')"
        and fact: "let k = length (takeWhile (\<lambda>i. \<not> accepted srv before p i) [Suc n..<Suc n + left]) in
          wd_delivered d = (k < left) \<and> wd_attempts d = Suc n + min (Suc k) left \<and> wd_delivery_id d = did \<and>
          hl_posts l' = before @ replicate (Suc n + min (Suc k) left) p \<and>
          hl_sleeps l' = ss @ backoffs bs (Suc n + min k (left - 1))"
        using Suc.IH by blast
      let ?k = "length (takeWhile (\<lambda>i. \<not> accepted srv before p i) [Suc n..<Suc n + left])"
      have len: "length (takeWhile (\<lambda>i. \<not> accepted srv before p i) [n..<n + Suc left]) = Suc ?k"
        using F by (simp add: takeWhile_upt_Suc del: upt_Suc add_Suc_right)
      have "deliver_loop srv bs p did (Suc left) n status err l = (Inr d, l')"
        using F [unfolded acc] left rec assms(1) by (simp add: backoff_of_def Let_def)
      moreover have "Suc n + min ?k (left - 1) = n + min (Suc ?k) (Suc left - 1)"
        "Suc n + min (Suc ?k) left = n + min (Suc (Suc ?k)) (Suc left)" using left by simp_all
      ultimately show ?thesis
        using fact unfolding len Let_def by (simp only:) blast
    qed
  qed
qed

subsection \<open>Properties\<close>


definition ex_webhook_config :: webhook_config where
  "ex_webhook_config = \<lparr>wc_url = ''https://p'', wc_secret = ''s''\<rparr>"

definition ex_webhook_event :: webhook_event where
  "ex_webhook_event = \<lparr>we_task_run_id = ''t'', we_state = ''succeeded'', we_plan_id = None,
     we_node_results = [], we_error = None\<rparr>"


text \<open>The calls that reach the webhook state of the application.\<close>

datatype webhook_op =
    WSubmit string "string option" "string option"
  | WFinish int string string webhook_event
  | WRetry int string string string

fun webhook_call :: "platform \<Rightarrow> http_server \<Rightarrow> webhook_op \<Rightarrow> app_state \<times> http_log \<Rightarrow> app_state \<times> http_log" where
  "webhook_call pf srv (WSubmit tid url secret) sl = (submit_webhook tid url secret (fst sl), snd sl)"
| "webhook_call pf srv (WFinish now t did e) sl = wrap_with_webhook pf srv now t did e sl"
| "webhook_call pf srv (WRetry now t did tid) sl = snd (admin_webhook_retry pf srv now t did tid sl)"

definition unwired :: "app_state \<Rightarrow> bool" where
  "unwired s \<longleftrightarrow> private_webhook_dispatcher s = None \<and> webhook_history s = Some []"

lemma webhook_call_unwired:
  "unwired s \<Longrightarrow> \<exists>s'. webhook_call pf srv op (s, l) = (s', l) \<and> unwired s'"
proof (cases op)
  case (WFinish now t did e)
  assume "unwired s"
  with WFinish show ?thesis
    by (cases "dget (webhook_configs s) (we_task_run_id e)") (simp_all add: unwired_def wrap_with_webhook_def)
qed (auto simp: unwired_def submit_webhook_def admin_webhook_retry_def last_failed_def
    for_task_def dget_default_def find_last_def split: option.split)

text \<open>
  In the application as it is built no webhook is ever sent: whatever tasks are submitted with
  a webhook, finish, and are retried by an operator, no request leaves and the history stays
  empty, because the handler at the end of a task reads attributes that nothing sets.
\<close>

theorem webhooks_never_fire:
  "snd (fold (webhook_call pf srv) ops (build_state, l)) = l \<and>
   webhook_history (fst (fold (webhook_call pf srv) ops (build_state, l))) = Some []"
proof -
  have "\<exists>s'. fold (webhook_call pf srv) ops (s, l) = (s', l) \<and> unwired s'" if "unwired s" for s
    using that
  proof (induction ops arbitrary: s)
    case Nil
    then show ?case by simp
  next
    case (Cons op ops)
    obtain s1 where "webhook_call pf srv op (s, l) = (s1, l)" "unwired s1"
      using webhook_call_unwired [OF Cons.prems] by blast
    with Cons.IH show ?case by simp
  qed
  moreover have "unwired build_state" by (simp add: unwired_def build_state_def)
  ultimately obtain s' where "fold (webhook_call pf srv) ops (build_state, l) = (s', l)" "unwired s'" by blast
  then show ?thesis by (simp add: unwired_def)
qed

text \<open>What the ring buffers hold is a function of the records written.\<close>

definition last_n :: "nat \<Rightarrow> 'a list \<Rightarrow> 'a list" where
  "last_n n xs = drop (length xs - n) xs"

lemma deque_append_last_n: "deque_append n (last_n n xs) x = last_n n (xs @ [x])"
proof (cases "length xs < n")
  case True
  then show ?thesis by (simp add: deque_append_def last_n_def)
next
  case False
  then have "Suc (length xs) - n = Suc (length xs - n)" "length xs - (length xs - n) = n"
    by simp_all
  then show ?thesis using False
    by (cases "n = 0") (simp_all add: deque_append_def last_n_def)
qed

text \<open>
  The history is, for every task, the last records written for it, oldest first: at most the
  capacity, none out of order and none of another task; and the record a manual retry repeats is
  the newest failure among them.
\<close>

theorem history_keeps_last:
  "for_task (fold (record_delivery cap) rs []) tid = last_n cap (filter (\<lambda>r. wr_task_run_id r = tid) rs) \<and>
   last_failed (fold (record_delivery cap) rs []) tid =
     find (\<lambda>r. \<not> wr_delivered r) (rev (last_n cap (filter (\<lambda>r. wr_task_run_id r = tid) rs)))"
proof -
  have "for_task (fold (record_delivery cap) rs []) tid = last_n cap (filter (\<lambda>r. wr_task_run_id r = tid) rs)"
  proof (induction rs rule: rev_induct)
    case Nil
    then show ?case by (simp add: for_task_def dget_default_def last_n_def)
  next
    case (snoc r rs)
    then show ?case
      by (auto simp: for_task_def record_delivery_def dict_simps simp flip: deque_append_last_n)
  qed
  then show ?thesis by (simp add: last_failed_def find_last_def)
qed

text \<open>Removing a delivery takes away one record with that id, the first, and reports whether there was one.\<close>

lemma delete_webhook_reports:
  "fst (delete_webhook did h) \<longleftrightarrow> (\<exists>p \<in> set h. \<exists>r \<in> set (snd p). wr_delivery_id r = did)"
proof (induction did h rule: delete_webhook.induct)
  case (2 did tid rs h)
  show ?case
  proof (cases "find (\<lambda>r. wr_delivery_id r = did) rs")
    case None
    then have "\<not> (\<exists>r \<in> set rs. wr_delivery_id r = did)" by (simp add: find_None_iff)
    with None 2 show ?thesis by (cases "delete_webhook did h") simp
  next
    case (Some r)
    then show ?thesis using find_SomeD [OF Some] by auto
  qed
qed simp

lemma delete_webhook_absent: "\<not> fst (delete_webhook did h) \<Longrightarrow> snd (delete_webhook did h) = h"
  by (induction did h rule: delete_webhook.induct) (auto simp: Let_def split: option.splits prod.splits)

end
