(* ===== verification/Lifecycle.thy ===== *)
theory Lifecycle
  imports Services Webhooks
begin

section \<open>Retention, legal holds and deletion\<close>

text \<open>
  \<open>orchestra/enterprise/lifecycle.py\<close>: the \<open>LifecycleManager\<close> over the store's tables, the
  in-process artifact store and the webhook history, with the six deleter adapters. The wiring the
  manager was constructed with is in the environment, and so is the one failure the handlers react
  to that does not come from the program: a lookup of a receipt that raises.
\<close>

subsection \<open>State, wiring and errors\<close>

text \<open>
  What the constructor got as artifact store: nothing, the in-memory development store, or an
  object whose \<open>delete\<close> raises (the text of the exception), as the interface class does.
\<close>

datatype artifact_wiring = NoArtifactStore | DevStore | OtherStore string

record lifecycle_state = service_state +
  lc_artifacts :: "(string, json) dict"
  lc_history :: delivery_history
  lc_lookups :: nat

record lifecycle_env = service_env +
  le_pf :: platform
  le_artifact_store :: artifact_wiring
  le_webhook_deleter :: "(string \<Rightarrow> delivery_history \<Rightarrow> (string + bool) \<times> delivery_history) option"
  le_receipt_fault :: "nat \<Rightarrow> (string \<times> string) option"     \<comment> \<open>type and text of the exception\<close>

datatype lifecycle_exn =
    LcValue string
  | LcBlocked string string resource_kind string       \<comment> \<open>hold, case, kind, resource\<close>
  | LcRetained resource_kind string
  | LcCrossTenant string string                        \<comment> \<open>expected, actual\<close>
  | LcAdapter string string                            \<comment> \<open>type and text of an adapter's exception\<close>
  | LcMissingRow
  | LcDb db_error

type_synonym 'a manager = "(lifecycle_state, lifecycle_exn, 'a) action"

text \<open>\<open>InMemoryDevArtifactStore\<close>; a payload \<open>None\<close> is removed, but reported as absent.\<close>

definition dev_put :: "string \<Rightarrow> json \<Rightarrow> (string, json) dict \<Rightarrow> (string, json) dict" where
  "dev_put aid payload d = dset aid payload d"

definition dev_delete :: "string \<Rightarrow> (string, json) dict \<Rightarrow> bool \<times> (string, json) dict" where
  "dev_delete aid d = (dget d aid \<noteq> None \<and> dget d aid \<noteq> Some JNull, ddel aid d)"

definition dev_exists :: "string \<Rightarrow> (string, json) dict \<Rightarrow> bool" where
  "dev_exists aid d \<longleftrightarrow> aid \<in> set (keys d)"

subsection \<open>Evidence\<close>

record kept_resource =
  kr_kind :: string
  kr_id :: string
  kr_reason :: string

record deletion_evidence =
  de_deletion_id :: string
  de_copies_deleted :: int
  de_copies_kept :: int
  de_kept_resources :: "kept_resource list"
  de_payload_digest :: "string option"
  de_completed_at :: string

definition kept_json :: "kept_resource \<Rightarrow> json" where
  "kept_json k = JObj [(''kind'', JStr (kr_kind k)), (''id'', JStr (kr_id k)), (''reason'', JStr (kr_reason k))]"

definition evidence_json :: "deletion_evidence \<Rightarrow> json" where
  "evidence_json e = JObj
     [(''deletion_id'', JStr (de_deletion_id e)), (''copies_deleted'', JInt (de_copies_deleted e)),
      (''copies_kept'', JInt (de_copies_kept e)),
      (''kept_resources'', JList (map kept_json (de_kept_resources e))),
      (''payload_digest'', opt_str (de_payload_digest e)), (''completed_at'', JStr (de_completed_at e))]"

text \<open>
  \<open>_coerce_evidence\<close> on the values the column gets: what \<open>evidence_json\<close> wrote. A value that is
  not such an object is no evidence.
\<close>

fun kept_of_json :: "json \<Rightarrow> kept_resource option" where
  "kept_of_json v = (case (jget v ''kind'', jget v ''id'', jget v ''reason'') of
     (Some (JStr k), Some (JStr i), Some (JStr r)) \<Rightarrow> Some \<lparr>kr_kind = k, kr_id = i, kr_reason = r\<rparr>
   | _ \<Rightarrow> None)"

fun kept_list_of_json :: "json list \<Rightarrow> kept_resource list option" where
  "kept_list_of_json [] = Some []"
| "kept_list_of_json (v # vs) = (case (kept_of_json v, kept_list_of_json vs) of
     (Some k, Some ks) \<Rightarrow> Some (k # ks) | _ \<Rightarrow> None)"

definition coerce_evidence :: "json option \<Rightarrow> deletion_evidence option" where
  "coerce_evidence raw =
     (case raw of None \<Rightarrow> None | Some v \<Rightarrow>
      (case (jget v ''deletion_id'', jget v ''copies_deleted'', jget v ''copies_kept'',
             jget v ''kept_resources'', jget v ''completed_at'') of
         (Some (JStr i), Some (JInt n), Some (JInt m), Some (JList ks), Some (JStr t)) \<Rightarrow>
           (case (kept_list_of_json ks, jget v ''payload_digest'') of
              (Some rs, Some JNull) \<Rightarrow> Some \<lparr>de_deletion_id = i, de_copies_deleted = n, de_copies_kept = m,
                 de_kept_resources = rs, de_payload_digest = None, de_completed_at = t\<rparr>
            | (Some rs, Some (JStr g)) \<Rightarrow> Some \<lparr>de_deletion_id = i, de_copies_deleted = n, de_copies_kept = m,
                 de_kept_resources = rs, de_payload_digest = Some g, de_completed_at = t\<rparr>
            | _ \<Rightarrow> None)
       | _ \<Rightarrow> None))"

text \<open>The job as callers see it.\<close>

record deletion_job =
  jb_job_id :: string
  jb_tenant_id :: string
  jb_resource_kind :: resource_kind
  jb_resource_id :: string
  jb_state :: deletion_state
  jb_attempt :: nat
  jb_max_attempts :: int
  jb_requested_at :: string
  jb_requested_by :: string
  jb_completed_at :: "string option"
  jb_last_error :: "string option"
  jb_evidence :: "deletion_evidence option"

definition row_to_job :: "lifecycle_env \<Rightarrow> job_row \<Rightarrow> deletion_job" where
  "row_to_job env r = \<lparr>jb_job_id = dj_job_id r, jb_tenant_id = dj_tenant_id r,
     jb_resource_kind = dj_resource_kind r, jb_resource_id = dj_resource_id r, jb_state = dj_state r,
     jb_attempt = dj_attempt r, jb_max_attempts = dj_max_attempts r,
     jb_requested_at = se_time_text env (dj_requested_at r), jb_requested_by = dj_requested_by r,
     jb_completed_at = map_option (se_time_text env) (dj_completed_at r), jb_last_error = dj_last_error r,
     jb_evidence = coerce_evidence (dj_evidence r)\<rparr>"

subsection \<open>Audit\<close>

text \<open>
  \<open>_emit_audit\<close>: one fresh id for a name that is not used, one for the event; the row has no task,
  no node and the number 0, and a failure is swallowed.
\<close>

definition emit_audit :: "lifecycle_env \<Rightarrow> event_kind \<Rightarrow> string \<Rightarrow> (string, json) dict \<Rightarrow> unit manager" where
  "emit_audit env kind actor pl =
     bindE (sv_uuid env) (\<lambda>synthetic. bindE (sv_uuid env) (\<lambda>i. bindE (sv_now env) (\<lambda>t.
       best_effort (sv_try LcDb (insert_event \<lparr>ev_id = i, ev_seq = 0, ev_task_run_id = None,
         ev_node_run_id = None, ev_kind = kind, ev_occurred_at = t, ev_actor = actor, ev_payload = pl,
         ev_prev_event_id = None, ev_tenant_id = None\<rparr>)))))"

subsection \<open>Policies and holds\<close>

definition set_policy :: "lifecycle_env \<Rightarrow> string \<Rightarrow> resource_kind \<Rightarrow> int \<Rightarrow> bool \<Rightarrow> policy_row manager" where
  "set_policy env tenant k seconds auto =
     (if seconds \<le> 0
      then raise (LcValue (''retention_seconds must be a positive integer, got '' @ string_of_int seconds))
      else bindE (sv_uuid env) (\<lambda>i. bindE (sv_now env) (\<lambda>t.
        let p = \<lparr>lp_policy_id = ''pol:'' @ take 12 i, lp_tenant_id = tenant, lp_resource_kind = k,
              lp_retention_seconds = seconds, lp_auto_delete = auto,
              lp_created_at = t\<rparr>
        in bindE (sv_now env) (\<lambda>stored. seqE (sv_try LcDb (upsert_lifecycle_policy stored p)) (ok p)))))"

definition check_hold :: "string \<Rightarrow> string \<Rightarrow> string option \<Rightarrow> lifecycle_exn + unit" where
  "check_hold tenant case_id identity =
     (if case_id = [] \<or> py_strip case_id = [] then Inl (LcValue ''case_id must be a non-empty string'')
      else if identity \<noteq> None \<and> identity \<noteq> Some tenant then Inl (LcCrossTenant tenant (the identity))
      else Inr ())"

definition hold_pairs :: "resource_kind list \<Rightarrow> string list \<Rightarrow> lifecycle_exn + (resource_kind \<times> string) list" where
  "hold_pairs kinds ids =
     (if kinds = [] \<or> ids = [] then Inr []
      else if length kinds \<noteq> length ids
      then Inl (LcValue ''resource_kinds and resource_ids must be the same length'')
      else Inr (zip kinds ids))"

definition create_hold :: "lifecycle_env \<Rightarrow> string \<Rightarrow> string \<Rightarrow> string \<Rightarrow> string \<Rightarrow> resource_kind list \<Rightarrow>
    string list \<Rightarrow> string option \<Rightarrow> (hold_row \<times> (resource_kind \<times> string) list) manager" where
  "create_hold env tenant case_id reason who kinds ids identity =
     seqE (lift (check_hold tenant case_id identity))
     (bindE (sv_uuid env) (\<lambda>i. bindE (sv_now env) (\<lambda>t.
      bindE (lift (hold_pairs kinds ids)) (\<lambda>pairs.
      let h = \<lparr>lh_hold_id = ''hold:'' @ take 12 i, lh_tenant_id = tenant, lh_case_id = py_strip case_id,
            lh_reason = reason, lh_created_at = t, lh_created_by = who, lh_released_at = None,
            lh_released_by = None, lh_release_reason = None\<rparr>
      in bindE (sv_now env) (\<lambda>stored.
         seqE (sv_try LcDb (create_legal_hold stored h pairs))
         (seqE (emit_audit env HOLD_CREATED who
            [(''hold_id'', JStr (lh_hold_id h)), (''tenant_id'', JStr tenant),
             (''case_id'', JStr (lh_case_id h)), (''reason'', JStr reason),
             (''resource_count'', JInt (int (length pairs)))])
         (ok (h, pairs))))))))"

definition release_hold :: "lifecycle_env \<Rightarrow> string \<Rightarrow> string \<Rightarrow> string \<Rightarrow> string \<Rightarrow> release_outcome manager" where
  "release_hold env hid who identity reason =
     bindE (sv_now env) (\<lambda>t. bindE (sv_call (release_legal_hold t hid who identity reason)) (\<lambda>out.
       (case out of
          RelNotApplied why \<Rightarrow> if why = ''cross_tenant'' then raise (LcCrossTenant ''<resource_tenant>'' identity)
                             else ok out
        | Released \<Rightarrow> seqE (emit_audit env HOLD_RELEASED who
            [(''hold_id'', JStr hid), (''released_by'', JStr who), (''reason'', JStr reason)]) (ok out))))"

definition is_held :: "string \<Rightarrow> resource_kind \<Rightarrow> string \<Rightarrow> bool manager" where
  "is_held tenant k rid = gets (\<lambda>w. is_resource_held (sv_db w) tenant k rid)"

text \<open>The first active hold that lists the resource, or that lists nothing.\<close>

definition find_holding_hold :: "db \<Rightarrow> string \<Rightarrow> resource_kind \<Rightarrow> string \<Rightarrow> (string \<times> string) option" where
  "find_holding_hold d tenant k rid =
     map_option (\<lambda>(h, _). (lh_hold_id h, lh_case_id h))
       (find (\<lambda>(_, pairs). pairs = [] \<or> (k, rid) \<in> set pairs) (list_legal_holds d tenant True))"

subsection \<open>Requesting a deletion\<close>

definition resource_payload :: "string \<Rightarrow> resource_kind \<Rightarrow> string \<Rightarrow> (string, json) dict" where
  "resource_payload tenant k rid = [(''tenant_id'', JStr tenant),
     (''resource_kind'', JStr (resource_kind_text k)), (''resource_id'', JStr rid)]"

definition hold_gate :: "lifecycle_env \<Rightarrow> string \<Rightarrow> resource_kind \<Rightarrow> string \<Rightarrow> string \<Rightarrow> unit manager" where
  "hold_gate env tenant k rid who =
     bindE (is_held tenant k rid) (\<lambda>held.
       if \<not> held then ok ()
       else bindE (gets (\<lambda>w. case find_holding_hold (sv_db w) tenant k rid of None \<Rightarrow> ([], []) | Some p \<Rightarrow> p)) (\<lambda>(hid, cid).
         seqE (emit_audit env DELETION_BLOCKED who
           (resource_payload tenant k rid @ [(''hold_id'', JStr hid), (''case_id'', JStr cid)]))
         (raise (LcBlocked hid cid k rid))))"

definition retention_gate :: "lifecycle_env \<Rightarrow> string \<Rightarrow> resource_kind \<Rightarrow> string \<Rightarrow> string \<Rightarrow> bool \<Rightarrow> unit manager" where
  "retention_gate env tenant k rid who force =
     bindE (gets (\<lambda>w. get_lifecycle_policy (sv_db w) tenant k)) (\<lambda>policy.
       if (case policy of None \<Rightarrow> False | Some p \<Rightarrow> \<not> lp_auto_delete p) \<and> \<not> force
       then seqE (emit_audit env DELETION_BLOCKED who
              (resource_payload tenant k rid @ [(''reason'', JStr ''retained'')]))
            (raise (LcRetained k rid))
       else ok ())"

definition new_job :: "string \<Rightarrow> int \<Rightarrow> string \<Rightarrow> resource_kind \<Rightarrow> string \<Rightarrow> string \<Rightarrow> job_row" where
  "new_job i t tenant k rid who = \<lparr>dj_job_id = ''dj:'' @ take 12 i, dj_tenant_id = tenant,
     dj_resource_kind = k, dj_resource_id = rid, dj_state = DS_PENDING, dj_attempt = 0,
     dj_max_attempts = 3, dj_requested_at = t, dj_requested_by = who, dj_completed_at = None,
     dj_last_error = None, dj_evidence = None\<rparr>"

definition store_job :: "int \<Rightarrow> job_row \<Rightarrow> job_row manager" where
  "store_job t j = (\<lambda>w. case create_deletion_job t j (sv_db w) of
     Inl e \<Rightarrow> (Inl (LcDb e), w) | Inr (row, d) \<Rightarrow> (Inr row, w\<lparr>sv_db := d\<rparr>))"

definition delete_resource :: "lifecycle_env \<Rightarrow> string \<Rightarrow> resource_kind \<Rightarrow> string \<Rightarrow> string \<Rightarrow> string option \<Rightarrow>
    bool \<Rightarrow> job_row manager" where
  "delete_resource env tenant k rid who identity force =
     (if identity \<noteq> None \<and> identity \<noteq> Some tenant then raise (LcCrossTenant tenant (the identity))
      else seqE (hold_gate env tenant k rid who)
        (seqE (retention_gate env tenant k rid who force)
        (bindE (sv_uuid env) (\<lambda>i. bindE (sv_now env) (\<lambda>t.
         seqE (emit_audit env DELETION_REQUESTED who
           (resource_payload tenant k rid @ [(''force'', JBool force)]))
         (bindE (sv_now env) (\<lambda>stored. store_job stored (new_job i t tenant k rid who))))))))"

subsection \<open>The deleter adapters\<close>

definition make_evidence :: "lifecycle_env \<Rightarrow> int \<Rightarrow> kept_resource list \<Rightarrow> string option \<Rightarrow> deletion_evidence manager" where
  "make_evidence env deleted kept digest =
     bindE (sv_uuid env) (\<lambda>i. bindE (sv_now env) (\<lambda>t.
       ok \<lparr>de_deletion_id = ''del:'' @ take 12 i, de_copies_deleted = deleted,
           de_copies_kept = int (length kept), de_kept_resources = kept, de_payload_digest = digest,
           de_completed_at = iso_text (le_pf env) t\<rparr>))"

definition kept_one :: "string \<Rightarrow> string \<Rightarrow> string \<Rightarrow> kept_resource" where
  "kept_one kind i reason = \<lparr>kr_kind = kind, kr_id = i, kr_reason = reason\<rparr>"

definition delete_artifact :: "lifecycle_env \<Rightarrow> string \<Rightarrow> deletion_evidence manager" where
  "delete_artifact env aid =
     (case le_artifact_store env of
        NoArtifactStore \<Rightarrow> make_evidence env 0 [kept_one ''artifact'' aid ''no_store_wired''] None
      | OtherStore err \<Rightarrow> make_evidence env 0 [kept_one ''artifact'' aid (''error: '' @ err)] None
      | DevStore \<Rightarrow>
        bindE (gets (\<lambda>w. dget (lc_artifacts w) aid)) (\<lambda>blob.
        bindE (gets (\<lambda>w. fst (dev_delete aid (lc_artifacts w)))) (\<lambda>removed.
        seqE (modify (\<lambda>w. w\<lparr>lc_artifacts := snd (dev_delete aid (lc_artifacts w))\<rparr>))
        (make_evidence env (if removed then 1 else 0)
           (if removed then [] else [kept_one ''artifact'' aid ''already_gone''])
           (case blob of None \<Rightarrow> None
            | Some v \<Rightarrow> if v = JNull then None else Some (digest_json (le_pf env) v))))))"

text \<open>The events that name the receipt, and the signing event of its node run.\<close>

definition mentions_receipt :: "string \<Rightarrow> signed_receipt option \<Rightarrow> event_row \<Rightarrow> bool" where
  "mentions_receipt rid receipt e \<longleftrightarrow> dget (ev_payload e) ''receipt_id'' = Some (JStr rid) \<or>
     (case receipt of None \<Rightarrow> False
      | Some r \<Rightarrow> ev_node_run_id e = Some (sr_node_run_id r) \<and> ev_kind e = RECEIPT_SIGNED)"

fun redact_all :: "string \<Rightarrow> event_row list \<Rightarrow> unit manager" where
  "redact_all tenant [] = ok ()"
| "redact_all tenant (e # es) =
     bindE (sv_call (redact_event_payload tenant (ev_id e))) (\<lambda>_. redact_all tenant es)"

definition lookup_receipt :: "lifecycle_env \<Rightarrow> string \<Rightarrow> signed_receipt option manager" where
  "lookup_receipt env rid = (\<lambda>w.
     let w' = w\<lparr>lc_lookups := Suc (lc_lookups w)\<rparr> in
     case le_receipt_fault env (lc_lookups w) of
       Some (ty, msg) \<Rightarrow> (Inl (LcAdapter ty msg), w')
     | None \<Rightarrow> (Inr (get_receipt (sv_db w) rid), w'))"

definition receipt_digest :: "lifecycle_env \<Rightarrow> signed_receipt option \<Rightarrow> string option" where
  "receipt_digest env receipt = (case receipt of None \<Rightarrow> None | Some r \<Rightarrow>
     if sr_envelope r = JNull then None else Some (digest_json (le_pf env) (sr_envelope r)))"

definition delete_receipt_copy :: "lifecycle_env \<Rightarrow> string \<Rightarrow> string \<Rightarrow> deletion_evidence manager" where
  "delete_receipt_copy env tenant rid =
     bindE (lookup_receipt env rid) (\<lambda>receipt.
     bindE (if receipt = None then ok False else sv_call (delete_receipt rid)) (\<lambda>removed.
     bindE (gets (\<lambda>w. filter (mentions_receipt rid receipt)
                     (list_events_for_resource (sv_db w) tenant None))) (\<lambda>es.
     seqE (redact_all tenant es)
     (make_evidence env (if removed then 1 else 0)
        (if removed then []
         else [kept_one ''receipt'' rid (if receipt = None then ''already_gone'' else ''delete_returned_false'')])
        (receipt_digest env receipt)))))"

definition delete_event_payload :: "lifecycle_env \<Rightarrow> string \<Rightarrow> string \<Rightarrow> deletion_evidence manager" where
  "delete_event_payload env tenant eid =
     bindE (sv_call (redact_event_payload tenant eid)) (\<lambda>found.
       if found then make_evidence env 1 [] None
       else make_evidence env 0 [kept_one ''event'' eid ''not_found''] None)"

definition delete_webhook_delivery :: "lifecycle_env \<Rightarrow> string \<Rightarrow> deletion_evidence manager" where
  "delete_webhook_delivery env did =
     (case le_webhook_deleter env of
        None \<Rightarrow> make_evidence env 0 [kept_one ''webhook'' did ''no_deleter_wired''] None
      | Some deleter \<Rightarrow>
        bindE (gets (\<lambda>w. fst (deleter did (lc_history w)))) (\<lambda>r.
        seqE (modify (\<lambda>w. w\<lparr>lc_history := snd (deleter did (lc_history w))\<rparr>))
        (case r of
           Inl err \<Rightarrow> make_evidence env 0 [kept_one ''webhook'' did (''error: '' @ err)] None
         | Inr True \<Rightarrow> make_evidence env 1 [] None
         | Inr False \<Rightarrow> make_evidence env 0 [kept_one ''webhook'' did ''not_found''] None)))"

definition delete_cache_entry :: "lifecycle_env \<Rightarrow> deletion_evidence manager" where
  "delete_cache_entry env = make_evidence env 0 [] None"

definition delete_backup :: "lifecycle_env \<Rightarrow> string \<Rightarrow> deletion_evidence manager" where
  "delete_backup env bid = make_evidence env 0 [kept_one ''backup'' bid ''out_of_scope''] None"

definition run_deleter :: "lifecycle_env \<Rightarrow> job_row \<Rightarrow> deletion_evidence manager" where
  "run_deleter env r =
     (case dj_resource_kind r of
        RK_ARTIFACT \<Rightarrow> delete_artifact env (dj_resource_id r)
      | RK_RECEIPT \<Rightarrow> delete_receipt_copy env (dj_tenant_id r) (dj_resource_id r)
      | RK_EVENT \<Rightarrow> delete_event_payload env (dj_tenant_id r) (dj_resource_id r)
      | RK_WEBHOOK \<Rightarrow> delete_webhook_delivery env (dj_resource_id r)
      | RK_CACHE \<Rightarrow> delete_cache_entry env
      | RK_BACKUP \<Rightarrow> delete_backup env (dj_resource_id r))"

subsection \<open>Executing and retrying\<close>

definition set_job :: "lifecycle_env \<Rightarrow> string \<Rightarrow> deletion_state \<Rightarrow> string option \<Rightarrow> json option \<Rightarrow> bool \<Rightarrow> unit manager" where
  "set_job env jid state err ev increment =
     bindE (sv_now env) (\<lambda>t. sv_modify (update_deletion_job t jid state err ev increment))"

definition reread_job :: "lifecycle_env \<Rightarrow> string \<Rightarrow> deletion_job manager" where
  "reread_job env jid = bindE (gets (\<lambda>w. get_deletion_job (sv_db w) jid)) (\<lambda>row.
     case row of None \<Rightarrow> raise LcMissingRow | Some r \<Rightarrow> ok (row_to_job env r))"

definition job_payload :: "job_row \<Rightarrow> (string, json) dict" where
  "job_payload r = resource_payload (dj_tenant_id r) (dj_resource_kind r) (dj_resource_id r) @
     [(''job_id'', JStr (dj_job_id r))]"

text \<open>\<open>type(exc).__name__\<close> and \<open>str(exc)\<close> of what an adapter raises.\<close>

definition adapter_error :: "lifecycle_exn \<Rightarrow> string \<times> string" where
  "adapter_error e = (case e of LcAdapter ty msg \<Rightarrow> (ty, msg) | _ \<Rightarrow> (''OrchestraError'', []))"

definition handle_adapter_failure :: "lifecycle_env \<Rightarrow> job_row \<Rightarrow> lifecycle_exn \<Rightarrow> deletion_job manager" where
  "handle_adapter_failure env r e =
     (let (ty, msg) = adapter_error e;
          after = dj_attempt r + 1;
          terminal = int after \<ge> dj_max_attempts r
      in bindE (make_evidence env 0 [kept_one (resource_kind_text (dj_resource_kind r))
            (dj_resource_id r) ''adapter_error''] None) (\<lambda>ev.
         seqE (set_job env (dj_job_id r) (if terminal then DS_FAILED else DS_PARTIAL)
            (Some (ty @ '': '' @ msg)) (Some (evidence_json ev)) True)
         (seqE (emit_audit env (if terminal then DELETION_FAILED else DELETION_PARTIAL) ''orchestra''
            (job_payload r @ [(''attempt'', JInt (int after)), (''error'', JStr msg)]))
         (reread_job env (dj_job_id r)))))"

definition finish_deletion :: "lifecycle_env \<Rightarrow> job_row \<Rightarrow> deletion_evidence \<Rightarrow> deletion_job manager" where
  "finish_deletion env r ev =
     (let done = de_copies_kept ev = 0
      in seqE (set_job env (dj_job_id r) (if done then DS_DELETED else DS_PARTIAL) None
            (Some (evidence_json ev)) False)
         (seqE (emit_audit env (if done then DELETION_COMPLETED else DELETION_PARTIAL) ''orchestra''
            (job_payload r @ [(''copies_deleted'', JInt (de_copies_deleted ev)),
               (''copies_kept'', JInt (de_copies_kept ev)),
               (''payload_digest'', opt_str (de_payload_digest ev))]))
         (reread_job env (dj_job_id r))))"

text \<open>\<open>try: ev = m() except Exception as e: return h(e)\<close> followed by the rest.\<close>

definition tryE :: "('w, 'e, 'a) action \<Rightarrow> ('e \<Rightarrow> ('w, 'e, 'b) action) \<Rightarrow> ('a \<Rightarrow> ('w, 'e, 'b) action) \<Rightarrow>
    ('w, 'e, 'b) action" where
  "tryE m h f = (\<lambda>w. case m w of (Inl e, w') \<Rightarrow> h e w' | (Inr x, w') \<Rightarrow> f x w')"

definition execute_deletion :: "lifecycle_env \<Rightarrow> string \<Rightarrow> deletion_job manager" where
  "execute_deletion env jid =
     bindE (gets (\<lambda>w. get_deletion_job (sv_db w) jid)) (\<lambda>row.
       case row of
         None \<Rightarrow> raise (LcValue (''unknown deletion job: '' @ jid))
       | Some r \<Rightarrow>
         if dj_state r \<in> {DS_DELETED, DS_FAILED, DS_HELD} then ok (row_to_job env r)
         else seqE (set_job env jid DS_RUNNING None None False)
           (tryE (run_deleter env r) (handle_adapter_failure env r) (finish_deletion env r)))"

definition check_retry :: "job_row \<Rightarrow> lifecycle_exn + unit" where
  "check_retry r =
     (if dj_state r = DS_DELETED
      then Inl (LcValue (''deletion job '' @ dj_job_id r @ '' is already terminal (deleted); no retry''))
      else if dj_state r = DS_HELD
      then Inl (LcValue (''deletion job '' @ dj_job_id r @ '' is held; release the Legal Hold first''))
      else if int (dj_attempt r) \<ge> dj_max_attempts r \<and> dj_state r = DS_FAILED
      then Inl (LcValue (''deletion job '' @ dj_job_id r @ '' has exhausted its retry budget ('' @
             string_of_int (dj_max_attempts r) @ '')''))
      else Inr ())"

definition retry_deletion :: "lifecycle_env \<Rightarrow> string \<Rightarrow> deletion_job manager" where
  "retry_deletion env jid =
     bindE (gets (\<lambda>w. get_deletion_job (sv_db w) jid)) (\<lambda>row.
       case row of
         None \<Rightarrow> raise (LcValue (''unknown deletion job: '' @ jid))
       | Some r \<Rightarrow> seqE (lift (check_retry r))
           (seqE (set_job env jid DS_PENDING None None False) (execute_deletion env jid)))"

subsection \<open>Sequences of calls\<close>

datatype lifecycle_call =
    LSetPolicy string resource_kind int bool
  | LCreateHold string string string string "resource_kind list" "string list" "string option"
  | LReleaseHold string string string string
  | LDelete string resource_kind string string "string option" bool
  | LExecute string
  | LRetry string

fun lifecycle_step :: "lifecycle_env \<Rightarrow> lifecycle_call \<Rightarrow> lifecycle_state \<Rightarrow> lifecycle_state" where
  "lifecycle_step env (LSetPolicy t k n a) w = snd (set_policy env t k n a w)"
| "lifecycle_step env (LCreateHold t c r who ks ids i) w = snd (create_hold env t c r who ks ids i w)"
| "lifecycle_step env (LReleaseHold h who i r) w = snd (release_hold env h who i r w)"
| "lifecycle_step env (LDelete t k rid who i f) w = snd (delete_resource env t k rid who i f w)"
| "lifecycle_step env (LExecute j) w = snd (execute_deletion env j w)"
| "lifecycle_step env (LRetry j) w = snd (retry_deletion env j w)"

definition lifecycle_run :: "lifecycle_env \<Rightarrow> lifecycle_call list \<Rightarrow> lifecycle_state \<Rightarrow> lifecycle_state" where
  "lifecycle_run env cs w = foldl (\<lambda>w c. lifecycle_step env c w) w cs"

subsection \<open>Evidence survives the column\<close>

lemma kept_list_roundtrip: "kept_list_of_json (map kept_json ks) = Some ks"
  by (induction ks) (simp_all add: kept_json_def)

lemma evidence_read_back: "coerce_evidence (Some (evidence_json e)) = Some e"
  by (cases "de_payload_digest e")
    (simp_all add: coerce_evidence_def evidence_json_def kept_list_roundtrip opt_str_def)

text \<open>
  Evidence written to the job's column is read back as it was, for every number of copies,
  every list of kept resources and with or without a digest.
\<close>

theorem evidence_roundtrip: "coerce_evidence (Some (evidence_json e)) = Some e"
  by (rule evidence_read_back)

subsection \<open>What the steps leave alone\<close>

text \<open>
  The tables the gates and the jobs depend on. Everything but the statements on those tables keeps
  them.
\<close>

definition same_tables :: "lifecycle_state \<Rightarrow> lifecycle_state \<Rightarrow> bool" where
  "same_tables w w' \<longleftrightarrow> deletion_jobs (sv_db w') = deletion_jobs (sv_db w) \<and>
     legal_holds (sv_db w') = legal_holds (sv_db w) \<and>
     legal_hold_resources (sv_db w') = legal_hold_resources (sv_db w) \<and>
     lifecycle_policies (sv_db w') = lifecycle_policies (sv_db w)"

interpretation st: world_order same_tables
  by unfold_locales (auto simp: same_tables_def)

lemma st_fresh: "keeps same_tables (sv_uuid env)" "keeps same_tables (sv_now env)"
  by (simp_all add: keeps_fresh same_tables_def)

lemma st_emit: "keeps same_tables (emit_audit env kind actor pl)"
proof -
  have ins: "keeps same_tables (sv_try LcDb (insert_event ev))" for ev
    by (rule keeps_try) (auto simp: same_tables_def insert_event_def insert_row_def split: if_splits)
  show ?thesis
    unfolding emit_audit_def by (intro st.bind st.best_effort st_fresh ins)
qed

lemma st_evidence: "keeps same_tables (make_evidence env n ks g)"
  unfolding make_evidence_def by (intro st.bind st.pure st_fresh)

lemma st_redact: "keeps same_tables (sv_call (redact_event_payload tenant eid))"
  by (rule keeps_call) (simp add: same_tables_def redact_event_payload_def)

lemma st_redact_all: "keeps same_tables (redact_all tenant es)"
proof (induction es)
  case (Cons e es)
  then show ?case unfolding redact_all.simps by (intro st.bind st_redact)
qed (simp add: st.pure)

lemma st_delete_receipt: "keeps same_tables (if b then ok False else sv_call (delete_receipt rid))"
  by (simp add: st.pure keeps_call same_tables_def delete_receipt_def)

lemma st_lookup: "keeps same_tables (lookup_receipt env rid)"
  by (simp add: keeps_def lookup_receipt_def Let_def same_tables_def split: option.split)

lemma st_webhook_result: "keeps same_tables (case r of
     Inl err \<Rightarrow> make_evidence env 0 (ks err) None
   | Inr True \<Rightarrow> make_evidence env 1 [] None
   | Inr False \<Rightarrow> make_evidence env 0 ks' None)"
  by (simp add: st_evidence split: sum.split bool.split)

lemma st_run_deleter: "keeps same_tables (run_deleter env r)"
proof (cases "dj_resource_kind r")
  case RK_ARTIFACT
  have "keeps same_tables (modify (\<lambda>w. w\<lparr>lc_artifacts := f w\<rparr>))" for f :: "lifecycle_state \<Rightarrow> _"
    by (rule st.modify) (simp add: same_tables_def)
  note m = this
  show ?thesis
    by (cases "le_artifact_store env")
      (simp_all add: run_deleter_def RK_ARTIFACT delete_artifact_def st_evidence st.bind st.seq st.pure m)
next
  case RK_RECEIPT
  show ?thesis
    unfolding run_deleter_def RK_RECEIPT resource_kind.case delete_receipt_copy_def
    by (intro st.bind st.seq st.pure st_lookup st_delete_receipt st_redact_all st_evidence)
next
  case RK_EVENT
  have "keeps same_tables (if b then make_evidence env 1 [] None else make_evidence env 0 ks None)" for b ks
    by (simp add: st_evidence)
  then show ?thesis
    unfolding run_deleter_def RK_EVENT resource_kind.case delete_event_payload_def
    by (intro st.bind st_redact)
next
  case RK_WEBHOOK
  have m: "keeps same_tables (modify (\<lambda>w. w\<lparr>lc_history := f w\<rparr>))" for f :: "lifecycle_state \<Rightarrow> _"
    by (rule st.modify) (simp add: same_tables_def)
  show ?thesis
  proof (cases "le_webhook_deleter env")
    case None
    then show ?thesis by (simp add: run_deleter_def RK_WEBHOOK delete_webhook_delivery_def st_evidence)
  next
    case (Some f)
    then show ?thesis
      unfolding run_deleter_def RK_WEBHOOK resource_kind.case delete_webhook_delivery_def Some option.case
      by (intro st.bind st.seq st.pure m st_webhook_result)
  qed
qed (simp_all add: run_deleter_def delete_cache_entry_def delete_backup_def st_evidence)

subsection \<open>Evidence of the adapters\<close>

definition evidence_ok :: "deletion_evidence \<Rightarrow> bool" where
  "evidence_ok e \<longleftrightarrow> de_copies_kept e = int (length (de_kept_resources e)) \<and>
     0 \<le> de_copies_deleted e \<and> de_copies_deleted e \<le> 1"

lemma evidence_yielded: "0 \<le> n \<Longrightarrow> n \<le> 1 \<Longrightarrow> yields evidence_ok (make_evidence env n ks g)"
  unfolding make_evidence_def by (intro yields_bind yields_ok) (simp add: evidence_ok_def)

lemma run_deleter_evidence: "yields evidence_ok (run_deleter env r)"
proof (cases "dj_resource_kind r")
  case RK_ARTIFACT
  show ?thesis
    by (cases "le_artifact_store env")
      (simp_all add: run_deleter_def RK_ARTIFACT delete_artifact_def evidence_yielded yields_bind yields_seq)
next
  case RK_RECEIPT
  have "0 \<le> (if b then 1 else 0 :: int)" "(if b then 1 else 0 :: int) \<le> 1" for b by simp_all
  then show ?thesis
    unfolding run_deleter_def RK_RECEIPT resource_kind.case delete_receipt_copy_def
    by (intro yields_bind yields_seq evidence_yielded)
next
  case RK_EVENT
  show ?thesis
    unfolding run_deleter_def RK_EVENT resource_kind.case delete_event_payload_def
    by (rule yields_bind) (simp add: evidence_yielded)
next
  case RK_WEBHOOK
  have "yields evidence_ok (case r of Inl err \<Rightarrow> make_evidence env 0 (ks err) None
     | Inr True \<Rightarrow> make_evidence env 1 [] None | Inr False \<Rightarrow> make_evidence env 0 ks' None)" for r ks ks'
    by (simp add: evidence_yielded split: sum.split bool.split)
  note result = this
  show ?thesis
  proof (cases "le_webhook_deleter env")
    case None
    then show ?thesis by (simp add: run_deleter_def RK_WEBHOOK delete_webhook_delivery_def evidence_yielded)
  next
    case (Some f)
    show ?thesis
      unfolding run_deleter_def RK_WEBHOOK resource_kind.case delete_webhook_delivery_def Some option.case
      by (intro yields_bind yields_seq result)
  qed
qed (simp_all add: run_deleter_def delete_cache_entry_def delete_backup_def evidence_yielded)

subsection \<open>What an execution does to the jobs\<close>

lemma same_tablesD: "keeps same_tables m \<Longrightarrow> deletion_jobs (sv_db (snd (m w))) = deletion_jobs (sv_db w)"
  by (simp add: keeps_def same_tables_def)

lemma set_job_jobs:
  "\<exists>t w'. set_job env jid s err ev inc w = (Inr (), w') \<and>
     deletion_jobs (sv_db w') = deletion_jobs (update_deletion_job t jid s err ev inc (sv_db w)) \<and>
     events (sv_db w') = events (sv_db w)"
  by (simp add: set_job_def bindE_def sv_now_def sv_modify_def modify_def update_deletion_job_def) blast

lemma st_reread: "keeps same_tables (reread_job env jid)"
proof -
  have "keeps same_tables (case row of None \<Rightarrow> raise LcMissingRow | Some r \<Rightarrow> ok (row_to_job env r))" for row
    by (simp add: st.pure split: option.split)
  then show ?thesis unfolding reread_job_def by (intro st.bind st.pure)
qed

text \<open>After the adapter the job's row is updated once; what follows leaves the jobs alone.\<close>

lemma set_job_then:
  assumes "keeps same_tables m"
  shows "\<exists>t. deletion_jobs (sv_db (snd (seqE (set_job env jid s err ev inc) m w))) =
    deletion_jobs (update_deletion_job t jid s err ev inc (sv_db w))"
proof -
  obtain t w' where "set_job env jid s err ev inc w = (Inr (), w')"
    "deletion_jobs (sv_db w') = deletion_jobs (update_deletion_job t jid s err ev inc (sv_db w))"
    using set_job_jobs by blast
  with same_tablesD [OF assms, of w'] show ?thesis by (auto simp: seqE_def bindE_def)
qed

lemma finish_deletion_jobs:
  "\<exists>t. deletion_jobs (sv_db (snd (finish_deletion env r ev w))) = deletion_jobs (update_deletion_job t
     (dj_job_id r) (if de_copies_kept ev = 0 then DS_DELETED else DS_PARTIAL) None (Some (evidence_json ev)) False (sv_db w))"
  unfolding finish_deletion_def Let_def by (intro set_job_then st.seq st_emit st_reread)

lemma update_deletion_job_cong:
  "deletion_jobs d = deletion_jobs d' \<Longrightarrow>
   deletion_jobs (update_deletion_job t jid s err ev inc d) = deletion_jobs (update_deletion_job t jid s err ev inc d')"
  by (simp add: update_deletion_job_def)

lemma adapter_failure_jobs:
  "\<exists>t ev msg. evidence_ok ev \<and> de_copies_kept ev = 1 \<and>
     deletion_jobs (sv_db (snd (handle_adapter_failure env r e w))) = deletion_jobs (update_deletion_job t
       (dj_job_id r) (if int (dj_attempt r + 1) \<ge> dj_max_attempts r then DS_FAILED else DS_PARTIAL) (Some msg)
       (Some (evidence_json ev)) True (sv_db w))"
proof -
  obtain ty msg where err: "adapter_error e = (ty, msg)" by force
  let ?ks = "[kept_one (resource_kind_text (dj_resource_kind r)) (dj_resource_id r) ''adapter_error'']"
  obtain ev v where ev: "make_evidence env 0 ?ks None w = (Inr ev, v)" "evidence_ok ev" "de_copies_kept ev = 1"
    by (simp add: make_evidence_def bindE_def sv_uuid_def sv_now_def ok_def evidence_ok_def)
  have v: "deletion_jobs (sv_db v) = deletion_jobs (sv_db w)"
    using same_tablesD [OF st_evidence, of env 0 ?ks None w] ev(1) by simp
  have "\<exists>t. deletion_jobs (sv_db (snd (handle_adapter_failure env r e w))) = deletion_jobs (update_deletion_job t
       (dj_job_id r) (if int (dj_attempt r + 1) \<ge> dj_max_attempts r then DS_FAILED else DS_PARTIAL) (Some (ty @ '': '' @ msg))
       (Some (evidence_json ev)) True (sv_db v))"
    unfolding handle_adapter_failure_def err Let_def prod.case bindE_def ev(1) sum.case
    by (intro set_job_then st.seq st_emit st_reread)
  with ev(2,3) update_deletion_job_cong [OF v] show ?thesis by metis
qed

subsection \<open>The invariant of the jobs\<close>

text \<open>
  Between calls a job is pending or settled, never running; it has failed exactly if its three
  attempts are used up; and a settled job carries readable evidence that is empty of kept copies
  exactly if the job says \<open>deleted\<close>.
\<close>

definition job_ok :: "job_row \<Rightarrow> bool" where
  "job_ok r \<longleftrightarrow> dj_max_attempts r = 3 \<and> dj_attempt r \<le> 3 \<and> (dj_state r = DS_FAILED \<longleftrightarrow> dj_attempt r = 3) \<and>
     dj_state r \<in> {DS_PENDING, DS_DELETED, DS_PARTIAL, DS_FAILED} \<and>
     (dj_state r \<noteq> DS_PENDING \<longrightarrow> (\<exists>e. coerce_evidence (dj_evidence r) = Some e \<and> evidence_ok e \<and>
        (dj_state r = DS_DELETED \<longleftrightarrow> de_copies_kept e = 0)))"

definition job_resource :: "job_row \<Rightarrow> string \<times> resource_kind \<times> string" where
  "job_resource r = (dj_tenant_id r, dj_resource_kind r, dj_resource_id r)"

definition jobs_ok :: "job_row list \<Rightarrow> bool" where
  "jobs_ok rows \<longleftrightarrow> distinct (map dj_job_id rows) \<and> distinct (map job_resource rows) \<and> (\<forall>r \<in> set rows. job_ok r)"

definition job_update :: "int \<Rightarrow> deletion_state \<Rightarrow> string option \<Rightarrow> json option \<Rightarrow> bool \<Rightarrow> job_row \<Rightarrow> job_row" where
  "job_update t s err ev inc r = r\<lparr>dj_state := s, dj_attempt := dj_attempt r + (if inc then 1 else 0),
     dj_completed_at := (if s \<in> {DS_DELETED, DS_PARTIAL, DS_FAILED, DS_HELD} then Some t else dj_completed_at r),
     dj_last_error := (if err = None then dj_last_error r else err),
     dj_evidence := (if ev = None then dj_evidence r else ev)\<rparr>"

lemma deletion_jobs_update:
  "deletion_jobs (update_deletion_job t jid s err ev inc d) =
     update_where (\<lambda>r. dj_job_id r = jid) (job_update t s err ev inc) (deletion_jobs d)"
  by (simp add: update_deletion_job_def job_update_def [abs_def])

lemma job_update_simps [simp]:
  "dj_job_id (job_update t s err ev inc r) = dj_job_id r"
  "job_resource (job_update t s err ev inc r) = job_resource r"
  "dj_max_attempts (job_update t s err ev inc r) = dj_max_attempts r"
  "dj_state (job_update t s err ev inc r) = s"
  "dj_attempt (job_update t s err ev inc r) = dj_attempt r + (if inc then 1 else 0)"
  "dj_evidence (job_update t s err ev inc r) = (if ev = None then dj_evidence r else ev)"
  by (simp_all add: job_update_def job_resource_def)

lemma update_where_twice:
  "(\<And>x. P (g x) = P x) \<Longrightarrow> update_where P f (update_where P g rows) = update_where P (f \<circ> g) rows"
  by (simp add: update_where_def)

lemma jobs_ok_update:
  assumes "jobs_ok rows" "find (\<lambda>r. dj_job_id r = jid) rows = Some r" "job_ok (f r)"
    "\<And>r. dj_job_id (f r) = dj_job_id r" "\<And>r. job_resource (f r) = job_resource r"
  shows "jobs_ok (update_where (\<lambda>r. dj_job_id r = jid) f rows)"
proof -
  have "x = r" if "x \<in> set rows" "dj_job_id x = jid" for x
    using find_unique_filter [OF assms(2) _ that] assms(1) by (simp add: jobs_ok_def)
  with assms show ?thesis
    by (auto simp: jobs_ok_def map_update_where set_update_where)
qed

lemma job_ok_failure:
  assumes "job_ok r" "dj_attempt r < 3" "evidence_ok ev" "de_copies_kept ev = 1"
  shows "job_ok (job_update t' (if int (dj_attempt r + 1) \<ge> dj_max_attempts r then DS_FAILED else DS_PARTIAL)
    err (Some (evidence_json ev)) True (job_update t DS_RUNNING None None False r))"
proof -
  have max: "dj_max_attempts r = 3" using assms(1) by (simp add: job_ok_def)
  show ?thesis
  proof (cases "dj_attempt r = 2")
    case True
    with assms(3,4) max show ?thesis by (simp add: job_ok_def evidence_read_back)
  next
    case False
    with assms(2) have "dj_attempt r < 2" by simp
    with assms(3,4) max show ?thesis by (simp add: job_ok_def evidence_read_back)
  qed
qed

lemma job_ok_finish:
  assumes "job_ok r" "dj_attempt r < 3" "evidence_ok ev"
  shows "job_ok (job_update t' (if de_copies_kept ev = 0 then DS_DELETED else DS_PARTIAL)
    None (Some (evidence_json ev)) False (job_update t DS_RUNNING None None False r))"
proof -
  have "dj_max_attempts r = 3" using assms(1) by (simp add: job_ok_def)
  with assms(2,3) show ?thesis by (simp add: job_ok_def evidence_read_back)
qed

lemma execute_deletion_ok:
  assumes "jobs_ok (deletion_jobs (sv_db w))"
  shows "jobs_ok (deletion_jobs (sv_db (snd (execute_deletion env jid w))))"
proof (cases "get_deletion_job (sv_db w) jid")
  case None
  with assms show ?thesis by (simp add: execute_deletion_def bindE_def gets_def raise_def)
next
  case (Some r)
  have r: "r \<in> set (deletion_jobs (sv_db w))" "dj_job_id r = jid"
    using Some by (auto simp: get_deletion_job_def dest: find_SomeD)
  have ok: "job_ok r" using assms r(1) by (simp add: jobs_ok_def)
  note found = Some [unfolded get_deletion_job_def]
  show ?thesis
  proof (cases "dj_state r \<in> {DS_DELETED, DS_FAILED, DS_HELD}")
    case True
    with Some assms show ?thesis by (simp add: execute_deletion_def bindE_def gets_def ok_def)
  next
    case False
    then have few: "dj_attempt r < 3" using ok by (auto simp: job_ok_def)
    obtain t w1 where w1: "set_job env jid DS_RUNNING None None False w = (Inr (), w1)"
      "deletion_jobs (sv_db w1) = update_where (\<lambda>r. dj_job_id r = jid) (job_update t DS_RUNNING None None False)
         (deletion_jobs (sv_db w))"
      using set_job_jobs [of env jid DS_RUNNING None None False w] by (auto simp: deletion_jobs_update)
    obtain res w2 where w2: "run_deleter env r w1 = (res, w2)" by force
    have same: "deletion_jobs (sv_db w2) = deletion_jobs (sv_db w1)"
      using same_tablesD [OF st_run_deleter, of env r w1] w2 by simp
    have final: "jobs_ok (deletion_jobs (sv_db (snd (execute_deletion env jid w))))"
      if "deletion_jobs (sv_db (snd (execute_deletion env jid w))) =
            update_where (\<lambda>r. dj_job_id r = jid) (job_update t' s err ev inc) (deletion_jobs (sv_db w2))"
        "job_ok (job_update t' s err ev inc (job_update t DS_RUNNING None None False r))" for t' s err ev inc
      using that jobs_ok_update [OF assms found, of "job_update t' s err ev inc \<circ> job_update t DS_RUNNING None None False"]
      by (simp add: same w1(2) update_where_twice)
    show ?thesis
    proof (cases res)
      case (Inl e)
      have ex: "snd (execute_deletion env jid w) = snd (handle_adapter_failure env r e w2)"
        using False Some w1(1) w2 Inl
        by (simp add: execute_deletion_def bindE_def seqE_def gets_def tryE_def)
      obtain t' ev msg where "evidence_ok ev" "de_copies_kept ev = 1"
        "deletion_jobs (sv_db (snd (handle_adapter_failure env r e w2))) = deletion_jobs (update_deletion_job t'
          (dj_job_id r) (if int (dj_attempt r + 1) \<ge> dj_max_attempts r then DS_FAILED else DS_PARTIAL) (Some msg)
          (Some (evidence_json ev)) True (sv_db w2))"
        using adapter_failure_jobs by blast
      then show ?thesis
        by (intro final [rotated, OF job_ok_failure [OF ok few]]) (simp_all only: ex deletion_jobs_update r(2))
    next
      case (Inr ev)
      have ex: "snd (execute_deletion env jid w) = snd (finish_deletion env r ev w2)"
        using False Some w1(1) w2 Inr
        by (simp add: execute_deletion_def bindE_def seqE_def gets_def tryE_def)
      have "evidence_ok ev"
        using run_deleter_evidence [of env r] w2 Inr unfolding yields_def returns_def by blast
      moreover obtain t' where "deletion_jobs (sv_db (snd (finish_deletion env r ev w2))) =
        deletion_jobs (update_deletion_job t' (dj_job_id r) (if de_copies_kept ev = 0 then DS_DELETED else DS_PARTIAL)
          None (Some (evidence_json ev)) False (sv_db w2))"
        using finish_deletion_jobs by blast
      ultimately show ?thesis
        by (intro final [rotated, OF job_ok_finish [OF ok few]]) (simp_all only: ex deletion_jobs_update r(2))
    qed
  qed
qed

abbreviation jobs_kept :: "lifecycle_state \<Rightarrow> lifecycle_state \<Rightarrow> bool" where
  "jobs_kept \<equiv> db_kept (\<lambda>d. jobs_ok (deletion_jobs d))"

lemma jobs_kept_same: "keeps same_tables m \<Longrightarrow> keeps jobs_kept m"
  by (simp add: keeps_def same_tables_def db_kept_def)

lemma jobs_kept_try:
  "(\<And>d d'. f d = Inr d' \<Longrightarrow> deletion_jobs d' = deletion_jobs d) \<Longrightarrow> keeps jobs_kept (sv_try exn f)"
  by (rule dbk_try) simp

lemma map_sum_InrE: "map_sum id f r = Inr y \<Longrightarrow> (\<And>x. r = Inr x \<Longrightarrow> y = f x \<Longrightarrow> thesis) \<Longrightarrow> thesis"
  by (cases r) auto

lemma set_policy_kept: "keeps jobs_kept (set_policy env t k n a)"
proof (cases "n \<le> 0")
  case True
  then show ?thesis by (simp add: set_policy_def dbk.pure)
next
  case False
  have stmt: "keeps jobs_kept (sv_try LcDb (upsert_lifecycle_policy n p))" for n p
    by (rule jobs_kept_try)
      (auto simp: upsert_lifecycle_policy_def insert_row_def Let_def split: if_splits)
  show ?thesis
    unfolding set_policy_def if_not_P [OF False] Let_def by (intro dbk_steps stmt)
qed

lemma create_hold_kept: "keeps jobs_kept (create_hold env t c r who ks ids i)"
proof -
  have stmt: "keeps jobs_kept (sv_try LcDb (create_legal_hold t h ps))" for t h ps
    by (rule jobs_kept_try)
      (auto simp: create_legal_hold_def split: if_splits sum.splits elim!: map_sum_InrE)
  show ?thesis
    unfolding create_hold_def Let_def by (intro dbk_steps stmt jobs_kept_same [OF st_emit])
qed

lemma release_hold_kept: "keeps jobs_kept (release_hold env h who i r)"
proof -
  have stmt: "keeps jobs_kept (sv_call (release_legal_hold t h who i r))" for t
    by (rule dbk_call) (simp add: release_legal_hold_def split: option.split)
  have rest: "keeps jobs_kept (case out of
      RelNotApplied why \<Rightarrow> if why = ''cross_tenant'' then raise (LcCrossTenant ''<resource_tenant>'' i) else ok out
    | Released \<Rightarrow> seqE (emit_audit env HOLD_RELEASED who pl) (ok out))" for out pl
    by (cases out) (simp_all add: dbk.pure dbk.seq jobs_kept_same [OF st_emit])
  show ?thesis unfolding release_hold_def by (intro dbk_steps stmt rest)
qed

lemma st_hold_gate: "keeps same_tables (hold_gate env t k rid who)"
proof -
  have "keeps same_tables (if \<not> held then ok () else bindE (gets f) (\<lambda>(hid, cid).
     seqE (emit_audit env DELETION_BLOCKED who (pl hid cid)) (raise (LcBlocked hid cid k rid))))" for held f pl
    by (auto intro!: st.bind st.seq st.pure st_emit)
  then show ?thesis unfolding hold_gate_def is_held_def by (intro st.bind st.pure)
qed

lemma st_retention_gate: "keeps same_tables (retention_gate env t k rid who force)"
proof -
  have "keeps same_tables (if b then seqE (emit_audit env DELETION_BLOCKED who pl) (raise e) else ok ())" for b pl e
    by (simp add: st.pure st.seq st_emit)
  then show ?thesis unfolding retention_gate_def by (intro st.bind st.pure)
qed

lemma jobs_ok_create:
  assumes "jobs_ok (deletion_jobs d)" "create_deletion_job now (new_job i t tenant k rid who) d = Inr (row, d')"
  shows "jobs_ok (deletion_jobs d')"
proof (cases "find (\<lambda>r. dj_tenant_id r = tenant \<and> dj_resource_kind r = k \<and> dj_resource_id r = rid) (deletion_jobs d)")
  case (Some r)
  with assms show ?thesis by (auto simp: create_deletion_job_def new_job_def Let_def)
next
  case None
  then have new: "(tenant, k, rid) \<notin> job_resource ` set (deletion_jobs d)"
    by (auto simp: find_None_iff job_resource_def)
  let ?r = "(new_job i now tenant k rid who)"
  from None assms(2) have "''dj:'' @ take 12 i \<notin> dj_job_id ` set (deletion_jobs d)"
    "deletion_jobs d' = deletion_jobs d @ [?r]"
    by (auto simp: create_deletion_job_def new_job_def Let_def insert_row_def split: if_splits)
  moreover have "job_ok ?r" "job_resource ?r = (tenant, k, rid)" "dj_job_id ?r = ''dj:'' @ take 12 i"
    by (simp_all add: job_ok_def new_job_def job_resource_def)
  ultimately show ?thesis using new assms(1) by (simp add: jobs_ok_def)
qed

lemma store_job_kept: "keeps jobs_kept (store_job now (new_job i t tenant k rid who))"
  by (auto simp: keeps_def store_job_def db_kept_def intro: jobs_ok_create split: sum.split)

lemma delete_resource_kept: "keeps jobs_kept (delete_resource env t k rid who i force)"
proof (cases "i \<noteq> None \<and> i \<noteq> Some t")
  case True
  then show ?thesis by (simp add: delete_resource_def dbk.pure)
next
  case False
  show ?thesis
    unfolding delete_resource_def if_not_P [OF False]
    by (intro dbk_steps store_job_kept jobs_kept_same st_hold_gate st_retention_gate st_emit)
qed

lemma execute_deletion_kept: "keeps jobs_kept (execute_deletion env j)"
  by (simp add: keeps_def db_kept_def execute_deletion_ok)

lemma retry_deletion_ok:
  assumes "jobs_ok (deletion_jobs (sv_db w))"
  shows "jobs_ok (deletion_jobs (sv_db (snd (retry_deletion env jid w))))"
proof (cases "get_deletion_job (sv_db w) jid")
  case None
  with assms show ?thesis by (simp add: retry_deletion_def bindE_def gets_def raise_def)
next
  case (Some r)
  have r: "r \<in> set (deletion_jobs (sv_db w))" using Some by (auto simp: get_deletion_job_def dest: find_SomeD)
  show ?thesis
  proof (cases "check_retry r")
    case (Inl e)
    with Some assms show ?thesis by (simp add: retry_deletion_def bindE_def seqE_def gets_def lift_def)
  next
    case (Inr u)
    obtain t w1 where w1: "set_job env jid DS_PENDING None None False w = (Inr (), w1)"
      "deletion_jobs (sv_db w1) = update_where (\<lambda>r. dj_job_id r = jid) (job_update t DS_PENDING None None False)
         (deletion_jobs (sv_db w))"
      using set_job_jobs [of env jid DS_PENDING None None False w] by (auto simp: deletion_jobs_update)
    have "job_ok r" using assms r by (simp add: jobs_ok_def)
    with Inr have "job_ok (job_update t DS_PENDING None None False r)"
      by (auto simp: check_retry_def job_ok_def split: if_splits)
    then have "jobs_ok (deletion_jobs (sv_db w1))"
      using jobs_ok_update [OF assms Some [unfolded get_deletion_job_def]] by (simp add: w1(2))
    with Some Inr w1(1) execute_deletion_ok show ?thesis
      by (simp add: retry_deletion_def bindE_def seqE_def gets_def lift_def)
  qed
qed

lemma lifecycle_step_ok:
  "jobs_ok (deletion_jobs (sv_db w)) \<Longrightarrow> jobs_ok (deletion_jobs (sv_db (lifecycle_step env c w)))"
  by (cases c) (simp_all add: dbkD [OF set_policy_kept] dbkD [OF create_hold_kept] dbkD [OF release_hold_kept]
      dbkD [OF delete_resource_kept] execute_deletion_ok retry_deletion_ok)

lemma lifecycle_run_ok:
  "jobs_ok (deletion_jobs (sv_db w)) \<Longrightarrow> jobs_ok (deletion_jobs (sv_db (lifecycle_run env cs w)))"
  unfolding lifecycle_run_def by (induction cs arbitrary: w) (simp_all add: lifecycle_step_ok)

subsection \<open>Properties\<close>


lemma emit_audit_ok: "\<exists>w'. emit_audit env kind actor pl w = (Inr (), w') \<and> same_tables w w'"
proof -
  obtain w' where "emit_audit env kind actor pl w = (Inr (), w')"
    by (simp add: emit_audit_def bindE_def sv_uuid_def sv_now_def best_effort_def)
  then show ?thesis using keepsD [OF st_emit] by blast
qed

lemma hold_gate_open: "\<not> is_resource_held (sv_db w) t k rid \<Longrightarrow> hold_gate env t k rid who w = (Inr (), w)"
  by (simp add: hold_gate_def is_held_def bindE_def gets_def ok_def)

lemma hold_gate_closed:
  assumes "is_resource_held (sv_db w) t k rid"
  shows "\<exists>hid cid w'. hold_gate env t k rid who w = (Inl (LcBlocked hid cid k rid), w') \<and> same_tables w w'"
proof -
  obtain hid cid where h: "(case find_holding_hold (sv_db w) t k rid of None \<Rightarrow> ([], []) | Some p \<Rightarrow> p) = (hid, cid)"
    by force
  obtain w' where "emit_audit env DELETION_BLOCKED who (resource_payload t k rid @
      [(''hold_id'', JStr hid), (''case_id'', JStr cid)]) w = (Inr (), w')" "same_tables w w'"
    using emit_audit_ok by blast
  with assms h show ?thesis
    by (auto simp: hold_gate_def is_held_def bindE_def seqE_def gets_def raise_def)
qed

definition retained :: "db \<Rightarrow> string \<Rightarrow> resource_kind \<Rightarrow> bool" where
  "retained d t k \<longleftrightarrow> (case get_lifecycle_policy d t k of None \<Rightarrow> False | Some p \<Rightarrow> \<not> lp_auto_delete p)"

lemma retention_gate_open:
  "\<not> retained (sv_db w) t k \<or> force \<Longrightarrow> retention_gate env t k rid who force w = (Inr (), w)"
  by (auto simp: retained_def retention_gate_def bindE_def gets_def ok_def)

lemma retention_gate_closed:
  assumes "retained (sv_db w) t k" "\<not> force"
  shows "\<exists>w'. retention_gate env t k rid who force w = (Inl (LcRetained k rid), w') \<and> same_tables w w'"
proof -
  obtain w' where "emit_audit env DELETION_BLOCKED who (resource_payload t k rid @
      [(''reason'', JStr ''retained'')]) w = (Inr (), w')" "same_tables w w'"
    using emit_audit_ok by blast
  with assms show ?thesis
    by (auto simp: retained_def retention_gate_def bindE_def seqE_def gets_def raise_def)
qed

text \<open>What storing a new pending job comes to: the job the resource already has, or the new row.\<close>

lemma store_job_outcome:
  assumes "store_job now (new_job i t tenant k rid who) w = (r, w')"
  shows "case find (\<lambda>j. job_resource j = (tenant, k, rid)) (deletion_jobs (sv_db w)) of
      Some row \<Rightarrow> w' = w \<and> (\<exists>j. r = Inr j \<and> dj_job_id j = dj_job_id row \<and>
        dj_state j = dj_state row \<and> dj_attempt j = dj_attempt row)
    | None \<Rightarrow> (\<exists>j. r = Inr j \<and> dj_state j = DS_PENDING \<and> job_resource j = (tenant, k, rid) \<and>
          (\<exists>row. deletion_jobs (sv_db w') = deletion_jobs (sv_db w) @ [row] \<and> dj_job_id row = dj_job_id j \<and>
             job_resource row = job_resource j)) \<or>
        (\<exists>e. r = Inl (LcDb e) \<and> w' = w)"
proof -
  have resource: "(\<lambda>j. job_resource j = (tenant, k, rid)) =
      (\<lambda>j. dj_tenant_id j = tenant \<and> dj_resource_kind j = k \<and> dj_resource_id j = rid)"
    by (auto simp: job_resource_def)
  note store = store_job_def create_deletion_job_def new_job_def Let_def
  show ?thesis
  proof (cases "find (\<lambda>j. job_resource j = (tenant, k, rid)) (deletion_jobs (sv_db w))")
    case (Some row)
    with assms show ?thesis unfolding resource by (auto simp: store)
  next
    case None
    with assms show ?thesis
      unfolding resource
      by (cases "''dj:'' @ take 12 i \<in> dj_job_id ` set (deletion_jobs (sv_db w))")
        (auto simp: store insert_row_def job_resource_def)
  qed
qed

lemma delete_past_gates:
  assumes "identity = None \<or> identity = Some tenant"
    and "delete_resource env tenant k rid who identity force w = (r, w')"
    and "\<not> is_resource_held (sv_db w) tenant k rid" "\<not> (retained (sv_db w) tenant k \<and> \<not> force)"
  shows "\<exists>i t now w1. store_job now (new_job i t tenant k rid who) w1 = (r, w') \<and> same_tables w w1"
proof -
  have pass: "\<not> (identity \<noteq> None \<and> identity \<noteq> Some tenant)" using assms(1) by auto
  note run = assms(2) [unfolded delete_resource_def if_not_P [OF pass]]
  have gates: "hold_gate env tenant k rid who w = (Inr (), w)"
    "retention_gate env tenant k rid who force w = (Inr (), w)"
    using assms(3,4) by (auto simp: hold_gate_open retention_gate_open)
  obtain i t w1 where fresh: "sv_uuid env w = (Inr i :: lifecycle_exn + string, w\<lparr>sv_ids := Suc (sv_ids w)\<rparr>)"
    "sv_now env (w\<lparr>sv_ids := Suc (sv_ids w)\<rparr>) = (Inr t :: lifecycle_exn + int, w1)" "same_tables w w1"
    by (simp add: sv_uuid_def sv_now_def same_tables_def)
  obtain w2 where emitted: "emit_audit env DELETION_REQUESTED who
      (resource_payload tenant k rid @ [(''force'', JBool force)]) w1 = (Inr (), w2)" "same_tables w1 w2"
    using emit_audit_ok by blast
  obtain stored w3 where now: "sv_now env w2 = (Inr stored :: lifecycle_exn + int, w3)" "same_tables w2 w3"
    by (simp add: sv_now_def same_tables_def)
  have "same_tables w w3" using fresh(3) emitted(2) now(2) by (auto simp: same_tables_def)
  moreover have "store_job stored (new_job i t tenant k rid who) w3 = (r, w')"
    using run by (simp add: seqE_def bindE_def gates fresh emitted now)
  ultimately show ?thesis by blast
qed

text \<open>
  What a request to delete comes to. A resource under hold is refused, force or not; a retained
  one is refused without force; neither leaves a trace in the jobs, holds or policies. Otherwise
  the request is idempotent: an existing job for the resource is returned as it stands, and else
  one pending job for it is appended (or, if its fresh id is taken, none).
\<close>

theorem delete_decision:
  assumes "identity = None \<or> identity = Some tenant"
    and "delete_resource env tenant k rid who identity force w = (r, w')"
  shows "if is_resource_held (sv_db w) tenant k rid
    then (\<exists>hid cid. r = Inl (LcBlocked hid cid k rid)) \<and> same_tables w w'
    else if retained (sv_db w) tenant k \<and> \<not> force then r = Inl (LcRetained k rid) \<and> same_tables w w'
    else case find (\<lambda>j. job_resource j = (tenant, k, rid)) (deletion_jobs (sv_db w)) of
      Some row \<Rightarrow> same_tables w w' \<and> (\<exists>j. r = Inr j \<and> dj_job_id j = dj_job_id row \<and>
        dj_state j = dj_state row \<and> dj_attempt j = dj_attempt row)
    | None \<Rightarrow> (\<exists>j. r = Inr j \<and> dj_state j = DS_PENDING \<and> job_resource j = (tenant, k, rid) \<and>
          (\<exists>row. deletion_jobs (sv_db w') = deletion_jobs (sv_db w) @ [row] \<and> dj_job_id row = dj_job_id j \<and>
             job_resource row = job_resource j)) \<or>
        (\<exists>e. r = Inl (LcDb e) \<and> same_tables w w')"
proof -
  have pass: "\<not> (identity \<noteq> None \<and> identity \<noteq> Some tenant)" using assms(1) by auto
  note run = assms(2) [unfolded delete_resource_def if_not_P [OF pass]]
  consider (held) "is_resource_held (sv_db w) tenant k rid"
    | (kept) "\<not> is_resource_held (sv_db w) tenant k rid" "retained (sv_db w) tenant k" "\<not> force"
    | (past) "\<not> is_resource_held (sv_db w) tenant k rid" "\<not> (retained (sv_db w) tenant k \<and> \<not> force)"
    by blast
  then show ?thesis
  proof cases
    case held
    then show ?thesis using run hold_gate_closed [OF held, of env who] by (auto simp: seqE_def bindE_def)
  next
    case kept
    then show ?thesis
      using run retention_gate_closed [of w tenant k force env rid who]
      by (auto simp: seqE_def bindE_def hold_gate_open)
  next
    case past
    obtain i t now w1 where stored: "store_job now (new_job i t tenant k rid who) w1 = (r, w')"
      and same: "same_tables w w1"
      using delete_past_gates [OF assms past] by blast
    have "deletion_jobs (sv_db w1) = deletion_jobs (sv_db w)" using same by (simp add: same_tables_def)
    with store_job_outcome [OF stored] past same show ?thesis
      by (cases "find (\<lambda>j. job_resource j = (tenant, k, rid)) (deletion_jobs (sv_db w))") auto
  qed
qed

text \<open>The events a state has, up to events added under new ids.\<close>

definition redacted_in :: "string \<Rightarrow> lifecycle_state \<Rightarrow> bool" where
  "redacted_in eid w \<longleftrightarrow> eid \<in> ev_id ` set (events (sv_db w)) \<and>
     (\<forall>x \<in> set (events (sv_db w)). ev_id x = eid \<longrightarrow> ev_payload x = redacted_payload)"

definition redacted_kept :: "string \<Rightarrow> lifecycle_state \<Rightarrow> lifecycle_state \<Rightarrow> bool" where
  "redacted_kept eid w w' \<longleftrightarrow> (redacted_in eid w \<longrightarrow> redacted_in eid w')"

interpretation red: world_order "redacted_kept eid"
  by unfold_locales (auto simp: redacted_kept_def)

lemma red_fresh: "keeps (redacted_kept eid) (sv_uuid env)" "keeps (redacted_kept eid) (sv_now env)"
  by (simp_all add: keeps_fresh redacted_kept_def redacted_in_def)

lemma red_emit: "keeps (redacted_kept eid) (emit_audit env kind actor pl)"
proof -
  have "keeps (redacted_kept eid) (sv_try LcDb (insert_event ev))" for ev
    by (rule keeps_try)
      (auto simp: redacted_kept_def redacted_in_def insert_event_def insert_row_def split: if_splits)
  then show ?thesis unfolding emit_audit_def by (intro red.bind red.best_effort red_fresh)
qed

lemma red_set_job: "keeps (redacted_kept eid) (set_job env jid s err ev inc)"
  unfolding set_job_def
  by (intro red.bind red_fresh keeps_sv_modify) (simp add: redacted_kept_def redacted_in_def update_deletion_job_def)

lemma red_reread: "keeps (redacted_kept eid) (reread_job env jid)"
proof -
  have "keeps (redacted_kept eid) (case row of None \<Rightarrow> raise LcMissingRow | Some r \<Rightarrow> ok (row_to_job env r))" for row
    by (simp add: red.pure split: option.split)
  then show ?thesis unfolding reread_job_def by (intro red.bind red.pure)
qed

lemma red_finish: "keeps (redacted_kept eid) (finish_deletion env r ev)"
  unfolding finish_deletion_def Let_def by (intro red.seq red_set_job red_emit red_reread)

lemma image_update_where:
  "(\<And>r. key (f r) = key r) \<Longrightarrow> key ` set (update_where P f rows) = key ` set rows"
  using map_update_where [of key f P rows] by (metis set_map)

lemma redacted_after:
  fixes es :: "event_row list" and eid :: string
  defines "es' \<equiv> update_where (\<lambda>e. ev_id e = eid) (\<lambda>e. e\<lparr>ev_payload := redacted_payload\<rparr>) es"
  assumes "eid \<in> ev_id ` set es"
  shows "eid \<in> ev_id ` set es' \<and> (\<forall>x \<in> set es'. ev_id x = eid \<longrightarrow> ev_payload x = redacted_payload)"
proof
  show "eid \<in> ev_id ` set es'" unfolding es'_def by (subst image_update_where) (use assms(2) in simp_all)
  show "\<forall>x \<in> set es'. ev_id x = eid \<longrightarrow> ev_payload x = redacted_payload"
    unfolding es'_def by (simp add: update_where_def ball_Un)
qed

lemma delete_event_found:
  assumes "eid \<in> ev_id ` set (events (sv_db w))"
  shows "\<exists>ev w'. delete_event_payload env tenant eid w = (Inr ev, w') \<and> de_copies_kept ev = 0 \<and> redacted_in eid w'"
  using assms redacted_after [OF assms]
  by (simp add: delete_event_payload_def make_evidence_def bindE_def sv_call_def redact_event_payload_def
      sv_uuid_def sv_now_def ok_def redacted_in_def)

lemma find_job_update:
  "find (\<lambda>r. dj_job_id r = jid) rows = Some x \<Longrightarrow> (\<And>r. dj_job_id (f r) = dj_job_id r) \<Longrightarrow>
   find (\<lambda>r. dj_job_id r = jid) (update_where (\<lambda>r. dj_job_id r = jid) f rows) = Some (f x)"
  by (induction rows) (auto simp: update_where_def split: if_splits)

lemma reread_after_set:
  assumes "find (\<lambda>r. dj_job_id r = jid) (deletion_jobs (sv_db w)) = Some r"
  shows "\<exists>j w'. seqE (set_job env jid s err ev inc) (seqE (emit_audit env kind actor pl) (reread_job env jid)) w =
    (Inr j, w') \<and> jb_state j = s"
proof -
  obtain t w1 where w1: "set_job env jid s err ev inc w = (Inr (), w1)"
    "deletion_jobs (sv_db w1) = update_where (\<lambda>r. dj_job_id r = jid) (job_update t s err ev inc) (deletion_jobs (sv_db w))"
    using set_job_jobs [of env jid s err ev inc w] by (auto simp: deletion_jobs_update)
  obtain w2 where w2: "emit_audit env kind actor pl w1 = (Inr (), w2)" "same_tables w1 w2"
    using emit_audit_ok by blast
  have "get_deletion_job (sv_db w2) jid = Some (job_update t s err ev inc r)"
    using w2(2) w1(2) find_job_update [OF assms, of "job_update t s err ev inc"]
    by (simp add: get_deletion_job_def same_tables_def)
  then show ?thesis
    by (simp add: seqE_def bindE_def w1(1) w2(1) reread_job_def gets_def ok_def row_to_job_def)
qed

text \<open>
  Nothing is looked at again when a job runs: a pending job for an event redacts the payload
  and ends deleted, also when a legal hold on the event was created after the request, and
  whichever tenant the event belongs to.
\<close>

theorem execution_checks_nothing:
  assumes "get_deletion_job (sv_db w) jid = Some r" "dj_resource_kind r = RK_EVENT" "dj_state r = DS_PENDING"
    "dj_resource_id r \<in> ev_id ` set (events (sv_db w))"
  shows "\<exists>j w'. execute_deletion env jid w = (Inr j, w') \<and> jb_state j = DS_DELETED \<and>
    (\<forall>e \<in> set (events (sv_db w')). ev_id e = dj_resource_id r \<longrightarrow> ev_payload e = redacted_payload)"
proof -
  have id: "dj_job_id r = jid" using assms(1) by (auto simp: get_deletion_job_def dest: find_SomeD)
  obtain t w1 where w1: "set_job env jid DS_RUNNING None None False w = (Inr (), w1)"
      "deletion_jobs (sv_db w1) = update_where (\<lambda>r. dj_job_id r = jid) (job_update t DS_RUNNING None None False)
         (deletion_jobs (sv_db w))"
      "events (sv_db w1) = events (sv_db w)"
    using set_job_jobs [of env jid DS_RUNNING None None False w] by (auto simp: deletion_jobs_update)
  obtain ev w2 where w2: "delete_event_payload env (dj_tenant_id r) (dj_resource_id r) w1 = (Inr ev, w2)"
      "de_copies_kept ev = 0" "redacted_in (dj_resource_id r) w2"
    using delete_event_found [of "dj_resource_id r" w1 env "dj_tenant_id r"] assms(4) w1(3) by metis
  have del: "run_deleter env r w1 = (Inr ev, w2)" by (simp add: run_deleter_def assms(2) w2(1))
  have "deletion_jobs (sv_db w2) = deletion_jobs (sv_db w1)"
    using same_tablesD [OF st_run_deleter, of env r w1] del by simp
  with find_job_update [OF assms(1) [unfolded get_deletion_job_def], of "job_update t DS_RUNNING None None False"]
  have "find (\<lambda>r. dj_job_id r = jid) (deletion_jobs (sv_db w2)) = Some (job_update t DS_RUNNING None None False r)"
    by (simp add: w1(2))
  from reread_after_set [OF this] obtain j w3 where fin: "finish_deletion env r ev w2 = (Inr j, w3)" "jb_state j = DS_DELETED"
    unfolding finish_deletion_def by (auto simp: w2(2) id Let_def) metis
  have "redacted_in (dj_resource_id r) w3"
    using keepsD [OF red_finish fin(1)] w2(3) by (simp add: redacted_kept_def)
  moreover have "execute_deletion env jid w = (Inr j, w3)"
    using assms(1,3) w1(1) del fin(1)
    by (simp add: execute_deletion_def bindE_def seqE_def gets_def tryE_def)
  ultimately show ?thesis using fin(2) by (auto simp: redacted_in_def)
qed

subsection \<open>Witnesses\<close>

definition lc_example_env :: lifecycle_env where
  "lc_example_env = \<lparr>se_uuid = (\<lambda>n. replicate n CHR ''a''), se_clock = int, se_hash = (\<lambda>_. 0),
     se_time_text = (\<lambda>_. []), le_pf = ex_platform, le_artifact_store = DevStore,
     le_webhook_deleter = Some (\<lambda>d h. map_prod Inr id (delete_webhook d h)),
     le_receipt_fault = (\<lambda>_. None)\<rparr>"

text \<open>An event of another tenant's task, and a hold on it made after the job was requested.\<close>

definition lc_example_event :: event_row where
  "lc_example_event = \<lparr>ev_id = ''e1'', ev_seq = 1, ev_task_run_id = None, ev_node_run_id = None,
     ev_kind = TASK_RECEIVED, ev_occurred_at = 0, ev_actor = ''x'', ev_payload = [(''secret'', JInt 1)],
     ev_prev_event_id = None, ev_tenant_id = None\<rparr>"

definition lc_example_state :: lifecycle_state where
  "lc_example_state = \<lparr>sv_db = empty_db\<lparr>events := [lc_example_event],
       legal_holds := [\<lparr>lh_hold_id = ''h'', lh_tenant_id = ''T'', lh_case_id = ''c'', lh_reason = [],
         lh_created_at = 5, lh_created_by = ''legal'', lh_released_at = None, lh_released_by = None,
         lh_release_reason = None\<rparr>],
       legal_hold_resources := [(''h'', RK_EVENT, ''e1'')],
       deletion_jobs := [new_job ''x'' 1 ''T'' RK_EVENT ''e1'' ''ann'']\<rparr>,
     sv_ids = 0, sv_reads = 0, lc_artifacts = [], lc_history = [], lc_lookups = 0\<rparr>"

lemma lc_example_held: "is_resource_held (sv_db lc_example_state) ''T'' RK_EVENT ''e1''"
  by (simp add: lc_example_state_def is_resource_held_def hold_resources_def)

theorem execution_checks_nothing_witness:
  "is_resource_held (sv_db lc_example_state) ''T'' RK_EVENT ''e1'' \<and>
   (\<exists>j w'. execute_deletion lc_example_env ''dj:x'' lc_example_state = (Inr j, w') \<and> jb_state j = DS_DELETED)"
proof
  show "is_resource_held (sv_db lc_example_state) ''T'' RK_EVENT ''e1''" by (rule lc_example_held)
  have "get_deletion_job (sv_db lc_example_state) ''dj:x'' = Some (new_job ''x'' 1 ''T'' RK_EVENT ''e1'' ''ann'')"
    by (simp add: lc_example_state_def get_deletion_job_def new_job_def)
  from execution_checks_nothing [OF this, of lc_example_env]
  show "\<exists>j w'. execute_deletion lc_example_env ''dj:x'' lc_example_state = (Inr j, w') \<and> jb_state j = DS_DELETED"
    by (auto simp: new_job_def lc_example_state_def lc_example_event_def)
qed

definition lc_example_start :: lifecycle_state where
  "lc_example_start = lc_example_state\<lparr>sv_db := empty_db\<rparr>"

definition lc_example_calls :: "lifecycle_call list" where
  "lc_example_calls = [LDelete ''T'' RK_CACHE ''k'' ''ann'' None False, LExecute ''dj:'']"

lemmas lc_example_simps = lc_example_start_def lc_example_calls_def lc_example_env_def
  lifecycle_run_def delete_resource_def hold_gate_def is_held_def is_resource_held_def retention_gate_def
  get_lifecycle_policy_def emit_audit_def execute_deletion_def get_deletion_job_def set_job_def
  run_deleter_def delete_cache_entry_def make_evidence_def finish_deletion_def reread_job_def
  store_job_def create_deletion_job_def new_job_def insert_row_def tryE_def bindE_def seqE_def ok_def
  gets_def sv_uuid_def sv_now_def sv_modify_def modify_def sv_try_def best_effort_def insert_event_def
  event_refs_ok_def update_deletion_job_def update_where_def lc_example_state_def empty_db_def

lemma lc_example_run:
  "map dj_state (deletion_jobs (sv_db (lifecycle_run lc_example_env lc_example_calls lc_example_start))) = [DS_DELETED]"
  by (simp add: lc_example_simps Let_def)


theorem delete_decision_witness:
  "\<exists>hid cid. fst (delete_resource lc_example_env ''T'' RK_EVENT ''e1'' ''bob'' (Some ''T'') True lc_example_state) =
     Inl (LcBlocked hid cid RK_EVENT ''e1'')"
proof -
  obtain r w' where run: "delete_resource lc_example_env ''T'' RK_EVENT ''e1'' ''bob'' (Some ''T'') True lc_example_state = (r, w')"
    by force
  from delete_decision [OF _ run] show ?thesis by (simp add: lc_example_held run)
qed

end
