(* ===== verification/Tenants.thy ===== *)
theory Tenants
  imports Effects EventStore
begin

section \<open>Tenants\<close>

text \<open>
  \<open>orchestra/enterprise/tenant.py\<close> and \<open>isolation.py\<close>: the active tenant of a request, and the store
  whose statements filter by it. It works on the tables of the event store with its own
  connection; a method is one transaction. The tenant columns of the tables other than tasks and
  events are written by the migration only and are left out.
\<close>

subsection \<open>The active tenant\<close>

datatype tenant_role = TR_ADMIN | TR_OPERATOR | TR_AUDITOR | TR_DEVELOPER

record tenant_context =
  tc_tenant_id :: string
  tc_caller_id :: string
  tc_role :: tenant_role

datatype tenant_exn =
    NoActiveTenant
  | RoleDenied tenant_role "tenant_role list"
  | TaskRunNotFound string string          \<comment> \<open>\<open>LookupError\<close>: tenant, task\<close>
  | NoTenantsTable                         \<comment> \<open>\<open>UndefinedTable\<close>\<close>
  | TenantDb db_error

definition require_role :: "tenant_context \<Rightarrow> tenant_role list \<Rightarrow> tenant_exn + unit" where
  "require_role c allowed = (if tc_role c \<in> set allowed then Inr () else Inl (RoleDenied (tc_role c) allowed))"

record tenant_row =
  te_tenant_id :: string
  te_name :: string
  te_plan :: string
  te_status :: string

text \<open>The table of tenants exists once a tenant was created.\<close>

record tenant_state =
  ts_db :: db
  ts_tenants :: "tenant_row list option"
  ts_current :: "tenant_context option"

type_synonym 'a tenant_prog = "(tenant_state, tenant_exn, 'a) action"

text \<open>The token of \<open>ContextVar.set\<close> is the value before.\<close>

definition set_active :: "tenant_context \<Rightarrow> tenant_context option tenant_prog" where
  "set_active c = (\<lambda>s. (Inr (ts_current s), s\<lparr>ts_current := Some c\<rparr>))"

definition get_active :: "tenant_context tenant_prog" where
  "get_active = (\<lambda>s. case ts_current s of None \<Rightarrow> (Inl NoActiveTenant, s) | Some c \<Rightarrow> (Inr c, s))"

definition reset_active :: "tenant_context option \<Rightarrow> unit tenant_prog" where
  "reset_active token = modify (\<lambda>s. s\<lparr>ts_current := token\<rparr>)"

subsection \<open>The isolating store\<close>

definition legacy_tenant :: string where "legacy_tenant = ''tenant:demo''"

text \<open>\<open>connect\<close> runs the migration: rows without a tenant get the legacy one.\<close>

definition connect_store :: "unit tenant_prog" where
  "connect_store = modify (\<lambda>s. s\<lparr>ts_db := (ts_db s)\<lparr>
     task_runs := update_where (\<lambda>r. tr_tenant_id r = None) (\<lambda>r. r\<lparr>tr_tenant_id := Some legacy_tenant\<rparr>) (task_runs (ts_db s)),
     events := update_where (\<lambda>e. ev_tenant_id e = None) (\<lambda>e. e\<lparr>ev_tenant_id := Some legacy_tenant\<rparr>) (events (ts_db s))\<rparr>\<rparr>)"

definition create_tenant :: "string \<Rightarrow> string \<Rightarrow> string \<Rightarrow> unit tenant_prog" where
  "create_tenant tid name plan = modify (\<lambda>s.
     let rows = (case ts_tenants s of None \<Rightarrow> [] | Some rows \<Rightarrow> rows) in
     s\<lparr>ts_tenants := Some (if tid \<in> te_tenant_id ` set rows then rows
       else rows @ [\<lparr>te_tenant_id = tid, te_name = name, te_plan = plan, te_status = ''active''\<rparr>])\<rparr>)"

definition list_tenants :: "tenant_row list tenant_prog" where
  "list_tenants = (\<lambda>s. case ts_tenants s of None \<Rightarrow> (Inl NoTenantsTable, s)
     | Some rows \<Rightarrow> (Inr (sort_key te_tenant_id rows), s))"

definition iso_upsert_task_run :: "int \<Rightarrow> string \<Rightarrow> string \<Rightarrow> string \<Rightarrow> task_run_state \<Rightarrow> string option \<Rightarrow>
    unit tenant_prog" where
  "iso_upsert_task_run now tid contract template state plan =
     bindE get_active (\<lambda>c. modify (\<lambda>s.
       let rows = task_runs (ts_db s) in
       s\<lparr>ts_db := (ts_db s)\<lparr>task_runs :=
         (if tid \<in> tr_id ` set rows
          then update_where (\<lambda>r. tr_id r = tid)
                 (\<lambda>r. r\<lparr>tr_state := state, tr_plan_id := plan, tr_updated_at := now\<rparr>) rows
          else rows @ [\<lparr>tr_id = tid, tr_contract_id = contract, tr_template_id = template,
                 tr_state = state, tr_plan_id = plan, tr_created_at = now, tr_updated_at = now,
                 tr_tenant_id = Some (tc_tenant_id c)\<rparr>])\<rparr>\<rparr>))"

definition visible_task :: "string \<Rightarrow> string \<Rightarrow> task_run_row \<Rightarrow> bool" where
  "visible_task tenant tid r \<longleftrightarrow> tr_tenant_id r = Some tenant \<and> tr_id r = tid"

definition iso_get_task_run :: "string \<Rightarrow> task_run_row option tenant_prog" where
  "iso_get_task_run tid =
     bindE get_active (\<lambda>c. gets (\<lambda>s. find (visible_task (tc_tenant_id c) tid) (task_runs (ts_db s))))"

definition iso_update_task_state :: "int \<Rightarrow> string \<Rightarrow> task_run_state \<Rightarrow> unit tenant_prog" where
  "iso_update_task_state now tid state =
     bindE get_active (\<lambda>c. (\<lambda>s.
       let rows = task_runs (ts_db s) in
       if list_ex (visible_task (tc_tenant_id c) tid) rows
       then (Inr (), s\<lparr>ts_db := (ts_db s)\<lparr>task_runs := update_where (visible_task (tc_tenant_id c) tid)
               (\<lambda>r. r\<lparr>tr_state := state, tr_updated_at := now\<rparr>) rows\<rparr>\<rparr>)
       else (Inl (TaskRunNotFound (tc_tenant_id c) tid), s)))"

text \<open>Unlike the event store this one inserts the number the event has.\<close>

definition iso_append_event :: "event_row \<Rightarrow> unit tenant_prog" where
  "iso_append_event ev =
     bindE get_active (\<lambda>c. (\<lambda>s.
       case insert_event (ev\<lparr>ev_tenant_id := Some (tc_tenant_id c)\<rparr>) (ts_db s) of
         Inl e \<Rightarrow> (Inl (TenantDb e), s) | Inr d \<Rightarrow> (Inr (), s\<lparr>ts_db := d\<rparr>)))"

definition iso_list_events :: "string \<Rightarrow> event_row list tenant_prog" where
  "iso_list_events tid = bindE get_active (\<lambda>c. gets (\<lambda>s. sort_key ev_seq
     (filter (\<lambda>e. ev_tenant_id e = Some (tc_tenant_id c) \<and> ev_task_run_id e = Some tid) (events (ts_db s)))))"

text \<open>\<open>GROUP BY tenant_id ORDER BY tenant_id\<close>, the tasks without a tenant last.\<close>

definition count_tasks :: "string option \<Rightarrow> task_run_row list \<Rightarrow> nat" where
  "count_tasks t rows = length (filter (\<lambda>r. tr_tenant_id r = t) rows)"

definition task_counts :: "task_run_row list \<Rightarrow> (string option \<times> nat) list" where
  "task_counts rows = map (\<lambda>t. (Some t, count_tasks (Some t) rows))
       (sort (remdups (List.map_filter tr_tenant_id rows))) @
     (if list_ex (\<lambda>r. tr_tenant_id r = None) rows then [(None, count_tasks None rows)] else [])"

definition list_tenants_for_admin :: "(string option \<times> nat) list tenant_prog" where
  "list_tenants_for_admin =
     bindE get_active (\<lambda>c. seqE (lift (require_role c [TR_ADMIN]))
       (gets (\<lambda>s. task_counts (task_runs (ts_db s)))))"

subsection \<open>Requests of several tenants\<close>

text \<open>A request sets the active tenant, makes one call and resets it.\<close>

datatype tenant_op =
    TUpsert int string string string task_run_state "string option"
  | TUpdate int string task_run_state
  | TAppend event_row

fun tenant_call :: "tenant_op \<Rightarrow> unit tenant_prog" where
  "tenant_call (TUpsert now tid c t st p) = iso_upsert_task_run now tid c t st p"
| "tenant_call (TUpdate now tid st) = iso_update_task_state now tid st"
| "tenant_call (TAppend ev) = iso_append_event ev"

definition request_as :: "tenant_context \<Rightarrow> 'a tenant_prog \<Rightarrow> 'a tenant_prog" where
  "request_as c m = bindE (set_active c) (\<lambda>token. (\<lambda>s. case m s of (r, s') \<Rightarrow> (r, snd (reset_active token s'))))"

definition requests :: "(tenant_context \<times> tenant_op) list \<Rightarrow> tenant_state \<Rightarrow> tenant_state" where
  "requests rs s = foldl (\<lambda>s (c, op). snd (request_as c (tenant_call op) s)) s rs"

text \<open>What tenant \<open>u\<close> can see of the tables.\<close>

definition tasks_of :: "string \<Rightarrow> db \<Rightarrow> task_run_row list" where
  "tasks_of u d = filter (\<lambda>r. tr_tenant_id r = Some u) (task_runs d)"

definition events_of :: "string \<Rightarrow> db \<Rightarrow> event_row list" where
  "events_of u d = filter (\<lambda>e. ev_tenant_id e = Some u) (events d)"

definition polite :: "db \<Rightarrow> string \<Rightarrow> tenant_op \<Rightarrow> bool" where
  "polite d u op = (case op of TUpsert now tid c t st p \<Rightarrow> tid \<notin> tr_id ` set (tasks_of u d) | _ \<Rightarrow> True)"

lemma find_visible:
  "find (visible_task u tid) (task_runs d) = find (\<lambda>r. tr_id r = tid) (tasks_of u d)"
proof -
  have "find (visible_task u tid) rows = find (\<lambda>r. tr_id r = tid) (filter (\<lambda>r. tr_tenant_id r = Some u) rows)" for rows
    by (induction rows) (simp_all add: visible_task_def)
  then show ?thesis by (simp add: tasks_of_def)
qed

lemma tasks_of_upsert:
  assumes "t \<noteq> u" "tid \<notin> tr_id ` set (tasks_of u d)"
  shows "filter (\<lambda>r. tr_tenant_id r = Some u)
    (if tid \<in> tr_id ` set (task_runs d)
     then update_where (\<lambda>r. tr_id r = tid) (\<lambda>r. r\<lparr>tr_state := st, tr_plan_id := p, tr_updated_at := now\<rparr>) (task_runs d)
     else task_runs d @ [\<lparr>tr_id = tid, tr_contract_id = c, tr_template_id = tm, tr_state = st,
            tr_plan_id = p, tr_created_at = now, tr_updated_at = now, tr_tenant_id = Some t\<rparr>]) = tasks_of u d"
proof -
  have "filter (\<lambda>r. tr_tenant_id r = Some u) (update_where (\<lambda>r. tr_id r = tid)
      (\<lambda>r. r\<lparr>tr_state := st, tr_plan_id := p, tr_updated_at := now\<rparr>) (task_runs d)) = tasks_of u d"
    unfolding tasks_of_def by (rule filter_update_where) (use assms(2) in \<open>auto simp: tasks_of_def\<close>)
  with assms(1) show ?thesis by (simp add: tasks_of_def)
qed

lemma tenant_call_isolated:
  assumes "ts_current s = Some c" "tc_tenant_id c \<noteq> u" "polite (ts_db s) u op"
  shows "tasks_of u (ts_db (snd (tenant_call op s))) = tasks_of u (ts_db s) \<and>
    events_of u (ts_db (snd (tenant_call op s))) = events_of u (ts_db s)"
proof (cases op)
  case (TUpsert now tid ct tm st p)
  have act: "get_active s = (Inr c, s)" by (simp add: get_active_def assms(1))
  have "tid \<notin> tr_id ` set (tasks_of u (ts_db s))" using assms(3) TUpsert by (simp add: polite_def)
  from tasks_of_upsert [OF assms(2) this] show ?thesis
    by (simp add: TUpsert iso_upsert_task_run_def bindE_def act modify_def Let_def tasks_of_def events_of_def)
next
  case (TUpdate now tid st)
  have "filter (\<lambda>r. tr_tenant_id r = Some u) (update_where (visible_task (tc_tenant_id c) tid) f rows) =
      filter (\<lambda>r. tr_tenant_id r = Some u) rows" if "\<And>r. tr_tenant_id (f r) = tr_tenant_id r" for f rows
    by (rule filter_update_where) (use assms(2) that in \<open>auto simp: visible_task_def\<close>)
  then show ?thesis
    by (simp add: TUpdate iso_update_task_state_def bindE_def get_active_def assms(1) Let_def tasks_of_def events_of_def)
next
  case (TAppend ev)
  show ?thesis
  proof (cases "insert_event (ev\<lparr>ev_tenant_id := Some (tc_tenant_id c)\<rparr>) (ts_db s)")
    case (Inl e)
    then show ?thesis by (simp add: TAppend iso_append_event_def bindE_def get_active_def assms(1))
  next
    case (Inr d)
    then have "d = (ts_db s)\<lparr>events := events (ts_db s) @ [ev\<lparr>ev_tenant_id := Some (tc_tenant_id c)\<rparr>]\<rparr>"
      by (auto simp: insert_event_def insert_row_def split: if_splits)
    with Inr assms(2) show ?thesis
      by (simp add: TAppend iso_append_event_def bindE_def get_active_def assms(1) tasks_of_def events_of_def)
  qed
qed

lemma request_as_db:
  "ts_db (snd (request_as c m s)) = ts_db (snd (m (s\<lparr>ts_current := Some c\<rparr>)))"
  by (simp add: request_as_def bindE_def set_active_def reset_active_def modify_def split: prod.split)

lemma request_as_restores: "ts_current (snd (request_as c m s)) = ts_current s"
  by (simp add: request_as_def bindE_def set_active_def reset_active_def modify_def split: prod.split)

text \<open>
  C10. Tenants do not interfere: whatever other tenants insert, update and append, in any number and
  order, as long as no upsert names the id of a task the tenant already has, the tenant's lookups
  and listings return what they returned before.
\<close>

theorem tenants_do_not_interfere:
  assumes "\<forall>(c', op) \<in> set rs. tc_tenant_id c' \<noteq> tc_tenant_id c \<and> polite (ts_db s) (tc_tenant_id c) op"
  shows "fst (request_as c (iso_get_task_run tid) (requests rs s)) = fst (request_as c (iso_get_task_run tid) s) \<and>
    fst (request_as c (iso_list_events tid) (requests rs s)) = fst (request_as c (iso_list_events tid) s)"
proof -
  let ?u = "tc_tenant_id c"
  have "tasks_of ?u (ts_db (requests rs s)) = tasks_of ?u (ts_db s) \<and>
      events_of ?u (ts_db (requests rs s)) = events_of ?u (ts_db s)"
    using assms
  proof (induction rs arbitrary: s)
    case Nil
    then show ?case by (simp add: requests_def)
  next
    case (Cons r rs)
    obtain c' op where r: "r = (c', op)" by force
    let ?s = "snd (request_as c' (tenant_call op) s)"
    have same: "tasks_of ?u (ts_db ?s) = tasks_of ?u (ts_db s) \<and> events_of ?u (ts_db ?s) = events_of ?u (ts_db s)"
      using tenant_call_isolated [of "s\<lparr>ts_current := Some c'\<rparr>" c' ?u op] Cons.prems
      by (simp add: r request_as_db)
    then have "\<forall>(c', op) \<in> set rs. tc_tenant_id c' \<noteq> ?u \<and> polite (ts_db ?s) ?u op"
      using Cons.prems by (auto simp: polite_def split: tenant_op.splits)
    from Cons.IH [OF this] same show ?case by (simp add: requests_def r)
  qed
  moreover have "fst (request_as c (iso_get_task_run tid) s) = Inr (find (\<lambda>r. tr_id r = tid) (tasks_of ?u (ts_db s)))" for s
    by (simp add: request_as_def bindE_def set_active_def reset_active_def modify_def iso_get_task_run_def
        get_active_def gets_def find_visible)
  moreover have "fst (request_as c (iso_list_events tid) s) =
      Inr (sort_key ev_seq (filter (\<lambda>e. ev_task_run_id e = Some tid) (events_of ?u (ts_db s))))" for s
    by (simp add: request_as_def bindE_def set_active_def reset_active_def modify_def iso_list_events_def
        get_active_def gets_def events_of_def conj_commute)
  ultimately show ?thesis by simp
qed

text \<open>
  An upsert is not filtered by the tenant: naming the id of another tenant's task, it
  overwrites that task's state and plan, and the other tenant reads the new values.
\<close>

theorem upsert_crosses_tenants:
  assumes "find (visible_task u tid) (task_runs (ts_db s)) = Some r"
    and "tc_tenant_id victim = u"
  shows "\<exists>r'. fst (request_as victim (iso_get_task_run tid)
      (snd (request_as c (iso_upsert_task_run now tid contract template state plan) s))) = Inr (Some r') \<and>
    tr_state r' = state \<and> tr_plan_id r' = plan \<and> tr_tenant_id r' = Some u"
proof -
  have r: "r \<in> set (task_runs (ts_db s))" "tr_id r = tid" "tr_tenant_id r = Some u"
    using find_SomeD [OF assms(1)] by (auto simp: visible_task_def)
  let ?f = "\<lambda>r. r\<lparr>tr_state := state, tr_plan_id := plan, tr_updated_at := now\<rparr>"
  have "find (visible_task u tid) (update_where (\<lambda>r. tr_id r = tid) ?f rows) = Some (?f r)"
    if "find (visible_task u tid) rows = Some r" for rows
    using that by (induction rows) (auto simp: update_where_def visible_task_def split: if_splits)
  from this [OF assms(1)] r show ?thesis
    by (auto simp: request_as_def bindE_def set_active_def reset_active_def modify_def iso_get_task_run_def
        get_active_def gets_def iso_upsert_task_run_def Let_def assms(2))
qed

text \<open>
  The enumeration over tenants is for administrators: every other role, and a call outside a
  request, is refused, and nothing changes; an administrator gets each tenant's number of tasks.
\<close>

theorem admin_enumeration:
  "fst (request_as c list_tenants_for_admin s) =
     (if tc_role c = TR_ADMIN then Inr (task_counts (task_runs (ts_db s))) else Inl (RoleDenied (tc_role c) [TR_ADMIN])) \<and>
   snd (request_as c list_tenants_for_admin s) = s \<and>
   (ts_current s = None \<longrightarrow> fst (list_tenants_for_admin s) = Inl NoActiveTenant) \<and>
   dget (task_counts (task_runs (ts_db s))) (Some t) =
     (if count_tasks (Some t) (task_runs (ts_db s)) = 0 then None else Some (count_tasks (Some t) (task_runs (ts_db s))))"
proof (intro conjI)
  have "dget (map (\<lambda>t. (Some t, count_tasks (Some t) rows)) ts @ xs) (Some t) =
      (if t \<in> set ts then Some (count_tasks (Some t) rows) else dget xs (Some t))" for ts rows xs
    by (induction ts) auto
  moreover have "t \<in> set (sort (remdups (List.map_filter tr_tenant_id rows))) \<longleftrightarrow> count_tasks (Some t) rows \<noteq> 0" for rows
    by (force simp: count_tasks_def map_filter_def filter_empty_conv)
  ultimately show "dget (task_counts (task_runs (ts_db s))) (Some t) =
     (if count_tasks (Some t) (task_runs (ts_db s)) = 0 then None else Some (count_tasks (Some t) (task_runs (ts_db s))))"
    by (auto simp: task_counts_def)
qed (auto simp: request_as_def bindE_def seqE_def set_active_def reset_active_def modify_def
    list_tenants_for_admin_def get_active_def lift_def require_role_def gets_def)

subsection \<open>Witnesses\<close>

definition ex_tenant :: "string \<Rightarrow> tenant_role \<Rightarrow> tenant_context" where
  "ex_tenant t r = \<lparr>tc_tenant_id = t, tc_caller_id = ''ann'', tc_role = r\<rparr>"

definition ex_tenant_state :: tenant_state where
  "ex_tenant_state = \<lparr>ts_db = empty_db\<lparr>task_runs := [\<lparr>tr_id = ''t1'', tr_contract_id = ''c'',
     tr_template_id = ''m'', tr_state = TR_RUNNING, tr_plan_id = None, tr_created_at = 0,
     tr_updated_at = 0, tr_tenant_id = Some ''acme''\<rparr>]\<rparr>, ts_tenants = None, ts_current = None\<rparr>"

definition ex_tenant_requests :: "(tenant_context \<times> tenant_op) list" where
  "ex_tenant_requests = [(ex_tenant ''evil'' TR_OPERATOR, TUpsert 1 ''t2'' ''c'' ''m'' TR_RUNNING None),
     (ex_tenant ''evil'' TR_OPERATOR, TUpdate 2 ''t1'' TR_FAILED)]"

lemma ex_tenant_reads:
  "fst (request_as (ex_tenant ''acme'' TR_OPERATOR) (iso_get_task_run ''t1'') ex_tenant_state) =
     Inr (Some (hd (task_runs (ts_db ex_tenant_state))))"
  by (simp add: request_as_def bindE_def set_active_def reset_active_def modify_def iso_get_task_run_def
      get_active_def gets_def ex_tenant_state_def ex_tenant_def visible_task_def)

theorem tenants_do_not_interfere_witness:
  "fst (request_as (ex_tenant ''acme'' TR_OPERATOR) (iso_get_task_run ''t1'')
     (requests ex_tenant_requests ex_tenant_state)) = Inr (Some (hd (task_runs (ts_db ex_tenant_state))))"
proof -
  have "\<forall>(c', op) \<in> set ex_tenant_requests. tc_tenant_id c' \<noteq> tc_tenant_id (ex_tenant ''acme'' TR_OPERATOR) \<and>
      polite (ts_db ex_tenant_state) (tc_tenant_id (ex_tenant ''acme'' TR_OPERATOR)) op"
    by (simp add: ex_tenant_requests_def ex_tenant_def polite_def tasks_of_def ex_tenant_state_def)
  from tenants_do_not_interfere [OF this, of "''t1''"] show ?thesis by (simp add: ex_tenant_reads)
qed

theorem upsert_crosses_tenants_witness:
  "\<exists>r. fst (request_as (ex_tenant ''acme'' TR_OPERATOR) (iso_get_task_run ''t1'')
     (snd (request_as (ex_tenant ''evil'' TR_DEVELOPER) (iso_upsert_task_run 9 ''t1'' ''c'' ''m'' TR_FAILED None)
       ex_tenant_state))) = Inr (Some r) \<and> tr_state r = TR_FAILED \<and> tr_tenant_id r = Some ''acme''"
proof -
  have "find (visible_task ''acme'' ''t1'') (task_runs (ts_db ex_tenant_state)) = Some (hd (task_runs (ts_db ex_tenant_state)))"
    by (simp add: ex_tenant_state_def visible_task_def)
  from upsert_crosses_tenants [OF this, of "ex_tenant ''acme'' TR_OPERATOR" "ex_tenant ''evil'' TR_DEVELOPER" 9 "''c''" "''m''" TR_FAILED None]
  show ?thesis by (auto simp: ex_tenant_def)
qed

theorem admin_enumeration_witness:
  "fst (request_as (ex_tenant ''ops'' TR_AUDITOR) list_tenants_for_admin ex_tenant_state) =
     Inl (RoleDenied TR_AUDITOR [TR_ADMIN]) \<and>
   fst (list_tenants_for_admin ex_tenant_state) = Inl NoActiveTenant"
  using admin_enumeration [of "ex_tenant ''ops'' TR_AUDITOR" ex_tenant_state "''acme''"]
  by (simp add: ex_tenant_def ex_tenant_state_def)

end
