(* ===== verification/Artifacts.thy ===== *)
theory Artifacts
  imports Json
begin

section \<open>The artifact store\<close>

text \<open>
  \<open>orchestra/artifact/store.py\<close>: artifacts under the triple of task, node and name, owned by the
  cell that wrote last, with an index by the digest of the content. Ids and instants are arguments.
\<close>

record artifact =
  ar_artifact_id :: string
  ar_cell_id :: string
  ar_task_run_id :: string
  ar_node_id :: string
  ar_name :: string
  ar_payload :: json
  ar_digest :: string
  ar_created_at :: int
  ar_size_bytes :: nat

record artifact_store =
  as_by_triple :: "(string \<times> string \<times> string, artifact) dict"
  as_by_digest :: "(string, artifact) dict"

definition empty_artifacts :: artifact_store where
  "empty_artifacts = \<lparr>as_by_triple = [], as_by_digest = []\<rparr>"

datatype artifact_exn = ArtifactMissing string string string | ArtifactZone string string | DigestMissing string

definition artifact_of :: "platform \<Rightarrow> string \<Rightarrow> int \<Rightarrow> string \<Rightarrow> string \<Rightarrow> string \<Rightarrow> string \<Rightarrow> json \<Rightarrow> artifact" where
  "artifact_of pf i now cell task node name payload =
     (let serialised = default_json payload
      in \<lparr>ar_artifact_id = i, ar_cell_id = cell, ar_task_run_id = task, ar_node_id = node,
          ar_name = name, ar_payload = payload, ar_digest = digest_json pf (JStr serialised),
          ar_created_at = now, ar_size_bytes = length serialised\<rparr>)"

definition artifact_put :: "platform \<Rightarrow> string \<Rightarrow> int \<Rightarrow> string \<Rightarrow> string \<Rightarrow> string \<Rightarrow> string \<Rightarrow> json \<Rightarrow>
    artifact_store \<Rightarrow> artifact \<times> artifact_store" where
  "artifact_put pf i now cell task node name payload s =
     (let a = artifact_of pf i now cell task node name payload
      in (a, \<lparr>as_by_triple = dset (task, node, name) a (as_by_triple s),
              as_by_digest = dset (ar_digest a) a (as_by_digest s)\<rparr>))"

definition artifact_get :: "artifact_store \<Rightarrow> string \<Rightarrow> string \<Rightarrow> string \<Rightarrow> string \<Rightarrow> artifact_exn + artifact" where
  "artifact_get s cell task node name =
     (case dget (as_by_triple s) (task, node, name) of
        None \<Rightarrow> Inl (ArtifactMissing task node name)
      | Some a \<Rightarrow> if ar_cell_id a \<noteq> cell then Inl (ArtifactZone cell (ar_cell_id a)) else Inr a)"

definition artifact_by_digest :: "artifact_store \<Rightarrow> string \<Rightarrow> artifact_exn + artifact" where
  "artifact_by_digest s g =
     (case dget (as_by_digest s) g of None \<Rightarrow> Inl (DigestMissing g) | Some a \<Rightarrow> Inr a)"

text \<open>A sequence of writes.\<close>

record artifact_write =
  aw_id :: string
  aw_now :: int
  aw_cell :: string
  aw_task :: string
  aw_node :: string
  aw_name :: string
  aw_payload :: json

definition do_write :: "platform \<Rightarrow> artifact_write \<Rightarrow> artifact_store \<Rightarrow> artifact_store" where
  "do_write pf x s = snd (artifact_put pf (aw_id x) (aw_now x) (aw_cell x) (aw_task x) (aw_node x)
     (aw_name x) (aw_payload x) s)"

definition written :: "platform \<Rightarrow> artifact_write \<Rightarrow> artifact" where
  "written pf x = artifact_of pf (aw_id x) (aw_now x) (aw_cell x) (aw_task x) (aw_node x) (aw_name x) (aw_payload x)"

definition aw_triple :: "artifact_write \<Rightarrow> string \<times> string \<times> string" where
  "aw_triple x = (aw_task x, aw_node x, aw_name x)"

lemma by_triple_writes:
  "dget (as_by_triple (fold (do_write pf) xs empty_artifacts)) k =
     map_option (written pf) (find_last (\<lambda>x. aw_triple x = k) xs)"
proof (induction xs rule: rev_induct)
  case Nil
  then show ?case by (simp add: empty_artifacts_def find_last_def)
next
  case (snoc x xs)
  then show ?case
    by (auto simp: do_write_def artifact_put_def Let_def dict_simps aw_triple_def written_def find_last_def)
qed

lemma by_digest_writes:
  "dget (as_by_digest (fold (do_write pf) xs empty_artifacts)) g =
     map_option (written pf) (find_last (\<lambda>x. ar_digest (written pf x) = g) xs)"
proof (induction xs rule: rev_induct)
  case Nil
  then show ?case by (simp add: empty_artifacts_def find_last_def)
next
  case (snoc x xs)
  then show ?case
    by (auto simp: do_write_def artifact_put_def Let_def dict_simps written_def find_last_def)
qed

text \<open>
  A read returns the last write under its triple if the reader's cell made it; after a write of
  another cell it is refused with the owner's name, and before any write it reports a missing
  artifact. A read by digest returns the last write with that digest, whichever cell made it.
\<close>

theorem artifact_reads:
  "artifact_get (fold (do_write pf) xs empty_artifacts) cell task node name =
     (case find_last (\<lambda>x. aw_triple x = (task, node, name)) xs of
        None \<Rightarrow> Inl (ArtifactMissing task node name)
      | Some x \<Rightarrow> if aw_cell x = cell then Inr (written pf x) else Inl (ArtifactZone cell (aw_cell x))) \<and>
   artifact_by_digest (fold (do_write pf) xs empty_artifacts) g =
     (case find_last (\<lambda>x. ar_digest (written pf x) = g) xs of
        None \<Rightarrow> Inl (DigestMissing g) | Some x \<Rightarrow> Inr (written pf x))"
  by (auto simp: artifact_get_def artifact_by_digest_def by_triple_writes by_digest_writes
      written_def artifact_of_def Let_def split: option.split)

end
