(* ===== verification/Publishing.thy ===== *)
theory Publishing
  imports Egress Signing Services
begin

section \<open>Publishing: agent cards, ingress, kill switch and release gate\<close>

text \<open>
  \<open>orchestra/publishing/\<close>: contracts, signed agent cards, the registry of published versions, the
  verification of bearer tokens, the kill switch and the release gate. The optional metrics only
  count and are left out. \<open>json.loads\<close> is a function of the environment; \<open>urlsafe_b64decode\<close> is
  written out as the lenient decoder it is.
\<close>

subsection \<open>Contracts and cards\<close>

record audience_spec =
  au_audience_id :: string
  au_description :: string
  au_required_scopes :: "string list"

record partner_contract =
  pc_contract_id :: string
  pc_tenant_id :: string
  pc_partner_id :: string
  pc_partner_name :: string
  pc_capability_ids :: "string list"
  pc_audiences :: "audience_spec list"
  pc_data_views :: "string list"
  pc_expires_at :: "string option"
  pc_created_at :: string
  pc_metadata :: "(string, json) dict"

definition strs :: "string list \<Rightarrow> json" where "strs xs = JList (map JStr xs)"

definition audience_json :: "audience_spec \<Rightarrow> json" where
  "audience_json a = JObj [(''audience_id'', JStr (au_audience_id a)),
     (''description'', JStr (au_description a)), (''required_scopes'', strs (au_required_scopes a))]"

text \<open>\<open>contract.model_dump(mode='json')\<close>: the snapshot a card embeds.\<close>

definition contract_dump :: "partner_contract \<Rightarrow> (string, json) dict" where
  "contract_dump c = [(''contract_id'', JStr (pc_contract_id c)), (''tenant_id'', JStr (pc_tenant_id c)),
     (''partner_id'', JStr (pc_partner_id c)), (''partner_name'', JStr (pc_partner_name c)),
     (''capability_ids'', strs (pc_capability_ids c)),
     (''audiences'', JList (map audience_json (pc_audiences c))), (''data_views'', strs (pc_data_views c)),
     (''expires_at'', opt_str (pc_expires_at c)), (''created_at'', JStr (pc_created_at c)),
     (''metadata'', JObj (pc_metadata c))]"

datatype card_status = CS_DRAFT | CS_PUBLISHED | CS_DEPRECATED | CS_REVOKED

definition card_status_value :: "card_status \<Rightarrow> string" where
  "card_status_value s = (case s of CS_DRAFT \<Rightarrow> ''draft'' | CS_PUBLISHED \<Rightarrow> ''published''
     | CS_DEPRECATED \<Rightarrow> ''deprecated'' | CS_REVOKED \<Rightarrow> ''revoked'')"

record agent_card =
  cd_card_id :: string
  cd_capability_id :: string
  cd_name :: string
  cd_version :: string
  cd_description :: string
  cd_partner_id :: string
  cd_partner_contract_id :: string
  cd_audiences :: "string list"
  cd_data_views :: "string list"
  cd_contract_snapshot :: "(string, json) dict"
  cd_token_requirements :: "(string, json) dict"
  cd_status :: card_status
  cd_created_at :: string
  cd_published_at :: "string option"
  cd_revoked_at :: "string option"
  cd_signature :: "string option"
  cd_signer_kid :: "string option"

definition to_signable :: "agent_card \<Rightarrow> json" where
  "to_signable c = JObj
     [(''card_id'', JStr (cd_card_id c)), (''capability_id'', JStr (cd_capability_id c)),
      (''name'', JStr (cd_name c)), (''version'', JStr (cd_version c)),
      (''description'', JStr (cd_description c)), (''partner_id'', JStr (cd_partner_id c)),
      (''partner_contract_id'', JStr (cd_partner_contract_id c)), (''audiences'', strs (cd_audiences c)),
      (''data_views'', strs (cd_data_views c)), (''contract_snapshot'', JObj (cd_contract_snapshot c)),
      (''token_requirements'', JObj (cd_token_requirements c)),
      (''status'', JStr (card_status_value (cd_status c))), (''created_at'', JStr (cd_created_at c)),
      (''published_at'', opt_str (cd_published_at c)), (''revoked_at'', opt_str (cd_revoked_at c))]"

definition card_is_current :: "agent_card \<Rightarrow> bool" where
  "card_is_current c \<longleftrightarrow> cd_status c = CS_PUBLISHED"

definition card_header :: "string \<Rightarrow> (string, json) dict" where
  "card_header kid = [(''kid'', JStr kid), (''alg'', JStr ''HS256'')]"

definition sign_card :: "platform \<Rightarrow> string \<Rightarrow> string \<Rightarrow> agent_card \<Rightarrow> agent_card" where
  "sign_card pf k kid c =
     (let env = cose_like_envelope pf (card_header kid) (to_signable c) k kid
      in c\<lparr>cd_signature := (case jget env ''signature'' of Some (JStr s) \<Rightarrow> Some s | _ \<Rightarrow> None),
           cd_signer_kid := (case jget env ''protected'' of Some p \<Rightarrow>
              (case jget p ''kid'' of Some (JStr s) \<Rightarrow> Some s | _ \<Rightarrow> None) | None \<Rightarrow> None)\<rparr>)"

definition verify_card :: "platform \<Rightarrow> string \<Rightarrow> agent_card \<Rightarrow> sign_error + bool" where
  "verify_card pf k c =
     (if cd_status c \<noteq> CS_PUBLISHED then Inr False
      else case (cd_signature c, cd_signer_kid c) of
        (Some s, Some kid) \<Rightarrow>
          if s = [] \<or> kid = [] then Inr False
          else verify_cose_like pf (JObj [(''signature'', JStr s), (''protected'', JObj (card_header kid)),
                 (''payload'', to_signable c)]) k
      | _ \<Rightarrow> Inr False)"

subsection \<open>The registry\<close>

record card_entry =
  pe_card :: agent_card
  pe_key :: string
  pe_kid :: string

record published_registry =
  pr_by_version :: "(string \<times> string, card_entry) dict"
  pr_latest :: "(string, string \<times> string) dict"
  pr_by_partner :: "(string, (string \<times> string) list) dict"
  pr_default_key :: "string option"
  pr_default_kid :: "string option"

definition new_registry :: "string option \<Rightarrow> string option \<Rightarrow> published_registry" where
  "new_registry k kid = \<lparr>pr_by_version = [], pr_latest = [], pr_by_partner = [],
     pr_default_key = k, pr_default_kid = kid\<rparr>"

datatype publish_error = PublishError string | CardKeyError string string | NoLatestCard string

text \<open>\<open>x or y\<close> on optional byte strings.\<close>

definition or_default :: "string option \<Rightarrow> string option \<Rightarrow> string option" where
  "or_default x y = (case x of None \<Rightarrow> y | Some s \<Rightarrow> if s = [] then y else x)"

definition card_key :: "agent_card \<Rightarrow> string \<times> string" where
  "card_key c = (cd_capability_id c, cd_version c)"

text \<open>\<open>d.setdefault(p, set()).add(k)\<close>: a set as a list without repetitions.\<close>

definition index_add :: "string \<Rightarrow> string \<times> string \<Rightarrow> (string, (string \<times> string) list) dict \<Rightarrow>
    (string, (string \<times> string) list) dict" where
  "index_add p k d = dset p (List.insert k (dget_default d p [])) d"

definition as_published :: "agent_card \<Rightarrow> agent_card" where
  "as_published c = c\<lparr>cd_status := CS_PUBLISHED, cd_published_at := Some (cd_created_at c)\<rparr>"

definition publish_card :: "platform \<Rightarrow> agent_card \<Rightarrow> string option \<Rightarrow> string option \<Rightarrow> published_registry \<Rightarrow>
    publish_error + agent_card \<times> published_registry" where
  "publish_card pf c key kid r =
     (if cd_status c \<noteq> CS_DRAFT then Inl (PublishError ''cannot publish a card in this state'')
      else if card_key c \<in> set (keys (pr_by_version r)) then Inl (PublishError ''already published'')
      else case (or_default key (pr_default_key r), or_default kid (pr_default_kid r)) of
        (Some k, Some i) \<Rightarrow>
          let signed = sign_card pf k i (as_published c)
          in Inr (signed, r\<lparr>
               pr_by_version := dset (card_key c) \<lparr>pe_card = signed, pe_key = k, pe_kid = i\<rparr> (pr_by_version r),
               pr_latest := (if cd_capability_id c \<in> set (keys (pr_latest r)) then pr_latest r
                 else dset (cd_capability_id c) (cd_version c, cd_partner_id c) (pr_latest r)),
               pr_by_partner := index_add (cd_partner_id c) (card_key c) (pr_by_partner r)\<rparr>)
      | _ \<Rightarrow> Inl (PublishError ''registry has no default key/kid; pass key= and kid=''))"

definition publish_new_version :: "platform \<Rightarrow> agent_card \<Rightarrow> string option \<Rightarrow> string option \<Rightarrow>
    published_registry \<Rightarrow> publish_error + agent_card \<times> published_registry" where
  "publish_new_version pf c key kid r = map_sum id (\<lambda>(signed, r'). (signed,
     r'\<lparr>pr_latest := dset (cd_capability_id c) (cd_version c, cd_partner_id c) (pr_latest r')\<rparr>))
     (publish_card pf c key kid r)"

definition get_card :: "published_registry \<Rightarrow> string \<Rightarrow> string option \<Rightarrow> publish_error + agent_card" where
  "get_card r cap version =
     (case version of
        Some v \<Rightarrow> (case dget (pr_by_version r) (cap, v) of
            None \<Rightarrow> Inl (CardKeyError cap v) | Some e \<Rightarrow> Inr (pe_card e))
      | None \<Rightarrow> (case dget (pr_latest r) cap of
            None \<Rightarrow> Inl (NoLatestCard cap)
          | Some (v, _) \<Rightarrow> (case dget (pr_by_version r) (cap, v) of
              None \<Rightarrow> Inl (CardKeyError cap v) | Some e \<Rightarrow> Inr (pe_card e))))"

text \<open>\<open>self._by_version[k]\<close> of the indexed keys, in their order.\<close>

definition list_for_partner :: "published_registry \<Rightarrow> string \<Rightarrow> agent_card option list" where
  "list_for_partner r p = map (\<lambda>k. map_option pe_card (dget (pr_by_version r) k))
     (sort (dget_default (pr_by_partner r) p []))"

definition deprecate_card :: "string \<Rightarrow> string \<Rightarrow> published_registry \<Rightarrow>
    publish_error + agent_card \<times> published_registry" where
  "deprecate_card cap v r =
     (case dget (pr_by_version r) (cap, v) of
        None \<Rightarrow> Inl (CardKeyError cap v)
      | Some e \<Rightarrow> let c = (pe_card e)\<lparr>cd_status := CS_DEPRECATED\<rparr>
          in Inr (c, r\<lparr>pr_by_version := dset (cap, v) (e\<lparr>pe_card := c\<rparr>) (pr_by_version r)\<rparr>))"

text \<open>The first other published version of the capability, in insertion order.\<close>

definition promoted :: "string \<Rightarrow> string \<Rightarrow> (string \<times> string, card_entry) dict \<Rightarrow> (string \<times> string) option" where
  "promoted cap v d = map_option (\<lambda>((_, ver), e). (ver, cd_partner_id (pe_card e)))
     (find (\<lambda>((cid, ver), e). cid = cap \<and> cd_status (pe_card e) = CS_PUBLISHED \<and> ver \<noteq> v) d)"

definition revoke_card :: "string \<Rightarrow> string \<Rightarrow> string \<Rightarrow> string \<Rightarrow> published_registry \<Rightarrow>
    publish_error + agent_card \<times> published_registry" where
  "revoke_card now cap v reason r =
     (case dget (pr_by_version r) (cap, v) of
        None \<Rightarrow> Inl (CardKeyError cap v)
      | Some e \<Rightarrow>
        let c = (pe_card e)\<lparr>cd_status := CS_REVOKED, cd_revoked_at := Some now,
              cd_contract_snapshot := dset ''revoke_reason'' (JStr reason) (cd_contract_snapshot (pe_card e))\<rparr>;
            d = dset (cap, v) (e\<lparr>pe_card := c\<rparr>) (pr_by_version r);
            latest = (case dget (pr_latest r) cap of
                Some (ver, _) \<Rightarrow> if ver = v
                  then (case promoted cap v d of Some n \<Rightarrow> dset cap n (pr_latest r) | None \<Rightarrow> ddel cap (pr_latest r))
                  else pr_latest r
              | None \<Rightarrow> pr_latest r);
            p = cd_partner_id (pe_card e);
            index = (case dget (pr_by_partner r) p of None \<Rightarrow> pr_by_partner r
              | Some ks \<Rightarrow> dset p (removeAll (cap, v) ks) (pr_by_partner r))
        in Inr (c, r\<lparr>pr_by_version := d, pr_latest := latest, pr_by_partner := index\<rparr>))"

definition is_current :: "published_registry \<Rightarrow> string \<Rightarrow> string option \<Rightarrow> bool" where
  "is_current r cap version = (case get_card r cap version of Inl _ \<Rightarrow> False | Inr c \<Rightarrow> card_is_current c)"

subsection \<open>The kill switch\<close>

datatype kill_event = KTrip rat string | KReset rat rat

record kill_switch =
  ks_tripped_at :: "rat option"
  ks_reason :: string
  ks_history :: "kill_event list"

definition new_switch :: kill_switch where
  "new_switch = \<lparr>ks_tripped_at = None, ks_reason = [], ks_history = []\<rparr>"

definition trip :: "rat \<Rightarrow> string \<Rightarrow> kill_switch \<Rightarrow> kill_switch" where
  "trip now reason s = (if ks_tripped_at s = None
     then \<lparr>ks_tripped_at = Some now, ks_reason = reason, ks_history = ks_history s @ [KTrip now reason]\<rparr> else s)"

definition reset_switch :: "rat \<Rightarrow> kill_switch \<Rightarrow> kill_switch" where
  "reset_switch now s = \<lparr>ks_tripped_at = None, ks_reason = [],
     ks_history = (case ks_tripped_at s of None \<Rightarrow> ks_history s | Some t \<Rightarrow> ks_history s @ [KReset now t])\<rparr>"

definition is_tripped :: "kill_switch \<Rightarrow> bool" where "is_tripped s \<longleftrightarrow> ks_tripped_at s \<noteq> None"

datatype kill_error = KillTripped string | KillNoCard publish_error | KillNotPublished string card_status

definition kill_admit :: "kill_switch \<Rightarrow> published_registry \<Rightarrow> string \<Rightarrow> string option \<Rightarrow> kill_error + agent_card" where
  "kill_admit s r cap version =
     (if is_tripped s then Inl (KillTripped (ks_reason s))
      else case get_card r cap version of
        Inl e \<Rightarrow> Inl (KillNoCard e)
      | Inr c \<Rightarrow> if cd_status c \<noteq> CS_PUBLISHED then Inl (KillNotPublished (cd_card_id c) (cd_status c)) else Inr c)"

subsection \<open>Bearer tokens\<close>

record bearer_token =
  bt_issuer :: json
  bt_subject :: json
  bt_audience :: json
  bt_scopes :: "json list"
  bt_expires_at :: json

datatype ingress_error =
    MalformedToken | UndecodablePayload | InvalidSignature | UndecodableClaims
  | NoPublishedCard string "string option" | NotPublished string card_status
  | AudienceMismatch json "string list" | MissingScope json
  | IngressCrash string                 \<comment> \<open>an exception other than \<open>IngressDenied\<close>\<close>

text \<open>\<open>s.split()\<close>: the runs of characters that are not white space.\<close>

fun split_runs :: "('a \<Rightarrow> bool) \<Rightarrow> 'a list \<Rightarrow> 'a list \<Rightarrow> 'a list list" where
  "split_runs P cur [] = (if cur = [] then [] else [cur])"
| "split_runs P cur (x # xs) = (if P x then (if cur = [] then [] else [cur]) @ split_runs P [] xs
     else split_runs P (cur @ [x]) xs)"

definition py_split :: "string \<Rightarrow> string list" where
  "py_split s = map concat (split_runs (\<lambda>c. c \<in> set py_spaces) [] (utf8_chars s))"

definition claim_or :: "json \<Rightarrow> string \<Rightarrow> json \<Rightarrow> json" where
  "claim_or d k v = (case jget d k of None \<Rightarrow> v | Some w \<Rightarrow> w)"

definition scope_claim :: "json \<Rightarrow> json" where
  "scope_claim d = (let a = claim_or d ''scope'' JNull; b = claim_or d ''scopes'' JNull
     in if truthy a then a else if truthy b then b else JList [])"

definition token_from_dict :: "json \<Rightarrow> ingress_error + bearer_token" where
  "token_from_dict d =
     (if \<not> is_obj d then Inl (IngressCrash ''AttributeError'')
      else case (case scope_claim d of
          JStr s \<Rightarrow> Inr (map JStr (py_split s))
        | JList xs \<Rightarrow> Inr xs
        | JObj kvs \<Rightarrow> Inr (map JStr (keys kvs))
        | _ \<Rightarrow> Inl (IngressCrash ''TypeError'')) of
        Inl e \<Rightarrow> Inl e
      | Inr scopes \<Rightarrow> Inr \<lparr>bt_issuer = claim_or d ''iss'' (JStr []), bt_subject = claim_or d ''sub'' (JStr []),
          bt_audience = claim_or d ''aud'' (JStr []), bt_scopes = scopes, bt_expires_at = claim_or d ''exp'' JNull\<rparr>)"

text \<open>
  \<open>urlsafe_b64decode\<close>: both alphabets are accepted, other characters are skipped, and padding that
  completes a group ends the input.
\<close>

definition b64_val :: "char \<Rightarrow> nat option" where
  "b64_val c = (let n = of_char c :: nat in
     if 65 \<le> n \<and> n \<le> 90 then Some (n - 65)
     else if 97 \<le> n \<and> n \<le> 122 then Some (n - 71)
     else if 48 \<le> n \<and> n \<le> 57 then Some (n + 4)
     else if n = 43 \<or> n = 45 then Some 62
     else if n = 47 \<or> n = 95 then Some 63
     else None)"

fun b64_scan :: "nat \<Rightarrow> nat \<Rightarrow> nat \<Rightarrow> string \<Rightarrow> string option" where
  "b64_scan q l p [] = (if q = 0 then Some [] else None)"
| "b64_scan q l p (c # cs) =
     (if c = CHR ''='' then
        (if q \<ge> 2 \<and> q + Suc p \<ge> 4 then Some []
         else b64_scan q l (if q \<ge> 2 then Suc p else p) cs)
      else case b64_val c of
        None \<Rightarrow> b64_scan q l p cs
      | Some v \<Rightarrow>
        if q = 0 then b64_scan 1 v 0 cs
        else if q = 1 then map_option ((#) (char_of (l * 4 + v div 16))) (b64_scan 2 (v mod 16) 0 cs)
        else if q = 2 then map_option ((#) (char_of (l * 16 + v div 4))) (b64_scan 3 (v mod 4) 0 cs)
        else map_option ((#) (char_of (l * 64 + v))) (b64_scan 0 0 0 cs))"

definition b64_decode :: "string \<Rightarrow> string option" where "b64_decode s = b64_scan 0 0 0 s"

definition b64_padded :: "string \<Rightarrow> string" where
  "b64_padded s = b64_url s @ replicate ((3 - length s mod 3) mod 3) CHR ''=''"

text \<open>Well-formed UTF-8: no overlong forms, no surrogates, nothing above U+10FFFF.\<close>

definition cont :: "nat \<Rightarrow> bool" where "cont b \<longleftrightarrow> 128 \<le> b \<and> b < 192"

fun utf8_ok :: "nat list \<Rightarrow> bool" where
  "utf8_ok [] = True"
| "utf8_ok (a # s) =
     (if a < 128 then utf8_ok s
      else if 194 \<le> a \<and> a < 224 then (case s of b # t \<Rightarrow> cont b \<and> utf8_ok t | _ \<Rightarrow> False)
      else if 224 \<le> a \<and> a < 240 then
        (case s of b # c # t \<Rightarrow> cont b \<and> cont c \<and> (a = 224 \<longrightarrow> 160 \<le> b) \<and> (a = 237 \<longrightarrow> b < 160) \<and> utf8_ok t | _ \<Rightarrow> False)
      else if 240 \<le> a \<and> a < 245 then
        (case s of b # c # d # t \<Rightarrow> cont b \<and> cont c \<and> cont d \<and> (a = 240 \<longrightarrow> 144 \<le> b) \<and> (a = 244 \<longrightarrow> b < 144) \<and> utf8_ok t
         | _ \<Rightarrow> False)
      else False)"

definition utf8_text :: "string \<Rightarrow> bool" where "utf8_text s \<longleftrightarrow> utf8_ok (map of_char s)"

record ingress_env =
  ie_pf :: platform
  ie_token_key :: string
  ie_loads :: "string \<Rightarrow> json option"

definition token_body :: "string \<Rightarrow> string \<Rightarrow> string \<Rightarrow> string list \<Rightarrow> int option \<Rightarrow> json" where
  "token_body iss sub aud scopes expires = JObj ([(''iss'', JStr iss), (''sub'', JStr sub), (''aud'', JStr aud),
     (''scope'', JStr (intersperse_concat '' '' scopes))] @
     (case expires of None \<Rightarrow> [] | Some t \<Rightarrow> [(''exp'', JInt t)]))"

definition token_of_payload :: "ingress_env \<Rightarrow> string \<Rightarrow> string" where
  "token_of_payload env payload =
     b64_padded payload @ ''.'' @ hmac_sign (ie_pf env) (ie_token_key env) (JStr payload)"

definition issue_token :: "ingress_env \<Rightarrow> string \<Rightarrow> string \<Rightarrow> string \<Rightarrow> string list \<Rightarrow> int option \<Rightarrow> string" where
  "issue_token env iss sub aud scopes expires =
     token_of_payload env (default_json (token_body iss sub aud scopes expires))"

text \<open>\<open>token.rsplit('.', 1)\<close>\<close>

definition rsplit_dot :: "string \<Rightarrow> (string \<times> string) option" where
  "rsplit_dot s = (if CHR ''.'' \<in> set s
     then Some (rev (tl (dropWhile (\<lambda>c. c \<noteq> CHR ''.'') (rev s))), rev (takeWhile (\<lambda>c. c \<noteq> CHR ''.'') (rev s)))
     else None)"

definition decode_payload :: "string \<Rightarrow> string option" where
  "decode_payload b = (if \<not> is_ascii b then None
     else case b64_decode b of None \<Rightarrow> None | Some p \<Rightarrow> if utf8_text p then Some p else None)"

definition verify_token :: "ingress_env \<Rightarrow> string \<Rightarrow> ingress_error + bearer_token" where
  "verify_token env token =
     (case rsplit_dot token of
        None \<Rightarrow> Inl MalformedToken
      | Some (b, sig) \<Rightarrow>
        (case decode_payload b of
           None \<Rightarrow> Inl UndecodablePayload
         | Some payload \<Rightarrow>
           (case hmac_verify (ie_pf env) (ie_token_key env) (JStr payload) sig of
              Inl _ \<Rightarrow> Inl (IngressCrash ''TypeError'')
            | Inr False \<Rightarrow> Inl InvalidSignature
            | Inr True \<Rightarrow>
              (case ie_loads env payload of
                 None \<Rightarrow> Inl UndecodableClaims
               | Some claims \<Rightarrow> token_from_dict claims))))"

subsection \<open>Admission\<close>

text \<open>The scopes one audience of the snapshot requires, as the loop iterates them.\<close>

definition iterate_json :: "json \<Rightarrow> ingress_error + json list" where
  "iterate_json v = (case v of
     JList xs \<Rightarrow> Inr xs
   | JStr s \<Rightarrow> Inr (map JStr (utf8_chars s))
   | JObj kvs \<Rightarrow> Inr (map JStr (keys kvs))
   | _ \<Rightarrow> Inl (IngressCrash ''TypeError''))"

fun check_scopes :: "json list \<Rightarrow> json list \<Rightarrow> ingress_error + unit" where
  "check_scopes have [] = Inr ()"
| "check_scopes have (s # ss) = (if s \<in> set have then check_scopes have ss else Inl (MissingScope s))"

fun check_specs :: "json list \<Rightarrow> json list \<Rightarrow> ingress_error + unit" where
  "check_specs have [] = Inr ()"
| "check_specs have (spec # specs) =
     (if \<not> is_obj spec then Inl (IngressCrash ''AttributeError'')
      else bindS (iterate_json (claim_or spec ''required_scopes'' (JList []))) (\<lambda>ss.
        bindS (check_scopes have ss) (\<lambda>_. check_specs have specs)))"

definition snapshot_specs :: "(string, json) dict \<Rightarrow> ingress_error + json list" where
  "snapshot_specs d = (let v = dget_default d ''audiences'' (JList [])
     in if truthy v then iterate_json v else Inr [])"

definition admit :: "ingress_env \<Rightarrow> published_registry \<Rightarrow> string \<Rightarrow> string option \<Rightarrow> string \<Rightarrow>
    ingress_error + agent_card \<times> bearer_token" where
  "admit env r cap version token =
     (case get_card r cap version of
        Inl _ \<Rightarrow> Inl (NoPublishedCard cap version)
      | Inr c \<Rightarrow>
        if cd_status c \<noteq> CS_PUBLISHED then Inl (NotPublished (cd_card_id c) (cd_status c))
        else bindS (verify_token env token) (\<lambda>bt.
          if bt_audience bt \<notin> JStr ` set (cd_audiences c) then Inl (AudienceMismatch (bt_audience bt) (cd_audiences c))
          else bindS (snapshot_specs (cd_contract_snapshot c)) (\<lambda>specs.
            bindS (check_specs (bt_scopes bt) specs) (\<lambda>_. Inr (c, bt)))))"

subsection \<open>The release gate\<close>

record citation_source =
  so_kind :: string
  so_ref :: string
  so_version :: "string option"
  so_retrieved_at :: "string option"
  so_label :: "security_label option"

record citation =
  ci_citation_id :: string
  ci_claim :: string
  ci_sources :: "citation_source list"
  ci_audience :: data_classification

record citation_manifest =
  cm_manifest_id :: string
  cm_task_run_id :: string
  cm_citations :: "citation list"
  cm_total_claims :: int
  cm_unsourced_claims :: int

datatype release_denial =
    NotADict | NoClaimsList | ForbiddenKey string | CitationCountMismatch nat nat
  | UnsourcedOverBudget nat int | RestrictedSource string string | ReleaseAudience string string

definition forbidden_keys :: "string list" where
  "forbidden_keys = [''error'', ''errors'', ''trace'', ''traces'', ''stacktrace'', ''stack'',
     ''internal_id'', ''raw_payload'']"

text \<open>
  \<open>k.lower()\<close> as far as a comparison with these words sees it: besides the ASCII capitals only the
  Kelvin sign lowers to one of their letters.
\<close>

definition lower_text :: "string \<Rightarrow> string" where
  "lower_text s = concat (map (\<lambda>cs. if map of_char cs = [0xE2, 0x84, 0xAA :: nat] then ''k''
     else map (\<lambda>c. let n = of_char c :: nat in if 65 \<le> n \<and> n \<le> 90 then char_of (n + 32) else c) cs) (utf8_chars s))"

definition result_claims :: "json \<Rightarrow> json list option" where
  "result_claims result = (case jget result ''claims'' of Some (JList cs) \<Rightarrow> Some cs | _ \<Rightarrow> None)"

definition restricted_source :: "citation_source \<Rightarrow> bool" where
  "restricted_source s \<longleftrightarrow> (case so_label s of None \<Rightarrow> False | Some l \<Rightarrow> classification l = DC_RESTRICTED)"

definition unsourced :: "citation_manifest \<Rightarrow> nat" where
  "unsourced m = length (filter (\<lambda>c. ci_sources c = []) (cm_citations m))"

definition first_restricted :: "citation_manifest \<Rightarrow> (citation \<times> citation_source) option" where
  "first_restricted m = find (\<lambda>(c, s). restricted_source s)
     (concat (map (\<lambda>c. map (Pair c) (ci_sources c)) (cm_citations m)))"

definition bad_audience :: "agent_card \<Rightarrow> citation \<Rightarrow> bool" where
  "bad_audience ac c \<longleftrightarrow> classification_value (ci_audience c) \<notin> set (cd_audiences ac)"

fun obj_keys :: "json \<Rightarrow> string list" where
  "obj_keys (JObj kvs) = keys kvs"
| "obj_keys _ = []"

definition release :: "agent_card \<Rightarrow> int \<Rightarrow> json \<Rightarrow> citation_manifest \<Rightarrow> release_denial + json" where
  "release ac max_unsourced result m =
     (if \<not> is_obj result then Inl NotADict
      else case result_claims result of
        None \<Rightarrow> Inl NoClaimsList
      | Some claims \<Rightarrow>
        (case find (\<lambda>k. lower_text k \<in> set forbidden_keys) (obj_keys result) of
           Some k \<Rightarrow> Inl (ForbiddenKey k)
         | None \<Rightarrow>
           if length (cm_citations m) \<noteq> length claims
           then Inl (CitationCountMismatch (length (cm_citations m)) (length claims))
           else if int (unsourced m) > max_unsourced then Inl (UnsourcedOverBudget (unsourced m) max_unsourced)
           else case first_restricted m of
             Some (c, s) \<Rightarrow> Inl (RestrictedSource (ci_citation_id c) (so_ref s))
           | None \<Rightarrow>
             (case find (bad_audience ac) (cm_citations m) of
                Some c \<Rightarrow> Inl (ReleaseAudience (ci_citation_id c) (classification_value (ci_audience c)))
              | None \<Rightarrow> Inr result)))"

subsection \<open>Base64 and the split at the last dot\<close>

lemma b64_val_char: "n < 64 \<Longrightarrow> b64_val (b64_char n) = Some n"
  by (auto simp: b64_char_def b64_val_def of_char_of Let_def)

lemma b64_char_plain: "n < 64 \<Longrightarrow> b64_char n \<noteq> CHR ''='' \<and> b64_char n \<noteq> CHR ''.''"
proof -
  assume "n < 64"
  then have "(of_char (b64_char n) :: nat) \<noteq> 61 \<and> (of_char (b64_char n) :: nat) \<noteq> 46"
    by (auto simp: b64_char_def of_char_of)
  then show ?thesis by (auto simp: of_char_def)
qed

lemma b64_scan_step:
  assumes "n < 64"
  shows "b64_scan 0 l p (b64_char n # cs) = b64_scan (Suc 0) n 0 cs"
    "b64_scan (Suc 0) l p (b64_char n # cs) = map_option ((#) (char_of (l * 4 + n div 16))) (b64_scan 2 (n mod 16) 0 cs)"
    "b64_scan 2 l p (b64_char n # cs) = map_option ((#) (char_of (l * 16 + n div 4))) (b64_scan 3 (n mod 4) 0 cs)"
    "b64_scan 3 l p (b64_char n # cs) = map_option ((#) (char_of (l * 64 + n))) (b64_scan 0 0 0 cs)"
  using assms b64_char_plain [OF assms] by (simp_all add: b64_val_char)

lemma div_mod_join:
  fixes a b k :: nat
  assumes "b < k"
  shows "(a * k + b) div k = a" "(a * k + b) mod k = b"
  using assms by simp_all

lemma byte_split:
  fixes x y z :: nat
  assumes "x < 256" "y < 256" "z < 256"
  shows "x div 4 < 64" "x mod 4 * 16 + y div 16 < 64" "y mod 16 * 4 + z div 64 < 64" "z mod 64 < 64"
    "x mod 4 * 16 < 64" "y mod 16 * 4 < 64"
    "x div 4 * 4 + (x mod 4 * 16 + y div 16) div 16 = x" "x div 4 * 4 + x mod 4 * 16 div 16 = x"
    "(x mod 4 * 16 + y div 16) mod 16 * 16 + (y mod 16 * 4 + z div 64) div 4 = y"
    "(x mod 4 * 16 + y div 16) mod 16 * 16 + y mod 16 * 4 div 4 = y"
    "(y mod 16 * 4 + z div 64) mod 4 * 64 + z mod 64 = z"
proof -
  have y: "y div 16 < 16" and z: "z div 64 < 4" and x: "x div 4 < 64" using assms by simp_all
  have m: "x mod 4 < 4" "y mod 16 < 16" "z mod 64 < 64" by simp_all
  show "x div 4 < 64" "z mod 64 < 64" by (fact x m)+
  show "x mod 4 * 16 + y div 16 < 64" "x mod 4 * 16 < 64" using m(1) y by linarith+
  show "y mod 16 * 4 + z div 64 < 64" "y mod 16 * 4 < 64" using m(2) z by linarith+
  show "x div 4 * 4 + (x mod 4 * 16 + y div 16) div 16 = x" "x div 4 * 4 + x mod 4 * 16 div 16 = x"
    by (simp_all add: div_mod_join [OF y])
  show "(x mod 4 * 16 + y div 16) mod 16 * 16 + (y mod 16 * 4 + z div 64) div 4 = y"
    "(x mod 4 * 16 + y div 16) mod 16 * 16 + y mod 16 * 4 div 4 = y"
    by (simp_all only: div_mod_join [OF y] div_mod_join [OF z] mod_less [OF y] div_mult_mod_eq
        nonzero_mult_div_cancel_right zero_neq_numeral not_False_eq_True)
  show "(y mod 16 * 4 + z div 64) mod 4 * 64 + z mod 64 = z"
    by (simp only: div_mod_join [OF z] mod_less [OF z] div_mult_mod_eq)
qed

lemma b64_scan_end:
  "b64_scan 0 l p [] = Some []" "b64_scan 2 l 0 ''=='' = Some []" "b64_scan 3 l 0 ''='' = Some []"
  by simp_all

lemma b64_decode_padded: "b64_decode (b64_padded s) = Some s"
  unfolding b64_decode_def b64_padded_def
proof (induction s rule: b64_url.induct)
  case 1
  show ?case by simp
next
  case (2 a)
  note b = byte_split [of "of_char a" 0 0, simplified]
  have "replicate ((3 - length [a] mod 3) mod 3) CHR ''='' = ''==''" by (simp add: numeral_2_eq_2)
  then show ?case
    using b by (simp add: Let_def b64_scan_step b64_scan_end del: b64_scan.simps)
next
  case (3 a b)
  note b = byte_split [of "of_char a" "of_char b" 0, simplified]
  have "replicate ((3 - length [a, b] mod 3) mod 3) CHR ''='' = ''=''" by simp
  then show ?case
    using b by (simp add: Let_def b64_scan_step b64_scan_end del: b64_scan.simps)
next
  case (4 a b c cs)
  note b = byte_split [of "of_char a" "of_char b" "of_char c", simplified]
  have "length (a # b # c # cs) mod 3 = length cs mod 3" by simp
  with 4 b show ?case by (simp add: Let_def b64_scan_step del: b64_scan.simps)
qed

lemma rsplit_dotD: "rsplit_dot s = Some (b, sig) \<Longrightarrow> s = b @ ''.'' @ sig \<and> CHR ''.'' \<notin> set sig"
proof -
  assume split: "rsplit_dot s = Some (b, sig)"
  let ?P = "\<lambda>c. c \<noteq> CHR ''.''"
  have "CHR ''.'' \<in> set s" using split by (auto simp: rsplit_dot_def split: if_splits)
  then have "dropWhile ?P (rev s) \<noteq> []" by (simp add: dropWhile_eq_Nil_conv)
  then have hd: "dropWhile ?P (rev s) = CHR ''.'' # tl (dropWhile ?P (rev s))"
    using hd_dropWhile [of ?P "rev s"] by (metis list.collapse)
  have "rev s = takeWhile ?P (rev s) @ dropWhile ?P (rev s)" by simp
  then have "rev s = takeWhile ?P (rev s) @ CHR ''.'' # tl (dropWhile ?P (rev s))" using hd by simp
  then have "s = rev (tl (dropWhile ?P (rev s))) @ CHR ''.'' # rev (takeWhile ?P (rev s))"
    by (metis (no_types, lifting) append.assoc append_Cons append_Nil rev.simps(2) rev_append rev_rev_ident)
  moreover have "CHR ''.'' \<notin> set (takeWhile ?P (rev s))" by (auto dest: set_takeWhileD)
  ultimately show ?thesis using split by (auto simp: rsplit_dot_def split: if_splits)
qed

lemma rsplit_dot_join:
  assumes "CHR ''.'' \<notin> set sig"
  shows "rsplit_dot (b @ ''.'' @ sig) = Some (b, sig)"
proof -
  have "\<And>x. x \<in> set (rev sig) \<Longrightarrow> x \<noteq> CHR ''.''" using assms by auto
  then have "takeWhile (\<lambda>c. c \<noteq> CHR ''.'') (rev sig @ CHR ''.'' # rev b) = rev sig"
    "dropWhile (\<lambda>c. c \<noteq> CHR ''.'') (rev sig @ CHR ''.'' # rev b) = CHR ''.'' # rev b"
    by (subst takeWhile_append2 dropWhile_append2; use assms in auto)+
  then show ?thesis by (simp add: rsplit_dot_def)
qed

lemma b64_url_no_dot: "CHR ''.'' \<notin> set (b64_url s)"
proof -
  have plain: "CHR ''.'' \<noteq> b64_char n" if "n < 64" for n using b64_char_plain [OF that] by metis
  show ?thesis
  proof (induction s rule: b64_url.induct)
    case (2 a)
    show ?case using byte_split [of "of_char a" 0 0, simplified] by (simp add: Let_def plain)
  next
    case (3 a b)
    show ?case using byte_split [of "of_char a" "of_char b" 0, simplified] by (simp add: Let_def plain)
  next
    case (4 a b c cs)
    then show ?case using byte_split [of "of_char a" "of_char b" "of_char c", simplified] by (simp add: Let_def plain)
  qed simp
qed

lemma is_ascii_padded: "is_ascii (b64_padded s)"
  using is_ascii_b64 [of s] by (auto simp: b64_padded_def is_ascii_def list_all_iff)

lemma verify_issued:
  assumes "utf8_text (default_json (token_body iss sub aud scopes expires))"
    and "ie_loads env (default_json (token_body iss sub aud scopes expires)) = Some (token_body iss sub aud scopes expires)"
  shows "verify_token env (issue_token env iss sub aud scopes expires) = token_from_dict (token_body iss sub aud scopes expires)"
proof -
  let ?p = "default_json (token_body iss sub aud scopes expires)"
  have "rsplit_dot (token_of_payload env ?p) = Some (b64_padded ?p, hmac_sign (ie_pf env) (ie_token_key env) (JStr ?p))"
    unfolding token_of_payload_def by (rule rsplit_dot_join) (simp add: hmac_sign_def b64_url_no_dot)
  moreover have "decode_payload (b64_padded ?p) = Some ?p"
    using assms(1) by (simp add: decode_payload_def is_ascii_padded b64_decode_padded)
  ultimately show ?thesis
    using assms(2) by (simp add: verify_token_def issue_token_def hmac.verify_sign)
qed


subsection \<open>The registry over its operations\<close>

datatype registry_op =
    ROPublish agent_card "string option" "string option"
  | RONewVersion agent_card "string option" "string option"
  | RODeprecate string string
  | RORevoke string string string string

text \<open>An operation that raises leaves the registry as it was.\<close>

definition result_state :: "'e + ('a \<times> 's) \<Rightarrow> 's \<Rightarrow> 's" where
  "result_state x s = (case x of Inl _ \<Rightarrow> s | Inr (_, s') \<Rightarrow> s')"

fun registry_step :: "platform \<Rightarrow> registry_op \<Rightarrow> published_registry \<Rightarrow> published_registry" where
  "registry_step pf (ROPublish c k i) r = result_state (publish_card pf c k i r) r"
| "registry_step pf (RONewVersion c k i) r = result_state (publish_new_version pf c k i r) r"
| "registry_step pf (RODeprecate cap v) r = result_state (deprecate_card cap v r) r"
| "registry_step pf (RORevoke now cap v why) r = result_state (revoke_card now cap v why r) r"

definition registry_run :: "platform \<Rightarrow> registry_op list \<Rightarrow> published_registry \<Rightarrow> published_registry" where
  "registry_run pf ops r = foldl (\<lambda>r op. registry_step pf op r) r ops"

text \<open>What an operation can do to the entry of one version: add it, or change the card to a withdrawn one.\<close>

definition withdrawn :: "card_entry \<Rightarrow> bool" where
  "withdrawn e \<longleftrightarrow> cd_status (pe_card e) \<in> {CS_DEPRECATED, CS_REVOKED}"

definition fresh_entry :: "platform \<Rightarrow> string \<times> string \<Rightarrow> card_entry \<Rightarrow> bool" where
  "fresh_entry pf k e \<longleftrightarrow> (\<exists>c. card_key c = k \<and> pe_card e = sign_card pf (pe_key e) (pe_kid e) (as_published c))"

definition entry_added :: "platform \<Rightarrow> (string \<times> string, card_entry) dict \<Rightarrow> (string \<times> string, card_entry) dict \<Rightarrow> bool" where
  "entry_added pf d d' \<longleftrightarrow> (\<exists>k e. d' = dset k e d \<and> dget d k = None \<and> fresh_entry pf k e)"

definition entry_withdrawn :: "(string \<times> string, card_entry) dict \<Rightarrow> (string \<times> string, card_entry) dict \<Rightarrow> bool" where
  "entry_withdrawn d d' \<longleftrightarrow> (\<exists>k e e0. d' = dset k e d \<and> dget d k = Some e0 \<and> withdrawn e \<and>
     card_key (pe_card e) = card_key (pe_card e0))"

lemma publish_card_entry:
  assumes "publish_card pf c key kid r = Inr (x, r')"
  shows "entry_added pf (pr_by_version r) (pr_by_version r')"
proof -
  obtain k i where "card_key c \<notin> set (keys (pr_by_version r))"
    and r': "pr_by_version r' = dset (card_key c)
      \<lparr>pe_card = sign_card pf k i (as_published c), pe_key = k, pe_kid = i\<rparr> (pr_by_version r)"
    using assms by (auto simp: publish_card_def Let_def split: if_splits option.splits)
  then have new: "dget (pr_by_version r) (card_key c) = None" by (metis dget_None_iff)
  have "fresh_entry pf (card_key c) \<lparr>pe_card = sign_card pf k i (as_published c), pe_key = k, pe_kid = i\<rparr>"
    unfolding fresh_entry_def by (rule exI [of _ c]) simp
  with new r' show ?thesis unfolding entry_added_def by blast
qed

lemma step_entry:
  "pr_by_version (registry_step pf op r) = pr_by_version r \<or>
   entry_added pf (pr_by_version r) (pr_by_version (registry_step pf op r)) \<or>
   entry_withdrawn (pr_by_version r) (pr_by_version (registry_step pf op r))"
proof (cases op)
  case (ROPublish c key kid)
  show ?thesis
  proof (cases "publish_card pf c key kid r")
    case (Inr p)
    with publish_card_entry [of pf c key kid r "fst p" "snd p"] ROPublish show ?thesis
      by (cases p) (simp add: result_state_def)
  qed (simp add: ROPublish result_state_def)
next
  case (RONewVersion c key kid)
  show ?thesis
  proof (cases "publish_card pf c key kid r")
    case (Inr p)
    with publish_card_entry [of pf c key kid r "fst p" "snd p"] RONewVersion show ?thesis
      by (cases p) (simp add: result_state_def publish_new_version_def)
  qed (simp add: RONewVersion result_state_def publish_new_version_def)
next
  case (RODeprecate cap v)
  show ?thesis
  proof (cases "dget (pr_by_version r) (cap, v)")
    case (Some e)
    let ?e = "e\<lparr>pe_card := (pe_card e)\<lparr>cd_status := CS_DEPRECATED\<rparr>\<rparr>"
    have "entry_withdrawn (pr_by_version r) (dset (cap, v) ?e (pr_by_version r))"
      unfolding entry_withdrawn_def using Some
      by (intro exI [of _ "(cap, v)"] exI [of _ ?e] exI [of _ e]) (simp add: withdrawn_def card_key_def)
    with Some show ?thesis by (simp add: RODeprecate result_state_def deprecate_card_def Let_def)
  qed (simp add: RODeprecate result_state_def deprecate_card_def)
next
  case (RORevoke now cap v why)
  show ?thesis
  proof (cases "dget (pr_by_version r) (cap, v)")
    case (Some e)
    let ?e = "e\<lparr>pe_card := (pe_card e)\<lparr>cd_status := CS_REVOKED, cd_revoked_at := Some now,
        cd_contract_snapshot := dset ''revoke_reason'' (JStr why) (cd_contract_snapshot (pe_card e))\<rparr>\<rparr>"
    have "entry_withdrawn (pr_by_version r) (dset (cap, v) ?e (pr_by_version r))"
      unfolding entry_withdrawn_def using Some
      by (intro exI [of _ "(cap, v)"] exI [of _ ?e] exI [of _ e]) (simp add: withdrawn_def card_key_def)
    with Some show ?thesis by (simp add: RORevoke result_state_def revoke_card_def Let_def)
  qed (simp add: RORevoke result_state_def revoke_card_def)
qed

lemma withdrawn_stays:
  assumes "dget (pr_by_version r) k = Some e" "withdrawn e"
  shows "\<exists>e'. dget (pr_by_version (registry_run pf ops r)) k = Some e' \<and> withdrawn e'"
  using assms
proof (induction ops arbitrary: r e)
  case Nil
  then show ?case by (simp add: registry_run_def)
next
  case (Cons op ops)
  have "\<exists>e'. dget (pr_by_version (registry_step pf op r)) k = Some e' \<and> withdrawn e'"
    using step_entry [of pf op r]
  proof (elim disjE)
    assume "entry_added pf (pr_by_version r) (pr_by_version (registry_step pf op r))"
    with Cons.prems show ?thesis by (auto simp: entry_added_def dget_dset)
  next
    assume "entry_withdrawn (pr_by_version r) (pr_by_version (registry_step pf op r))"
    with Cons.prems show ?thesis unfolding entry_withdrawn_def by (elim exE) (auto simp: dget_dset)
  qed (use Cons.prems in simp)
  then obtain e' where "dget (pr_by_version (registry_step pf op r)) k = Some e'" "withdrawn e'" by blast
  from Cons.IH [OF this] show ?case by (simp add: registry_run_def)
qed

lemma withdrawn_denied:
  assumes "dget (pr_by_version r) (cap, v) = Some e" "withdrawn e"
  shows "\<exists>x. admit env r cap (Some v) token = Inl x"
  using assms by (auto simp: admit_def get_card_def withdrawn_def)

text \<open>
  C7. Withdrawal is final: once a version has been revoked or deprecated, no later publishing,
  deprecation or revocation makes the ingress admit a call pinned to it, whatever the token; and
  the kill switch's own admission refuses it as well.
\<close>

theorem withdrawal_is_final:
  assumes "revoke_card now cap v why r = Inr (c, r') \<or> deprecate_card cap v r = Inr (c, r')"
  shows "(\<exists>x. admit env (registry_run pf ops r') cap (Some v) token = Inl x) \<and>
    (\<exists>x. kill_admit ks (registry_run pf ops r') cap (Some v) = Inl x)"
proof -
  obtain e where e: "dget (pr_by_version r') (cap, v) = Some e" "withdrawn e"
    using assms by (auto simp: revoke_card_def deprecate_card_def Let_def dget_dset withdrawn_def split: option.splits)
  obtain e' where e': "dget (pr_by_version (registry_run pf ops r')) (cap, v) = Some e'" "withdrawn e'"
    using withdrawn_stays [OF e] by blast
  show ?thesis using withdrawn_denied [OF e'] e' by (auto simp: kill_admit_def get_card_def withdrawn_def)
qed

text \<open>The registry's invariant: every entry is filed under its key, and a published card verifies.\<close>

definition registry_inv :: "platform \<Rightarrow> published_registry \<Rightarrow> bool" where
  "registry_inv pf r \<longleftrightarrow> (\<forall>k e. dget (pr_by_version r) k = Some e \<longrightarrow>
     card_key (pe_card e) = k \<and> cd_status (pe_card e) \<noteq> CS_DRAFT \<and>
     (cd_status (pe_card e) = CS_PUBLISHED \<longrightarrow> fresh_entry pf k e))"

lemma to_signable_signed [simp]: "to_signable (c\<lparr>cd_signature := s, cd_signer_kid := k\<rparr>) = to_signable c"
  by (simp add: to_signable_def)

lemma sign_card_simps [simp]:
  "cd_status (sign_card pf k kid c) = cd_status c" "card_key (sign_card pf k kid c) = card_key c"
  "to_signable (sign_card pf k kid c) = to_signable c" "cd_audiences (sign_card pf k kid c) = cd_audiences c"
  "cd_contract_snapshot (sign_card pf k kid c) = cd_contract_snapshot c"
  by (simp_all add: sign_card_def Let_def card_key_def)

lemma as_published_simps [simp]: "cd_status (as_published c) = CS_PUBLISHED" "card_key (as_published c) = card_key c"
  by (simp_all add: as_published_def card_key_def)

lemma registry_inv_run: "registry_inv pf r \<Longrightarrow> registry_inv pf (registry_run pf ops r)"
proof (induction ops arbitrary: r)
  case (Cons op ops)
  have "registry_inv pf (registry_step pf op r)"
    using step_entry [of pf op r]
  proof (elim disjE)
    assume "entry_added pf (pr_by_version r) (pr_by_version (registry_step pf op r))"
    then obtain k e where new: "pr_by_version (registry_step pf op r) = dset k e (pr_by_version r)" "fresh_entry pf k e"
      unfolding entry_added_def by blast
    then have "card_key (pe_card e) = k \<and> cd_status (pe_card e) \<noteq> CS_DRAFT" by (auto simp: fresh_entry_def)
    with new Cons.prems show ?thesis by (simp add: registry_inv_def dget_dset)
  next
    assume "entry_withdrawn (pr_by_version r) (pr_by_version (registry_step pf op r))"
    then obtain k e e0 where w: "pr_by_version (registry_step pf op r) = dset k e (pr_by_version r)"
      "dget (pr_by_version r) k = Some e0" "withdrawn e" "card_key (pe_card e) = card_key (pe_card e0)"
      unfolding entry_withdrawn_def by blast
    have "card_key (pe_card e0) = k" using Cons.prems w(2) unfolding registry_inv_def by blast
    then have "card_key (pe_card e) = k" "cd_status (pe_card e) \<noteq> CS_DRAFT" "cd_status (pe_card e) \<noteq> CS_PUBLISHED"
      using w(3,4) by (auto simp: withdrawn_def)
    with w(1) Cons.prems show ?thesis by (simp add: registry_inv_def dget_dset)
  qed (use Cons.prems in \<open>simp add: registry_inv_def\<close>)
  with Cons.IH show ?case by (simp add: registry_run_def)
qed (simp add: registry_run_def)

lemma header_merge: "dmerge [(''alg'', JStr ''HS256''), (''kid'', JStr kid)] (card_header kid) =
    [(''alg'', JStr ''HS256''), (''kid'', JStr kid)]"
  by (simp add: dmerge_def card_header_def)

lemma hmac_header_order:
  "hmac_sign pf k (cose_body (JObj (card_header kid)) p) =
   hmac_sign pf k (cose_body (JObj [(''alg'', JStr ''HS256''), (''kid'', JStr kid)]) p)"
proof -
  have "dumps '','' '':'' (JObj (card_header kid)) = dumps '','' '':'' (JObj [(''alg'', JStr ''HS256''), (''kid'', JStr kid)])"
    by (rule dumps_object_order) (auto simp: card_header_def)
  then show ?thesis
    by (simp add: hmac_sign_def digest_json_def canonical_json_def cose_body_def del: dumps.simps(7)) (simp only: dumps.simps list.map prod.case map_prod_simp)
qed

lemma verify_signed:
  assumes "cd_status c = CS_PUBLISHED" "kid \<noteq> []" "\<And>m. hmac_sha256 pf k m \<noteq> []"
  shows "verify_card pf k (sign_card pf k kid c) = Inr True"
proof -
  have b64: "b64_url s \<noteq> []" if "s \<noteq> []" for s
    using that by (cases s rule: b64_url.cases) (simp_all add: Let_def)
  have nonempty: "hmac_sign pf k p \<noteq> []" for p using b64 assms(3) by (simp add: hmac_sign_def)
  show ?thesis
    using assms(1,2) nonempty hmac.verify_sign [of pf k "cose_body (JObj (card_header kid)) (to_signable c)"]
    by (simp add: verify_card_def sign_card_def Let_def header_merge verify_cose_like_def hmac_header_order)
qed


lemma bindS_Inr: "bindS m f = Inr y \<Longrightarrow> \<exists>x. m = Inr x \<and> f x = Inr y"
  by (cases m) (auto simp: bindS_def)

lemma check_scopes_Inr: "check_scopes have ss = Inr () \<longleftrightarrow> set ss \<subseteq> set have"
  by (induction ss) auto

lemma check_specs_dump:
  "check_specs have (map audience_json specs) = Inr () \<longleftrightarrow>
     (\<forall>a \<in> set specs. JStr ` set (au_required_scopes a) \<subseteq> set have)"
proof (induction specs)
  case (Cons a specs)
  have "claim_or (audience_json a) ''required_scopes'' (JList []) = strs (au_required_scopes a)"
    by (simp add: claim_or_def audience_json_def)
  moreover have "check_scopes have (map JStr (au_required_scopes a)) = Inr () \<longleftrightarrow>
      JStr ` set (au_required_scopes a) \<subseteq> set have"
    by (simp add: check_scopes_Inr)
  ultimately show ?case
    using Cons by (cases "check_scopes have (map JStr (au_required_scopes a))")
      (auto simp: iterate_json_def strs_def bindS_def audience_json_def)
qed simp

lemma snapshot_specs_dump: "snapshot_specs (contract_dump ct) = Inr (map audience_json (pc_audiences ct))"
  by (auto simp: snapshot_specs_def contract_dump_def dget_default_def iterate_json_def)

lemma verify_token_Inr:
  assumes "verify_token env token = Inr bt"
  shows "\<exists>b payload claims. token = b @ ''.'' @ hmac_sign (ie_pf env) (ie_token_key env) (JStr payload) \<and>
    decode_payload b = Some payload \<and> ie_loads env payload = Some claims \<and> token_from_dict claims = Inr bt"
proof -
  obtain b sig payload claims where t: "rsplit_dot token = Some (b, sig)" "decode_payload b = Some payload"
    "hmac_verify (ie_pf env) (ie_token_key env) (JStr payload) sig = Inr True"
    "ie_loads env payload = Some claims" "token_from_dict claims = Inr bt"
    using assms by (auto simp: verify_token_def split: option.splits prod.splits sum.splits bool.splits)
  from t(3) have "sig = hmac_sign (ie_pf env) (ie_token_key env) (JStr payload)" by (simp add: hmac.verify_iff)
  with t rsplit_dotD [OF t(1)] show ?thesis by auto
qed

text \<open>
  C6. What admission guarantees: an admitted call is for a published card of the registry; its token
  ends in the key's signature of the payload the claims were read from; the token's audience is one
  of the card's; and if the card's snapshot is a contract's, the token holds every scope that any of
  the contract's audiences requires.
\<close>

theorem admitted_calls_are_entitled:
  assumes "admit env r cap version token = Inr (c, bt)"
  shows "get_card r cap version = Inr c \<and> cd_status c = CS_PUBLISHED \<and>
    (\<exists>b payload claims. token = b @ ''.'' @ hmac_sign (ie_pf env) (ie_token_key env) (JStr payload) \<and>
       decode_payload b = Some payload \<and> ie_loads env payload = Some claims \<and> token_from_dict claims = Inr bt) \<and>
    (\<exists>a \<in> set (cd_audiences c). bt_audience bt = JStr a) \<and>
    (\<forall>ct. cd_contract_snapshot c = contract_dump ct \<longrightarrow>
       (\<forall>a \<in> set (pc_audiences ct). \<forall>s \<in> set (au_required_scopes a). JStr s \<in> set (bt_scopes bt)))"
proof -
  have card: "get_card r cap version = Inr c" "cd_status c = CS_PUBLISHED" "verify_token env token = Inr bt"
    "bt_audience bt \<in> JStr ` set (cd_audiences c)"
    "\<exists>specs. snapshot_specs (cd_contract_snapshot c) = Inr specs \<and> check_specs (bt_scopes bt) specs = Inr ()"
    using assms by (auto simp: admit_def split: sum.splits if_splits dest!: bindS_Inr)
  have "\<forall>a \<in> set (pc_audiences ct). \<forall>s \<in> set (au_required_scopes a). JStr s \<in> set (bt_scopes bt)"
    if "cd_contract_snapshot c = contract_dump ct" for ct
    using card(5) that check_specs_dump [of "bt_scopes bt" "pc_audiences ct"]
    by (auto simp: snapshot_specs_dump)
  with card verify_token_Inr [OF card(3)] show ?thesis by auto
qed

text \<open>
  Deprecating the newest version takes the capability away from every caller without a pinned
  version, although an older version is published and admits pinned calls: the pointer to the
  newest version is moved by a revocation only.
\<close>

theorem deprecation_hides_older_versions:
  assumes "dget (pr_latest r) cap = Some (v, p)" "deprecate_card cap v r = Inr (c, r')"
    and "get_card r cap (Some old) = Inr c0" "old \<noteq> v"
  shows "(\<exists>x. admit env r' cap None token = Inl x) \<and> \<not> is_current r' cap None \<and>
    get_card r' cap (Some old) = Inr c0"
  using assms
  by (auto simp: deprecate_card_def get_card_def admit_def is_current_def card_is_current_def Let_def
      dget_dset split: option.splits)

text \<open>
  The release gate is transparent and exact: a result is released unchanged exactly if it is an
  object with a list of claims and no forbidden key, has a citation for every claim, few enough
  citations without source, no restricted source, and only audiences the card names.
\<close>

theorem release_exact:
  "release ac budget result m = Inr x \<longleftrightarrow> x = result \<and>
     (\<exists>claims. jget result ''claims'' = Some (JList claims) \<and> length (cm_citations m) = length claims) \<and>
     (\<forall>k \<in> set (obj_keys result). lower_text k \<notin> set forbidden_keys) \<and>
     int (unsourced m) \<le> budget \<and>
     (\<forall>c \<in> set (cm_citations m). \<forall>s \<in> set (ci_sources c). \<not> restricted_source s) \<and>
     (\<forall>c \<in> set (cm_citations m). classification_value (ci_audience c) \<in> set (cd_audiences ac))"
proof -
  have forbidden: "find (\<lambda>k. lower_text k \<in> set forbidden_keys) (obj_keys result) = None \<longleftrightarrow>
      (\<forall>k \<in> set (obj_keys result). lower_text k \<notin> set forbidden_keys)"
    by (simp add: find_None_iff) blast
  have restricted: "first_restricted m = None \<longleftrightarrow>
      (\<forall>c \<in> set (cm_citations m). \<forall>s \<in> set (ci_sources c). \<not> restricted_source s)"
    by (force simp: first_restricted_def find_None_iff)
  have audience: "find (bad_audience ac) (cm_citations m) = None \<longleftrightarrow>
      (\<forall>c \<in> set (cm_citations m). classification_value (ci_audience c) \<in> set (cd_audiences ac))"
    by (force simp: find_None_iff bad_audience_def)
  have claims: "result_claims result = Some cs \<longleftrightarrow> jget result ''claims'' = Some (JList cs)" for cs
    by (auto simp: result_claims_def split: option.splits json.splits)
  have obj: "is_obj result" if "jget result ''claims'' = Some v" for v
    using that by (cases result) auto
  show ?thesis
  proof (cases "result_claims result")
    case None
    then have "\<not> (\<exists>cs. jget result ''claims'' = Some (JList cs))" using claims by auto
    with None show ?thesis by (simp add: release_def)
  next
    case (Some cs)
    then have "jget result ''claims'' = Some (JList cs)" by (simp only: claims [symmetric])
    with Some obj forbidden restricted audience show ?thesis
      by (cases "find (\<lambda>k. lower_text k \<in> set forbidden_keys) (obj_keys result)"; cases "first_restricted m";
          cases "find (bad_audience ac) (cm_citations m)")
        (auto simp: release_def)
  qed
qed

subsection \<open>Examples\<close>

definition ex_contract :: partner_contract where
  "ex_contract = \<lparr>pc_contract_id = ''c1'', pc_tenant_id = ''t'', pc_partner_id = ''p'', pc_partner_name = ''P'',
     pc_capability_ids = [''cap''], pc_audiences = [\<lparr>au_audience_id = ''ops'', au_description = [],
       au_required_scopes = [''read'']\<rparr>], pc_data_views = [], pc_expires_at = None, pc_created_at = ''t0'', pc_metadata = []\<rparr>"

definition ex_card :: "string \<Rightarrow> agent_card" where
  "ex_card v = \<lparr>cd_card_id = ''card'', cd_capability_id = ''cap'', cd_name = ''n'', cd_version = v, cd_description = [],
     cd_partner_id = ''p'', cd_partner_contract_id = ''c1'', cd_audiences = [''partner'', ''PARTNER''], cd_data_views = [],
     cd_contract_snapshot = contract_dump ex_contract, cd_token_requirements = [], cd_status = CS_DRAFT,
     cd_created_at = ''t0'', cd_published_at = None, cd_revoked_at = None, cd_signature = None, cd_signer_kid = None\<rparr>"

definition ex_registry :: published_registry where
  "ex_registry = registry_run ex_platform [ROPublish (ex_card ''1'') None None, RONewVersion (ex_card ''2'') None None]
     (new_registry (Some ''k'') (Some ''kid''))"

definition ex_claims :: json where "ex_claims = token_body ''iss'' ''sub'' ''partner'' [''read'', ''x''] (Some 7)"

definition ex_ingress :: ingress_env where
  "ex_ingress = \<lparr>ie_pf = ex_platform, ie_token_key = ''tk'', ie_loads = (\<lambda>_. Some ex_claims)\<rparr>"

definition ex_token :: string where
  "ex_token = issue_token ex_ingress ''iss'' ''sub'' ''partner'' [''read'', ''x''] (Some 7)"

definition ex_entry :: "string \<Rightarrow> card_entry" where
  "ex_entry v = \<lparr>pe_card = sign_card ex_platform ''k'' ''kid'' (as_published (ex_card v)), pe_key = ''k'', pe_kid = ''kid''\<rparr>"

lemma ex_card_simps [simp]:
  "cd_status (ex_card v) = CS_DRAFT" "cd_capability_id (ex_card v) = ''cap''" "cd_version (ex_card v) = v"
  "cd_partner_id (ex_card v) = ''p''" "card_key (ex_card v) = (''cap'', v)"
  "cd_audiences (as_published (ex_card v)) = [''partner'', ''PARTNER'']"
  "cd_contract_snapshot (as_published (ex_card v)) = contract_dump ex_contract"
  by (simp_all add: ex_card_def card_key_def as_published_def)

lemma ex_registry_eq: "ex_registry = \<lparr>pr_by_version = [((''cap'', ''1''), ex_entry ''1''), ((''cap'', ''2''), ex_entry ''2'')],
    pr_latest = [(''cap'', (''2'', ''p''))], pr_by_partner = [(''p'', [(''cap'', ''2''), (''cap'', ''1'')])],
    pr_default_key = Some ''k'', pr_default_kid = Some ''kid''\<rparr>"
  by (simp add: ex_registry_def registry_run_def new_registry_def publish_new_version_def publish_card_def or_default_def
      result_state_def Let_def ex_entry_def index_add_def dget_default_def List.insert_def)

lemma ex_entry_simps [simp]:
  "cd_status (pe_card (ex_entry v)) = CS_PUBLISHED" "cd_audiences (pe_card (ex_entry v)) = [''partner'', ''PARTNER'']"
  "cd_contract_snapshot (pe_card (ex_entry v)) = contract_dump ex_contract"
  by (simp_all add: ex_entry_def)

lemma ex_payload_ok: "utf8_text (default_json ex_claims)"
  by code_simp

lemma ex_verify: "verify_token ex_ingress ex_token = token_from_dict ex_claims"
  using ex_payload_ok verify_issued [of "''iss''" "''sub''" "''partner''" "[''read'', ''x'']" "Some 7" ex_ingress]
  by (simp add: ex_token_def ex_claims_def ex_ingress_def)

lemma ex_bearer: "token_from_dict ex_claims = Inr \<lparr>bt_issuer = JStr ''iss'', bt_subject = JStr ''sub'',
    bt_audience = JStr ''partner'', bt_scopes = [JStr ''read'', JStr ''x''], bt_expires_at = JInt 7\<rparr>"
  by code_simp

lemma ex_admit: "admit ex_ingress ex_registry ''cap'' None ex_token = Inr (pe_card (ex_entry ''2''),
    \<lparr>bt_issuer = JStr ''iss'', bt_subject = JStr ''sub'', bt_audience = JStr ''partner'',
     bt_scopes = [JStr ''read'', JStr ''x''], bt_expires_at = JInt 7\<rparr>)"
proof -
  have "snapshot_specs (contract_dump ex_contract) = Inr (map audience_json (pc_audiences ex_contract))"
    by (rule snapshot_specs_dump)
  moreover have "check_specs [JStr ''read'', JStr ''x''] (map audience_json (pc_audiences ex_contract)) = Inr ()"
    by (subst check_specs_dump) (simp add: ex_contract_def)
  ultimately show ?thesis
    by (simp add: admit_def ex_registry_eq get_card_def ex_verify ex_bearer bindS_def)
qed


theorem withdrawal_is_final_witness:
  "\<exists>c r'. revoke_card ''t1'' ''cap'' ''2'' ''why'' ex_registry = Inr (c, r') \<and>
     (\<exists>x. admit ex_ingress (registry_run ex_platform [RONewVersion (ex_card ''2'') None None] r') ''cap'' (Some ''2'') ex_token = Inl x)"
proof -
  obtain c r' where revoked: "revoke_card ''t1'' ''cap'' ''2'' ''why'' ex_registry = Inr (c, r')"
    by (simp add: revoke_card_def ex_registry_eq Let_def)
  then show ?thesis
    using withdrawal_is_final [of "''t1''" "''cap''" "''2''" "''why''" ex_registry c r' ex_ingress ex_platform
        "[RONewVersion (ex_card ''2'') None None]" ex_token new_switch] by blast
qed


theorem admitted_calls_are_entitled_witness:
  "\<exists>c bt. admit ex_ingress ex_registry ''cap'' None ex_token = Inr (c, bt) \<and> cd_status c = CS_PUBLISHED \<and>
     JStr ''read'' \<in> set (bt_scopes bt)"
proof -
  obtain c bt where adm: "admit ex_ingress ex_registry ''cap'' None ex_token = Inr (c, bt)"
    and snap: "cd_contract_snapshot c = contract_dump ex_contract"
    using ex_admit ex_entry_simps(3) by blast
  have "\<forall>a \<in> set (pc_audiences ex_contract). \<forall>s \<in> set (au_required_scopes a). JStr s \<in> set (bt_scopes bt)"
    using admitted_calls_are_entitled [OF adm] snap by blast
  then have "JStr ''read'' \<in> set (bt_scopes bt)" by (simp add: ex_contract_def)
  with adm admitted_calls_are_entitled [OF adm] show ?thesis by blast
qed

theorem deprecation_hides_older_versions_witness:
  "\<exists>c r'. deprecate_card ''cap'' ''2'' ex_registry = Inr (c, r') \<and> get_card r' ''cap'' (Some ''1'') = Inr (pe_card (ex_entry ''1'')) \<and>
     (\<exists>x. admit ex_ingress r' ''cap'' None ex_token = Inl x)"
proof -
  obtain c r' where gone: "deprecate_card ''cap'' ''2'' ex_registry = Inr (c, r')"
    by (simp add: deprecate_card_def ex_registry_eq Let_def)
  moreover have "dget (pr_latest ex_registry) ''cap'' = Some (''2'', ''p'')"
    "get_card ex_registry ''cap'' (Some ''1'') = Inr (pe_card (ex_entry ''1''))"
    by (simp_all add: ex_registry_eq get_card_def)
  ultimately show ?thesis
    using deprecation_hides_older_versions [of ex_registry "''cap''" "''2''" "''p''" c r' "''1''" "pe_card (ex_entry ''1'')" ex_ingress ex_token]
    by auto
qed

definition ex_release :: json where
  "ex_release = JObj [(''claims'', JList [JStr ''a'']), (''note'', JStr ''b'')]"

definition ex_manifest :: citation_manifest where
  "ex_manifest = \<lparr>cm_manifest_id = ''m'', cm_task_run_id = ''r'', cm_citations = [\<lparr>ci_citation_id = ''c'', ci_claim = ''a'',
     ci_sources = [\<lparr>so_kind = ''event'', so_ref = ''e'', so_version = None, so_retrieved_at = None, so_label = None\<rparr>], ci_audience = DC_PARTNER\<rparr>],
     cm_total_claims = 1, cm_unsourced_claims = 0\<rparr>"

theorem release_exact_witness: "release (ex_card ''1'') 0 ex_release ex_manifest = Inr ex_release"
proof -
  have forbidden: "\<forall>k \<in> set (obj_keys ex_release). lower_text k \<notin> set forbidden_keys" by code_simp
  show ?thesis
    by (rule release_exact [THEN iffD2])
      (use forbidden in \<open>simp add: ex_release_def ex_manifest_def ex_card_def unsourced_def restricted_source_def\<close>)
qed

end
