(* ===== verification/Readiness.thy ===== *)
theory Readiness
  imports Signing
begin

section \<open>Readiness and delegation\<close>

text \<open>
  \<open>orchestra/ga/slo.py\<close> and \<open>ga/evidence.py\<close>: the service-level objectives of a pilot, the verdict on
  its readiness and the signed record of it; and \<open>integrations/delegation.py\<close>: who owns what in an
  integration. Floats are rationals with an infinite value where the code makes one; the index
  \<open>ceil(0.95 * n) - 1\<close> is the exact one, which the float computation agrees with for every list
  that fits in memory. A division by zero is an error value.
\<close>

subsection \<open>Objectives\<close>

datatype measure_value = Fin rat | Infinite

record slo_result =
  sl_name :: string
  sl_target :: rat
  sl_measured :: measure_value
  sl_attainment :: rat
  sl_meets :: bool

datatype slo_error = SloZeroDivision

definition slo_of :: "string \<Rightarrow> rat \<Rightarrow> measure_value \<Rightarrow> rat \<Rightarrow> bool \<Rightarrow> slo_result" where
  "slo_of name target measured attainment meets = \<lparr>sl_name = name, sl_target = target, sl_measured = measured,
     sl_attainment = attainment, sl_meets = meets\<rparr>"

definition availability_slo :: "int \<Rightarrow> int \<Rightarrow> rat \<Rightarrow> slo_error + slo_result" where
  "availability_slo succeeded tasks target =
     (if tasks = 0 then Inr (slo_of ''availability'' target (Fin 0) 0 False)
      else if tasks < 100
      then Inr (slo_of ''availability'' target (Fin (of_int succeeded / of_int tasks)) 0 False)
      else let measured = of_int succeeded / of_int tasks
           in if target = 0 then Inl SloZeroDivision
              else Inr (slo_of ''availability'' target (Fin measured) (min 1 (measured / target)) (measured \<ge> target)))"

text \<open>\<open>samples[max(0, math.ceil(0.95 * len(samples)) - 1)]\<close> of the sorted samples.\<close>

definition p95_index :: "nat \<Rightarrow> nat" where "p95_index n = (95 * n + 99) div 100 - 1"

definition p95 :: "rat list \<Rightarrow> rat" where "p95 samples = sort samples ! p95_index (length samples)"

definition p95_attainment :: "rat \<Rightarrow> rat \<Rightarrow> rat" where
  "p95_attainment target p = (if p > 0 then min 1 (target / p) else 0)"

definition latency_p95_slo :: "rat list \<Rightarrow> rat \<Rightarrow> slo_result" where
  "latency_p95_slo samples target =
     (if samples = [] then slo_of ''latency_p95_ms'' target Infinite 0 False
      else slo_of ''latency_p95_ms'' target (Fin (p95 samples)) (p95_attainment target (p95 samples))
        (p95 samples \<le> target))"

definition recovery_time_slo :: "rat list \<Rightarrow> rat \<Rightarrow> slo_result" where
  "recovery_time_slo samples target =
     (if samples = [] then slo_of ''recovery_time_p95_s'' target (Fin 0) 1 True
      else slo_of ''recovery_time_p95_s'' target (Fin (p95 samples)) (p95_attainment target (p95 samples))
        (p95 samples \<le> target))"

definition rpo_slo :: "rat \<Rightarrow> rat \<Rightarrow> slo_result" where
  "rpo_slo gap target =
     (if target \<le> 0 then slo_of ''rpo_s'' target (Fin gap) 0 False
      else slo_of ''rpo_s'' target (Fin gap) (if gap > 0 then min 1 (target / gap) else 1) (gap \<le> target))"

subsection \<open>The verdict\<close>

record pilot_telemetry =
  te_succeeded_tasks :: int
  te_total_tasks :: int
  te_latency_samples_ms :: "rat list"
  te_recovery_intervals_s :: "rat list"
  te_audit_gap_seconds :: rat
  te_availability_target :: rat
  te_latency_p95_target_ms :: rat
  te_recovery_p95_target_s :: rat
  te_rpo_target_s :: rat

record ga_readiness =
  ga_slo_results :: "slo_result list"
  ga_all_slos_meet :: bool
  ga_deployment_days :: int
  ga_minimum_deployment_days :: int
  ga_ready :: bool
  ga_blockers :: "string list"

definition compute_attainment :: "pilot_telemetry \<Rightarrow> slo_error + slo_result list" where
  "compute_attainment t =
     (case availability_slo (te_succeeded_tasks t) (te_total_tasks t) (te_availability_target t) of
        Inl e \<Rightarrow> Inl e
      | Inr a \<Rightarrow> Inr [a, latency_p95_slo (te_latency_samples_ms t) (te_latency_p95_target_ms t),
          recovery_time_slo (te_recovery_intervals_s t) (te_recovery_p95_target_s t),
          rpo_slo (te_audit_gap_seconds t) (te_rpo_target_s t)])"

definition measure_text :: "platform \<Rightarrow> measure_value \<Rightarrow> string" where
  "measure_text pf v = (case v of Fin q \<Rightarrow> float_repr pf q | Infinite \<Rightarrow> ''inf'')"

definition slo_blocker :: "platform \<Rightarrow> slo_result \<Rightarrow> string" where
  "slo_blocker pf r = sl_name r @ '': measured='' @ measure_text pf (sl_measured r) @ '', target='' @ float_repr pf (sl_target r)"

definition evaluate_ga_readiness :: "platform \<Rightarrow> pilot_telemetry \<Rightarrow> int \<Rightarrow> int \<Rightarrow> slo_error + ga_readiness" where
  "evaluate_ga_readiness pf t days minimum =
     (case compute_attainment t of
        Inl e \<Rightarrow> Inl e
      | Inr results \<Rightarrow>
        let blockers = map (slo_blocker pf) (filter (\<lambda>r. \<not> sl_meets r) results) @
              (if days < minimum
               then [''deployment_days '' @ string_of_int days @ '' < minimum '' @ string_of_int minimum] else [])
        in Inr \<lparr>ga_slo_results = results, ga_all_slos_meet = list_all sl_meets results, ga_deployment_days = days,
             ga_minimum_deployment_days = minimum, ga_ready = (blockers = []), ga_blockers = blockers\<rparr>)"

subsection \<open>The signed record\<close>

text \<open>\<open>json.dumps\<close> writes the infinite float as \<open>Infinity\<close>.\<close>

definition float_json :: "platform \<Rightarrow> rat \<Rightarrow> json" where "float_json pf q = JFloat (float_repr pf q)"

definition measure_json :: "platform \<Rightarrow> measure_value \<Rightarrow> json" where
  "measure_json pf v = (case v of Fin q \<Rightarrow> float_json pf q | Infinite \<Rightarrow> JFloat ''Infinity'')"

definition slo_dict :: "platform \<Rightarrow> slo_result \<Rightarrow> json" where
  "slo_dict pf r = JObj [(''name'', JStr (sl_name r)), (''target'', float_json pf (sl_target r)),
     (''measured'', measure_json pf (sl_measured r)), (''attainment'', float_json pf (sl_attainment r)),
     (''meets'', JBool (sl_meets r))]"

definition readiness_dict :: "platform \<Rightarrow> ga_readiness \<Rightarrow> json" where
  "readiness_dict pf g = JObj [(''slo_results'', JList (map (slo_dict pf) (ga_slo_results g))),
     (''all_slos_meet'', JBool (ga_all_slos_meet g)), (''deployment_days'', JInt (ga_deployment_days g)),
     (''minimum_deployment_days'', JInt (ga_minimum_deployment_days g)), (''ga_ready'', JBool (ga_ready g)),
     (''blockers'', JList (map JStr (ga_blockers g)))]"

definition telemetry_dict :: "platform \<Rightarrow> pilot_telemetry \<Rightarrow> json" where
  "telemetry_dict pf t = JObj [(''succeeded_tasks'', JInt (te_succeeded_tasks t)), (''total_tasks'', JInt (te_total_tasks t)),
     (''latency_samples_ms'', JList (map (float_json pf) (te_latency_samples_ms t))),
     (''recovery_intervals_s'', JList (map (float_json pf) (te_recovery_intervals_s t))),
     (''audit_gap_seconds'', float_json pf (te_audit_gap_seconds t)),
     (''availability_target'', float_json pf (te_availability_target t)),
     (''latency_p95_target_ms'', float_json pf (te_latency_p95_target_ms t)),
     (''recovery_p95_target_s'', float_json pf (te_recovery_p95_target_s t)),
     (''rpo_target_s'', float_json pf (te_rpo_target_s t))]"

record pilot_evidence =
  pe_evidence_id :: string
  pe_pilot_id :: string
  pe_pilot_name :: string
  pe_deployment_days :: int
  pe_deployment_person_days :: rat
  pe_support_cost_usd :: rat
  pe_gross_margin_signal :: rat
  pe_renewal_intent_score :: rat
  pe_telemetry :: pilot_telemetry
  pe_readiness :: ga_readiness
  pe_captured_at :: string
  pe_signature :: "string option"
  pe_key_id :: "string option"

definition evidence_signable :: "platform \<Rightarrow> pilot_evidence \<Rightarrow> json" where
  "evidence_signable pf e = JObj [(''evidence_id'', JStr (pe_evidence_id e)), (''pilot_id'', JStr (pe_pilot_id e)),
     (''pilot_name'', JStr (pe_pilot_name e)), (''deployment_days'', JInt (pe_deployment_days e)),
     (''deployment_person_days'', float_json pf (pe_deployment_person_days e)),
     (''support_cost_usd'', float_json pf (pe_support_cost_usd e)),
     (''gross_margin_signal'', float_json pf (pe_gross_margin_signal e)),
     (''renewal_intent_score'', float_json pf (pe_renewal_intent_score e)),
     (''telemetry'', telemetry_dict pf (pe_telemetry e)), (''readiness'', readiness_dict pf (pe_readiness e)),
     (''captured_at'', JStr (pe_captured_at e))]"

text \<open>The caller's figures, with the signing key and its id.\<close>

record pilot_figures =
  pi_pilot_id :: string
  pi_pilot_name :: string
  pi_deployment_days :: int
  pi_deployment_person_days :: rat
  pi_support_cost_usd :: rat
  pi_gross_margin_signal :: rat
  pi_renewal_intent_score :: rat
  pi_telemetry :: pilot_telemetry
  pi_minimum_deployment_days :: int
  pi_signing_key :: "string option"
  pi_kid :: "string option"

definition unsigned_evidence :: "string \<Rightarrow> string \<Rightarrow> pilot_figures \<Rightarrow> ga_readiness \<Rightarrow> pilot_evidence" where
  "unsigned_evidence i now a g = \<lparr>pe_evidence_id = ''ev:'' @ take 8 i, pe_pilot_id = pi_pilot_id a,
     pe_pilot_name = pi_pilot_name a, pe_deployment_days = pi_deployment_days a,
     pe_deployment_person_days = pi_deployment_person_days a, pe_support_cost_usd = pi_support_cost_usd a,
     pe_gross_margin_signal = pi_gross_margin_signal a, pe_renewal_intent_score = pi_renewal_intent_score a,
     pe_telemetry = pi_telemetry a, pe_readiness = g, pe_captured_at = now, pe_signature = None, pe_key_id = None\<rparr>"

definition collect_pilot_evidence :: "platform \<Rightarrow> string \<Rightarrow> string \<Rightarrow> pilot_figures \<Rightarrow> slo_error + pilot_evidence" where
  "collect_pilot_evidence pf i now a =
     (case evaluate_ga_readiness pf (pi_telemetry a) (pi_deployment_days a) (pi_minimum_deployment_days a) of
        Inl e \<Rightarrow> Inl e
      | Inr g \<Rightarrow>
        let ev = unsigned_evidence i now a g
        in Inr (case (pi_signing_key a, pi_kid a) of
            (Some k, Some kid) \<Rightarrow> ev\<lparr>pe_signature := Some (hmac_sign pf k (evidence_signable pf ev)), pe_key_id := Some kid\<rparr>
          | _ \<Rightarrow> ev))"

definition verify_pilot_evidence :: "platform \<Rightarrow> pilot_evidence \<Rightarrow> string \<Rightarrow> sign_error + bool" where
  "verify_pilot_evidence pf e key =
     (case (pe_signature e, pe_key_id e) of
        (Some s, Some kid) \<Rightarrow> if s = [] \<or> kid = [] then Inr False else hmac_verify pf key (evidence_signable pf e) s
      | _ \<Rightarrow> Inr False)"

subsection \<open>Delegation\<close>

datatype delegation_mode = DM_DELEGATE_TASK | DM_DELEGATE_NODE | DM_OBSERVE_ONLY
datatype integration_level = IL_ENFORCE | IL_RECOMMEND | IL_OBSERVE
datatype owner = OwnOrchestra | OwnHost

record delegation_contract =
  dc_mode :: delegation_mode
  dc_execution_owner :: owner
  dc_idempotency_owner :: owner
  dc_retry_owner :: owner
  dc_cancel_owner :: owner
  dc_final_state_authority :: owner

definition mode_value :: "delegation_mode \<Rightarrow> string" where
  "mode_value m = (case m of DM_DELEGATE_TASK \<Rightarrow> ''delegate-task'' | DM_DELEGATE_NODE \<Rightarrow> ''delegate-node''
     | DM_OBSERVE_ONLY \<Rightarrow> ''observe-only'')"

definition owner_value :: "owner \<Rightarrow> string" where
  "owner_value x = (case x of OwnOrchestra \<Rightarrow> ''orchestra'' | OwnHost \<Rightarrow> ''host'')"

definition delegation_dict :: "delegation_contract \<Rightarrow> json" where
  "delegation_dict c = JObj [(''mode'', JStr (mode_value (dc_mode c))),
     (''execution_owner'', JStr (owner_value (dc_execution_owner c))),
     (''idempotency_owner'', JStr (owner_value (dc_idempotency_owner c))),
     (''retry_owner'', JStr (owner_value (dc_retry_owner c))),
     (''cancel_owner'', JStr (owner_value (dc_cancel_owner c))),
     (''final_state_authority'', JStr (owner_value (dc_final_state_authority c)))]"

definition delegate_task :: delegation_contract where
  "delegate_task = \<lparr>dc_mode = DM_DELEGATE_TASK, dc_execution_owner = OwnOrchestra, dc_idempotency_owner = OwnOrchestra,
     dc_retry_owner = OwnOrchestra, dc_cancel_owner = OwnOrchestra, dc_final_state_authority = OwnOrchestra\<rparr>"

definition delegate_node :: delegation_contract where
  "delegate_node = \<lparr>dc_mode = DM_DELEGATE_NODE, dc_execution_owner = OwnOrchestra, dc_idempotency_owner = OwnHost,
     dc_retry_owner = OwnHost, dc_cancel_owner = OwnHost, dc_final_state_authority = OwnHost\<rparr>"

definition observe_only :: delegation_contract where
  "observe_only = \<lparr>dc_mode = DM_OBSERVE_ONLY, dc_execution_owner = OwnHost, dc_idempotency_owner = OwnHost,
     dc_retry_owner = OwnHost, dc_cancel_owner = OwnHost, dc_final_state_authority = OwnHost\<rparr>"

fun contract_for_mode :: "delegation_mode \<Rightarrow> delegation_contract" where
  "contract_for_mode DM_DELEGATE_TASK = delegate_task"
| "contract_for_mode DM_DELEGATE_NODE = delegate_node"
| "contract_for_mode DM_OBSERVE_ONLY = observe_only"

definition governance_state_for :: "delegation_mode \<Rightarrow> string \<Rightarrow> string option \<Rightarrow> string \<Rightarrow> string \<Rightarrow> string option \<Rightarrow> json" where
  "governance_state_for mode state plan_id audit_url route_url err = JObj [(''state'', JStr state),
     (''plan_id'', opt_str plan_id), (''audit_url'', JStr audit_url), (''route_url'', JStr route_url),
     (''delegation'', delegation_dict (contract_for_mode mode)),
     (''error'', JStr (case err of None \<Rightarrow> [] | Some e \<Rightarrow> e))]"

subsection \<open>Properties\<close>

lemma p95_index_bounds:
  assumes "0 < n"
  shows "p95_index n < n" "95 * n \<le> 100 * Suc (p95_index n)" "100 * p95_index n < 95 * n"
  using assms by (auto simp: p95_index_def)

lemma sorted_count_le:
  fixes ys :: "rat list"
  assumes "sorted ys" "i < length ys"
  shows "Suc i \<le> length (filter (\<lambda>y. y \<le> ys ! i) ys)"
    and "q < ys ! i \<Longrightarrow> length (filter (\<lambda>y. y \<le> q) ys) \<le> i"
proof -
  have le: "ys ! j \<le> ys ! i" if "j \<le> i" for j using sorted_nth_mono [OF assms(1) that assms(2)] .
  have "filter (\<lambda>y. y \<le> ys ! i) (take (Suc i) ys) = take (Suc i) ys"
    using assms(2) le by (auto simp: filter_id_conv in_set_conv_nth less_Suc_eq_le)
  moreover have "filter (\<lambda>y. y \<le> ys ! i) ys =
      filter (\<lambda>y. y \<le> ys ! i) (take (Suc i) ys) @ filter (\<lambda>y. y \<le> ys ! i) (drop (Suc i) ys)"
    by (metis append_take_drop_id filter_append)
  ultimately show "Suc i \<le> length (filter (\<lambda>y. y \<le> ys ! i) ys)" using assms(2) by simp
  assume q: "q < ys ! i"
  have "\<not> y \<le> q" if "y \<in> set (drop i ys)" for y
  proof -
    obtain j where "j < length (drop i ys)" "y = drop i ys ! j" using \<open>y \<in> set (drop i ys)\<close> by (auto simp: in_set_conv_nth)
    then have "ys ! i \<le> y" using assms by (auto intro!: sorted_nth_mono)
    with q show ?thesis by simp
  qed
  then have "filter (\<lambda>y. y \<le> q) (drop i ys) = []" by (simp add: filter_empty_conv)
  then have "filter (\<lambda>y. y \<le> q) ys = filter (\<lambda>y. y \<le> q) (take i ys)"
    by (metis append_Nil2 append_take_drop_id filter_append)
  then show "length (filter (\<lambda>y. y \<le> q) ys) \<le> i"
    using length_filter_le [of "\<lambda>y. y \<le> q" "take i ys"] by simp
qed

text \<open>
  The reported percentile is the smallest sample that at least 95 of 100 samples do not exceed:
  that many do not exceed it, and every smaller value is exceeded by more than 5 of 100.
\<close>

theorem p95_is_percentile:
  assumes "samples \<noteq> []"
  shows "p95 samples \<in> set samples \<and> 95 * length samples \<le> 100 * length (filter (\<lambda>x. x \<le> p95 samples) samples) \<and>
    (q < p95 samples \<longrightarrow> 100 * length (filter (\<lambda>x. x \<le> q) samples) < 95 * length samples)"
proof -
  let ?ys = "sort samples" and ?i = "p95_index (length samples)"
  have n: "0 < length samples" using assms by simp
  have i: "?i < length ?ys" using p95_index_bounds(1) [OF n] by simp
  have count: "length (filter P ?ys) = length (filter P samples)" for P
    by (simp add: filter_sort)
  have "p95 samples \<in> set samples" unfolding p95_def using i by (metis nth_mem set_sort)
  moreover have "95 * length samples \<le> 100 * length (filter (\<lambda>x. x \<le> p95 samples) samples)"
    using sorted_count_le(1) [OF sorted_sort i] p95_index_bounds(2) [OF n] by (simp add: count p95_def)
  moreover have "100 * length (filter (\<lambda>x. x \<le> q) samples) < 95 * length samples" if "q < p95 samples"
    using sorted_count_le(2) [OF sorted_sort i, of q] that p95_index_bounds(3) [OF n] by (simp add: count p95_def)
  ultimately show ?thesis by blast
qed


text \<open>
  Evidence collected with a key verifies with that key; evidence verifies only with a
  non-empty key id and the key's signature of exactly its figures, telemetry and verdict; and
  evidence collected without a key never verifies.
\<close>

theorem pilot_evidence_verifies:
  assumes "collect_pilot_evidence pf i now a = Inr e" "\<And>k m. hmac_sha256 pf k m \<noteq> []"
  shows "(verify_pilot_evidence pf e key = Inr True \<longleftrightarrow> (\<exists>k kid. pi_signing_key a = Some k \<and> pi_kid a = Some kid \<and>
      kid \<noteq> [] \<and> hmac_sign pf key (evidence_signable pf e) = hmac_sign pf k (evidence_signable pf e))) \<and>
    (verify_pilot_evidence pf e' key = Inr True \<longrightarrow> pe_signature e' = Some (hmac_sign pf key (evidence_signable pf e')))"
proof -
  have b64: "b64_url s \<noteq> []" if "s \<noteq> []" for s
    using that by (cases s rule: b64_url.cases) (simp_all add: Let_def)
  have nonempty: "hmac_sign pf k p \<noteq> []" for k p using b64 assms(2) by (simp add: hmac_sign_def)
  have body: "evidence_signable pf (x\<lparr>pe_signature := s, pe_key_id := k\<rparr>) = evidence_signable pf x" for x s k
    by (simp add: evidence_signable_def)
  have unsigned: "pe_signature (unsigned_evidence i now a g) = None" for g by (simp add: unsigned_evidence_def)
  have "verify_pilot_evidence pf e key = Inr True \<longleftrightarrow> (\<exists>k kid. pi_signing_key a = Some k \<and> pi_kid a = Some kid \<and>
      kid \<noteq> [] \<and> hmac_sign pf key (evidence_signable pf e) = hmac_sign pf k (evidence_signable pf e))"
  proof -
    obtain ev where ev: "pe_signature ev = None" "e = (case (pi_signing_key a, pi_kid a) of
        (Some k, Some kid) \<Rightarrow> ev\<lparr>pe_signature := Some (hmac_sign pf k (evidence_signable pf ev)), pe_key_id := Some kid\<rparr>
      | _ \<Rightarrow> ev)"
      using assms(1) that unsigned
      by (auto simp: collect_pilot_evidence_def Let_def split: sum.splits)
    then show ?thesis
      using nonempty
      by (cases "pi_signing_key a"; cases "pi_kid a") (auto simp: verify_pilot_evidence_def body hmac.verify_iff)
  qed
  moreover have "verify_pilot_evidence pf e' key = Inr True \<longrightarrow> pe_signature e' = Some (hmac_sign pf key (evidence_signable pf e'))"
    by (auto simp: verify_pilot_evidence_def hmac.verify_iff split: option.splits)
  ultimately show ?thesis by blast
qed

text \<open>
  Ownership is never split between the parties on retries: in every mode one party owns
  deduplication, retry, cancellation and the final state together, it is Orchestra exactly for
  whole tasks, and nobody owns the execution of a task whose final state it has not, except
  Orchestra for a single node.
\<close>

theorem ownership_consistent:
  "let c = contract_for_mode m in dc_mode c = m \<and>
     dc_idempotency_owner c = dc_final_state_authority c \<and> dc_retry_owner c = dc_final_state_authority c \<and>
     dc_cancel_owner c = dc_final_state_authority c \<and>
     (dc_final_state_authority c = OwnOrchestra \<longleftrightarrow> m = DM_DELEGATE_TASK) \<and>
     (dc_execution_owner c \<noteq> dc_final_state_authority c \<longleftrightarrow> m = DM_DELEGATE_NODE) \<and>
     (contract_for_mode m' = c \<longleftrightarrow> m' = m)"
  by (cases m; cases m') (simp_all add: delegate_task_def delegate_node_def observe_only_def)

subsection \<open>Witnesses\<close>

theorem p95_is_percentile_witness: "p95 [3, 1, 2] = 3 \<and> 95 * 3 \<le> 100 * length (filter (\<lambda>x. x \<le> (3 :: rat)) [3, 1, 2])"
proof -
  have "p95 [3, 1, 2] = 3" by (simp add: p95_def p95_index_def)
  with p95_is_percentile [of "[3, 1, 2]" 3] show ?thesis by (metis list.distinct(1) list.size(3,4) One_nat_def Suc_eq_plus1 numeral_3_eq_3)
qed

definition ex_telemetry :: pilot_telemetry where
  "ex_telemetry = \<lparr>te_succeeded_tasks = 100, te_total_tasks = 100, te_latency_samples_ms = [10], te_recovery_intervals_s = [],
     te_audit_gap_seconds = 0, te_availability_target = 9/10, te_latency_p95_target_ms = 20,
     te_recovery_p95_target_s = 60, te_rpo_target_s = 60\<rparr>"

definition ex_figures :: pilot_figures where
  "ex_figures = \<lparr>pi_pilot_id = ''p'', pi_pilot_name = ''P'', pi_deployment_days = 20, pi_deployment_person_days = 1,
     pi_support_cost_usd = 1, pi_gross_margin_signal = 1, pi_renewal_intent_score = 1, pi_telemetry = ex_telemetry,
     pi_minimum_deployment_days = 14, pi_signing_key = Some ''k'', pi_kid = Some ''kid''\<rparr>"

lemma ex_evaluated: "\<exists>g. evaluate_ga_readiness ex_platform ex_telemetry 20 14 = Inr g"
  by (simp add: evaluate_ga_readiness_def compute_attainment_def availability_slo_def ex_telemetry_def Let_def)


theorem pilot_evidence_verifies_witness:
  "\<exists>e. collect_pilot_evidence ex_platform ''i'' ''t'' ex_figures = Inr e \<and> verify_pilot_evidence ex_platform e ''k'' = Inr True"
proof -
  obtain e where e: "collect_pilot_evidence ex_platform ''i'' ''t'' ex_figures = Inr e"
    using ex_evaluated by (auto simp: collect_pilot_evidence_def ex_figures_def Let_def)
  have "hmac_sha256 ex_platform k m \<noteq> []" for k m by (simp add: ex_platform_def)
  with pilot_evidence_verifies [OF e, of "''k''"] e show ?thesis by (simp add: ex_figures_def)
qed

end
