(* ===== verification/Observability.thy ===== *)
theory Observability
  imports Runtime Egress Services
begin

section \<open>Observability\<close>

text \<open>
  \<open>orchestra/observability/metrics.py\<close>: counters, gauges, histograms, their registry and the text they
  render to; \<open>http.py\<close> and \<open>rate_limit_mw.py\<close>: the middlewares that measure, throttle and limit a
  request. Floats are rationals and \<open>f'{x:g}'\<close> is a function of the environment; a middleware is the
  function from a request to what it passes on or answers. The locks and the metrics hooks of the
  middlewares are left out.
\<close>

subsection \<open>Counters and gauges\<close>

record metric_series =
  ms_name :: string
  ms_help :: string
  ms_labels :: "string list"
  ms_values :: "(string list, rat) dict"

definition new_series :: "string \<Rightarrow> string \<Rightarrow> string list \<Rightarrow> metric_series" where
  "new_series name help labels = \<lparr>ms_name = name, ms_help = help, ms_labels = labels, ms_values = []\<rparr>"

definition label_key :: "string list \<Rightarrow> (string, string) dict \<Rightarrow> string list" where
  "label_key names labels = map (\<lambda>l. dget_default labels l []) names"

definition counter_inc :: "rat \<Rightarrow> (string, string) dict \<Rightarrow> metric_series \<Rightarrow> metric_series" where
  "counter_inc n labels c = (let k = label_key (ms_labels c) labels
     in c\<lparr>ms_values := dset k (dget_default (ms_values c) k 0 + n) (ms_values c)\<rparr>)"

definition gauge_set :: "rat \<Rightarrow> (string, string) dict \<Rightarrow> metric_series \<Rightarrow> metric_series" where
  "gauge_set v labels g = g\<lparr>ms_values := dset (label_key (ms_labels g) labels) v (ms_values g)\<rparr>"

text \<open>The three replacements of a label value, one after the other.\<close>

definition escape_label :: "string \<Rightarrow> string" where
  "escape_label s =
     (let rep = (\<lambda>c new s. concat (map (\<lambda>x. if x = c then new else [x]) s))
      in rep (char_of (10 :: nat)) [CHR 0x5C, CHR ''n''] (rep (CHR 0x22) [CHR 0x5C, CHR 0x22]
           (rep (CHR 0x5C) [CHR 0x5C, CHR 0x5C] s)))"

definition fmt_number :: "(rat \<Rightarrow> string) \<Rightarrow> rat \<Rightarrow> string" where
  "fmt_number g v = (if v = of_int \<lfloor>v\<rfloor> \<and> \<bar>v\<bar> < 10 ^ 15 then string_of_int \<lfloor>v\<rfloor> else g v)"

definition quoted :: "string \<Rightarrow> string" where "quoted s = [CHR 0x22] @ s @ [CHR 0x22]"

definition label_parts :: "string list \<Rightarrow> string list \<Rightarrow> string list" where
  "label_parts names key = map (\<lambda>(n, v). n @ ''='' @ quoted (escape_label v)) (filter (\<lambda>(n, v). v \<noteq> []) (zip names key))"

definition braces :: "string list \<Rightarrow> string" where "braces parts = ''{'' @ intersperse_concat '','' parts @ ''}''"

definition series_labels :: "metric_series \<Rightarrow> string list \<Rightarrow> string" where
  "series_labels m key = (if ms_labels m = [] then [] else braces (label_parts (ms_labels m) key))"

definition newline :: string where "newline = [char_of (10 :: nat)]"

definition metric_head :: "string \<Rightarrow> string \<Rightarrow> string \<Rightarrow> string list" where
  "metric_head name help kind = [''# HELP '' @ name @ '' '' @ help, ''# TYPE '' @ name @ '' '' @ kind]"

definition render_series :: "(rat \<Rightarrow> string) \<Rightarrow> string \<Rightarrow> metric_series \<Rightarrow> string" where
  "render_series g kind m = intersperse_concat newline (metric_head (ms_name m) (ms_help m) kind @
     map (\<lambda>(k, v). ms_name m @ series_labels m k @ '' '' @ fmt_number g v) (ms_values m)) @ newline"

subsection \<open>Histograms\<close>

record histogram =
  hg_name :: string
  hg_help :: string
  hg_labels :: "string list"
  hg_buckets :: "rat list"
  hg_counts :: "(string list, (rat, nat) dict) dict"
  hg_sums :: "(string list, rat) dict"
  hg_totals :: "(string list, nat) dict"

definition default_buckets :: "rat list" where
  "default_buckets = [5/1000, 1/100, 25/1000, 5/100, 1/10, 25/100, 5/10, 1, 25/10, 5, 10]"

definition new_histogram :: "string \<Rightarrow> string \<Rightarrow> string list \<Rightarrow> rat list \<Rightarrow> histogram" where
  "new_histogram name help labels buckets = \<lparr>hg_name = name, hg_help = help, hg_labels = labels,
     hg_buckets = buckets, hg_counts = [], hg_sums = [], hg_totals = []\<rparr>"

definition zero_buckets :: "rat list \<Rightarrow> (rat, nat) dict" where
  "zero_buckets bs = foldl (\<lambda>d b. dset b 0 d) [] bs"

definition observe :: "rat \<Rightarrow> (string, string) dict \<Rightarrow> histogram \<Rightarrow> histogram" where
  "observe v labels h =
     (let k = label_key (hg_labels h) labels;
          counts = (case find (\<lambda>b. v \<le> b) (hg_buckets h) of
              None \<Rightarrow> hg_counts h
            | Some b \<Rightarrow> let c = dget_default (hg_counts h) k (zero_buckets (hg_buckets h))
                in dset k (dset b (dget_default c b 0 + 1) c) (hg_counts h))
      in h\<lparr>hg_counts := counts, hg_sums := dset k (dget_default (hg_sums h) k 0 + v) (hg_sums h),
           hg_totals := dset k (dget_default (hg_totals h) k 0 + 1) (hg_totals h)\<rparr>)"

text \<open>The running total of the loop over the buckets.\<close>

fun cumulate :: "nat \<Rightarrow> rat list \<Rightarrow> (rat \<Rightarrow> nat) \<Rightarrow> (rat \<times> nat) list" where
  "cumulate acc [] c = []"
| "cumulate acc (b # bs) c = (b, acc + c b) # cumulate (acc + c b) bs c"

definition bucket_lines :: "histogram \<Rightarrow> string list \<Rightarrow> (rat \<times> nat) list" where
  "bucket_lines h k = cumulate 0 (hg_buckets h) (\<lambda>b. dget_default (dget_default (hg_counts h) k []) b 0)"

definition le_labels :: "histogram \<Rightarrow> string list \<Rightarrow> string list \<Rightarrow> string" where
  "le_labels h k le = (let parts = label_parts (hg_labels h) k @ le in if parts = [] then [] else braces parts)"

definition render_histogram :: "(rat \<Rightarrow> string) \<Rightarrow> histogram \<Rightarrow> string" where
  "render_histogram g h = intersperse_concat newline (metric_head (hg_name h) (hg_help h) ''histogram'' @
     concat (map (\<lambda>(k, n).
       map (\<lambda>(b, c). hg_name h @ ''_bucket'' @ le_labels h k [''le='' @ quoted (fmt_number g b)] @ '' '' @
         string_of_int (int c)) (bucket_lines h k) @
       [hg_name h @ ''_bucket'' @ le_labels h k [''le='' @ quoted ''+Inf''] @ '' '' @ string_of_int (int n),
        hg_name h @ ''_sum'' @ le_labels h k [] @ '' '' @ fmt_number g (dget_default (hg_sums h) k 0),
        hg_name h @ ''_count'' @ le_labels h k [] @ '' '' @ string_of_int (int n)]) (hg_totals h))) @ newline"

subsection \<open>The registry\<close>

record metrics =
  mt_counters :: "(string, metric_series) dict"
  mt_gauges :: "(string, metric_series) dict"
  mt_histograms :: "(string, histogram) dict"

definition empty_metrics :: metrics where
  "empty_metrics = \<lparr>mt_counters = [], mt_gauges = [], mt_histograms = []\<rparr>"

text \<open>\<open>if name not in d: d[name] = ...; return d[name]\<close>: the handle is the name.\<close>

definition ensure :: "string \<Rightarrow> 'm \<Rightarrow> (string, 'm) dict \<Rightarrow> (string, 'm) dict" where
  "ensure name new d = (if name \<in> set (keys d) then d else dset name new d)"

definition add_counter :: "string \<Rightarrow> string \<Rightarrow> string list \<Rightarrow> metrics \<Rightarrow> metrics" where
  "add_counter name help labels m = m\<lparr>mt_counters := ensure name (new_series name help labels) (mt_counters m)\<rparr>"

definition add_gauge :: "string \<Rightarrow> string \<Rightarrow> string list \<Rightarrow> metrics \<Rightarrow> metrics" where
  "add_gauge name help labels m = m\<lparr>mt_gauges := ensure name (new_series name help labels) (mt_gauges m)\<rparr>"

definition add_histogram :: "string \<Rightarrow> string \<Rightarrow> string list \<Rightarrow> rat list \<Rightarrow> metrics \<Rightarrow> metrics" where
  "add_histogram name help labels buckets m =
     m\<lparr>mt_histograms := ensure name (new_histogram name help labels buckets) (mt_histograms m)\<rparr>"

definition render_prometheus :: "(rat \<Rightarrow> string) \<Rightarrow> metrics \<Rightarrow> string" where
  "render_prometheus g m = concat (map (render_series g ''counter'' \<circ> snd) (mt_counters m) @
     map (render_series g ''gauge'' \<circ> snd) (mt_gauges m) @ map (render_histogram g \<circ> snd) (mt_histograms m))"

definition builtin_metrics :: metrics where
  "builtin_metrics = foldl (\<lambda>m f. f m) empty_metrics
     [add_gauge ''orchestra_up'' ''1 if the process is alive and serving requests.'' [],
      add_counter ''orchestra_http_requests_total'' ''Total HTTP requests.'' [''method'', ''path'', ''status''],
      add_histogram ''orchestra_http_request_duration_seconds'' ''HTTP request duration in seconds.''
        [''method'', ''path''] default_buckets,
      add_counter ''orchestra_egress_pep_projection_total'' ''Total EgressPEP projections.'' [''capability'', ''view''],
      add_counter ''orchestra_egress_pep_denied_total'' ''Total EgressPEP denials.'' [''capability'', ''view''],
      add_histogram ''orchestra_egress_pep_projection_bytes'' ''Projected payload bytes.'' [''capability''] default_buckets,
      add_counter ''orchestra_publish_published_total'' ''Total Agent Cards published.'' [],
      add_counter ''orchestra_publish_revoked_total'' ''Total Agent Cards revoked.'' [],
      add_counter ''orchestra_ingress_admit_total'' ''Total Ingress.admit calls.'' [''outcome''],
      add_counter ''orchestra_release_gate_denied_total'' ''Total ReleaseGate denials.'' [''reason''],
      add_gauge ''orchestra_tenants_total'' ''Total tenants in the multi-tenant store.'' [],
      add_gauge ''orchestra_published_cards_total'' ''Total published Agent Cards.'' [],
      add_gauge ''orchestra_capabilities_total'' ''Total registered capabilities.'' []]"

subsection \<open>Requests\<close>

text \<open>
  The parts of an ASGI scope the middlewares read: header names and values are bytes, the route is
  set once one matched (with the template it may carry).
\<close>

record http_scope =
  hs_type :: string
  hs_method :: "string option"
  hs_path :: "string option"
  hs_headers :: "(string \<times> string) list"
  hs_client :: "string option"
  hs_route :: "string option option"

definition scope_path :: "http_scope \<Rightarrow> string" where
  "scope_path sc = (case hs_path sc of None \<Rightarrow> ''/'' | Some p \<Rightarrow> p)"

text \<open>\<open>bytes.decode('latin-1')\<close>, as UTF-8.\<close>

definition latin1 :: "string \<Rightarrow> string" where
  "latin1 bs = concat (map (\<lambda>c. let n = of_char c :: nat in
     if n < 128 then [c] else [char_of (192 + n div 64), char_of (128 + n mod 64)]) bs)"

definition exempt_paths :: "string list" where "exempt_paths = [''/healthz'', ''/metrics'']"

definition is_exempt :: "string \<Rightarrow> bool" where "is_exempt path \<longleftrightarrow> path \<in> set exempt_paths"

definition forwarded_ips :: "(string \<times> string) list \<Rightarrow> string list" where
  "forwarded_ips hs = filter (\<lambda>ip. ip \<noteq> [])
     (map (\<lambda>(_, v). py_strip (takeWhile (\<lambda>c. c \<noteq> CHR '','') (latin1 v))) (filter (\<lambda>(n, _). n = ''x-forwarded-for'') hs))"

definition resolve_tenant :: "http_scope \<Rightarrow> string" where
  "resolve_tenant sc =
     (case find (\<lambda>(n, _). n = ''x-tenant-id'') (hs_headers sc) of
        Some (_, v) \<Rightarrow> let t = py_strip (latin1 v) in if t = [] then ''anonymous'' else t
      | None \<Rightarrow> (case hs_client sc of
          None \<Rightarrow> ''anonymous''
        | Some ip \<Rightarrow> (case forwarded_ips (hs_headers sc) of first # _ \<Rightarrow> ''ip:'' @ first | [] \<Rightarrow> ''ip:'' @ ip)))"

subsection \<open>Throttling\<close>

datatype throttle = Forward | Throttled string int      \<comment> \<open>status 429 with tenant and seconds\<close>

definition truncate_rat :: "rat \<Rightarrow> int" where
  "truncate_rat q = (if q \<ge> 0 then \<lfloor>q\<rfloor> else \<lceil>q\<rceil>)"

definition rate_limit_call :: "(string \<Rightarrow> rat \<Rightarrow> token_bucket) \<Rightarrow> rat \<Rightarrow> http_scope \<Rightarrow> rate_limiter \<Rightarrow>
    throttle \<times> rate_limiter" where
  "rate_limit_call factory now sc lmt =
     (if hs_type sc \<noteq> ''http'' \<or> is_exempt (scope_path sc) then (Forward, lmt)
      else let tenant = resolve_tenant sc; (d, lmt') = rate_check factory tenant 1 now lmt
           in if rl_allowed d then (Forward, lmt')
              else (Throttled tenant (max 1 (truncate_rat (rl_retry_after d) + 1)), lmt'))"

fun rate_limit_calls :: "(string \<Rightarrow> rat \<Rightarrow> token_bucket) \<Rightarrow> (rat \<times> http_scope) list \<Rightarrow> rate_limiter \<Rightarrow>
    throttle list" where
  "rate_limit_calls factory [] lmt = []"
| "rate_limit_calls factory ((now, sc) # rs) lmt =
     (let (out, lmt') = rate_limit_call factory now sc lmt in out # rate_limit_calls factory rs lmt')"

subsection \<open>Limiting the body\<close>

datatype asgi_message = HttpRequest string | HttpDisconnect | OtherMessage string

datatype size_route =
    PassBody
  | CountBody
  | TooLarge          \<comment> \<open>status 413 from the header alone\<close>

definition content_length :: "textlib \<Rightarrow> http_scope \<Rightarrow> int option" where
  "content_length tx sc = (case find (\<lambda>(n, _). n = ''content-length'') (hs_headers sc) of
     None \<Rightarrow> None | Some (_, v) \<Rightarrow> if is_ascii v then py_int tx (py_strip v) else None)"

definition size_limit_route :: "textlib \<Rightarrow> int \<Rightarrow> http_scope \<Rightarrow> size_route" where
  "size_limit_route tx limit sc =
     (if hs_type sc \<noteq> ''http'' then PassBody
      else case content_length tx sc of
        Some n \<Rightarrow> if n > limit then TooLarge else PassBody
      | None \<Rightarrow> CountBody)"

text \<open>
  \<open>wrapped_receive\<close> called for each message in turn: what the application gets, and how many times
  status 413 was sent.
\<close>

fun counted_messages :: "int \<Rightarrow> int \<Rightarrow> asgi_message list \<Rightarrow> asgi_message list \<times> nat" where
  "counted_messages limit received [] = ([], 0)"
| "counted_messages limit received (HttpRequest body # ms) =
     (let r = received + int (length body); (out, n) = counted_messages limit r ms
      in if r > limit then (HttpDisconnect # out, Suc n) else (HttpRequest body # out, n))"
| "counted_messages limit received (m # ms) =
     (let (out, n) = counted_messages limit received ms in (m # out, n))"

definition received_messages :: "textlib \<Rightarrow> int \<Rightarrow> http_scope \<Rightarrow> asgi_message list \<Rightarrow> asgi_message list" where
  "received_messages tx limit sc ms = (case size_limit_route tx limit sc of
     TooLarge \<Rightarrow> [] | PassBody \<Rightarrow> ms | CountBody \<Rightarrow> fst (counted_messages limit 0 ms))"

definition body_bytes :: "asgi_message list \<Rightarrow> int" where
  "body_bytes ms = sum_list (map (\<lambda>m. case m of HttpRequest b \<Rightarrow> int (length b) | _ \<Rightarrow> 0) ms)"

subsection \<open>Measuring\<close>

definition resolve_path :: "http_scope \<Rightarrow> string" where
  "resolve_path sc = (case hs_route sc of
     Some (Some t) \<Rightarrow> if t \<noteq> [] then t else if scope_path sc = [] then ''/'' else scope_path sc
   | _ \<Rightarrow> if scope_path sc = [] then ''/'' else scope_path sc)"

text \<open>
  One request: the statuses the application starts responses with, of which the last counts, and
  the seconds it took.
\<close>

definition http_metrics_call :: "rat \<Rightarrow> int list \<Rightarrow> http_scope \<Rightarrow> metrics \<Rightarrow> metrics" where
  "http_metrics_call duration statuses sc m =
     (if hs_type sc \<noteq> ''http'' then m
      else let verb = (case hs_method sc of None \<Rightarrow> ''GET'' | Some v \<Rightarrow> v);
               status = (if statuses = [] then 500 else last statuses);
               path = resolve_path sc;
               on = (\<lambda>k f d. case dget d k of None \<Rightarrow> d | Some x \<Rightarrow> dset k (f x) d);
               on' = (\<lambda>k f d. case dget d k of None \<Rightarrow> d | Some x \<Rightarrow> dset k (f x) d)
           in m\<lparr>mt_counters := on ''orchestra_http_requests_total''
                  (counter_inc 1 [(''method'', verb), (''path'', path), (''status'', string_of_int status)]) (mt_counters m),
                mt_histograms := on' ''orchestra_http_request_duration_seconds''
                  (observe duration [(''method'', verb), (''path'', path)]) (mt_histograms m)\<rparr>)"

subsection \<open>Histograms are cumulative\<close>

definition observe_all :: "(rat \<times> (string, string) dict) list \<Rightarrow> histogram \<Rightarrow> histogram" where
  "observe_all xs h = fold (\<lambda>(v, labels). observe v labels) xs h"

definition observed :: "string list \<Rightarrow> string list \<Rightarrow> (rat \<times> (string, string) dict) list \<Rightarrow> rat list" where
  "observed names k xs = map fst (filter (\<lambda>(v, labels). label_key names labels = k) xs)"

lemma cumulate_cong: "(\<And>b. b \<in> set bs \<Longrightarrow> c b = c' b) \<Longrightarrow> cumulate acc bs c = cumulate acc bs c'"
  by (induction bs arbitrary: acc) auto

lemma cumulate_Suc: "cumulate (Suc acc) bs c = map (\<lambda>(b, n). (b, Suc n)) (cumulate acc bs c)"
  by (induction bs arbitrary: acc) auto

lemma cumulate_bump:
  assumes "sorted_wrt (<) bs" "find (\<lambda>b. v \<le> b) bs = Some f" "\<And>b. c' b = (if b = f then Suc (c b) else c b)"
  shows "cumulate acc bs c' = map (\<lambda>(b, n). (b, if v \<le> b then Suc n else n)) (cumulate acc bs c)"
  using assms(1,2)
proof (induction bs arbitrary: acc)
  case (Cons b bs)
  have above: "v \<le> b'" if "v \<le> b" "b' \<in> set bs" for b' using that Cons.prems(1) by force
  have keys: "map fst (cumulate n bs c) = bs" for n by (induction bs arbitrary: n) auto
  show ?case
  proof (cases "v \<le> b")
    case True
    with Cons.prems have f: "f = b" by simp
    then have "cumulate (Suc (acc + c b)) bs c' = cumulate (Suc (acc + c b)) bs c"
      using Cons.prems(1) by (intro cumulate_cong) (auto simp: assms(3))
    moreover have "map (\<lambda>(b, n). (b, Suc n)) (cumulate (acc + c b) bs c) =
        map (\<lambda>(b, n). (b, if v \<le> b then Suc n else n)) (cumulate (acc + c b) bs c)"
    proof (rule map_cong [OF refl])
      fix p assume "p \<in> set (cumulate (acc + c b) bs c)"
      then have "fst p \<in> set bs" using keys by (metis image_eqI list.set_map)
      with above [OF True] show "(case p of (b, n) \<Rightarrow> (b, Suc n)) = (case p of (b, n) \<Rightarrow> (b, if v \<le> b then Suc n else n))"
        by (auto split: prod.split)
    qed
    moreover have "c' b = Suc (c b)" using f assms(3) by simp
    ultimately show ?thesis using True by (simp add: cumulate_Suc)
  next
    case False
    with Cons show ?thesis using find_SomeD [of _ bs f] by (auto simp: assms(3))
  qed
qed simp

lemma cumulate_no_fit:
  assumes "find (\<lambda>b. v \<le> b) bs = None"
  shows "map (\<lambda>(b, n). (b, if v \<le> b then Suc n else n)) (cumulate acc bs c) = cumulate acc bs c"
  using assms by (induction bs arbitrary: acc) (auto split: if_splits)

lemma zero_buckets_lookup: "dget_default (zero_buckets bs) b (0 :: nat) = 0"
proof -
  have "dget_default (foldl (\<lambda>d b. dset b 0 d) d bs) b (0 :: nat) = 0" if "dget_default d b (0 :: nat) = 0" for d
    using that by (induction bs arbitrary: d) (auto simp: dget_default_dset)
  then show ?thesis by (simp add: zero_buckets_def dget_default_def)
qed

lemma observe_lines:
  assumes "sorted_wrt (<) (hg_buckets h)"
  shows "bucket_lines (observe v labels h) k = (if label_key (hg_labels h) labels = k
      then map (\<lambda>(b, n). (b, if v \<le> b then Suc n else n)) (bucket_lines h k) else bucket_lines h k)"
proof (cases "find (\<lambda>b. v \<le> b) (hg_buckets h)")
  case None
  then show ?thesis by (simp add: bucket_lines_def observe_def Let_def cumulate_no_fit)
next
  case (Some f)
  show ?thesis
  proof (cases "label_key (hg_labels h) labels = k")
    case True
    have "dget_default (dget_default (hg_counts (observe v labels h)) k []) b 0 =
        (if b = f then Suc (dget_default (dget_default (hg_counts h) k []) b 0)
         else dget_default (dget_default (hg_counts h) k []) b 0)" for b
      using Some True zero_buckets_lookup [of "hg_buckets h"]
      by (cases "dget (hg_counts h) k")
        (auto simp: observe_def Let_def dget_default_dset dget_default_def [of "hg_counts h"] dget_default_def [of "[]"] dget_default_def [of "dset _ _ _"] dget_dset)
    from cumulate_bump [OF assms Some this] True show ?thesis
      by (simp add: bucket_lines_def) (simp add: observe_def Let_def)
  next
    case False
    with Some show ?thesis by (simp add: bucket_lines_def observe_def Let_def dget_default_dset)
  qed
qed

text \<open>
  C38. The histogram a scraper sees is the cumulative one: after any observations, the line of a bucket
  counts the observations of that label set not above the bucket's bound, the count line counts all
  of them, those above every bound included, and the sum line adds them up.
\<close>

theorem histogram_cumulative:
  assumes "sorted_wrt (<) buckets"
  shows "let h = observe_all xs (new_histogram name help names buckets); vs = observed names k xs in
    bucket_lines h k = map (\<lambda>b. (b, length (filter (\<lambda>v. v \<le> b) vs))) buckets \<and>
    dget_default (hg_totals h) k 0 = length vs \<and> dget_default (hg_sums h) k 0 = sum_list vs"
proof (induction xs rule: rev_induct)
  case Nil
  have "cumulate 0 bs (\<lambda>b. 0) = map (\<lambda>b. (b, 0)) bs" for bs by (induction bs) auto
  then show ?case by (simp add: observe_all_def observed_def new_histogram_def bucket_lines_def dget_default_def)
next
  case (snoc x xs)
  obtain v labels where x: "x = (v, labels)" by force
  define h where "h = observe_all xs (new_histogram name help names buckets)"
  have fields: "hg_labels h = names \<and> hg_buckets h = buckets"
  proof -
    have "hg_labels (fold (\<lambda>(v, labels). observe v labels) xs g) = hg_labels g \<and>
        hg_buckets (fold (\<lambda>(v, labels). observe v labels) xs g) = hg_buckets g" for g
      by (induction xs arbitrary: g) (auto simp: observe_def Let_def)
    then show ?thesis by (simp add: h_def observe_all_def new_histogram_def)
  qed
  have run: "observe_all (xs @ [x]) (new_histogram name help names buckets) = observe v labels h"
    by (simp add: observe_all_def h_def x)
  have seen: "observed names k (xs @ [x]) = observed names k xs @ (if label_key names labels = k then [v] else [])"
    by (simp add: observed_def x)
  have lines: "bucket_lines (observe v labels h) k = (if label_key names labels = k
      then map (\<lambda>(b, n). (b, if v \<le> b then Suc n else n)) (bucket_lines h k) else bucket_lines h k)"
    using observe_lines [of h v labels k] assms fields by simp
  have "dget_default (hg_totals (observe v labels h)) k 0 =
      dget_default (hg_totals h) k 0 + (if label_key names labels = k then 1 else 0)"
    "dget_default (hg_sums (observe v labels h)) k 0 =
      dget_default (hg_sums h) k 0 + (if label_key names labels = k then v else 0)"
    using fields by (simp_all add: observe_def Let_def dget_default_dset)
  with snoc show ?case by (simp add: run seen lines Let_def flip: h_def)
qed

text \<open>
  The two ways past the middlewares. A client that names a new tenant in each request is never
  throttled, however many requests it sends: each name has a full bucket of its own. And a body is
  counted only if no readable content length came with it.
\<close>

theorem fresh_tenants_never_throttled:
  assumes "\<And>t now. 1 \<le> tb_tokens (factory t now) \<and> (\<exists>r > 0. tb_refill_rate (factory t now) = Some r) \<and> tb_last (factory t now) = now"
    and "distinct (map (resolve_tenant \<circ> snd) rs)" "\<forall>(now, sc) \<in> set rs. dget lmt (resolve_tenant sc) = None"
  shows "rate_limit_calls factory rs lmt = replicate (length rs) Forward"
  using assms(2,3)
proof (induction rs arbitrary: lmt)
  case (Cons r rs)
  obtain now sc where r: "r = (now, sc)" by force
  let ?t = "resolve_tenant sc"
  obtain q where q: "q > 0" "tb_refill_rate (factory ?t now) = Some q" using assms(1) by blast
  have new: "dget lmt ?t = None" using Cons.prems(2) by (simp add: r)
  have refill: "refill q now (factory ?t now) = factory ?t now" using assms(1) by (simp add: refill_def Let_def)
  obtain b where call: "rate_limit_call factory now sc lmt = (Forward, lmt) \<or>
      rate_limit_call factory now sc lmt = (Forward, dset ?t b (dset ?t (factory ?t now) lmt))"
    using q refill assms(1) [of ?t now]
    by (cases "hs_type sc \<noteq> ''http'' \<or> is_exempt (scope_path sc)")
      (auto simp: rate_limit_call_def rate_check_def bucket_for_def new try_acquire_def Let_def)
  have tenants: "resolve_tenant sc' \<noteq> ?t" "dget lmt (resolve_tenant sc') = None" if "(now', sc') \<in> set rs" for now' sc'
    using Cons.prems that by (force simp: r)+
  have "rate_limit_calls factory rs (snd (rate_limit_call factory now sc lmt)) = replicate (length rs) Forward"
    by (rule Cons.IH) (use Cons.prems(1) call tenants in \<open>auto simp: dget_dset\<close>)
  then show ?case using call by (auto simp: r split: prod.split)
qed simp

lemma counted_bytes:
  assumes "received \<le> limit" "0 \<le> received"
  shows "body_bytes (fst (counted_messages limit received ms)) \<le> limit - received"
proof -
  have "body_bytes (fst (counted_messages limit received ms)) \<le> max 0 (limit - received)" if "0 \<le> received" for received
    using that
  proof (induction ms arbitrary: received)
    case (Cons m ms)
    have same: "body_bytes (fst (counted_messages limit received ms)) \<le> max 0 (limit - received)" using Cons by simp
    show ?case
    proof (cases m)
      case (HttpRequest body)
      have "body_bytes (fst (counted_messages limit (received + int (length body)) ms)) \<le> max 0 (limit - (received + int (length body)))"
        using Cons by simp
      then show ?thesis
        by (cases "counted_messages limit (received + int (length body)) ms") (auto simp: HttpRequest body_bytes_def)
    qed (use same in \<open>cases "counted_messages limit received ms"; simp add: body_bytes_def\<close>)+
  qed (simp add: body_bytes_def)
  with assms show ?thesis by (metis diff_ge_0_iff_ge max_absorb2)
qed

lemma counted_unchanged:
  "received + body_bytes ms \<le> limit \<Longrightarrow> counted_messages limit received ms = (ms, 0)"
proof (induction ms arbitrary: received)
  case (Cons m ms)
  have pos: "0 \<le> body_bytes ms" by (induction ms) (auto simp: body_bytes_def split: asgi_message.split)
  show ?case
    using Cons pos by (cases m) (auto simp: body_bytes_def Let_def)
qed simp

text \<open>
  Without a readable content length an application never gets more than the limit: what it
  receives adds up to at most that many bytes, and a body within the limit arrives message by
  message as it was sent. With one that is within the limit nothing is counted, and it gets
  everything that is sent.
\<close>

theorem body_limit:
  assumes "hs_type sc = ''http''" "0 \<le> limit"
  shows "(content_length tx sc = None \<longrightarrow> body_bytes (received_messages tx limit sc ms) \<le> limit \<and>
      (body_bytes ms \<le> limit \<longrightarrow> received_messages tx limit sc ms = ms)) \<and>
    (\<forall>n. content_length tx sc = Some n \<longrightarrow> received_messages tx limit sc ms = (if n > limit then [] else ms))"
  using assms counted_bytes [of 0 limit ms] counted_unchanged [of 0 ms limit]
  by (simp add: received_messages_def size_limit_route_def)

text \<open>
  A path outside the route table is counted under its own text, so each new path adds a series; the
  text of the code says such paths share one.
\<close>

lemma unmatched_path_is_label:
  "hs_route sc = None \<Longrightarrow> scope_path sc \<noteq> [] \<Longrightarrow> resolve_path sc = scope_path sc"
  by (simp add: resolve_path_def)

subsection \<open>Witnesses\<close>

theorem histogram_cumulative_witness:
  "bucket_lines (observe 3 [] (observe 20 [] (new_histogram ''n'' ''h'' [] [5, 10]))) [] = [(5, 1), (10, 1)]"
  using histogram_cumulative [of "[5, 10]" "[(20, []), (3, [])]" "''n''" "''h''" "[]" "[]"]
  by (simp add: observe_all_def observed_def label_key_def Let_def)

definition ex_scope :: "string \<Rightarrow> http_scope" where
  "ex_scope t = \<lparr>hs_type = ''http'', hs_method = None, hs_path = Some ''/tasks'', hs_headers = [(''x-tenant-id'', t)],
     hs_client = None, hs_route = None\<rparr>"

lemma ex_scope_tenant: "resolve_tenant (ex_scope ''t1'') = ''t1''" "resolve_tenant (ex_scope ''t2'') = ''t2''"
  using py_strip_plain [of "CHR ''t''" "CHR ''1''" "[]"] py_strip_plain [of "CHR ''t''" "CHR ''2''" "[]"]
  by (simp_all add: resolve_tenant_def ex_scope_def latin1_def plain_def Let_def)

theorem fresh_tenants_never_throttled_witness:
  "rate_limit_calls (\<lambda>_. token_bucket 1 (Some 1)) [(0, ex_scope ''t1''), (0, ex_scope ''t2'')] [] = [Forward, Forward]"
  using fresh_tenants_never_throttled [of "\<lambda>_. token_bucket 1 (Some 1)" "[(0, ex_scope ''t1''), (0, ex_scope ''t2'')]" "[]"]
  by (simp add: token_bucket_def ex_scope_tenant numeral_2_eq_2)

theorem body_limit_witness:
  "body_bytes (received_messages ex_textlib 2 (ex_scope ''t1'') [HttpRequest ''ab'', HttpRequest ''c'']) \<le> 2"
  using body_limit [of "ex_scope ''t1''" 2 ex_textlib "[HttpRequest ''ab'', HttpRequest ''c'']"]
  by (simp add: ex_scope_def content_length_def)

end
