(* ===== verification/Supply.thy ===== *)
theory Supply
  imports Signing Services
begin

section \<open>Supply chain\<close>

text \<open>
  \<open>orchestra/enterprise/supply_chain.py\<close>: the bill of materials read from a requirements file or from
  \<open>pyproject.toml\<close>, detached signatures of files and signed provenance. The texts of the files, the
  fresh ids and the instants are arguments; the regular expressions are written out as scanners
  (each of them matches deterministically). \<open>git_revision\<close> runs a process and is left out.
\<close>

subsection \<open>Text\<close>

text \<open>\<open>str.splitlines()\<close> on UTF-8.\<close>

definition line_breaks :: "string list" where
  "line_breaks = map (map (char_of :: nat \<Rightarrow> char))
     [[13, 10], [10], [11], [12], [13], [28], [29], [30], [0xC2, 0x85], [0xE2, 0x80, 0xA8], [0xE2, 0x80, 0xA9]]"

definition break_at :: "string \<Rightarrow> string option" where
  "break_at s = find (\<lambda>p. p \<noteq> [] \<and> take (length p) s = p) line_breaks"

function split_lines :: "string \<Rightarrow> string \<Rightarrow> string list" where
  "split_lines cur [] = (if cur = [] then [] else [cur])"
| "split_lines cur (c # cs) = (case break_at (c # cs) of
     Some p \<Rightarrow> cur # split_lines [] (drop (length p) (c # cs))
   | None \<Rightarrow> split_lines (cur @ [c]) cs)"
  by pat_completeness auto
termination
proof (relation "measure (\<lambda>(cur, s). length s)", simp)
  fix cur c cs p
  assume "break_at (c # cs) = Some p"
  then have "p \<noteq> []" by (auto simp: break_at_def dest: find_SomeD)
  then have "length (drop (length p) (c # cs)) < length (c # cs)" by (cases p) auto
  then show "(([], drop (length p) (c # cs)), cur, c # cs) \<in> measure (\<lambda>(cur, s). length s)" by simp
qed simp

definition py_splitlines :: "string \<Rightarrow> string list" where "py_splitlines s = split_lines [] s"

definition is_digit :: "char \<Rightarrow> bool" where
  "is_digit c \<longleftrightarrow> (let n = of_char c :: nat in 48 \<le> n \<and> n \<le> 57)"

definition is_letter :: "char \<Rightarrow> bool" where
  "is_letter c \<longleftrightarrow> (let n = of_char c :: nat in 65 \<le> n \<and> n \<le> 90 \<or> 97 \<le> n \<and> n \<le> 122)"

definition name_char :: "char \<Rightarrow> bool" where
  "name_char c \<longleftrightarrow> is_letter c \<or> is_digit c \<or> c \<in> {CHR ''_'', CHR ''.'', CHR ''-''}"

definition version_char :: "char \<Rightarrow> bool" where
  "version_char c \<longleftrightarrow> is_letter c \<or> is_digit c \<or> c \<in> {CHR ''.'', CHR ''-''}"

definition spec_char :: "char \<Rightarrow> bool" where
  "spec_char c \<longleftrightarrow> c \<in> {CHR ''='', CHR ''~'', CHR ''<'', CHR ''>'', CHR ''!''}"

subsection \<open>The bill of materials\<close>

record sbom_component =
  sb_name :: string
  sb_version :: string
  sb_purl :: string

record sbom =
  sb_bom_format :: string
  sb_spec_version :: string
  sb_serial_number :: string
  sb_bom_version :: int
  sb_components :: "sbom_component list"
  sb_metadata :: "(string, json) dict"

definition sbom_dict :: "sbom \<Rightarrow> json" where
  "sbom_dict b = JObj [(''bomFormat'', JStr (sb_bom_format b)), (''specVersion'', JStr (sb_spec_version b)),
     (''serialNumber'', JStr (sb_serial_number b)), (''version'', JInt (sb_bom_version b)),
     (''components'', JList (map (\<lambda>c. JObj [(''name'', JStr (sb_name c)), (''version'', JStr (sb_version c)),
        (''purl'', JStr (sb_purl c))]) (sb_components b))),
     (''metadata'', JObj (sb_metadata b))]"

text \<open>\<open>^([A-Za-z0-9_.\-]+)\s*([=~<>!]+.*)?$\<close>: the name and the specifier, empty if there is none.\<close>

definition match_requirement :: "string \<Rightarrow> (string \<times> string) option" where
  "match_requirement line =
     (let name = takeWhile name_char line; rest = strip_front py_spaces (dropWhile name_char line)
      in if name = [] then None
         else case rest of [] \<Rightarrow> Some (name, []) | c # _ \<Rightarrow> if spec_char c then Some (name, rest) else None)"

text \<open>\<open>([0-9][0-9.\-a-zA-Z]*)\<close>, the first match; empty if there is none.\<close>

definition spec_version :: "string \<Rightarrow> string" where
  "spec_version spec = takeWhile version_char (dropWhile (\<lambda>c. \<not> is_digit c) spec)"

definition component_of :: "string \<times> string \<Rightarrow> sbom_component" where
  "component_of = (\<lambda>(name, spec). let v = spec_version spec in
     \<lparr>sb_name = name, sb_version = v,
      sb_purl = (if v = [] then ''pkg:pypi/'' @ name else ''pkg:pypi/'' @ name @ ''@'' @ v)\<rparr>)"

definition new_sbom :: "string \<Rightarrow> string \<Rightarrow> sbom_component list \<Rightarrow> sbom" where
  "new_sbom i now cs = \<lparr>sb_bom_format = ''CycloneDX'', sb_spec_version = ''1.5'', sb_serial_number = ''urn:uuid:'' @ i,
     sb_bom_version = 1, sb_components = cs, sb_metadata = [(''generated_at'', JStr now)]\<rparr>"

definition requirement_component :: "string \<Rightarrow> sbom_component option" where
  "requirement_component raw =
     (let line = py_strip raw
      in if line = [] \<or> hd line = CHR ''#'' then None else map_option component_of (match_requirement line))"

definition sbom_from_requirements :: "string \<Rightarrow> string \<Rightarrow> string \<Rightarrow> sbom" where
  "sbom_from_requirements i now content =
     new_sbom i now (List.map_filter requirement_component (py_splitlines content))"

text \<open>\<open>re.findall\<close> of a non-empty string in either kind of quotes.\<close>

function quoted_strings :: "string \<Rightarrow> string list" where
  "quoted_strings [] = []"
| "quoted_strings (c # cs) =
     (let body = takeWhile (\<lambda>x. x \<noteq> c) cs
      in if c \<in> {CHR 0x22, CHR 0x27} \<and> body \<noteq> [] \<and> length body < length cs
         then body # quoted_strings (drop (Suc (length body)) cs) else quoted_strings cs)"
  by pat_completeness auto
termination by (relation "measure length") auto

definition bracket_depth :: "string \<Rightarrow> int" where
  "bracket_depth line = int (count_list line (CHR ''['')) - int (count_list line (CHR '']''))"

fun dependency_lines :: "bool \<Rightarrow> int \<Rightarrow> string list \<Rightarrow> string list" where
  "dependency_lines in_block depth [] = []"
| "dependency_lines in_block depth (raw # raws) =
     (let line = py_strip raw in
      if \<not> in_block then
        (if take 12 line = ''dependencies'' \<and> CHR ''['' \<in> set line
         then quoted_strings line @
           (if bracket_depth line \<le> 0 then [] else dependency_lines True (bracket_depth line) raws)
         else dependency_lines False depth raws)
      else quoted_strings line @
        (if depth + bracket_depth line \<le> 0 then [] else dependency_lines True (depth + bracket_depth line) raws))"

definition pyproject_dependencies :: "string \<Rightarrow> string list" where
  "pyproject_dependencies content = dependency_lines False 0 (py_splitlines content)"

definition sbom_from_pyproject :: "string \<Rightarrow> string \<Rightarrow> string \<Rightarrow> sbom" where
  "sbom_from_pyproject i now content = new_sbom i now
     (List.map_filter (\<lambda>line. map_option component_of (match_requirement (py_strip line)))
       (pyproject_dependencies content))"

subsection \<open>Signed files\<close>

record artifact_signature =
  sg_artifact_path :: string
  sg_artifact_sha256 :: string
  sg_algorithm :: string
  sg_signature :: string
  sg_kid :: string
  sg_signed_at :: string

text \<open>The files: the bytes at a path.\<close>

definition file_sha256 :: "platform \<Rightarrow> (string \<Rightarrow> string) \<Rightarrow> string \<Rightarrow> string" where
  "file_sha256 pf files path = sha256_hex pf (files path)"

definition artifact_body :: "string \<Rightarrow> string \<Rightarrow> json" where
  "artifact_body digest path = JObj [(''sha256'', JStr digest), (''path'', JStr path)]"

definition sign_artifact :: "platform \<Rightarrow> (string \<Rightarrow> string) \<Rightarrow> string \<Rightarrow> string \<Rightarrow> string \<Rightarrow> string \<Rightarrow> artifact_signature" where
  "sign_artifact pf files now path key kid =
     (let digest = file_sha256 pf files path
      in \<lparr>sg_artifact_path = path, sg_artifact_sha256 = digest, sg_algorithm = ''HS256'',
          sg_signature = hmac_sign pf key (artifact_body digest path), sg_kid = kid, sg_signed_at = now\<rparr>)"

definition verify_artifact :: "platform \<Rightarrow> (string \<Rightarrow> string) \<Rightarrow> string \<Rightarrow> artifact_signature \<Rightarrow> string \<Rightarrow> sign_error + bool" where
  "verify_artifact pf files path sg key =
     (if file_sha256 pf files path \<noteq> sg_artifact_sha256 sg then Inr False
      else hmac_verify pf key (artifact_body (sg_artifact_sha256 sg) path) (sg_signature sg))"

subsection \<open>Provenance\<close>

record provenance =
  pv_build_id :: string
  pv_source_uri :: string
  pv_source_revision :: string
  pv_builder_id :: string
  pv_build_started_at :: string
  pv_build_finished_at :: string
  pv_materials :: "(string, json) dict list"
  pv_artifacts :: "(string, json) dict list"
  pv_signature :: "string option"
  pv_kid :: "string option"

definition provenance_signable :: "provenance \<Rightarrow> (string, json) dict" where
  "provenance_signable p =
     [(''build_id'', JStr (pv_build_id p)),
      (''source'', JObj [(''uri'', JStr (pv_source_uri p)), (''revision'', JStr (pv_source_revision p))]),
      (''builder'', JObj [(''id'', JStr (pv_builder_id p))]),
      (''started_at'', JStr (pv_build_started_at p)), (''finished_at'', JStr (pv_build_finished_at p)),
      (''materials'', JList (map JObj (pv_materials p))), (''artifacts'', JList (map JObj (pv_artifacts p)))]"

definition provenance_dict :: "provenance \<Rightarrow> (string, json) dict" where
  "provenance_dict p = dset ''kid'' (opt_str (pv_kid p)) (dset ''signature'' (opt_str (pv_signature p)) (provenance_signable p))"

definition build_provenance :: "platform \<Rightarrow> string \<Rightarrow> string \<Rightarrow> string \<Rightarrow> string \<Rightarrow> string \<Rightarrow> string \<Rightarrow>
    (string, json) dict list \<Rightarrow> (string, json) dict list \<Rightarrow> string \<Rightarrow> string \<Rightarrow> provenance" where
  "build_provenance pf i started finished uri revision builder materials artifacts key kid =
     (let p = \<lparr>pv_build_id = ''build:'' @ take 12 i, pv_source_uri = uri, pv_source_revision = revision,
           pv_builder_id = builder, pv_build_started_at = started, pv_build_finished_at = finished,
           pv_materials = materials, pv_artifacts = artifacts, pv_signature = None, pv_kid = None\<rparr>
      in p\<lparr>pv_signature := Some (hmac_sign pf key (JObj (provenance_signable p))), pv_kid := Some kid\<rparr>)"

definition verify_provenance :: "platform \<Rightarrow> provenance \<Rightarrow> string \<Rightarrow> sign_error + bool" where
  "verify_provenance pf p key =
     (case (pv_signature p, pv_kid p) of
        (Some s, Some kid) \<Rightarrow> if s = [] \<or> kid = [] then Inr False
          else hmac_verify pf key (JObj (provenance_signable p)) s
      | _ \<Rightarrow> Inr False)"

subsection \<open>A file of pinned requirements\<close>

lemma plain_chars:
  "name_char c \<Longrightarrow> plain c" "version_char c \<Longrightarrow> plain c" "is_digit c \<Longrightarrow> version_char c"
  by (auto simp: plain_def name_char_def version_char_def is_letter_def is_digit_def Let_def)

lemma line_breaks_not_plain: "\<forall>p \<in> set line_breaks. list_all (Not \<circ> plain) p"
  by (simp add: line_breaks_def plain_def of_char_of)

lemma split_lines_plain:
  assumes "list_all plain l"
  shows "split_lines cur (l @ char_of (10 :: nat) # s) = (cur @ l) # split_lines [] s"
  using assms
proof (induction l arbitrary: cur)
  case Nil
  have "break_at (char_of (10 :: nat) # s) = Some [char_of (10 :: nat)]"
    by (simp add: break_at_def line_breaks_def)
  then show ?case by simp
next
  case (Cons c l)
  have "break_at (c # l @ char_of (10 :: nat) # s) = None"
    unfolding break_at_def using Cons.prems by (intro not_at_plain line_breaks_not_plain) simp
  with Cons show ?case by simp
qed

definition pinned :: "string \<times> string \<Rightarrow> bool" where
  "pinned = (\<lambda>(n, v). n \<noteq> [] \<and> list_all name_char n \<and> v \<noteq> [] \<and> is_digit (hd v) \<and> list_all version_char v)"

definition pin_line :: "string \<times> string \<Rightarrow> string" where
  "pin_line = (\<lambda>(n, v). n @ ''=='' @ v)"

lemma pin_line_plain: "pinned x \<Longrightarrow> list_all plain (pin_line x)"
  by (auto simp: pinned_def pin_line_def list_all_iff plain_chars) (simp add: plain_def)

lemma takeWhile_all: "list_all P xs \<Longrightarrow> \<not> P c \<Longrightarrow> takeWhile P (xs @ c # s) = xs \<and> dropWhile P (xs @ c # s) = c # s"
  by (induction xs) auto

lemma requirement_component_pinned:
  assumes "pinned x"
  shows "requirement_component (pin_line x) = Some \<lparr>sb_name = fst x, sb_version = snd x,
    sb_purl = ''pkg:pypi/'' @ fst x @ ''@'' @ snd x\<rparr>"
proof -
  obtain n v where x: "x = (n, v)" by force
  have n: "n \<noteq> []" "list_all name_char n" and v: "v \<noteq> []" "is_digit (hd v)" "list_all version_char v"
    using assms by (simp_all add: pinned_def x)
  have equals: "\<not> name_char (CHR ''='')" "spec_char (CHR ''='')" "\<not> is_digit (CHR ''='')" "plain (CHR ''='')"
    by (simp_all add: name_char_def spec_char_def is_letter_def is_digit_def plain_def)
  have last: "plain (last v)" using v by (metis last_in_set list_all_iff plain_chars(2))
  have "py_strip (hd n # (tl n @ ''=='' @ butlast v) @ [last v]) = hd n # (tl n @ ''=='' @ butlast v) @ [last v]"
    using n last by (intro py_strip_plain) (auto simp: list_all_iff plain_chars)
  then have strip: "py_strip (pin_line x) = pin_line x" using n v by (cases n) (auto simp: pin_line_def x)
  have "hd n \<noteq> CHR ''#''" using n by (cases n) (auto simp: name_char_def is_letter_def is_digit_def)
  moreover have "strip_front py_spaces (''=='' @ v) = ''=='' @ v"
    using strip_front_plain [OF equals(4) not_plain_tables(1)] by simp
  ultimately have "match_requirement (pin_line x) = Some (n, ''=='' @ v)"
    using n equals takeWhile_all [of name_char n "CHR ''=''" "''='' @ v"]
    by (simp add: match_requirement_def pin_line_def x Let_def)
  moreover have "spec_version (''=='' @ v) = v"
    using v equals by (cases v) (simp_all add: spec_version_def list_all_iff)
  ultimately show ?thesis
    using strip n v \<open>hd n \<noteq> CHR ''#''\<close>
    by (simp add: requirement_component_def component_of_def Let_def x pin_line_def)
qed

text \<open>
  A requirements file that pins each dependency, one \<open>name==version\<close> a line, is listed exactly: the
  bill of materials has one component for each line, in order, with the name, the version and the
  package URL of that line.
\<close>

theorem sbom_lists_pins:
  assumes "list_all pinned ps"
  shows "sb_components (sbom_from_requirements i now (concat (map (\<lambda>x. pin_line x @ [char_of (10 :: nat)]) ps))) =
    map (\<lambda>(n, v). \<lparr>sb_name = n, sb_version = v, sb_purl = ''pkg:pypi/'' @ n @ ''@'' @ v\<rparr>) ps"
proof -
  have "py_splitlines (concat (map (\<lambda>x. pin_line x @ [char_of (10 :: nat)]) ps)) = map pin_line ps"
    using assms by (induction ps) (simp_all add: py_splitlines_def pin_line_plain split_lines_plain)
  moreover have "List.map_filter requirement_component (map pin_line ps) =
      map (\<lambda>(n, v). \<lparr>sb_name = n, sb_version = v, sb_purl = ''pkg:pypi/'' @ n @ ''@'' @ v\<rparr>) ps"
    using assms by (induction ps) (auto simp: requirement_component_pinned List.map_filter_simps)
  ultimately show ?thesis by (simp add: sbom_from_requirements_def new_sbom_def)
qed

theorem sbom_lists_pins_witness:
  "sb_components (sbom_from_requirements ''i'' ''t'' (''a==1.0'' @ [char_of (10 :: nat)] @ ''b-c==2'' @ [char_of (10 :: nat)])) =
    [\<lparr>sb_name = ''a'', sb_version = ''1.0'', sb_purl = ''pkg:pypi/a@1.0''\<rparr>,
     \<lparr>sb_name = ''b-c'', sb_version = ''2'', sb_purl = ''pkg:pypi/b-c@2''\<rparr>]"
  using sbom_lists_pins [of "[(''a'', ''1.0''), (''b-c'', ''2'')]" "''i''" "''t''"]
  by (simp add: pinned_def pin_line_def name_char_def version_char_def is_letter_def is_digit_def)

text \<open>
  A dependency with an extra is left out of the bill of materials without a notice, from a
  requirements file and from \<open>pyproject.toml\<close> alike: the pattern does not match a bracket.
\<close>

theorem sbom_drops_extras:
  assumes "n \<noteq> []" "list_all name_char n"
  shows "requirement_component (n @ ''['' @ extra) = None \<and> match_requirement (py_strip (n @ ''['' @ extra)) = None"
proof -
  have bracket: "\<not> name_char (CHR ''['')" "\<not> spec_char (CHR ''['')" "plain (CHR ''['')"
    by (simp_all add: name_char_def spec_char_def is_letter_def is_digit_def plain_def)
  have "plain (hd n)" using assms by (cases n) (auto simp: plain_chars)
  then obtain y where y: "py_strip (hd n # tl n @ CHR ''['' # extra) = hd n # tl n @ CHR ''['' # y"
    using py_strip_inner bracket(3) by blast
  have strip: "py_strip (n @ CHR ''['' # extra) = n @ CHR ''['' # y" using y assms(1) by (cases n) simp_all
  have "strip_front py_spaces (CHR ''['' # y) = CHR ''['' # y"
    by (rule strip_front_plain [OF bracket(3) not_plain_tables(1)])
  then have "match_requirement (n @ CHR ''['' # y) = None"
    using assms bracket takeWhile_all [of name_char n "CHR ''[''" y] by (simp add: match_requirement_def Let_def)
  then show ?thesis by (simp add: requirement_component_def strip Let_def)
qed

theorem sbom_drops_extras_witness: "requirement_component ''psycopg[binary]>=3.2.10'' = None"
  using sbom_drops_extras [of "''psycopg''" "''binary]>=3.2.10''"]
  by (simp add: name_char_def is_letter_def is_digit_def)

subsection \<open>Signatures\<close>

text \<open>
  A detached signature binds content and path: the signature made of one file verifies for
  another path exactly if the digests are equal and the two signed bodies have one signature, which
  for the same path is always so. Provenance verifies exactly if it carries a non-empty signature
  and key id and the signature is the key's over the body; the provenance just built does, unless
  the key id is empty.
\<close>

theorem supply_signatures:
  fixes pf i started finished uri revision builder ms arts key kid
  defines "built \<equiv> build_provenance pf i started finished uri revision builder ms arts key kid"
  shows "(verify_artifact pf files' path' (sign_artifact pf files now path key kid) key = Inr True \<longleftrightarrow>
     file_sha256 pf files' path' = file_sha256 pf files path \<and>
     hmac_sign pf key (artifact_body (file_sha256 pf files path) path) =
       hmac_sign pf key (artifact_body (file_sha256 pf files path) path')) \<and>
   (verify_provenance pf p key = Inr True \<longleftrightarrow>
     (\<exists>kid. pv_kid p = Some kid \<and> kid \<noteq> []) \<and> hmac_sign pf key (JObj (provenance_signable p)) \<noteq> [] \<and>
     pv_signature p = Some (hmac_sign pf key (JObj (provenance_signable p)))) \<and>
   (verify_provenance pf built key = Inr True \<longleftrightarrow>
     kid \<noteq> [] \<and> hmac_sign pf key (JObj (provenance_signable built)) \<noteq> [])"
proof -
  have verify: "verify_provenance pf p key = Inr True \<longleftrightarrow>
     (\<exists>kid. pv_kid p = Some kid \<and> kid \<noteq> []) \<and> hmac_sign pf key (JObj (provenance_signable p)) \<noteq> [] \<and>
     pv_signature p = Some (hmac_sign pf key (JObj (provenance_signable p)))" for p
    by (auto simp: verify_provenance_def hmac.verify_iff split: option.splits)
  have "pv_signature built = Some (hmac_sign pf key (JObj (provenance_signable built)))" "pv_kid built = Some kid"
    by (simp_all add: built_def build_provenance_def provenance_signable_def Let_def)
  with verify show ?thesis
    by (auto simp: verify_artifact_def sign_artifact_def Let_def hmac.verify_iff)
qed

end
