(* ===== verification/Connectors.thy ===== *)
theory Connectors
  imports Publishing
begin

section \<open>Connectors\<close>

text \<open>
  \<open>orchestra/enterprise/connectors.py\<close>: the development identity provider, the directory of users, the
  key provider and the event forwarder. A key is shared by reference between the provider and its
  callers; the model keeps the one copy the provider has, which is what every later call sees.
\<close>

subsection \<open>The identity provider\<close>

record dev_idp =
  di_issuer :: string
  di_audience :: string
  di_key :: string

datatype idp_error =
    TokenMalformed
  | TokenSignature
  | IdpCrash string                    \<comment> \<open>an exception other than \<open>TokenInvalid\<close>\<close>

definition idp_ingress :: "platform \<Rightarrow> dev_idp \<Rightarrow> ingress_env" where
  "idp_ingress pf d = \<lparr>ie_pf = pf, ie_token_key = di_key d, ie_loads = (\<lambda>_. None)\<rparr>"

definition idp_mint :: "platform \<Rightarrow> dev_idp \<Rightarrow> string \<Rightarrow> string list \<Rightarrow> int option \<Rightarrow> string" where
  "idp_mint pf d subject scopes expires =
     (let payload = default_json (token_body (di_issuer d) subject (di_audience d) scopes expires)
      in b64_padded payload @ ''.'' @ hmac_sign pf (di_key d) (JStr payload))"

definition idp_verify :: "platform \<Rightarrow> (string \<Rightarrow> json option) \<Rightarrow> dev_idp \<Rightarrow> string \<Rightarrow> idp_error + json" where
  "idp_verify pf loads d token =
     (case rsplit_dot token of
        None \<Rightarrow> Inl TokenMalformed
      | Some (b, sig) \<Rightarrow>
        (case decode_payload b of
           None \<Rightarrow> Inl TokenMalformed
         | Some payload \<Rightarrow>
           (case hmac_verify pf (di_key d) (JStr payload) sig of
              Inl _ \<Rightarrow> Inl (IdpCrash ''TypeError'')
            | Inr False \<Rightarrow> Inl TokenSignature
            | Inr True \<Rightarrow>
              (case loads payload of None \<Rightarrow> Inl (IdpCrash ''JSONDecodeError'') | Some claims \<Rightarrow> Inr claims))))"

subsection \<open>The directory\<close>

record scim_user =
  su_user_id :: string
  su_email :: string
  su_display_name :: string
  su_active :: bool
  su_groups :: "string list"

type_synonym scim_directory = "(string, scim_user) dict"

definition upsert_user :: "scim_user \<Rightarrow> scim_directory \<Rightarrow> scim_directory" where
  "upsert_user u d = dset (su_user_id u) u d"

definition get_user :: "scim_directory \<Rightarrow> string \<Rightarrow> scim_user option" where "get_user d i = dget d i"

definition list_users :: "scim_directory \<Rightarrow> scim_user list" where "list_users d = map snd d"

definition deactivate_user :: "string \<Rightarrow> scim_directory \<Rightarrow> scim_directory" where
  "deactivate_user i d = (case dget d i of None \<Rightarrow> d | Some u \<Rightarrow> dset i (u\<lparr>su_active := False\<rparr>) d)"

datatype scim_op = ScUpsert scim_user | ScDeactivate string

fun scim_step :: "scim_op \<Rightarrow> scim_directory \<Rightarrow> scim_directory" where
  "scim_step (ScUpsert u) d = upsert_user u d"
| "scim_step (ScDeactivate i) d = deactivate_user i d"

subsection \<open>The key provider\<close>

record kms_key =
  kk_kid :: string
  kk_algorithm :: string
  kk_material :: string
  kk_created_at :: string
  kk_rotated_to :: "string option"
  kk_revoked :: bool

type_synonym kms = "(string, kms_key) dict"

datatype kms_error = NoSuchKey string | NoActiveKey

text \<open>The id, the key bytes and the instant of a new key are arguments.\<close>

record key_draw =
  kd_id :: string
  kd_material :: string
  kd_now :: string

definition draw_kid :: "key_draw \<Rightarrow> string" where "draw_kid x = ''key:'' @ take 8 (kd_id x)"

definition create_key :: "key_draw \<Rightarrow> string \<Rightarrow> kms \<Rightarrow> kms_key \<times> kms" where
  "create_key x alg s =
     (let k = \<lparr>kk_kid = draw_kid x, kk_algorithm = alg, kk_material = kd_material x, kk_created_at = kd_now x,
           kk_rotated_to = None, kk_revoked = False\<rparr>
      in (k, dset (kk_kid k) k s))"

definition get_key :: "kms \<Rightarrow> string \<Rightarrow> kms_key option" where
  "get_key s kid = (case dget s kid of None \<Rightarrow> None | Some k \<Rightarrow> if kk_revoked k then None else Some k)"

text \<open>
  \<open>old.rotated_to = new_key.kid\<close> changes the object that was read before the new key was stored; if
  the new key took its place in the dictionary, the change is not visible there.
\<close>

definition rotate_key :: "key_draw \<Rightarrow> string \<Rightarrow> kms \<Rightarrow> kms_error + kms_key \<times> kms" where
  "rotate_key x old_kid s =
     (case dget s old_kid of
        None \<Rightarrow> Inl (NoSuchKey old_kid)
      | Some old \<Rightarrow>
        let (k, s') = create_key x (kk_algorithm old) s
        in Inr (k, if kk_kid k = old_kid then s'
                   else dset old_kid (old\<lparr>kk_rotated_to := Some (kk_kid k)\<rparr>) s'))"

definition revoke_key :: "string \<Rightarrow> kms \<Rightarrow> kms" where
  "revoke_key kid s = (case dget s kid of None \<Rightarrow> s | Some k \<Rightarrow> dset kid (k\<lparr>kk_revoked := True\<rparr>) s)"

datatype kms_op = KmCreate key_draw string | KmRotate key_draw string | KmRevoke string

fun kms_step :: "kms_op \<Rightarrow> kms \<Rightarrow> kms" where
  "kms_step (KmCreate x alg) s = snd (create_key x alg s)"
| "kms_step (KmRotate x kid) s = (case rotate_key x kid s of Inl _ \<Rightarrow> s | Inr (_, s') \<Rightarrow> s')"
| "kms_step (KmRevoke kid) s = revoke_key kid s"

definition kms_run :: "kms_op list \<Rightarrow> kms \<Rightarrow> kms" where "kms_run ops s = fold kms_step ops s"

fun drawn_kids :: "kms_op list \<Rightarrow> string list" where
  "drawn_kids [] = []"
| "drawn_kids (KmCreate x _ # ops) = draw_kid x # drawn_kids ops"
| "drawn_kids (KmRotate x _ # ops) = draw_kid x # drawn_kids ops"
| "drawn_kids (KmRevoke _ # ops) = drawn_kids ops"

subsection \<open>The forwarder\<close>

definition siem_forward :: "string \<Rightarrow> (string, json) dict \<Rightarrow> (string, json) dict list \<Rightarrow> (string, json) dict list" where
  "siem_forward now event evs = evs @ [dset ''forwarded_at'' (JStr now) event]"

subsection \<open>Properties\<close>

text \<open>
  A token the provider mints verifies to the claims it was minted with, but nothing else about a
  token is looked at: any token with the key's signature is accepted, whatever its issuer, audience
  and expiry.
\<close>

theorem idp_accepts_signed_claims:
  assumes "utf8_text payload" "loads payload = Some claims"
  shows "idp_verify pf loads d (b64_padded payload @ ''.'' @ hmac_sign pf (di_key d) (JStr payload)) = Inr claims"
proof -
  have "rsplit_dot (b64_padded payload @ ''.'' @ hmac_sign pf (di_key d) (JStr payload)) =
      Some (b64_padded payload, hmac_sign pf (di_key d) (JStr payload))"
    by (rule rsplit_dot_join) (simp add: hmac_sign_def b64_url_no_dot)
  moreover have "decode_payload (b64_padded payload) = Some payload"
    using assms(1) by (simp add: decode_payload_def is_ascii_padded b64_decode_padded)
  ultimately show ?thesis using assms(2) by (simp add: idp_verify_def hmac.verify_sign)
qed

lemma kms_step_get:
  assumes "dget s kid = Some k" "kid \<notin> set (drawn_kids [op])"
  shows "\<exists>k'. dget (kms_step op s) kid = Some k' \<and> kk_material k' = kk_material k \<and> kk_algorithm k' = kk_algorithm k \<and>
    (kk_revoked k' \<longleftrightarrow> kk_revoked k \<or> op = KmRevoke kid)"
proof (cases op)
  case (KmRotate x old)
  with assms show ?thesis
    by (cases "dget s old") (auto simp: rotate_key_def create_key_def Let_def dget_dset)
next
  case (KmRevoke old)
  with assms show ?thesis by (cases "dget s old") (auto simp: revoke_key_def dget_dset)
qed (use assms in \<open>auto simp: create_key_def Let_def dget_dset\<close>)

text \<open>
  A key stays what it is until it is revoked, and then it stays revoked: as long as no later id
  draw repeats its id, creating, rotating and revoking keep its material and algorithm, and
  it is handed out exactly if no revocation named it. Rotation does not withdraw the old key.
\<close>

theorem keys_live_until_revoked:
  assumes "dget s kid = Some k" "kid \<notin> set (drawn_kids ops)"
  shows "map_option (\<lambda>k'. (kk_material k', kk_algorithm k')) (get_key (kms_run ops s) kid) =
    (if kk_revoked k \<or> KmRevoke kid \<in> set ops then None else Some (kk_material k, kk_algorithm k))"
  using assms
proof (induction ops arbitrary: s k)
  case Nil
  then show ?case by (simp add: kms_run_def get_key_def)
next
  case (Cons op ops)
  have fresh: "kid \<notin> set (drawn_kids [op])" "kid \<notin> set (drawn_kids ops)" using Cons.prems(2) by (cases op; simp)+
  obtain k' where k': "dget (kms_step op s) kid = Some k'" "kk_material k' = kk_material k"
    "kk_algorithm k' = kk_algorithm k" "kk_revoked k' \<longleftrightarrow> kk_revoked k \<or> op = KmRevoke kid"
    using kms_step_get [OF Cons.prems(1) fresh(1)] by blast
  from Cons.IH [OF k'(1) fresh(2)] k'(2-4) show ?case by (auto simp: kms_run_def)
qed

text \<open>
  A repeated id brings a revoked key's id back: if a later draw has the same first eight
  characters, creating or rotating replaces the revoked entry, and the id is handed out again.
\<close>

theorem repeated_id_revives_kid:
  assumes "get_key s (draw_kid x) = None"
  shows "\<exists>k. get_key (kms_step (KmCreate x alg) s) (draw_kid x) = Some k \<and> kk_material k = kd_material x"
  by (simp add: get_key_def create_key_def Let_def dget_dset)

subsection \<open>Witnesses\<close>

definition ex_idp :: dev_idp where "ex_idp = \<lparr>di_issuer = ''iss'', di_audience = ''aud'', di_key = ''k''\<rparr>"

definition ex_foreign_claims :: json where
  "ex_foreign_claims = token_body ''someone'' ''sub'' ''elsewhere'' [] (Some 0)"

theorem idp_accepts_signed_claims_witness:
  "\<exists>token. idp_verify ex_platform (\<lambda>_. Some ex_foreign_claims) ex_idp token = Inr ex_foreign_claims"
proof -
  have "utf8_text ''{}''" by (simp add: utf8_text_def)
  from idp_accepts_signed_claims [OF this, of "\<lambda>_. Some ex_foreign_claims" ex_foreign_claims ex_platform ex_idp]
  show ?thesis by blast
qed

definition ex_draw :: key_draw where "ex_draw = \<lparr>kd_id = ''0123456789'', kd_material = ''m'', kd_now = ''t''\<rparr>"
definition ex_draw2 :: key_draw where "ex_draw2 = \<lparr>kd_id = ''9876543210'', kd_material = ''n'', kd_now = ''u''\<rparr>"

theorem keys_live_until_revoked_witness:
  "get_key (kms_run [KmRotate ex_draw2 (draw_kid ex_draw), KmRevoke (draw_kid ex_draw)] (snd (create_key ex_draw ''HS256'' [])))
     (draw_kid ex_draw) = None"
  using keys_live_until_revoked [of "snd (create_key ex_draw ''HS256'' [])" "draw_kid ex_draw" "fst (create_key ex_draw ''HS256'' [])"
      "[KmRotate ex_draw2 (draw_kid ex_draw), KmRevoke (draw_kid ex_draw)]"]
  by (simp add: create_key_def Let_def draw_kid_def ex_draw_def ex_draw2_def)

theorem repeated_id_revives_kid_witness:
  "\<exists>k. get_key (kms_step (KmCreate ex_draw ''HS256'') (revoke_key (draw_kid ex_draw) (snd (create_key ex_draw ''HS256'' []))))
     (draw_kid ex_draw) = Some k \<and> kk_material k = ''m''"
  using repeated_id_revives_kid [of "revoke_key (draw_kid ex_draw) (snd (create_key ex_draw ''HS256'' []))" ex_draw "''HS256''"]
  by (simp add: get_key_def revoke_key_def create_key_def Let_def ex_draw_def)

end
