(* ===== verification/Ops.thy ===== *)
theory Ops
  imports Supply Connectors BreakGlass Lifecycle
begin

section \<open>Pilot operations\<close>

text \<open>
  \<open>orchestra/enterprise/ops.py\<close>: rotation of signing keys and webhook secrets, and the pilot drill,
  which drives the break-glass service and the lifecycle manager over one database. The drill calls
  the method \<open>create_request\<close> of the service it is given; it is an argument of the model, absent
  when the class has none.
\<close>

subsection \<open>Rotation\<close>

record key_rotation =
  ro_old_kid :: string
  ro_new_kid :: string
  ro_rotated_at :: string
  ro_algorithm :: string

text \<open>\<open>max(candidates, key=lambda k: k.created_at)\<close>: the first of the greatest.\<close>

definition newest_key :: "kms_key \<Rightarrow> kms_key list \<Rightarrow> kms_key" where
  "newest_key k ks = foldl (\<lambda>b x. if kk_created_at b < kk_created_at x then x else b) k ks"

definition rotate_kms_key :: "key_draw \<Rightarrow> string option \<Rightarrow> kms \<Rightarrow> kms_error + key_rotation \<times> kms" where
  "rotate_kms_key x old_kid s =
     bindS (case old_kid of
         Some kid \<Rightarrow> Inr kid
       | None \<Rightarrow> (case filter (\<lambda>k. \<not> kk_revoked k) (map snd s) of
           [] \<Rightarrow> Inl NoActiveKey | k # ks \<Rightarrow> Inr (kk_kid (newest_key k ks)))) (\<lambda>kid.
     bindS (rotate_key x kid s) (\<lambda>(k, s').
     Inr (\<lparr>ro_old_kid = kid, ro_new_kid = kk_kid k, ro_rotated_at = kk_created_at k,
            ro_algorithm = kk_algorithm k\<rparr>, s')))"

record secret_rotation =
  wr_partner :: string
  wr_new_secret :: string
  wr_old_secret_sha256 :: string
  wr_rotated_at :: string

definition rotate_webhook_secret :: "platform \<Rightarrow> string \<Rightarrow> string \<Rightarrow> string \<Rightarrow> string option \<Rightarrow> secret_rotation" where
  "rotate_webhook_secret pf fresh_secret i partner current =
     \<lparr>wr_partner = partner, wr_new_secret = fresh_secret,
      wr_old_secret_sha256 = (case current of None \<Rightarrow> [] | Some s \<Rightarrow> if s = [] then [] else sha256_hex pf s),
      wr_rotated_at = i\<rparr>"

text \<open>\<open>orchestra kms rotate\<close>: the command rotates in a provider it has just made.\<close>

definition cmd_kms_rotate :: "key_draw \<Rightarrow> string option \<Rightarrow> int" where
  "cmd_kms_rotate x kid = (case rotate_kms_key x kid [] of Inl _ \<Rightarrow> 1 | Inr _ \<Rightarrow> 0)"

subsection \<open>The pilot drill\<close>

record drill_step =
  ds_name :: string
  ds_ok :: bool
  ds_detail :: "(string, json) dict"

record drill_report =
  dr_tenant_id :: string
  dr_steps :: "drill_step list"
  dr_passed :: bool
  dr_summary :: string

definition finalise_drill :: "string \<Rightarrow> drill_step list \<Rightarrow> drill_report" where
  "finalise_drill tenant steps =
     (let passed = list_all ds_ok steps;
          count = (\<lambda>P. string_of_int (int (length (filter P steps))))
      in \<lparr>dr_tenant_id = tenant, dr_steps = steps, dr_passed = passed,
          dr_summary = (if passed then count ds_ok @ ''/'' @ string_of_int (int (length steps)) @ '' steps ok''
            else ''FAIL: '' @ count (\<lambda>s. \<not> ds_ok s) @ '' step(s) failed'')\<rparr>)"

datatype drill_exn = DrAttribute string | DrBg break_glass_exn | DrLc lifecycle_exn

type_synonym 'a drill = "(lifecycle_state, drill_exn, 'a) action"

definition step_ok :: "string \<Rightarrow> (string, json) dict \<Rightarrow> drill_step" where
  "step_ok name detail = \<lparr>ds_name = name, ds_ok = True, ds_detail = detail\<rparr>"

definition step_failed :: "(drill_exn \<Rightarrow> string) \<Rightarrow> string \<Rightarrow> drill_exn \<Rightarrow> drill_step" where
  "step_failed str name e = \<lparr>ds_name = name, ds_ok = False, ds_detail = [(''error'', JStr (str e))]\<rparr>"

text \<open>Steps 4 and 5: only \<open>LifecycleBlocked\<close> is caught in step 4.\<close>

definition drill_release :: "(drill_exn \<Rightarrow> string) \<Rightarrow> lifecycle_env \<Rightarrow> string \<Rightarrow> string \<Rightarrow> string \<Rightarrow>
    drill_step list \<Rightarrow> drill_report drill" where
  "drill_release str env tenant actor hid steps =
     tryE (map_exn DrLc (release_hold env hid actor tenant ''drill complete''))
       (\<lambda>e. ok (finalise_drill tenant (steps @ [step_failed str ''legal_hold.release'' e])))
       (\<lambda>_. ok (finalise_drill tenant (steps @ [step_ok ''legal_hold.release'' []])))"

definition drill_delete :: "(drill_exn \<Rightarrow> string) \<Rightarrow> lifecycle_env \<Rightarrow> string \<Rightarrow> string \<Rightarrow> string \<Rightarrow> string \<Rightarrow>
    drill_step list \<Rightarrow> drill_report drill" where
  "drill_delete str env tenant actor rid hid steps = (\<lambda>w.
     case delete_resource env tenant RK_ARTIFACT rid actor (Some tenant) False w of
       (Inr _, w') \<Rightarrow> drill_release str env tenant actor hid (steps @
         [\<lparr>ds_name = ''legal_hold.blocks_delete'', ds_ok = False,
           ds_detail = [(''error'', JStr ''delete on held resource did NOT raise'')]\<rparr>]) w'
     | (Inl (LcBlocked _ _ _ _), w') \<Rightarrow>
         drill_release str env tenant actor hid (steps @ [step_ok ''legal_hold.blocks_delete'' []]) w'
     | (Inl e, w') \<Rightarrow> (Inl (DrLc e), w'))"

definition drill_hold :: "(drill_exn \<Rightarrow> string) \<Rightarrow> lifecycle_env \<Rightarrow> string \<Rightarrow> string \<Rightarrow> drill_step list \<Rightarrow>
    drill_report drill" where
  "drill_hold str env tenant actor steps =
     bindE (sv_uuid env) (\<lambda>i. let rid = ''drill-art-'' @ take 8 i in
       tryE (map_exn DrLc (create_hold env tenant ''DRILL'' ''pilot-drill'' actor [RK_ARTIFACT] [rid] None))
         (\<lambda>e. ok (finalise_drill tenant (steps @ [step_failed str ''legal_hold.create'' e])))
         (\<lambda>(h, _). drill_delete str env tenant actor rid (lh_hold_id h) (steps @
            [step_ok ''legal_hold.create'' [(''hold_id'', JStr (lh_hold_id h)), (''case_id'', JStr (lh_case_id h))]])))"

definition run_pilot_drill :: "(drill_exn \<Rightarrow> string) \<Rightarrow> lifecycle_env \<Rightarrow> (string \<Rightarrow> string \<Rightarrow> string drill) option \<Rightarrow>
    string \<Rightarrow> string \<Rightarrow> drill_report drill" where
  "run_pilot_drill str env create_request tenant actor =
     tryE (case create_request of
         None \<Rightarrow> raise (DrAttribute ''create_request'') | Some create \<Rightarrow> create tenant actor)
       (\<lambda>e. ok (finalise_drill tenant [step_failed str ''break_glass.request'' e]))
       (\<lambda>req. let steps = [step_ok ''break_glass.request'' [(''request_id'', JStr req)]] in
         tryE (map_exn DrBg (bg_sweep_expired (service_env.truncate env)))
           (\<lambda>e. drill_hold str env tenant actor (steps @ [step_failed str ''break_glass.sweep'' e]))
           (\<lambda>_. drill_hold str env tenant actor (steps @ [step_ok ''break_glass.sweep'' []])))"

text \<open>\<open>BreakGlassService\<close> has \<open>request\<close>, \<open>approve\<close>, \<open>revoke\<close>, \<open>sweep_expired\<close> and three reads.\<close>

definition service_create_request :: "(string \<Rightarrow> string \<Rightarrow> string drill) option" where
  "service_create_request = None"

subsection \<open>The drill's effect\<close>

lemma sweep_returns: "\<exists>rids w'. bg_sweep_expired env w = (Inr rids, w')"
proof -
  have emit: "\<exists>w'. bg_emit env tid kind tenant pl actor w = (Inr (), w')" for tid kind tenant pl actor w
    by (simp add: bg_emit_def bindE_def sv_uuid_def sv_now_def best_effort_def ok_def)
  have emits: "\<exists>w'. bg_emit_expired env rids w = (Inr (), w')" for rids w
  proof (induction rids arbitrary: w)
    case (Cons rid rids)
    obtain w1 where "bg_emit env (anchor_of (sv_db w) rid) BREAK_GLASS_EXPIRED
        (case get_break_glass (sv_db w) rid of None \<Rightarrow> [] | Some r \<Rightarrow> bg_tenant_id r)
        [(''request_id'', JStr rid), (''tenant_id'', JStr (case get_break_glass (sv_db w) rid of None \<Rightarrow> [] | Some r \<Rightarrow> bg_tenant_id r))]
        ''orchestra.sweeper'' w = (Inr (), w1)"
      using emit by blast
    moreover obtain w2 where "bg_emit_expired env rids w1 = (Inr (), w2)" using Cons.IH by blast
    ultimately show ?case by (simp add: bindE_def seqE_def gets_def)
  qed (simp add: ok_def)
  define v where "v = w\<lparr>sv_reads := Suc (sv_reads w)\<rparr>"
  obtain rids d where sweep: "sweep_expired_break_glass (se_clock env (sv_reads w)) (sv_db w) = (rids, d)" by force
  obtain w' where "bg_emit_expired env rids (v\<lparr>sv_db := d\<rparr>) = (Inr (), w')" using emits by blast
  then show ?thesis
    by (simp add: bg_sweep_expired_def bindE_def seqE_def sv_now_def sv_call_def ok_def sweep v_def)
qed

lemma st_bg_emit: "keeps same_tables (bg_emit env tid kind tenant pl actor)"
proof (cases "tid = []")
  case True
  then show ?thesis by (simp add: bg_emit_def st.pure)
next
  case False
  have "keeps same_tables (sv_try BgDb (append_event ev))" for ev
    by (rule keeps_try)
      (auto simp: same_tables_def append_event_def insert_event_def insert_row_def split: if_splits)
  then show ?thesis
    unfolding bg_emit_def using False by (simp only: if_False) (intro st.bind st.best_effort st_fresh)
qed

lemma st_sweep: "keeps same_tables (bg_sweep_expired env)"
proof -
  have emits: "keeps same_tables (bg_emit_expired env rids)" for rids
    by (induction rids) (simp_all add: st.bind st.seq st.pure st_bg_emit)
  have sweep: "keeps same_tables (sv_call (sweep_expired_break_glass t))" for t
    by (rule keeps_call) (simp add: same_tables_def sweep_expired_break_glass_def Let_def)
  show ?thesis
    unfolding bg_sweep_expired_def by (intro st.bind st.seq st.pure st_fresh sweep emits)
qed

text \<open>The cases under hold, and what every hold row of a table is filed under.\<close>

definition cases_of :: "lifecycle_state \<Rightarrow> (string \<times> string) set" where
  "cases_of w = (\<lambda>h. (lh_tenant_id h, lh_case_id h)) ` set (legal_holds (sv_db w))"

definition active_holds :: "lifecycle_state \<Rightarrow> hold_row list" where
  "active_holds w = filter (\<lambda>h. lh_released_at h = None) (legal_holds (sv_db w))"

text \<open>No id the generator still gives is the id of a hold or of a resource under hold.\<close>

definition hold_ids_fresh :: "lifecycle_env \<Rightarrow> lifecycle_state \<Rightarrow> bool" where
  "hold_ids_fresh env w \<longleftrightarrow> (\<forall>n. ''hold:'' @ take 12 (se_uuid env n) \<notin> lh_hold_id ` set (legal_holds (sv_db w)) \<union>
     fst ` set (legal_hold_resources (sv_db w)))"

lemma fresh_cong:
  "same_tables w w' \<Longrightarrow> cases_of w' = cases_of w \<and> active_holds w' = active_holds w \<and>
     hold_ids_fresh env w' = hold_ids_fresh env w \<and> deletion_jobs (sv_db w') = deletion_jobs (sv_db w)"
  by (simp add: same_tables_def cases_of_def active_holds_def hold_ids_fresh_def)

text \<open>What the drill's hold leaves: the new row at the end of the table, with its one resource.\<close>

definition hold_added :: "string \<Rightarrow> string \<Rightarrow> string \<Rightarrow> lifecycle_state \<Rightarrow> lifecycle_state \<Rightarrow> bool" where
  "hold_added tenant hid rid w w' \<longleftrightarrow> hid \<notin> lh_hold_id ` set (legal_holds (sv_db w)) \<and>
     (\<exists>row. legal_holds (sv_db w') = legal_holds (sv_db w) @ [row] \<and> lh_hold_id row = hid \<and>
        lh_tenant_id row = tenant \<and> lh_case_id row = ''DRILL'' \<and> lh_released_at row = None) \<and>
     legal_hold_resources (sv_db w') = legal_hold_resources (sv_db w) @ [(hid, RK_ARTIFACT, rid)] \<and>
     deletion_jobs (sv_db w') = deletion_jobs (sv_db w)"

lemma find_last_match: "find P xs = None \<Longrightarrow> P x \<Longrightarrow> find P (xs @ [x]) = Some x"
  by (induction xs) (auto split: if_splits)

lemma tryE_Inr: "m w = (Inr x, w') \<Longrightarrow> tryE m h f w = f x w'"
  by (simp add: tryE_def)

lemma run_steps:
  "seqE (lift (Inr ())) n = n" "bindE (lift (Inr x)) f = f x"
  "bindE (sv_uuid env) g w = g (se_uuid env (sv_ids w)) (w\<lparr>sv_ids := Suc (sv_ids w)\<rparr>)"
  "bindE (sv_now env) k w = k (se_clock env (sv_reads w)) (w\<lparr>sv_reads := Suc (sv_reads w)\<rparr>)"
  by (simp_all add: fun_eq_iff seqE_def bindE_def lift_def sv_uuid_def sv_now_def)

lemma strip_drill: "py_strip ''DRILL'' = ''DRILL''"
  using py_strip_plain [of "CHR ''D''" "CHR ''L''" "''RIL''"] by (simp add: plain_def)

lemma drill_hold_created:
  assumes "hold_ids_fresh env w"
  obtains (taken) e w' where "(tenant, ''DRILL'') \<in> cases_of w" "same_tables w w'"
      "create_hold env tenant ''DRILL'' why actor [RK_ARTIFACT] [rid] None w = (Inl e, w')"
    | (new) h pairs w' where "(tenant, ''DRILL'') \<notin> cases_of w" "hold_added tenant (lh_hold_id h) rid w w'"
      "create_hold env tenant ''DRILL'' why actor [RK_ARTIFACT] [rid] None w = (Inr (h, pairs), w')"
proof -
  define hid where "hid = ''hold:'' @ take 12 (se_uuid env (sv_ids w))"
  define v where "v = w\<lparr>sv_ids := Suc (sv_ids w), sv_reads := Suc (Suc (sv_reads w))\<rparr>"
  define h where "h = \<lparr>lh_hold_id = hid, lh_tenant_id = tenant, lh_case_id = ''DRILL'', lh_reason = why,
      lh_created_at = se_clock env (sv_reads w), lh_created_by = actor, lh_released_at = None,
      lh_released_by = None, lh_release_reason = None\<rparr>"
  define t where "t = se_clock env (Suc (sv_reads w))"
  have v: "same_tables w v" "sv_db v = sv_db w" by (simp_all add: v_def same_tables_def)
  have hid: "hid \<notin> lh_hold_id ` set (legal_holds (sv_db w))" "hid \<notin> fst ` set (legal_hold_resources (sv_db w))"
    using assms by (auto simp: hold_ids_fresh_def hid_def)
  define pl where "pl = [(''hold_id'', JStr hid), (''tenant_id'', JStr tenant), (''case_id'', JStr ''DRILL''),
      (''reason'', JStr why), (''resource_count'', JInt 1)]"
  have run: "create_hold env tenant ''DRILL'' why actor [RK_ARTIFACT] [rid] None w =
      seqE (sv_try LcDb (create_legal_hold t h [(RK_ARTIFACT, rid)]))
        (seqE (emit_audit env HOLD_CREATED actor pl) (ok (h, [(RK_ARTIFACT, rid)]))) v"
    by (simp add: create_hold_def check_hold_def hold_pairs_def strip_drill run_steps Let_def h_def hid_def t_def v_def pl_def)
  show thesis
  proof (cases "(tenant, ''DRILL'') \<in> cases_of w")
    case True
    then have "create_legal_hold t h [(RK_ARTIFACT, rid)] (sv_db v) = Inl (UniqueViolation ''legal_holds'')"
      by (simp add: create_legal_hold_def h_def v cases_of_def)
    then have "create_hold env tenant ''DRILL'' why actor [RK_ARTIFACT] [rid] None w = (Inl (LcDb (UniqueViolation ''legal_holds'')), v)"
      by (simp add: run seqE_def bindE_def sv_try_def)
    with True v(1) show thesis by (rule taken)
  next
    case False
    have "(hid, RK_ARTIFACT, rid) \<notin> set (legal_hold_resources (sv_db w))" using hid(2) by force
    with False hid(1) obtain d where d: "create_legal_hold t h [(RK_ARTIFACT, rid)] (sv_db v) = Inr d"
      "legal_holds d = legal_holds (sv_db w) @ [h\<lparr>lh_created_at := t\<rparr>]"
      "legal_hold_resources d = legal_hold_resources (sv_db w) @ [(hid, RK_ARTIFACT, rid)]"
      "deletion_jobs d = deletion_jobs (sv_db w)"
      by (simp add: create_legal_hold_def h_def v cases_of_def)
    obtain w' where w': "emit_audit env HOLD_CREATED actor pl (v\<lparr>sv_db := d\<rparr>) = (Inr (), w')"
      "same_tables (v\<lparr>sv_db := d\<rparr>) w'"
      using emit_audit_ok by blast
    have "hold_added tenant (lh_hold_id h) rid w w'"
      using w'(2) d(2-4) hid(1) by (auto simp: hold_added_def same_tables_def h_def)
    moreover have "create_hold env tenant ''DRILL'' why actor [RK_ARTIFACT] [rid] None w = (Inr (h, [(RK_ARTIFACT, rid)]), w')"
      by (simp add: run seqE_def bindE_def sv_try_def d(1) w'(1) ok_def)
    ultimately show thesis using False new by blast
  qed
qed

lemma drill_delete_passes:
  assumes added: "hold_added tenant hid rid w w1" and steps: "list_all ds_ok steps"
  shows "\<exists>rep w'. drill_delete str env tenant actor rid hid steps w1 = (Inr rep, w') \<and> dr_passed rep \<and>
    deletion_jobs (sv_db w') = deletion_jobs (sv_db w) \<and> active_holds w' = active_holds w \<and>
    cases_of w' = insert (tenant, ''DRILL'') (cases_of w)"
proof -
  obtain row where row: "legal_holds (sv_db w1) = legal_holds (sv_db w) @ [row]" "lh_hold_id row = hid"
      "lh_tenant_id row = tenant" "lh_case_id row = ''DRILL''" "lh_released_at row = None"
    and res: "legal_hold_resources (sv_db w1) = legal_hold_resources (sv_db w) @ [(hid, RK_ARTIFACT, rid)]"
    and jobs: "deletion_jobs (sv_db w1) = deletion_jobs (sv_db w)"
    and hid: "hid \<notin> lh_hold_id ` set (legal_holds (sv_db w))"
    using added by (auto simp: hold_added_def)
  have "is_resource_held (sv_db w1) tenant RK_ARTIFACT rid"
    using row by (auto simp: is_resource_held_def hold_resources_def res)
  then obtain x y w2 where gate: "hold_gate env tenant RK_ARTIFACT rid actor w1 = (Inl (LcBlocked x y RK_ARTIFACT rid), w2)"
    and w2: "same_tables w1 w2"
    using hold_gate_closed by blast
  have blocked: "delete_resource env tenant RK_ARTIFACT rid actor (Some tenant) False w1 = (Inl (LcBlocked x y RK_ARTIFACT rid), w2)"
    by (simp add: delete_resource_def seqE_def bindE_def gate)
  define t where "t = se_clock env (sv_reads w2)"
  let ?f = "\<lambda>h. h\<lparr>lh_released_at := Some t, lh_released_by := Some actor, lh_release_reason := Some ''drill complete''\<rparr>"
  have holds2: "legal_holds (sv_db w2) = legal_holds (sv_db w) @ [row]" using w2 row(1) by (simp add: same_tables_def)
  have upd: "update_where (\<lambda>h. lh_hold_id h = hid) ?f (legal_holds (sv_db w) @ [row]) = legal_holds (sv_db w) @ [?f row]"
  proof -
    have "update_where (\<lambda>h. lh_hold_id h = hid) ?f (legal_holds (sv_db w)) = legal_holds (sv_db w)"
      unfolding update_where_def using hid by (intro map_idI) auto
    then show ?thesis using row(2) by (simp add: update_where_def)
  qed
  have "find (\<lambda>h. lh_hold_id h = hid) (legal_holds (sv_db w)) = None" using hid by (auto simp: find_None_iff)
  then have "find (\<lambda>h. lh_hold_id h = hid) (legal_holds (sv_db w2)) = Some row"
    using row(2) by (simp add: holds2 find_last_match)
  then have rel: "release_legal_hold t hid actor tenant ''drill complete'' (sv_db w2) =
      (Released, (sv_db w2)\<lparr>legal_holds := legal_holds (sv_db w) @ [?f row]\<rparr>)"
    using row(3,5) by (simp add: release_legal_hold_def holds2 upd)
  let ?v = "w2\<lparr>sv_reads := Suc (sv_reads w2), sv_db := (sv_db w2)\<lparr>legal_holds := legal_holds (sv_db w) @ [?f row]\<rparr>\<rparr>"
  obtain w3 where emit: "emit_audit env HOLD_RELEASED actor
      [(''hold_id'', JStr hid), (''released_by'', JStr actor), (''reason'', JStr ''drill complete'')] ?v = (Inr (), w3)"
    and w3: "same_tables ?v w3"
    using emit_audit_ok by blast
  have released: "release_hold env hid actor tenant ''drill complete'' w2 = (Inr Released, w3)"
    using rel emit by (simp add: release_hold_def bindE_def seqE_def sv_now_def sv_call_def ok_def t_def)
  let ?s = "steps @ [step_ok ''legal_hold.blocks_delete'' []]"
  have "drill_delete str env tenant actor rid hid steps w1 =
      (Inr (finalise_drill tenant (?s @ [step_ok ''legal_hold.release'' []])), w3)"
    by (simp add: drill_delete_def blocked drill_release_def tryE_def map_exn_def released ok_def)
  moreover have "dr_passed (finalise_drill tenant (?s @ [step_ok ''legal_hold.release'' []]))"
    using steps by (simp add: finalise_drill_def Let_def step_ok_def)
  moreover have "deletion_jobs (sv_db w3) = deletion_jobs (sv_db w)" using w2 w3 jobs by (simp add: same_tables_def)
  moreover have "active_holds w3 = active_holds w" using w3 by (simp add: same_tables_def active_holds_def)
  moreover have "cases_of w3 = insert (tenant, ''DRILL'') (cases_of w)"
    using w3 row(3,4) by (simp add: same_tables_def cases_of_def)
  ultimately show ?thesis by blast
qed

text \<open>
  The drill, given a service that takes the request: it reports success exactly if the tenant has
  no hold for the case \<open>DRILL\<close> on file, released or not; it leaves the deletion jobs and the active
  holds as they were, and the case on file. So it succeeds once for each tenant and fails ever after.
\<close>

theorem drill_passes_once:
  assumes "create tenant actor w = (Inr req, w1)" "same_tables w w1" "hold_ids_fresh env w"
  shows "\<exists>rep w'. run_pilot_drill str env (Some create) tenant actor w = (Inr rep, w') \<and>
    (dr_passed rep \<longleftrightarrow> (tenant, ''DRILL'') \<notin> cases_of w) \<and> (tenant, ''DRILL'') \<in> cases_of w' \<and>
    deletion_jobs (sv_db w') = deletion_jobs (sv_db w) \<and> active_holds w' = active_holds w"
proof -
  let ?steps = "[step_ok ''break_glass.request'' [(''request_id'', JStr req)], step_ok ''break_glass.sweep'' []]"
  obtain rids w2 where sweep: "bg_sweep_expired (service_env.truncate env) w1 = (Inr rids, w2)"
    using sweep_returns by blast
  let ?v = "w2\<lparr>sv_ids := Suc (sv_ids w2)\<rparr>" and ?rid = "''drill-art-'' @ take 8 (se_uuid env (sv_ids w2))"
  have "same_tables w1 w2" using keepsD [OF st_sweep sweep] .
  then have "same_tables w ?v" using assms(2) by (simp add: same_tables_def)
  then have v: "cases_of ?v = cases_of w" "active_holds ?v = active_holds w" "hold_ids_fresh env ?v"
    "deletion_jobs (sv_db ?v) = deletion_jobs (sv_db w)"
    using fresh_cong [of w ?v env] assms(3) by blast+
  have run: "run_pilot_drill str env (Some create) tenant actor w =
      tryE (map_exn DrLc (create_hold env tenant ''DRILL'' ''pilot-drill'' actor [RK_ARTIFACT] [?rid] None))
         (\<lambda>e. ok (finalise_drill tenant (?steps @ [step_failed str ''legal_hold.create'' e])))
         (\<lambda>(h, _). drill_delete str env tenant actor ?rid (lh_hold_id h) (?steps @
            [step_ok ''legal_hold.create'' [(''hold_id'', JStr (lh_hold_id h)), (''case_id'', JStr (lh_case_id h))]])) ?v"
  proof -
    have "map_exn DrBg (bg_sweep_expired (service_env.truncate env)) w1 = (Inr rids, w2)"
      by (simp add: map_exn_def sweep)
    note swept = tryE_Inr [where m = "map_exn DrBg (bg_sweep_expired (service_env.truncate env))", OF this]
    show ?thesis
      by (simp add: run_pilot_drill_def Let_def drill_hold_def run_steps swept
          tryE_Inr [where m = "create tenant actor", OF assms(1)])
  qed
  let ?m = "map_exn DrLc (create_hold env tenant ''DRILL'' ''pilot-drill'' actor [RK_ARTIFACT] [?rid] None)"
  from v(3) show ?thesis
  proof (cases rule: drill_hold_created [where tenant = tenant and why = "''pilot-drill''" and actor = actor and rid = ?rid])
    case (taken e w')
    then have "?m ?v = (Inl (DrLc e), w')" by (simp add: map_exn_def)
    then show ?thesis
      using taken(1) v fresh_cong [OF taken(2), of env]
      by (simp add: run tryE_def ok_def finalise_drill_def Let_def step_failed_def)
  next
    case (new h pairs w')
    then have m: "?m ?v = (Inr (h, pairs), w')" by (simp add: map_exn_def)
    let ?s = "?steps @ [step_ok ''legal_hold.create'' [(''hold_id'', JStr (lh_hold_id h)), (''case_id'', JStr (lh_case_id h))]]"
    have "list_all ds_ok ?s" by (simp add: step_ok_def)
    then obtain rep w'' where last: "drill_delete str env tenant actor ?rid (lh_hold_id h) ?s w' = (Inr rep, w'')" "dr_passed rep"
      "deletion_jobs (sv_db w'') = deletion_jobs (sv_db ?v)" "active_holds w'' = active_holds ?v"
      "cases_of w'' = insert (tenant, ''DRILL'') (cases_of ?v)"
      using drill_delete_passes [OF new(2)] by blast
    have "run_pilot_drill str env (Some create) tenant actor w = (Inr rep, w'')"
      unfolding run tryE_Inr [where m = ?m, OF m] using last(1) by simp
    with last(2-5) new(1) v show ?thesis by simp
  qed
qed

text \<open>
  With the service of this program the drill always fails at its first step, with the database
  untouched: the class has no method \<open>create_request\<close>. And the command that rotates a key always
  refuses, since it looks for the key in a provider it has just made.
\<close>

theorem drill_never_passes:
  "run_pilot_drill str env service_create_request tenant actor w =
     (Inr \<lparr>dr_tenant_id = tenant,
        dr_steps = [step_failed str ''break_glass.request'' (DrAttribute ''create_request'')],
        dr_passed = False, dr_summary = ''FAIL: 1 step(s) failed''\<rparr>, w) \<and>
   cmd_kms_rotate x kid = 1"
proof
  have "string_of_int 1 = ''1''" by code_simp
  then show "run_pilot_drill str env service_create_request tenant actor w =
     (Inr \<lparr>dr_tenant_id = tenant,
        dr_steps = [step_failed str ''break_glass.request'' (DrAttribute ''create_request'')],
        dr_passed = False, dr_summary = ''FAIL: 1 step(s) failed''\<rparr>, w)"
    by (simp add: run_pilot_drill_def service_create_request_def tryE_def raise_def ok_def finalise_drill_def
        Let_def step_failed_def)
  show "cmd_kms_rotate x kid = 1"
    by (cases kid) (simp_all add: cmd_kms_rotate_def rotate_kms_key_def rotate_key_def bindS_def)
qed

subsection \<open>Witnesses\<close>

definition ex_create :: "string \<Rightarrow> string \<Rightarrow> string drill" where
  "ex_create tenant actor = ok ''bg:1''"

theorem drill_passes_once_witness:
  "\<exists>rep w'. run_pilot_drill (\<lambda>_. []) lc_example_env (Some ex_create) ''T'' ''ops'' lc_example_start = (Inr rep, w') \<and> dr_passed rep"
proof -
  have "ex_create ''T'' ''ops'' lc_example_start = (Inr ''bg:1'', lc_example_start)"
    "same_tables lc_example_start lc_example_start" "hold_ids_fresh lc_example_env lc_example_start"
    "cases_of lc_example_start = {}"
    by (simp_all add: ex_create_def ok_def same_tables_def hold_ids_fresh_def cases_of_def lc_example_start_def
        lc_example_state_def empty_db_def)
  with drill_passes_once [where create = ex_create and tenant = "''T''" and actor = "''ops''" and w = lc_example_start
      and env = lc_example_env and str = "\<lambda>_. []" and req = "''bg:1''" and ?w1.0 = lc_example_start]
  show ?thesis by auto
qed

end
