(* ===== verification/Problems.thy ===== *)
theory Problems
  imports Coordinator Effects
begin

section \<open>Error responses\<close>

text \<open>
  \<open>orchestra/api/errors.py\<close> and the exception handlers of \<open>orchestra/api/app.py\<close>: what a client gets
  when a handler raises. A handler is an action whose exceptions are an \<open>HTTPException\<close> with its
  status and detail, the framework's rejection of a request that does not validate, with the
  errors it lists, or any other exception, of which only the type's name is reported.
\<close>

subsection \<open>The catalogue\<close>

definition problem_types :: "(string \<times> string) list" where
  "problem_types =
    [(''validation_error'', ''Request body or query failed validation.''),
     (''task_not_found'', ''No task with the given task_run_id.''),
     (''rate_limited'', ''Token bucket exhausted; retry after the Retry-After interval.''),
     (''payload_too_large'', ''Request body exceeded the size cap.''),
     (''method_not_allowed'', ''HTTP method not allowed for this path.''),
     (''internal_error'', ''Unhandled server-side failure; check logs by request id.''),
     (''unauthorized'', ''Missing or invalid credentials.''),
     (''forbidden'', ''Caller is authenticated but not allowed.''),
     (''not_found'', ''Resource not found.''),
     (''conflict'', ''Resource state conflicts with the request.''),
     (''dependency_failure'', ''An upstream dependency (DB, registry) is unavailable.'')]"

definition problem_type_uri :: "string \<Rightarrow> string" where
  "problem_type_uri slug = ''urn:orchestra:problem:'' @ slug"

definition status_slugs :: "(int \<times> string) list" where
  "status_slugs =
    [(400, ''validation_error''), (401, ''unauthorized''), (403, ''forbidden''), (404, ''not_found''),
     (405, ''method_not_allowed''), (409, ''conflict''), (413, ''payload_too_large''),
     (422, ''validation_error''), (429, ''rate_limited''), (500, ''internal_error''),
     (502, ''dependency_failure''), (503, ''dependency_failure''), (504, ''dependency_failure'')]"

definition slug_of_status :: "int \<Rightarrow> string" where
  "slug_of_status status = (case dget status_slugs status of None \<Rightarrow> ''internal_error'' | Some s \<Rightarrow> s)"

subsection \<open>The body\<close>

record problem_detail =
  pb_type :: string
  pb_title :: string
  pb_status :: int
  pb_detail :: string
  pb_instance :: string
  pb_orchestra :: "(string, json) dict"

definition problem_dict :: "problem_detail \<Rightarrow> (string, json) dict" where
  "problem_dict p =
    [(''type'', JStr (if CHR '':'' \<in> set (pb_type p) then pb_type p else problem_type_uri (pb_type p))),
     (''title'', JStr (pb_title p)), (''status'', JInt (pb_status p)), (''detail'', JStr (pb_detail p)),
     (''instance'', JStr (pb_instance p))] @
    (if pb_orchestra p = [] then [] else [(''orchestra'', JObj (pb_orchestra p))])"

text \<open>The exception's \<open>detail\<close>, if it has one, and the extra fields of a caller.\<close>

definition problem_from_http_exception :: "textlib \<Rightarrow> json option \<Rightarrow> int \<Rightarrow> string \<Rightarrow> (string, json) dict \<Rightarrow>
    problem_detail" where
  "problem_from_http_exception tx raw status request_id extra =
     (let slug = slug_of_status status;
          title = dget problem_types slug;
          detail = (case raw of None \<Rightarrow> [] | Some v \<Rightarrow> text_of tx v);
          context = (if request_id = [] then [] else [(''request_id'', JStr request_id)])
      in \<lparr>pb_type = problem_type_uri slug, pb_title = (case title of None \<Rightarrow> ''Error'' | Some t \<Rightarrow> t),
          pb_status = status,
          pb_detail = (if detail \<noteq> [] then detail else case title of None \<Rightarrow> [] | Some t \<Rightarrow> t),
          pb_instance = request_id,
          pb_orchestra = foldl (\<lambda>d (k, v). dset k v d) context extra\<rparr>)"

subsection \<open>The handlers\<close>

datatype api_exn =
    HttpError int json                           \<comment> \<open>\<open>HTTPException(status, detail)\<close>\<close>
  | InvalidRequest "(string, json) dict list"    \<comment> \<open>the errors of \<open>RequestValidationError\<close>\<close>
  | Unhandled string                             \<comment> \<open>the name of the exception's type\<close>

definition validation_problem :: "string \<Rightarrow> (string, json) dict list \<Rightarrow> (string, json) dict" where
  "validation_problem rid errors =
    [(''type'', JStr (problem_type_uri ''validation_error'')),
     (''title'', JStr ''Request body or query failed validation.''), (''status'', JInt 422),
     (''detail'', (case errors of [] \<Rightarrow> JStr ''validation failed''
        | e # _ \<Rightarrow> dget_default e ''msg'' (JStr ''validation failed''))),
     (''instance'', JStr rid),
     (''orchestra'', JObj [(''request_id'', JStr rid), (''errors'', JList (map JObj errors))])]"

definition internal_problem :: "string \<Rightarrow> string \<Rightarrow> (string, json) dict" where
  "internal_problem rid error_type =
    [(''type'', JStr (problem_type_uri ''internal_error'')),
     (''title'', JStr ''Unhandled server-side failure; check logs by request id.''), (''status'', JInt 500),
     (''detail'', JStr ''Unhandled server-side failure; see logs.''), (''instance'', JStr rid),
     (''orchestra'', JObj [(''request_id'', JStr rid), (''error_type'', JStr error_type)])]"

text \<open>The status and the body of the response, for a request id.\<close>

fun respond :: "textlib \<Rightarrow> string \<Rightarrow> api_exn + json \<Rightarrow> int \<times> json" where
  "respond tx rid (Inr body) = (200, body)"
| "respond tx rid (Inl (HttpError status d)) =
     (status, JObj (problem_dict (problem_from_http_exception tx (Some d) status rid [])))"
| "respond tx rid (Inl (InvalidRequest errors)) = (422, JObj (validation_problem rid errors))"
| "respond tx rid (Inl (Unhandled ty)) = (500, JObj (internal_problem rid ty))"

type_synonym ('w, 'a) api = "('w, api_exn, 'a) action"

text \<open>The shape a client relies on: one of the catalogue's problems, with the response's own status.\<close>

definition problem_body :: "string \<Rightarrow> int \<Rightarrow> json \<Rightarrow> bool" where
  "problem_body rid status body \<longleftrightarrow> (\<exists>slug title fs. dget problem_types slug = Some title \<and> body = JObj fs \<and>
     dget fs ''type'' = Some (JStr (problem_type_uri slug)) \<and> dget fs ''title'' = Some (JStr title) \<and>
     dget fs ''status'' = Some (JInt status) \<and> dget fs ''instance'' = Some (JStr rid) \<and>
     dget fs ''detail'' \<notin> {None, Some (JStr [])} \<and>
     (rid \<noteq> [] \<longrightarrow> (\<exists>ext. dget fs ''orchestra'' = Some (JObj ext) \<and> dget ext ''request_id'' = Some (JStr rid))))"

definition detail_given :: "api_exn \<Rightarrow> bool" where
  "detail_given e \<longleftrightarrow> (case e of InvalidRequest (r # _) \<Rightarrow> dget r ''msg'' \<noteq> Some (JStr []) | _ \<Rightarrow> True)"

lemma uri_kept: "CHR '':'' \<in> set (problem_type_uri slug)"
  by (simp add: problem_type_uri_def)

lemma status_slugs_known: "\<exists>t. dget problem_types (slug_of_status s) = Some t \<and> t \<noteq> []"
  by (simp add: slug_of_status_def status_slugs_def problem_types_def)

lemma validation_body:
  assumes "detail_given (InvalidRequest errors)"
  shows "problem_body rid 422 (JObj (validation_problem rid errors))"
proof -
  have "(case errors of [] \<Rightarrow> JStr ''validation failed'' | e # _ \<Rightarrow> dget_default e ''msg'' (JStr ''validation failed'')) \<noteq> JStr []"
    using assms by (cases errors) (auto simp: detail_given_def dget_default_def split: option.split)
  moreover have "dget problem_types ''validation_error'' = Some ''Request body or query failed validation.''"
    by (simp add: problem_types_def)
  ultimately show ?thesis
    unfolding problem_body_def validation_problem_def
    by (intro exI [of _ "''validation_error''"] exI [of _ "''Request body or query failed validation.''"]) simp
qed

lemma internal_body: "problem_body rid 500 (JObj (internal_problem rid ty))"
proof -
  have "dget problem_types ''internal_error'' = Some ''Unhandled server-side failure; check logs by request id.''"
    by (simp add: problem_types_def)
  then show ?thesis
    unfolding problem_body_def internal_problem_def
    by (intro exI [of _ "''internal_error''"] exI [of _ "''Unhandled server-side failure; check logs by request id.''"]) simp
qed



end
