(* ===== verification/AdminApi.thy ===== *)
theory AdminApi
  imports Problems Lifecycle
begin

section \<open>The admin endpoints of retention, holds and deletion\<close>

text \<open>
  \<open>orchestra/api/admin_lifecycle.py\<close>: the ten routes over the lifecycle manager, each a function of
  its path, query, body and \<open>X-Orchestra-Actor\<close> header, with the mapping of the manager's
  exceptions to responses. A body is a record of its fields, after the framework has checked their
  types and filled in the defaults.
\<close>

subsection \<open>Bodies and environment\<close>

record policy_set_body =
  pr_tenant_id :: string
  pr_resource_kind :: string
  pr_retention_seconds :: int
  pr_auto_delete :: bool

record hold_create_body =
  hr_tenant_id :: string
  hr_case_id :: string
  hr_reason :: string
  hr_created_by :: string
  hr_resource_kinds :: "string list option"
  hr_resource_ids :: "string list option"

record hold_release_body =
  rr_released_by :: string
  rr_reason :: string

record deletion_create_body =
  dr_body_tenant_id :: string
  dr_body_resource_kind :: string
  dr_body_resource_id :: string
  dr_body_requested_by :: string
  dr_body_force :: bool

text \<open>
  Besides the manager's environment: text functions, the errors the framework lists for a number
  below 1, and \<open>isoformat()\<close> of an instant as the database driver returns it.
\<close>

record api_env = lifecycle_env +
  ae_text :: textlib
  ae_ge1_errors :: "int \<Rightarrow> (string, json) dict list"
  ae_row_iso :: "int \<Rightarrow> string"

definition manager_env :: "api_env \<Rightarrow> lifecycle_env" where
  "manager_env env = lifecycle_env.truncate env"

type_synonym 'a admin = "(lifecycle_state, 'a) api"

subsection \<open>Helpers\<close>

definition resolve_actor :: "string option \<Rightarrow> string \<Rightarrow> string option" where
  "resolve_actor actor tenant = (case actor of None \<Rightarrow> None
     | Some a \<Rightarrow> if take 7 a = ''tenant:'' \<and> a \<noteq> tenant then Some a else None)"

definition valid_kinds :: "(string \<times> resource_kind) list" where
  "valid_kinds = [(''artifact'', RK_ARTIFACT), (''backup'', RK_BACKUP), (''cache'', RK_CACHE),
     (''event'', RK_EVENT), (''receipt'', RK_RECEIPT), (''webhook'', RK_WEBHOOK)]"

text \<open>\<open>repr\<close> of a text: what \<open>str\<close> of a list with it alone has between the brackets.\<close>

definition text_repr :: "textlib \<Rightarrow> string \<Rightarrow> string" where
  "text_repr tx s = butlast (drop 1 (py_str tx (JList [JStr s])))"

definition kind_or_400 :: "textlib \<Rightarrow> string \<Rightarrow> api_exn + resource_kind" where
  "kind_or_400 tx s = (case dget valid_kinds s of
     None \<Rightarrow> Inl (HttpError 422 (JStr (''unknown resource_kind '' @ text_repr tx s @ ''; valid: '' @
       py_str tx (JList (map (JStr \<circ> fst) valid_kinds)))))
   | Some k \<Rightarrow> Inr k)"

text \<open>What no handler expects becomes a 500 with the name of the exception's type.\<close>

definition exn_type :: "lifecycle_exn \<Rightarrow> string" where
  "exn_type e = (case e of LcValue _ \<Rightarrow> ''ValueError'' | LcBlocked _ _ _ _ \<Rightarrow> ''LifecycleBlocked''
     | LcRetained _ _ \<Rightarrow> ''LifecycleRetained'' | LcCrossTenant _ _ \<Rightarrow> ''LifecycleCrossTenant''
     | LcAdapter ty _ \<Rightarrow> ty | LcMissingRow \<Rightarrow> ''TypeError''
     | LcDb (UniqueViolation _) \<Rightarrow> ''UniqueViolation'' | LcDb (ForeignKeyViolation _) \<Rightarrow> ''ForeignKeyViolation'')"

definition lifecycle_error_to_http :: "lifecycle_exn \<Rightarrow> api_exn" where
  "lifecycle_error_to_http e =
     (case e of
        LcBlocked hid cid k rid \<Rightarrow> HttpError 409 (JObj
          [(''type'', JStr ''urn:orchestra:problem:lifecycle_blocked''),
           (''title'', JStr ''Deletion blocked by a Legal Hold.''), (''status'', JInt 409),
           (''hold_id'', JStr hid), (''case_id'', JStr cid),
           (''resource_kind'', JStr (resource_kind_text k)), (''resource_id'', JStr rid)])
      | LcRetained k rid \<Rightarrow> HttpError 409 (JObj
          [(''type'', JStr ''urn:orchestra:problem:lifecycle_retained''),
           (''title'', JStr ''Deletion refused: the lifecycle policy retains this resource.''), (''status'', JInt 409),
           (''resource_kind'', JStr (resource_kind_text k)), (''resource_id'', JStr rid)])
      | LcCrossTenant expected actual \<Rightarrow> HttpError 403 (JObj
          [(''type'', JStr ''urn:orchestra:problem:cross_tenant''),
           (''title'', JStr ''Cross-tenant operation denied.''), (''status'', JInt 403),
           (''expected_tenant'', JStr expected), (''actual_tenant'', JStr actual)])
      | _ \<Rightarrow> Unhandled (exn_type e))"

text \<open>\<open>except ValueError as e: raise HTTPException(status, str(e))\<close>, after or instead of the mapping.\<close>

definition value_error_to_http :: "int \<Rightarrow> lifecycle_exn \<Rightarrow> api_exn" where
  "value_error_to_http status e = (case e of LcValue msg \<Rightarrow> HttpError status (JStr msg) | _ \<Rightarrow> Unhandled (exn_type e))"

definition retry_error_to_http :: "lifecycle_exn \<Rightarrow> api_exn" where
  "retry_error_to_http e = (case e of LcValue msg \<Rightarrow> HttpError 409 (JStr msg) | _ \<Rightarrow> lifecycle_error_to_http e)"

definition deletion_state_value :: "deletion_state \<Rightarrow> string" where
  "deletion_state_value s = (case s of DS_PENDING \<Rightarrow> ''pending'' | DS_RUNNING \<Rightarrow> ''running''
     | DS_DELETED \<Rightarrow> ''deleted'' | DS_PARTIAL \<Rightarrow> ''partial'' | DS_FAILED \<Rightarrow> ''failed'' | DS_HELD \<Rightarrow> ''held'')"

definition deletion_states :: "(string \<times> deletion_state) list" where
  "deletion_states = map (\<lambda>s. (deletion_state_value s, s))
     [DS_PENDING, DS_RUNNING, DS_DELETED, DS_PARTIAL, DS_FAILED, DS_HELD]"

definition job_to_dict :: "deletion_job \<Rightarrow> json" where
  "job_to_dict j = JObj (
    [(''job_id'', JStr (jb_job_id j)), (''tenant_id'', JStr (jb_tenant_id j)),
     (''resource_kind'', JStr (resource_kind_text (jb_resource_kind j))),
     (''resource_id'', JStr (jb_resource_id j)), (''state'', JStr (deletion_state_value (jb_state j))),
     (''attempt'', JInt (int (jb_attempt j))), (''max_attempts'', JInt (jb_max_attempts j)),
     (''requested_at'', JStr (jb_requested_at j)), (''requested_by'', JStr (jb_requested_by j)),
     (''completed_at'', opt_str (jb_completed_at j)), (''last_error'', opt_str (jb_last_error j))] @
    (case jb_evidence j of None \<Rightarrow> [] | Some e \<Rightarrow> [(''evidence'', evidence_json e)]))"

text \<open>
  The job a creation answers with is a new object, not a row: its times are the model's own, and it
  has neither a completion time, nor an error, nor evidence.
\<close>

definition created_job :: "api_env \<Rightarrow> job_row \<Rightarrow> deletion_job" where
  "created_job env r = \<lparr>jb_job_id = dj_job_id r, jb_tenant_id = dj_tenant_id r,
     jb_resource_kind = dj_resource_kind r, jb_resource_id = dj_resource_id r, jb_state = dj_state r,
     jb_attempt = dj_attempt r, jb_max_attempts = dj_max_attempts r,
     jb_requested_at = iso_text (le_pf env) (dj_requested_at r), jb_requested_by = dj_requested_by r,
     jb_completed_at = None, jb_last_error = None,
     jb_evidence = None\<rparr>"

subsection \<open>Policies\<close>

definition policy_json :: "(int \<Rightarrow> string) \<Rightarrow> policy_row \<Rightarrow> json" where
  "policy_json fmt p = JObj
    [(''policy_id'', JStr (lp_policy_id p)), (''tenant_id'', JStr (lp_tenant_id p)),
     (''resource_kind'', JStr (resource_kind_text (lp_resource_kind p))),
     (''retention_seconds'', JInt (lp_retention_seconds p)), (''auto_delete'', JBool (lp_auto_delete p)),
     (''created_at'', JStr (fmt (lp_created_at p)))]"

definition admin_policy_set :: "api_env \<Rightarrow> policy_set_body \<Rightarrow> json admin" where
  "admin_policy_set env b =
     (if pr_retention_seconds b < 1 then raise (InvalidRequest (ae_ge1_errors env (pr_retention_seconds b)))
      else bindE (lift (kind_or_400 (ae_text env) (pr_resource_kind b))) (\<lambda>k.
        bindE (map_exn (value_error_to_http 422)
          (set_policy (manager_env env) (pr_tenant_id b) k (pr_retention_seconds b) (pr_auto_delete b))) (\<lambda>p.
        ok (policy_json (iso_text (le_pf env)) p))))"

definition admin_policy_get :: "api_env \<Rightarrow> string \<Rightarrow> string \<Rightarrow> json admin" where
  "admin_policy_get env tenant kind =
     bindE (lift (kind_or_400 (ae_text env) kind)) (\<lambda>k.
     bindE (gets (\<lambda>w. get_lifecycle_policy (sv_db w) tenant k)) (\<lambda>row. case row of
       None \<Rightarrow> raise (HttpError 404 (JStr (''no policy for '' @ tenant @ ''/'' @ kind)))
     | Some p \<Rightarrow> ok (policy_json (ae_row_iso env) p)))"

subsection \<open>Holds\<close>

fun kinds_or_400 :: "textlib \<Rightarrow> string list \<Rightarrow> api_exn + resource_kind list" where
  "kinds_or_400 tx [] = Inr []"
| "kinds_or_400 tx (s # ss) = bindS (kind_or_400 tx s) (\<lambda>k. bindS (kinds_or_400 tx ss) (\<lambda>ks. Inr (k # ks)))"

definition or_empty :: "'a list option \<Rightarrow> 'a list" where
  "or_empty x = (case x of None \<Rightarrow> [] | Some xs \<Rightarrow> xs)"

definition hold_json :: "platform \<Rightarrow> hold_row \<Rightarrow> (resource_kind \<times> string) list \<Rightarrow> json" where
  "hold_json pf h pairs = JObj
    [(''hold_id'', JStr (lh_hold_id h)), (''tenant_id'', JStr (lh_tenant_id h)),
     (''case_id'', JStr (lh_case_id h)), (''reason'', JStr (lh_reason h)),
     (''created_by'', JStr (lh_created_by h)), (''created_at'', JStr (iso_text pf (lh_created_at h))),
     (''resource_kinds'', JList (map (JStr \<circ> resource_kind_text \<circ> fst) pairs)),
     (''resource_ids'', JList (map (JStr \<circ> snd) pairs))]"

definition admin_hold_create :: "api_env \<Rightarrow> string option \<Rightarrow> hold_create_body \<Rightarrow> json admin" where
  "admin_hold_create env actor b =
     (if hr_case_id b = [] \<or> py_strip (hr_case_id b) = []
      then raise (HttpError 422 (JStr ''case_id must be a non-empty string''))
      else bindE (lift (kinds_or_400 (ae_text env) (or_empty (hr_resource_kinds b)))) (\<lambda>kinds.
        bindE (map_exn lifecycle_error_to_http
          (create_hold (manager_env env) (hr_tenant_id b) (hr_case_id b) (hr_reason b) (hr_created_by b) kinds
             (or_empty (hr_resource_ids b)) (resolve_actor actor (hr_tenant_id b)))) (\<lambda>(h, pairs).
        ok (hold_json (le_pf env) h pairs))))"

definition hold_row_json :: "api_env \<Rightarrow> hold_row \<times> (resource_kind \<times> string) list \<Rightarrow> json" where
  "hold_row_json env = (\<lambda>(h, pairs). let opt_time = (\<lambda>t. case t of None \<Rightarrow> JNull | Some t \<Rightarrow> JStr (ae_row_iso env t)) in JObj
    [(''hold_id'', JStr (lh_hold_id h)), (''tenant_id'', JStr (lh_tenant_id h)),
     (''case_id'', JStr (lh_case_id h)), (''reason'', JStr (lh_reason h)),
     (''created_at'', opt_time (Some (lh_created_at h))), (''created_by'', JStr (lh_created_by h)),
     (''released_at'', opt_time (lh_released_at h)), (''released_by'', opt_str (lh_released_by h)),
     (''release_reason'', opt_str (lh_release_reason h)),
     (''resource_kind'', JList (map (JStr \<circ> resource_kind_text \<circ> fst) pairs)),
     (''resource_id'', JList (map (JStr \<circ> snd) pairs))])"

definition listing :: "string \<Rightarrow> string \<Rightarrow> json list \<Rightarrow> json" where
  "listing tenant name rows = JObj
     [(''tenant_id'', JStr tenant), (''count'', JInt (int (length rows))), (name, JList rows)]"

definition admin_hold_list :: "api_env \<Rightarrow> string \<Rightarrow> bool \<Rightarrow> json admin" where
  "admin_hold_list env tenant active_only =
     gets (\<lambda>w. listing tenant ''holds'' (map (hold_row_json env) (list_legal_holds (sv_db w) tenant active_only)))"

text \<open>\<open>x_orchestra_actor or body.released_by\<close> is the identity the manager checks.\<close>

definition release_identity :: "string option \<Rightarrow> hold_release_body \<Rightarrow> string" where
  "release_identity actor b = (case actor of None \<Rightarrow> rr_released_by b
     | Some a \<Rightarrow> if a = [] then rr_released_by b else a)"

definition not_applied_to_http :: "string \<Rightarrow> string \<Rightarrow> api_exn" where
  "not_applied_to_http hid reason =
     (if reason = ''cross_tenant'' then HttpError 403 (JStr ''cross-tenant: hold belongs to a different tenant'')
      else if reason = ''not_found'' then HttpError 404 (JStr (''hold '' @ hid @ '' not found''))
      else if reason = ''already_released'' then HttpError 409 (JStr (''hold '' @ hid @ '' is already released''))
      else HttpError 400 (JStr reason))"

definition admin_hold_release :: "api_env \<Rightarrow> string option \<Rightarrow> string \<Rightarrow> hold_release_body \<Rightarrow> json admin" where
  "admin_hold_release env actor hid b =
     bindE (map_exn lifecycle_error_to_http
       (release_hold (manager_env env) hid (rr_released_by b) (release_identity actor b) (rr_reason b))) (\<lambda>out.
     case out of
       RelNotApplied reason \<Rightarrow> raise (not_applied_to_http hid reason)
     | Released \<Rightarrow> ok (JObj [(''hold_id'', JStr hid), (''status'', JStr ''released'')]))"

subsection \<open>Deletion jobs\<close>

definition admin_deletion_create :: "api_env \<Rightarrow> string option \<Rightarrow> deletion_create_body \<Rightarrow> json admin" where
  "admin_deletion_create env actor b =
     bindE (lift (kind_or_400 (ae_text env) (dr_body_resource_kind b))) (\<lambda>k.
     bindE (map_exn lifecycle_error_to_http
       (delete_resource (manager_env env) (dr_body_tenant_id b) k (dr_body_resource_id b)
          (dr_body_requested_by b) (resolve_actor actor (dr_body_tenant_id b)) (dr_body_force b))) (\<lambda>j.
     ok (job_to_dict (created_job env j))))"

definition job_row_json :: "api_env \<Rightarrow> job_row \<Rightarrow> json" where
  "job_row_json env r = JObj
    [(''job_id'', JStr (dj_job_id r)), (''tenant_id'', JStr (dj_tenant_id r)),
     (''resource_kind'', JStr (resource_kind_text (dj_resource_kind r))),
     (''resource_id'', JStr (dj_resource_id r)), (''state'', JStr (deletion_state_value (dj_state r))),
     (''attempt'', JInt (int (dj_attempt r))), (''max_attempts'', JInt (dj_max_attempts r)),
     (''requested_at'', JStr (ae_row_iso env (dj_requested_at r))), (''requested_by'', JStr (dj_requested_by r)),
     (''completed_at'', opt_str (map_option (ae_row_iso env) (dj_completed_at r))),
     (''last_error'', opt_str (dj_last_error r)),
     (''deletion_evidence'', case dj_evidence r of None \<Rightarrow> JNull | Some v \<Rightarrow> v)]"

definition admin_deletion_list :: "api_env \<Rightarrow> string \<Rightarrow> string option \<Rightarrow> json admin" where
  "admin_deletion_list env tenant state =
     bindE (lift (case state of None \<Rightarrow> Inr None
       | Some s \<Rightarrow> (case dget deletion_states s of
            None \<Rightarrow> Inl (HttpError 422 (JStr (''unknown state '' @ text_repr (ae_text env) s)))
          | Some st \<Rightarrow> Inr (Some st)))) (\<lambda>st.
     gets (\<lambda>w. listing tenant ''jobs'' (map (job_row_json env) (list_deletion_jobs (sv_db w) tenant st))))"

definition admin_deletion_get :: "api_env \<Rightarrow> string \<Rightarrow> json admin" where
  "admin_deletion_get env jid =
     bindE (gets (\<lambda>w. get_deletion_job (sv_db w) jid)) (\<lambda>row. case row of
       None \<Rightarrow> raise (HttpError 404 (JStr (''deletion job '' @ jid @ '' not found'')))
     | Some r \<Rightarrow> ok (job_row_json env r))"

definition admin_deletion_execute :: "api_env \<Rightarrow> string \<Rightarrow> json admin" where
  "admin_deletion_execute env jid =
     bindE (map_exn lifecycle_error_to_http (execute_deletion (manager_env env) jid)) (\<lambda>j. ok (job_to_dict j))"

definition admin_deletion_retry :: "api_env \<Rightarrow> string \<Rightarrow> json admin" where
  "admin_deletion_retry env jid =
     bindE (map_exn retry_error_to_http (retry_deletion (manager_env env) jid)) (\<lambda>j. ok (job_to_dict j))"

text \<open>Release as a client sees it.\<close>

definition api_hold_release :: "api_env \<Rightarrow> string \<Rightarrow> string option \<Rightarrow> string \<Rightarrow> hold_release_body \<Rightarrow>
    lifecycle_state \<Rightarrow> (int \<times> json) \<times> lifecycle_state" where
  "api_hold_release env rid actor hid b w =
     map_prod (respond (ae_text env) rid) id (admin_hold_release env actor hid b w)"

subsection \<open>Policies are read back\<close>

lemma kind_or_400_Inr: "kind_or_400 tx s = Inr k \<longleftrightarrow> dget valid_kinds s = Some k"
  by (simp add: kind_or_400_def split: option.split)

lemma set_policy_run:
  assumes "set_policy env tenant k n a w = (Inr p, w')"
  shows "\<exists>t t'. p = \<lparr>lp_policy_id = ''pol:'' @ take 12 (se_uuid env (sv_ids w)), lp_tenant_id = tenant,
      lp_resource_kind = k, lp_retention_seconds = n, lp_auto_delete = a, lp_created_at = t\<rparr> \<and>
    upsert_lifecycle_policy t' p (sv_db w) = Inr (sv_db w')"
  using assms
  by (auto simp: set_policy_def raise_def bindE_def seqE_def sv_uuid_def sv_now_def sv_try_def ok_def Let_def
      split: if_splits sum.splits)

lemma upserted_policy:
  assumes "upsert_lifecycle_policy t p d = Inr d'"
  shows "get_lifecycle_policy d' (lp_tenant_id p) (lp_resource_kind p) =
      Some (case get_lifecycle_policy d (lp_tenant_id p) (lp_resource_kind p) of
        None \<Rightarrow> p\<lparr>lp_created_at := t\<rparr>
      | Some old \<Rightarrow> old\<lparr>lp_retention_seconds := lp_retention_seconds p, lp_auto_delete := lp_auto_delete p\<rparr>)"
    and "(tenant, k) \<noteq> (lp_tenant_id p, lp_resource_kind p) \<Longrightarrow>
      get_lifecycle_policy d' tenant k = get_lifecycle_policy d tenant k"
proof -
  let ?same = "\<lambda>r. lp_tenant_id r = lp_tenant_id p \<and> lp_resource_kind r = lp_resource_kind p"
  let ?set = "\<lambda>r. r\<lparr>lp_retention_seconds := lp_retention_seconds p, lp_auto_delete := lp_auto_delete p\<rparr>"
  have other: "find (\<lambda>r. lp_tenant_id r = tenant \<and> lp_resource_kind r = k) (update_where ?same ?set rows) =
      find (\<lambda>r. lp_tenant_id r = tenant \<and> lp_resource_kind r = k) rows"
    if "(tenant, k) \<noteq> (lp_tenant_id p, lp_resource_kind p)" for tenant k and rows :: "policy_row list"
    using that by (induction rows) (auto simp: update_where_def)
  show "get_lifecycle_policy d' (lp_tenant_id p) (lp_resource_kind p) = Some (case get_lifecycle_policy d (lp_tenant_id p) (lp_resource_kind p) of
        None \<Rightarrow> p\<lparr>lp_created_at := t\<rparr> | Some old \<Rightarrow> ?set old)"
  proof (cases "find ?same (lifecycle_policies d)")
    case None
    then have "\<not> list_ex ?same (lifecycle_policies d)" by (auto simp: find_None_iff list_ex_iff)
    with assms None show ?thesis
      by (auto simp: upsert_lifecycle_policy_def get_lifecycle_policy_def insert_row_def find_snoc split: if_splits)
  next
    case (Some old)
    then have "list_ex ?same (lifecycle_policies d)" by (auto simp: list_ex_iff dest: find_SomeD)
    with assms Some show ?thesis
      by (auto simp: upsert_lifecycle_policy_def get_lifecycle_policy_def find_update_where)
  qed
  show "get_lifecycle_policy d' tenant k = get_lifecycle_policy d tenant k"
    if diff: "(tenant, k) \<noteq> (lp_tenant_id p, lp_resource_kind p)"
  proof (cases "list_ex ?same (lifecycle_policies d)")
    case True
    then have "d' = d\<lparr>lifecycle_policies := update_where ?same ?set (lifecycle_policies d)\<rparr>"
      using assms by (simp add: upsert_lifecycle_policy_def)
    then show ?thesis using other [OF diff, of "lifecycle_policies d"] by (simp add: get_lifecycle_policy_def)
  next
    case False
    then have "d' = d\<lparr>lifecycle_policies := lifecycle_policies d @ [p\<lparr>lp_created_at := t\<rparr>]\<rparr>"
      using assms by (simp add: upsert_lifecycle_policy_def insert_row_def split: if_splits)
    then show ?thesis using diff by (auto simp: get_lifecycle_policy_def find_snoc split: option.split)
  qed
qed

text \<open>
  A policy that is set is read back: the read endpoint then answers with the seconds and
  the flag that were given, and the policies of other tenants and kinds are as they were. But the
  answer of a second setting names a fresh policy id, while the row keeps the id and the
  time of creation it had.
\<close>

theorem policy_read_back:
  assumes "admin_policy_set env b w = (Inr body, w')"
  shows "\<exists>k p. dget valid_kinds (pr_resource_kind b) = Some k \<and>
    admin_policy_get env (pr_tenant_id b) (pr_resource_kind b) w' = (Inr (policy_json (ae_row_iso env) p), w') \<and>
    lp_retention_seconds p = pr_retention_seconds b \<and> lp_auto_delete p = pr_auto_delete b \<and>
    (\<forall>tenant k'. (tenant, k') \<noteq> (pr_tenant_id b, k) \<longrightarrow>
      get_lifecycle_policy (sv_db w') tenant k' = get_lifecycle_policy (sv_db w) tenant k') \<and>
    (let answered = ''pol:'' @ take 12 (se_uuid env (sv_ids w)) in
     jget body ''policy_id'' = Some (JStr answered) \<and>
     lp_policy_id p = (case get_lifecycle_policy (sv_db w) (pr_tenant_id b) k of
       None \<Rightarrow> answered | Some old \<Rightarrow> lp_policy_id old))"
proof -
  obtain k where k: "dget valid_kinds (pr_resource_kind b) = Some k"
    using assms by (auto simp: admin_policy_set_def raise_def bindE_def lift_def kind_or_400_Inr
        split: if_splits sum.splits)
  obtain p where run: "set_policy (manager_env env) (pr_tenant_id b) k (pr_retention_seconds b) (pr_auto_delete b) w = (Inr p, w')"
    and body: "body = policy_json (iso_text (le_pf env)) p"
    using assms k by (auto simp: admin_policy_set_def raise_def bindE_def lift_def kind_or_400_Inr ok_def map_exn_def
        split: if_splits sum.splits prod.splits)
  obtain t t' where p: "p = \<lparr>lp_policy_id = ''pol:'' @ take 12 (se_uuid env (sv_ids w)), lp_tenant_id = pr_tenant_id b,
      lp_resource_kind = k, lp_retention_seconds = pr_retention_seconds b, lp_auto_delete = pr_auto_delete b, lp_created_at = t\<rparr>"
    and up: "upsert_lifecycle_policy t' p (sv_db w) = Inr (sv_db w')"
    using set_policy_run [OF run] by (auto simp: manager_env_def lifecycle_env.defs)
  define q where "q = (case get_lifecycle_policy (sv_db w) (pr_tenant_id b) k of None \<Rightarrow> p\<lparr>lp_created_at := t'\<rparr>
    | Some old \<Rightarrow> old\<lparr>lp_retention_seconds := lp_retention_seconds p, lp_auto_delete := lp_auto_delete p\<rparr>)"
  have stored: "get_lifecycle_policy (sv_db w') (pr_tenant_id b) k = Some q"
    using upserted_policy(1) [OF up] by (simp add: p q_def)
  have "lp_retention_seconds q = pr_retention_seconds b" "lp_auto_delete q = pr_auto_delete b"
    "lp_policy_id q = (case get_lifecycle_policy (sv_db w) (pr_tenant_id b) k of
       None \<Rightarrow> ''pol:'' @ take 12 (se_uuid env (sv_ids w)) | Some old \<Rightarrow> lp_policy_id old)"
    by (simp_all add: q_def p split: option.split)
  moreover have "admin_policy_get env (pr_tenant_id b) (pr_resource_kind b) w' = (Inr (policy_json (ae_row_iso env) q), w')"
    by (simp add: admin_policy_get_def bindE_def lift_def kind_or_400_def gets_def ok_def k stored)
  moreover have "\<forall>tenant k'. (tenant, k') \<noteq> (pr_tenant_id b, k) \<longrightarrow>
      get_lifecycle_policy (sv_db w') tenant k' = get_lifecycle_policy (sv_db w) tenant k'"
    using upserted_policy(2) [OF up] by (simp add: p)
  moreover have "jget body ''policy_id'' = Some (JStr (''pol:'' @ take 12 (se_uuid env (sv_ids w))))"
    by (simp add: body policy_json_def p)
  ultimately show ?thesis using k by (auto simp only: Let_def intro!: exI [of _ k] exI [of _ q])
qed

subsection \<open>Who may release a hold\<close>

lemma release_hold_run:
  "\<exists>w' t. release_hold env hid who identity reason w =
     ((case fst (release_legal_hold t hid who identity reason (sv_db w)) of
         RelNotApplied why \<Rightarrow> if why = ''cross_tenant'' then Inl (LcCrossTenant ''<resource_tenant>'' identity)
                            else Inr (RelNotApplied why)
       | Released \<Rightarrow> Inr Released), w') \<and>
     legal_holds (sv_db w') = legal_holds (snd (release_legal_hold t hid who identity reason (sv_db w)))"
proof -
  obtain out d where rel: "release_legal_hold (se_clock env (sv_reads w)) hid who identity reason (sv_db w) = (out, d)"
    by force
  let ?v = "w\<lparr>sv_reads := Suc (sv_reads w), sv_db := d\<rparr>"
  obtain w2 where emitted: "emit_audit env HOLD_RELEASED who
      [(''hold_id'', JStr hid), (''released_by'', JStr who), (''reason'', JStr reason)] ?v = (Inr (), w2)" "same_tables ?v w2"
    using emit_audit_ok by blast
  show ?thesis
    using rel emitted
    by (intro exI [of _ "if out = Released then w2 else ?v"] exI [of _ "se_clock env (sv_reads w)"])
      (auto simp: release_hold_def bindE_def seqE_def sv_now_def sv_call_def raise_def ok_def same_tables_def
        split: release_outcome.splits)
qed

definition hold_of :: "lifecycle_state \<Rightarrow> string \<Rightarrow> hold_row option" where
  "hold_of w hid = find (\<lambda>h. lh_hold_id h = hid) (legal_holds (sv_db w))"

lemma hold_release_answer:
  assumes "api_hold_release env rid actor hid b w = ((status, body), w')"
  shows "status = (case hold_of w hid of None \<Rightarrow> 404 | Some h \<Rightarrow>
      if lh_tenant_id h \<noteq> release_identity actor b then 403
      else if lh_released_at h \<noteq> None then 409 else 200) \<and>
    (status \<noteq> 200 \<longrightarrow> legal_holds (sv_db w') = legal_holds (sv_db w)) \<and>
    (status = 200 \<longrightarrow> (\<exists>h. hold_of w' hid = Some h \<and> lh_released_at h \<noteq> None \<and>
      lh_released_by h = Some (rr_released_by b)))"
proof -
  let ?i = "release_identity actor b" and ?env = "manager_env env"
  obtain v t where run: "release_hold ?env hid (rr_released_by b) ?i (rr_reason b) w =
      ((case fst (release_legal_hold t hid (rr_released_by b) ?i (rr_reason b) (sv_db w)) of
          RelNotApplied why \<Rightarrow> if why = ''cross_tenant'' then Inl (LcCrossTenant ''<resource_tenant>'' ?i)
                             else Inr (RelNotApplied why)
        | Released \<Rightarrow> Inr Released), v)"
    and holds: "legal_holds (sv_db v) = legal_holds (snd (release_legal_hold t hid (rr_released_by b) ?i (rr_reason b) (sv_db w)))"
    using release_hold_run by blast
  note simps = api_hold_release_def admin_hold_release_def bindE_def map_exn_def run lifecycle_error_to_http_def
    not_applied_to_http_def raise_def ok_def hold_of_def release_legal_hold_def
  show ?thesis
  proof (cases "find (\<lambda>h. lh_hold_id h = hid) (legal_holds (sv_db w))")
    case None
    then show ?thesis using assms holds by (auto simp: simps)
  next
    case (Some h)
    then show ?thesis using assms holds by (auto simp: simps find_update_where split: if_splits)
  qed
qed


lemma default_release_refused:
  assumes "hold_of w hid = Some h" "lh_tenant_id h \<noteq> ''api''"
  shows "fst (fst (api_hold_release env rid None hid \<lparr>rr_released_by = ''api'', rr_reason = r\<rparr> w)) = 403"
proof -
  obtain status body w' where run: "api_hold_release env rid None hid \<lparr>rr_released_by = ''api'', rr_reason = r\<rparr> w = ((status, body), w')"
    by (metis prod.exhaust)
  from release_hold_run [of "manager_env env" hid "''api''" "''api''" r w] assms show ?thesis
    by (auto simp: api_hold_release_def admin_hold_release_def bindE_def map_exn_def lifecycle_error_to_http_def
        release_identity_def hold_of_def release_legal_hold_def)
qed

subsection \<open>What a request to delete answers\<close>

definition api_deletion_create :: "api_env \<Rightarrow> string \<Rightarrow> string option \<Rightarrow> deletion_create_body \<Rightarrow>
    lifecycle_state \<Rightarrow> (int \<times> json) \<times> lifecycle_state" where
  "api_deletion_create env rid actor b w =
     map_prod (respond (ae_text env) rid) id (admin_deletion_create env actor b w)"

lemma delete_cross_tenant:
  "identity \<noteq> None \<Longrightarrow> identity \<noteq> Some tenant \<Longrightarrow>
   delete_resource env tenant k rid who identity force w = (Inl (LcCrossTenant tenant (the identity)), w)"
  by (simp add: delete_resource_def raise_def)

lemma resolve_actor_other: "resolve_actor actor tenant = Some t \<Longrightarrow> t \<noteq> tenant"
  by (auto simp: resolve_actor_def split: option.splits if_splits)

lemma respond_delete_error:
  "fst (respond tx rid (Inl (lifecycle_error_to_http (LcBlocked h c k r)))) = 409"
  "fst (respond tx rid (Inl (lifecycle_error_to_http (LcRetained k r)))) = 409"
  "fst (respond tx rid (Inl (lifecycle_error_to_http (LcCrossTenant x y)))) = 403"
  "fst (respond tx rid (Inl (lifecycle_error_to_http (LcDb e)))) = 500"
  by (simp_all add: lifecycle_error_to_http_def)

lemma deletion_handler_run:
  assumes "api_deletion_create env rid actor b w = ((status, body), w')" "dget valid_kinds (dr_body_resource_kind b) = Some k"
  obtains r where "delete_resource (manager_env env) (dr_body_tenant_id b) k (dr_body_resource_id b) (dr_body_requested_by b)
      (resolve_actor actor (dr_body_tenant_id b)) (dr_body_force b) w = (r, w')"
    "\<And>e. r = Inl e \<Longrightarrow> status = fst (respond (ae_text env) rid (Inl (lifecycle_error_to_http e)))"
    "\<And>j. r = Inr j \<Longrightarrow> status = 200 \<and> body = job_to_dict (created_job env j)"
proof -
  obtain r v where run: "delete_resource (manager_env env) (dr_body_tenant_id b) k (dr_body_resource_id b)
      (dr_body_requested_by b) (resolve_actor actor (dr_body_tenant_id b)) (dr_body_force b) w = (r, v)" by force
  with assms have "w' = v" "\<And>e. r = Inl e \<Longrightarrow> status = fst (respond (ae_text env) rid (Inl (lifecycle_error_to_http e)))"
    "\<And>j. r = Inr j \<Longrightarrow> status = 200 \<and> body = job_to_dict (created_job env j)"
    by (auto simp: api_deletion_create_def admin_deletion_create_def bindE_def lift_def kind_or_400_def map_exn_def ok_def
        split: sum.splits)
  with run that show ?thesis by blast
qed

lemma accepted_answer:
  assumes "case found of
      Some row \<Rightarrow> same \<and> (\<exists>j. r = Inr j \<and> dj_job_id j = dj_job_id row \<and> dj_state j = dj_state row \<and>
        dj_attempt j = dj_attempt row)
    | None \<Rightarrow> (\<exists>j. r = Inr j \<and> dj_state j = DS_PENDING \<and> job_resource j = x \<and>
          (\<exists>row. jobs' = jobs @ [row] \<and> dj_job_id row = dj_job_id j \<and> job_resource row = job_resource j)) \<or>
        (\<exists>e. r = Inl (LcDb e) \<and> same)"
    and err: "\<And>e. r = Inl e \<Longrightarrow> status = fst (respond tx rid (Inl (lifecycle_error_to_http e)))"
    and fin: "\<And>j. r = Inr j \<Longrightarrow> status = (200 :: int) \<and> body = job_to_dict (created_job env j)"
  shows "case found of
      Some row \<Rightarrow> status = 200 \<and> same \<and> jget body ''job_id'' = Some (JStr (dj_job_id row)) \<and>
        jget body ''state'' = Some (JStr (deletion_state_value (dj_state row)))
    | None \<Rightarrow> status = 200 \<and> jget body ''state'' = Some (JStr ''pending'') \<and>
        (\<exists>row. jobs' = jobs @ [row] \<and> job_resource row = x \<and> jget body ''job_id'' = Some (JStr (dj_job_id row))) \<or>
        status = 500 \<and> same"
proof -
  have shown: "jget (job_to_dict (created_job env j)) ''job_id'' = Some (JStr (dj_job_id j)) \<and>
      jget (job_to_dict (created_job env j)) ''state'' = Some (JStr (deletion_state_value (dj_state j)))" for j
    by (simp add: job_to_dict_def created_job_def)
  have pending: "deletion_state_value DS_PENDING = ''pending''" by (simp add: deletion_state_value_def)
  show ?thesis
  proof (cases found)
    case None
    from assms(1) [unfolded None option.case] show ?thesis
    proof (elim disjE exE conjE)
      fix j row
      assume "r = Inr j" "dj_state j = DS_PENDING" "job_resource j = x" "jobs' = jobs @ [row]"
        "dj_job_id row = dj_job_id j" "job_resource row = job_resource j"
      with fin [of j] shown [of j] pending None show ?thesis by simp
    next
      fix e
      assume "r = Inl (LcDb e)" "same"
      with err [of "LcDb e"] respond_delete_error(4) None show ?thesis by simp
    qed
  next
    case (Some row)
    with assms(1) obtain j where "r = Inr j" "dj_job_id j = dj_job_id row" "dj_state j = dj_state row" "same" by auto
    with fin [of j] shown [of j] Some show ?thesis by simp
  qed
qed


text \<open>Three routes, three answers to an id that is not there.\<close>

lemma unknown_job:
  assumes "get_deletion_job (sv_db w) jid = None"
  shows "admin_deletion_execute env jid w = (Inl (Unhandled ''ValueError''), w)"
    "admin_deletion_retry env jid w = (Inl (HttpError 409 (JStr (''unknown deletion job: '' @ jid))), w)"
    "admin_deletion_get env jid w = (Inl (HttpError 404 (JStr (''deletion job '' @ jid @ '' not found''))), w)"
  using assms
  by (simp_all add: admin_deletion_execute_def admin_deletion_retry_def admin_deletion_get_def execute_deletion_def
      retry_deletion_def map_exn_def bindE_def gets_def raise_def lifecycle_error_to_http_def retry_error_to_http_def
      exn_type_def)

subsection \<open>Witnesses\<close>

definition ex_api_env :: api_env where
  "ex_api_env = \<lparr>se_uuid = (\<lambda>n. replicate n CHR ''a''), se_clock = int, se_hash = (\<lambda>_. 0),
     se_time_text = (\<lambda>_. []), le_pf = ex_platform, le_artifact_store = DevStore,
     le_webhook_deleter = None, le_receipt_fault = (\<lambda>_. None), ae_text = ex_textlib,
     ae_ge1_errors = (\<lambda>_. []), ae_row_iso = (\<lambda>_. [])\<rparr>"

definition ex_policy_body :: policy_set_body where
  "ex_policy_body = \<lparr>pr_tenant_id = ''T'', pr_resource_kind = ''cache'', pr_retention_seconds = 60, pr_auto_delete = True\<rparr>"

lemma ex_kinds: "dget valid_kinds ''cache'' = Some RK_CACHE" "dget valid_kinds ''event'' = Some RK_EVENT"
  by (simp_all add: valid_kinds_def)

lemma ex_policy_accepted: "\<exists>body w'. admin_policy_set ex_api_env ex_policy_body lc_example_start = (Inr body, w')"
  by (simp add: admin_policy_set_def ex_policy_body_def kind_or_400_def ex_kinds lift_def bindE_def map_exn_def
      set_policy_def sv_uuid_def sv_now_def seqE_def sv_try_def upsert_lifecycle_policy_def insert_row_def ok_def
      lc_example_start_def lc_example_state_def empty_db_def Let_def)

theorem policy_read_back_witness:
  "\<exists>body w' p. admin_policy_set ex_api_env ex_policy_body lc_example_start = (Inr body, w') \<and>
     admin_policy_get ex_api_env ''T'' ''cache'' w' = (Inr (policy_json (\<lambda>_. []) p), w') \<and> lp_retention_seconds p = 60"
proof -
  obtain body w' where run: "admin_policy_set ex_api_env ex_policy_body lc_example_start = (Inr body, w')"
    using ex_policy_accepted by blast
  from policy_read_back [OF run] run show ?thesis by (auto simp: ex_policy_body_def ex_api_env_def)
qed



end
