(* ===== verification/BreakGlassApi.thy ===== *)
theory BreakGlassApi
  imports BreakGlass AdminApi
begin

section \<open>The break-glass endpoints\<close>

text \<open>
  The six routes \<open>/admin/breakglass\<close> of \<open>orchestra/api/app.py\<close> over the break-glass service. The
  actor is the unverified header, or a field of the body, and the tenant the service checks against
  is read from the very request it checks. Of a body, the fields whose types the route looks at are
  JSON values; \<open>ticket\<close>, \<open>window_seconds\<close>, \<open>task_run_id\<close> and the names are taken at the types the
  service declares.
\<close>

subsection \<open>Bodies and environment\<close>

record breakglass_body =
  bb_tenant_id :: "json option"
  bb_purpose :: "json option"
  bb_effect :: "json option"
  bb_resource_scope :: "json option"
  bb_requested_by :: "string option"
  bb_ticket :: "string option"
  bb_window_seconds :: "int option"
  bb_task_run_id :: "string option"

text \<open>Whether the service is there, and the text of an exception, which the database has a part in.\<close>

record breakglass_env = service_env +
  be_wired :: bool
  be_pf :: platform
  be_error_text :: "break_glass_exn \<Rightarrow> string"
  be_row_iso :: "int \<Rightarrow> string"

abbreviation bg_env :: "breakglass_env \<Rightarrow> service_env" where
  "bg_env env \<equiv> service_env.truncate env"

type_synonym ('s, 'a) bg_api = "('s service_state_scheme, 'a) api"

definition bg_actor :: "string option \<Rightarrow> string option \<Rightarrow> string" where
  "bg_actor header_value body_value =
     (let given = (\<lambda>x. case x of None \<Rightarrow> [] | Some s \<Rightarrow> s)
      in if given header_value \<noteq> [] then given header_value
         else if given body_value \<noteq> [] then given body_value else ''console-user'')"

definition need_service :: "breakglass_env \<Rightarrow> ('s, unit) bg_api" where
  "need_service env = (if be_wired env then ok ()
     else raise (HttpError 503 (JStr ''break-glass service not initialised'')))"

definition need_text :: "string \<Rightarrow> json option \<Rightarrow> api_exn + string" where
  "need_text name v = (case v of Some (JStr s) \<Rightarrow> if s \<noteq> [] then Inr s
       else Inl (HttpError 422 (JStr (name @ '' must be a non-empty string'')))
     | _ \<Rightarrow> Inl (HttpError 422 (JStr (name @ '' must be a non-empty string''))))"

definition need_dict :: "string \<Rightarrow> json option \<Rightarrow> api_exn + json" where
  "need_dict name v = (let x = (case v of None \<Rightarrow> JObj [] | Some x \<Rightarrow> py_or x (JObj []))
     in if is_obj x then Inr x else Inl (HttpError 422 (JStr (name @ '' must be a dict''))))"

definition break_glass_states :: "(string \<times> break_glass_state) list" where
  "break_glass_states = [(''requested'', BG_REQUESTED), (''first-approved'', BG_FIRST_APPROVED),
     (''active'', BG_ACTIVE), (''expired'', BG_EXPIRED), (''revoked'', BG_REVOKED)]"

definition break_glass_state_value :: "break_glass_state \<Rightarrow> string" where
  "break_glass_state_value s = (case s of BG_REQUESTED \<Rightarrow> ''requested'' | BG_FIRST_APPROVED \<Rightarrow> ''first-approved''
     | BG_ACTIVE \<Rightarrow> ''active'' | BG_EXPIRED \<Rightarrow> ''expired'' | BG_REVOKED \<Rightarrow> ''revoked'')"

text \<open>A request as the model dumps it, and as a row with the driver's instants: one order of fields.\<close>

definition break_glass_json :: "(int \<Rightarrow> string) \<Rightarrow> break_glass_row \<Rightarrow> json" where
  "break_glass_json fmt r = (let moment = (\<lambda>t. opt_str (map_option fmt t)) in JObj
    [(''request_id'', JStr (bg_request_id r)), (''tenant_id'', JStr (bg_tenant_id r)),
     (''task_run_id'', opt_str (bg_task_run_id r)), (''purpose'', JStr (bg_purpose r)),
     (''effect'', bg_effect r), (''resource_scope'', bg_resource_scope r), (''ticket'', opt_str (bg_ticket r)),
     (''requested_by'', JStr (bg_requested_by r)), (''requested_at'', JStr (fmt (bg_requested_at r))),
     (''state'', JStr (break_glass_state_value (bg_state r))),
     (''first_approver'', opt_str (bg_first_approver r)), (''first_approved_at'', moment (bg_first_approved_at r)),
     (''second_approver'', opt_str (bg_second_approver r)), (''second_approved_at'', moment (bg_second_approved_at r)),
     (''window_seconds'', JInt (bg_window_seconds r)), (''activated_at'', moment (bg_activated_at r)),
     (''expires_at'', moment (bg_expires_at r)), (''revoked_by'', opt_str (bg_revoked_by r)),
     (''revoked_at'', moment (bg_revoked_at r)), (''revoke_reason'', opt_str (bg_revoke_reason r))])"

subsection \<open>The routes\<close>

definition breakglass_request :: "breakglass_env \<Rightarrow> string option \<Rightarrow> breakglass_body \<Rightarrow> ('s, json) bg_api" where
  "breakglass_request env actor b =
     seqE (need_service env)
     (bindE (lift (need_text ''tenant_id'' (bb_tenant_id b))) (\<lambda>tenant.
      bindE (lift (need_text ''purpose'' (bb_purpose b))) (\<lambda>purpose.
      bindE (lift (need_dict ''effect'' (bb_effect b))) (\<lambda>effect.
      bindE (lift (need_dict ''resource_scope'' (bb_resource_scope b))) (\<lambda>scope.
      bindE (map_exn (\<lambda>e. HttpError 400 (JStr (be_error_text env e)))
        (bg_request (bg_env env) \<lparr>ba_tenant_id = tenant, ba_purpose = purpose, ba_effect = effect,
           ba_resource_scope = scope, ba_requested_by = bg_actor actor (bb_requested_by b), ba_ticket = bb_ticket b,
           ba_window_seconds = bb_window_seconds b, ba_task_run_id = bb_task_run_id b\<rparr>)) (\<lambda>r.
      ok (break_glass_json (iso_text (be_pf env)) r)))))))"

definition breakglass_list :: "breakglass_env \<Rightarrow> string \<Rightarrow> string option \<Rightarrow> ('s, json) bg_api" where
  "breakglass_list env tenant state_filter =
     seqE (need_service env) (gets (\<lambda>w. listing tenant ''requests'' (map (break_glass_json (be_row_iso env))
       (case state_filter of None \<Rightarrow> list_break_glass_for_tenant (sv_db w) tenant None
        | Some s \<Rightarrow> (case dget break_glass_states s of None \<Rightarrow> []
            | Some st \<Rightarrow> list_break_glass_for_tenant (sv_db w) tenant (Some st))))))"

text \<open>The row the next three routes read first.\<close>

definition breakglass_row :: "breakglass_env \<Rightarrow> string \<Rightarrow> ('s, break_glass_row) bg_api" where
  "breakglass_row env rid =
     seqE (need_service env) (bindE (gets (\<lambda>w. get_break_glass (sv_db w) rid)) (\<lambda>row. case row of
       None \<Rightarrow> raise (HttpError 404 (JStr (''break-glass request '' @ rid @ '' not found'')))
     | Some r \<Rightarrow> ok r))"

definition breakglass_get :: "breakglass_env \<Rightarrow> string \<Rightarrow> ('s, json) bg_api" where
  "breakglass_get env rid = bindE (breakglass_row env rid) (\<lambda>r. ok (break_glass_json (be_row_iso env) r))"

definition bg_error_type :: "break_glass_exn \<Rightarrow> string" where
  "bg_error_type e = (case e of BgContract _ \<Rightarrow> ''ContractViolation'' | BgEffectRejected _ \<Rightarrow> ''BreakGlassEffectRejected''
     | BgUnhashable _ \<Rightarrow> ''TypeError'' | BgValidation \<Rightarrow> ''ValidationError''
     | BgDb (UniqueViolation _) \<Rightarrow> ''UniqueViolation'' | BgDb (ForeignKeyViolation _) \<Rightarrow> ''ForeignKeyViolation'')"

definition breakglass_approve :: "breakglass_env \<Rightarrow> string option \<Rightarrow> string \<Rightarrow> string option \<Rightarrow> string \<Rightarrow> ('s, json) bg_api" where
  "breakglass_approve env actor rid body_approver rationale =
     bindE (breakglass_row env rid) (\<lambda>r.
     let approver = bg_actor actor body_approver in
     bindE (map_exn (\<lambda>e. Unhandled (bg_error_type e))
       (bg_approve (bg_env env) rid approver (bg_tenant_id r) rationale)) (\<lambda>out.
     case out of
       BgNotApplied reason \<Rightarrow> raise (HttpError 409 (JStr (''approval not applied: '' @ reason)))
     | BgFirstApproved \<Rightarrow> ok (JObj [(''applied'', JBool True), (''state'', JStr ''first-approved''),
         (''approver'', JStr approver), (''required_next'', JStr ''second_approver'')])
     | BgActive t \<Rightarrow> ok (JObj [(''applied'', JBool True), (''state'', JStr ''active''),
         (''approver'', JStr approver), (''expires_at'', JStr (se_time_text env t))])
     | BgRevoked \<Rightarrow> ok (JObj [(''applied'', JBool True), (''state'', JStr ''revoked'')])))"

definition breakglass_revoke :: "breakglass_env \<Rightarrow> string option \<Rightarrow> string \<Rightarrow> string option \<Rightarrow> string \<Rightarrow> ('s, json) bg_api" where
  "breakglass_revoke env actor rid body_revoker reason =
     bindE (breakglass_row env rid) (\<lambda>r.
     bindE (map_exn (\<lambda>e. Unhandled (bg_error_type e))
       (bg_revoke (bg_env env) rid (bg_actor actor body_revoker) (bg_tenant_id r) reason)) (\<lambda>out.
     case out of
       BgNotApplied why \<Rightarrow> raise (HttpError (if why = ''already_terminal'' then 409 else 404)
         (JStr (''revoke not applied: '' @ why)))
     | _ \<Rightarrow> ok (JObj [(''applied'', JBool True), (''state'', JStr ''revoked'')])))"

definition breakglass_sweep :: "breakglass_env \<Rightarrow> ('s, json) bg_api" where
  "breakglass_sweep env =
     seqE (need_service env) (bindE (map_exn (\<lambda>e. Unhandled (bg_error_type e)) (bg_sweep_expired (bg_env env))) (\<lambda>ids.
       ok (JObj [(''expired_count'', JInt (int (length ids))), (''expired_ids'', JList (map JStr ids))])))"

subsection \<open>Sequences of requests\<close>

datatype breakglass_call =
    BaRequest "string option" breakglass_body
  | BaApprove "string option" string "string option" string
  | BaRevoke "string option" string "string option" string
  | BaSweep
  | BaGet string
  | BaList string "string option"

fun breakglass_handle :: "breakglass_env \<Rightarrow> breakglass_call \<Rightarrow> ('s, json) bg_api" where
  "breakglass_handle env (BaRequest actor b) = breakglass_request env actor b"
| "breakglass_handle env (BaApprove actor rid who why) = breakglass_approve env actor rid who why"
| "breakglass_handle env (BaRevoke actor rid who why) = breakglass_revoke env actor rid who why"
| "breakglass_handle env BaSweep = breakglass_sweep env"
| "breakglass_handle env (BaGet rid) = breakglass_get env rid"
| "breakglass_handle env (BaList tenant f) = breakglass_list env tenant f"

definition breakglass_run :: "breakglass_env \<Rightarrow> breakglass_call list \<Rightarrow> 's service_state_scheme \<Rightarrow> 's service_state_scheme" where
  "breakglass_run env cs w = foldl (\<lambda>w c. snd (breakglass_handle env c w)) w cs"

lemma keeps_map_exn: "keeps R m \<Longrightarrow> keeps R (map_exn f m)"
proof -
  have "snd (map_exn f m w) = snd (m w)" for w by (simp add: map_exn_def split: prod.split sum.split)
  then show "keeps R m \<Longrightarrow> keeps R (map_exn f m)" by (simp add: keeps_def)
qed

lemma api_kept_row: "keeps (db_kept I) (breakglass_row env rid)"
  unfolding breakglass_row_def need_service_def
  by (intro dbk.seq dbk.bind) (simp_all add: dbk.pure split: option.split)

text \<open>An invariant of the tables that the service's operations keep, the endpoints keep.\<close>

lemma api_kept:
  fixes I :: "db \<Rightarrow> bool"
  assumes "\<And>env a. keeps (db_kept I) (bg_request env a :: ('s, break_glass_exn, _) service)"
    "\<And>env rid who tenant why. keeps (db_kept I) (bg_approve env rid who tenant why :: ('s, break_glass_exn, _) service)"
    "\<And>env rid who tenant why. keeps (db_kept I) (bg_revoke env rid who tenant why :: ('s, break_glass_exn, _) service)"
    "\<And>env. keeps (db_kept I) (bg_sweep_expired env :: ('s, break_glass_exn, _) service)"
  shows "keeps (db_kept I) (breakglass_handle env c :: ('s, json) bg_api)"
proof -
  have service: "keeps (db_kept I) (need_service env :: ('s, unit) bg_api)"
    by (simp add: need_service_def dbk.pure)
  have approved: "keeps (db_kept I) (case out of
       BgNotApplied reason \<Rightarrow> raise (f reason) | BgFirstApproved \<Rightarrow> ok a | BgActive t \<Rightarrow> ok (g t) | BgRevoked \<Rightarrow> ok b)"
    for out and f :: "string \<Rightarrow> api_exn" and a g and b :: json
    by (simp add: dbk.pure split: break_glass_outcome.split)
  note calls = assms [THEN keeps_map_exn]
  show ?thesis
  proof (cases c)
    case (BaRequest actor b)
    then show ?thesis
      unfolding breakglass_handle.simps BaRequest breakglass_request_def by (intro dbk_steps service calls)
  next
    case (BaApprove actor rid who why)
    then show ?thesis
      unfolding breakglass_handle.simps BaApprove breakglass_approve_def Let_def
      by (intro dbk.bind api_kept_row calls approved)
  next
    case (BaRevoke actor rid who why)
    then show ?thesis
      unfolding breakglass_handle.simps BaRevoke breakglass_revoke_def
      by (intro dbk.bind api_kept_row calls) (simp add: dbk.pure split: break_glass_outcome.split)
  next
    case BaSweep
    then show ?thesis
      unfolding breakglass_handle.simps BaSweep breakglass_sweep_def by (intro dbk_steps service calls)
  next
    case (BaGet rid)
    then show ?thesis
      unfolding breakglass_handle.simps BaGet breakglass_get_def by (intro dbk.bind api_kept_row dbk.pure)
  next
    case (BaList tenant f)
    then show ?thesis
      unfolding breakglass_handle.simps BaList breakglass_list_def by (intro dbk.seq service dbk.pure)
  qed
qed

lemma breakglass_run_kept:
  fixes w :: "'s service_state_scheme"
  assumes "\<And>env c. keeps (db_kept I) (breakglass_handle env c :: ('s, json) bg_api)" "I (sv_db w)"
  shows "I (sv_db (breakglass_run env cs w))"
  using assms(2) unfolding breakglass_run_def
  by (induction cs arbitrary: w) (simp_all add: dbkD [OF assms(1)])

lemma breakglass_run_inv: "bg_service_inv (sv_db w) \<Longrightarrow> bg_service_inv (sv_db (breakglass_run env cs w))"
  by (rule breakglass_run_kept [OF api_kept]) (rule bg_kept_calls)+


subsection \<open>Signing twice\<close>

lemma bg_emit_requests: "\<exists>w'. bg_emit env tid k tenant pl who w = (Inr (), w') \<and>
    break_glass_requests (sv_db w') = break_glass_requests (sv_db w)"
proof (cases "append_event \<lparr>ev_id = se_uuid env (sv_ids w), ev_seq = 0, ev_task_run_id = Some tid, ev_node_run_id = None,
    ev_kind = k, ev_occurred_at = se_clock env (sv_reads w), ev_actor = who,
    ev_payload = dset ''tenant_id'' (JStr tenant) pl, ev_prev_event_id = None, ev_tenant_id = None\<rparr> (sv_db w)")
  case (Inl e)
  then show ?thesis
    by (simp add: bg_emit_def ok_def bindE_def sv_uuid_def sv_now_def best_effort_def sv_try_def)
next
  case (Inr d)
  then show ?thesis using break_glass_requests_append_event [OF Inr]
    by (simp add: bg_emit_def ok_def bindE_def sv_uuid_def sv_now_def best_effort_def sv_try_def)
qed

lemma bg_approve_run:
  "\<exists>w' t. bg_approve env rid who tenant why w = (Inr (fst (record_break_glass_approval t rid who tenant (sv_db w))), w') \<and>
     break_glass_requests (sv_db w') = break_glass_requests (snd (record_break_glass_approval t rid who tenant (sv_db w)))"
proof -
  let ?t = "se_clock env (sv_reads w)"
  obtain out d where rel: "record_break_glass_approval ?t rid who tenant (sv_db w) = (out, d)" by force
  let ?v = "w\<lparr>sv_reads := Suc (sv_reads w), sv_db := d\<rparr>" and ?a = "anchor_of d rid"
  obtain w1 where w1: "bg_emit env ?a BREAK_GLASS_FIRST_APPROVED tenant [(''request_id'', JStr rid), (''approver'', JStr who),
      (''rationale'', JStr why), (''required_next'', JStr ''second_approver'')] who ?v = (Inr (), w1)"
    "break_glass_requests (sv_db w1) = break_glass_requests d"
    using bg_emit_requests [where w = ?v] by fastforce
  obtain w2 where w2: "\<And>e. out = BgActive e \<Longrightarrow> bg_emit env ?a BREAK_GLASS_ACTIVE tenant [(''request_id'', JStr rid),
      (''second_approver'', JStr who), (''rationale'', JStr why), (''expires_at'', JStr (se_time_text env e))] who ?v = (Inr (), w2)"
    "break_glass_requests (sv_db w2) = break_glass_requests d"
  proof (cases out)
    case (BgActive e)
    then show ?thesis using bg_emit_requests [of env ?a BREAK_GLASS_ACTIVE tenant _ who ?v] that by fastforce
  qed (use that [of w1] w1(2) in auto)
  show ?thesis
    using rel w1 w2
    by (intro exI [of _ "case out of BgFirstApproved \<Rightarrow> w1 | BgActive e \<Rightarrow> w2 | _ \<Rightarrow> ?v"] exI [of _ ?t])
      (auto simp: bg_approve_def bindE_def seqE_def sv_now_def sv_call_def gets_def ok_def split: break_glass_outcome.split)
qed

lemma bg_actor_named: "bg_actor a b \<noteq> []"
  by (simp add: bg_actor_def Let_def)

lemma get_update_break_glass:
  assumes "get_break_glass d rid = Some r" "\<And>r. bg_request_id (f r) = bg_request_id r"
  shows "get_break_glass (update_break_glass rid f d) rid = Some (f r)"
  using assms by (simp add: get_break_glass_def update_break_glass_def find_update_where)

definition signed_once :: "string \<Rightarrow> break_glass_row \<Rightarrow> break_glass_row \<Rightarrow> bool" where
  "signed_once who r r' \<longleftrightarrow> bg_requested_by r' = bg_requested_by r \<and> bg_tenant_id r' = bg_tenant_id r \<and>
     (if bg_state r = BG_REQUESTED then bg_state r' = BG_FIRST_APPROVED \<and> bg_first_approver r' = Some who
      else bg_state r' = BG_ACTIVE \<and> bg_first_approver r' = bg_first_approver r \<and> bg_second_approver r' = Some who)"

lemma signing_answer_core:
  assumes "be_wired env" "map_prod (respond tx i) id (breakglass_approve env actor rid body why w) = ((status, answer), w')"
  shows "let who = bg_actor actor body in case get_break_glass (sv_db w) rid of
      None \<Rightarrow> status = 404 \<and> w' = w
    | Some r \<Rightarrow>
        if bg_state r \<in> {BG_REQUESTED, BG_FIRST_APPROVED} \<and> bg_requested_by r \<noteq> who \<and> bg_first_approver r \<noteq> Some who
        then status = 200 \<and> (\<exists>r'. get_break_glass (sv_db w') rid = Some r' \<and> signed_once who r r')
        else status = 409 \<and> break_glass_requests (sv_db w') = break_glass_requests (sv_db w)"
proof (cases "get_break_glass (sv_db w) rid")
  case None
  with assms show ?thesis
    by (simp add: breakglass_approve_def breakglass_row_def need_service_def seqE_def bindE_def ok_def gets_def raise_def)
next
  case (Some r)
  let ?who = "bg_actor actor body"
  obtain v t where run: "bg_approve (bg_env env) rid ?who (bg_tenant_id r) why w =
        (Inr (fst (record_break_glass_approval t rid ?who (bg_tenant_id r) (sv_db w))), v)"
    and rows: "break_glass_requests (sv_db v) = break_glass_requests (snd (record_break_glass_approval t rid ?who (bg_tenant_id r) (sv_db w)))"
    using bg_approve_run by blast
  let ?out = "fst (record_break_glass_approval t rid ?who (bg_tenant_id r) (sv_db w))"
  have status: "status = (case ?out of BgNotApplied _ \<Rightarrow> 409 | _ \<Rightarrow> 200)" and w': "w' = v"
    using assms Some run
    by (auto simp: breakglass_approve_def breakglass_row_def need_service_def seqE_def bindE_def ok_def gets_def raise_def
        map_exn_def Let_def split: break_glass_outcome.splits)
  have got: "get_break_glass (sv_db v) rid = get_break_glass (snd (record_break_glass_approval t rid ?who (bg_tenant_id r) (sv_db w))) rid"
    using rows by (simp add: get_break_glass_def)
  show ?thesis
    using Some status rows got bg_actor_named [of actor body] unfolding w'
    by (auto simp: record_break_glass_approval_def get_update_break_glass signed_once_def Let_def)
qed

text \<open>
  C27. What signing a request answers: 404 if there is none, 200 if it waits for a signature
  and the actor's name is neither the applicant's nor the first signer's, else 409. The table
  changes only with 200, and then by that signature: the second one activates the request. No
  tenant is ever refused, since the identity the service checks is copied from the request.
\<close>

theorem signing_answer:
  assumes "be_wired env" "map_prod (respond tx i) id (breakglass_approve env actor rid body why w) = ((status, answer), w')"
  shows "let who = bg_actor actor body in case get_break_glass (sv_db w) rid of
      None \<Rightarrow> status = 404 \<and> w' = w
    | Some r \<Rightarrow>
        if bg_state r \<in> {BG_REQUESTED, BG_FIRST_APPROVED} \<and> bg_requested_by r \<noteq> who \<and> bg_first_approver r \<noteq> Some who
        then status = 200 \<and> (\<exists>r'. get_break_glass (sv_db w') rid = Some r' \<and> signed_once who r r')
        else status = 409 \<and> break_glass_requests (sv_db w') = break_glass_requests (sv_db w)"
  using assms by (rule signing_answer_core)

text \<open>
  So one client signs for two persons: for a fresh request of any tenant, two requests that
  name any two distinct actors other than the applicant in the unverified header activate it.
\<close>

lemma one_client_signs_twice:
  assumes "be_wired env" "get_break_glass (sv_db w) rid = Some r" "bg_state r = BG_REQUESTED" "bg_first_approver r = None"
    and "a \<noteq> []" "b \<noteq> []" "a \<noteq> b" "a \<noteq> bg_requested_by r" "b \<noteq> bg_requested_by r"
  shows "\<exists>r'. get_break_glass (sv_db (breakglass_run env [BaApprove (Some a) rid None [], BaApprove (Some b) rid None []] w)) rid = Some r' \<and>
    bg_state r' = BG_ACTIVE"
proof -
  have named: "bg_actor (Some x) None = x" if "x \<noteq> []" for x using that by (simp add: bg_actor_def)
  obtain o1 w1 where one: "breakglass_approve env (Some a) rid None [] w = (o1, w1)" by force
  obtain s1 j1 where "map_prod (respond ex_textlib []) id (breakglass_approve env (Some a) rid None [] w) = ((s1, j1), w1)"
    unfolding one by (metis map_prod_simp id_apply prod.exhaust)
  from signing_answer_core [OF assms(1) this] assms named obtain r1 where r1: "get_break_glass (sv_db w1) rid = Some r1" "signed_once a r r1"
    by auto
  obtain o2 w2 where two: "breakglass_approve env (Some b) rid None [] w1 = (o2, w2)" by force
  obtain s2 j2 where "map_prod (respond ex_textlib []) id (breakglass_approve env (Some b) rid None [] w1) = ((s2, j2), w2)"
    unfolding two by (metis map_prod_simp id_apply prod.exhaust)
  from signing_answer_core [OF assms(1) this] assms named r1 obtain r2 where "get_break_glass (sv_db w2) rid = Some r2" "signed_once b r1 r2"
    by (auto simp: signed_once_def)
  with r1(2) assms(3) show ?thesis by (auto simp: breakglass_run_def one two signed_once_def)
qed

subsection \<open>Witnesses\<close>

definition ex_bg_api_env :: breakglass_env where
  "ex_bg_api_env = \<lparr>se_uuid = (\<lambda>n. replicate n CHR ''a''), se_clock = int, se_hash = (\<lambda>_. 0), se_time_text = (\<lambda>_. []),
     be_wired = True, be_pf = ex_platform, be_error_text = (\<lambda>_. []), be_row_iso = (\<lambda>_. [])\<rparr>"

definition ex_bg_requests :: "breakglass_call list" where
  "ex_bg_requests = [BaRequest (Some ''ann'') \<lparr>bb_tenant_id = Some (JStr ''T''), bb_purpose = Some (JStr ''incident''),
       bb_effect = None, bb_resource_scope = None, bb_requested_by = None, bb_ticket = None,
       bb_window_seconds = Some 99999, bb_task_run_id = Some ''t''\<rparr>,
     BaApprove (Some ''bob'') ''bg:'' None [], BaApprove None ''bg:'' (Some ''cat'') []]"

definition ex_bg_start :: service_state where
  "ex_bg_start = \<lparr>sv_db = empty_db, sv_ids = 0, sv_reads = 0\<rparr>"

lemma ex_bg_run: "bg_example_row \<in> set (break_glass_requests (sv_db (breakglass_run ex_bg_api_env ex_bg_requests ex_bg_start)))"
  by (simp add: bg_example_simps breakglass_run_def ex_bg_requests_def ex_bg_start_def ex_bg_api_env_def Let_def
      breakglass_request_def breakglass_approve_def breakglass_row_def need_service_def need_text_def need_dict_def
      py_or_def bg_actor_def map_exn_def service_env.defs)


definition ex_bg_waiting :: service_state where
  "ex_bg_waiting = ex_bg_start\<lparr>sv_db := empty_db\<lparr>break_glass_requests :=
     [bg_example_row\<lparr>bg_state := BG_REQUESTED, bg_first_approver := None\<rparr>]\<rparr>\<rparr>"

theorem signing_answer_witness:
  "fst (fst (map_prod (respond ex_textlib []) id (breakglass_approve ex_bg_api_env (Some ''ann'') ''bg:'' None [] ex_bg_waiting))) = 409"
proof -
  obtain status answer w' where run: "map_prod (respond ex_textlib []) id
      (breakglass_approve ex_bg_api_env (Some ''ann'') ''bg:'' None [] ex_bg_waiting) = ((status, answer), w')"
    by (metis prod.exhaust)
  from signing_answer [OF _ run] run show ?thesis
    by (simp add: ex_bg_api_env_def ex_bg_waiting_def get_break_glass_def bg_example_row_def bg_actor_def)
qed

end
