(* ===== verification/CatalogApi.thy ===== *)
theory CatalogApi
  imports BreakGlassApi Tenants Publishing Observability
begin

section \<open>The endpoints for tenants, cards and health\<close>

text \<open>
  What is left of \<open>orchestra/api/app.py\<close>: creating and listing tenants as the built-in administrator,
  publishing, listing and revoking agent cards, the health check with the gauges it sets, and the
  list of browser origins of \<open>orchestra/api/openapi.py\<close>.
\<close>

subsection \<open>Tenants\<close>

text \<open>\<open>try: m finally: n\<close>\<close>

definition finallyE :: "('w, 'e, 'a) action \<Rightarrow> ('w, 'e, unit) action \<Rightarrow> ('w, 'e, 'a) action" where
  "finallyE m n = (\<lambda>w. let (r, w1) = m w; (e, w2) = n w1 in
     (case e of Inl x \<Rightarrow> (Inl x, w2) | Inr _ \<Rightarrow> (r, w2)))"

definition tenant_error_type :: "tenant_exn \<Rightarrow> string" where
  "tenant_error_type e = (case e of NoActiveTenant \<Rightarrow> ''NoActiveTenant'' | RoleDenied _ _ \<Rightarrow> ''PermissionError''
     | TaskRunNotFound _ _ \<Rightarrow> ''LookupError'' | NoTenantsTable \<Rightarrow> ''UndefinedTable''
     | TenantDb (UniqueViolation _) \<Rightarrow> ''UniqueViolation'' | TenantDb (ForeignKeyViolation _) \<Rightarrow> ''ForeignKeyViolation'')"

text \<open>The context both routes set: whoever calls is the administrator of the demo tenant.\<close>

definition as_admin :: "string \<Rightarrow> 'a tenant_prog \<Rightarrow> (tenant_state, 'a) api" where
  "as_admin caller m = map_exn (\<lambda>e. Unhandled (tenant_error_type e))
     (bindE (set_active \<lparr>tc_tenant_id = ''tenant:demo'', tc_caller_id = caller, tc_role = TR_ADMIN\<rparr>) (\<lambda>token.
       finallyE (seqE connect_store m) (reset_active token)))"

record tenant_body =
  tb_tenant_id :: "json option"
  tb_caller_id :: "string option"
  tb_name :: "string option"
  tb_plan :: "string option"

definition or_text :: "string option \<Rightarrow> string \<Rightarrow> string" where
  "or_text x d = (case x of None \<Rightarrow> d | Some s \<Rightarrow> s)"

definition admin_create_tenant :: "tenant_body \<Rightarrow> (tenant_state, json) api" where
  "admin_create_tenant b =
     bindE (lift (need_text ''tenant_id'' (tb_tenant_id b))) (\<lambda>tid.
     seqE (as_admin (or_text (tb_caller_id b) ''cli'')
         (create_tenant tid (or_text (tb_name b) tid) (or_text (tb_plan b) ''default'')))
       (ok (JObj [(''tenant_id'', JStr tid), (''status'', JStr ''created'')])))"

definition tenant_json :: "tenant_row \<Rightarrow> json" where
  "tenant_json r = JObj [(''tenant_id'', JStr (te_tenant_id r)), (''name'', JStr (te_name r)),
     (''plan'', JStr (te_plan r)), (''status'', JStr (te_status r))]"

definition admin_list_tenants :: "(tenant_state, json) api" where
  "admin_list_tenants = bindE (as_admin ''cli'' list_tenants) (\<lambda>rows.
     ok (JObj [(''tenants'', JList (map tenant_json rows))]))"

subsection \<open>Cards\<close>

text \<open>
  The registry is rebuilt on every call with the cards of the one before. Parsing a card is the
  framework's: a function from the body to its errors or a card. The key is drawn once.
\<close>

record catalog =
  ct_key :: "string option"
  ct_registry :: "published_registry option"

definition publish_error_type :: "publish_error \<Rightarrow> string" where
  "publish_error_type e = (case e of PublishError _ \<Rightarrow> ''PublishError'' | _ \<Rightarrow> ''KeyError'')"

definition carried_over :: "string \<Rightarrow> published_registry option \<Rightarrow> published_registry" where
  "carried_over key old = (let r = new_registry (Some key) (Some ''key-cli-1'') in case old of None \<Rightarrow> r
     | Some o' \<Rightarrow> r\<lparr>pr_by_version := pr_by_version o', pr_latest := pr_latest o', pr_by_partner := pr_by_partner o'\<rparr>)"

definition admin_publish :: "platform \<Rightarrow> ((string, json) dict \<Rightarrow> json + agent_card) \<Rightarrow> string \<Rightarrow> (string, json) dict \<Rightarrow>
    (catalog, agent_card) api" where
  "admin_publish pf parse_card fresh_key body = (\<lambda>s.
     let key = (case ct_key s of None \<Rightarrow> fresh_key | Some k \<Rightarrow> k); s1 = s\<lparr>ct_key := Some key\<rparr> in
     case parse_card (dset ''status'' (JStr ''draft'') body) of
       Inl errors \<Rightarrow> (Inl (HttpError 422 errors), s1)
     | Inr c \<Rightarrow>
       (case publish_card pf c (Some key) (Some ''key-cli-1'') (carried_over key (ct_registry s)) of
          Inl e \<Rightarrow> (Inl (Unhandled (publish_error_type e)), s1)
        | Inr (signed, r) \<Rightarrow> (Inr signed, s1\<lparr>ct_registry := Some r\<rparr>)))"

definition admin_list_published :: "(catalog, json) api" where
  "admin_list_published = gets (\<lambda>s. JObj [(''cards'', JList (case ct_registry s of None \<Rightarrow> []
     | Some r \<Rightarrow> map (\<lambda>((cid, ver), e). JObj [(''capability_id'', JStr cid), (''version'', JStr ver),
         (''status'', JStr (card_status_value (cd_status (pe_card e)))), (''partner_id'', JStr (cd_partner_id (pe_card e)))])
         (pr_by_version r)))])"

definition admin_revoke :: "string \<Rightarrow> string \<Rightarrow> string \<Rightarrow> string option \<Rightarrow> (catalog, json) api" where
  "admin_revoke now_text cap version reason = (\<lambda>s. case ct_registry s of
     None \<Rightarrow> (Inl (HttpError 404 (JStr ''no published cards'')), s)
   | Some r \<Rightarrow> (case revoke_card now_text cap version (or_text reason []) r of
        Inl e \<Rightarrow> (Inl (Unhandled (publish_error_type e)), s)
      | Inr (_, r') \<Rightarrow> (Inr (JObj [(''capability_id'', JStr cap), (''version'', JStr version),
          (''status'', JStr ''revoked'')]), s\<lparr>ct_registry := Some r'\<rparr>)))"

subsection \<open>Health\<close>

text \<open>
  What the probes of the health check find: the capabilities and the tenants, or the text of the
  exception; the cards of the registry, if there is one; and the database, if it can be reached.
\<close>

record health_probe =
  hp_capabilities :: "string + nat"
  hp_tenants :: "string + nat"
  hp_published :: "nat option"
  hp_db :: "db option"

definition probe_json :: "string + nat \<Rightarrow> bool \<Rightarrow> json" where
  "probe_json r empty_fails = (case r of
     Inl e \<Rightarrow> JObj [(''status'', JStr ''fail''), (''error'', JStr e)]
   | Inr n \<Rightarrow> JObj [(''status'', JStr (if empty_fails \<and> n = 0 then ''fail'' else ''ok'')), (''count'', JInt (int n))])"

definition healthy :: "health_probe \<Rightarrow> bool" where
  "healthy p \<longleftrightarrow> (case hp_capabilities p of Inl _ \<Rightarrow> False | Inr n \<Rightarrow> n \<noteq> 0) \<and> (case hp_tenants p of Inl _ \<Rightarrow> False | Inr _ \<Rightarrow> True)"

definition probe_count :: "string + nat \<Rightarrow> nat" where
  "probe_count r = (case r of Inl _ \<Rightarrow> 0 | Inr n \<Rightarrow> n)"

text \<open>
  The backlog: the jobs are asked for without their tenant, which raises and counts as none; the
  grants are those of the tenant with the empty name.
\<close>

definition backlog :: "db \<Rightarrow> int \<times> int \<times> int" where
  "backlog d = (int (length (list_pending_approvals d)), 0,
     int (length (list_break_glass_for_tenant d [] (Some BG_ACTIVE))))"

definition set_gauge :: "string \<Rightarrow> string \<Rightarrow> int \<Rightarrow> metrics \<Rightarrow> metrics" where
  "set_gauge name help v m = (let m' = add_gauge name help [] m in
     m'\<lparr>mt_gauges := (case dget (mt_gauges m') name of None \<Rightarrow> mt_gauges m'
       | Some g \<Rightarrow> dset name (gauge_set (of_int v) [] g) (mt_gauges m'))\<rparr>)"

definition health_gauges :: "health_probe \<Rightarrow> metrics \<Rightarrow> metrics" where
  "health_gauges p m =
     (let m1 = set_gauge ''orchestra_tenants_total'' ''Total tenants in the multi-tenant store.'' (int (probe_count (hp_tenants p))) m;
          m2 = set_gauge ''orchestra_capabilities_total'' ''Total registered capabilities.'' (int (probe_count (hp_capabilities p))) m1
      in case hp_db p of None \<Rightarrow> m2
         | Some d \<Rightarrow> (let (approvals, jobs, grants) = backlog d in
             set_gauge ''orchestra_m24_active_break_glass'' ''Active (within window) break-glass grants across all tenants.'' grants
               (set_gauge ''orchestra_m24_deletion_backlog'' ''Deletion jobs in pending or running state.'' jobs
               (set_gauge ''orchestra_m24_pending_approvals'' ''Persistent approvals still waiting on a human.'' approvals m2))))"

definition backlog_json :: "db \<Rightarrow> json" where
  "backlog_json d = (let (approvals, jobs, grants) = backlog d in JObj
     [(''status'', JStr ''ok''), (''pending_approvals'', JInt approvals),
      (''deletion_jobs_in_flight'', JInt jobs), (''active_break_glass_grants'', JInt grants)])"

definition healthz :: "health_probe \<Rightarrow> (metrics, json) api" where
  "healthz p = (\<lambda>m. let published = (case hp_published p of None \<Rightarrow> 0 | Some n \<Rightarrow> n) in
     (Inr (JObj [(''status'', JStr (if healthy p then ''ok'' else ''degraded'')), (''version'', JStr ''0.1.0-m24''),
        (''milestone'', JStr ''M24''),
        (''checks'', JObj ([(''capabilities'', probe_json (hp_capabilities p) True),
            (''tenants'', probe_json (hp_tenants p) False), (''published_cards'', probe_json (Inr published) False)] @
          (case hp_db p of None \<Rightarrow> [] | Some d \<Rightarrow> [(''m24_backlog'', backlog_json d)]))),
        (''tenant_count'', JInt (int (probe_count (hp_tenants p)))),
        (''capability_count'', JInt (int (probe_count (hp_capabilities p)))),
        (''published_card_count'', JInt (int published))]), health_gauges p m))"

text \<open>The tenants the check finds: it lists them as the tenant routes do.\<close>

definition tenant_probe :: "(tenant_exn \<Rightarrow> string) \<Rightarrow> tenant_state \<Rightarrow> string + nat" where
  "tenant_probe error_text s = (case list_tenants (snd (connect_store s)) of
     (Inl e, _) \<Rightarrow> Inl (error_text e) | (Inr rows, _) \<Rightarrow> Inr (length rows))"

definition metrics_endpoint :: "(rat \<Rightarrow> string) \<Rightarrow> (metrics, string) api" where
  "metrics_endpoint g = gets (render_prometheus g)"

text \<open>\<open>cors_origins_from_env\<close>: the variable's value, split at the commas.\<close>

function split_commas :: "string \<Rightarrow> string list" where
  "split_commas s = (let a = takeWhile (\<lambda>c. c \<noteq> CHR '','') s; b = dropWhile (\<lambda>c. c \<noteq> CHR '','') s
     in if b = [] then [a] else a # split_commas (drop 1 b))"
  by auto
termination
proof (relation "measure length", simp)
  fix s :: string and a b
  assume b: "b = dropWhile (\<lambda>c. c \<noteq> CHR '','') s" "b \<noteq> []"
  have "length b \<le> length s" unfolding b(1) by (rule length_dropWhile_le)
  with b(2) show "(drop 1 b, s) \<in> measure length" by (cases b) auto
qed

declare split_commas.simps [simp del]

definition cors_origins :: "string \<Rightarrow> string list" where
  "cors_origins value = (let raw = py_strip value in
     if raw = [] then [] else if raw = ''*'' then [''*'']
     else map py_strip (filter (\<lambda>o'. py_strip o' \<noteq> []) (split_commas raw)))"

text \<open>The origins, whether credentials are allowed, if the middleware is installed at all.\<close>

definition apply_cors :: "string list \<Rightarrow> (string list \<times> bool) option" where
  "apply_cors origins = (if origins = [] then None else Some (origins, ''*'' \<notin> set origins))"

subsection \<open>The card endpoints are the registry\<close>

datatype catalog_op =
    CoPublish string "(string, json) dict"            \<comment> \<open>the key drawn if there is none, the body\<close>
  | CoRevoke string string string "string option"

fun catalog_step :: "platform \<Rightarrow> ((string, json) dict \<Rightarrow> json + agent_card) \<Rightarrow> catalog_op \<Rightarrow> catalog \<Rightarrow> catalog" where
  "catalog_step pf p (CoPublish fresh body) s = snd (admin_publish pf p fresh body s)"
| "catalog_step pf p (CoRevoke t cap v why) s = snd (admin_revoke t cap v why s)"

definition catalog_run :: "platform \<Rightarrow> ((string, json) dict \<Rightarrow> json + agent_card) \<Rightarrow> catalog_op list \<Rightarrow> catalog \<Rightarrow> catalog" where
  "catalog_run pf p ops s = foldl (\<lambda>s op. catalog_step pf p op s) s ops"

text \<open>The key all cards are signed with, the registry a state stands for, and what a request asks of it.\<close>

fun first_key :: "catalog_op list \<Rightarrow> string" where
  "first_key [] = []"
| "first_key (CoPublish fresh _ # _) = fresh"
| "first_key (CoRevoke _ _ _ _ # ops) = first_key ops"

definition registry_of :: "string \<Rightarrow> catalog \<Rightarrow> published_registry" where
  "registry_of key s = (case ct_registry s of None \<Rightarrow> new_registry (Some key) (Some ''key-cli-1'') | Some r \<Rightarrow> r)"

fun asked :: "((string, json) dict \<Rightarrow> json + agent_card) \<Rightarrow> string \<Rightarrow> catalog_op \<Rightarrow> registry_op option" where
  "asked p key (CoPublish _ body) = (case p (dset ''status'' (JStr ''draft'') body) of
     Inl _ \<Rightarrow> None | Inr c \<Rightarrow> Some (ROPublish c (Some key) (Some ''key-cli-1'')))"
| "asked p key (CoRevoke t cap v why) = Some (RORevoke t cap v (or_text why []))"

definition coherent :: "string \<Rightarrow> catalog \<Rightarrow> bool" where
  "coherent key s \<longleftrightarrow> (case ct_registry s of None \<Rightarrow> True
     | Some r \<Rightarrow> ct_key s = Some key \<and> pr_default_key r = Some key \<and> pr_default_kid r = Some ''key-cli-1'')"

lemma defaults_kept:
  "publish_card pf c k i r = Inr (x, r') \<Longrightarrow> pr_default_key r' = pr_default_key r \<and> pr_default_kid r' = pr_default_kid r"
  "revoke_card t cap v why r = Inr (x, r') \<Longrightarrow> pr_default_key r' = pr_default_key r \<and> pr_default_kid r' = pr_default_kid r"
  by (auto simp: publish_card_def revoke_card_def Let_def split: if_splits option.splits)

lemma carried_over_coherent: "coherent key s \<Longrightarrow> carried_over key (ct_registry s) = registry_of key s"
  by (cases "ct_registry s") (simp_all add: coherent_def carried_over_def registry_of_def new_registry_def)

lemma publish_refines:
  assumes "coherent key s" "ct_key s = Some key \<or> ct_key s = None \<and> fresh = key"
  shows "coherent key (catalog_step pf p (CoPublish fresh body) s)" (is ?coherent)
    and "ct_key (catalog_step pf p (CoPublish fresh body) s) = Some key" (is ?key)
    and "registry_of key (catalog_step pf p (CoPublish fresh body) s) =
      (case asked p key (CoPublish fresh body) of None \<Rightarrow> registry_of key s | Some op \<Rightarrow> registry_step pf op (registry_of key s))" (is ?step)
proof -
  have key: "(case ct_key s of None \<Rightarrow> fresh | Some k \<Rightarrow> k) = key" using assms(2) by (auto split: option.split)
  have dk: "pr_default_key (registry_of key s) = Some key \<and> pr_default_kid (registry_of key s) = Some ''key-cli-1''"
    using assms(1) by (auto simp: coherent_def registry_of_def new_registry_def split: option.splits)
  have "?coherent \<and> ?key \<and> ?step"
  proof (cases "p (dset ''status'' (JStr ''draft'') body)")
    case (Inl e)
    then show ?thesis using assms(1) key
      by (auto simp: admin_publish_def Let_def coherent_def registry_of_def split: option.splits)
  next
    case (Inr c)
    show ?thesis
    proof (cases "publish_card pf c (Some key) (Some ''key-cli-1'') (registry_of key s)")
      case (Inl e)
      with Inr show ?thesis using assms(1) key
        by (auto simp: admin_publish_def Let_def coherent_def registry_of_def result_state_def
            carried_over_coherent [OF assms(1)] split: option.splits)
    next
      case (Inr x)
      then obtain signed r where "publish_card pf c (Some key) (Some ''key-cli-1'') (registry_of key s) = Inr (signed, r)"
        by (cases x) auto
      with \<open>p _ = Inr c\<close> key dk defaults_kept(1) [OF this] show ?thesis
        by (simp add: admin_publish_def Let_def coherent_def result_state_def carried_over_coherent [OF assms(1)])
          (simp add: registry_of_def)
    qed
  qed
  then show ?coherent ?key ?step by blast+
qed

lemma revoke_refines:
  assumes "coherent key s"
  shows "coherent key (catalog_step pf p (CoRevoke t cap v why) s)"
    and "ct_key (catalog_step pf p (CoRevoke t cap v why) s) = ct_key s"
    and "registry_of key (catalog_step pf p (CoRevoke t cap v why) s) =
      registry_step pf (RORevoke t cap v (or_text why [])) (registry_of key s)"
proof -
  have "coherent key (catalog_step pf p (CoRevoke t cap v why) s) \<and>
      ct_key (catalog_step pf p (CoRevoke t cap v why) s) = ct_key s \<and>
      registry_of key (catalog_step pf p (CoRevoke t cap v why) s) =
      registry_step pf (RORevoke t cap v (or_text why [])) (registry_of key s)"
  proof (cases "ct_registry s")
    case None
    then show ?thesis
      by (simp add: admin_revoke_def coherent_def registry_of_def result_state_def revoke_card_def new_registry_def)
  next
    case (Some r)
    show ?thesis
    proof (cases "revoke_card t cap v (or_text why []) r")
      case (Inl e)
      with Some assms show ?thesis by (simp add: admin_revoke_def registry_of_def result_state_def)
    next
      case (Inr x)
      obtain c r' where "x = (c, r')" by force
      with Inr Some assms defaults_kept(2) [of t cap v "or_text why []" r c r'] show ?thesis
        by (simp add: admin_revoke_def coherent_def registry_of_def result_state_def)
    qed
  qed
  then show "coherent key (catalog_step pf p (CoRevoke t cap v why) s)"
    "ct_key (catalog_step pf p (CoRevoke t cap v why) s) = ct_key s"
    "registry_of key (catalog_step pf p (CoRevoke t cap v why) s) =
      registry_step pf (RORevoke t cap v (or_text why [])) (registry_of key s)" by blast+
qed

lemma catalog_refines:
  assumes "coherent key s" "ct_key s = Some key \<or> ct_key s = None \<and> key = first_key ops"
  shows "registry_of key (catalog_run pf p ops s) = registry_run pf (List.map_filter (asked p key) ops) (registry_of key s)"
  using assms
proof (induction ops arbitrary: s)
  case Nil
  then show ?case by (simp add: catalog_run_def registry_run_def List.map_filter_simps)
next
  case (Cons op ops)
  let ?s = "catalog_step pf p op s"
  have run: "catalog_run pf p (op # ops) s = catalog_run pf p ops ?s" by (simp add: catalog_run_def)
  show ?case
  proof (cases op)
    case (CoPublish fresh body)
    have here: "ct_key s = Some key \<or> ct_key s = None \<and> fresh = key" using Cons.prems(2) CoPublish by auto
    note step = publish_refines [OF Cons.prems(1) here, of pf p body]
    from Cons.IH [of ?s] step CoPublish show ?thesis
      unfolding run
      by (cases "asked p key (CoPublish fresh body)") (simp_all add: List.map_filter_simps registry_run_def)
  next
    case (CoRevoke t cap v why)
    note step = revoke_refines [OF Cons.prems(1), of pf p t cap v why]
    have "ct_key ?s = Some key \<or> ct_key ?s = None \<and> key = first_key ops" using Cons.prems(2) CoRevoke step(2) by auto
    with Cons.IH [of ?s] step CoRevoke show ?thesis
      unfolding run by (simp add: List.map_filter_simps registry_run_def)
  qed
qed

text \<open>A withdrawn version cannot come back: a publication of a version on file raises and changes nothing.\<close>

lemma republication_raises:
  assumes "p (dset ''status'' (JStr ''draft'') body) = Inr c" "ct_registry s = Some r" "card_key c \<in> set (keys (pr_by_version r))"
  shows "fst (admin_publish pf p fresh body s) = Inl (Unhandled ''PublishError'')"
    and "ct_registry (snd (admin_publish pf p fresh body s)) = Some r"
proof -
  let ?key = "case ct_key s of None \<Rightarrow> fresh | Some k \<Rightarrow> k"
  have "\<exists>m. publish_card pf c (Some ?key) (Some ''key-cli-1'') (carried_over ?key (Some r)) = Inl (PublishError m)"
    using assms(3) by (auto simp: publish_card_def carried_over_def Let_def)
  then obtain m where "publish_card pf c (Some ?key) (Some ''key-cli-1'') (carried_over ?key (Some r)) = Inl (PublishError m)" by blast
  with assms(1,2) show "fst (admin_publish pf p fresh body s) = Inl (Unhandled ''PublishError'')"
    "ct_registry (snd (admin_publish pf p fresh body s)) = Some r"
    by (simp_all add: admin_publish_def Let_def publish_error_type_def)
qed

text \<open>
  C31. Rebuilding the registry on every call loses nothing: after any sequence of publications and
  revocations through the endpoints the registry is the one a single registry has after the same
  operations, with the first key that was drawn, a body that does not parse asking nothing.
\<close>

theorem card_endpoints_refine_registry:
  "registry_of (first_key ops) (catalog_run pf p ops \<lparr>ct_key = None, ct_registry = None\<rparr>) =
     registry_run pf (List.map_filter (asked p (first_key ops)) ops) (new_registry (Some (first_key ops)) (Some ''key-cli-1''))"
  using catalog_refines [of "first_key ops" "\<lparr>ct_key = None, ct_registry = None\<rparr>" ops pf p]
  by (simp add: coherent_def registry_of_def)

subsection \<open>What the health check cannot see\<close>

definition tenants_named :: "db \<Rightarrow> bool" where
  "tenants_named d \<longleftrightarrow> (\<forall>r \<in> set (break_glass_requests d). bg_tenant_id r \<noteq> [])"

lemma tenants_named_cong: "break_glass_requests d' = break_glass_requests d \<Longrightarrow> tenants_named d' = tenants_named d"
  by (simp add: tenants_named_def)

lemma tenants_named_update:
  "(\<And>r. bg_tenant_id (f r) = bg_tenant_id r) \<Longrightarrow> tenants_named d \<Longrightarrow>
   tenants_named (d\<lparr>break_glass_requests := update_where P f (break_glass_requests d)\<rparr>)"
  by (auto simp: tenants_named_def update_where_def)

lemma named_emit: "keeps (db_kept tenants_named) (bg_emit env tid kind tenant pl actor)"
proof (cases "tid = []")
  case False
  have "keeps (db_kept tenants_named) (sv_try BgDb (append_event ev))" for ev
    by (rule dbk_try) (metis tenants_named_cong break_glass_requests_append_event)
  then show ?thesis unfolding bg_emit_def using False by (simp only: if_False) (intro dbk_steps)
qed (simp add: bg_emit_def dbk.pure)

lemma named_request: "keeps (db_kept tenants_named) (bg_request env a)"
proof (cases "check_request a")
  case (Inl e)
  then show ?thesis by (simp add: bg_request_def seqE_def bindE_def lift_def keeps_def db_kept_def)
next
  case (Inr u)
  then have named: "ba_tenant_id a \<noteq> []" by (auto simp: check_request_def split: if_splits)
  have anchor: "keeps (db_kept tenants_named) (case ba_task_run_id a of
      None \<Rightarrow> anchor_tenant_scoped_request env (ba_tenant_id a) (ba_purpose a)
    | Some tid \<Rightarrow> if tid = [] then anchor_tenant_scoped_request env (ba_tenant_id a) (ba_purpose a) else ok tid)"
    by (auto simp: anchor_tenant_scoped_request_def upsert_task_run_def tenants_named_def split: option.split
        intro!: dbk_steps dbk_modify)
  have create: "keeps (db_kept tenants_named) (sv_try BgDb (create_break_glass_request now (bg_request_row a i t tid)))" for now i t tid
    using named by (intro dbk_try) (auto simp: create_break_glass_request_def insert_row_def tenants_named_def bg_request_row_def
        split: if_splits)
  show ?thesis unfolding bg_request_def Let_def by (intro dbk_steps anchor create named_emit)
qed

lemma named_approve: "keeps (db_kept tenants_named) (bg_approve env rid who tenant why)"
proof -
  have emitted: "keeps (db_kept tenants_named) (case out of
      BgFirstApproved \<Rightarrow> bg_emit env tid k1 tenant p1 who
    | BgActive expires \<Rightarrow> bg_emit env tid k2 tenant (p2 expires) who | _ \<Rightarrow> ok ())" for out tid k1 k2 p1 p2
    by (simp add: named_emit dbk.pure split: break_glass_outcome.split)
  have "keeps (db_kept tenants_named) (sv_call (record_break_glass_approval t rid who tenant))" for t
    by (rule dbk_call) (auto simp: record_break_glass_approval_def update_break_glass_def tenants_named_update split: option.split)
  then show ?thesis unfolding bg_approve_def by (intro dbk_steps emitted)
qed

lemma named_revoke: "keeps (db_kept tenants_named) (bg_revoke env rid who tenant why)"
proof -
  have emitted: "keeps (db_kept tenants_named) (if b then bg_emit env tid k tenant p who else ok ())" for b tid k p
    by (cases b) (simp_all add: named_emit dbk.pure)
  have "keeps (db_kept tenants_named) (sv_call (revoke_break_glass t rid who tenant why))" for t
    by (rule dbk_call) (auto simp: revoke_break_glass_def update_break_glass_def tenants_named_update split: option.split)
  then show ?thesis unfolding bg_revoke_def by (intro dbk_steps emitted)
qed

lemma named_sweep: "keeps (db_kept tenants_named) (bg_sweep_expired env)"
proof -
  have "keeps (db_kept tenants_named) (bg_emit_expired env rids)" for rids
  proof (induction rids)
    case (Cons rid rids)
    then show ?case unfolding bg_emit_expired.simps by (intro dbk_steps named_emit)
  qed (simp add: dbk.pure)
  moreover have "keeps (db_kept tenants_named) (sv_call (sweep_expired_break_glass t))" for t
    by (rule dbk_call) (simp add: sweep_expired_break_glass_def tenants_named_update)
  ultimately show ?thesis unfolding bg_sweep_expired_def by (intro dbk_steps)
qed

lemma run_tenants_named: "tenants_named (sv_db w) \<Longrightarrow> tenants_named (sv_db (breakglass_run env cs w))"
  by (rule breakglass_run_kept [OF api_kept]) (rule named_request named_approve named_revoke named_sweep)+

text \<open>
  The health check cannot see what the gauges are for: whatever the break-glass endpoints
  did, it reports no active grant, and for any tables no deletion in flight, and its verdict
  depends on neither. Only the pending approvals are counted.
\<close>

theorem health_check_is_blind:
  assumes "break_glass_requests (sv_db w) = []"
  shows "backlog (sv_db (breakglass_run env cs w)) =
      (int (length (filter (\<lambda>a. ap_state a = AS_PENDING) (approvals (sv_db (breakglass_run env cs w))))), 0, 0) \<and>
    fst (snd (backlog d)) = 0 \<and> healthy (p\<lparr>hp_db := x\<rparr>) = healthy p"
proof -
  have "tenants_named (sv_db (breakglass_run env cs w))"
    by (rule run_tenants_named) (simp add: tenants_named_def assms)
  then have "filter (\<lambda>r. bg_tenant_id r = [] \<and> bg_state r = BG_ACTIVE) (break_glass_requests (sv_db (breakglass_run env cs w))) = []"
    by (auto simp: tenants_named_def filter_empty_conv)
  then show ?thesis
    by (simp add: backlog_def list_break_glass_for_tenant_def list_pending_approvals_def healthy_def)
qed

theorem health_check_is_blind_witness:
  "snd (snd (backlog (sv_db (breakglass_run ex_bg_api_env ex_bg_requests ex_bg_start)))) = 0"
  using health_check_is_blind [of ex_bg_start ex_bg_api_env ex_bg_requests]
  by (simp add: ex_bg_start_def empty_db_def)

end
