(* ===== verification/Http.thy ===== *)
theory Http
  imports Problems Observability
begin

section \<open>Responses, as a client sees them\<close>

text \<open>
  What the clients of the repository (the SDK, the adapters, the tools of other platforms, the OPA
  client) share: an HTTP response with its status, its text and what decoding the text as JSON
  yields, if it is JSON, and a server as the function that answers a request. The transport is the
  HTTP library's: a server may fail to answer, with the text of the library's exception.
\<close>

record http_response =
  hr_status :: int
  hr_text :: string
  hr_json :: "json option"

definition is_success :: "http_response \<Rightarrow> bool" where
  "is_success r \<longleftrightarrow> 200 \<le> hr_status r \<and> hr_status r \<le> 299"

record http_request =
  hq_verb :: string
  hq_url :: string
  hq_headers :: "(string \<times> string) list"
  hq_json :: "json option"

type_synonym 's http_call = "http_request \<Rightarrow> 's \<Rightarrow> (string + http_response) \<times> 's"

text \<open>\<open>url.rstrip('/')\<close>\<close>

definition rstrip_slash :: "string \<Rightarrow> string" where
  "rstrip_slash s = rev (dropWhile (\<lambda>c. c = CHR ''/'') (rev s))"

text \<open>\<open>d.get(k)\<close> and \<open>d.get(k, v)\<close> of a decoded value; only objects have the method.\<close>

definition jget_or :: "json \<Rightarrow> string \<Rightarrow> json \<Rightarrow> json" where
  "jget_or j k v = (case jget j k of None \<Rightarrow> v | Some x \<Rightarrow> x)"

lemma jget_or_simps [simp]: "jget_or (JObj kvs) k v = dget_default kvs k v"
  by (simp add: jget_or_def dget_default_def)

text \<open>\<open>int(v)\<close> of a decoded value: the value, or the exception it raises.\<close>

datatype int_failure = IntValueError | IntTypeError | IntOverflowError

fun json_int :: "textlib \<Rightarrow> json \<Rightarrow> int_failure + int" where
  "json_int tx (JInt i) = Inr i"
| "json_int tx (JBool b) = Inr (if b then 1 else 0)"
| "json_int tx (JStr s) = (case py_int tx s of None \<Rightarrow> Inl IntValueError | Some i \<Rightarrow> Inr i)"
| "json_int tx (JFloat s) = (case py_float tx s of Some q \<Rightarrow> Inr (truncate_rat q)
     | None \<Rightarrow> Inl (if s = ''NaN'' then IntValueError else IntOverflowError))"
| "json_int tx _ = Inl IntTypeError"

end
