(* ===== verification/TaskApi.thy ===== *)
theory TaskApi
  imports AdminApi RunExample
begin

section \<open>The task endpoints\<close>

text \<open>
  The task routes of \<open>orchestra/api/app.py\<close>, the AgenticHub routes that repeat them and the routes
  for published metrics and webhook deliveries. Submitting a task stores its row and starts a run in
  the background: the model keeps what was started, and \<open>drive\<close> lets the coordinator run it. Reads
  answer with rows; what a list of rows looks like on the wire is the framework's affair, so a list
  of approvals or grants stays a list of records.
\<close>

subsection \<open>State\<close>

record submit_body =
  sb_contract_id :: string
  sb_contract_text :: string
  sb_vendor_id :: string
  sb_budget_usd :: rat
  sb_webhook_url :: "string option"
  sb_webhook_secret :: "string option"

record pending_run =
  pg_contract_id :: string
  pg_data_label :: security_label
  pg_inputs :: payload
  pg_budget_usd :: rat
  pg_hooked :: bool

record task_app =
  ta_world :: world
  ta_webhooks :: app_state
  ta_runs :: "(string, pending_run) dict"

type_synonym 'a task_api = "(task_app, 'a) api"

definition default_data_label :: security_label where
  "default_data_label = \<lparr>classification = DC_RESTRICTED, residency = ''local'', source_trust = ST_INTERNAL,
     retention_days = 365, owner = ''tenant:demo''\<rparr>"

text \<open>A part of the coordinator's program, run on the coordinator's world.\<close>

definition in_world :: "(exn \<Rightarrow> api_exn) \<Rightarrow> 'a prog \<Rightarrow> 'a task_api" where
  "in_world f m = (\<lambda>s. case m (ta_world s) of
     (Inl e, w) \<Rightarrow> (Inl (f e), s\<lparr>ta_world := w\<rparr>) | (Inr x, w) \<Rightarrow> (Inr x, s\<lparr>ta_world := w\<rparr>))"

definition unhandled :: "env \<Rightarrow> exn \<Rightarrow> api_exn" where
  "unhandled env e = Unhandled (en_exn_type env e)"

definition bad_request :: "env \<Rightarrow> exn \<Rightarrow> api_exn" where
  "bad_request env e = HttpError 400 (JStr (en_exn_text env e))"

definition task_state_value :: "task_run_state \<Rightarrow> string" where
  "task_state_value s = (case s of TR_CREATED \<Rightarrow> ''created'' | TR_PLANNED \<Rightarrow> ''planned'' | TR_RUNNING \<Rightarrow> ''running''
     | TR_AWAITING_APPROVAL \<Rightarrow> ''awaiting-approval'' | TR_SUCCEEDED \<Rightarrow> ''succeeded'' | TR_FAILED \<Rightarrow> ''failed''
     | TR_CANCELLED \<Rightarrow> ''cancelled'')"

definition task_status :: "string \<Rightarrow> task_run_state \<Rightarrow> string option \<Rightarrow> json" where
  "task_status tid st plan = JObj
    [(''task_run_id'', JStr tid), (''state'', JStr (task_state_value st)), (''plan_id'', opt_str plan),
     (''node_results'', JObj []), (''error'', JNull)]"

subsection \<open>Submitting and driving\<close>

definition submit_task :: "env \<Rightarrow> submit_body \<Rightarrow> json task_api" where
  "submit_task env b =
     bindE (in_world (unhandled env) (bindE (new_uuid env) (\<lambda>tid. bindE (now env) (\<lambda>t.
       seqE (modify_db (upsert_task_run t tid (sb_contract_id b) ''contract-review'' TR_CREATED None)) (ok tid))))) (\<lambda>tid.
     seqE (modify (\<lambda>s. s\<lparr>
       ta_webhooks := submit_webhook tid (sb_webhook_url b) (sb_webhook_secret b) (ta_webhooks s),
       ta_runs := dset tid \<lparr>pg_contract_id = sb_contract_id b, pg_data_label = default_data_label,
           pg_inputs = [(''contract_text'', JStr (sb_contract_text b)), (''vendor_id'', JStr (sb_vendor_id b))],
           pg_budget_usd = sb_budget_usd b,
           pg_hooked = (webhook_config_from_request (sb_webhook_url b) (sb_webhook_secret b) \<noteq> None)\<rparr> (ta_runs s)\<rparr>))
     (ok (task_status tid TR_CREATED None)))"

text \<open>
  The background task of an id: the coordinator's run and, with a webhook, the wrapper around it,
  which sees no dispatcher. Nothing, if the approval handler never returns.
\<close>

definition drive :: "env \<Rightarrow> handler \<Rightarrow> string \<Rightarrow> task_app \<Rightarrow> ((exn + run_result) \<times> task_app) option" where
  "drive env h tid s = (case dget (ta_runs s) tid of
     None \<Rightarrow> None
   | Some p \<Rightarrow> map_option (\<lambda>(r, w). (r, s\<lparr>ta_world := w\<rparr>))
       (run env h tid (pg_contract_id p) (pg_data_label p) (pg_inputs p) (pg_budget_usd p) (ta_world s)))"

subsection \<open>Reading\<close>

definition get_task :: "string \<Rightarrow> json task_api" where
  "get_task tid = bindE (gets (\<lambda>s. get_task_run (w_db (ta_world s)) tid)) (\<lambda>row. case row of
     None \<Rightarrow> raise (HttpError 404 (JStr ''task not found''))
   | Some r \<Rightarrow> ok (task_status tid (tr_state r) (tr_plan_id r)))"

definition event_json :: "(int \<Rightarrow> string) \<Rightarrow> event_row \<Rightarrow> json" where
  "event_json fmt e = JObj
    [(''event_id'', JStr (ev_id e)), (''task_run_id'', opt_str (ev_task_run_id e)),
     (''node_run_id'', opt_str (ev_node_run_id e)), (''seq'', JInt (ev_seq e)),
     (''kind'', JStr (event_kind_value (ev_kind e))), (''occurred_at'', JStr (fmt (ev_occurred_at e))),
     (''actor'', JStr (ev_actor e)), (''payload'', JObj (ev_payload e)),
     (''prev_event_id'', opt_str (ev_prev_event_id e))]"

definition get_events :: "(int \<Rightarrow> string) \<Rightarrow> string \<Rightarrow> json task_api" where
  "get_events fmt tid = gets (\<lambda>s. let es = list_events (w_db (ta_world s)) (Some tid) None in JObj
     [(''task_run_id'', JStr tid), (''count'', JInt (int (length es))), (''events'', JList (map (event_json fmt) es))])"

definition get_task_grants :: "string \<Rightarrow> node_grant list task_api" where
  "get_task_grants tid = gets (\<lambda>s. list_grants (w_db (ta_world s)) tid)"

definition get_task_approvals :: "string \<Rightarrow> approval_row list task_api" where
  "get_task_approvals tid = gets (\<lambda>s. list_approvals (w_db (ta_world s)) tid)"

text \<open>
  Each receipt with its verdict: an envelope that is no object, and a comparison that raises, are
  reported as not verified with the text of the exception.
\<close>

definition receipt_verdict :: "env \<Rightarrow> signed_receipt \<Rightarrow> bool \<times> string option" where
  "receipt_verdict env r =
     (if \<not> is_obj (sr_envelope r) then (False, Some (en_exn_text env (ValidationExn (sr_receipt_id r))))
      else case verify_receipt (en_pf env) (en_receipt_key env) r of
        Inl e \<Rightarrow> (False, Some (en_exn_text env (SignExn e)))
      | Inr good \<Rightarrow> (good, None))"

definition get_task_receipts :: "env \<Rightarrow> string \<Rightarrow> (signed_receipt \<times> bool \<times> string option) list task_api" where
  "get_task_receipts env tid =
     gets (\<lambda>s. map (\<lambda>r. (r, receipt_verdict env r)) (get_receipts (w_db (ta_world s)) tid))"

subsection \<open>Deciding\<close>

definition decide_task :: "env \<Rightarrow> string \<Rightarrow> string \<Rightarrow> string \<Rightarrow> string \<Rightarrow> unit task_api" where
  "decide_task env tid decision who rationale =
     in_world (bad_request env) (decide_approval env tid ''human_approval'' decision who rationale)"

definition approve_task :: "env \<Rightarrow> string \<Rightarrow> string \<Rightarrow> string \<Rightarrow> json task_api" where
  "approve_task env tid who rationale =
     seqE (decide_task env tid ''approve'' who rationale) (ok (JObj [(''status'', JStr ''approved'')]))"

definition reject_task :: "env \<Rightarrow> string \<Rightarrow> string \<Rightarrow> string \<Rightarrow> json task_api" where
  "reject_task env tid who rationale =
     seqE (decide_task env tid ''reject'' who rationale) (ok (JObj [(''status'', JStr ''rejected'')]))"

text \<open>The AgenticHub routes.\<close>

definition ah_submit :: "env \<Rightarrow> submit_body \<Rightarrow> json task_api" where "ah_submit env b = submit_task env b"
definition ah_get_task :: "string \<Rightarrow> json task_api" where "ah_get_task tid = get_task tid"
definition ah_get_events :: "(int \<Rightarrow> string) \<Rightarrow> string \<Rightarrow> json task_api" where "ah_get_events fmt tid = get_events fmt tid"
definition ah_get_grants :: "string \<Rightarrow> node_grant list task_api" where "ah_get_grants tid = get_task_grants tid"

definition ah_decide :: "env \<Rightarrow> string \<Rightarrow> string \<Rightarrow> string \<Rightarrow> json task_api" where
  "ah_decide env tid who rationale =
     seqE (decide_task env tid ''approve'' who rationale)
       (ok (JObj [(''status'', JStr ''approved''), (''task_run_id'', JStr tid)]))"

text \<open>The delivery history of a task.\<close>

definition admin_webhook_history :: "string \<Rightarrow> json task_api" where
  "admin_webhook_history tid = gets (\<lambda>s. let rs = (case webhook_history (ta_webhooks s) of None \<Rightarrow> [] | Some h \<Rightarrow> for_task h tid)
     in JObj [(''task_run_id'', JStr tid), (''count'', JInt (int (length rs))), (''deliveries'', JList (map record_to_dict rs))])"

subsection \<open>The status of a task\<close>

lemma get_task_row: "task_row tid st pl (w_db (ta_world s)) \<Longrightarrow> get_task tid s = (Inr (task_status tid st pl), s)"
  by (auto simp: task_row_def get_task_def bindE_def gets_def ok_def)

lemma submitted:
  "\<exists>s1. submit_task env b s = (Inr (task_status (en_uuid env (w_ids (ta_world s))) TR_CREATED None), s1) \<and>
     task_row (en_uuid env (w_ids (ta_world s))) TR_CREATED None (w_db (ta_world s1))"
  by (simp add: submit_task_def in_world_def bindE_def seqE_def new_uuid_def now_def modify_db_def modify_def ok_def
      task_row_upsert)

lemma drive_Some: "drive env h tid s = Some (r, s') \<longleftrightarrow> (\<exists>p w. dget (ta_runs s) tid = Some p \<and>
    run env h tid (pg_contract_id p) (pg_data_label p) (pg_inputs p) (pg_budget_usd p) (ta_world s) = Some (r, w) \<and>
    s' = s\<lparr>ta_world := w\<rparr>)"
  by (cases "dget (ta_runs s) tid") (auto simp: drive_def)

lemma driven_status:
  assumes "drive env h tid s1 = Some (Inr res, s2)" "handler_keeps tasks_same h"
  shows "get_task tid s2 = (Inr (task_status tid (cr_state res) (Some (ep_plan_id (cr_plan res)))), s2) \<and>
    cr_state res \<in> {TR_SUCCEEDED, TR_FAILED, TR_CANCELLED}"
proof -
  have "\<exists>(p :: pending_run) w. run env h tid (pg_contract_id p) (pg_data_label p) (pg_inputs p) (pg_budget_usd p) (ta_world s1) = Some (Inr res, w) \<and>
    s2 = s1\<lparr>ta_world := w\<rparr>"
    using assms(1) unfolding drive_Some by blast
  then obtain p :: pending_run and w where ran: "run env h tid (pg_contract_id p) (pg_data_label p) (pg_inputs p) (pg_budget_usd p) (ta_world s1) = Some (Inr res, w)"
    "s2 = s1\<lparr>ta_world := w\<rparr>" by blast
  note row = run_task_row [OF ran(1) assms(2)]
  then have "get_task tid s2 = (Inr (task_status tid (cr_state res) (Some (ep_plan_id (cr_plan res)))), s2)"
    by (intro get_task_row) (simp add: ran(2))
  with row show ?thesis by blast
qed

text \<open>
  C12. The life of a task through the endpoints: submitting answers with an id, and its status is
  then \<open>created\<close>; once the background run has returned, the status is the state the run ended in,
  with its plan. But a run that failed is reported like any other: the status carries neither
  its error nor any node's result.
\<close>

theorem status_follows_run:
  assumes "submit_task env b s = (Inr answer, s1)" "handler_keeps tasks_same h"
  shows "\<exists>tid. answer = task_status tid TR_CREATED None \<and> get_task tid s1 = (Inr answer, s1) \<and>
    (\<forall>res s2. drive env h tid s1 = Some (Inr res, s2) \<longrightarrow>
      get_task tid s2 = (Inr (task_status tid (cr_state res) (Some (ep_plan_id (cr_plan res)))), s2) \<and>
      cr_state res \<in> {TR_SUCCEEDED, TR_FAILED, TR_CANCELLED})"
proof -
  let ?tid = "en_uuid env (w_ids (ta_world s))"
  have created: "answer = task_status ?tid TR_CREATED None" "task_row ?tid TR_CREATED None (w_db (ta_world s1))"
    using submitted [of env b s] assms(1) by auto
  with get_task_row [OF created(2)] driven_status [OF _ assms(2)] show ?thesis by blast
qed

lemma unknown_task: "get_task_run (w_db (ta_world s)) tid = None \<Longrightarrow> get_task tid s = (Inl (HttpError 404 (JStr ''task not found'')), s)"
  by (simp add: get_task_def bindE_def gets_def raise_def)

subsection \<open>What a decision answers\<close>

text \<open>
  A decision the store does not apply, because the row is already decided or belongs to another
  tenant, is answered like one it applies.
\<close>

lemma stale_approval_answers_approved:
  assumes "dget (w_approvals (ta_world s)) (tid, ''human_approval'') = Some b"
    and "service_tenant env = Some tenant" "bucket_approval_id b = Some aid"
    and "record_approval_decision (en_uuid env (w_ids (ta_world s))) (en_clock env (w_reads (ta_world s))) aid ''approve'' who tenant why
      (w_db (ta_world s)) = Inr (NotApplied reason, d)"
  shows "fst (approve_task env tid who why s) = Inr (JObj [(''status'', JStr ''approved'')]) \<and>
    w_approvals (ta_world (snd (approve_task env tid who why s))) = w_approvals (ta_world s)"
  using assms
  by (simp add: approve_task_def decide_task_def in_world_def decide_approval_def decide_row_def bindE_def seqE_def gets_def
      new_uuid_def now_def ok_def)

text \<open>The AgenticHub route to decide approves: what the host decided is not in its body.\<close>

lemma ah_decide_approves: "snd (ah_decide env tid who why s) = snd (approve_task env tid who why s)"
  by (simp add: ah_decide_def approve_task_def seqE_def bindE_def ok_def split: prod.split sum.split)

subsection \<open>Witness\<close>

definition ex_task_app :: task_app where
  "ex_task_app = \<lparr>ta_world = ex_world, ta_webhooks = build_state, ta_runs = []\<rparr>"

definition ex_submit :: submit_body where
  "ex_submit = \<lparr>sb_contract_id = ''c'', sb_contract_text = ''text'', sb_vendor_id = ''v'', sb_budget_usd = 1,
     sb_webhook_url = None, sb_webhook_secret = None\<rparr>"

theorem status_follows_run_witness:
  "\<exists>tid answer s1. submit_task ex_env ex_submit ex_task_app = (Inr answer, s1) \<and>
     get_task tid s1 = (Inr (task_status tid TR_CREATED None), s1)"
proof -
  obtain answer s1 where run: "submit_task ex_env ex_submit ex_task_app = (Inr answer, s1)"
    using submitted [of ex_env ex_submit ex_task_app] by blast
  have "handler_keeps tasks_same approving" by (rule approving_keeps) (simp add: tasks_same_def)
  from status_follows_run [OF run this] run show ?thesis by auto
qed

end
