(* ===== verification/TaskServer.thy ===== *)
theory TaskServer
  imports Http TaskApi
begin

section \<open>The application as a server\<close>

text \<open>
  The route table \<open>create_app\<close> of \<open>orchestra/api/app.py\<close> registers, with the console's router in
  front and the lifecycle router at the end, the middlewares it stacks, and the task routes as one
  function of a request. The framework dispatches to the first route registered that matches verb
  and path.
\<close>

subsection \<open>Routing\<close>

text \<open>A path as the segments between its slashes; a segment in braces matches any that is not empty.\<close>

fun split_slash :: "string \<Rightarrow> string list" where
  "split_slash [] = [[]]"
| "split_slash (c # cs) = (if c = CHR ''/'' then [] # split_slash cs
     else case split_slash cs of [] \<Rightarrow> [[c]] | s # ss \<Rightarrow> (c # s) # ss)"

definition seg_matches :: "string \<Rightarrow> string \<Rightarrow> bool" where
  "seg_matches p s \<longleftrightarrow> (if take 1 p = ''{'' then s \<noteq> [] else p = s)"

record route_entry =
  re_verb :: string
  re_path :: "string list"
  re_handler :: string

definition path_matches :: "string list \<Rightarrow> route_entry \<Rightarrow> bool" where
  "path_matches segs r \<longleftrightarrow> list_all2 seg_matches (re_path r) segs"

datatype dispatched = Handler string | MethodNotAllowed | NoRoute

definition dispatch :: "route_entry list \<Rightarrow> string \<Rightarrow> string list \<Rightarrow> dispatched" where
  "dispatch rs verb segs = (case find (\<lambda>r. re_verb r = verb \<and> path_matches segs r) rs of
     Some r \<Rightarrow> Handler (re_handler r)
   | None \<Rightarrow> if list_ex (path_matches segs) rs then MethodNotAllowed else NoRoute)"

definition entry :: "string \<Rightarrow> string list \<Rightarrow> string \<Rightarrow> route_entry" where
  "entry v p h = \<lparr>re_verb = v, re_path = p, re_handler = h\<rparr>"

text \<open>\<open>build_ux_router\<close>\<close>

definition ux_routes :: "route_entry list" where
  "ux_routes =
    [entry ''GET'' [''''] ''home'', entry ''GET'' [''business''] ''business'', entry ''GET'' [''tasks''] ''task_list'',
     entry ''GET'' [''platform''] ''platform_hub'', entry ''GET'' [''security''] ''security_hub'',
     entry ''POST'' [''ux'', ''tasks''] ''submit_task'',
     entry ''POST'' [''ux'', ''tasks'', ''{task_run_id}'', ''decide''] ''decide_approval_from_console'',
     entry ''POST'' [''ux'', ''tasks'', ''{task_run_id}'', ''approve''] ''approve_legacy'',
     entry ''GET'' [''platform'', ''{task_run_id}''] ''platform_view'',
     entry ''GET'' [''security'', ''legal-hold''] ''legal_hold_hub'',
     entry ''POST'' [''security'', ''legal-hold'', ''create''] ''legal_hold_create_form'',
     entry ''POST'' [''security'', ''legal-hold'', ''release''] ''legal_hold_release_form'',
     entry ''GET'' [''security'', ''{task_run_id}''] ''security_view'',
     entry ''GET'' [''api'', ''capabilities''] ''capabilities_json'',
     entry ''GET'' [''security'', ''breakglass''] ''break_glass_center'',
     entry ''POST'' [''ux'', ''security'', ''breakglass'', ''new''] ''break_glass_request_form'',
     entry ''POST'' [''ux'', ''security'', ''breakglass'', ''{request_id}'', ''approve''] ''break_glass_approve_form'',
     entry ''POST'' [''ux'', ''security'', ''breakglass'', ''{request_id}'', ''revoke''] ''break_glass_revoke_form'',
     entry ''GET'' [''ux'', ''security'', ''breakglass'', ''sweep''] ''break_glass_sweep_redirect'',
     entry ''GET'' [''ux'', ''recent-tasks''] ''recent_tasks_fragment'']"

definition api_routes :: "route_entry list" where
  "api_routes =
    [entry ''GET'' [''healthz''] ''healthz'', entry ''GET'' [''metrics''] ''metrics'',
     entry ''GET'' [''templates''] ''templates'', entry ''GET'' [''capabilities''] ''capabilities'',
     entry ''POST'' [''tasks''] ''submit_task'', entry ''GET'' [''tasks'', ''{task_run_id}''] ''get_task'',
     entry ''GET'' [''tasks'', ''{task_run_id}'', ''events''] ''get_events'',
     entry ''GET'' [''tasks'', ''{task_run_id}'', ''events'', ''stream''] ''stream_events'',
     entry ''GET'' [''tasks'', ''{task_run_id}'', ''receipts''] ''get_receipts'',
     entry ''GET'' [''tasks'', ''{task_run_id}'', ''grants''] ''get_grants'',
     entry ''GET'' [''tasks'', ''{task_run_id}'', ''approvals''] ''get_approvals'',
     entry ''POST'' [''tasks'', ''{task_run_id}'', ''approve''] ''approve'',
     entry ''POST'' [''tasks'', ''{task_run_id}'', ''reject''] ''reject'',
     entry ''POST'' [''benchmark'', ''run''] ''run_benchmark'',
     entry ''POST'' [''api'', ''v1'', ''orchestra'', ''submit''] ''ah_submit'',
     entry ''GET'' [''api'', ''v1'', ''orchestra'', ''tasks'', ''{task_run_id}''] ''ah_get_task'',
     entry ''GET'' [''api'', ''v1'', ''orchestra'', ''tasks'', ''{task_run_id}'', ''events''] ''ah_get_events'',
     entry ''GET'' [''api'', ''v1'', ''orchestra'', ''tasks'', ''{task_run_id}'', ''grants''] ''ah_get_grants'',
     entry ''POST'' [''api'', ''v1'', ''orchestra'', ''tasks'', ''{task_run_id}'', ''decide''] ''ah_decide'']"

definition admin_routes :: "route_entry list" where
  "admin_routes =
    [entry ''POST'' [''admin'', ''tenants''] ''admin_create_tenant'', entry ''GET'' [''admin'', ''tenants''] ''admin_list_tenants'',
     entry ''POST'' [''admin'', ''publish''] ''admin_publish'', entry ''GET'' [''admin'', ''publish''] ''admin_list_published'',
     entry ''POST'' [''admin'', ''publish'', ''{capability_id}'', ''{version}'', ''revoke''] ''admin_revoke'',
     entry ''GET'' [''admin'', ''webhooks'', ''{task_run_id}''] ''admin_webhook_history'',
     entry ''POST'' [''admin'', ''webhooks'', ''{task_run_id}'', ''retry''] ''admin_webhook_retry'',
     entry ''POST'' [''admin'', ''breakglass''] ''admin_breakglass_request'', entry ''GET'' [''admin'', ''breakglass''] ''admin_breakglass_list'',
     entry ''GET'' [''admin'', ''breakglass'', ''{request_id}''] ''admin_breakglass_get'',
     entry ''POST'' [''admin'', ''breakglass'', ''{request_id}'', ''approve''] ''admin_breakglass_approve'',
     entry ''POST'' [''admin'', ''breakglass'', ''{request_id}'', ''revoke''] ''admin_breakglass_revoke'',
     entry ''POST'' [''admin'', ''breakglass'', ''sweep''] ''admin_breakglass_sweep'']"

definition lifecycle_routes :: "route_entry list" where
  "lifecycle_routes =
    [entry ''POST'' [''admin'', ''retention'', ''policy''] ''policy_set'',
     entry ''GET'' [''admin'', ''retention'', ''policy'', ''{tenant_id}'', ''{resource_kind}''] ''policy_get'',
     entry ''POST'' [''admin'', ''holds''] ''hold_create'', entry ''GET'' [''admin'', ''holds''] ''hold_list'',
     entry ''DELETE'' [''admin'', ''holds'', ''{hold_id}''] ''hold_release'',
     entry ''POST'' [''admin'', ''deletion-jobs''] ''deletion_create'', entry ''GET'' [''admin'', ''deletion-jobs''] ''deletion_list'',
     entry ''GET'' [''admin'', ''deletion-jobs'', ''{job_id}''] ''deletion_get'',
     entry ''POST'' [''admin'', ''deletion-jobs'', ''{job_id}'', ''execute''] ''deletion_execute'',
     entry ''POST'' [''admin'', ''deletion-jobs'', ''{job_id}'', ''retry''] ''deletion_retry'']"

text \<open>The framework's own pages come first.\<close>

definition app_routes :: "route_entry list" where
  "app_routes =
    [entry ''GET'' [''openapi.json''] ''openapi'', entry ''GET'' [''docs''] ''swagger_ui_html'',
     entry ''GET'' [''docs'', ''oauth2-redirect''] ''swagger_ui_redirect'', entry ''GET'' [''redoc''] ''redoc_html''] @
    ux_routes @ api_routes @ admin_routes @ lifecycle_routes"

lemmas route_defs = app_routes_def ux_routes_def api_routes_def admin_routes_def lifecycle_routes_def

lemma route_simps: "re_verb (entry v p h) = v" "re_handler (entry v p h) = h"
  "path_matches segs (entry v p h) = list_all2 seg_matches p segs"
  by (simp_all add: entry_def path_matches_def)

subsection \<open>The middlewares\<close>

text \<open>
  The framework runs the middleware that was added last first: the body limit, then the rate limit,
  then the metrics, then the application. The limiter's own counter of refusals is left out.
\<close>

datatype outcome = TooLargeBody | TooManyRequests string int | Served

record edge_state =
  eg_limiter :: rate_limiter
  eg_metrics :: metrics

definition count_rejected :: "string \<Rightarrow> metrics \<Rightarrow> metrics" where
  "count_rejected why m = (case dget (mt_counters m) ''orchestra_request_size_rejected_total'' of None \<Rightarrow> m
     | Some c \<Rightarrow> m\<lparr>mt_counters := dset ''orchestra_request_size_rejected_total'' (counter_inc 1 [(''reason'', why)] c) (mt_counters m)\<rparr>)"

definition serve_edge :: "textlib \<Rightarrow> int \<Rightarrow> (string \<Rightarrow> rat \<Rightarrow> token_bucket) \<Rightarrow> rat \<Rightarrow> rat \<Rightarrow> int list \<Rightarrow> http_scope \<Rightarrow>
    edge_state \<Rightarrow> outcome \<times> edge_state" where
  "serve_edge tx limit factory t duration statuses sc e =
     (case size_limit_route tx limit sc of
        TooLarge \<Rightarrow> (TooLargeBody, e\<lparr>eg_metrics := count_rejected ''content_length'' (eg_metrics e)\<rparr>)
      | _ \<Rightarrow> (case rate_limit_call factory t sc (eg_limiter e) of
          (Throttled tenant n, l) \<Rightarrow> (TooManyRequests tenant n, e\<lparr>eg_limiter := l\<rparr>)
        | (Forward, l) \<Rightarrow> (Served, \<lparr>eg_limiter = l, eg_metrics = http_metrics_call duration statuses sc (eg_metrics e)\<rparr>)))"

text \<open>The two refusals: plain objects, not problems.\<close>

definition throttled_body :: "string \<Rightarrow> int \<Rightarrow> json" where
  "throttled_body tenant n = JObj [(''error'', JStr ''rate_limited''), (''tenant'', JStr tenant), (''retry_after_seconds'', JInt n)]"

definition too_large_body :: "string \<Rightarrow> int \<Rightarrow> json" where
  "too_large_body why limit = JObj [(''error'', JStr ''payload_too_large''), (''reason'', JStr why), (''max_bytes'', JInt limit)]"

subsection \<open>The task routes as a server\<close>

text \<open>\<open>ApprovalRequest\<close>: two texts with defaults; other fields of the body are ignored.\<close>

definition text_field :: "(string, json) dict \<Rightarrow> string \<Rightarrow> string \<Rightarrow> string option" where
  "text_field d k v = (case dget d k of None \<Rightarrow> Some v | Some (JStr s) \<Rightarrow> Some s | _ \<Rightarrow> None)"

definition approval_body :: "json option \<Rightarrow> (string \<times> string) option" where
  "approval_body j = (case j of Some (JObj d) \<Rightarrow>
       (case (text_field d ''decided_by'' ''demo-user'', text_field d ''rationale'' []) of
          (Some who, Some why) \<Rightarrow> Some (who, why) | _ \<Rightarrow> None)
     | _ \<Rightarrow> None)"

text \<open>
  A response on the wire: the client decodes what the framework encoded, so it sees the value. The
  listed errors of a request that does not validate are the framework's.
\<close>

record serving =
  sg_env :: env
  sg_request_id :: string
  sg_render :: "json \<Rightarrow> string"
  sg_time :: "int \<Rightarrow> string"
  sg_invalid :: "json option \<Rightarrow> (string, json) dict list"

definition on_wire :: "serving \<Rightarrow> api_exn + json \<Rightarrow> http_response" where
  "on_wire g out = (let (status, body) = respond (en_tx (sg_env g)) (sg_request_id g) out
     in \<lparr>hr_status = status, hr_text = sg_render g body, hr_json = Some body\<rparr>)"

definition deciding :: "serving \<Rightarrow> json option \<Rightarrow> (string \<Rightarrow> string \<Rightarrow> json task_api) \<Rightarrow> json task_api" where
  "deciding g body f = (case approval_body body of
     None \<Rightarrow> raise (InvalidRequest (sg_invalid g body)) | Some (who, why) \<Rightarrow> f who why)"

text \<open>The routes over tasks whose answers are JSON here; any other request goes to \<open>rest\<close>.\<close>

definition hub_prefix :: "string list" where "hub_prefix = [''api'', ''v1'', ''orchestra'', ''tasks'']"

definition task_route :: "serving \<Rightarrow> string \<Rightarrow> string list \<Rightarrow> json option \<Rightarrow> json task_api option" where
  "task_route g verb segs body = (let env = sg_env g in case segs of
     [a, tid] \<Rightarrow> if verb = ''GET'' \<and> a = ''tasks'' \<and> tid \<noteq> [] then Some (get_task tid) else None
   | [a, tid, what] \<Rightarrow>
       if a \<noteq> ''tasks'' \<or> tid = [] then None
       else if verb = ''GET'' \<and> what = ''events'' then Some (get_events (sg_time g) tid)
       else if verb = ''POST'' \<and> what = ''approve'' then Some (deciding g body (approve_task env tid))
       else if verb = ''POST'' \<and> what = ''reject'' then Some (deciding g body (reject_task env tid))
       else None
   | [a, b, c, d, tid] \<Rightarrow>
       if verb = ''GET'' \<and> [a, b, c, d] = hub_prefix \<and> tid \<noteq> [] then Some (ah_get_task tid) else None
   | [a, b, c, d, tid, what] \<Rightarrow>
       if [a, b, c, d] \<noteq> hub_prefix \<or> tid = [] then None
       else if verb = ''GET'' \<and> what = ''events'' then Some (ah_get_events (sg_time g) tid)
       else if verb = ''POST'' \<and> what = ''decide'' then Some (deciding g body (ah_decide env tid))
       else None
   | _ \<Rightarrow> None)"

definition task_server :: "serving \<Rightarrow> string \<Rightarrow> task_app http_call \<Rightarrow> task_app http_call" where
  "task_server g base rest q s =
     (if take (length base) (hq_url q) \<noteq> base then rest q s
      else case split_slash (drop (length base) (hq_url q)) of
        [] # segs \<Rightarrow> (case task_route g (hq_verb q) segs (hq_json q) of
            None \<Rightarrow> rest q s
          | Some m \<Rightarrow> (case m s of (out, s') \<Rightarrow> (Inr (on_wire g out), s')))
      | _ \<Rightarrow> rest q s)"

subsection \<open>Paths\<close>

lemma split_slash_plain: "CHR ''/'' \<notin> set s \<Longrightarrow> split_slash s = [s]"
  by (induction s) auto

lemma split_slash_cons: "CHR ''/'' \<notin> set s \<Longrightarrow> split_slash (s @ CHR ''/'' # t) = s # split_slash t"
  by (induction s) auto

text \<open>The ids the tools and the server exchange are segments of a path.\<close>

definition plain_id :: "string \<Rightarrow> bool" where
  "plain_id s \<longleftrightarrow> s \<noteq> [] \<and> CHR ''/'' \<notin> set s"

lemma hub_paths:
  assumes "plain_id tid"
  shows "split_slash (''/api/v1/orchestra/tasks/'' @ tid) = ['''', ''api'', ''v1'', ''orchestra'', ''tasks'', tid]"
    and "split_slash (''/api/v1/orchestra/tasks/'' @ tid @ CHR ''/'' # w) = ['''', ''api'', ''v1'', ''orchestra'', ''tasks'', tid] @ split_slash w"
    and "split_slash (''/tasks/'' @ tid) = ['''', ''tasks'', tid]"
    and "split_slash (''/tasks/'' @ tid @ CHR ''/'' # w) = ['''', ''tasks'', tid] @ split_slash w"
  using assms split_slash_plain [of tid] split_slash_cons [of tid w]
  by (simp_all add: plain_id_def)

lemma serve_hub_get:
  assumes "plain_id tid" "ah_get_task tid s = (out, s')"
  shows "task_server g base rest \<lparr>hq_verb = ''GET'', hq_url = base @ ''/api/v1/orchestra/tasks/'' @ tid, hq_headers = hs, hq_json = j\<rparr> s =
    (Inr (on_wire g out), s')"
  using assms hub_paths(1) [OF assms(1)] by (simp add: task_server_def task_route_def hub_prefix_def plain_id_def)

lemma serve_hub_decide:
  assumes "plain_id tid" "deciding g j (ah_decide (sg_env g) tid) s = (out, s')"
  shows "task_server g base rest \<lparr>hq_verb = ''POST'', hq_url = base @ ''/api/v1/orchestra/tasks/'' @ tid @ ''/decide'', hq_headers = hs, hq_json = j\<rparr> s =
    (Inr (on_wire g out), s')"
  using assms hub_paths(2) [OF assms(1), of "''decide''"] by (simp add: task_server_def task_route_def hub_prefix_def plain_id_def)

lemma serve_task_decision:
  assumes "plain_id tid" "deciding g j (if yes then approve_task (sg_env g) tid else reject_task (sg_env g) tid) s = (out, s')"
  shows "task_server g base rest \<lparr>hq_verb = ''POST'', hq_url = base @ ''/tasks/'' @ tid @ (if yes then ''/approve'' else ''/reject''),
      hq_headers = hs, hq_json = j\<rparr> s = (Inr (on_wire g out), s')"
  using assms hub_paths(4) [OF assms(1), of "if yes then ''approve'' else ''reject''"]
  by (cases yes) (simp_all add: task_server_def task_route_def plain_id_def)

subsection \<open>Routes that are not there, and one that is shadowed\<close>

text \<open>
  The SDK asks the prefixed paths for receipts, approvals and the event stream. No route has
  them, for any task; and the break-glass page of the console is shadowed by the page of a task.
\<close>

theorem missing_and_shadowed_routes:
  "dispatch app_routes ''GET'' [''api'', ''v1'', ''orchestra'', ''tasks'', tid, ''receipts''] = NoRoute \<and>
   dispatch app_routes ''GET'' [''api'', ''v1'', ''orchestra'', ''tasks'', tid, ''approvals''] = NoRoute \<and>
   dispatch app_routes ''GET'' [''api'', ''v1'', ''orchestra'', ''tasks'', tid, ''events'', ''stream''] = NoRoute \<and>
   dispatch app_routes ''GET'' [''security'', ''breakglass''] = Handler ''security_view''"
  by (simp add: dispatch_def route_defs route_simps seg_matches_def)

text \<open>
  A refused request is not counted: the refusals come before the metrics middleware, so neither
  the request counter nor the durations see them.
\<close>

lemma refused_requests_uncounted:
  assumes "serve_edge tx limit factory t duration statuses sc e = (out, e')" "out \<noteq> Served"
  shows "dget (mt_counters (eg_metrics e')) ''orchestra_http_requests_total'' =
      dget (mt_counters (eg_metrics e)) ''orchestra_http_requests_total'' \<and>
    mt_histograms (eg_metrics e') = mt_histograms (eg_metrics e)"
  using assms
  by (auto simp: serve_edge_def count_rejected_def dict_simps
      split: size_route.splits prod.splits throttle.splits option.splits)

end
