(* ===== verification/Sdk.thy ===== *)
theory Sdk
  imports TaskServer
begin

section \<open>The SDK\<close>

text \<open>
  \<open>orchestra_sdk/errors.py\<close> and the task calls of \<open>orchestra_sdk/client.py\<close>: how a response becomes
  a value or a typed exception, what each call asks the server, and the polling loop. A body is not
  checked against the fields the data classes declare, so their fields are decoded values. Not
  modelled: \<open>EventStream\<close>, whose iterator asks the HTTP library's context manager for lines,
  which it does not have, and the opening and closing of connections.
\<close>

subsection \<open>Errors\<close>

record sdk_problem =
  sp_type :: json
  sp_title :: json
  sp_status :: int
  sp_detail :: json
  sp_instance :: json
  sp_orchestra :: json

datatype sdk_class = SdkOrchestra | SdkValidation | SdkTaskNotFound | SdkNotFound | SdkPayloadTooLarge
  | SdkRateLimit | SdkInternal | SdkDependency

datatype sdk_exn =
    SdkError sdk_class string "sdk_problem option"
  | SdkTransport string           \<comment> \<open>the HTTP library's exception\<close>
  | SdkNotJson string             \<comment> \<open>an \<open>OrchestraError\<close> that quotes the text\<close>
  | SdkAttributeError             \<comment> \<open>\<open>get\<close> of a body that is no object\<close>
  | SdkIntError int_failure
  | SdkTypeError
  | SdkTimeout string rat json    \<comment> \<open>task, seconds, last state\<close>

definition problem_from_dict :: "textlib \<Rightarrow> (string, json) dict \<Rightarrow> int_failure + sdk_problem" where
  "problem_from_dict tx d = bindS (json_int tx (dget_default d ''status'' (JInt 0))) (\<lambda>status. Inr
     \<lparr>sp_type = dget_default d ''type'' (JStr []), sp_title = dget_default d ''title'' (JStr []), sp_status = status,
      sp_detail = dget_default d ''detail'' (JStr []), sp_instance = dget_default d ''instance'' (JStr []),
      sp_orchestra = py_or (dget_default d ''orchestra'' JNull) (JObj [])\<rparr>)"

definition problem_request_id :: "textlib \<Rightarrow> sdk_problem \<Rightarrow> sdk_exn + json" where
  "problem_request_id tx p =
     (if truthy (sp_instance p) then Inr (sp_instance p)
      else if truthy (sp_orchestra p)
        then if is_obj (sp_orchestra p) then Inr (JStr (text_of tx (jget_or (sp_orchestra p) ''request_id'' (JStr []))))
             else Inl SdkAttributeError
      else Inr (JStr []))"

definition status_classes :: "(int \<times> sdk_class) list" where
  "status_classes = [(400, SdkValidation), (401, SdkValidation), (403, SdkValidation), (404, SdkNotFound),
     (405, SdkValidation), (409, SdkValidation), (413, SdkPayloadTooLarge), (422, SdkValidation), (429, SdkRateLimit),
     (500, SdkInternal), (502, SdkDependency), (503, SdkDependency), (504, SdkDependency)]"

definition exception_for_problem :: "sdk_problem \<Rightarrow> sdk_class" where
  "exception_for_problem p = (case dget status_classes (sp_status p) of None \<Rightarrow> SdkOrchestra | Some c \<Rightarrow> c)"

text \<open>\<open>status\<close> and \<open>retry_after_seconds\<close> of an exception.\<close>

definition error_status :: "sdk_problem option \<Rightarrow> int" where
  "error_status p = (case p of None \<Rightarrow> 0 | Some q \<Rightarrow> sp_status q)"

definition retry_after_seconds :: "textlib \<Rightarrow> sdk_problem option \<Rightarrow> sdk_exn + int" where
  "retry_after_seconds tx p = (case p of None \<Rightarrow> Inr 0
     | Some q \<Rightarrow> let o' = py_or (sp_orchestra q) (JObj [])
         in if \<not> is_obj o' then Inl SdkAttributeError
            else case json_int tx (jget_or o' ''retry_after_seconds'' (JInt 0)) of
              Inr n \<Rightarrow> Inr n | Inl IntOverflowError \<Rightarrow> Inl (SdkIntError IntOverflowError) | Inl _ \<Rightarrow> Inr 0)"

subsection \<open>Reading a response\<close>

definition failure_of :: "textlib \<Rightarrow> http_response \<Rightarrow> sdk_problem option \<Rightarrow> sdk_exn" where
  "failure_of tx r p = SdkError (case p of None \<Rightarrow> SdkOrchestra | Some q \<Rightarrow> exception_for_problem q)
     (string_of_int (hr_status r) @ '' '' @ (case p of None \<Rightarrow> hr_text r | Some q \<Rightarrow> text_of tx (sp_detail q))) p"

text \<open>
  A body that is JSON, an object, and has a type and a title is a problem; a status in it that is
  no number in text form leaves the response without one.
\<close>

definition sdk_parse :: "textlib \<Rightarrow> http_response \<Rightarrow> sdk_exn + json" where
  "sdk_parse tx r =
     (if is_success r then (case hr_json r of Some j \<Rightarrow> Inr j
        | None \<Rightarrow> Inl (SdkNotJson (text_prefix (hr_text r) 200)))
      else case hr_json r of
        Some (JObj d) \<Rightarrow>
          if dget d ''type'' \<noteq> None \<and> dget d ''title'' \<noteq> None
          then (case problem_from_dict tx d of
              Inr p \<Rightarrow> Inl (failure_of tx r (Some p))
            | Inl IntValueError \<Rightarrow> Inl (failure_of tx r None)
            | Inl e \<Rightarrow> Inl (SdkIntError e))
          else Inl (failure_of tx r None)
      | _ \<Rightarrow> Inl (failure_of tx r None))"

subsection \<open>Calls\<close>

text \<open>A client and what it sends; the server answers a request or the library raises.\<close>

record sdk_client =
  sc_base_url :: string
  sc_tenant_id :: string
  sc_bearer_token :: "string option"

type_synonym ('s, 'a) sdk = "('s, sdk_exn, 'a) action"

definition new_client :: "string \<Rightarrow> string \<Rightarrow> string option \<Rightarrow> sdk_client" where
  "new_client base tenant token = \<lparr>sc_base_url = rstrip_slash base, sc_tenant_id = tenant, sc_bearer_token = token\<rparr>"

definition set_bearer_token :: "string \<Rightarrow> sdk_client \<Rightarrow> sdk_client" where
  "set_bearer_token token c = c\<lparr>sc_bearer_token := Some token\<rparr>"

definition sdk_headers :: "sdk_client \<Rightarrow> (string \<times> string) list" where
  "sdk_headers c = [(''X-Tenant-Id'', sc_tenant_id c), (''Accept'', ''application/json'')] @
     (case sc_bearer_token c of Some t \<Rightarrow> if t = [] then [] else [(''Authorization'', ''Bearer '' @ t)] | None \<Rightarrow> [])"

definition sdk_send :: "textlib \<Rightarrow> 's http_call \<Rightarrow> http_request \<Rightarrow> ('s, json) sdk" where
  "sdk_send tx srv q = (\<lambda>s. case srv q s of
     (Inl e, s') \<Rightarrow> (Inl (SdkTransport e), s') | (Inr r, s') \<Rightarrow> (sdk_parse tx r, s'))"

definition sdk_get :: "textlib \<Rightarrow> 's http_call \<Rightarrow> sdk_client \<Rightarrow> string \<Rightarrow> ('s, json) sdk" where
  "sdk_get tx srv c path = sdk_send tx srv \<lparr>hq_verb = ''GET'', hq_url = sc_base_url c @ path,
     hq_headers = sdk_headers c, hq_json = None\<rparr>"

definition sdk_post :: "textlib \<Rightarrow> 's http_call \<Rightarrow> sdk_client \<Rightarrow> string \<Rightarrow> json \<Rightarrow> ('s, json) sdk" where
  "sdk_post tx srv c path body = sdk_send tx srv \<lparr>hq_verb = ''POST'', hq_url = sc_base_url c @ path,
     hq_headers = sdk_headers c, hq_json = Some body\<rparr>"

record sdk_status =
  ss_task_run_id :: json
  ss_state :: json
  ss_plan_id :: json
  ss_node_results :: json
  ss_error :: json

definition terminal_states :: "string list" where
  "terminal_states = [''succeeded'', ''failed'', ''cancelled'']"

text \<open>\<open>status.state in TERMINAL_STATES\<close>: a list or an object is no element a set can look for.\<close>

definition is_terminal :: "sdk_status \<Rightarrow> sdk_exn + bool" where
  "is_terminal st = (case ss_state st of JStr s \<Rightarrow> Inr (s \<in> set terminal_states)
     | JList _ \<Rightarrow> Inl SdkTypeError | JObj _ \<Rightarrow> Inl SdkTypeError | _ \<Rightarrow> Inr False)"

definition status_from_dict :: "json \<Rightarrow> sdk_exn + sdk_status" where
  "status_from_dict j = (if \<not> is_obj j then Inl SdkAttributeError else Inr
     \<lparr>ss_task_run_id = jget_or j ''task_run_id'' (JStr []), ss_state = jget_or j ''state'' (JStr ''unknown''),
      ss_plan_id = jget_or j ''plan_id'' JNull, ss_node_results = jget_or j ''node_results'' (JObj []),
      ss_error = jget_or j ''error'' JNull\<rparr>)"

definition tasks_path :: "string \<Rightarrow> string" where
  "tasks_path tid = ''/api/v1/orchestra/tasks/'' @ tid"

definition sdk_submit_task :: "textlib \<Rightarrow> (rat \<Rightarrow> string) \<Rightarrow> 's http_call \<Rightarrow> sdk_client \<Rightarrow> string \<Rightarrow> string \<Rightarrow> string \<Rightarrow> rat \<Rightarrow>
    ('s, sdk_status) sdk" where
  "sdk_submit_task tx fmt srv c contract_id contract_text vendor_id budget =
     bindE (sdk_post tx srv c ''/api/v1/orchestra/submit'' (JObj [(''contract_id'', JStr contract_id),
       (''contract_text'', JStr contract_text), (''vendor_id'', JStr vendor_id), (''budget_usd'', JFloat (fmt budget))]))
       (\<lambda>j. lift (status_from_dict j))"

definition not_found_as_task :: "string \<Rightarrow> sdk_exn \<Rightarrow> sdk_exn" where
  "not_found_as_task tid e = (case e of
     SdkError SdkNotFound m p \<Rightarrow> SdkError SdkTaskNotFound (''task '' @ tid @ '' not found'') p | _ \<Rightarrow> e)"

definition sdk_get_task :: "textlib \<Rightarrow> 's http_call \<Rightarrow> sdk_client \<Rightarrow> string \<Rightarrow> ('s, sdk_status) sdk" where
  "sdk_get_task tx srv c tid =
     bindE (map_exn (not_found_as_task tid) (sdk_get tx srv c (tasks_path tid))) (\<lambda>j. lift (status_from_dict j))"

definition sdk_approve :: "textlib \<Rightarrow> 's http_call \<Rightarrow> sdk_client \<Rightarrow> string \<Rightarrow> string \<Rightarrow> string \<Rightarrow> ('s, json) sdk" where
  "sdk_approve tx srv c tid who why = sdk_post tx srv c (tasks_path tid @ ''/decide'')
     (JObj [(''decided_by'', JStr who), (''rationale'', JStr why)])"

definition sdk_reject :: "textlib \<Rightarrow> 's http_call \<Rightarrow> sdk_client \<Rightarrow> string \<Rightarrow> string \<Rightarrow> string \<Rightarrow> ('s, json) sdk" where
  "sdk_reject tx srv c tid who why = sdk_post tx srv c (''/tasks/'' @ tid @ ''/reject'')
     (JObj [(''decided_by'', JStr who), (''rationale'', JStr why)])"

text \<open>Every element of \<open>data.get(field, [])\<close>, each of which must be an object.\<close>

definition objects_in :: "string \<Rightarrow> json \<Rightarrow> sdk_exn + (string, json) dict list" where
  "objects_in field j =
     (if \<not> is_obj j then Inl SdkAttributeError
      else case jget_or j field (JList []) of
        JList xs \<Rightarrow> if list_all is_obj xs then Inr (map (\<lambda>x. case x of JObj d \<Rightarrow> d | _ \<Rightarrow> []) xs) else Inl SdkAttributeError
      | JObj d \<Rightarrow> if d = [] then Inr [] else Inl SdkAttributeError
      | JStr s \<Rightarrow> if s = [] then Inr [] else Inl SdkAttributeError
      | _ \<Rightarrow> Inl SdkTypeError)"

record sdk_event =
  sv_event_id :: string
  sv_task_run_id :: json
  sv_kind :: json
  sv_payload :: json
  sv_created_at :: string

definition event_from_dict :: "textlib \<Rightarrow> (string, json) dict \<Rightarrow> sdk_event" where
  "event_from_dict tx d = \<lparr>sv_event_id = text_of tx (dget_default d ''event_id'' (JStr [])),
     sv_task_run_id = dget_default d ''task_run_id'' (JStr []), sv_kind = dget_default d ''kind'' (JStr []),
     sv_payload = dget_default d ''payload'' (JObj []), sv_created_at = text_of tx (dget_default d ''created_at'' (JStr []))\<rparr>"

text \<open>The other lists a task has.\<close>

record sdk_receipt =
  sdr_receipt_id :: string
  sdr_task_run_id :: json
  sdr_node_run_id :: json
  sdr_node_id :: json
  sdr_envelope :: json
  sdr_signature :: json
  sdr_verified :: json

definition receipt_from_dict :: "textlib \<Rightarrow> (string, json) dict \<Rightarrow> sdk_receipt" where
  "receipt_from_dict tx d = (let e = dget_default d ''envelope'' (JObj []) in
     \<lparr>sdr_receipt_id = text_of tx (dget_default d ''receipt_id'' (JStr [])),
      sdr_task_run_id = dget_default d ''task_run_id'' (JStr []), sdr_node_run_id = dget_default d ''node_run_id'' (JStr []),
      sdr_node_id = dget_default d ''node_id'' (JStr []), sdr_envelope = (if is_obj e then e else JObj []),
      sdr_signature = dget_default d ''signature'' (JStr []), sdr_verified = dget_default d ''verified'' JNull\<rparr>)"

record sdk_grant =
  sdg_grant_id :: string
  sdg_node_id :: json
  sdg_capability_id :: json
  sdg_manifest_id :: json
  sdg_signature :: json

definition grant_from_dict :: "textlib \<Rightarrow> (string, json) dict \<Rightarrow> sdk_grant" where
  "grant_from_dict tx d = \<lparr>sdg_grant_id = text_of tx (dget_default d ''grant_id'' (JStr [])),
     sdg_node_id = dget_default d ''node_id'' (JStr []), sdg_capability_id = dget_default d ''capability_id'' (JStr []),
     sdg_manifest_id = dget_default d ''manifest_id'' (JStr []), sdg_signature = dget_default d ''signature'' (JStr [])\<rparr>"

record sdk_approval =
  sa_approval_id :: string
  sa_task_run_id :: json
  sa_node_id :: json
  sa_decision :: json
  sa_decided_by :: json
  sa_rationale :: json
  sa_requested_at :: json
  sa_decided_at :: json

definition approval_from_dict :: "textlib \<Rightarrow> (string, json) dict \<Rightarrow> sdk_approval" where
  "approval_from_dict tx d = \<lparr>sa_approval_id = text_of tx (dget_default d ''approval_id'' (JStr [])),
     sa_task_run_id = dget_default d ''task_run_id'' (JStr []), sa_node_id = dget_default d ''node_id'' (JStr []),
     sa_decision = dget_default d ''decision'' (JStr []), sa_decided_by = dget_default d ''decided_by'' (JStr []),
     sa_rationale = dget_default d ''rationale'' (JStr []), sa_requested_at = dget_default d ''requested_at'' (JStr []),
     sa_decided_at = dget_default d ''decided_at'' (JStr [])\<rparr>"

definition sdk_list :: "textlib \<Rightarrow> 's http_call \<Rightarrow> sdk_client \<Rightarrow> string \<Rightarrow> string \<Rightarrow> ((string, json) dict \<Rightarrow> 'a) \<Rightarrow> ('s, 'a list) sdk" where
  "sdk_list tx srv c tid field f =
     bindE (sdk_get tx srv c (tasks_path tid @ ''/'' @ field)) (\<lambda>j.
     bindE (lift (objects_in field j)) (\<lambda>ds. ok (map f ds)))"

definition sdk_get_events :: "textlib \<Rightarrow> 's http_call \<Rightarrow> sdk_client \<Rightarrow> string \<Rightarrow> ('s, sdk_event list) sdk" where
  "sdk_get_events tx srv c tid = sdk_list tx srv c tid ''events'' (event_from_dict tx)"

definition sdk_get_receipts :: "textlib \<Rightarrow> 's http_call \<Rightarrow> sdk_client \<Rightarrow> string \<Rightarrow> ('s, sdk_receipt list) sdk" where
  "sdk_get_receipts tx srv c tid = sdk_list tx srv c tid ''receipts'' (receipt_from_dict tx)"

definition sdk_get_grants :: "textlib \<Rightarrow> 's http_call \<Rightarrow> sdk_client \<Rightarrow> string \<Rightarrow> ('s, sdk_grant list) sdk" where
  "sdk_get_grants tx srv c tid = sdk_list tx srv c tid ''grants'' (grant_from_dict tx)"

definition sdk_get_approvals :: "textlib \<Rightarrow> 's http_call \<Rightarrow> sdk_client \<Rightarrow> string \<Rightarrow> ('s, sdk_approval list) sdk" where
  "sdk_get_approvals tx srv c tid = sdk_list tx srv c tid ''approvals'' (approval_from_dict tx)"

definition sdk_list_capabilities :: "textlib \<Rightarrow> 's http_call \<Rightarrow> sdk_client \<Rightarrow> ('s, json) sdk" where
  "sdk_list_capabilities tx srv c = sdk_get tx srv c ''/capabilities''"

subsection \<open>Waiting\<close>

text \<open>
  The polling loop. The clock is read once for the deadline and once after each poll that is not
  final; a loop that never ends has no value.
\<close>

partial_function (option) wait_loop :: "textlib \<Rightarrow> 's http_call \<Rightarrow> sdk_client \<Rightarrow> string \<Rightarrow> rat \<Rightarrow> (nat \<Rightarrow> rat) \<Rightarrow> nat \<Rightarrow> 's \<Rightarrow>
    ((sdk_exn + sdk_status) \<times> 's) option" where
  "wait_loop tx srv c tid timeout tick n s =
     (case sdk_get_task tx srv c tid s of
        (Inl e, s') \<Rightarrow> Some (Inl e, s')
      | (Inr st, s') \<Rightarrow> (case is_terminal st of
          Inl e \<Rightarrow> Some (Inl e, s')
        | Inr yes \<Rightarrow> if yes then Some (Inr st, s')
            else if tick n \<ge> tick 0 + timeout then Some (Inl (SdkTimeout tid timeout (ss_state st)), s')
            else wait_loop tx srv c tid timeout tick (Suc n) s'))"

definition wait_for_completion :: "textlib \<Rightarrow> 's http_call \<Rightarrow> sdk_client \<Rightarrow> string \<Rightarrow> rat \<Rightarrow> (nat \<Rightarrow> rat) \<Rightarrow> 's \<Rightarrow>
    ((sdk_exn + sdk_status) \<times> 's) option" where
  "wait_for_completion tx srv c tid timeout tick s = wait_loop tx srv c tid timeout tick 1 s"

text \<open>The state of the server after some polls, and the answer to the next one.\<close>

primrec polled :: "textlib \<Rightarrow> 's http_call \<Rightarrow> sdk_client \<Rightarrow> string \<Rightarrow> nat \<Rightarrow> 's \<Rightarrow> 's" where
  "polled tx srv c tid 0 s = s"
| "polled tx srv c tid (Suc n) s = polled tx srv c tid n (snd (sdk_get_task tx srv c tid s))"

definition poll_answer :: "textlib \<Rightarrow> 's http_call \<Rightarrow> sdk_client \<Rightarrow> string \<Rightarrow> nat \<Rightarrow> 's \<Rightarrow> sdk_exn + sdk_status" where
  "poll_answer tx srv c tid n s = fst (sdk_get_task tx srv c tid (polled tx srv c tid n s))"

definition unsettled :: "sdk_exn + sdk_status \<Rightarrow> bool" where
  "unsettled a \<longleftrightarrow> (\<exists>st. a = Inr st \<and> is_terminal st = Inr False)"

text \<open>What the loop returns for the answer it stops at.\<close>

definition settled_as :: "string \<Rightarrow> rat \<Rightarrow> sdk_exn + sdk_status \<Rightarrow> sdk_exn + sdk_status" where
  "settled_as tid timeout a = (case a of Inl e \<Rightarrow> Inl e
     | Inr st \<Rightarrow> (case is_terminal st of Inl e \<Rightarrow> Inl e | Inr True \<Rightarrow> Inr st
         | Inr False \<Rightarrow> Inl (SdkTimeout tid timeout (ss_state st))))"

lemma wait_loop_settles:
  assumes "tick 0 + timeout \<le> tick (n + d)"
  shows "\<exists>k \<le> d. wait_loop tx srv c tid timeout tick n s =
      Some (settled_as tid timeout (poll_answer tx srv c tid k s), polled tx srv c tid (Suc k) s) \<and>
    (\<forall>i < k. unsettled (poll_answer tx srv c tid i s) \<and> tick (n + i) < tick 0 + timeout) \<and>
    (unsettled (poll_answer tx srv c tid k s) \<longrightarrow> tick 0 + timeout \<le> tick (n + k))"
  using assms
proof (induction d arbitrary: n s)
  case 0
  obtain a s' where a: "sdk_get_task tx srv c tid s = (a, s')" by force
  show ?case using 0 unfolding wait_loop.simps [of tx srv c tid timeout tick n s]
    by (cases a) (auto simp: a poll_answer_def settled_as_def split: sum.split bool.split)
next
  case (Suc d)
  obtain a s' where a: "sdk_get_task tx srv c tid s = (a, s')" by force
  show ?case
  proof (cases "unsettled a \<and> tick n < tick 0 + timeout")
    case True
    then have step: "wait_loop tx srv c tid timeout tick n s = wait_loop tx srv c tid timeout tick (Suc n) s'"
      unfolding wait_loop.simps [of tx srv c tid timeout tick n s] by (auto simp: a unsettled_def)
    have shift: "poll_answer tx srv c tid i s' = poll_answer tx srv c tid (Suc i) s"
      "polled tx srv c tid i s' = polled tx srv c tid (Suc i) s" for i
      by (simp_all add: poll_answer_def a)
    have first: "poll_answer tx srv c tid 0 s = a" by (simp add: poll_answer_def a)
    obtain k where k: "k \<le> d" "wait_loop tx srv c tid timeout tick (Suc n) s' =
        Some (settled_as tid timeout (poll_answer tx srv c tid (Suc k) s), polled tx srv c tid (Suc (Suc k)) s)"
      "\<forall>i < k. unsettled (poll_answer tx srv c tid (Suc i) s) \<and> tick (Suc n + i) < tick 0 + timeout"
      "unsettled (poll_answer tx srv c tid (Suc k) s) \<longrightarrow> tick 0 + timeout \<le> tick (Suc n + k)"
      using Suc.IH [of "Suc n" s'] Suc.prems unfolding shift by auto
    have "unsettled (poll_answer tx srv c tid i s) \<and> tick (n + i) < tick 0 + timeout" if "i < Suc k" for i
      using that True k(3) first by (cases i) auto
    with k step show ?thesis by (intro exI [of _ "Suc k"]) auto
  next
    case False
    then show ?thesis unfolding wait_loop.simps [of tx srv c tid timeout tick n s]
      by (intro exI [of _ 0], cases a)
        (auto simp: a poll_answer_def settled_as_def unsettled_def not_less split: sum.split bool.split)
  qed
qed

text \<open>
  C24. Waiting for a task ends: if the clock passes the deadline at its n-th reading, at most n
  polls are made, and what is returned is the first answer that is final, an error or, at the
  first reading past the deadline, a timeout; no earlier answer was final.
\<close>

theorem waiting_settles:
  assumes "0 < n" "tick 0 + timeout \<le> tick n"
  shows "\<exists>k < n. wait_for_completion tx srv c tid timeout tick s =
      Some (settled_as tid timeout (poll_answer tx srv c tid k s), polled tx srv c tid (Suc k) s) \<and>
    (\<forall>i < k. unsettled (poll_answer tx srv c tid i s) \<and> tick (Suc i) < tick 0 + timeout) \<and>
    (unsettled (poll_answer tx srv c tid k s) \<longrightarrow> tick 0 + timeout \<le> tick (Suc k))"
proof -
  have "tick 0 + timeout \<le> tick (1 + (n - 1))" using assms by simp
  from wait_loop_settles [OF this, of tx srv c tid s] obtain k where k: "k \<le> n - 1"
    "wait_loop tx srv c tid timeout tick 1 s =
      Some (settled_as tid timeout (poll_answer tx srv c tid k s), polled tx srv c tid (Suc k) s)"
    "\<forall>i < k. unsettled (poll_answer tx srv c tid i s) \<and> tick (1 + i) < tick 0 + timeout"
    "unsettled (poll_answer tx srv c tid k s) \<longrightarrow> tick 0 + timeout \<le> tick (1 + k)" by blast
  show ?thesis
    by (rule exI [of _ k]) (use assms(1) k in \<open>simp add: wait_for_completion_def\<close>)
qed

subsection \<open>The errors of the server, as the client sees them\<close>

lemma problem_fields:
  "dget (problem_dict p) ''status'' = Some (JInt (pb_status p))"
  "dget (problem_dict p) ''type'' \<noteq> None" "dget (problem_dict p) ''title'' \<noteq> None"
  "dget (problem_dict p) ''instance'' = Some (JStr (pb_instance p))"
  "dget (problem_dict p) ''orchestra'' = (if pb_orchestra p = [] then None else Some (JObj (pb_orchestra p)))"
  by (simp_all add: problem_dict_def)

lemma problem_parsed:
  assumes "dget d ''type'' \<noteq> None" "dget d ''title'' \<noteq> None" "dget d ''status'' = Some (JInt status)"
    and "dget d ''instance'' = Some (JStr rid)" "status < 200 \<or> 299 < status"
    and "rid = [] \<Longrightarrow> dget d ''orchestra'' = None \<or>
      (\<exists>ext. dget d ''orchestra'' = Some (JObj ext) \<and> dget_default ext ''request_id'' (JStr []) = JStr [])"
  shows "\<exists>m p. sdk_parse tx \<lparr>hr_status = status, hr_text = t, hr_json = Some (JObj d)\<rparr> = Inl (SdkError
      (case dget status_classes status of None \<Rightarrow> SdkOrchestra | Some c \<Rightarrow> c) m (Some p)) \<and>
    sp_status p = status \<and> problem_request_id tx p = Inr (JStr rid)"
proof -
  have "dget_default d ''status'' (JInt 0) = JInt status" using assms(3) by (simp add: dget_default_def)
  then obtain p where p: "problem_from_dict tx d = Inr p" "sp_status p = status" "sp_instance p = JStr rid"
    "sp_orchestra p = py_or (dget_default d ''orchestra'' JNull) (JObj [])"
    using assms(4) by (simp add: problem_from_dict_def bindS_def dget_default_def)
  have "problem_request_id tx p = Inr (JStr rid)"
    using p assms(6) by (cases "rid = []") (auto simp: problem_request_id_def py_or_def dget_default_def text_of_def)
  moreover have "sdk_parse tx \<lparr>hr_status = status, hr_text = t, hr_json = Some (JObj d)\<rparr> =
      Inl (failure_of tx \<lparr>hr_status = status, hr_text = t, hr_json = Some (JObj d)\<rparr> (Some p))"
    using assms(1,2,5) p(1) by (auto simp: sdk_parse_def is_success_def)
  ultimately show ?thesis using p(2) by (simp add: failure_of_def exception_for_problem_def)
qed


text \<open>
  But a refusal by the rate limiter does not: its body is no problem, so the caller gets the
  base exception without the seconds to wait, and not the documented \<open>RateLimitError\<close>.
\<close>

theorem throttling_is_untyped:
  assumes "rate_limit_call factory t sc lmt = (Throttled tenant n, lmt')"
  shows "sdk_parse tx \<lparr>hr_status = 429, hr_text = body, hr_json = Some (throttled_body tenant n)\<rparr> =
      Inl (SdkError SdkOrchestra (''429 '' @ body) None) \<and>
    retry_after_seconds tx None = Inr 0 \<and> 1 \<le> n \<and> dget status_classes 429 = Some SdkRateLimit"
proof -
  have "1 \<le> n" using assms by (auto simp: rate_limit_call_def Let_def split: if_splits prod.splits)
  moreover have "string_of_int 429 = ''429''" by code_simp
  ultimately show ?thesis
    by (simp add: sdk_parse_def is_success_def throttled_body_def failure_of_def retry_after_seconds_def status_classes_def)
qed

subsection \<open>The end of a run, through the SDK\<close>

lemma sdk_reads_status:
  assumes "get_task tid s = (Inr (task_status tid st pl), s)" "plain_id tid"
  shows "sdk_get_task tx (task_server g (sc_base_url c) rest) c tid s = (Inr \<lparr>ss_task_run_id = JStr tid,
      ss_state = JStr (task_state_value st), ss_plan_id = opt_str pl, ss_node_results = JObj [], ss_error = JNull\<rparr>, s)"
proof -
  have "ah_get_task tid s = (Inr (task_status tid st pl), s)" using assms(1) by (simp add: ah_get_task_def)
  from serve_hub_get [OF assms(2) this] show ?thesis
    by (simp add: sdk_get_task_def sdk_get_def sdk_send_def tasks_path_def bindE_def map_exn_def lift_def on_wire_def
        sdk_parse_def is_success_def status_from_dict_def task_status_def dget_default_def)
qed

lemma final_states: "st \<in> {TR_SUCCEEDED, TR_FAILED, TR_CANCELLED} \<Longrightarrow> task_state_value st \<in> set terminal_states"
  by (auto simp: task_state_value_def terminal_states_def)

text \<open>
  Once a run has returned, waiting through the SDK returns at the first poll, whatever the
  timeout, with the state the run ended in and its plan; of a failure it carries no error.
\<close>

theorem sdk_sees_run:
  assumes "drive (sg_env g) h tid s1 = Some (Inr res, s2)" "handler_keeps tasks_same h" "plain_id tid"
  shows "wait_for_completion tx (task_server g (sc_base_url c) rest) c tid timeout tick s2 =
    Some (Inr \<lparr>ss_task_run_id = JStr tid, ss_state = JStr (task_state_value (cr_state res)),
      ss_plan_id = JStr (ep_plan_id (cr_plan res)), ss_node_results = JObj [], ss_error = JNull\<rparr>, s2)"
proof -
  note run = driven_status [OF assms(1,2)]
  with final_states have "task_state_value (cr_state res) \<in> set terminal_states" by blast
  then show ?thesis
    unfolding wait_for_completion_def wait_loop.simps [of tx _ c tid timeout tick 1 s2] sdk_reads_status [OF conjunct1 [OF run] assms(3)]
    by (simp add: is_terminal_def opt_str_def)
qed

lemma sdk_unknown_task:
  assumes "get_task_run (w_db (ta_world s)) tid = None" "plain_id tid"
  shows "\<exists>m p. sdk_get_task tx (task_server g (sc_base_url c) rest) c tid s = (Inl (SdkError SdkTaskNotFound m (Some p)), s)"
proof -
  let ?out = "Inl (HttpError 404 (JStr ''task not found'')) :: api_exn + json"
  have "ah_get_task tid s = (?out, s)" using unknown_task [OF assms(1)] by (simp add: ah_get_task_def)
  from serve_hub_get [OF assms(2) this, of g "sc_base_url c" rest] show ?thesis
    by (simp add: sdk_get_task_def sdk_get_def sdk_send_def tasks_path_def bindE_def map_exn_def lift_def on_wire_def
        sdk_parse_def is_success_def problem_from_dict_def dget_default_def problem_fields bindS_def failure_of_def exception_for_problem_def
        problem_from_http_exception_def status_classes_def not_found_as_task_def Let_def)
qed

subsection \<open>Witnesses\<close>

definition ex_down :: "unit http_call" where "ex_down q s = (Inl ''down'', s)"

definition ex_client :: sdk_client where "ex_client = new_client ''http://h/'' ''acme'' None"

theorem waiting_settles_witness:
  "\<exists>k < (1::nat). wait_for_completion ex_textlib ex_down ex_client ''t'' 1 rat_of_nat () =
    Some (settled_as ''t'' 1 (poll_answer ex_textlib ex_down ex_client ''t'' k ()), ())"
  using waiting_settles [of 1 rat_of_nat 1 ex_textlib ex_down ex_client "''t''" "()"] by auto


definition ex_empty_bucket :: token_bucket where
  "ex_empty_bucket = \<lparr>tb_capacity = 1, tb_refill_rate = None, tb_tokens = 0, tb_last = 0\<rparr>"

theorem throttling_is_untyped_witness:
  "sdk_parse ex_textlib \<lparr>hr_status = 429, hr_text = ''x'', hr_json = Some (throttled_body ''t1'' 3601)\<rparr> =
    Inl (SdkError SdkOrchestra ''429 x'' None)"
proof -
  have "rate_limit_call (\<lambda>_ _. ex_empty_bucket) 0 (ex_scope ''t1'') [] =
      (Throttled ''t1'' 3601, [(''t1'', ex_empty_bucket)])"
    by (simp add: rate_limit_call_def rate_check_def bucket_for_def try_acquire_def ex_empty_bucket_def ex_scope_tenant
        is_exempt_def exempt_paths_def scope_path_def truncate_rat_def Let_def)
      (simp add: ex_scope_def)
  from throttling_is_untyped [OF this, of ex_textlib "''x''"] show ?thesis by simp
qed

definition ex_driven_app :: task_app where
  "ex_driven_app = \<lparr>ta_world = ex_world, ta_webhooks = build_state, ta_runs = [(''t'', \<lparr>pg_contract_id = ''c'',
     pg_data_label = public_label, pg_inputs = ex_inputs, pg_budget_usd = 1, pg_hooked = False\<rparr>)]\<rparr>"

definition ex_serving :: serving where
  "ex_serving = \<lparr>sg_env = ex_env, sg_request_id = [], sg_render = (\<lambda>_. []), sg_time = (\<lambda>_. []), sg_invalid = (\<lambda>_. [])\<rparr>"

definition ex_no_rest :: "task_app http_call" where "ex_no_rest q s = (Inl [], s)"

theorem sdk_sees_run_witness:
  "\<exists>st s2. wait_for_completion ex_textlib (task_server ex_serving (sc_base_url ex_client) ex_no_rest) ex_client ''t'' 1 rat_of_nat s2 =
    Some (Inr st, s2) \<and> ss_state st = JStr ''failed''"
proof -
  obtain res w' where r: "run ex_env approving ''t'' ''c'' public_label ex_inputs 1 ex_world = Some (Inr res, w')"
    and st: "cr_state res = TR_FAILED" by (rule ex_run_facts)
  then have "drive (sg_env ex_serving) approving ''t'' ex_driven_app = Some (Inr res, ex_driven_app\<lparr>ta_world := w'\<rparr>)"
    by (simp add: drive_def ex_driven_app_def ex_serving_def)
  from sdk_sees_run [OF this approving_keeps, of ex_textlib ex_client ex_no_rest 1 rat_of_nat] st show ?thesis
    by (auto simp: tasks_same_def plain_id_def task_state_value_def)
qed

end
