(* ===== verification/Bridges.thy ===== *)
theory Bridges
  imports Sdk Readiness
begin

section \<open>The tools of other platforms\<close>

text \<open>
  \<open>orchestra/dify/task_tool.py\<close> and \<open>orchestra/agentichub/client.py\<close>: the clients a Dify or an
  AgenticHub workflow calls. The two classes are the same code over different paths, so the model
  has one tool with its paths and the constructors of the two. Instants are readings of a clock; the
  sleeping between polls is not modelled, nor is the connection.
\<close>

subsection \<open>Tools\<close>

record task_tool =
  tl_base :: string
  tl_prefix :: string
  tl_submit :: string
  tl_mode :: delegation_mode
  tl_level :: Readiness.integration_level
  tl_max_polls :: nat
  tl_poll_interval :: rat

definition new_dify_tool :: "string \<Rightarrow> delegation_mode \<Rightarrow> Readiness.integration_level \<Rightarrow> nat \<Rightarrow> rat \<Rightarrow> task_tool" where
  "new_dify_tool base mode level polls interval = \<lparr>tl_base = rstrip_slash base, tl_prefix = [], tl_submit = ''/tasks'',
     tl_mode = mode, tl_level = level, tl_max_polls = polls, tl_poll_interval = interval\<rparr>"

definition new_hub_tool :: "string \<Rightarrow> delegation_mode \<Rightarrow> Readiness.integration_level \<Rightarrow> nat \<Rightarrow> rat \<Rightarrow> task_tool" where
  "new_hub_tool base mode level polls interval = \<lparr>tl_base = rstrip_slash base, tl_prefix = ''/api/v1/orchestra'',
     tl_submit = ''/submit'', tl_mode = mode, tl_level = level, tl_max_polls = polls, tl_poll_interval = interval\<rparr>"

record tool_result =
  to_task_run_id :: json
  to_state :: json
  to_plan_id :: json
  to_audit_url :: string
  to_route_url :: string
  to_error :: json
  to_delegation :: json
  to_attempt :: nat
  to_duration_ms :: int

definition to_platform_output :: "tool_result \<Rightarrow> json" where
  "to_platform_output r = JObj
    [(''task_run_id'', to_task_run_id r), (''state'', to_state r), (''plan_id'', to_plan_id r),
     (''audit_url'', JStr (to_audit_url r)), (''route_url'', JStr (to_route_url r)),
     (''error'', py_or (to_error r) (JStr [])), (''attempt'', JInt (int (to_attempt r))),
     (''duration_ms'', JInt (to_duration_ms r)), (''governance'', to_delegation r)]"

datatype tool_exn =
    ToolTransport string
  | ToolStatus int                \<comment> \<open>\<open>raise_for_status\<close>\<close>
  | ToolNotJson
  | ToolKeyError string
  | ToolAttributeError
  | ToolTypeError

type_synonym ('s, 'a) tool = "('s, tool_exn, 'a) action"

text \<open>What the platform provides: text of values, \<open>f'{x:.0f}'\<close> and the monotonic clock.\<close>

record tool_env =
  te_tx :: textlib
  te_fixed0 :: "rat \<Rightarrow> string"
  te_start :: rat
  te_end :: rat

definition tool_send :: "'s http_call \<Rightarrow> http_request \<Rightarrow> ('s, http_response) tool" where
  "tool_send srv q = (\<lambda>s. case srv q s of
     (Inl e, s') \<Rightarrow> (Inl (ToolTransport e), s')
   | (Inr r, s') \<Rightarrow> (if is_success r then Inr r else Inl (ToolStatus (hr_status r)), s'))"

definition tool_json :: "'s http_call \<Rightarrow> http_request \<Rightarrow> ('s, json) tool" where
  "tool_json srv q = bindE (tool_send srv q) (\<lambda>r. case hr_json r of None \<Rightarrow> raise ToolNotJson | Some j \<Rightarrow> ok j)"

definition tool_get :: "task_tool \<Rightarrow> string \<Rightarrow> http_request" where
  "tool_get t path = \<lparr>hq_verb = ''GET'', hq_url = tl_base t @ tl_prefix t @ path, hq_headers = [], hq_json = None\<rparr>"

definition tool_post :: "task_tool \<Rightarrow> string \<Rightarrow> json \<Rightarrow> http_request" where
  "tool_post t path body = \<lparr>hq_verb = ''POST'', hq_url = tl_base t @ tl_prefix t @ path, hq_headers = [], hq_json = Some body\<rparr>"

definition task_path :: "tool_env \<Rightarrow> json \<Rightarrow> string" where
  "task_path te tid = ''/tasks/'' @ text_of (te_tx te) tid"

subsection \<open>Results\<close>

text \<open>Of the governance payload only the urls and the delegation are used, which no state reaches.\<close>

definition make_result :: "tool_env \<Rightarrow> task_tool \<Rightarrow> json \<Rightarrow> json \<Rightarrow> json \<Rightarrow> json \<Rightarrow> nat \<Rightarrow> tool_result" where
  "make_result te t tid state plan err attempt =
     (let url = (\<lambda>what. tl_base t @ tl_prefix t @ task_path te tid @ what);
          gov = governance_state_for (tl_mode t) (text_of (te_tx te) state) None (url ''/events'') (url ''/grants'') None
      in \<lparr>to_task_run_id = tid, to_state = state, to_plan_id = plan,
          to_audit_url = text_of (te_tx te) (jget_or gov ''audit_url'' JNull),
          to_route_url = text_of (te_tx te) (jget_or gov ''route_url'' JNull),
          to_error = err, to_delegation = jget_or gov ''delegation'' JNull, to_attempt = attempt,
          to_duration_ms = truncate_rat ((te_end te - te_start te) * 1000)\<rparr>)"

definition tool_terminal :: "string list" where "tool_terminal = [''succeeded'', ''failed'', ''cancelled'']"

text \<open>\<open>state in terminal\<close>, a set: an unhashable value raises.\<close>

definition in_terminal :: "json \<Rightarrow> tool_exn + bool" where
  "in_terminal v = (case v of JStr s \<Rightarrow> Inr (s \<in> set tool_terminal)
     | JList _ \<Rightarrow> Inl ToolTypeError | JObj _ \<Rightarrow> Inl ToolTypeError | _ \<Rightarrow> Inr False)"

definition need_object :: "json \<Rightarrow> tool_exn + json" where
  "need_object j = (if is_obj j then Inr j else Inl ToolAttributeError)"

subsection \<open>Submitting and polling\<close>

fun poll_task :: "tool_env \<Rightarrow> 's http_call \<Rightarrow> task_tool \<Rightarrow> json \<Rightarrow> json \<Rightarrow> nat \<Rightarrow> nat \<Rightarrow> ('s, tool_result) tool" where
  "poll_task te srv t tid initial attempt 0 =
     ok (make_result te t tid (JStr ''still-running'') JNull
       (JStr (''task did not finish within '' @ te_fixed0 te (of_nat (tl_max_polls t) * tl_poll_interval t) @ ''s''))
       (tl_max_polls t))"
| "poll_task te srv t tid initial attempt (Suc left) =
     bindE (tool_json srv (tool_get t (task_path te tid))) (\<lambda>j.
     bindE (lift (need_object j)) (\<lambda>d.
     let state = jget_or d ''state'' initial in
     bindE (lift (in_terminal state)) (\<lambda>yes.
       if yes then ok (make_result te t tid state (jget_or d ''plan_id'' JNull) (jget_or d ''error'' JNull) attempt)
       else poll_task te srv t tid initial (Suc attempt) left)))"

text \<open>\<open>data[k]\<close>: an element of an object; a value that is no object has no text keys.\<close>

definition item :: "json \<Rightarrow> string \<Rightarrow> tool_exn + json" where
  "item j k = (case j of JObj d \<Rightarrow> (case dget d k of None \<Rightarrow> Inl (ToolKeyError k) | Some v \<Rightarrow> Inr v) | _ \<Rightarrow> Inl ToolTypeError)"

definition contract_body :: "(rat \<Rightarrow> string) \<Rightarrow> string \<Rightarrow> string \<Rightarrow> string \<Rightarrow> rat \<Rightarrow> json" where
  "contract_body fmt contract_id contract_text vendor_id budget = JObj [(''contract_id'', JStr contract_id),
     (''contract_text'', JStr contract_text), (''vendor_id'', JStr vendor_id), (''budget_usd'', JFloat (fmt budget))]"

definition submit_contract :: "tool_env \<Rightarrow> 's http_call \<Rightarrow> task_tool \<Rightarrow> json \<Rightarrow> ('s, tool_result) tool" where
  "submit_contract te srv t body =
     bindE (tool_json srv (tool_post t (tl_submit t) body)) (\<lambda>j.
     bindE (lift (item j ''task_run_id'')) (\<lambda>tid.
     bindE (lift (item j ''state'')) (\<lambda>initial.
       if tl_mode t \<noteq> DM_DELEGATE_TASK
       then ok (make_result te t tid initial (jget_or j ''plan_id'' JNull) (jget_or j ''error'' JNull) 0)
       else poll_task te srv t tid initial 1 (tl_max_polls t))))"

definition dify_submit_contract :: "tool_env \<Rightarrow> (rat \<Rightarrow> string) \<Rightarrow> 's http_call \<Rightarrow> task_tool \<Rightarrow> string \<Rightarrow> string \<Rightarrow> string \<Rightarrow> rat \<Rightarrow>
    ('s, tool_result) tool" where
  "dify_submit_contract te fmt srv t contract_id contract_text vendor_id budget =
     submit_contract te srv t (contract_body fmt contract_id contract_text vendor_id budget)"

text \<open>AgenticHub's differs only by the paths of its tool.\<close>

definition hub_submit_contract :: "tool_env \<Rightarrow> (rat \<Rightarrow> string) \<Rightarrow> 's http_call \<Rightarrow> task_tool \<Rightarrow> string \<Rightarrow> string \<Rightarrow> string \<Rightarrow> rat \<Rightarrow>
    ('s, tool_result) tool" where
  "hub_submit_contract te fmt srv t contract_id contract_text vendor_id budget =
     submit_contract te srv t (contract_body fmt contract_id contract_text vendor_id budget)"

subsection \<open>Deciding\<close>

definition tool_get_state :: "'s http_call \<Rightarrow> task_tool \<Rightarrow> string \<Rightarrow> ('s, json) tool" where
  "tool_get_state srv t tid = tool_json srv (tool_get t (''/tasks/'' @ tid))"

definition sent :: "'s http_call \<Rightarrow> http_request \<Rightarrow> ('s, unit) tool" where
  "sent srv q = bindE (tool_send srv q) (\<lambda>_. ok ())"

definition dify_approve :: "'s http_call \<Rightarrow> task_tool \<Rightarrow> string \<Rightarrow> string \<Rightarrow> string \<Rightarrow> ('s, unit) tool" where
  "dify_approve srv t tid who why = sent srv (tool_post t (''/tasks/'' @ tid @ ''/approve'')
     (JObj [(''decided_by'', JStr who), (''rationale'', JStr why)]))"

definition dify_reject :: "'s http_call \<Rightarrow> task_tool \<Rightarrow> string \<Rightarrow> string \<Rightarrow> string \<Rightarrow> ('s, unit) tool" where
  "dify_reject srv t tid who why = sent srv (tool_post t (''/tasks/'' @ tid @ ''/reject'')
     (JObj [(''decided_by'', JStr who), (''rationale'', JStr why)]))"

definition hub_decide :: "'s http_call \<Rightarrow> task_tool \<Rightarrow> string \<Rightarrow> string \<Rightarrow> string \<Rightarrow> string \<Rightarrow> ('s, unit) tool" where
  "hub_decide srv t tid decision who why = sent srv (tool_post t (''/tasks/'' @ tid @ ''/decide'')
     (JObj [(''decision'', JStr decision), (''decided_by'', JStr who), (''rationale'', JStr why)]))"

definition hub_approve :: "'s http_call \<Rightarrow> task_tool \<Rightarrow> string \<Rightarrow> string \<Rightarrow> string \<Rightarrow> ('s, unit) tool" where
  "hub_approve srv t tid who why = hub_decide srv t tid ''approve'' who why"

definition hub_reject :: "'s http_call \<Rightarrow> task_tool \<Rightarrow> string \<Rightarrow> string \<Rightarrow> string \<Rightarrow> ('s, unit) tool" where
  "hub_reject srv t tid who why = hub_decide srv t tid ''reject'' who why"

subsection \<open>What a submission sends and returns\<close>

text \<open>A server that remembers what it was asked.\<close>

definition logged :: "'s http_call \<Rightarrow> ('s \<times> http_request list) http_call" where
  "logged srv q = (\<lambda>(s, l). case srv q s of (a, s') \<Rightarrow> (a, (s', l @ [q])))"

lemma tool_json_logged: "\<exists>x s'. tool_json (logged srv) q (s, l) = (x, (s', l @ [q]))"
  by (cases "srv q s") (auto simp: tool_json_def tool_send_def logged_def bindE_def raise_def ok_def split: sum.split option.split)

lemma result_fields [simp]:
  "to_attempt (make_result te t tid st plan err n) = n" "to_state (make_result te t tid st plan err n) = st"
  "to_task_run_id (make_result te t tid st plan err n) = tid"
  "to_delegation (make_result te t tid st plan err n) = delegation_dict (contract_for_mode (tl_mode t))"
  by (simp_all add: make_result_def governance_state_for_def dget_default_def Let_def)

definition polled_result :: "task_tool \<Rightarrow> json \<Rightarrow> tool_result \<Rightarrow> bool" where
  "polled_result t tid r \<longleftrightarrow> to_task_run_id r = tid \<and>
     to_delegation r = delegation_dict (contract_for_mode (tl_mode t)) \<and>
     (to_state r \<in> JStr ` set tool_terminal \<or> to_state r = JStr ''still-running'' \<and> to_attempt r = tl_max_polls t)"

lemma poll_task_logged:
  assumes "poll_task te (logged srv) t tid initial n left (s, l) = (Inr r, (s', l'))" "n + left = Suc (tl_max_polls t)"
  shows "polled_result t tid r \<and> n \<le> Suc (to_attempt r) \<and> to_attempt r \<le> tl_max_polls t \<and>
    l' = l @ replicate (Suc (to_attempt r) - n) (tool_get t (task_path te tid))"
  using assms
proof (induction left arbitrary: n s l)
  case 0
  then show ?case by (auto simp: ok_def polled_result_def)
next
  case (Suc left)
  let ?q = "tool_get t (task_path te tid)"
  obtain x s1 where sent: "tool_json (logged srv) ?q (s, l) = (x, (s1, l @ [?q]))"
    using tool_json_logged [of srv ?q s l] by auto
  with Suc.prems obtain j yes where j: "x = Inr j" "need_object j = Inr j" "in_terminal (jget_or j ''state'' initial) = Inr yes"
    by (auto simp: bindE_def lift_def need_object_def Let_def split: sum.splits if_splits)
  show ?case
  proof (cases yes)
    case True
    with Suc.prems sent j have r: "r = make_result te t tid (jget_or j ''state'' initial) (jget_or j ''plan_id'' JNull) (jget_or j ''error'' JNull) n"
      "l' = l @ [?q]" by (auto simp: bindE_def lift_def ok_def Let_def)
    moreover have "jget_or j ''state'' initial \<in> JStr ` set tool_terminal"
      using j(3) True by (auto simp: in_terminal_def split: json.splits)
    ultimately show ?thesis using Suc.prems(2) by (simp add: polled_result_def)
  next
    case False
    with Suc.prems sent j have "poll_task te (logged srv) t tid initial (Suc n) left (s1, l @ [?q]) = (Inr r, (s', l'))"
      by (simp add: bindE_def lift_def Let_def)
    from Suc.IH [OF this] Suc.prems(2) show ?thesis by (auto simp: Suc_diff_le replicate_app_Cons_same)
  qed
qed

text \<open>
  C32. What a submission does: it posts the contract once and never again, and, only if the task is
  delegated, asks for its status at most as often as it may; the result names the task, its
  state is final or says that it is still running after the last poll, and it carries the
  contract of the mode.
\<close>

theorem submission_trace:
  assumes "submit_contract te (logged srv) t body (s, []) = (Inr r, (s', asked))"
  shows "\<exists>tid. asked = tool_post t (tl_submit t) body # replicate (to_attempt r) (tool_get t (task_path te tid)) \<and>
    to_attempt r \<le> tl_max_polls t \<and>
    (if tl_mode t = DM_DELEGATE_TASK then polled_result t tid r
     else to_attempt r = 0 \<and> to_task_run_id r = tid \<and> to_delegation r = delegation_dict (contract_for_mode (tl_mode t)))"
proof -
  let ?p = "tool_post t (tl_submit t) body"
  obtain x s1 where sent: "tool_json (logged srv) ?p (s, []) = (x, (s1, [?p]))"
    using tool_json_logged [of srv ?p s "[]"] by auto
  with assms obtain j tid initial where j: "x = Inr j" "item j ''task_run_id'' = Inr tid" "item j ''state'' = Inr initial"
    by (auto simp: submit_contract_def bindE_def lift_def split: sum.splits)
  show ?thesis
  proof (cases "tl_mode t = DM_DELEGATE_TASK")
    case True
    with assms sent j have "poll_task te (logged srv) t tid initial 1 (tl_max_polls t) (s1, [?p]) = (Inr r, (s', asked))"
      by (simp add: submit_contract_def bindE_def lift_def)
    from poll_task_logged [OF this] True show ?thesis by (intro exI [of _ tid]) auto
  next
    case False
    with assms sent j show ?thesis by (intro exI [of _ tid]) (auto simp: submit_contract_def bindE_def lift_def ok_def)
  qed
qed

subsection \<open>A rejection that approves\<close>

lemma decision_in_payload:
  assumes "decide_approval env tid nid decision who why w = (r, w')" "dget (w_approvals w) (tid, nid) = Some b"
    and "\<not> bk_set b" "dget (w_approvals w') (tid, nid) = Some b'" "bk_set b'"
  shows "dget (bk_payload b') ''decision'' = Some (JStr decision)"
proof -
  have same: "w_approvals v = w_approvals u" if "decide_row env aid decision who tenant why u = (x, v)" for aid tenant u x v
    using that by (auto simp: decide_row_def bindE_def new_uuid_def now_def split: sum.splits prod.splits)
  obtain x v where row: "\<And>aid tenant. bucket_approval_id b = Some aid \<Longrightarrow> service_tenant env = Some tenant \<Longrightarrow>
      decide_row env aid decision who tenant why w = (x, v)"
    by (metis option.inject prod.exhaust)
  show ?thesis
  proof (cases "service_tenant env = None \<or> bucket_approval_id b = None")
    case True
    then show ?thesis using assms
      by (auto simp: decide_approval_def bindE_def gets_def now_def seqE_def put_payload_def wake_def try_db_def new_uuid_def
          bucket_prog_def modify_def decision_fields_def dict_simps dmerge_def split: option.splits sum.splits)
  next
    case False
    then obtain aid tenant where at: "bucket_approval_id b = Some aid" "service_tenant env = Some tenant" by auto
    with row have "decide_row env aid decision who tenant why w = (x, v)" by blast
    with assms at same [OF this] show ?thesis
      by (auto simp: decide_approval_def bindE_def gets_def now_def seqE_def put_payload_def wake_def ok_def
          bucket_prog_def modify_def decision_fields_def dict_simps dmerge_def split: option.splits sum.splits approval_outcome.splits)
  qed
qed

lemma approval_body_fields:
  "approval_body (Some (JObj [(''decided_by'', JStr who), (''rationale'', JStr why)])) = Some (who, why)"
  "approval_body (Some (JObj [(''decision'', JStr d), (''decided_by'', JStr who), (''rationale'', JStr why)])) = Some (who, why)"
  by (simp_all add: approval_body_def text_field_def)

definition is_hub_tool :: "task_tool \<Rightarrow> bool" where "is_hub_tool t \<longleftrightarrow> tl_prefix t = ''/api/v1/orchestra''"

lemma hub_decide_served:
  assumes "is_hub_tool t" "plain_id tid"
  shows "snd (hub_decide (task_server g (tl_base t) rest) t tid decision who why s) = snd (approve_task (sg_env g) tid who why s)"
proof -
  let ?j = "Some (JObj [(''decision'', JStr decision), (''decided_by'', JStr who), (''rationale'', JStr why)])"
  obtain out s' where run: "ah_decide (sg_env g) tid who why s = (out, s')" by force
  then have "deciding g ?j (ah_decide (sg_env g) tid) s = (out, s')" by (simp add: deciding_def approval_body_fields)
  from serve_hub_decide [OF assms(2) this, of "tl_base t" rest "[]"] ah_decide_approves [of "sg_env g" tid who why s] run assms(1)
  show ?thesis
    by (simp add: hub_decide_def sent_def tool_send_def tool_post_def is_hub_tool_def bindE_def ok_def split: sum.split)
qed

lemma approve_task_world:
  "ta_world (snd (approve_task env tid who why s)) = snd (decide_approval env tid ''human_approval'' ''approve'' who why (ta_world s))"
  by (auto simp: approve_task_def decide_task_def in_world_def seqE_def bindE_def ok_def split: prod.split sum.split)

text \<open>
  C23. A host that rejects through the AgenticHub tool approves: against the application's own server
  the two calls leave the same state, the one approving leaves, and if the waiting gate is woken
  by the rejection, the run behind it reads an approval.
\<close>

theorem hub_rejection_approves:
  assumes "is_hub_tool t" "plain_id tid" "hub_reject (task_server g (tl_base t) rest) t tid who why s = (r, s')"
  shows "s' = snd (approve_task (sg_env g) tid who why s) \<and>
    s' = snd (hub_approve (task_server g (tl_base t) rest) t tid who why s) \<and>
    (dget (w_approvals (ta_world s)) (tid, ''human_approval'') = Some b \<and> \<not> bk_set b \<and>
     dget (w_approvals (ta_world s')) (tid, ''human_approval'') = Some b' \<and> bk_set b' \<longrightarrow> approved (bk_payload b'))"
proof -
  have s': "s' = snd (approve_task (sg_env g) tid who why s)"
    using hub_decide_served [OF assms(1,2), of g rest "''reject''" who why s] assms(3) by (simp add: hub_reject_def)
  moreover have "s' = snd (hub_approve (task_server g (tl_base t) rest) t tid who why s)"
    unfolding s' hub_approve_def hub_decide_served [OF assms(1,2)] ..
  moreover have "approved (bk_payload b')"
    if "dget (w_approvals (ta_world s)) (tid, ''human_approval'') = Some b" "\<not> bk_set b"
      "dget (w_approvals (ta_world s')) (tid, ''human_approval'') = Some b'" "bk_set b'"
    using decision_in_payload [OF _ that(1,2), of "sg_env g" "''approve''" who why _ "ta_world s'" b'] that(3,4)
    unfolding s' approve_task_world by (metis approved_def prod.collapse)
  ultimately show ?thesis by blast
qed

subsection \<open>Witnesses\<close>

definition ex_tool_env :: tool_env where
  "ex_tool_env = \<lparr>te_tx = ex_textlib, te_fixed0 = (\<lambda>_. ''60''), te_start = 0, te_end = 1\<rparr>"

definition ex_tool_server :: "unit http_call" where
  "ex_tool_server q s = (Inr \<lparr>hr_status = 200, hr_text = [],
     hr_json = Some (JObj [(''task_run_id'', JStr ''t''), (''state'', JStr ''failed'')])\<rparr>, s)"

definition ex_dify_tool :: task_tool where "ex_dify_tool = new_dify_tool ''http://h/'' DM_DELEGATE_TASK IL_ENFORCE 60 1"
definition ex_hub_tool :: task_tool where "ex_hub_tool = new_hub_tool ''http://h/'' DM_DELEGATE_TASK IL_ENFORCE 60 1"

lemmas ex_tool_run = submit_contract_def bindE_def lift_def ok_def tool_json_def tool_send_def logged_def ex_tool_server_def
  is_success_def item_def need_object_def in_terminal_def tool_terminal_def ex_dify_tool_def new_dify_tool_def eval_nat_numeral Let_def

theorem submission_trace_witness:
  "\<exists>r l. submit_contract ex_tool_env (logged ex_tool_server) ex_dify_tool (JObj []) ((), []) = (Inr r, ((), l)) \<and>
    to_attempt r = 1 \<and> length l = 2"
proof -
  let ?b = "JObj [] :: json"
  have "\<exists>r l. submit_contract ex_tool_env (logged ex_tool_server) ex_dify_tool ?b ((), []) = (Inr r, ((), l)) \<and> to_attempt r = 1"
    by (simp add: ex_tool_run dget_default_def)
  then obtain r l where run: "submit_contract ex_tool_env (logged ex_tool_server) ex_dify_tool ?b ((), []) = (Inr r, ((), l))"
    "to_attempt r = 1" by blast
  from submission_trace [OF run(1)] run(2) have "length l = 2" by auto
  with run show ?thesis by blast
qed

definition ex_waiting_app :: task_app where
  "ex_waiting_app = ex_driven_app\<lparr>ta_world := ex_world\<lparr>w_approvals :=
     [((''t'', ''human_approval''), \<lparr>bk_set = False, bk_requested_at = 0, bk_payload = []\<rparr>)]\<rparr>\<rparr>"

theorem hub_rejection_approves_witness:
  "\<exists>s' b'. snd (hub_reject (task_server ex_serving (tl_base ex_hub_tool) ex_no_rest) ex_hub_tool ''t'' ''alice'' ''no'' ex_waiting_app) = s' \<and>
    dget (w_approvals (ta_world s')) (''t'', ''human_approval'') = Some b' \<and> bk_set b' \<and> approved (bk_payload b')"
proof -
  let ?s = "snd (hub_reject (task_server ex_serving (tl_base ex_hub_tool) ex_no_rest) ex_hub_tool ''t'' ''alice'' ''no'' ex_waiting_app)"
  let ?key = "(''t'', ''human_approval'')"
  have tool: "is_hub_tool ex_hub_tool" "plain_id ''t''" by (simp_all add: is_hub_tool_def ex_hub_tool_def new_hub_tool_def plain_id_def)
  note result = hub_rejection_approves [OF tool prod.collapse [symmetric], of ex_serving ex_no_rest "''alice''" "''no''" ex_waiting_app
      "\<lparr>bk_set = False, bk_requested_at = 0, bk_payload = []\<rparr>"]
  have before: "dget (w_approvals (ta_world ex_waiting_app)) ?key = Some \<lparr>bk_set = False, bk_requested_at = 0, bk_payload = []\<rparr>"
    by (simp add: ex_waiting_app_def)
  have "ta_world ?s = snd (decide_approval ex_env ''t'' ''human_approval'' ''approve'' ''alice'' ''no'' (ta_world ex_waiting_app))"
    using result by (simp add: approve_task_world ex_serving_def)
  then have "\<exists>b'. dget (w_approvals (ta_world ?s)) ?key = Some b' \<and> bk_set b'"
    by (simp add: ex_waiting_app_def ex_world_def ex_env_def decide_approval_def bindE_def gets_def now_def seqE_def put_payload_def
        wake_def try_db_def new_uuid_def bucket_prog_def modify_def dict_simps service_tenant_def nonempty_def bucket_approval_id_def
        save_approval_def insert_row_def empty_db_def)
  then show ?thesis using result before by auto
qed

end
