(* ===== verification/Opa.thy ===== *)
theory Opa
  imports Http Registry
begin

section \<open>Decision points\<close>

text \<open>
  \<open>orchestra/opa/interface.py\<close>: the policy decision point in the process and the client of an Open
  Policy Agent. The agent is a function of the url and the body it gets; what it returns, if it
  returns, is a response. What the client raises is the left summand: the header of the source says
  that callers treat it as a refusal, which no caller in the repository does.
\<close>

subsection \<open>In the process\<close>

definition in_process_pdp :: "policy_rule list option \<Rightarrow> policy_ctx \<Rightarrow> policy_decision" where
  "in_process_pdp rules = decide (case rules of None \<Rightarrow> default_p0_rules | Some rs \<Rightarrow> rs)"

subsection \<open>The agent\<close>

record opa_config =
  oc_base_url :: string
  oc_package :: string
  oc_timeout_seconds :: rat
  oc_kid :: string

definition default_opa_config :: opa_config where
  "default_opa_config = \<lparr>oc_base_url = ''http://127.0.0.1:8181'', oc_package = ''orchestra'', oc_timeout_seconds = 2,
     oc_kid = ''p1-opa-key''\<rparr>"

datatype opa_unavailable =
    OpaHttpError string
  | OpaStatus int string
  | OpaNotJson
  | OpaShape json

type_synonym opa_agent = "string \<Rightarrow> json \<Rightarrow> string + http_response"

definition opa_input :: "platform \<Rightarrow> policy_ctx \<Rightarrow> json" where
  "opa_input pf c = JObj [(''input'', JObj
    [(''node_id'', JStr (pc_node_id c)), (''node_requires_approval'', JBool (pc_node_requires_approval c)),
     (''node_eligible_kinds'', str_list (map kind_value (pc_node_eligible_kinds c))),
     (''node_effects'', JList (map effect_to_json (pc_node_effects c))),
     (''capability_id'', JStr (pc_capability_id c)), (''capability_kind'', JStr (kind_value (pc_capability_kind c))),
     (''capability_effects'', JList (map effect_to_json (pc_capability_effects c))),
     (''data_classification'', JStr (classification_value (pc_data_classification c))),
     (''data_residency'', JStr (pc_data_residency c)), (''purpose_code'', JStr (pc_purpose_code c)),
     (''region'', JStr (pc_region c)), (''budget_remaining_usd'', JFloat (float_repr pf (pc_budget_remaining_usd c)))])]"

text \<open>Reading the result of a body without the method \<open>get\<close> raises inside the same \<open>try\<close>.\<close>

definition opa_result :: "http_response \<Rightarrow> opa_unavailable + json" where
  "opa_result r = (case hr_json r of
     Some (JObj d) \<Rightarrow> Inr (dget_default d ''result'' (JObj [])) | _ \<Rightarrow> Inl OpaNotJson)"

definition opa_decision :: "textlib \<Rightarrow> json \<Rightarrow> opa_unavailable + policy_decision" where
  "opa_decision tx data = (case data of
     JObj d \<Rightarrow> (case dget d ''allow'' of
         None \<Rightarrow> Inl (OpaShape data)
       | Some v \<Rightarrow> let text = (\<lambda>k. text_of tx (dget_default d k (JStr [])))
           in Inr \<lparr>pd_allow = truthy v, pd_reason = text ''reason'', pd_invariant = text ''invariant'',
                   pd_rule_id = text ''rule_id''\<rparr>)
   | _ \<Rightarrow> Inl (OpaShape data))"

definition opa_decide :: "platform \<Rightarrow> textlib \<Rightarrow> opa_config \<Rightarrow> opa_agent \<Rightarrow> policy_ctx \<Rightarrow> opa_unavailable + policy_decision" where
  "opa_decide pf tx cfg agent c =
     (case agent (oc_base_url cfg @ ''/v1/data/'' @ oc_package cfg @ ''/allow'') (opa_input pf c) of
        Inl e \<Rightarrow> Inl (OpaHttpError e)
      | Inr r \<Rightarrow> if hr_status r \<noteq> 200 then Inl (OpaStatus (hr_status r) (text_prefix (hr_text r) 200))
          else bindS (opa_result r) (opa_decision tx))"

text \<open>\<open>health\<close> reports any status; only a transport error raises.\<close>

definition opa_health :: "opa_config \<Rightarrow> (string \<Rightarrow> string + http_response) \<Rightarrow> opa_unavailable + json" where
  "opa_health cfg get = (case get (oc_base_url cfg @ ''/health'') of
     Inl e \<Rightarrow> Inl (OpaHttpError e)
   | Inr r \<Rightarrow> Inr (JObj [(''status_code'', JInt (hr_status r)), (''body'', JStr (text_prefix (hr_text r) 200))]))"

subsection \<open>What it takes to allow\<close>

text \<open>The decision of a rule of the agent: an object with a value for \<open>allow\<close>.\<close>

definition agent_says :: "http_response \<Rightarrow> json \<Rightarrow> bool" where
  "agent_says r v \<longleftrightarrow> hr_status r = 200 \<and> (\<exists>d res. hr_json r = Some (JObj d) \<and> dget d ''result'' = Some (JObj res) \<and>
     dget res ''allow'' = Some v)"

text \<open>
  C28. The client fails closed: it decides only if the agent answered with status 200 and a result
  that says whether to allow, and it allows only if that value is true for Python, which any text
  that is not empty is, \<open>false\<close> too. Everything else raises.
\<close>

theorem opa_fails_closed:
  "case opa_decide pf tx cfg agent c of
     Inr d \<Rightarrow> \<exists>r v. agent (oc_base_url cfg @ ''/v1/data/'' @ oc_package cfg @ ''/allow'') (opa_input pf c) = Inr r \<and>
       agent_says r v \<and> pd_allow d = truthy v
   | Inl e \<Rightarrow> \<nexists>r v. agent (oc_base_url cfg @ ''/v1/data/'' @ oc_package cfg @ ''/allow'') (opa_input pf c) = Inr r \<and> agent_says r v"
proof -
  let ?answer = "agent (oc_base_url cfg @ ''/v1/data/'' @ oc_package cfg @ ''/allow'') (opa_input pf c)"
  have read: "(\<exists>d. bindS (opa_result r) (opa_decision tx) = Inr d \<and> pd_allow d = truthy v)" if "agent_says r v" for r v
    using that by (auto simp: agent_says_def opa_result_def opa_decision_def bindS_def dget_default_def)
  have says: "\<exists>v. agent_says r v" if "hr_status r = 200" "bindS (opa_result r) (opa_decision tx) = Inr d" for r d
    using that by (auto simp: agent_says_def opa_result_def opa_decision_def bindS_def dget_default_def
        split: option.splits json.splits)
  show ?thesis
  proof (cases ?answer)
    case (Inl e)
    then show ?thesis by (simp add: opa_decide_def)
  next
    case (Inr r)
    show ?thesis
    proof (cases "opa_decide pf tx cfg agent c")
      case (Inl e)
      have False if "agent_says r v" for v
        using read [OF that] that Inl Inr by (auto simp: opa_decide_def agent_says_def)
      with Inl Inr show ?thesis by auto
    next
      case decided: (Inr d)
      with Inr have ok: "hr_status r = 200" "bindS (opa_result r) (opa_decision tx) = Inr d"
        by (auto simp: opa_decide_def split: if_splits)
      obtain v where v: "agent_says r v" using says [OF ok] by blast
      with read [OF v] ok(2) Inr decided show ?thesis by auto
    qed
  qed
qed

text \<open>So an agent that answers with the text \<open>false\<close> allows.\<close>

lemma false_text_allows:
  "agent u b = Inr \<lparr>hr_status = 200, hr_text = t, hr_json = Some (JObj [(''result'', JObj [(''allow'', JStr ''false'')])])\<rparr> \<Longrightarrow>
   u = oc_base_url cfg @ ''/v1/data/'' @ oc_package cfg @ ''/allow'' \<Longrightarrow> b = opa_input pf c \<Longrightarrow>
   \<exists>d. opa_decide pf tx cfg agent c = Inr d \<and> pd_allow d"
  by (simp add: opa_decide_def opa_result_def opa_decision_def bindS_def dget_default_def Let_def)

text \<open>The agent is not told where a capability runs.\<close>

lemma endpoint_not_sent: "opa_input pf (c\<lparr>pc_capability_endpoint := e\<rparr>) = opa_input pf c"
  by (simp add: opa_input_def)

end
