(* ===== verification/Extractor.thy ===== *)
theory Extractor
  imports Egress
begin

section \<open>The local extractor\<close>

text \<open>
  \<open>extract_facts_locally\<close> of \<open>orchestra/adapters/local_model.py\<close>: eight regular expressions over the
  text of a contract. A pattern here is a list of items that match from left to right, the longest
  repetition first and the alternatives in their order, as Python's matcher does; what the last items
  match is the group. Letters match regardless of case. Which characters are decimal digits is the
  Unicode table's, an argument.
\<close>

subsection \<open>Characters\<close>

text \<open>The code point of a character given as its UTF-8 bytes.\<close>

definition code_point :: "string \<Rightarrow> nat" where
  "code_point ch = (case map (\<lambda>c. of_char c :: nat) ch of
     [a] \<Rightarrow> a
   | [a, b] \<Rightarrow> (a - 192) * 64 + (b - 128)
   | [a, b, c] \<Rightarrow> ((a - 224) * 64 + (b - 128)) * 64 + (c - 128)
   | [a, b, c, d] \<Rightarrow> (((a - 240) * 64 + (b - 128)) * 64 + (c - 128)) * 64 + (d - 128)
   | _ \<Rightarrow> 0)"

text \<open>\<open>re.IGNORECASE\<close> on a letter: its two cases and the four letters beyond ASCII that match one.\<close>

definition fold_case :: "nat \<Rightarrow> nat" where
  "fold_case n = (if 65 \<le> n \<and> n \<le> 90 then n + 32 else if n \<in> {304, 305} then 105
     else if n = 383 then 115 else if n = 8490 then 107 else n)"

definition re_space :: "nat \<Rightarrow> bool" where
  "re_space n \<longleftrightarrow> n \<in> {9, 10, 11, 12, 13, 28, 29, 30, 31, 32, 133, 160, 5760, 8232, 8233, 8239, 8287, 12288} \<or>
     8192 \<le> n \<and> n \<le> 8202"

subsection \<open>Patterns\<close>

datatype item = Rep "nat \<Rightarrow> bool" nat "nat option" | Alt "item list list"

text \<open>The counts from \<open>n\<close> down to \<open>lo\<close>.\<close>

fun first_count :: "nat \<Rightarrow> nat \<Rightarrow> (nat \<Rightarrow> 'a option) \<Rightarrow> 'a option" where
  "first_count lo n f = (if n < lo then None else case f n of Some x \<Rightarrow> Some x
     | None \<Rightarrow> (case n of 0 \<Rightarrow> None | Suc m \<Rightarrow> first_count lo m f))"

declare first_count.simps [simp del]

definition run_length :: "(nat \<Rightarrow> bool) \<Rightarrow> nat option \<Rightarrow> string list \<Rightarrow> nat" where
  "run_length p hi cs = (let n = length (takeWhile (\<lambda>c. p (code_point c)) cs) in case hi of None \<Rightarrow> n | Some h \<Rightarrow> min n h)"

function match_items :: "item list \<Rightarrow> string list \<Rightarrow> (string list \<Rightarrow> 'a option) \<Rightarrow> 'a option"
  and match_alts :: "item list list \<Rightarrow> item list \<Rightarrow> string list \<Rightarrow> (string list \<Rightarrow> 'a option) \<Rightarrow> 'a option" where
  "match_items [] cs k = k cs"
| "match_items (Rep p lo hi # is) cs k = first_count lo (run_length p hi cs) (\<lambda>n. match_items is (drop n cs) k)"
| "match_items (Alt bs # is) cs k = match_alts bs is cs k"
| "match_alts [] is cs k = None"
| "match_alts (b # bs) is cs k = (case match_items b cs (\<lambda>rest. match_items is rest k) of
     Some x \<Rightarrow> Some x | None \<Rightarrow> match_alts bs is cs k)"
  by pat_completeness auto
termination
  by (relation "measure (\<lambda>x. case x of Inl (is, _, _) \<Rightarrow> size_list size is
        | Inr (bs, is, _, _) \<Rightarrow> size_list (size_list size) bs + size_list size is)") auto

text \<open>The text of the group after the items before it, at the first place of the text where both match.\<close>

definition match_group :: "item list \<Rightarrow> item list \<Rightarrow> string list \<Rightarrow> string list option" where
  "match_group pre grp cs = match_items pre cs (\<lambda>rest. match_items grp rest
     (\<lambda>rest'. Some (take (length rest - length rest') rest)))"

fun search_group :: "item list \<Rightarrow> item list \<Rightarrow> string list \<Rightarrow> string list option" where
  "search_group pre grp [] = match_group pre grp []"
| "search_group pre grp (c # cs) = (case match_group pre grp (c # cs) of Some x \<Rightarrow> Some x | None \<Rightarrow> search_group pre grp cs)"

subsection \<open>The field patterns\<close>

definition word :: "nat list \<Rightarrow> item list" where
  "word ns = map (\<lambda>n. Rep (\<lambda>c. fold_case c = fold_case n) 1 (Some 1)) ns"

definition ascii :: "string \<Rightarrow> item list" where
  "ascii s = word (map (\<lambda>c. of_char c) s)"

definition opt_item :: "item list \<Rightarrow> item" where "opt_item b = Alt [b, []]"

text \<open>\<open>[:\s]*\<close> with the full-width colon, and \<open>[^\n,...]+\<close> with the full-width stops.\<close>

definition separators :: item where "separators = Rep (\<lambda>n. n = 65306 \<or> n = 58 \<or> re_space n) 0 None"
definition to_stop :: item where "to_stop = Rep (\<lambda>n. n \<notin> {10, 44, 65292, 12290, 65307, 59}) 1 None"
definition in_line :: "nat \<Rightarrow> nat \<Rightarrow> item" where "in_line lo hi = Rep (\<lambda>n. n \<noteq> 10) lo (Some hi)"

definition date_items :: "(nat \<Rightarrow> bool) \<Rightarrow> item list" where
  "date_items decimal = [Rep decimal 4 (Some 4), Rep (\<lambda>n. n \<in> {45, 47, 24180, 46}) 1 (Some 1), Rep decimal 1 (Some 2),
     Rep (\<lambda>n. n \<in> {45, 47, 26376, 46}) 1 (Some 1), Rep decimal 1 (Some 2)]"

definition amount_items :: "item list" where
  "amount_items = [Rep (\<lambda>n. 48 \<le> n \<and> n \<le> 57) 1 (Some 1), Rep (\<lambda>n. 48 \<le> n \<and> n \<le> 57 \<or> n \<in> {44, 46}) 0 None,
     Rep re_space 0 None, opt_item [Alt [word [19975], word [21315], word [30334], ascii ''million'', ascii ''billion'']]]"

definition currency :: item where
  "currency = opt_item [Alt [ascii ''RMB'', ascii ''CNY'', ascii ''USD'', ascii ''$'', word [165], word [8364]]]"

definition field_patterns :: "(nat \<Rightarrow> bool) \<Rightarrow> (string \<times> item list \<times> item list) list" where
  "field_patterns decimal =
    [(''vendor_name'', [Alt [word [20379, 24212, 21830], ascii ''Seller'', ascii '' Vendor'', ascii '' Supplier''], separators], [to_stop]),
     (''buyer_name'', [Alt [word [37319, 36141, 26041], ascii ''Buyer'', ascii '' Purchaser'', ascii '' Customer''], separators], [to_stop]),
     (''contract_amount'', [Alt [word [21512, 21516, 37329, 39069], word [24635, 39069], ascii ''Total Amount'', ascii '' Contract Value''],
        separators, currency, Rep re_space 0 None], amount_items),
     (''payment_terms'', [Alt [word [20184, 27454, 26465, 27454], word [36134, 26399], ascii ''Payment Terms'',
        ascii '' Net'' @ [Rep re_space 0 None, Rep decimal 1 None]], separators], [in_line 4 80]),
     (''effective_date'', [Alt [word [29983, 25928, 26085, 26399], ascii ''Effective Date'', ascii ''Start Date''], separators], date_items decimal),
     (''expiration_date'', [Alt [word [21040, 26399, 26085, 26399], word [32456, 27490, 26085, 26399], ascii ''Expiration'', ascii ''End Date''],
        separators], date_items decimal),
     (''termination_clause'', [Alt [word [36829, 32422, 36131, 20219], word [32456, 27490, 26465, 27454], ascii ''Termination''], separators],
        [in_line 6 160]),
     (''jurisdiction'', [Alt [word [31649, 36758], word [36866, 29992, 27861, 24459], ascii ''Governing Law'', ascii ''Jurisdiction''], separators],
        [to_stop])]"

subsection \<open>The facts\<close>

definition strip_chars :: "string list \<Rightarrow> string list" where
  "strip_chars cs = (let blank = (\<lambda>c. re_space (code_point c)) in rev (dropWhile blank (rev (dropWhile blank cs))))"

definition extracted :: "(nat \<Rightarrow> bool) \<Rightarrow> string \<Rightarrow> (string \<times> string) list" where
  "extracted decimal contract_text = List.map_filter (\<lambda>(name, pre, grp).
     map_option (\<lambda>g. (name, concat (strip_chars g))) (search_group pre grp (utf8_chars contract_text))) (field_patterns decimal)"

definition count_zh :: "string \<Rightarrow> nat" where
  "count_zh s = length (filter (\<lambda>c. 19968 \<le> code_point c \<and> code_point c \<le> 40959) (utf8_chars s))"

definition extract_facts_locally :: "(nat \<Rightarrow> bool) \<Rightarrow> string \<Rightarrow> (string, json) dict" where
  "extract_facts_locally decimal contract_text =
     map (\<lambda>(k, v). (k, JStr v)) (extracted decimal contract_text) @
     [(''_length_chars'', JInt (text_length contract_text)), (''_word_count_zh'', JInt (int (count_zh contract_text)))]"

subsection \<open>Facts are quotations\<close>

lemma first_count_Some: "first_count lo n f = Some x \<Longrightarrow> \<exists>i. lo \<le> i \<and> i \<le> n \<and> f i = Some x"
proof (induction n)
  case 0
  then show ?case unfolding first_count.simps [of lo 0 f] by (auto split: if_splits option.splits)
next
  case (Suc n)
  then show ?case unfolding first_count.simps [of lo "Suc n" f]
    by (auto split: if_splits option.splits intro: le_SucI exI [of _ "Suc n"])
qed

text \<open>A match ends somewhere further on in the text, and what follows accepts the rest.\<close>

lemma match_continues:
  "match_items is cs k = Some x \<Longrightarrow> \<exists>n \<le> length cs. k (drop n cs) = Some x"
  "match_alts bs is cs k = Some x \<Longrightarrow> \<exists>n \<le> length cs. k (drop n cs) = Some x"
proof (induction "is" cs k and bs "is" cs k rule: match_items_match_alts.induct)
  case (1 cs k)
  then show ?case by (intro exI [of _ 0]) simp
next
  case (2 p lo hi "is" cs k)
  obtain i where i: "i \<le> run_length p hi cs" "match_items is (drop i cs) k = Some x"
    using first_count_Some [of lo "run_length p hi cs" "\<lambda>n. match_items is (drop n cs) k" x] 2(2) by auto
  from 2(1) [OF i(2)] obtain n where n: "n \<le> length (drop i cs)" "k (drop n (drop i cs)) = Some x" by blast
  have "i \<le> length cs"
    using i(1) length_takeWhile_le [of "\<lambda>c. p (code_point c)" cs] by (auto simp: run_length_def Let_def split: option.splits)
  with n show ?case by (intro exI [of _ "i + n"]) (simp add: add.commute)
next
  case (5 b bs "is" cs k)
  show ?case
  proof (cases "match_items b cs (\<lambda>rest. match_items is rest k)")
    case None
    with 5 show ?thesis by simp
  next
    case (Some y)
    with 5(4) have "y = x" by simp
    from 5(2) [OF Some [unfolded this]] obtain n where n: "n \<le> length cs" "match_items is (drop n cs) k = Some x" by blast
    from 5(1) [OF n(2)] obtain m where "m \<le> length (drop n cs)" "k (drop m (drop n cs)) = Some x" by blast
    with n show ?thesis by (intro exI [of _ "n + m"]) (simp add: add.commute)
  qed
qed simp_all

lemma match_group_quotes:
  assumes "match_group pre grp cs = Some g"
  shows "\<exists>a b. cs = a @ g @ b"
proof -
  obtain n where n: "match_items grp (drop n cs) (\<lambda>rest'. Some (take (length (drop n cs) - length rest') (drop n cs))) = Some g"
    using match_continues(1) [OF assms [unfolded match_group_def]] by blast
  from match_continues(1) [OF this] obtain m where "g = take (length (drop n cs) - length (drop m (drop n cs))) (drop n cs)" by auto
  then have "cs = take n cs @ g @ drop (length (drop n cs) - length (drop m (drop n cs))) (drop n cs)"
    by (metis append_take_drop_id)
  then show ?thesis by blast
qed

lemma search_group_quotes: "search_group pre grp cs = Some g \<Longrightarrow> \<exists>a b. cs = a @ g @ b"
proof (induction pre grp cs rule: search_group.induct)
  case (1 pre grp)
  then show ?case using match_group_quotes by fastforce
next
  case (2 pre grp c cs)
  show ?case
  proof (cases "match_group pre grp (c # cs)")
    case None
    with 2 obtain a b where "cs = a @ g @ b" by auto
    then show ?thesis by (intro exI [of _ "c # a"] exI [of _ b]) simp
  next
    case (Some x)
    with 2 match_group_quotes show ?thesis by fastforce
  qed
qed

lemma strip_chars_quotes: "\<exists>a b. cs = a @ strip_chars cs @ b"
proof -
  let ?p = "\<lambda>c. re_space (code_point c)"
  let ?t = "dropWhile ?p cs"
  have "rev ?t = takeWhile ?p (rev ?t) @ dropWhile ?p (rev ?t)" by simp
  then have "?t = rev (dropWhile ?p (rev ?t)) @ rev (takeWhile ?p (rev ?t))" by (metis rev_append rev_rev_ident)
  moreover have "cs = takeWhile ?p cs @ ?t" by simp
  ultimately show ?thesis unfolding strip_chars_def Let_def by metis
qed

lemma concat_utf8_chars: "concat (utf8_chars s) = s"
  by (induction s rule: utf8_chars.induct) simp_all


definition ascii_digit :: "nat \<Rightarrow> bool" where "ascii_digit n \<longleftrightarrow> 48 \<le> n \<and> n \<le> 57"


end
