(* ===== verification/Adapters.thy ===== *)
theory Adapters
  imports Http Extractor
begin

section \<open>The adapters and their reference servers\<close>

text \<open>
  The four adapters of \<open>orchestra/adapters/\<close> as the functions the coordinator calls, and the
  handlers of the reference servers in \<open>servers.py\<close>. An adapter posts a body to its endpoint; an
  endpoint answers as a function of the calls made before, the url and the body, or the HTTP library
  raises. Bodies are decoded JSON on both sides. Not modelled: ports, threads and health probes.
\<close>

type_synonym endpoint = "call list \<Rightarrow> string \<Rightarrow> json \<Rightarrow> exn + http_response"

definition runtime_error :: "string \<Rightarrow> exn" where "runtime_error s = AdapterExn ''RuntimeError'' s"

definition json_error :: exn where "json_error = AdapterExn ''JSONDecodeError'' []"

subsection \<open>Reading JSON\<close>

text \<open>\<open>json.dumps(v, ensure_ascii=False)\<close>: keys in the order of the dictionary.\<close>

primrec plain_dumps :: "json \<Rightarrow> string" where
  "plain_dumps JNull = ''null''"
| "plain_dumps (JBool b) = (if b then ''true'' else ''false'')"
| "plain_dumps (JInt i) = string_of_int i"
| "plain_dumps (JFloat s) = s"
| "plain_dumps (JStr s) = quote_string s"
| "plain_dumps (JList xs) = ''['' @ intersperse_concat '', '' (map plain_dumps xs) @ '']''"
| "plain_dumps (JObj kvs) = ''{'' @ intersperse_concat '', ''
     (map (\<lambda>p. quote_string (fst p) @ '': '' @ snd p) (map (map_prod id plain_dumps) kvs)) @ ''}''"

text \<open>\<open>v[k]\<close> for a text key and \<open>v[0]\<close>.\<close>

definition subscript :: "json \<Rightarrow> string \<Rightarrow> exn + json" where
  "subscript v k = (case v of JObj d \<Rightarrow> (case dget d k of None \<Rightarrow> Inl (KeyExn k) | Some x \<Rightarrow> Inr x) | _ \<Rightarrow> Inl (TypeExn v))"

definition first_of :: "json \<Rightarrow> exn + json" where
  "first_of v = (case v of JList (x # xs) \<Rightarrow> Inr x | JList [] \<Rightarrow> Inl (IndexExn 0) | JObj d \<Rightarrow> Inl (KeyExn ''0'')
     | JStr s \<Rightarrow> (case utf8_chars s of [] \<Rightarrow> Inl (IndexExn 0) | c # cs \<Rightarrow> Inr (JStr c)) | _ \<Rightarrow> Inl (TypeExn v))"

definition answer_json :: "http_response \<Rightarrow> exn + json" where
  "answer_json r = (case hr_json r of None \<Rightarrow> Inl json_error | Some j \<Rightarrow> Inr j)"

definition expect_ok :: "string \<Rightarrow> http_response \<Rightarrow> exn + json" where
  "expect_ok who r = (if hr_status r = 200 then answer_json r
     else Inl (runtime_error (who @ '' returned '' @ string_of_int (hr_status r) @ '': '' @ text_prefix (hr_text r) 200)))"

subsection \<open>The local model\<close>

definition view_dump :: "data_view \<Rightarrow> json" where "view_dump v = view_to_json v"

definition local_adapter :: "endpoint \<Rightarrow> string \<Rightarrow> adapter" where
  "local_adapter http url past rq =
     (case dget_default (rq_inputs rq) ''contract_text'' (JStr []) of
        JStr text \<Rightarrow>
          if py_strip text = [] then Inl (runtime_error ''LocalModelAdapter requires inputs['contract_text'] (non-empty str)'')
          else bindS (http past url (JObj [(''text'', JStr text), (''view'', view_dump (rq_data_view rq))])) (\<lambda>r.
            bindS (expect_ok ''local extractor'' r) (\<lambda>data.
            bindS (subscript data ''facts'') (\<lambda>facts.
            bindS (if dv_fields (rq_data_view rq) = [] then Inr facts
                   else case facts of JObj d \<Rightarrow> Inr (JObj (filter (\<lambda>(k, v). k \<in> set (dv_fields (rq_data_view rq))) d))
                     | _ \<Rightarrow> Inl (AttributeExn facts ''items'')) (\<lambda>projected.
            bindS (subscript data ''fact_count'') (\<lambda>n.
            Inr \<lparr>ar_outputs = [(''facts'', projected), (''raw_fact_count'', n)],
                 ar_metadata = [(''endpoint'', JStr url), (''view'', JStr (dv_name (rq_data_view rq)))]\<rparr>)))))
      | _ \<Rightarrow> Inl (runtime_error ''LocalModelAdapter requires inputs['contract_text'] (non-empty str)''))"

subsection \<open>The public model\<close>

definition system_prompt :: string where
  "system_prompt = ''You are a public research assistant. You may only answer using '' @
     ''the facts provided. Do not invent details. Respond in JSON '' @ ''matching the requested schema.''"

definition openai_user_payload :: "adapter_request \<Rightarrow> json" where
  "openai_user_payload rq = JObj [(''task'', JStr (code (rq_purpose rq))), (''query'', dget_default (rq_inputs rq) ''query'' (JStr [])),
     (''facts'', dget_default (rq_inputs rq) ''facts'' (JObj [])), (''view'', JStr (dv_name (rq_data_view rq)))]"

definition openai_body :: "adapter_request \<Rightarrow> json" where
  "openai_body rq = JObj [(''model'', JStr ''demo-public-model''),
     (''messages'', JList [JObj [(''role'', JStr ''system''), (''content'', JStr system_prompt)],
        JObj [(''role'', JStr ''user''), (''content'', JStr (plain_dumps (openai_user_payload rq)))]]),
     (''temperature'', JFloat ''0.0''), (''max_tokens'', JInt 256),
     (''response_format'', JObj [(''type'', JStr ''json_object'')])]"

text \<open>The content of the first choice: \<open>KeyError\<close>, \<open>IndexError\<close> and a text that is no JSON are reported.\<close>

definition openai_content :: "(string \<Rightarrow> json option) \<Rightarrow> json \<Rightarrow> exn + json" where
  "openai_content loads data =
     bindS (subscript data ''choices'') (\<lambda>cs. bindS (first_of cs) (\<lambda>c. bindS (subscript c ''message'') (\<lambda>m.
     bindS (subscript m ''content'') (\<lambda>content. case content of
        JStr s \<Rightarrow> (case loads s of None \<Rightarrow> Inl json_error | Some j \<Rightarrow> Inr j) | _ \<Rightarrow> Inr content))))"

definition shape_error :: "(exn \<Rightarrow> string) \<Rightarrow> exn \<Rightarrow> exn" where
  "shape_error show_exn e = (case e of
     KeyExn k \<Rightarrow> runtime_error (''openai-compat response shape invalid: '' @ show_exn e)
   | IndexExn n \<Rightarrow> runtime_error (''openai-compat response shape invalid: '' @ show_exn e)
   | AdapterExn ty s \<Rightarrow> runtime_error (''openai-compat response shape invalid: '' @ show_exn e)
   | _ \<Rightarrow> e)"

definition openai_adapter :: "(string \<Rightarrow> json option) \<Rightarrow> (exn \<Rightarrow> string) \<Rightarrow> endpoint \<Rightarrow> string \<Rightarrow> adapter" where
  "openai_adapter loads show_exn http url past rq =
     (if \<not> is_obj (dget_default (rq_inputs rq) ''facts'' (JObj []))
      then Inl (runtime_error ''OpenAICompatAdapter requires inputs['facts'] (dict)'')
      else bindS (http past url (openai_body rq)) (\<lambda>r. bindS (expect_ok ''openai-compat'' r) (\<lambda>data.
        bindS (case openai_content loads data of Inl e \<Rightarrow> Inl (shape_error show_exn e) | Inr j \<Rightarrow> Inr j) (\<lambda>parsed.
        Inr \<lparr>ar_outputs = [(''research'', parsed)],
             ar_metadata = [(''endpoint'', JStr url), (''model'', JStr ''demo-public-model''), (''usage'', jget_or data ''usage'' (JObj []))]\<rparr>))))"

subsection \<open>The agent\<close>

text \<open>
  \<open>merged.update(v)\<close>: a value that is no object is taken for a sequence of pairs, of which only the
  empty one is allowed here.
\<close>

definition update_with :: "(string, json) dict \<Rightarrow> json \<Rightarrow> exn + (string, json) dict" where
  "update_with d v = (case v of JObj e \<Rightarrow> Inr (dmerge d e) | JList [] \<Rightarrow> Inr d | JStr [] \<Rightarrow> Inr d | _ \<Rightarrow> Inl (TypeExn v))"

fun merge_parts :: "(string, json) dict \<Rightarrow> json list \<Rightarrow> exn + (string, json) dict" where
  "merge_parts d [] = Inr d"
| "merge_parts d (p # ps) = bindS (py_get p ''type'' JNull) (\<lambda>ty.
     if ty = JStr ''data'' then bindS (bindS (py_get p ''data'' (JObj [])) (update_with d)) (\<lambda>d'. merge_parts d' ps)
     else merge_parts d ps)"

fun merge_artefacts :: "(string, json) dict \<Rightarrow> json list \<Rightarrow> exn + (string, json) dict" where
  "merge_artefacts d [] = Inr d"
| "merge_artefacts d (a # as) = bindS (bindS (bindS (py_get a ''parts'' (JList [])) iterate) (merge_parts d)) (\<lambda>d'. merge_artefacts d' as)"

definition a2a_body :: "adapter_request \<Rightarrow> json" where
  "a2a_body rq = (let i = JStr (ng_node_run_id (rq_grant rq)) in JObj
     [(''jsonrpc'', JStr ''2.0''), (''id'', i), (''method'', JStr ''tasks/send''),
      (''params'', JObj [(''id'', i), (''message'', JObj [(''role'', JStr ''user''), (''parts'', JList [JObj [(''type'', JStr ''text''),
         (''text'', dget_default (rq_inputs rq) ''query'' (JStr [])),
         (''metadata'', JObj [(''view'', JStr (dv_name (rq_data_view rq)))])]])])])])"

text \<open>The part of a JSON-RPC answer the adapter keeps.\<close>

definition a2a_outputs :: "json \<Rightarrow> exn + (string, json) dict" where
  "a2a_outputs data =
     bindS (py_get data ''result'' (JObj [])) (\<lambda>res. bindS (py_get res ''artifacts'' (JList [])) (\<lambda>arts.
     bindS (iterate arts) (\<lambda>as. bindS (merge_artefacts [] as) (\<lambda>merged.
     bindS (bindS (py_get res ''status'' (JObj [])) (\<lambda>st. py_get st ''state'' JNull)) (\<lambda>state.
     Inr [(''research'', JObj [(''a2a_artefact'', JObj merged), (''task_state'', state)]), (''a2a_artefact'', JObj merged),
          (''task_state'', state)])))))"

text \<open>A JSON-RPC error fails the call; the card of the agent must be readable first.\<close>

definition a2a_adapter :: "textlib \<Rightarrow> (call list \<Rightarrow> exn + json) \<Rightarrow> endpoint \<Rightarrow> string \<Rightarrow> string \<Rightarrow> adapter" where
  "a2a_adapter tx agent_card http url card_url past rq =
     (if \<not> truthy (dget_default (rq_inputs rq) ''query'' (JStr []))
      then Inl (runtime_error ''A2AReferenceAdapter requires inputs['query'] (non-empty str)'')
      else bindS (agent_card past) (\<lambda>_. bindS (http past url (a2a_body rq)) (\<lambda>r. bindS (expect_ok ''a2a agent'' r) (\<lambda>data.
        if py_in ''error'' data then Inl (case data of JObj d \<Rightarrow> runtime_error (''a2a agent error: '' @ text_of tx (jget_or data ''error'' JNull)) | _ \<Rightarrow> TypeExn data)
        else bindS (a2a_outputs data) (\<lambda>out.
        Inr \<lparr>ar_outputs = out, ar_metadata = [(''endpoint'', JStr url), (''card'', JStr card_url)]\<rparr>)))))"

subsection \<open>The sink\<close>

definition sink_body :: "adapter_request \<Rightarrow> json" where
  "sink_body rq = JObj [(''grant_id'', JStr (ng_grant_id (rq_grant rq))), (''purpose'', JStr (code (rq_purpose rq))),
     (''data'', JObj (rq_inputs rq)), (''decided_by'', dget_default (rq_metadata rq) ''decided_by'' (JStr ''human''))]"

definition sink_adapter :: "endpoint \<Rightarrow> string \<Rightarrow> adapter" where
  "sink_adapter http url past rq =
     bindS (http past url (sink_body rq)) (\<lambda>r. bindS (expect_ok ''mock sink'' r) (\<lambda>data.
     bindS (subscript data ''record_id'') (\<lambda>rec.
     Inr \<lparr>ar_outputs = [(''written'', JBool True), (''sink_record_id'', rec)], ar_metadata = [(''endpoint'', JStr url)]\<rparr>)))"

subsection \<open>The reference servers\<close>

datatype ref_error = RefStatus int string | RefCrash

text \<open>A reference server's response; \<open>render\<close> is the text of its body.\<close>

definition on_reference :: "(json \<Rightarrow> string) \<Rightarrow> ref_error + json \<Rightarrow> http_response" where
  "on_reference render out = (case out of
     Inr j \<Rightarrow> \<lparr>hr_status = 200, hr_text = render j, hr_json = Some j\<rparr>
   | Inl (RefStatus s d) \<Rightarrow> (let j = JObj [(''detail'', JStr d)] in \<lparr>hr_status = s, hr_text = render j, hr_json = Some j\<rparr>)
   | Inl RefCrash \<Rightarrow> \<lparr>hr_status = 500, hr_text = ''Internal Server Error'', hr_json = None\<rparr>)"

text \<open>\<open>POST /v1/extract\<close> on a body that validates.\<close>

definition extract_handler :: "(nat \<Rightarrow> bool) \<Rightarrow> string \<Rightarrow> ref_error + json" where
  "extract_handler decimal text = (let facts = extract_facts_locally decimal text in
     Inr (JObj [(''model'', JStr ''deterministic-extractor-v1''), (''fact_count'', JInt (int (length facts))), (''facts'', JObj facts)]))"

definition public_registries :: "(string, json) dict" where
  "public_registries =
    [(''demo-vendor-001'', JObj [(''vendor_name'', JStr ''Acme Cloud Logistics Co., Ltd.''), (''jurisdiction'', JStr ''Hong Kong SAR''),
        (''incorporation_year'', JInt 2014), (''public_listing'', JBool False), (''regulatory_actions'', JList []),
        (''source'', JStr ''synthetic public registry (P0 demo)'')]),
     (''demo-vendor-002'', JObj [(''vendor_name'', JStr ''Helios Industrial Group''), (''jurisdiction'', JStr ''Singapore''),
        (''incorporation_year'', JInt 2008), (''public_listing'', JBool True),
        (''regulatory_actions'', JList [JObj [(''year'', JInt 2021), (''type'', JStr ''minor filing delay''), (''severity'', JStr ''low'')]]),
        (''source'', JStr ''synthetic public registry (P0 demo)'')])]"

definition registry_entry :: "json \<Rightarrow> json" where
  "registry_entry vendor = (let first = dget_default public_registries ''demo-vendor-001'' JNull in
     case vendor of JStr s \<Rightarrow> dget_default public_registries s first | _ \<Rightarrow> first)"

definition research_answer :: "textlib \<Rightarrow> json \<Rightarrow> json \<Rightarrow> json" where
  "research_answer tx vendor query = JObj [(''vendor_id'', vendor), (''public_summary'', registry_entry vendor),
     (''query_addressed'', query),
     (''sources'', JList [JObj [(''type'', JStr ''synthetic-public-registry''),
        (''url'', JStr (''https://demo.invalid/registries/'' @ text_of tx vendor)), (''version'', JStr ''2026-08-01'')]]),
     (''caveat'', JStr ''All entries are synthetic for the P0 demo. Do not use in production.'')]"

text \<open>\<open>len(m.get('content', ''))\<close>\<close>

definition content_size :: "(string, json) dict \<Rightarrow> ref_error + int" where
  "content_size m = (case dget_default m ''content'' (JStr []) of JStr s \<Rightarrow> Inr (text_length s)
     | JList xs \<Rightarrow> Inr (int (length xs)) | JObj d \<Rightarrow> Inr (int (length d)) | _ \<Rightarrow> Inl RefCrash)"

fun content_sizes :: "(string, json) dict list \<Rightarrow> ref_error + int" where
  "content_sizes [] = Inr 0"
| "content_sizes (m # ms) = bindS (content_size m) (\<lambda>n. bindS (content_sizes ms) (\<lambda>k. Inr (n + k)))"

text \<open>The vendor id of the facts, if it can be a key of a dictionary.\<close>

definition asked_vendor :: "json \<Rightarrow> ref_error + json" where
  "asked_vendor facts = (case facts of
     JObj d \<Rightarrow> (case py_or (dget_default d ''vendor_id'' JNull) (JStr ''demo-vendor-001'') of
         JList _ \<Rightarrow> Inl RefCrash | JObj _ \<Rightarrow> Inl RefCrash | v \<Rightarrow> Inr v)
   | _ \<Rightarrow> Inl RefCrash)"

text \<open>The detail of the second refusal is cut before the text of the exception.\<close>

definition chat_handler :: "textlib \<Rightarrow> (string \<Rightarrow> json option) \<Rightarrow> string \<Rightarrow> int \<Rightarrow> string \<Rightarrow> (string, json) dict list \<Rightarrow> ref_error + json" where
  "chat_handler tx loads reply_id created model messages =
     (case find (\<lambda>m. dget m ''role'' = Some (JStr ''user'')) (rev messages) of
        None \<Rightarrow> Inl (RefStatus 400 ''no user message'')
      | Some m \<Rightarrow> (case (case dget m ''content'' of Some (JStr s) \<Rightarrow> loads s | _ \<Rightarrow> None) of
          None \<Rightarrow> Inl (RefStatus 400 ''user content not JSON'')
        | Some payload \<Rightarrow> if \<not> is_obj payload then Inl RefCrash
            else bindS (asked_vendor (jget_or payload ''facts'' (JObj []))) (\<lambda>vendor.
              bindS (content_sizes messages) (\<lambda>size.
              Inr (JObj [(''id'', JStr (''chatcmpl-'' @ take 10 reply_id)), (''object'', JStr ''chat.completion''), (''created'', JInt created),
                (''model'', JStr model),
                (''choices'', JList [JObj [(''index'', JInt 0), (''message'', JObj [(''role'', JStr ''assistant''),
                   (''content'', JStr (plain_dumps (research_answer tx vendor (jget_or payload ''query'' (JStr [])))))]),
                   (''finish_reason'', JStr ''stop'')]]),
                (''usage'', JObj [(''prompt_tokens'', JInt (size div 4)), (''completion_tokens'', JInt 120), (''total_tokens'', JInt 0)])])))))"

text \<open>The JSON-RPC endpoint of the agent: errors are answers too.\<close>

definition industry_queries :: "(string \<times> json) list" where
  "industry_queries =
    [(''industry classification'', JObj [(''industry'', JStr ''Cloud logistics & supply chain SaaS''), (''naics'', JStr ''541512''),
        (''size_band'', JStr ''SMB-to-mid-market'')]),
     (''market size'', JObj [(''global_tam_usd_2025'', JInt 18400000000), (''cagr_2025_2030'', JFloat ''0.114''),
        (''source'', JStr ''synthetic industry report (P0 demo)'')])]"

definition lower_text :: "string \<Rightarrow> string" where
  "lower_text s = concat (map (\<lambda>c. if code_point c = 8490 then ''k''
     else if code_point c = 304 then CHR ''i'' # [char_of (204::nat), char_of (135::nat)] else map lower_char c) (utf8_chars s))"

definition industry_artefact :: "string \<Rightarrow> (string, json) dict" where
  "industry_artefact text = (let found = filter (\<lambda>(k, v). contains k (lower_text text)) industry_queries
     in if found = [] then [(''note'', JStr ''no industry-research match''), (''echo'', JStr (text_prefix text 200))] else found)"

fun first_text :: "json list \<Rightarrow> ref_error + json" where
  "first_text [] = Inr (JStr [])"
| "first_text (p # ps) = (if \<not> is_obj p then Inl RefCrash
     else if jget p ''type'' = Some (JStr ''text'') then Inr (jget_or p ''text'' (JStr [])) else first_text ps)"

definition rpc_error :: "(string, json) dict \<Rightarrow> int \<Rightarrow> string \<Rightarrow> json" where
  "rpc_error payload n message = JObj [(''jsonrpc'', JStr ''2.0''), (''id'', dget_default payload ''id'' JNull),
     (''error'', JObj [(''code'', JInt n), (''message'', JStr message)])]"

definition rpc_parts :: "json \<Rightarrow> ref_error + json list" where
  "rpc_parts params = (let message = jget_or params ''message'' (JObj []) in
     if \<not> is_obj params \<or> \<not> is_obj message then Inl RefCrash
     else case iterate (jget_or message ''parts'' (JList [])) of Inl e \<Rightarrow> Inl RefCrash | Inr ps \<Rightarrow> Inr ps)"

definition rpc_handler :: "(json \<Rightarrow> string) \<Rightarrow> (string, json) dict \<Rightarrow> ref_error + json" where
  "rpc_handler repr payload =
     (if dget payload ''jsonrpc'' \<noteq> Some (JStr ''2.0'') then Inr (rpc_error payload (- 32600) ''invalid jsonrpc'')
      else if dget payload ''method'' \<noteq> Some (JStr ''tasks/send'')
      then Inr (rpc_error payload (- 32601) (''unknown method '' @ repr (dget_default payload ''method'' JNull)))
      else let params = dget_default payload ''params'' (JObj []) in
        bindS (rpc_parts params) (\<lambda>ps. bindS (first_text ps) (\<lambda>text. case text of
          JStr s \<Rightarrow> Inr (JObj [(''jsonrpc'', JStr ''2.0''), (''id'', dget_default payload ''id'' JNull),
            (''result'', JObj [(''id'', jget_or params ''id'' JNull), (''status'', JObj [(''state'', JStr ''completed'')]),
              (''artifacts'', JList [JObj [(''parts'', JList [JObj [(''type'', JStr ''data''), (''data'', JObj (industry_artefact s))]])]])])])
        | _ \<Rightarrow> Inl RefCrash)))"

text \<open>The sink keeps a log in memory.\<close>

record sink_entry =
  se_record_id :: string
  se_grant_id :: string
  se_purpose :: string
  se_data :: "(string, json) dict"
  se_decided_by :: string
  se_ts :: int

definition sink_handler :: "string \<Rightarrow> int \<Rightarrow> string \<Rightarrow> string \<Rightarrow> (string, json) dict \<Rightarrow> string \<Rightarrow> sink_entry list \<Rightarrow> json \<times> sink_entry list" where
  "sink_handler uuid_hex ts grant_id purpose data decided_by entries =
     (let rid = ''rec-'' @ take 10 uuid_hex in
      (JObj [(''record_id'', JStr rid), (''stored'', JBool True)],
       entries @ [\<lparr>se_record_id = rid, se_grant_id = grant_id, se_purpose = purpose, se_data = data, se_decided_by = decided_by, se_ts = ts\<rparr>]))"

definition sink_log_json :: "sink_entry list \<Rightarrow> json" where
  "sink_log_json entries = JObj [(''count'', JInt (int (length entries))),
     (''items'', JList (map (\<lambda>e. JObj [(''record_id'', JStr (se_record_id e)), (''grant_id'', JStr (se_grant_id e)),
        (''purpose'', JStr (se_purpose e)), (''data'', JObj (se_data e)), (''decided_by'', JStr (se_decided_by e)), (''ts'', JInt (se_ts e))]) entries))]"

subsection \<open>Adapters on their reference servers\<close>

definition unprocessable :: http_response where
  "unprocessable = \<lparr>hr_status = 422, hr_text = [], hr_json = Some (JObj [])\<rparr>"

definition extract_endpoint :: "(json \<Rightarrow> string) \<Rightarrow> (nat \<Rightarrow> bool) \<Rightarrow> endpoint" where
  "extract_endpoint render decimal past url body = Inr (case jget body ''text'' of
     Some (JStr s) \<Rightarrow> on_reference render (extract_handler decimal s) | _ \<Rightarrow> unprocessable)"

definition chat_endpoint :: "textlib \<Rightarrow> (json \<Rightarrow> string) \<Rightarrow> (string \<Rightarrow> json option) \<Rightarrow> (call list \<Rightarrow> string) \<Rightarrow> (call list \<Rightarrow> int) \<Rightarrow> endpoint" where
  "chat_endpoint tx render loads reply_id created past url body = Inr (case (jget body ''model'', jget body ''messages'') of
     (Some (JStr model), Some (JList ms)) \<Rightarrow>
       if list_all is_obj ms
       then on_reference render (chat_handler tx loads (reply_id past) (created past) model (map (\<lambda>m. case m of JObj d \<Rightarrow> d | _ \<Rightarrow> []) ms))
       else unprocessable
   | _ \<Rightarrow> unprocessable)"

definition rpc_endpoint :: "(json \<Rightarrow> string) \<Rightarrow> (json \<Rightarrow> string) \<Rightarrow> endpoint" where
  "rpc_endpoint render repr past url body = Inr (case body of
     JObj d \<Rightarrow> on_reference render (rpc_handler repr d) | _ \<Rightarrow> unprocessable)"

text \<open>
  Asked about the facts of a contract, the reference registry answers for the vendor id the
  facts name, or for the first vendor if they name none. For a vendor it does not know it
  answers under the asked id and url with the record of the first vendor, as if it were theirs.
\<close>

theorem reference_research:
  assumes "rq_inputs rq = [(''facts'', JObj facts), (''query'', query)]"
    and "dget facts ''vendor_id'' \<in> {None, Some (JStr vendor)}" "vendor \<noteq> []" "dget facts ''vendor_id'' = None \<longrightarrow> vendor = ''demo-vendor-001''"
    and loads: "loads (plain_dumps (openai_user_payload rq)) = Some (openai_user_payload rq)"
      "loads (plain_dumps (research_answer tx (JStr vendor) query)) = Some (research_answer tx (JStr vendor) query)"
  shows "\<exists>res. openai_adapter loads show_exn (chat_endpoint tx render loads reply_id created) url past rq = Inr res \<and>
      ar_outputs res = [(''research'', research_answer tx (JStr vendor) query)] \<and>
    (vendor \<notin> {''demo-vendor-001'', ''demo-vendor-002''} \<longrightarrow>
      jget (research_answer tx (JStr vendor) query) ''vendor_id'' = Some (JStr vendor) \<and>
      jget (research_answer tx (JStr vendor) query) ''public_summary'' = dget public_registries ''demo-vendor-001'')"
proof -
  have "asked_vendor (JObj facts) = Inr (JStr vendor)"
    using assms(2-4) by (cases "dget facts ''vendor_id''") (auto simp: asked_vendor_def dget_default_def py_or_def)
  moreover have "openai_user_payload rq = JObj [(''task'', JStr (code (rq_purpose rq))), (''query'', query), (''facts'', JObj facts),
      (''view'', JStr (dv_name (rq_data_view rq)))]"
    by (simp add: openai_user_payload_def assms(1) dget_default_def)
  moreover have "\<exists>n. content_sizes [[(''role'', JStr ''system''), (''content'', JStr system_prompt)],
      [(''role'', JStr ''user''), (''content'', JStr (plain_dumps (openai_user_payload rq)))]] = Inr n"
    by (simp add: content_size_def dget_default_def bindS_def)
  ultimately show ?thesis
    using loads
    by (auto simp: openai_adapter_def assms(1) dget_default_def chat_endpoint_def openai_body_def chat_handler_def bindS_def
        on_reference_def expect_ok_def answer_json_def openai_content_def subscript_def first_of_def registry_entry_def
        public_registries_def research_answer_def)
qed

text \<open>What the local adapter hands on are the quotations of the contract its view allows.\<close>

lemma local_facts:
  assumes "dget (rq_inputs rq) ''contract_text'' = Some (JStr text)" "py_strip text \<noteq> []"
  shows "\<exists>res. local_adapter (extract_endpoint render decimal) url past rq = Inr res \<and>
    ar_outputs res = [(''facts'', JObj (filter (\<lambda>(k, v). dv_fields (rq_data_view rq) = [] \<or> k \<in> set (dv_fields (rq_data_view rq)))
        (extract_facts_locally decimal text))), (''raw_fact_count'', JInt (int (length (extract_facts_locally decimal text))))]"
  using assms
  by (simp add: local_adapter_def dget_default_def extract_endpoint_def extract_handler_def bindS_def expect_ok_def answer_json_def
      on_reference_def subscript_def Let_def)

text \<open>The agent's answer about a query reaches the run as its artefact.\<close>

lemma dmerge_fresh: "dict_wf d \<Longrightarrow> dmerge [] d = d"
proof -
  have "foldl (\<lambda>d (k, v). dset k v d) xs d = xs @ d" if "distinct (map fst (xs @ d))" for xs :: "('a, 'b) dict" and d
    using that
  proof (induction d arbitrary: xs)
    case (Cons p d)
    obtain k v where p: "p = (k, v)" by force
    have "k \<notin> fst ` set xs" using Cons.prems p by auto
    then have "dset k v xs = xs @ [(k, v)]" by (rule dset_new)
    with Cons.IH [of "xs @ [(k, v)]"] Cons.prems p show ?case by simp
  qed simp
  from this [of "[]"] show "dict_wf d \<Longrightarrow> dmerge [] d = d" by (simp add: dmerge_def)
qed

lemma artefact_wf: "dict_wf (industry_artefact text)"
  by (auto simp: industry_artefact_def industry_queries_def Let_def)

lemma agent_artefact:
  assumes "dget (rq_inputs rq) ''query'' = Some (JStr query)" "query \<noteq> []" "agent_card past = Inr j"
  shows "\<exists>res. a2a_adapter tx agent_card (rpc_endpoint render repr) url card_url past rq = Inr res \<and>
    dget (ar_outputs res) ''a2a_artefact'' = Some (JObj (industry_artefact query)) \<and>
    dget (ar_outputs res) ''task_state'' = Some (JStr ''completed'')"
  using assms dmerge_fresh [OF artefact_wf, of query]
  by (simp add: a2a_adapter_def dget_default_def rpc_endpoint_def a2a_body_def rpc_handler_def rpc_parts_def bindS_def on_reference_def
      expect_ok_def answer_json_def a2a_outputs_def py_get_def update_with_def Let_def)

subsection \<open>What the sink records\<close>

text \<open>A body of the sink that validates: grant, purpose, data and who decided.\<close>

definition sink_request :: "json \<Rightarrow> (string \<times> string \<times> (string, json) dict \<times> string) option" where
  "sink_request body = (case (jget body ''grant_id'', jget body ''purpose'', jget body ''data'', jget_or body ''decided_by'' (JStr ''human'')) of
     (Some (JStr g), Some (JStr p), Some (JObj d), JStr who) \<Rightarrow> Some (g, p, d, who) | _ \<Rightarrow> None)"

definition sink_step :: "(nat \<Rightarrow> string) \<Rightarrow> (nat \<Rightarrow> int) \<Rightarrow> json \<Rightarrow> sink_entry list \<Rightarrow> json option \<times> sink_entry list" where
  "sink_step uuid clock body entries = (case sink_request body of
     None \<Rightarrow> (None, entries)
   | Some (g, p, d, who) \<Rightarrow> (case sink_handler (uuid (length entries)) (clock (length entries)) g p d who entries of
       (answer, entries') \<Rightarrow> (Some answer, entries')))"

text \<open>The log after the calls made so far, of which those of the capability \<open>sink\<close> reach it.\<close>

definition sink_log :: "(nat \<Rightarrow> string) \<Rightarrow> (nat \<Rightarrow> int) \<Rightarrow> string \<Rightarrow> call list \<Rightarrow> sink_entry list" where
  "sink_log uuid clock sink past = foldl (\<lambda>es (cap, rq). if cap = sink then snd (sink_step uuid clock (sink_body rq) es) else es) [] past"

definition sink_endpoint :: "(json \<Rightarrow> string) \<Rightarrow> (nat \<Rightarrow> string) \<Rightarrow> (nat \<Rightarrow> int) \<Rightarrow> string \<Rightarrow> endpoint" where
  "sink_endpoint render uuid clock sink past url body = Inr (case fst (sink_step uuid clock body (sink_log uuid clock sink past)) of
     None \<Rightarrow> unprocessable | Some answer \<Rightarrow> on_reference render (Inr answer))"

definition named_decider :: "adapter_request \<Rightarrow> bool" where
  "named_decider rq \<longleftrightarrow> (\<exists>who. dget_default (rq_metadata rq) ''decided_by'' (JStr ''human'') = JStr who)"

lemma sink_step_adapter:
  assumes "named_decider rq"
  shows "\<exists>e. sink_step uuid clock (sink_body rq) es = (Some (JObj [(''record_id'', JStr (se_record_id e)), (''stored'', JBool True)]), es @ [e]) \<and>
    se_record_id e = ''rec-'' @ take 10 (uuid (length es)) \<and> se_grant_id e = ng_grant_id (rq_grant rq) \<and> se_data e = rq_inputs rq"
  using assms by (auto simp: named_decider_def sink_step_def sink_request_def sink_body_def sink_handler_def dget_default_def Let_def)

lemma sink_log_snoc:
  "sink_log uuid clock sink (past @ [(cap, rq)]) =
     (if cap = sink then snd (sink_step uuid clock (sink_body rq) (sink_log uuid clock sink past)) else sink_log uuid clock sink past)"
  by (simp add: sink_log_def)


subsection \<open>Witnesses\<close>

definition ex_view :: data_view where
  "ex_view = \<lparr>dv_name = ''public.query'', dv_shape = ShapeFields, dv_fields = [''vendor_id''], dv_source = None\<rparr>"

definition ex_grant :: node_grant where
  "ex_grant = \<lparr>ng_grant_id = ''g'', ng_task_run_id = ''t'', ng_node_run_id = ''n'', ng_task_id = ''c'', ng_node_id = ''write_sink'',
     ng_capability_id = ''cap'', ng_manifest_id = ''m'', ng_data_view = ex_view, ng_grant_purpose = \<lparr>code = ''p'', description = []\<rparr>,
     ng_issued_at = 0, ng_not_before = 0, ng_expires_at = 1, ng_audience = [], ng_signature = None\<rparr>"

definition ex_request :: "payload \<Rightarrow> adapter_request" where
  "ex_request inputs = \<lparr>rq_grant = ex_grant, rq_inputs = inputs, rq_data_view = ex_view, rq_purpose = \<lparr>code = ''p'', description = []\<rparr>,
     rq_timeout_ms = 1000, rq_metadata = []\<rparr>"


definition ex_research_request :: adapter_request where
  "ex_research_request = ex_request [(''facts'', JObj [(''vendor_id'', JStr ''other'')]), (''query'', JStr ''q'')]"

text \<open>A decoder that is right about the two texts of the example.\<close>

definition ex_loads :: "string \<Rightarrow> json option" where
  "ex_loads s = find (\<lambda>j. plain_dumps j = s) [openai_user_payload ex_research_request, research_answer ex_textlib (JStr ''other'') (JStr ''q'')]"

lemma ex_loads_inverse:
  "ex_loads (plain_dumps (openai_user_payload ex_research_request)) = Some (openai_user_payload ex_research_request)"
  "ex_loads (plain_dumps (research_answer ex_textlib (JStr ''other'') (JStr ''q''))) = Some (research_answer ex_textlib (JStr ''other'') (JStr ''q''))"
proof -
  have ne: "plain_dumps (openai_user_payload ex_research_request) \<noteq> plain_dumps (research_answer ex_textlib (JStr ''other'') (JStr ''q''))"
    by (simp add: openai_user_payload_def ex_research_request_def ex_request_def research_answer_def quote_string_def escape_char_def Let_def)
  show "ex_loads (plain_dumps (openai_user_payload ex_research_request)) = Some (openai_user_payload ex_research_request)"
    by (simp add: ex_loads_def)
  show "ex_loads (plain_dumps (research_answer ex_textlib (JStr ''other'') (JStr ''q''))) = Some (research_answer ex_textlib (JStr ''other'') (JStr ''q''))"
    using ne by (simp add: ex_loads_def)
qed

theorem reference_research_witness:
  "\<exists>res. openai_adapter ex_loads (\<lambda>_. []) (chat_endpoint ex_textlib (\<lambda>_. []) ex_loads (\<lambda>_. ''0123456789'') (\<lambda>_. 0)) ''u'' [] ex_research_request = Inr res \<and>
    ar_outputs res = [(''research'', research_answer ex_textlib (JStr ''other'') (JStr ''q''))] \<and>
    jget (research_answer ex_textlib (JStr ''other'') (JStr ''q'')) ''public_summary'' = dget public_registries ''demo-vendor-001''"
proof -
  have "rq_inputs ex_research_request = [(''facts'', JObj [(''vendor_id'', JStr ''other'')]), (''query'', JStr ''q'')]"
    by (simp add: ex_research_request_def ex_request_def)
  from reference_research [OF this _ _ _ ex_loads_inverse, of "\<lambda>_. []" "\<lambda>_. []" "\<lambda>_. ''0123456789''" "\<lambda>_. 0" "''u''" "[]"]
  show ?thesis by auto
qed

end
