(* ===== verification/Benchmarks.thy ===== *)
theory Benchmarks
  imports Adapters Engine
begin

section \<open>The benchmark\<close>

text \<open>
  \<open>orchestra/benchmarks/\<close>: the manifest of the experiment, the rows the three baselines produce per
  contract, their scores against the ground truth, the aggregated metrics and the verdict. Floats are
  rationals. Not modelled: starting servers and coordinators and waiting for the gate; what a run or
  an adapter returned is an argument.
\<close>

subsection \<open>The manifest\<close>

record metric_spec =
  ms_name :: string
  ms_description :: string
  ms_higher_is_better :: bool
  ms_unit :: string

record baseline_spec =
  bs_name :: string
  bs_description :: string
  bs_kind :: string
  bs_fixed_seed :: int
  bs_repetitions :: int

record benchmark_manifest =
  bm_name :: string
  bm_version :: string
  bm_dataset :: "string list"
  bm_models :: "(string, string) dict"
  bm_prompts :: "(string, string) dict"
  bm_sampling :: "(string, json) dict"
  bm_price_snapshot :: "(string, rat) dict"
  bm_repetitions :: int
  bm_metrics :: "metric_spec list"
  bm_baselines :: "baseline_spec list"
  bm_alpha :: rat
  bm_delta_quality :: rat
  bm_delta_cost :: rat
  bm_budget_usd :: rat

definition benchmark_manifest_json :: "platform \<Rightarrow> benchmark_manifest \<Rightarrow> json" where
  "benchmark_manifest_json pf m = (let float = (\<lambda>q. JFloat (float_repr pf q)) in JObj
    [(''manifest_name'', JStr (bm_name m)), (''version'', JStr (bm_version m)), (''dataset'', str_list (bm_dataset m)),
     (''models'', JObj (map (map_prod id JStr) (bm_models m))), (''prompts'', JObj (map (map_prod id JStr) (bm_prompts m))),
     (''sampling'', JObj (bm_sampling m)), (''price_snapshot'', JObj (map (map_prod id float) (bm_price_snapshot m))),
     (''repetitions'', JInt (bm_repetitions m)),
     (''metrics'', JList (map (\<lambda>x. JObj [(''name'', JStr (ms_name x)), (''unit'', JStr (ms_unit x)),
        (''higher_is_better'', JBool (ms_higher_is_better x))]) (bm_metrics m))),
     (''baselines'', JList (map (\<lambda>b. JObj [(''name'', JStr (bs_name b)), (''kind'', JStr (bs_kind b)),
        (''repetitions'', JInt (bs_repetitions b))]) (bm_baselines m))),
     (''alpha'', float (bm_alpha m)), (''delta_quality'', float (bm_delta_quality m)), (''delta_cost'', float (bm_delta_cost m)),
     (''budget_usd'', float (bm_budget_usd m))])"

definition benchmark_manifest_id :: "platform \<Rightarrow> benchmark_manifest \<Rightarrow> string" where
  "benchmark_manifest_id pf m = content_addressed_id pf ''bench'' (benchmark_manifest_json pf m)"

definition metric :: "string \<Rightarrow> string \<Rightarrow> bool \<Rightarrow> string \<Rightarrow> metric_spec" where
  "metric n d h u = \<lparr>ms_name = n, ms_description = d, ms_higher_is_better = h, ms_unit = u\<rparr>"

definition baseline :: "string \<Rightarrow> string \<Rightarrow> string \<Rightarrow> baseline_spec" where
  "baseline n d k = \<lparr>bs_name = n, bs_description = d, bs_kind = k, bs_fixed_seed = 0, bs_repetitions = 1\<rparr>"

definition default_p0_manifest :: "platform \<Rightarrow> benchmark_manifest" where
  "default_p0_manifest pf = \<lparr>bm_name = ''contract-review-p0-v1'', bm_version = ''0.1.0'', bm_dataset = [''ctr-001'', ''ctr-002'', ''ctr-003''],
     bm_models = [(''local'', ''deterministic-extractor-v1''), (''public'', ''demo-openai-compat''), (''a2a'', ''in-repo-a2a-reference-v1'')],
     bm_prompts = [(''public-research'', ''You are a public research assistant. You may only answer using the '' @
        ''facts provided. Do not invent details. Respond in JSON matching the '' @ ''requested schema.'')],
     bm_sampling = [(''temperature'', JFloat (float_repr pf 0)), (''max_tokens'', JInt 256), (''top_p'', JFloat (float_repr pf 1))],
     bm_price_snapshot = [(''local'', 0), (''public'', 2 / 1000), (''a2a'', 1 / 1000), (''sink'', 0)],
     bm_repetitions = 1,
     bm_metrics = [metric ''structured_fact_accuracy'' ''fraction of expected contract facts'' True ''%'',
        metric ''public_research_completeness'' ''fraction of expected public fields'' True ''%'',
        metric ''estimated_cost_usd'' ''cumulative cost in USD'' False ''usd'', metric ''p50_latency_ms'' ''median latency'' False ''ms'',
        metric ''p95_latency_ms'' ''p95 latency'' False ''ms'', metric ''egress_bytes'' ''bytes leaving the tenant'' False ''bytes'',
        metric ''human_interventions'' ''human-in-the-loop count'' False ''count''],
     bm_baselines = [baseline ''all-local'' ''all processing on local model + merge'' ''all-local'',
        baseline ''all-public'' ''all processing on public model (no contract text)'' ''all-public'',
        baseline ''hybrid'' ''full Orchestra contract-review'' ''hybrid''],
     bm_alpha = 5 / 100, bm_delta_quality = 5 / 100, bm_delta_cost = 10 / 100, bm_budget_usd = 5\<rparr>"

subsection \<open>The ground truth\<close>

text \<open>A text given by its code points, as UTF-8; two values are in Chinese.\<close>

definition encode_point :: "nat \<Rightarrow> string" where
  "encode_point n = (if n < 128 then [char_of n]
     else if n < 2048 then [char_of (192 + n div 64), char_of (128 + n mod 64)]
     else [char_of (224 + n div 4096), char_of (128 + n div 64 mod 64), char_of (128 + n mod 64)])"

definition in_points :: "nat list \<Rightarrow> string" where "in_points ns = concat (map encode_point ns)"

definition contract_facts :: "(string, (string \<times> string) list) dict" where
  "contract_facts =
    [(''ctr-001'', [(''vendor_name'', ''Acme Cloud Logistics Co., Ltd.''), (''buyer_name'', ''Helios Procurement Group''),
        (''contract_amount'', ''8,600,000''), (''payment_terms'', ''Net 30''), (''jurisdiction'', ''Hong Kong'')]),
     (''ctr-002'', [(''vendor_name'', ''Helios Industrial Group''), (''buyer_name'', ''Stellar Manufacturing Ltd.''),
        (''contract_amount'', ''4,200,000''), (''payment_terms'', ''Net 45''), (''jurisdiction'', ''Singapore'')]),
     (''ctr-003'', [(''vendor_name'', ''Acme Cloud Logistics Co., Ltd.''),
        (''buyer_name'', in_points [20869, 37096, 21019, 26032, 19994, 21153, 37096]),
        (''contract_amount'', ''380,000''), (''payment_terms'', ''Net 15''), (''jurisdiction'', in_points [20013, 22269, 22823, 38470])])]"

definition public_fields :: "string list" where
  "public_fields = [''vendor_id'', ''vendor_name'', ''jurisdiction'', ''regulatory_actions'']"

definition ground_truth :: "string \<Rightarrow> exn + (string \<times> string) list" where
  "ground_truth cid = (case dget contract_facts cid of None \<Rightarrow> Inl (KeyExn cid) | Some fs \<Rightarrow> Inr fs)"

subsection \<open>Rows\<close>

text \<open>What a baseline reports of a contract; the fields only some baselines have are in \<open>bw_body\<close>.\<close>

record bench_row =
  bw_contract_id :: string
  bw_body :: payload
  bw_egress_bytes :: int
  bw_human_interventions :: int
  bw_latency_ms :: int
  bw_cost_usd :: rat

definition all_local_row :: "textlib \<Rightarrow> string \<Rightarrow> payload \<Rightarrow> exn + bench_row" where
  "all_local_row tx cid outputs =
     bindS (subscript (JObj outputs) ''facts'') (\<lambda>facts.
     bindS (deterministic_merge tx [(''facts'', facts), (''research'', JObj [])]) (\<lambda>merged.
     Inr \<lparr>bw_contract_id = cid, bw_body = [(''facts'', facts), (''merged'', JObj merged)], bw_egress_bytes = 0,
          bw_human_interventions = 0, bw_latency_ms = 0, bw_cost_usd = 0\<rparr>))"

definition sent_bytes :: "string \<Rightarrow> int" where
  "sent_bytes vendor = int (length (plain_dumps (JObj [(''vendor_id'', JStr vendor)])))"

definition all_public_row :: "string \<Rightarrow> string \<Rightarrow> int \<Rightarrow> payload \<Rightarrow> exn + bench_row" where
  "all_public_row cid vendor latency outputs =
     (let research = dget_default outputs ''research'' (JObj []) in
      bindS (py_get research ''public_summary'' (JObj [])) (\<lambda>ps. bindS (py_get ps ''vendor_name'' (JStr ''?'')) (\<lambda>vname.
      Inr \<lparr>bw_contract_id = cid, bw_body = [(''facts'', JObj []), (''research'', research), (''merged'', JObj [(''summary'', vname)])],
           bw_egress_bytes = sent_bytes vendor, bw_human_interventions = 0, bw_latency_ms = latency, bw_cost_usd = 2 / 1000\<rparr>)))"

definition estimate_egress :: int where "estimate_egress = 256"

definition hybrid_row :: "string \<Rightarrow> payload \<Rightarrow> bench_row" where
  "hybrid_row cid node_results = \<lparr>bw_contract_id = cid, bw_body = [(''node_results'', JObj node_results)],
     bw_egress_bytes = estimate_egress, bw_human_interventions = 1, bw_latency_ms = 0, bw_cost_usd = 2 / 1000 + 1 / 1000\<rparr>"

subsection \<open>Scores\<close>

definition body_or :: "bench_row \<Rightarrow> string \<Rightarrow> json" where
  "body_or r k = py_or (dget_default (bw_body r) k JNull) (JObj [])"

definition extract_facts :: "bench_row \<Rightarrow> exn + json" where
  "extract_facts r = (let nr = body_or r ''node_results'' in
     if py_in ''extract_facts_local'' nr
     then bindS (subscript nr ''extract_facts_local'') (\<lambda>x. bindS (py_get x ''facts'' (JObj [])) (\<lambda>f. Inr (py_or f (JObj []))))
     else Inr (body_or r ''facts''))"

text \<open>The first of the three places that is there, whatever it holds.\<close>

definition summary_in :: "json \<Rightarrow> exn + json" where
  "summary_in j = bindS (py_get j ''public_summary'' (JObj [])) (\<lambda>s. Inr (py_or s (JObj [])))"

definition extract_research :: "bench_row \<Rightarrow> exn + json" where
  "extract_research r = (let nr = body_or r ''node_results'' in
     case (if py_in ''merge'' nr then jget nr ''merge'' else None) of
       Some (JObj d) \<Rightarrow> summary_in (JObj d)
     | _ \<Rightarrow> (case dget (bw_body r) ''merged'' of
         Some (JObj d) \<Rightarrow> summary_in (JObj d)
       | _ \<Rightarrow> (case dget (bw_body r) ''research'' of Some (JObj d) \<Rightarrow> summary_in (JObj d) | _ \<Rightarrow> Inr (JObj []))))"

definition fact_matches :: "textlib \<Rightarrow> json \<Rightarrow> string \<times> string \<Rightarrow> bool" where
  "fact_matches tx got = (\<lambda>(k, v). let actual = jget_or got k (JStr []); a = lower_text (text_of tx actual); b = lower_text v in
     truthy actual \<and> (contains b a \<or> contains a b))"

definition structured_fact_accuracy :: "textlib \<Rightarrow> bench_row \<Rightarrow> exn + rat" where
  "structured_fact_accuracy tx r =
     bindS (ground_truth (bw_contract_id r)) (\<lambda>expected. bindS (extract_facts r) (\<lambda>got.
     if \<not> is_obj got then Inl (AttributeExn got ''get'')
     else Inr (of_nat (length (filter (fact_matches tx got) expected)) / of_nat (length expected))))"

definition public_research_completeness :: "bench_row \<Rightarrow> exn + rat" where
  "public_research_completeness r =
     bindS (ground_truth (bw_contract_id r)) (\<lambda>_. bindS (extract_research r) (\<lambda>found.
     bindS (if \<not> truthy found \<and> py_in ''a2a_artefact'' (body_or r ''research'')
            then bindS (subscript (JObj (bw_body r)) ''research'') (\<lambda>x. subscript x ''a2a_artefact'') else Inr found) (\<lambda>research.
     Inr (of_nat (length (filter (\<lambda>f. py_in f research) public_fields)) / of_nat (length public_fields)))))"

subsection \<open>Metrics\<close>

record bench_metrics =
  bx_accuracy :: rat
  bx_completeness :: rat
  bx_cost :: rat
  bx_p50 :: int
  bx_p95 :: int
  bx_egress :: int
  bx_humans :: rat

text \<open>\<open>round(x, n)\<close>: to the nearest, ties to the even digit.\<close>

definition py_round :: "nat \<Rightarrow> rat \<Rightarrow> rat" where
  "py_round n x = (let y = x * 10 ^ n; f = \<lfloor>y\<rfloor>; d = y - of_int f in
     of_int (if d < 1 / 2 \<or> d = 1 / 2 \<and> even f then f else f + 1) / 10 ^ n)"

definition mean :: "rat list \<Rightarrow> rat" where "mean xs = sum_list xs / of_nat (length xs)"

definition p50_latency :: "int list \<Rightarrow> int" where
  "p50_latency xs = (let l = sort xs in if l = [] then 0 else l ! (length l div 2))"

definition p95_latency :: "int list \<Rightarrow> int" where
  "p95_latency xs = (let l = sort xs in if l = [] then 0 else l ! (95 * length l div 100 - 1))"

definition sequenceS :: "('e + 'a) list \<Rightarrow> 'e + 'a list" where
  "sequenceS xs = foldr (\<lambda>x acc. bindS x (\<lambda>a. bindS acc (\<lambda>as. Inr (a # as)))) xs (Inr [])"

datatype bench_exn = BenchExn exn | ZeroDivision

definition aggregate_metrics :: "textlib \<Rightarrow> bench_row list \<Rightarrow> bench_exn + bench_metrics" where
  "aggregate_metrics tx rows =
     (case sequenceS (map (structured_fact_accuracy tx) rows) of Inl e \<Rightarrow> Inl (BenchExn e)
      | Inr acc \<Rightarrow> if rows = [] then Inl ZeroDivision else
        case sequenceS (map public_research_completeness rows) of Inl e \<Rightarrow> Inl (BenchExn e)
      | Inr cs \<Rightarrow> Inr \<lparr>bx_accuracy = py_round 3 (mean acc), bx_completeness = py_round 3 (mean cs),
          bx_cost = py_round 4 (mean (map bw_cost_usd rows)), bx_p50 = p50_latency (map bw_latency_ms rows),
          bx_p95 = p95_latency (map bw_latency_ms rows),
          bx_egress = truncate_rat (mean (map (of_int \<circ> bw_egress_bytes) rows)),
          bx_humans = py_round 1 (mean (map (of_int \<circ> bw_human_interventions) rows))\<rparr>)"

subsection \<open>The verdict\<close>

definition higher :: "(bench_metrics \<Rightarrow> rat) list" where "higher = [bx_accuracy, bx_completeness]"
definition lower :: "(bench_metrics \<Rightarrow> rat) list" where "lower = [bx_cost, of_int \<circ> bx_egress, bx_humans]"

text \<open>The loops of \<open>_dominates\<close>: no worse anywhere, and better somewhere.\<close>

fun no_worse :: "(bench_metrics \<Rightarrow> rat) list \<Rightarrow> (rat \<Rightarrow> rat \<Rightarrow> bool) \<Rightarrow> bench_metrics \<Rightarrow> bench_metrics \<Rightarrow> bool \<Rightarrow> bool option" where
  "no_worse [] better a b found = Some found"
| "no_worse (k # ks) better a b found =
     (if better (k b) (k a) then None else no_worse ks better a b (found \<or> better (k a) (k b)))"

definition dominates :: "bench_metrics \<Rightarrow> bench_metrics \<Rightarrow> bool" where
  "dominates a b = (case no_worse higher (>) a b False of None \<Rightarrow> False
     | Some found \<Rightarrow> (case no_worse lower (<) a b found of None \<Rightarrow> False | Some found' \<Rightarrow> found'))"

record pareto_verdict =
  pv_not_dominated :: bool
  pv_dominated_by_local :: bool
  pv_dominated_by_public :: bool
  pv_quality_exposure :: bool
  pv_quality_cost :: bool

definition verdict :: "bench_metrics \<Rightarrow> bench_metrics \<Rightarrow> bench_metrics \<Rightarrow> pareto_verdict" where
  "verdict local public hybrid =
     \<lparr>pv_not_dominated = (\<not> (dominates local hybrid \<and> dominates public hybrid)),
      pv_dominated_by_local = dominates local hybrid, pv_dominated_by_public = dominates public hybrid,
      pv_quality_exposure = (bx_completeness hybrid > bx_completeness local),
      pv_quality_cost = (bx_accuracy hybrid + bx_completeness hybrid > bx_accuracy local + bx_completeness local)\<rparr>"

definition benchmark :: "textlib \<Rightarrow> bench_row list \<Rightarrow> bench_row list \<Rightarrow> bench_row list \<Rightarrow>
    bench_exn + (bench_metrics \<times> bench_metrics \<times> bench_metrics \<times> pareto_verdict)" where
  "benchmark tx local public hybrid =
     bindS (aggregate_metrics tx local) (\<lambda>l. bindS (aggregate_metrics tx public) (\<lambda>p. bindS (aggregate_metrics tx hybrid) (\<lambda>h.
     Inr (l, p, h, verdict l p h))))"

subsection \<open>What domination is\<close>

lemma no_worse_iff:
  assumes "\<And>x y. better x y \<longleftrightarrow> x > y"
  shows "no_worse ks better a b found = (if \<forall>k \<in> set ks. k b \<le> k a then Some (found \<or> (\<exists>k \<in> set ks. k b < k a)) else None)"
  by (induction ks arbitrary: found) (auto simp: assms not_less)

lemma no_worse_iff':
  assumes "\<And>x y. better x y \<longleftrightarrow> x < y"
  shows "no_worse ks better a b found = (if \<forall>k \<in> set ks. k a \<le> k b then Some (found \<or> (\<exists>k \<in> set ks. k a < k b)) else None)"
  by (induction ks arbitrary: found) (auto simp: assms not_less)

lemma dominates_iff:
  "dominates a b \<longleftrightarrow> bx_accuracy b \<le> bx_accuracy a \<and> bx_completeness b \<le> bx_completeness a \<and>
     bx_cost a \<le> bx_cost b \<and> bx_egress a \<le> bx_egress b \<and> bx_humans a \<le> bx_humans b \<and>
     (bx_accuracy b < bx_accuracy a \<or> bx_completeness b < bx_completeness a \<or> bx_cost a < bx_cost b \<or>
      bx_egress a < bx_egress b \<or> bx_humans a < bx_humans b)"
  by (auto simp: dominates_def no_worse_iff [of "(>)"] no_worse_iff' [of "(<)"] higher_def lower_def)

lemma dominates_order: "\<not> dominates a a" "dominates a b \<Longrightarrow> dominates b c \<Longrightarrow> dominates a c"
  by (auto simp: dominates_iff)

subsection \<open>The public baseline\<close>

definition of_public :: "bench_row \<Rightarrow> bool" where
  "of_public r \<longleftrightarrow> (\<exists>cid vendor latency outputs. all_public_row cid vendor latency outputs = Inr r \<and>
     jget (dget_default outputs ''research'' (JObj [])) ''a2a_artefact'' = None)"

lemma py_get_obj: "py_get j k v = Inr x \<Longrightarrow> \<exists>d. j = JObj d"
  by (cases j) (auto simp: py_get_def)

lemma public_row_scores:
  assumes "of_public r" "public_research_completeness r = Inr q" "structured_fact_accuracy tx r = Inr p"
  shows "q = 0 \<and> p = 0"
proof -
  obtain cid vendor latency outputs where row: "all_public_row cid vendor latency outputs = Inr r"
    and none: "jget (dget_default outputs ''research'' (JObj [])) ''a2a_artefact'' = None"
    using assms(1) by (auto simp: of_public_def)
  obtain d vname where research: "dget_default outputs ''research'' (JObj []) = JObj d"
    and body: "bw_body r = [(''facts'', JObj []), (''research'', JObj d), (''merged'', JObj [(''summary'', vname)])]"
    using row by (auto simp: all_public_row_def Let_def bindS_def split: sum.splits dest!: py_get_obj)
  have none': "dget d ''a2a_artefact'' = None" using none research by simp
  have "py_in ''a2a_artefact'' (body_or r ''research'') \<longleftrightarrow> False"
    using none' by (auto simp: body_or_def body dget_default_def py_or_def dget_None_iff)
  moreover have "extract_research r = Inr (JObj [])"
    by (simp add: extract_research_def body_or_def body dget_default_def py_or_def summary_in_def py_get_def bindS_def Let_def)
  ultimately have "q = 0"
    using assms(2) by (auto simp: public_research_completeness_def bindS_def split: sum.splits)
  moreover have "extract_facts r = Inr (JObj [])"
    by (simp add: extract_facts_def body_or_def body dget_default_def py_or_def Let_def)
  then have "p = 0"
    using assms(3) by (auto simp: structured_fact_accuracy_def bindS_def fact_matches_def dget_default_def Let_def split: sum.splits)
  ultimately show ?thesis by simp
qed

subsection \<open>Aggregates\<close>

lemma sequenceS_Cons: "sequenceS (x # xs) = bindS x (\<lambda>a. bindS (sequenceS xs) (\<lambda>as. Inr (a # as)))"
  by (simp add: sequenceS_def)

lemma sequenceS_Inr: "sequenceS xs = Inr ys \<longleftrightarrow> xs = map Inr ys"
proof (induction xs arbitrary: ys)
  case (Cons x xs)
  have "sequenceS (x # xs) = Inr ys \<longleftrightarrow> (\<exists>a as. x = Inr a \<and> sequenceS xs = Inr as \<and> ys = a # as)"
    by (cases x; cases "sequenceS xs") (auto simp: sequenceS_Cons bindS_def)
  also have "\<dots> \<longleftrightarrow> (\<exists>a as. x = Inr a \<and> xs = map Inr as \<and> ys = a # as)" by (simp only: Cons.IH)
  also have "\<dots> \<longleftrightarrow> x # xs = map Inr ys" by (cases ys) auto
  finally show ?case .
qed (auto simp: sequenceS_def)

lemma mean_const: "xs \<noteq> [] \<Longrightarrow> (\<And>x. x \<in> set xs \<Longrightarrow> x = c) \<Longrightarrow> mean xs = c"
proof -
  assume "xs \<noteq> []" "\<And>x. x \<in> set xs \<Longrightarrow> x = c"
  moreover from this(2) have "sum_list xs = of_nat (length xs) * c" by (induction xs) (auto simp: algebra_simps)
  ultimately show ?thesis by (simp add: mean_def)
qed

lemma mean_bounds:
  assumes "xs \<noteq> []" "\<And>x. x \<in> set xs \<Longrightarrow> lo \<le> x \<and> x \<le> hi"
  shows "lo \<le> mean xs" "mean xs \<le> hi"
proof -
  have "of_nat (length xs) * lo \<le> sum_list xs \<and> sum_list xs \<le> of_nat (length xs) * hi"
    using assms(2) by (induction xs) (auto simp: algebra_simps add_mono)
  with assms(1) show "lo \<le> mean xs" "mean xs \<le> hi" by (auto simp: mean_def field_simps)
qed

lemma py_round_nonneg: "0 \<le> x \<Longrightarrow> 0 \<le> py_round n x"
  by (auto simp: py_round_def Let_def)

lemma py_round_zero: "py_round n 0 = 0"
  by (simp add: py_round_def)

lemma aggregate_nonneg:
  assumes "aggregate_metrics tx rows = Inr m"
  shows "0 \<le> bx_accuracy m" "0 \<le> bx_completeness m"
proof -
  have rows: "rows \<noteq> []" using assms by (auto simp: aggregate_metrics_def split: sum.splits if_splits)
  obtain acc cs where scores: "map (structured_fact_accuracy tx) rows = map Inr acc" "map public_research_completeness rows = map Inr cs"
    and m: "bx_accuracy m = py_round 3 (mean acc)" "bx_completeness m = py_round 3 (mean cs)"
    using assms by (auto simp: aggregate_metrics_def sequenceS_Inr split: sum.splits if_splits)
  have pos: "0 \<le> x" if "x \<in> set acc" for x
  proof -
    have "Inr x \<in> set (map (structured_fact_accuracy tx) rows)" using that scores(1) by auto
    then show ?thesis by (auto simp: structured_fact_accuracy_def bindS_def split: sum.splits if_splits)
  qed
  have pos': "0 \<le> x" if "x \<in> set cs" for x
  proof -
    have "Inr x \<in> set (map public_research_completeness rows)" using that scores(2) by auto
    then show ?thesis by (auto simp: public_research_completeness_def bindS_def Let_def split: sum.splits if_splits)
  qed
  have "0 \<le> sum_list acc" "0 \<le> sum_list cs" using pos pos' by (simp_all add: sum_list_nonneg)
  then show "0 \<le> bx_accuracy m" "0 \<le> bx_completeness m" unfolding m by (simp_all add: py_round_nonneg mean_def)
qed

lemma aggregate_public:
  assumes "aggregate_metrics tx rows = Inr m" "\<And>r. r \<in> set rows \<Longrightarrow> of_public r"
  shows "bx_accuracy m = 0" "bx_completeness m = 0"
proof -
  obtain acc cs where scores: "map (structured_fact_accuracy tx) rows = map Inr acc" "map public_research_completeness rows = map Inr cs"
    and rows: "rows \<noteq> []" and m: "bx_accuracy m = py_round 3 (mean acc)" "bx_completeness m = py_round 3 (mean cs)"
    using assms(1) by (auto simp: aggregate_metrics_def sequenceS_Inr split: sum.splits if_splits)
  have len: "length acc = length rows" "length cs = length rows" using scores by (metis length_map)+
  have zero: "acc ! i = 0 \<and> cs ! i = 0" if "i < length rows" for i
  proof -
    have "structured_fact_accuracy tx (rows ! i) = Inr (acc ! i)" "public_research_completeness (rows ! i) = Inr (cs ! i)"
      using scores len that by (metis nth_map)+
    with public_row_scores [of "rows ! i"] assms(2) [of "rows ! i"] that show ?thesis by auto
  qed
  have "mean acc = 0" "mean cs = 0"
    using rows len zero by (auto intro!: mean_const simp: in_set_conv_nth)
  then show "bx_accuracy m = 0" "bx_completeness m = 0" by (simp_all add: m py_round_zero)
qed

text \<open>The constants of the rows.\<close>

lemma aggregate_constants:
  assumes "aggregate_metrics tx rows = Inr m"
  shows "(\<And>r. r \<in> set rows \<Longrightarrow> bw_cost_usd r = c) \<Longrightarrow> bx_cost m = py_round 4 c"
    and "(\<And>r. r \<in> set rows \<Longrightarrow> bw_human_interventions r = h) \<Longrightarrow> bx_humans m = py_round 1 (of_int h)"
    and "(\<And>r. r \<in> set rows \<Longrightarrow> lo \<le> bw_egress_bytes r \<and> bw_egress_bytes r \<le> hi) \<Longrightarrow> 0 \<le> lo \<Longrightarrow> lo \<le> bx_egress m \<and> bx_egress m \<le> hi"
proof -
  have rows: "rows \<noteq> []" and m: "bx_cost m = py_round 4 (mean (map bw_cost_usd rows))"
    "bx_humans m = py_round 1 (mean (map (of_int \<circ> bw_human_interventions) rows))"
    "bx_egress m = truncate_rat (mean (map (of_int \<circ> bw_egress_bytes) rows))"
    using assms by (auto simp: aggregate_metrics_def split: sum.splits if_splits)
  show "bx_cost m = py_round 4 c" if "\<And>r. r \<in> set rows \<Longrightarrow> bw_cost_usd r = c"
    using mean_const [of "map bw_cost_usd rows" c] rows that by (auto simp: m)
  show "bx_humans m = py_round 1 (of_int h)" if "\<And>r. r \<in> set rows \<Longrightarrow> bw_human_interventions r = h"
  proof -
    have "mean (map (of_int \<circ> bw_human_interventions) rows) = of_int h" by (rule mean_const) (use rows that in auto)
    then show ?thesis by (simp only: m)
  qed
  show "lo \<le> bx_egress m \<and> bx_egress m \<le> hi" if between: "\<And>r. r \<in> set rows \<Longrightarrow> lo \<le> bw_egress_bytes r \<and> bw_egress_bytes r \<le> hi" "0 \<le> lo"
  proof -
    have each: "of_int lo \<le> x \<and> x \<le> of_int hi" if "x \<in> set (map (of_int \<circ> bw_egress_bytes) rows)" for x :: rat
      using that between(1) by auto
    have b1: "of_int lo \<le> mean (map (of_int \<circ> bw_egress_bytes) rows)"
      using mean_bounds(1) [of "map (of_int \<circ> bw_egress_bytes) rows" "of_int lo" "of_int hi"] rows each by blast
    have b2: "mean (map (of_int \<circ> bw_egress_bytes) rows) \<le> of_int hi"
      using mean_bounds(2) [of "map (of_int \<circ> bw_egress_bytes) rows" "of_int lo" "of_int hi"] rows each by blast
    note b = b1 b2
    have "(0::rat) \<le> of_int lo" using between(2) by simp
    with b have "0 \<le> mean (map (of_int \<circ> bw_egress_bytes) rows)" by linarith
    with b show ?thesis unfolding m(3) truncate_rat_def by (simp add: le_floor_iff floor_le_iff)
  qed
qed

subsection \<open>What the verdict says\<close>

lemma estimated_costs: "py_round 4 0 = 0" "py_round 4 (2 / 1000) = 2 / 1000" "py_round 4 (2 / 1000 + 1 / 1000) = 3 / 1000"
  "py_round 1 0 = 0" "py_round 1 1 = 1"
  by (simp_all add: py_round_def Let_def)

lemmas estimates = estimated_costs estimated_costs(2,3) [simplified] estimated_costs(4,5) [unfolded One_nat_def]

lemma all_local_rowE:
  assumes "all_local_row tx cid outputs = Inr r"
  shows "bw_egress_bytes r = 0" "bw_human_interventions r = 0" "bw_cost_usd r = 0"
  using assms by (auto simp: all_local_row_def bindS_def split: sum.splits)

lemma all_public_rowE:
  assumes "all_public_row cid vendor latency outputs = Inr r"
  shows "bw_egress_bytes r = sent_bytes vendor" "bw_human_interventions r = 0" "bw_cost_usd r = 2 / 1000"
  using assms by (auto simp: all_public_row_def Let_def bindS_def split: sum.splits)

text \<open>
  C36. The benchmark's headline is that the hybrid run is not dominated by both single-environment
  baselines. Over rows the three runners build (the all-public calls answered with no artefact, and
  sending at most 256 bytes) the costs, the bytes and the interventions are constants and the public
  baseline scores zero, so the headline holds exactly when the hybrid run scores anything above
  zero: it does not depend on the local baseline at all.
\<close>

theorem verdict_ignores_local:
  assumes ran: "benchmark tx local public hybrid = Inr (l, p, h, v)"
    and local_rows: "\<And>r. r \<in> set local \<Longrightarrow> \<exists>cid outputs. all_local_row tx cid outputs = Inr r"
    and public_rows: "\<And>r. r \<in> set public \<Longrightarrow> of_public r \<and> bw_egress_bytes r \<le> estimate_egress"
    and hybrid_rows: "\<And>r. r \<in> set hybrid \<Longrightarrow> \<exists>cid results. r = hybrid_row cid results"
  shows "pv_not_dominated v \<longleftrightarrow> 0 < bx_accuracy h \<or> 0 < bx_completeness h"
proof -
  have l: "aggregate_metrics tx local = Inr l" and p: "aggregate_metrics tx public = Inr p"
    and h: "aggregate_metrics tx hybrid = Inr h" and v: "v = verdict l p h"
    using ran by (auto simp: benchmark_def bindS_def split: sum.splits)
  have L: "bw_cost_usd r = 0 \<and> bw_human_interventions r = 0 \<and> 0 \<le> bw_egress_bytes r \<and> bw_egress_bytes r \<le> 0"
    if "r \<in> set local" for r using local_rows [OF that] by (auto dest: all_local_rowE)
  have P: "bw_cost_usd r = 2 / 1000 \<and> bw_human_interventions r = 0 \<and> 0 \<le> bw_egress_bytes r \<and> bw_egress_bytes r \<le> 256"
    if "r \<in> set public" for r
    using public_rows [OF that] by (auto simp: of_public_def estimate_egress_def sent_bytes_def dest: all_public_rowE)
  have H: "bw_cost_usd r = 2 / 1000 + 1 / 1000 \<and> bw_human_interventions r = 1 \<and> 256 \<le> bw_egress_bytes r \<and> bw_egress_bytes r \<le> 256"
    if "r \<in> set hybrid" for r using hybrid_rows [OF that] by (auto simp: hybrid_row_def estimate_egress_def)
  have "bx_cost l = 0" "bx_humans l = 0" "bx_egress l = 0"
    using aggregate_constants(1) [OF l, of 0] aggregate_constants(2) [OF l, of 0] aggregate_constants(3) [OF l, of 0 0] L
    by (auto simp: estimates)
  moreover have "bx_cost p = 2 / 1000" "bx_humans p = 0" "bx_egress p \<le> 256"
    using aggregate_constants(1) [OF p, of "2 / 1000"] aggregate_constants(2) [OF p, of 0] aggregate_constants(3) [OF p, of 0 256] P
    by (auto simp: estimates)
  moreover have "bx_cost h = 3 / 1000" "bx_humans h = 1" "bx_egress h = 256"
    using aggregate_constants(1) [OF h, of "2 / 1000 + 1 / 1000"] aggregate_constants(2) [OF h, of 1]
      aggregate_constants(3) [OF h, of 256 256] H by (auto simp: estimates)
  moreover have "bx_accuracy p = 0" "bx_completeness p = 0" using aggregate_public [OF p] public_rows by auto
  ultimately show ?thesis
    using aggregate_nonneg [OF l] aggregate_nonneg [OF h] by (auto simp: v verdict_def dominates_iff)
qed

definition ex_local_row :: bench_row where
  "ex_local_row = projr (all_local_row ex_textlib ''ctr-002'' [(''facts'', JObj [])])"

definition ex_public_outputs :: payload where
  "ex_public_outputs = [(''research'', JObj [(''public_summary'', JObj [(''vendor_name'', JStr ''H'')])])]"

definition ex_public_row :: bench_row where
  "ex_public_row = projr (all_public_row ''ctr-002'' ''v'' 7 ex_public_outputs)"

definition ex_hybrid_results :: payload where
  "ex_hybrid_results = [(''merge'', JObj [(''public_summary'', JObj [(''vendor_id'', JStr ''v''), (''jurisdiction'', JStr ''S'')])])]"

definition ex_hybrid_row :: bench_row where
  "ex_hybrid_row = hybrid_row ''ctr-002'' ex_hybrid_results"

lemma ex_rows:
  "\<not> isl (all_local_row ex_textlib ''ctr-002'' [(''facts'', JObj [])])"
  "\<not> isl (all_public_row ''ctr-002'' ''v'' 7 ex_public_outputs)"
  "bw_egress_bytes ex_public_row \<le> estimate_egress"
  by code_simp+

lemma no_facts_score:
  assumes "extract_facts r = Inr (JObj [])" "dget contract_facts (bw_contract_id r) \<noteq> None"
  shows "structured_fact_accuracy tx r = Inr 0"
  using assms by (auto simp: structured_fact_accuracy_def ground_truth_def bindS_def fact_matches_def Let_def dget_default_def)

lemma ctr_002_known: "dget contract_facts ''ctr-002'' \<noteq> None"
  by (simp add: contract_facts_def)

lemma ex_bodies:
  "bw_contract_id ex_local_row = ''ctr-002''" "bw_contract_id ex_public_row = ''ctr-002''"
  "bw_contract_id ex_hybrid_row = ''ctr-002''" "py_in ''a2a_artefact'' (body_or ex_hybrid_row ''research'') = False"
  "extract_facts ex_local_row = Inr (JObj [])" "extract_facts ex_public_row = Inr (JObj [])"
  "extract_facts ex_hybrid_row = Inr (JObj [])"
  "extract_research ex_local_row = Inr (JObj [])" "extract_research ex_public_row = Inr (JObj [])"
  "extract_research ex_hybrid_row = Inr (JObj [(''vendor_id'', JStr ''v''), (''jurisdiction'', JStr ''S'')])"
  "py_in ''a2a_artefact'' (body_or ex_local_row ''research'') = False" "py_in ''a2a_artefact'' (body_or ex_public_row ''research'') = False"
  by code_simp+

lemma ex_completeness:
  "public_research_completeness ex_local_row = Inr 0" "public_research_completeness ex_public_row = Inr 0"
  "public_research_completeness ex_hybrid_row = Inr (1 / 2)"
  using ctr_002_known
  by (auto simp: public_research_completeness_def ground_truth_def ex_bodies bindS_def public_fields_def)

lemma ex_benchmark:
  "\<exists>l p h v. benchmark ex_textlib [ex_local_row] [ex_public_row] [ex_hybrid_row] = Inr (l, p, h, v) \<and> bx_completeness h = 1 / 2"
proof -
  have "structured_fact_accuracy ex_textlib r = Inr 0" if "r \<in> {ex_local_row, ex_public_row, ex_hybrid_row}" for r
    using that ctr_002_known by (auto intro!: no_facts_score simp: ex_bodies)
  then show ?thesis
    by (simp add: benchmark_def aggregate_metrics_def sequenceS_Cons sequenceS_def ex_completeness bindS_def mean_def py_round_def Let_def)
qed

theorem verdict_ignores_local_witness:
  "\<exists>l p h v. benchmark ex_textlib [ex_local_row] [ex_public_row] [ex_hybrid_row] = Inr (l, p, h, v) \<and> pv_not_dominated v"
proof -
  obtain l p h v where ran: "benchmark ex_textlib [ex_local_row] [ex_public_row] [ex_hybrid_row] = Inr (l, p, h, v)"
    and half: "bx_completeness h = 1 / 2" using ex_benchmark by blast
  have rows: "all_local_row ex_textlib ''ctr-002'' [(''facts'', JObj [])] = Inr ex_local_row"
    "all_public_row ''ctr-002'' ''v'' 7 ex_public_outputs = Inr ex_public_row"
    using ex_rows(1,2) by (simp_all add: ex_local_row_def ex_public_row_def)
  have "jget (dget_default ex_public_outputs ''research'' (JObj [])) ''a2a_artefact'' = None" by code_simp
  with rows(2) have "of_public ex_public_row" by (auto simp: of_public_def)
  with rows ex_rows(3) have "pv_not_dominated v \<longleftrightarrow> 0 < bx_accuracy h \<or> 0 < bx_completeness h"
    by (intro verdict_ignores_local [OF ran]) (auto simp: ex_hybrid_row_def)
  with half ran show ?thesis by auto
qed

end
