(* ===== verification/Spec2Isabelle.thy ===== *)
theory Spec2Isabelle
  imports Merkle Checkers Registry Runtime Signing EventStore Streaming Egress RunExample BreakGlass Lifecycle
    Tenants Artifacts Publishing Readiness Observability Ops CatalogApi Sdk Bridges Opa Benchmarks
begin

text \<open>
  Orchestra: a verification library for the orchestration control plane under \<open>src/orchestra\<close>.

  \<^bold>\<open>The program.\<close> A caller submits a purpose and a capability graph. The trust compiler parses and
  checks the graph; the resolver binds each node to a registered capability the policy allows; the
  coordinator runs the plan: it grants each node credentials, projects the inputs that leave the
  zone, calls the adapter, records events and receipts in the event store, and stops at an approval
  gate before a write sink. Around it stand services over the same tables (break-glass, retention
  and legal holds, tenants), the publishing surface (signed cards, ingress, kill switch, release
  gate), webhooks, the event bus, the evidence log with its offline verification, and runtime
  primitives (state machines, fencing, outbox, reconciler, rate limits, credential broker).

  \<^bold>\<open>Theories and sources.\<close>
  \<^item> Prelude: dictionaries as association lists in insertion order (Python's \<open>dict\<close>), bounded deques,
    stable sorting. Effects: actions over a state with errors as values, and the locales of what an
    action keeps or returns. Services: the world of an enterprise service (database, counters for
    fresh ids and clock readings).
  \<^item> Json: JSON values, \<open>json.dumps\<close> with sorted keys, digests (\<open>core/ids.py\<close>, \<open>core/hashing.py\<close>).
  \<^item> Labels, Schema: the vocabulary of \<open>core/schema.py\<close>.
  \<^item> Merkle: \<open>evidence/merkle.py\<close>. Signing: HMAC envelopes, plan signatures, node grants, receipts
    (\<open>compiler/plan_signer.py\<close>, \<open>coordinator/node_grant.py\<close>, \<open>coordinator/receipt.py\<close>,
    \<open>evidence/cli.py\<close>) and the credential broker's tokens.
  \<^item> Graph: parser and normalizer. Checkers: the type, flow, effect and delegation checkers, the
    compile pipeline, the binding closure (\<open>compiler/\<close>). Registry: manifest store, eligible sets,
    policy, router, resolver with amendment (\<open>registry/\<close>, \<open>compiler/resolver.py\<close>).
  \<^item> Runtime: \<open>runtime/\<close>. Streaming: \<open>streaming/event_bus.py\<close>. Egress: \<open>xfr/\<close>.
  \<^item> EventStore: every method of \<open>coordinator/event_store.py\<close> over the tables as lists of rows; a
    method is one transaction, its result a new database or an error that leaves the old one.
  \<^item> Template, Coordinator, Engine, Gate: \<open>templates/contract_review.py\<close>, \<open>adapters/base.py\<close>,
    \<open>coordinator/engine.py\<close> and \<open>enterprise/approval.py\<close>: planning, node execution, the whole run,
    the approval gate and what it waits for. RunExample evaluates a whole run.
  \<^item> BreakGlass, Lifecycle, Tenants: \<open>enterprise/break_glass.py\<close>, \<open>lifecycle.py\<close>, \<open>tenant.py\<close>,
    \<open>isolation.py\<close>. Webhooks: \<open>webhooks/\<close> and the handlers of \<open>api/app.py\<close> that deliver and retry.
    Artifacts: \<open>artifact/store.py\<close>. Publishing: \<open>publishing/\<close>.

  \<^bold>\<open>How state and operations correspond.\<close> A class is a record of its fields and a method a function
  that takes and returns it; an exception is a value of an error datatype, and every early return
  and raise is a branch. Strings are UTF-8 byte lists, Python's integers are \<open>int\<close>, instants
  milliseconds or rationals. Reading the clock, drawing an id or a key is an argument or a function
  of the environment indexed by a counter in the state.

  \<^bold>\<open>What the lemmas show.\<close> For the compiler: a graph compiles exactly if it is well-formed, acyclic,
  flow-respecting, gated and purpose-bound. For the run: no write sink without an approval, calls
  granted and projected, receipts that verify, a gapless timeline and a task state that is the
  reported one. For stores and services: invariants over all sequences of operations (approval
  counts, break-glass windows and effect ceilings, deletion jobs, registry of cards), isolation of
  tenants, decisions characterised on every branch. For data: round trips of signatures, tokens,
  inclusion proofs and evidence. Bounds: token buckets and break-glass windows. Where the code falls
  short of its own documentation the theorem states what it does do.

  \<^bold>\<open>Interfaces.\<close> The locales state what clients rely on: signature schemes (interpreted on HMAC),
  the orders an action keeps (interpreted per table group, so that each service inherits the
  sequencing lemmas), the store and transition tables. Each is interpreted on the model's own
  definitions.

  \<^bold>\<open>Bounds and fuel.\<close> Event-bus queues hold 512 and replays 256 events, deliveries are tried three
  times, delivery history keeps 16 per task, deletion jobs fail at most three times: the constants of
  the code. The approval gate polls in a loop that may not end; its waiting is a partial function
  whose value is \<open>None\<close> if it never returns. The topological sort and every other loop are total.

  \<^bold>\<open>Parameters.\<close> SHA-256 and HMAC (no property beyond what a theorem names), the HTTP client,
  \<open>json.loads\<close>, the adapters of capabilities and of deletion, the clock and the id generator.

  \<^bold>\<open>Not modelled.\<close> The HTTP routes, console, command line and SDK: glue over the services above and
  behaviour of their frameworks. Metrics hooks inside services, which only count. Logging. The
  connection handling of the database and its outages. The sharing of one payload object between an
  event and a decision after it was written. Benchmarks and the bridges to other products.
\<close>

end
